(* ===== verification/Prelude.thy ===== *)
theory Prelude
  imports Main "HOL-Library.Word"
begin

text \<open>
  Shared vocabulary of the development: machine words and byte lists, the masks the C++
  sources apply to them, the big-endian and little-endian two-byte conversions, the
  pointer-and-size arguments of the public functions, wrapping \<open>size_t\<close> subtraction,
  the state-and-error sequencing that stands for the pattern
  "call, test the status, return it unless it is Ok", and the interfaces (locales)
  that several components implement: a prefix codec, an incremental stream scanner and a
  decoder built on it.
\<close>

unbundle bit_operations_syntax

subsection \<open>Words, bytes and the collections of rewrite rules\<close>

type_synonym u8 = "8 word"
type_synonym u16 = "16 word"
type_synonym u32 = "32 word"
type_synonym u64 = "64 word"
type_synonym bytes = "u8 list"

named_theorems mask_simps \<open>masks by a numeral, as truncations\<close>
named_theorems codec_simps \<open>unfolding rules of encoders and decoders\<close>

definition size_t_modulus :: nat where
  "size_t_modulus = 2 ^ 64"

text \<open>Subtraction on \<open>std::size_t\<close>: it wraps below zero.\<close>

definition size_sub :: "nat \<Rightarrow> nat \<Rightarrow> nat" where
  "size_sub a b = (if b \<le> a then a - b else a + size_t_modulus - b)"

text \<open>
  A \<open>const std::uint8_t*\<close> argument with its size. The null pointer keeps the size it was
  passed with, because the sources reject exactly the null pointer with a non-zero size.
\<close>

datatype view = NullView nat | View bytes

fun view_size :: "view \<Rightarrow> nat" where
  "view_size (NullView n) = n"
| "view_size (View bs) = length bs"

fun view_bytes :: "view \<Rightarrow> bytes" where
  "view_bytes (NullView n) = []"
| "view_bytes (View bs) = bs"

fun view_null :: "view \<Rightarrow> bool" where
  "view_null (NullView n) = True"
| "view_null (View bs) = False"

definition bad_view :: "view \<Rightarrow> bool" where
  "bad_view v \<longleftrightarrow> view_null v \<and> view_size v \<noteq> 0"

text \<open>A view over a \<open>std::vector\<close>: the null pointer when it is empty.\<close>

definition view_of :: "bytes \<Rightarrow> view" where
  "view_of bs = (if bs = [] then NullView 0 else View bs)"

definition be16 :: "u16 \<Rightarrow> bytes" where
  "be16 v = [ucast (drop_bit 8 v AND 0xff), ucast (v AND 0xff)]"

definition le16 :: "u16 \<Rightarrow> bytes" where
  "le16 v = [ucast (v AND 0xff), ucast (drop_bit 8 v AND 0xff)]"

definition be16_at :: "u8 \<Rightarrow> u8 \<Rightarrow> u16" where
  "be16_at hi lo = push_bit 8 (ucast hi) OR ucast lo"

text \<open>Running a stateful, fallible operation and then, if it is Ok, the next one.\<close>

definition try_then ::
    "('s \<Rightarrow> ('e + 'a) \<times> 's) \<Rightarrow> ('a \<Rightarrow> 's \<Rightarrow> ('e + 'b) \<times> 's) \<Rightarrow> 's \<Rightarrow> ('e + 'b) \<times> 's" where
  "try_then m k s = (case m s of (Inl e, s') \<Rightarrow> (Inl e, s') | (Inr a, s') \<Rightarrow> k a s')"

definition yield :: "'a \<Rightarrow> 's \<Rightarrow> ('e + 'a) \<times> 's" where
  "yield a s = (Inr a, s)"

definition refuse :: "'e \<Rightarrow> 's \<Rightarrow> ('e + 'a) \<times> 's" where
  "refuse e s = (Inl e, s)"

subsection \<open>Masks and bits\<close>

lemma and_0xff [mask_simps]: "(x :: 'a::len word) AND 0xff = take_bit 8 x"
  by (simp add: take_bit_eq_mask mask_eq_exp_minus_1)

lemma and_0x7f [mask_simps]: "(x :: 'a::len word) AND 0x7f = take_bit 7 x"
  by (simp add: take_bit_eq_mask mask_eq_exp_minus_1)

lemma and_0x7ff [mask_simps]: "(x :: 'a::len word) AND 0x7ff = take_bit 11 x"
  by (simp add: take_bit_eq_mask mask_eq_exp_minus_1)

lemma and_0x07 [mask_simps]: "(x :: 'a::len word) AND 7 = take_bit 3 x"
  by (simp add: take_bit_eq_mask mask_eq_exp_minus_1)

lemma and_0x03 [mask_simps]: "(x :: 'a::len word) AND 3 = take_bit 2 x"
  by (simp add: take_bit_eq_mask mask_eq_exp_minus_1)

lemma bit_u8_ge [simp]: "8 \<le> n \<Longrightarrow> \<not> bit (w :: u8) n"
  using bit_imp_le_length [of w n] by auto

lemma bit_u8_less: "bit (w :: u8) n \<Longrightarrow> n < 8"
  using bit_imp_le_length [of w n] by simp

lemma bit_u16_ge [simp]: "16 \<le> n \<Longrightarrow> \<not> bit (w :: u16) n"
  using bit_imp_le_length [of w n] by auto

lemma bit_u32_ge [simp]: "32 \<le> n \<Longrightarrow> \<not> bit (w :: u32) n"
  using bit_imp_le_length [of w n] by auto

lemma and_1_bit: "(x :: 'a::len word) AND 1 \<noteq> 0 \<longleftrightarrow> bit x 0"
  by (simp add: and_one_eq mod_2_eq_odd bit_0)

lemma unat_take_bit_less: "unat (take_bit n (x :: 'a::len word)) < 2 ^ n"
  by (simp only: unsigned_take_bit_eq take_bit_nat_less_exp)

lemma unat_and_7: "unat ((x :: 'a::len word) AND 7) < 8"
  using unat_take_bit_less [of 3 x] by (simp only: and_0x07) simp

lemma unat_and_3: "unat ((x :: 'a::len word) AND 3) < 4"
  using unat_take_bit_less [of 2 x] by (simp only: and_0x03) simp

lemma bit_times_2_word [simp]:
  "bit ((x :: 'a::len word) * 2) n \<longleftrightarrow> 0 < n \<and> n < LENGTH('a) \<and> bit x (n - 1)"
  using bit_double_iff [of x n] by (auto simp: mult.commute)

lemma ucast_u16_u32_u16 [simp]: "ucast (ucast (l :: u16) :: u32) = l"
  by (rule bit_word_eqI) (auto simp: bit_simps)

lemma ucast_u16_u32_inj: "(ucast (l :: u16) :: u32) = ucast l' \<longleftrightarrow> l = l'"
  by (metis ucast_u16_u32_u16)

lemma push_or_add: "push_bit 8 (x :: 'a::len word) OR ucast (l :: u8) = push_bit 8 x + ucast l"
proof -
  have "push_bit 8 x AND ucast l = 0"
    by (rule bit_word_eqI) (auto simp: bit_simps dest: bit_u8_less)
  then show ?thesis by (simp add: disjunctive_add_eq_or)
qed

lemma be16_at_be16 [simp]:
  "be16_at (ucast (drop_bit 8 v AND 0xff)) (ucast (v AND 0xff)) = v"
  unfolding be16_at_def mask_simps
  by (rule bit_word_eqI) (auto simp: bit_simps not_less)

lemma be16_be16_at [simp]: "be16 (be16_at a b) = [a, b]"
  unfolding be16_at_def be16_def mask_simps
  by (auto intro!: bit_word_eqI simp: bit_simps not_less)

lemma le16_be16_at [simp]: "le16 (be16_at a b) = [b, a]"
  using be16_be16_at [of a b] by (simp add: be16_def le16_def)

lemma length_be16 [simp]: "length (be16 v) = 2"
  by (simp add: be16_def)

lemma length_le16 [simp]: "length (le16 v) = 2"
  by (simp add: le16_def)

lemma be16_inj: "be16 v = be16 w \<longleftrightarrow> v = w"
proof
  assume "be16 v = be16 w"
  then have "be16_at (be16 v ! 0) (be16 v ! 1) = be16_at (be16 w ! 0) (be16 w ! 1)" by simp
  then show "v = w" by (simp add: be16_def)
qed simp

lemma le16_inj: "le16 v = le16 w \<longleftrightarrow> v = w"
  using be16_inj [of v w] by (auto simp: be16_def le16_def)

subsection \<open>Lists\<close>

lemma nth_at: "w = P @ x # Q \<Longrightarrow> length P = n \<Longrightarrow> w ! n = x"
  by auto

lemma take_drop_at: "w = P @ M @ Q \<Longrightarrow> length P = n \<Longrightarrow> length M = m \<Longrightarrow> take m (drop n w) = M"
  by auto

lemma slice_add: "take (m + n) (drop k xs) = take m (drop k xs) @ take n (drop (k + m) xs)"
  by (simp add: take_add add.commute)

lemma slice_1: "k < length xs \<Longrightarrow> take 1 (drop k xs) = [xs ! k]"
  by (simp add: Cons_nth_drop_Suc [symmetric])

lemma slice_2: "k + 1 < length xs \<Longrightarrow> take 2 (drop k xs) = [xs ! k, xs ! (k + 1)]"
  using slice_add [of 1 1 k xs] slice_1 [of k xs] slice_1 [of "k + 1" xs] by (simp add: numeral_2_eq_2)

subsection \<open>Views and sizes\<close>

lemma view_of_simps [simp]:
  "view_size (view_of bs) = length bs" "view_bytes (view_of bs) = bs" "\<not> bad_view (view_of bs)"
  by (auto simp: view_of_def bad_view_def)

lemma bad_view_View [simp]: "\<not> bad_view (View bs)"
  by (simp add: bad_view_def)

lemma view_size_bytes: "\<not> bad_view v \<Longrightarrow> view_size v = length (view_bytes v)"
  by (cases v) (auto simp: bad_view_def)

lemma size_sub_le: "b \<le> a \<Longrightarrow> size_sub a b = a - b"
  by (simp add: size_sub_def)

subsection \<open>Sequencing\<close>

text \<open>Reading a chain of guards and calls backwards from its success.\<close>

lemma guard_Inr: "(if b then Inl e else x) = Inr a \<longleftrightarrow> \<not> b \<and> x = Inr a"
  by simp

lemma call_Inr: "(case m of Inl e \<Rightarrow> Inl e | Inr x \<Rightarrow> k x) = Inr a \<longleftrightarrow> (\<exists>x. m = Inr x \<and> k x = Inr a)"
  by (cases m) auto

lemma pair_Inr: "(case p of (x, y) \<Rightarrow> k x y) = Inr a \<longleftrightarrow> (\<exists>x y. p = (x, y) \<and> k x y = Inr a)"
  by (cases p) auto

lemmas chain_Inr = guard_Inr call_Inr pair_Inr

lemma try_then_Inr [simp]: "m s = (Inr a, s') \<Longrightarrow> try_then m k s = k a s'"
  by (simp add: try_then_def)

lemma try_then_Inl [simp]: "m s = (Inl e, s') \<Longrightarrow> try_then m k s = (Inl e, s')"
  by (simp add: try_then_def)

lemma yield_apply [simp]: "yield a s = (Inr a, s)"
  by (simp add: yield_def)

lemma refuse_apply [simp]: "refuse e s = (Inl e, s)"
  by (simp add: refuse_def)

lemma try_then_InrE:
  assumes "try_then m k s = (Inr b, t)"
  obtains a s' where "m s = (Inr a, s')" "k a s' = (Inr b, t)"
  using assms by (auto simp: try_then_def split: prod.splits sum.splits)

subsection \<open>Interface: a prefix codec\<close>

text \<open>
  An encoder into bytes and a decoder that reads one value off the front of a byte string
  and says how many bytes it took. Its one law is that decoding an encoding, whatever
  follows it, gives the value back and takes exactly the encoding.
\<close>

locale prefix_codec =
  fixes wf :: "'a \<Rightarrow> bool"
    and enc :: "'a \<Rightarrow> bytes"
    and dec :: "bytes \<Rightarrow> 'e + 'a \<times> nat"
  assumes dec_enc: "wf a \<Longrightarrow> dec (enc a @ rest) = Inr (a, length (enc a))"
begin

lemma prefix_free:
  assumes "wf a" "wf b" "enc a @ r = enc b @ s"
  shows "a = b \<and> r = s"
proof -
  have "Inr (a, length (enc a)) = (Inr (b, length (enc b)) :: 'e + 'a \<times> nat)"
    using dec_enc [OF assms(1), of r] dec_enc [OF assms(2), of s] assms(3) by simp
  then show ?thesis using assms(3) by simp
qed

lemma enc_inj: "wf a \<Longrightarrow> wf b \<Longrightarrow> enc a = enc b \<Longrightarrow> a = b"
  using prefix_free [of a b "[]" "[]"] by simp

lemma dec_enc_exact: "wf a \<Longrightarrow> dec (enc a) = Inr (a, length (enc a))"
  using dec_enc [of a "[]"] by simp

end

subsection \<open>Interface: an incremental stream scanner\<close>

text \<open>
  One turn of the loop of a stream decoder on its buffer: it emits a frame and leaves the
  rest of the buffer, or needs more bytes and keeps some of the buffer, or fails.
\<close>

datatype ('e, 'f) scan = Emit 'f bytes | More bytes | Fail 'e

text \<open>
  The laws say that a verdict does not depend on bytes that have not arrived yet, and that
  what is kept of the buffer is enough to go on. From them, in the locale: feeding a stream
  in chunks gives the frames that feeding it at once gives.
\<close>

locale stream_scanner =
  fixes scan :: "bytes \<Rightarrow> ('e, 'f) scan"
  assumes scan_emit_less: "scan b = Emit f r \<Longrightarrow> length r < length b"
    and scan_emit_append: "scan b = Emit f r \<Longrightarrow> scan (b @ x) = Emit f (r @ x)"
    and scan_fail_append: "scan b = Fail e \<Longrightarrow> scan (b @ x) = Fail e"
    and scan_more_append: "scan b = More r \<Longrightarrow> scan (b @ x) = scan (r @ x)"
begin

text \<open>The loop: frames emitted so far, and the final verdict (the kept buffer or an error).\<close>

function drain :: "bytes \<Rightarrow> 'f list \<times> ('e + bytes)" where
  "drain b = (case scan b of
      Emit f r \<Rightarrow> (let (fs, v) = drain r in (f # fs, v))
    | More r \<Rightarrow> ([], Inr r)
    | Fail e \<Rightarrow> ([], Inl e))"
  by pat_completeness auto
termination
  by (relation "measure length") (auto dest: scan_emit_less)

declare drain.simps [simp del]

lemma drain_Emit: "scan b = Emit f r \<Longrightarrow> drain b = (f # fst (drain r), snd (drain r))"
  by (subst drain.simps) (simp add: case_prod_beta)

lemma drain_More: "scan b = More r \<Longrightarrow> drain b = ([], Inr r)"
  by (subst drain.simps) simp

lemma drain_Fail: "scan b = Fail e \<Longrightarrow> drain b = ([], Inl e)"
  by (subst drain.simps) simp

lemma drain_cong: "scan a = scan b \<Longrightarrow> drain a = drain b"
  by (cases "scan b") (simp_all add: drain_Emit drain_More drain_Fail)

lemma drain_append_ok:
  assumes "drain b = (fs, Inr r)"
  shows "drain (b @ x) = (fs @ fst (drain (r @ x)), snd (drain (r @ x)))"
  using assms
proof (induction b arbitrary: fs rule: drain.induct)
  case (1 b)
  show ?case
  proof (cases "scan b")
    case (Emit f r')
    with "1.prems" obtain gs where gs: "drain r' = (gs, Inr r)" "fs = f # gs"
      by (cases "drain r'") (auto simp: drain_Emit)
    from drain_Emit [OF scan_emit_append [OF Emit, of x]] "1.IH" [OF Emit gs(1)] gs(2)
    show ?thesis by simp
  next
    case (More r')
    with "1.prems" have "r' = r" "fs = []" by (simp_all add: drain_More)
    with drain_cong [OF scan_more_append [OF More, of x]] show ?thesis by simp
  next
    case (Fail e)
    with "1.prems" show ?thesis by (simp add: drain_Fail)
  qed
qed

lemma drain_append_fail:
  assumes "drain b = (fs, Inl e)"
  shows "drain (b @ x) = (fs, Inl e)"
  using assms
proof (induction b arbitrary: fs rule: drain.induct)
  case (1 b)
  show ?case
  proof (cases "scan b")
    case (Emit f r')
    with "1.prems" obtain gs where gs: "drain r' = (gs, Inl e)" "fs = f # gs"
      by (cases "drain r'") (auto simp: drain_Emit)
    from drain_Emit [OF scan_emit_append [OF Emit, of x]] "1.IH" [OF Emit gs(1)] gs(2)
    show ?thesis by simp
  next
    case (More r')
    with "1.prems" show ?thesis by (simp add: drain_More)
  next
    case (Fail e')
    with "1.prems" scan_fail_append [OF Fail, of x] show ?thesis by (simp add: drain_Fail)
  qed
qed

text \<open>Feeding the chunks one after another, each on top of what the last one left.\<close>

fun feed :: "bytes \<Rightarrow> bytes list \<Rightarrow> 'f list \<times> ('e + bytes)" where
  "feed b [] = ([], Inr b)"
| "feed b (c # cs) = (case drain (b @ c) of
      (fs, Inl e) \<Rightarrow> (fs, Inl e)
    | (fs, Inr r) \<Rightarrow> (let (gs, v) = feed r cs in (fs @ gs, v)))"

lemma feed_drain:
  assumes "feed b cs = (fs, Inr r)" "cs \<noteq> []"
  shows "drain (b @ concat cs) = (fs, Inr r)"
  using assms
proof (induction cs arbitrary: b fs)
  case Nil
  then show ?case by simp
next
  case (Cons c cs)
  from Cons.prems(1) obtain fs1 r1 where d: "drain (b @ c) = (fs1, Inr r1)"
    by (auto split: prod.splits sum.splits)
  with Cons.prems(1) obtain fs2 where f: "feed r1 cs = (fs2, Inr r)" "fs = fs1 @ fs2"
    by (auto simp: Let_def split: prod.splits)
  show ?case
  proof (cases "cs = []")
    case True
    with d f show ?thesis by auto
  next
    case False
    with Cons.IH [OF f(1)] have "drain (r1 @ concat cs) = (fs2, Inr r)" by simp
    with drain_append_ok [OF d, of "concat cs"] f(2) show ?thesis by simp
  qed
qed

lemma drain_feed:
  assumes "drain (b @ concat cs) = (fs, Inr r)" "cs \<noteq> []"
  shows "feed b cs = (fs, Inr r)"
  using assms
proof (induction cs arbitrary: b fs)
  case Nil
  then show ?case by simp
next
  case (Cons c cs)
  obtain fs1 v where d: "drain (b @ c) = (fs1, v)" by fastforce
  show ?case
  proof (cases v)
    case (Inl e)
    with d drain_append_fail [of "b @ c" fs1 e "concat cs"] Cons.prems show ?thesis by simp
  next
    case (Inr r1)
    show ?thesis
    proof (cases "cs = []")
      case True
      with d Inr Cons.prems show ?thesis by simp
    next
      case False
      from d Inr have "drain (b @ c) = (fs1, Inr r1)" by simp
      from drain_append_ok [OF this, of "concat cs"] Cons.prems(1)
      obtain fs2 where "drain (r1 @ concat cs) = (fs2, Inr r)" "fs = fs1 @ fs2"
        by (cases "drain (r1 @ concat cs)") simp
      with Cons.IH [of r1 fs2] False d Inr show ?thesis by simp
    qed
  qed
qed

end

subsection \<open>Interface: a stream decoder over a scanner\<close>

text \<open>
  A decoder that repeats the scan on its buffer, appends the frames to the caller's vector and
  drops the buffer on an error. \<open>img\<close> gives the bytes of an item of the stream (a frame,
  possibly with what may precede it), \<open>frm\<close> the frame the decoder must deliver for it.
\<close>

locale stream_decoder = stream_scanner scan
  for scan :: "bytes \<Rightarrow> ('e, 'f) scan" +
  fixes push_loop :: "bytes \<Rightarrow> 'f list \<Rightarrow> 'e \<times> 'f list \<times> bytes"
    and need complete :: 'e
    and wf :: "'i \<Rightarrow> bool"
    and img :: "'i \<Rightarrow> bytes"
    and frm :: "'i \<Rightarrow> 'f"
  assumes push_loop_step: "push_loop b fs = (case scan b of
      Emit f r \<Rightarrow> push_loop r (fs @ [f])
    | More r \<Rightarrow> (if fs = [] then need else complete, fs, r)
    | Fail e \<Rightarrow> (e, fs, []))"
    and scan_Nil: "scan [] = More []"
    and scan_img: "wf i \<Longrightarrow> scan (img i @ x) = Emit (frm i) x"
begin

lemma push_loop_drain:
  "drain b = (gs, Inr r) \<Longrightarrow> push_loop b fs = (if fs @ gs = [] then need else complete, fs @ gs, r)"
proof (induction b arbitrary: fs gs rule: drain.induct)
  case (1 b)
  show ?case
  proof (cases "scan b")
    case (Emit f r')
    with "1.prems" obtain hs where "drain r' = (hs, Inr r)" "gs = f # hs"
      by (cases "drain r'") (auto simp: drain_Emit)
    with "1.IH" [OF Emit, of hs "fs @ [f]"] Emit show ?thesis by (subst push_loop_step) simp
  next
    case (More r')
    with "1.prems" show ?thesis by (subst push_loop_step) (simp add: drain_More)
  next
    case (Fail e)
    with "1.prems" show ?thesis by (simp add: drain_Fail)
  qed
qed

fun push_all :: "bytes \<Rightarrow> bytes list \<Rightarrow> 'e list \<times> 'f list \<times> bytes" where
  "push_all b [] = ([], [], b)"
| "push_all b (c # cs) = (let (st, fs, r) = push_loop (b @ c) []; (sts, gs, r') = push_all r cs
     in (st # sts, fs @ gs, r'))"

lemma push_all_feed:
  "feed b cs = (fs, Inr r) \<Longrightarrow> \<exists>sts. push_all b cs = (sts, fs, r) \<and> set sts \<subseteq> {need, complete}"
proof (induction cs arbitrary: b fs)
  case Nil
  then show ?case by simp
next
  case (Cons c cs)
  then obtain fs1 r1 fs2 where d: "drain (b @ c) = (fs1, Inr r1)" "feed r1 cs = (fs2, Inr r)" "fs = fs1 @ fs2"
    by (auto simp: Let_def split: prod.splits sum.splits)
  from Cons.IH [OF d(2)] obtain sts where "push_all r1 cs = (sts, fs2, r)" "set sts \<subseteq> {need, complete}" by blast
  with push_loop_drain [OF d(1), of "[]"] d(3) show ?case by auto
qed

lemma drain_items:
  "\<forall>i \<in> set is. wf i \<Longrightarrow> drain (concat (map img is) @ x) = (map frm is @ fst (drain x), snd (drain x))"
  by (induction "is") (simp_all add: drain_Emit [OF scan_img])

lemma push_all_items:
  assumes "\<forall>i \<in> set is. wf i" "scan tail = More r" "concat cs = concat (map img is) @ tail"
  shows "\<exists>sts. push_all [] cs = (sts, map frm is, r) \<and> set sts \<subseteq> {need, complete}"
proof (cases "cs = []")
  case True
  from scan_img have "img i \<noteq> []" if "wf i" for i using that scan_Nil scan_img [of i "[]"] by auto
  with assms True have "is = []" "tail = []" by (cases "is"; auto)+
  with True assms(2) scan_Nil show ?thesis by simp
next
  case False
  have "drain ([] @ concat cs) = (map frm is, Inr r)"
    using drain_items [OF assms(1), of tail] drain_More [OF assms(2)] assms(3) by simp
  from push_all_feed [OF drain_feed [OF this False]] show ?thesis .
qed

end

subsection \<open>Loops that others control\<close>

text \<open>A loop whose body returns or goes on with another state. It may run for ever: then there is no result.\<close>

partial_function (option) loop_until :: "('s \<Rightarrow> 'r + 's) \<Rightarrow> 's \<Rightarrow> 'r option" where
  "loop_until step s = (case step s of Inl r \<Rightarrow> Some r | Inr s' \<Rightarrow> loop_until step s')"

lemma loop_until_ends:
  assumes "\<And>s s'. I s \<Longrightarrow> step s = Inr s' \<Longrightarrow> I s' \<and> m s' < (m s :: nat)" "I s"
  shows "\<exists>r. loop_until step s = Some r"
  using assms(2)
proof (induction "m s" arbitrary: s rule: less_induct)
  case less
  show ?case
  proof (cases "step s")
    case (Inl r)
    then show ?thesis by (subst loop_until.simps) simp
  next
    case (Inr s')
    with assms(1) [OF less.prems Inr] less.hyps [of s'] show ?thesis by (subst loop_until.simps) simp
  qed
qed

lemma loop_until_never:
  assumes "\<And>s. I s \<Longrightarrow> \<exists>s'. step s = Inr s' \<and> I s'" "I s"
  shows "loop_until step s = None"
proof -
  have "f = step \<longrightarrow> \<not> I s" if "loop_until f s = Some r" for f r
    using that
  proof (induction rule: loop_until.raw_induct [rotated, consumes 1, of f s r])
    case (1 rec f s r)
    with assms(1) [of s] show ?case by (auto split: sum.splits)
  qed
  with assms(2) show ?thesis by (cases "loop_until step s") auto
qed

end
