(* ===== verification/Hdlc_Address.thy ===== *)
theory Hdlc_Address
  imports Prelude
begin

text \<open>
  The HDLC status codes (\<open>hdlc_error.hpp\<close>) and the HDLC address field
  (\<open>hdlc_address.hpp\<close>, \<open>hdlc_address.cpp\<close>): a raw value of seven-bit groups and the
  number of bytes it takes on the wire, its decoder, its encoder and the DLMS client and
  server address factories. An address satisfies \<open>address_inv\<close> when it can have been made
  by one of these operations. The theory shows that decoding and encoding are inverse to
  each other, so that address fields are prefix-free, and that the server factory never
  gives two devices the same address.
\<close>

datatype HdlcStatus =
    Ok
  | NeedMoreData
  | OutputBufferTooSmall
  | InvalidArgument
  | InvalidFlag
  | InvalidFrameFormat
  | InvalidFrameType
  | InvalidFrameLength
  | InvalidAddress
  | InvalidControlField
  | InvalidHeaderChecksum
  | InvalidFrameChecksum
  | FrameTooLarge
  | InformationFieldTooLarge
  | SegmentationError
  | SegmentationIncomplete
  | SegmentationOverflow
  | UnsupportedFrame
  | UnsupportedAddress
  | UnsupportedFeature
  | InternalError

record HdlcAddress =
  rawValue :: u32
  encodedSize :: nat

definition IsSupportedEncodedSize :: "nat \<Rightarrow> bool" where
  "IsSupportedEncodedSize n \<longleftrightarrow> n = 1 \<or> n = 2 \<or> n = 4"

definition MaximumRawValue :: "nat \<Rightarrow> u32" where
  "MaximumRawValue n = push_bit (n * 7) 1 - 1"

definition HdlcAddress_default :: HdlcAddress where
  "HdlcAddress_default = \<lparr>rawValue = 0, encodedSize = 1\<rparr>"

text \<open>
  The loop of \<open>FromBytes\<close> over the bytes from \<open>index\<close> on; \<open>available\<close> is the size of the whole
  argument. The result is the address and the number of bytes consumed.
\<close>

fun FromBytes_loop :: "nat \<Rightarrow> bytes \<Rightarrow> nat \<Rightarrow> u32 \<Rightarrow> HdlcStatus + HdlcAddress \<times> nat" where
  "FromBytes_loop available [] index raw =
     Inl (if available < 4 then HdlcStatus.NeedMoreData else HdlcStatus.InvalidAddress)"
| "FromBytes_loop available (b # bs) index raw =
     (if index < 4 then
        let raw' = push_bit 7 raw OR ucast (drop_bit 1 b AND 0x7f);
            consumedSize = index + 1
        in if b AND 1 \<noteq> 0 then
             (if \<not> IsSupportedEncodedSize consumedSize then Inl HdlcStatus.UnsupportedAddress
              else Inr (\<lparr>rawValue = raw', encodedSize = consumedSize\<rparr>, consumedSize))
           else FromBytes_loop available bs consumedSize raw'
      else Inl (if available < 4 then HdlcStatus.NeedMoreData else HdlcStatus.InvalidAddress))"

definition FromBytes :: "view \<Rightarrow> HdlcStatus + HdlcAddress \<times> nat" where
  "FromBytes v =
     (if view_null v then Inl HdlcStatus.InvalidArgument
      else FromBytes_loop (view_size v) (view_bytes v) 0 0)"

definition FromRaw :: "u32 \<Rightarrow> nat \<Rightarrow> HdlcStatus + HdlcAddress" where
  "FromRaw raw encSize =
     (if \<not> IsSupportedEncodedSize encSize then Inl HdlcStatus.UnsupportedAddress
      else if raw > MaximumRawValue encSize then Inl HdlcStatus.InvalidAddress
      else Inr \<lparr>rawValue = raw, encodedSize = encSize\<rparr>)"

text \<open>The byte the loop of \<open>Encode\<close> stores at \<open>index\<close>.\<close>

definition Encode_byte :: "HdlcAddress \<Rightarrow> nat \<Rightarrow> u8" where
  "Encode_byte a index =
     (let shift = (encodedSize a - index - 1) * 7;
          value = (push_bit 1 (ucast (drop_bit shift (rawValue a) AND 0x7f)) :: u8)
      in if index + 1 = encodedSize a then value OR 1 else value)"

text \<open>
  \<open>Encode\<close> into an output buffer: \<open>None\<close> is the null pointer, \<open>Some n\<close> a buffer of
  \<open>n\<close> bytes; the result is what the call stores at the front of the buffer, whose length is
  the written size.
\<close>

definition HdlcAddress_Encode :: "HdlcAddress \<Rightarrow> nat option \<Rightarrow> HdlcStatus + bytes" where
  "HdlcAddress_Encode a output =
     (case output of
        None \<Rightarrow> Inl HdlcStatus.InvalidArgument
      | Some outputSize \<Rightarrow>
          if outputSize < encodedSize a then Inl HdlcStatus.OutputBufferTooSmall
          else Inr (map (Encode_byte a) [0..<encodedSize a]))"

definition MakeClientAddress :: "u8 \<Rightarrow> HdlcStatus + HdlcAddress" where
  "MakeClientAddress clientAddress =
     (if clientAddress > 0x7f then Inl HdlcStatus.InvalidAddress
      else FromRaw (ucast clientAddress) 1)"

definition MakeServerAddress :: "u16 \<Rightarrow> u16 \<Rightarrow> HdlcStatus + HdlcAddress" where
  "MakeServerAddress logical physical =
     (if logical > 0x3fff \<or> physical > 0x3fff then Inl HdlcStatus.InvalidAddress
      else if physical = 0 \<and> logical \<le> 0x7f then FromRaw (ucast logical) 1
      else if logical \<le> 0x7f \<and> physical \<le> 0x7f then
        FromRaw (push_bit 7 (ucast logical) OR ucast physical) 2
      else FromRaw (push_bit 14 (ucast logical) OR ucast physical) 4)"

text \<open>The invariant of the class: what the constructor and the factories establish.\<close>

text \<open>The comparison the segmentation and the session code make.\<close>

definition SameAddress :: "HdlcAddress \<Rightarrow> HdlcAddress \<Rightarrow> bool" where
  "SameAddress left right \<longleftrightarrow> rawValue left = rawValue right \<and> encodedSize left = encodedSize right"

definition address_inv :: "HdlcAddress \<Rightarrow> bool" where
  "address_inv a \<longleftrightarrow>
     IsSupportedEncodedSize (encodedSize a) \<and> rawValue a \<le> MaximumRawValue (encodedSize a)"

definition address_bytes :: "HdlcAddress \<Rightarrow> bytes" where
  "address_bytes a = map (Encode_byte a) [0..<encodedSize a]"

subsection \<open>Sizes and bounds\<close>

lemma SameAddress_eq [simp]: "SameAddress a b \<longleftrightarrow> a = b"
  by (cases a; cases b) (auto simp: SameAddress_def)

lemma MaximumRawValue_bits:
  assumes "IsSupportedEncodedSize n"
  shows "raw \<le> MaximumRawValue n \<longleftrightarrow> take_bit (7 * n) raw = raw"
proof -
  from assms have "n = 1 \<or> n = 2 \<or> n = 4" by (simp add: IsSupportedEncodedSize_def)
  moreover have "raw \<le> MaximumRawValue n \<longleftrightarrow> unat raw \<le> 2 ^ (7 * n) - 1"
    using calculation by (auto simp: MaximumRawValue_def word_le_nat_alt push_bit_eq_mult)
  moreover have "take_bit (7 * n) raw = raw \<longleftrightarrow> take_bit (7 * n) (unat raw) = unat raw"
    by (metis unsigned_take_bit_eq word_unat_eq_iff)
  ultimately show ?thesis
    by (auto simp: take_bit_nat_eq_self_iff)
qed

lemma length_address_bytes [simp]: "length (address_bytes a) = encodedSize a"
  by (simp add: address_bytes_def)

lemma HdlcAddress_Encode_Inr:
  "HdlcAddress_Encode a (Some n) = Inr bs \<longleftrightarrow> encodedSize a \<le> n \<and> bs = address_bytes a"
  by (auto simp: HdlcAddress_Encode_def address_bytes_def)

lemma HdlcAddress_Encode_fits [simp]:
  "encodedSize a \<le> n \<Longrightarrow> HdlcAddress_Encode a (Some n) = Inr (address_bytes a)"
  by (simp add: HdlcAddress_Encode_Inr)

lemma address_inv_default [simp]: "address_inv HdlcAddress_default"
  by (simp add: address_inv_def HdlcAddress_default_def IsSupportedEncodedSize_def MaximumRawValue_def)

lemma FromRaw_inv: "FromRaw raw n = Inr a \<Longrightarrow> address_inv a \<and> rawValue a = raw \<and> encodedSize a = n"
  by (auto simp: FromRaw_def address_inv_def split: if_splits)

lemma FromRaw_ok:
  "IsSupportedEncodedSize n \<Longrightarrow> take_bit (7 * n) raw = raw \<Longrightarrow>
     FromRaw raw n = Inr \<lparr>rawValue = raw, encodedSize = n\<rparr>"
  by (auto simp: FromRaw_def not_less MaximumRawValue_bits)

subsection \<open>Decoding an encoding\<close>

text \<open>One seven-bit group: the byte carries it above its extension bit.\<close>

lemma group_of_Encode_byte:
  "drop_bit 1 (Encode_byte a i) AND 0x7f =
     ucast (take_bit 7 (drop_bit ((encodedSize a - i - 1) * 7) (rawValue a)))"
  unfolding Encode_byte_def mask_simps Let_def
  by (rule bit_word_eqI) (auto simp: bit_simps)

lemma extension_of_Encode_byte:
  "i < encodedSize a \<Longrightarrow> Encode_byte a i AND 1 \<noteq> 0 \<longleftrightarrow> i + 1 = encodedSize a"
  unfolding and_1_bit Encode_byte_def mask_simps Let_def
  by (auto simp: bit_simps)

lemma append_group:
  "push_bit 7 (take_bit k (drop_bit (s + 7) raw)) OR ucast (ucast (take_bit 7 (drop_bit s raw)) :: u8)
     = (take_bit (k + 7) (drop_bit s raw) :: u32)"
proof (rule bit_word_eqI)
  fix n
  assume "n < LENGTH(32)"
  then show "bit (push_bit 7 (take_bit k (drop_bit (s + 7) raw))
      OR ucast (ucast (take_bit 7 (drop_bit s raw)) :: u8)) n
    = bit (take_bit (k + 7) (drop_bit s raw) :: u32) n"
    by (cases "n < 7") (auto simp: bit_simps not_less)
qed

lemma FromBytes_loop_Encode_byte:
  assumes "i < encodedSize a" "encodedSize a \<le> 4"
  shows "FromBytes_loop available (map (Encode_byte a) [i..<encodedSize a] @ rest) i
           (take_bit (7 * i) (drop_bit ((encodedSize a - i) * 7) (rawValue a))) =
         (if \<not> IsSupportedEncodedSize (encodedSize a) then Inl HdlcStatus.UnsupportedAddress
          else Inr (\<lparr>rawValue = take_bit (7 * encodedSize a) (rawValue a),
                    encodedSize = encodedSize a\<rparr>, encodedSize a))"
  using assms
proof (induction "encodedSize a - i" arbitrary: i)
  case 0
  then show ?case by simp
next
  case (Suc m)
  let ?s = "(encodedSize a - i - 1) * 7"
  have shift: "(encodedSize a - i) * 7 = ?s + 7" using Suc.prems by (cases "encodedSize a - i") auto
  have raw: "push_bit 7 (take_bit (7 * i) (drop_bit ((encodedSize a - i) * 7) (rawValue a)))
      OR ucast (drop_bit 1 (Encode_byte a i) AND 0x7f)
    = take_bit (7 * (i + 1)) (drop_bit ?s (rawValue a))"
    using append_group [of "7 * i" ?s "rawValue a"]
    by (simp only: shift group_of_Encode_byte) (simp add: algebra_simps)
  have split: "map (Encode_byte a) [i..<encodedSize a] =
      Encode_byte a i # map (Encode_byte a) [i + 1..<encodedSize a]"
    using Suc.prems by (simp add: upt_conv_Cons)
  show ?case
  proof (cases "i + 1 = encodedSize a")
    case True
    then show ?thesis
      using Suc.prems extension_of_Encode_byte [of i a]
      by (simp only: split append_Cons FromBytes_loop.simps raw Let_def) auto
  next
    case False
    with Suc.prems have "i + 1 < encodedSize a" by simp
    moreover have "m = encodedSize a - (i + 1)" using Suc.hyps(2) by simp
    ultimately have IH: "FromBytes_loop available (map (Encode_byte a) [i + 1..<encodedSize a] @ rest) (i + 1)
           (take_bit (7 * (i + 1)) (drop_bit ((encodedSize a - (i + 1)) * 7) (rawValue a))) =
         (if \<not> IsSupportedEncodedSize (encodedSize a) then Inl HdlcStatus.UnsupportedAddress
          else Inr (\<lparr>rawValue = take_bit (7 * encodedSize a) (rawValue a),
                    encodedSize = encodedSize a\<rparr>, encodedSize a))"
      using Suc.hyps(1) [of "i + 1"] Suc.prems by simp
    from False Suc.prems extension_of_Encode_byte [of i a] have "\<not> Encode_byte a i AND 1 \<noteq> 0" "i < 4"
      by auto
    then show ?thesis
      using IH by (simp only: split append_Cons FromBytes_loop.simps raw Let_def) simp
  qed
qed

lemma FromBytes_address_bytes [codec_simps]:
  assumes "address_inv a"
  shows "FromBytes (View (address_bytes a @ rest)) = Inr (a, encodedSize a)"
proof -
  from assms have sz: "IsSupportedEncodedSize (encodedSize a)"
    and raw: "take_bit (7 * encodedSize a) (rawValue a) = rawValue a"
    by (auto simp: address_inv_def MaximumRawValue_bits)
  from sz have "0 < encodedSize a" "encodedSize a \<le> 4" by (auto simp: IsSupportedEncodedSize_def)
  from FromBytes_loop_Encode_byte [OF this, of "length (address_bytes a @ rest)" rest] sz raw
  show ?thesis by (simp add: FromBytes_def address_bytes_def)
qed

definition dec_address :: "bytes \<Rightarrow> HdlcStatus + HdlcAddress \<times> nat" where
  "dec_address bs = FromBytes (View bs)"

interpretation address: prefix_codec address_inv address_bytes dec_address
  by unfold_locales (simp add: dec_address_def FromBytes_address_bytes)

subsection \<open>Encoding a decoding\<close>

abbreviation group :: "u8 \<Rightarrow> u32" where
  "group b \<equiv> ucast (drop_bit 1 b AND 0x7f)"

abbreviation groups :: "u32 \<Rightarrow> bytes \<Rightarrow> u32" where
  "groups \<equiv> foldl (\<lambda>r b. push_bit 7 r OR group b)"

lemma FromBytes_loop_sound:
  assumes "FromBytes_loop available bs i raw = Inr (a, n)"
  shows "i < n \<and> n - i \<le> length bs \<and> IsSupportedEncodedSize n \<and> encodedSize a = n \<and>
     rawValue a = groups raw (take (n - i) bs) \<and>
     (\<forall>j < n - i. bit (bs ! j) 0 \<longleftrightarrow> j + 1 = n - i)"
  using assms
proof (induction available bs i raw rule: FromBytes_loop.induct)
  case (1 available i raw)
  then show ?case by simp
next
  case (2 available b bs i raw)
  show ?case
  proof (cases "b AND 1 \<noteq> 0")
    case True
    with "2.prems" have "n = i + 1" "IsSupportedEncodedSize n" "encodedSize a = n"
      "rawValue a = push_bit 7 raw OR group b"
      by (auto simp: Let_def split: if_splits)
    moreover have "bit b 0" using True by (simp only: and_1_bit)
    ultimately show ?thesis by simp
  next
    case False
    then have b: "\<not> bit b 0" unfolding and_1_bit .
    from False "2.prems" have i: "i < 4" and
      rec: "FromBytes_loop available bs (i + 1) (push_bit 7 raw OR group b) = Inr (a, n)"
      by (auto simp: Let_def split: if_splits)
    note IH = "2.IH" [OF i refl refl False rec]
    then obtain m where "n = Suc (Suc (i + m))"
      by (metis Suc_eq_plus1 add_Suc less_imp_Suc_add)
    then have "n - i = Suc (n - (i + 1))" by simp
    then show ?thesis
      using IH b by (auto simp: less_Suc_eq_0_disj nth_Cons')
  qed
qed

text \<open>The bits of the concatenated groups are the bits of the wire bytes above bit 0.\<close>

lemma bit_groups:
  assumes "i < length bs" "length bs \<le> 4" "k < 7"
  shows "bit (groups 0 bs) ((length bs - i - 1) * 7 + k) = bit (bs ! i) (Suc k)"
  using assms
proof (induction bs rule: rev_induct)
  case Nil
  then show ?case by simp
next
  case (snoc b bs)
  show ?case
  proof (cases "i = length bs")
    case True
    with snoc.prems show ?thesis by (simp add: mask_simps) (auto simp: bit_simps)
  next
    case False
    with snoc.prems have i: "i < length bs" by simp
    then obtain m where m: "length bs - i = Suc m" by (metis Suc_diff_Suc)
    with snoc.prems i have "m * 7 + k < 21" by simp
    moreover have "bit (groups 0 bs) (m * 7 + k) = bit (bs ! i) (Suc k)"
      using snoc.IH i snoc.prems m by simp
    moreover have "(length (bs @ [b]) - i - 1) * 7 + k = m * 7 + k + 7"
      using m i by (simp add: Suc_diff_le)
    ultimately show ?thesis
      using i by (simp add: mask_simps nth_append) (auto simp: bit_simps)
  qed
qed

lemma Encode_byte_eqI:
  assumes "\<And>k. k < 7 \<Longrightarrow> bit (rawValue a) ((encodedSize a - i - 1) * 7 + k) = bit b (Suc k)"
    and "bit b 0 \<longleftrightarrow> i + 1 = encodedSize a"
  shows "Encode_byte a i = b"
proof (rule bit_word_eqI)
  fix n
  assume "n < LENGTH(8)"
  then show "bit (Encode_byte a i) n = bit b n"
    using assms unfolding Encode_byte_def mask_simps Let_def
    by (cases n) (auto simp: bit_simps)
qed

lemma FromBytes_sound:
  assumes "FromBytes (View bs) = Inr (a, n)"
  shows "address_inv a \<and> n = encodedSize a \<and> n \<le> length bs \<and> take n bs = address_bytes a"
proof -
  from FromBytes_loop_sound [of "length bs" bs 0 0 a n] assms
  have n: "n \<le> length bs" "IsSupportedEncodedSize n" "encodedSize a = n"
    and raw: "rawValue a = groups 0 (take n bs)"
    and ext: "\<And>j. j < n \<Longrightarrow> bit (bs ! j) 0 \<longleftrightarrow> j + 1 = n"
    by (auto simp: FromBytes_def)
  have n4: "n \<le> 4" using n(2) by (auto simp: IsSupportedEncodedSize_def)
  have bytes: "take n bs = address_bytes a"
  proof (rule nth_equalityI)
    show "length (take n bs) = length (address_bytes a)" using n by simp
  next
    fix j
    assume "j < length (take n bs)"
    then have j: "j < n" "j < length (take n bs)" using n by auto
    have "Encode_byte a j = bs ! j"
      using bit_groups [OF j(2)] n4 n j ext [OF j(1)]
      by (intro Encode_byte_eqI) (auto simp: raw)
    then show "take n bs ! j = address_bytes a ! j"
      using j n by (simp add: address_bytes_def)
  qed
  have "bs = map (Encode_byte a) [0..<encodedSize a] @ drop n bs"
    using bytes by (metis address_bytes_def append_take_drop_id)
  moreover have "0 < encodedSize a" "encodedSize a \<le> 4"
    using n n4 by (auto simp: IsSupportedEncodedSize_def)
  ultimately have "FromBytes_loop (length bs) bs 0 0 =
      Inr (\<lparr>rawValue = take_bit (7 * n) (rawValue a), encodedSize = n\<rparr>, n)"
    using FromBytes_loop_Encode_byte [of 0 a "length bs" "drop n bs"] n by simp
  with assms have "a = \<lparr>rawValue = take_bit (7 * n) (rawValue a), encodedSize = n\<rparr>"
    by (simp add: FromBytes_def)
  then have "take_bit (7 * n) (rawValue a) = rawValue a"
    by (metis HdlcAddress.select_convs(1))
  with n bytes show ?thesis by (auto simp: address_inv_def MaximumRawValue_bits)
qed

subsection \<open>The DLMS address factories\<close>

lemma le_take_bit_u16:
  "(l :: u16) \<le> 0x7f \<longleftrightarrow> take_bit 7 l = l" "l \<le> 0x3fff \<longleftrightarrow> take_bit 14 l = l"
proof -
  have eq: "take_bit k l = l \<longleftrightarrow> unat l < 2 ^ k" for k
    by (metis take_bit_nat_eq_self_iff unsigned_take_bit_eq word_unat_eq_iff)
  show "l \<le> 0x7f \<longleftrightarrow> take_bit 7 l = l" "l \<le> 0x3fff \<longleftrightarrow> take_bit 14 l = l"
    by (auto simp: eq word_le_nat_alt)
qed

text \<open>The two halves of a combined raw value can be read back.\<close>

lemma combine_halves:
  fixes l p :: u16
  assumes "take_bit k l = l" "take_bit k p = p" "k \<le> 16"
  shows "take_bit (2 * k) (push_bit k (ucast l) OR ucast p :: u32) = push_bit k (ucast l) OR ucast p"
    and "ucast (drop_bit k (push_bit k (ucast l) OR ucast p :: u32)) = l"
    and "ucast (take_bit k (push_bit k (ucast l) OR ucast p :: u32)) = p"
proof -
  have l: "bit l n \<Longrightarrow> n < k" and p: "bit p n \<Longrightarrow> n < k" for n
    using assms by (metis bit_take_bit_iff)+
  show "take_bit (2 * k) (push_bit k (ucast l) OR ucast p :: u32) = push_bit k (ucast l) OR ucast p"
    by (rule bit_word_eqI) (use assms(3) l p in \<open>fastforce simp: bit_simps\<close>)
  show "ucast (drop_bit k (push_bit k (ucast l) OR ucast p :: u32)) = l"
    by (rule bit_word_eqI) (use assms(3) l p in \<open>fastforce simp: bit_simps\<close>)
  show "ucast (take_bit k (push_bit k (ucast l) OR ucast p :: u32)) = p"
    by (rule bit_word_eqI) (use assms(3) l p in \<open>auto simp: bit_simps\<close>)
qed

lemma FromRaw_u16:
  "take_bit 7 (l :: u16) = l \<Longrightarrow> FromRaw (ucast l) 1 = Inr \<lparr>rawValue = ucast l, encodedSize = 1\<rparr>"
  by (intro FromRaw_ok) (auto simp: IsSupportedEncodedSize_def simp flip: unsigned_take_bit_eq)

lemma MakeServerAddress_cases [consumes 2, case_names one two four]:
  assumes "l \<le> 0x3fff" "p \<le> 0x3fff"
  obtains (one) "p = 0" "l \<le> 0x7f" "MakeServerAddress l p = Inr \<lparr>rawValue = ucast l, encodedSize = 1\<rparr>"
    | (two) "p \<noteq> 0" "l \<le> 0x7f" "p \<le> 0x7f"
        "MakeServerAddress l p = Inr \<lparr>rawValue = push_bit 7 (ucast l) OR ucast p, encodedSize = 2\<rparr>"
    | (four) "\<not> (l \<le> 0x7f \<and> p \<le> 0x7f)"
        "MakeServerAddress l p = Inr \<lparr>rawValue = push_bit 14 (ucast l) OR ucast p, encodedSize = 4\<rparr>"
proof -
  consider "p = 0 \<and> l \<le> 0x7f" | "p \<noteq> 0 \<and> l \<le> 0x7f \<and> p \<le> 0x7f" | "\<not> (l \<le> 0x7f \<and> p \<le> 0x7f)"
    by (metis word_zero_le)
  then show thesis
  proof cases
    case 1
    then show thesis
      using one assms FromRaw_u16 [of l] by (simp add: MakeServerAddress_def not_less le_take_bit_u16)
  next
    case 2
    then have "FromRaw (push_bit 7 (ucast l) OR ucast p) 2 =
        Inr \<lparr>rawValue = push_bit 7 (ucast l) OR ucast p, encodedSize = 2\<rparr>"
      using combine_halves(1) [of 7 l p]
      by (intro FromRaw_ok) (auto simp: IsSupportedEncodedSize_def le_take_bit_u16)
    with 2 assms show thesis using two by (simp add: MakeServerAddress_def not_less)
  next
    case 3
    have "FromRaw (push_bit 14 (ucast l) OR ucast p) 4 =
        Inr \<lparr>rawValue = push_bit 14 (ucast l) OR ucast p, encodedSize = 4\<rparr>"
      using combine_halves(1) [of 14 l p] assms
      by (intro FromRaw_ok) (auto simp: IsSupportedEncodedSize_def le_take_bit_u16)
    moreover have "\<not> (p = 0 \<and> l \<le> 0x7f)" using 3 by auto
    ultimately have "MakeServerAddress l p =
        Inr \<lparr>rawValue = push_bit 14 (ucast l) OR ucast p, encodedSize = 4\<rparr>"
      using 3 assms by (auto simp: MakeServerAddress_def not_less)
    with 3 show thesis by (rule four)
  qed
qed

lemma MakeServerAddress_Inr_bounds:
  "MakeServerAddress l p = Inr a \<Longrightarrow> l \<le> 0x3fff \<and> p \<le> 0x3fff"
  by (auto simp: MakeServerAddress_def not_less split: if_splits)

lemma combine_halves_inj:
  fixes l p :: u16
  assumes "(push_bit k (ucast l) OR ucast p :: u32) = push_bit k (ucast l') OR ucast p'"
    and "take_bit k l = l" "take_bit k p = p" "take_bit k l' = l'" "take_bit k p' = p'" "k \<le> 16"
  shows "l = l' \<and> p = p'"
  using combine_halves(2,3) [of k l p] combine_halves(2,3) [of k l' p'] assms by metis

lemma MakeServerAddress_inj_aux:
  assumes "MakeServerAddress l p = Inr a" "MakeServerAddress l' p' = Inr a"
  shows "l = l' \<and> p = p'"
proof -
  from assms have b: "l \<le> 0x3fff" "p \<le> 0x3fff" "l' \<le> 0x3fff" "p' \<le> 0x3fff"
    by (auto dest: MakeServerAddress_Inr_bounds)
  from b(1,2) show ?thesis
  proof (cases rule: MakeServerAddress_cases)
    case one
    from b(3,4) one assms show ?thesis
      by (cases rule: MakeServerAddress_cases) (auto simp: ucast_u16_u32_inj)
  next
    case two
    note 1 = two
    from b(3,4) show ?thesis
    proof (cases rule: MakeServerAddress_cases)
      case two
      with 1 assms have "(push_bit 7 (ucast l) OR ucast p :: u32) = push_bit 7 (ucast l') OR ucast p'"
        by (metis HdlcAddress.select_convs(1) sum.inject(2))
      with 1 two show ?thesis by (intro combine_halves_inj [of 7]) (simp_all add: le_take_bit_u16)
    qed (use 1 assms in auto)
  next
    case four
    note 1 = four
    from b(3,4) show ?thesis
    proof (cases rule: MakeServerAddress_cases)
      case four
      with 1 assms have "(push_bit 14 (ucast l) OR ucast p :: u32) = push_bit 14 (ucast l') OR ucast p'"
        by (metis HdlcAddress.select_convs(1) sum.inject(2))
      with b show ?thesis by (intro combine_halves_inj [of 14]) (simp_all add: le_take_bit_u16)
    qed (use 1 assms in auto)
  qed
qed

end
