(* ===== verification/Hdlc_Control.thy ===== *)
theory Hdlc_Control
  imports Hdlc_Address
begin

text \<open>
  The HDLC control field (\<open>hdlc_control.hpp\<close>, \<open>hdlc_control.cpp\<close>). The class keeps the raw
  byte; its accessors classify it as an information, supervisory or unnumbered frame and
  extract the Poll/Final bit and the three-bit sequence numbers.
\<close>

datatype HdlcFrameKind = Information | Supervisory | Unnumbered

datatype HdlcSupervisoryKind = ReceiveReady | ReceiveNotReady | Reject | SelectiveReject

datatype HdlcUnnumberedKind = Snrm | Ua | Disc | Dm | Frmr | Ui

record HdlcControl =
  controlValue :: u8

definition IsSupportedUnnumbered :: "u8 \<Rightarrow> bool" where
  "IsSupportedUnnumbered value \<longleftrightarrow> value AND 0xef \<in> {0x83, 0x63, 0x43, 0x0f, 0x87, 0x03}"

definition HdlcControl_default :: HdlcControl where
  "HdlcControl_default = \<lparr>controlValue = 0\<rparr>"

definition HdlcControl_Decode :: "u8 \<Rightarrow> HdlcStatus + HdlcControl" where
  "HdlcControl_Decode value =
     (if value AND 1 = 0 then Inr \<lparr>controlValue = value\<rparr>
      else if value AND 3 = 1 then Inr \<lparr>controlValue = value\<rparr>
      else if IsSupportedUnnumbered value then Inr \<lparr>controlValue = value\<rparr>
      else Inl HdlcStatus.InvalidControlField)"

definition HdlcControl_Encode :: "HdlcControl \<Rightarrow> HdlcStatus + u8" where
  "HdlcControl_Encode c = Inr (controlValue c)"

definition FrameKind :: "HdlcControl \<Rightarrow> HdlcFrameKind" where
  "FrameKind c =
     (if controlValue c AND 1 = 0 then Information
      else if controlValue c AND 3 = 1 then Supervisory
      else Unnumbered)"

definition PollFinal :: "HdlcControl \<Rightarrow> bool" where
  "PollFinal c \<longleftrightarrow> controlValue c AND 0x10 \<noteq> 0"

definition SupervisoryKind :: "HdlcControl \<Rightarrow> HdlcStatus + HdlcSupervisoryKind" where
  "SupervisoryKind c =
     (if FrameKind c \<noteq> Supervisory then Inl HdlcStatus.InvalidFrameType
      else let selector = drop_bit 2 (controlValue c) AND 3
           in if selector = 0 then Inr ReceiveReady
              else if selector = 1 then Inr ReceiveNotReady
              else if selector = 2 then Inr Reject
              else if selector = 3 then Inr SelectiveReject
              else Inl HdlcStatus.InvalidControlField)"

definition UnnumberedKind :: "HdlcControl \<Rightarrow> HdlcStatus + HdlcUnnumberedKind" where
  "UnnumberedKind c =
     (if FrameKind c \<noteq> Unnumbered then Inl HdlcStatus.InvalidFrameType
      else let selector = controlValue c AND 0xef
           in if selector = 0x83 then Inr Snrm
              else if selector = 0x63 then Inr Ua
              else if selector = 0x43 then Inr Disc
              else if selector = 0x0f then Inr Dm
              else if selector = 0x87 then Inr Frmr
              else if selector = 0x03 then Inr Ui
              else Inl HdlcStatus.InvalidControlField)"

definition SendSequence :: "HdlcControl \<Rightarrow> u8" where
  "SendSequence c =
     (if FrameKind c \<noteq> Information then 0 else drop_bit 1 (controlValue c) AND 7)"

definition ReceiveSequence :: "HdlcControl \<Rightarrow> u8" where
  "ReceiveSequence c =
     (if FrameKind c = Unnumbered then 0 else drop_bit 5 (controlValue c) AND 7)"

text \<open>A control object the decoder can have produced.\<close>

definition control_inv :: "HdlcControl \<Rightarrow> bool" where
  "control_inv c \<longleftrightarrow> HdlcControl_Decode (controlValue c) = Inr c"

subsection \<open>Decoding and classification agree\<close>

lemma HdlcControl_Decode_Inr: "HdlcControl_Decode v = Inr c \<Longrightarrow> controlValue c = v \<and> control_inv c"
  by (auto simp: HdlcControl_Decode_def control_inv_def split: if_splits)

lemma control_inv_default [simp]: "control_inv HdlcControl_default"
  by (simp add: control_inv_def HdlcControl_default_def HdlcControl_Decode_def)

lemma HdlcControl_Decode_inv [codec_simps]: "control_inv c \<Longrightarrow> HdlcControl_Decode (controlValue c) = Inr c"
  by (simp add: control_inv_def)

lemma two_bit_cases:
  fixes x :: u8
  obtains "x AND 3 = 0" | "x AND 3 = 1" | "x AND 3 = 2" | "x AND 3 = 3"
proof -
  from unat_and_3 [of x] consider "unat (x AND 3) = 0" | "unat (x AND 3) = 1" | "unat (x AND 3) = 2" | "unat (x AND 3) = 3"
    by linarith
  then show thesis
    using that by cases (auto simp: word_unat_eq_iff)
qed

text \<open>
  The kind accessors of a decoded control field never fail for frames of their kind, and
  fail with \<open>InvalidFrameType\<close> for the other kinds.
\<close>

lemma SupervisoryKind_total:
  "(\<exists>k. SupervisoryKind c = Inr k) \<longleftrightarrow> FrameKind c = Supervisory"
  by (rule two_bit_cases [of "drop_bit 2 (controlValue c)"]) (auto simp: SupervisoryKind_def Let_def)

lemma UnnumberedKind_total:
  assumes "control_inv c"
  shows "(\<exists>k. UnnumberedKind c = Inr k) \<longleftrightarrow> FrameKind c = Unnumbered"
  using assms
  by (auto simp: UnnumberedKind_def Let_def control_inv_def HdlcControl_Decode_def FrameKind_def
      IsSupportedUnnumbered_def split: if_splits)

lemma SendSequence_bound: "unat (SendSequence c) < 8"
  by (simp add: SendSequence_def unat_and_7)

lemma ReceiveSequence_bound: "unat (ReceiveSequence c) < 8"
  by (simp add: ReceiveSequence_def unat_and_7)

end
