(* ===== verification/Hdlc_Crc.thy ===== *)
theory Hdlc_Crc
  imports Hdlc_Address
begin

text \<open>
  The HDLC 16-bit frame check sequence (\<open>hdlc_crc.hpp\<close>, \<open>hdlc_crc.cpp\<close>), bit by bit as the
  source computes it. The theory shows that one bit step is linear and injective, that the
  register after two bytes is the register after sixteen steps on their little-endian word
  and after up to sixteen bits, wherever they begin, that many steps on their packed word,
  and from that what the check sequence is for: a burst of errors of at most sixteen bits
  is always detected, and a message followed by its own check sequence always leaves the
  register in the one good final state.
\<close>

definition kInitialFcs :: u16 where
  "kInitialFcs = 0xffff"

definition kPolynomial :: u16 where
  "kPolynomial = 0x8408"

text \<open>The body of the loop of \<open>UpdateCrc\<close>.\<close>

definition UpdateCrc_bit :: "u16 \<Rightarrow> u16" where
  "UpdateCrc_bit crc =
     (if crc AND 1 \<noteq> 0 then drop_bit 1 crc XOR kPolynomial else drop_bit 1 crc)"

definition UpdateCrc :: "u16 \<Rightarrow> u8 \<Rightarrow> u16" where
  "UpdateCrc crc value = (UpdateCrc_bit ^^ 8) (crc XOR ucast value)"

definition CalculateHdlcCrc :: "view \<Rightarrow> u16" where
  "CalculateHdlcCrc v =
     (if bad_view v then 0
      else foldl UpdateCrc kInitialFcs (view_bytes v) XOR 0xffff)"

definition ValidateHdlcCrc :: "view \<Rightarrow> u16 \<Rightarrow> HdlcStatus" where
  "ValidateHdlcCrc v expected =
     (if bad_view v then HdlcStatus.InvalidArgument
      else if CalculateHdlcCrc v \<noteq> expected then HdlcStatus.InvalidFrameChecksum
      else HdlcStatus.Ok)"

subsection \<open>The bit step is linear and injective\<close>

lemma UpdateCrc_bit_xor: "UpdateCrc_bit (a XOR b) = UpdateCrc_bit a XOR UpdateCrc_bit b"
proof -
  have "(a XOR b) AND 1 \<noteq> 0 \<longleftrightarrow> (a AND 1 \<noteq> 0) \<noteq> (b AND 1 \<noteq> 0)"
    unfolding and_1_bit by (simp add: bit_xor_iff)
  then show ?thesis
    unfolding UpdateCrc_bit_def by (auto simp: drop_bit_xor ac_simps)
qed

lemma UpdateCrc_bit_0 [simp]: "UpdateCrc_bit 0 = 0"
  by (simp add: UpdateCrc_bit_def)

lemma xor_eq_0_word: "(a :: 'a::len word) XOR b = 0 \<longleftrightarrow> a = b"
proof
  assume "a XOR b = 0"
  then have "bit (a XOR b) n = bit 0 n" for n by simp
  then show "a = b" by (intro bit_word_eqI) (simp add: bit_xor_iff)
qed simp

lemma xor_cancel_left: "(c :: 'a::len word) XOR (c XOR a) = a"
  by (simp flip: xor.assoc)

lemma xor_left_inj: "(c :: 'a::len word) XOR a = c XOR b \<longleftrightarrow> a = b"
  by (metis xor_cancel_left)

lemma xor_right_inj: "(a :: 'a::len word) XOR c = b XOR c \<longleftrightarrow> a = b"
  using xor_left_inj [of c a b] by (simp add: xor.commute)

lemma UpdateCrc_bit_even: "\<not> bit z 0 \<Longrightarrow> UpdateCrc_bit z = drop_bit 1 z"
  by (simp only: UpdateCrc_bit_def and_1_bit if_False)

lemma UpdateCrc_bit_odd: "bit z 0 \<Longrightarrow> UpdateCrc_bit z = drop_bit 1 z XOR kPolynomial"
  by (simp only: UpdateCrc_bit_def and_1_bit if_True)

text \<open>Evaluation on literals, from the inside out.\<close>

lemmas UpdateCrc_bit_numeral = UpdateCrc_bit_def [of "numeral n" for n]

lemma UpdateCrc_bit_1: "UpdateCrc_bit 1 = kPolynomial"
  by (simp add: UpdateCrc_bit_def)

lemma UpdateCrc_unfold:
  "UpdateCrc c b = UpdateCrc_bit (UpdateCrc_bit (UpdateCrc_bit (UpdateCrc_bit
     (UpdateCrc_bit (UpdateCrc_bit (UpdateCrc_bit (UpdateCrc_bit (c XOR ucast b))))))))"
  by (simp add: UpdateCrc_def eval_nat_numeral)

lemmas crc_eval = CalculateHdlcCrc_def UpdateCrc_unfold UpdateCrc_bit_1 UpdateCrc_bit_numeral
  kPolynomial_def kInitialFcs_def

lemma UpdateCrc_bit_eq_0:
  assumes "UpdateCrc_bit z = 0"
  shows "z = 0"
proof (cases "bit z 0")
  case True
  then have "drop_bit 1 z = kPolynomial"
    using assms by (simp only: UpdateCrc_bit_odd xor_eq_0_word)
  then have "bit (drop_bit 1 z) 15" by (simp add: kPolynomial_def)
  then have "bit z 16" by (simp add: bit_drop_bit_eq)
  then show ?thesis by simp
next
  case False
  then have "drop_bit 1 z = 0" using assms UpdateCrc_bit_even [of z] by simp
  then have "\<not> bit (drop_bit 1 z) n" for n by simp
  then have "\<not> bit z (Suc n)" for n by (simp add: bit_drop_bit_eq)
  with False have "\<not> bit z n" for n by (cases n) auto
  then show ?thesis by (intro bit_word_eqI) simp
qed

lemma UpdateCrc_bit_inj: "UpdateCrc_bit a = UpdateCrc_bit b \<longleftrightarrow> a = b"
  using UpdateCrc_bit_eq_0 [of "a XOR b"] by (auto simp: UpdateCrc_bit_xor xor_eq_0_word)

lemma UpdateCrc_bits_xor: "(UpdateCrc_bit ^^ n) (a XOR b) = (UpdateCrc_bit ^^ n) a XOR (UpdateCrc_bit ^^ n) b"
  by (induction n) (simp_all add: UpdateCrc_bit_xor)

lemma UpdateCrc_bits_inj: "(UpdateCrc_bit ^^ n) a = (UpdateCrc_bit ^^ n) b \<longleftrightarrow> a = b"
  by (induction n) (simp_all add: UpdateCrc_bit_inj)

text \<open>Where the low bits are zero, the steps only shift.\<close>

lemma UpdateCrc_bits_shift:
  "(\<And>i. i < n \<Longrightarrow> \<not> bit x i) \<Longrightarrow> (UpdateCrc_bit ^^ n) x = drop_bit n x"
proof (induction n)
  case 0
  then show ?case by simp
next
  case (Suc n)
  then have "(UpdateCrc_bit ^^ n) x = drop_bit n x" by simp
  moreover have "\<not> bit (drop_bit n x) 0" using Suc.prems by (simp add: bit_drop_bit_eq)
  ultimately show ?case
    by (simp add: UpdateCrc_bit_even del: bit_0)
qed

subsection \<open>Two bytes are sixteen steps\<close>

lemma UpdateCrc_two: "UpdateCrc (UpdateCrc c a) b = (UpdateCrc_bit ^^ 16) (c XOR be16_at b a)"
proof -
  have shift: "(UpdateCrc_bit ^^ 8) (push_bit 8 (ucast b)) = ucast b"
    by (subst UpdateCrc_bits_shift) (auto intro!: bit_word_eqI simp: bit_simps dest: bit_u8_less)
  have "be16_at b a = ucast a XOR push_bit 8 (ucast b)"
    unfolding be16_at_def by (rule bit_word_eqI) (auto simp: bit_simps)
  then have "c XOR be16_at b a = (c XOR ucast a) XOR push_bit 8 (ucast b)"
    by (simp add: xor.assoc)
  moreover have "(UpdateCrc_bit ^^ 16) x = (UpdateCrc_bit ^^ 8) ((UpdateCrc_bit ^^ 8) x)" for x
    using funpow_add [of 8 8 UpdateCrc_bit] by simp
  ultimately show ?thesis by (simp add: UpdateCrc_def UpdateCrc_bits_xor shift)
qed

lemma UpdateCrc_inj: "UpdateCrc c a = UpdateCrc d a \<longleftrightarrow> c = d"
  by (simp add: UpdateCrc_def UpdateCrc_bits_inj xor_right_inj)

lemma foldl_UpdateCrc_inj: "foldl UpdateCrc c bs = foldl UpdateCrc d bs \<longleftrightarrow> c = d"
  by (induction bs arbitrary: c d) (simp_all add: UpdateCrc_inj)

lemma CalculateHdlcCrc_inj:
  "CalculateHdlcCrc (View xs) = CalculateHdlcCrc (View ys) \<longleftrightarrow>
     foldl UpdateCrc kInitialFcs xs = foldl UpdateCrc kInitialFcs ys"
  by (simp add: CalculateHdlcCrc_def xor_right_inj)

subsection \<open>The bits on the wire\<close>

text \<open>
  A burst is a piece of the bit string that is transmitted, each byte with its least
  significant bit first, and need not begin at a byte boundary. Feeding the register bit
  by bit is what \<open>UpdateCrc\<close> does byte by byte, and up to sixteen bits are their packed word.
\<close>

definition bits_of :: "u8 list \<Rightarrow> bool list" where
  "bits_of bs = concat (map (\<lambda>b. map (bit b) [0..<8]) bs)"

definition feed :: "u16 \<Rightarrow> bool list \<Rightarrow> u16" where
  "feed c w = foldl (\<lambda>c b. UpdateCrc_bit (c XOR of_bool b)) c w"

definition packed :: "bool list \<Rightarrow> u16" where
  "packed w = horner_sum of_bool 2 w"

lemma feed_simps [simp]:
  "feed c [] = c" "feed c (v @ w) = feed (feed c v) w"
  by (simp_all add: feed_def)

lemma bits_of_simps [simp]:
  "bits_of [] = []" "bits_of (b # bs) = map (bit b) [0..<8] @ bits_of bs"
  by (simp_all add: bits_of_def)

lemma length_bits_of: "length (bits_of bs) = 8 * length bs"
  by (induction bs) simp_all

lemma bit_packed: "bit (packed w) n \<longleftrightarrow> n < 16 \<and> n < length w \<and> w ! n"
  by (simp add: packed_def bit_horner_sum_bit_iff)

lemma packed_snoc:
  assumes "length w < 16"
  shows "packed (w @ [b]) = packed w XOR push_bit (length w) (of_bool b)"
  using assms
  by (intro bit_word_eqI) (auto simp: bit_packed bit_simps nth_append)

lemma packed_inj:
  assumes "length w = length w'" "length w \<le> 16" "packed w = packed w'"
  shows "w = w'"
proof (rule nth_equalityI)
  fix i
  assume "i < length w"
  with assms(1,2) show "w ! i = w' ! i"
    using bit_packed [of w i] bit_packed [of w' i] assms(3) by simp
qed (rule assms(1))

lemma feed_packed: "length w \<le> 16 \<Longrightarrow> feed c w = (UpdateCrc_bit ^^ length w) (c XOR packed w)"
proof (induction w rule: rev_induct)
  case Nil
  then show ?case by (simp add: packed_def)
next
  case (snoc b w)
  have shift: "(UpdateCrc_bit ^^ length w) (push_bit (length w) (of_bool b)) = of_bool b"
    using snoc.prems
    by (subst UpdateCrc_bits_shift) (auto intro!: bit_word_eqI simp: bit_simps)
  have "feed c (w @ [b]) = UpdateCrc_bit ((UpdateCrc_bit ^^ length w) (c XOR packed w) XOR of_bool b)"
    using snoc by (simp add: feed_def)
  also have "\<dots> = UpdateCrc_bit ((UpdateCrc_bit ^^ length w) (c XOR packed (w @ [b])))"
    using snoc.prems by (simp add: packed_snoc UpdateCrc_bits_xor shift xor.assoc)
  finally show ?case by simp
qed

lemma packed_byte: "packed (map (bit b) [0..<8]) = ucast (b :: u8)"
proof (rule bit_word_eqI)
  fix n
  show "bit (packed (map (bit b) [0..<8])) n \<longleftrightarrow> bit (ucast b :: u16) n"
    by (cases "n < 8") (auto simp: bit_packed bit_simps dest: bit_u8_less simp del: upt.simps upt_Suc)
qed

lemma UpdateCrc_feed: "UpdateCrc c b = feed c (map (bit b) [0..<8])"
  using feed_packed [of "map (bit b) [0..<8]" c] by (simp add: UpdateCrc_def packed_byte del: upt.simps)

lemma foldl_UpdateCrc_feed: "foldl UpdateCrc c bs = feed c (bits_of bs)"
  by (induction bs arbitrary: c) (simp_all add: UpdateCrc_feed del: upt.simps)

lemma feed_inj: "feed c w = feed d w \<longleftrightarrow> c = d"
  by (induction w arbitrary: c d) (simp_all add: feed_def UpdateCrc_bit_inj xor_right_inj)

text \<open>
  The check sequence of two messages whose bits differ only inside a burst of at most
  sixteen bits is different.
\<close>

lemma CalculateHdlcCrc_burst:
  assumes "bits_of bs = pre @ w @ post" "bits_of bs' = pre @ w' @ post"
    and "length w = length w'" "length w \<le> 16" "w \<noteq> w'"
  shows "CalculateHdlcCrc (View bs) \<noteq> CalculateHdlcCrc (View bs')"
proof
  let ?c = "feed kInitialFcs pre"
  assume "CalculateHdlcCrc (View bs) = CalculateHdlcCrc (View bs')"
  then have "feed ?c w = feed ?c w'"
    using assms(1,2) by (simp add: CalculateHdlcCrc_inj foldl_UpdateCrc_feed feed_inj)
  then have "packed w = packed w'"
    using assms(3,4) by (simp add: feed_packed UpdateCrc_bits_inj xor_left_inj)
  then show False using assms(3-5) packed_inj by blast
qed

text \<open>
  A message followed by its own check sequence, low byte first as frames carry it, has
  the check value 0x0f47 whatever the message is.
\<close>

lemma CalculateHdlcCrc_residue:
  "CalculateHdlcCrc (View (bs @ le16 (CalculateHdlcCrc (View bs)))) = 0x0f47"
proof -
  let ?c = "foldl UpdateCrc kInitialFcs bs"
  have crc: "CalculateHdlcCrc (View bs) = ?c XOR 0xffff"
    by (simp add: CalculateHdlcCrc_def)
  have "foldl UpdateCrc ?c (le16 (?c XOR 0xffff)) = (UpdateCrc_bit ^^ 16) (?c XOR (?c XOR 0xffff))"
    using UpdateCrc_two [of ?c] be16_at_be16 [of "?c XOR 0xffff"] by (simp add: le16_def)
  also have "?c XOR (?c XOR 0xffff) = 0xffff" by (rule xor_cancel_left)
  also have "(UpdateCrc_bit ^^ 16) 0xffff = 0xf0b8"
    by (simp only: numeral_eq_Suc pred_numeral_simps BitM.simps funpow.simps comp_apply id_apply)
      (simp add: UpdateCrc_bit_numeral kPolynomial_def)
  finally have "foldl UpdateCrc kInitialFcs (bs @ le16 (CalculateHdlcCrc (View bs))) = 0xf0b8"
    by (simp add: crc)
  then show ?thesis by (simp add: CalculateHdlcCrc_def)
qed

end
