(* ===== verification/Hdlc_Codec.thy ===== *)
theory Hdlc_Codec
  imports Hdlc_Control Hdlc_Crc
begin

text \<open>
  The HDLC Type 3 frame codec (\<open>hdlc_types.hpp\<close>, \<open>hdlc_frame.hpp\<close>, \<open>hdlc_codec.cpp\<close>). The
  encoder stores bytes at increasing offsets of the output buffer and reads them back for
  the check sequences; the model keeps the bytes stored so far, so that the offset is their
  number. \<open>frame_wire\<close> is the specification of the frame format; the theory shows that the
  encoder produces it exactly when \<open>frame_status\<close> says so and which error it returns
  otherwise, that the decoder recovers the frame, that a frame with an information field has
  no other encoding, and that the decoder rejects a frame hit by a burst of errors.
\<close>

record HdlcCodecLimits =
  maximumFrameSize :: nat
  maximumInformationFieldSize :: nat
  maximumReassembledInformationSize :: nat

record HdlcFrame =
  frameSegmented :: bool
  frameDestination :: HdlcAddress
  frameSource :: HdlcAddress
  frameControl :: HdlcControl
  frameInformation :: view

record HdlcFrameBuffer =
  segmented :: bool
  destination :: HdlcAddress
  source :: HdlcAddress
  control :: HdlcControl
  information :: bytes

definition kHdlcFlag :: u8 where
  "kHdlcFlag = 0x7e"

definition kFrameFormatType3 :: u16 where
  "kFrameFormatType3 = 0xa000"

definition kSegmentationBit :: u16 where
  "kSegmentationBit = 0x0800"

definition kMaximumFormatFieldLength :: nat where
  "kMaximumFormatFieldLength = 2047"

definition EffectiveMaximumFrameSize :: "HdlcCodecLimits \<Rightarrow> nat" where
  "EffectiveMaximumFrameSize limits =
     (if maximumFrameSize limits = 0 then 2049 else maximumFrameSize limits)"

definition EffectiveMaximumInformationFieldSize :: "HdlcFrame \<Rightarrow> HdlcCodecLimits \<Rightarrow> nat" where
  "EffectiveMaximumInformationFieldSize frame limits =
     (if maximumInformationFieldSize limits \<noteq> 0 then maximumInformationFieldSize limits
      else let headerSize = 2 + encodedSize (frameDestination frame) + encodedSize (frameSource frame) + 1;
               maxFrame = EffectiveMaximumFrameSize limits
           in if maxFrame < 2 + headerSize + 2 + 2 then 0
              else maxFrame - 2 - headerSize - 2 - 2)"

definition DefaultHdlcCodecLimits :: HdlcCodecLimits where
  "DefaultHdlcCodecLimits =
     \<lparr>maximumFrameSize = 2049, maximumInformationFieldSize = 0, maximumReassembledInformationSize = 65535\<rparr>"

text \<open>
  \<open>EncodeFrameToBuffer\<close>: \<open>None\<close> is a null output pointer, \<open>Some n\<close> a buffer of \<open>n\<close> bytes.
  The result is the status, the written size and the bytes stored from the start of the
  buffer on.
\<close>

definition EncodeFrameToBuffer ::
    "HdlcFrame \<Rightarrow> HdlcCodecLimits \<Rightarrow> nat option \<Rightarrow> HdlcStatus \<times> nat \<times> bytes" where
  "EncodeFrameToBuffer frame limits output =
     (case output of None \<Rightarrow> (HdlcStatus.InvalidArgument, 0, [])
      | Some outputSize \<Rightarrow>
      if bad_view (frameInformation frame) then (HdlcStatus.InvalidArgument, 0, [])
      else if view_size (frameInformation frame) > EffectiveMaximumInformationFieldSize frame limits
        then (HdlcStatus.InformationFieldTooLarge, 0, [])
      else
        let hasInformation = (view_size (frameInformation frame) \<noteq> 0);
            headerSize = 2 + encodedSize (frameDestination frame) + encodedSize (frameSource frame) + 1;
            formatFieldLength = headerSize + (if hasInformation then 2 else 0)
              + view_size (frameInformation frame) + 2;
            fullFrameSize = formatFieldLength + 2
        in
        if formatFieldLength > kMaximumFormatFieldLength then (HdlcStatus.InvalidFrameLength, 0, [])
        else if fullFrameSize > EffectiveMaximumFrameSize limits then (HdlcStatus.FrameTooLarge, 0, [])
        else if outputSize < fullFrameSize then (HdlcStatus.OutputBufferTooSmall, fullFrameSize, [])
        else
          let frameFormat = kFrameFormatType3
                OR (if frameSegmented frame then kSegmentationBit else 0)
                OR word_of_nat formatFieldLength;
              out0 = [kHdlcFlag] @ be16 frameFormat
          in
          case HdlcAddress_Encode (frameDestination frame) (Some (outputSize - length out0)) of
            Inl status \<Rightarrow> (status, 0, out0)
          | Inr dst \<Rightarrow>
          let out1 = out0 @ dst in
          (case HdlcAddress_Encode (frameSource frame) (Some (outputSize - length out1)) of
            Inl status \<Rightarrow> (status, 0, out1)
          | Inr src \<Rightarrow>
          let out2 = out1 @ src in
          (case HdlcControl_Encode (frameControl frame) of
            Inl status \<Rightarrow> (status, 0, out2)
          | Inr ctl \<Rightarrow>
          let out3 = out2 @ [ctl];
              out4 = (if hasInformation
                then out3 @ le16 (CalculateHdlcCrc (View (take headerSize (drop 1 out3))))
                  @ view_bytes (frameInformation frame)
                else out3);
              out5 = out4 @ le16 (CalculateHdlcCrc (View (take (formatFieldLength - 2) (drop 1 out4))));
              out6 = out5 @ [kHdlcFlag]
          in (HdlcStatus.Ok, length out6, out6))))"

text \<open>\<open>EncodeFrame\<close> into a vector; allocation is taken to succeed.\<close>

definition EncodeFrame :: "HdlcFrame \<Rightarrow> HdlcCodecLimits \<Rightarrow> HdlcStatus + bytes" where
  "EncodeFrame frame limits =
     (case EncodeFrameToBuffer frame limits (Some (EffectiveMaximumFrameSize limits)) of
        (status, writtenSize, output) \<Rightarrow>
          if status \<noteq> HdlcStatus.Ok then Inl status else Inr (take writtenSize output))"

text \<open>
  \<open>DecodeFrameFromBuffer\<close>: \<open>infoNull\<close> and \<open>infoSize\<close> describe the caller's information
  buffer; the result is the decoded frame view, whose information bytes are the bytes copied
  into that buffer.
\<close>

definition DecodeFrameFromBuffer ::
    "view \<Rightarrow> HdlcCodecLimits \<Rightarrow> bool \<Rightarrow> nat \<Rightarrow> HdlcStatus + HdlcFrame" where
  "DecodeFrameFromBuffer input limits infoNull infoSize =
     (if view_null input then Inl HdlcStatus.InvalidArgument
      else if infoNull \<and> infoSize \<noteq> 0 then Inl HdlcStatus.InvalidArgument
      else if view_size input < 4 then Inl HdlcStatus.NeedMoreData
      else if view_bytes input ! 0 \<noteq> kHdlcFlag then Inl HdlcStatus.InvalidFlag
      else
        let inp = view_bytes input;
            frameFormat = be16_at (inp ! 1) (inp ! 2)
        in
        if frameFormat AND 0xf000 \<noteq> kFrameFormatType3 then Inl HdlcStatus.InvalidFrameFormat
        else
          let seg = (frameFormat AND kSegmentationBit \<noteq> 0);
              formatFieldLength = unat (frameFormat AND 0x07ff);
              fullFrameSize = formatFieldLength + 2
          in
          if formatFieldLength < 6 then Inl HdlcStatus.InvalidFrameLength
          else if formatFieldLength > kMaximumFormatFieldLength then Inl HdlcStatus.InvalidFrameLength
          else if fullFrameSize > EffectiveMaximumFrameSize limits then Inl HdlcStatus.FrameTooLarge
          else if view_size input < fullFrameSize then Inl HdlcStatus.NeedMoreData
          else if view_size input \<noteq> fullFrameSize then Inl HdlcStatus.InvalidFrameLength
          else if inp ! (fullFrameSize - 1) \<noteq> kHdlcFlag then Inl HdlcStatus.InvalidFlag
          else
          case FromBytes (View (take (fullFrameSize - 1 - 3) (drop 3 inp))) of
            Inl status \<Rightarrow> Inl status
          | Inr (dst, consumed1) \<Rightarrow>
          let offset1 = 3 + consumed1 in
          (case FromBytes (View (take (fullFrameSize - 1 - offset1) (drop offset1 inp))) of
            Inl status \<Rightarrow> Inl status
          | Inr (src, consumed2) \<Rightarrow>
          let offset2 = offset1 + consumed2 in
          if offset2 \<ge> fullFrameSize - 3 then Inl HdlcStatus.InvalidFrameLength
          else
          (case HdlcControl_Decode (inp ! offset2) of
            Inl status \<Rightarrow> Inl status
          | Inr ctl \<Rightarrow>
          let offset3 = offset2 + 1;
              headerSize = offset3 - 1;
              bytesBeforeFcs = fullFrameSize - 3 - offset3
          in
          if bytesBeforeFcs = 1 then Inl HdlcStatus.InvalidFrameLength
          else
          let hasInformation = (bytesBeforeFcs \<noteq> 0) in
          if hasInformation \<and> CalculateHdlcCrc (View (take headerSize (drop 1 inp)))
              \<noteq> be16_at (inp ! (offset3 + 1)) (inp ! offset3)
            then Inl HdlcStatus.InvalidHeaderChecksum
          else
          let offset4 = (if hasInformation then offset3 + 2 else offset3) in
          if CalculateHdlcCrc (View (take (formatFieldLength - 2) (drop 1 inp)))
              \<noteq> be16_at (inp ! (fullFrameSize - 2)) (inp ! (fullFrameSize - 3))
            then Inl HdlcStatus.InvalidFrameChecksum
          else
          let decodedInformationSize = (if hasInformation then fullFrameSize - 3 - offset4 else 0) in
          if decodedInformationSize > infoSize then Inl HdlcStatus.OutputBufferTooSmall
          else
          let decoded = \<lparr>frameSegmented = seg, frameDestination = dst, frameSource = src,
                frameControl = ctl,
                frameInformation = (if infoNull then NullView decodedInformationSize
                  else View (take decodedInformationSize (drop offset4 inp)))\<rparr>
          in
          if decodedInformationSize > EffectiveMaximumInformationFieldSize decoded limits
            then Inl HdlcStatus.InformationFieldTooLarge
          else Inr decoded)))"

definition DecodeFrame :: "view \<Rightarrow> HdlcCodecLimits \<Rightarrow> HdlcStatus + HdlcFrameBuffer" where
  "DecodeFrame input limits =
     (case DecodeFrameFromBuffer input limits False (EffectiveMaximumFrameSize limits) of
        Inl status \<Rightarrow> Inl status
      | Inr decoded \<Rightarrow> Inr \<lparr>segmented = frameSegmented decoded,
          destination = frameDestination decoded, source = frameSource decoded,
          control = frameControl decoded, information = view_bytes (frameInformation decoded)\<rparr>)"

subsection \<open>The frame format\<close>

definition frame_inv :: "HdlcFrameBuffer \<Rightarrow> bool" where
  "frame_inv f \<longleftrightarrow> address_inv (destination f) \<and> address_inv (source f) \<and> control_inv (control f)"

definition header_size :: "HdlcFrameBuffer \<Rightarrow> nat" where
  "header_size f = 3 + encodedSize (destination f) + encodedSize (source f)"

definition format_length :: "HdlcFrameBuffer \<Rightarrow> nat" where
  "format_length f = header_size f + (if information f = [] then 0 else 2) + length (information f) + 2"

definition frame_format :: "HdlcFrameBuffer \<Rightarrow> u16" where
  "frame_format f =
     kFrameFormatType3 OR (if segmented f then kSegmentationBit else 0) OR word_of_nat (format_length f)"

definition frame_header :: "HdlcFrameBuffer \<Rightarrow> bytes" where
  "frame_header f = be16 (frame_format f) @ address_bytes (destination f) @ address_bytes (source f)
     @ [controlValue (control f)]"

definition frame_body :: "HdlcFrameBuffer \<Rightarrow> bytes" where
  "frame_body f = frame_header f
     @ (if information f = [] then []
        else le16 (CalculateHdlcCrc (View (frame_header f))) @ information f)"

definition frame_wire :: "HdlcFrameBuffer \<Rightarrow> bytes" where
  "frame_wire f = [kHdlcFlag] @ frame_body f @ le16 (CalculateHdlcCrc (View (frame_body f))) @ [kHdlcFlag]"

text \<open>The frame view an encoder is called with for a frame buffer.\<close>

definition as_frame :: "HdlcFrameBuffer \<Rightarrow> HdlcFrame" where
  "as_frame f = \<lparr>frameSegmented = segmented f, frameDestination = destination f,
     frameSource = source f, frameControl = control f, frameInformation = view_of (information f)\<rparr>"

definition frame_status :: "HdlcFrameBuffer \<Rightarrow> HdlcCodecLimits \<Rightarrow> HdlcStatus" where
  "frame_status f limits =
     (if length (information f) > EffectiveMaximumInformationFieldSize (as_frame f) limits
        then HdlcStatus.InformationFieldTooLarge
      else if format_length f > kMaximumFormatFieldLength then HdlcStatus.InvalidFrameLength
      else if format_length f + 2 > EffectiveMaximumFrameSize limits then HdlcStatus.FrameTooLarge
      else HdlcStatus.Ok)"

lemma length_frame_header [simp]: "length (frame_header f) = header_size f"
  by (simp add: frame_header_def header_size_def)

lemma length_frame_body [simp]: "length (frame_body f) = format_length f - 2"
  by (simp add: frame_body_def format_length_def)

lemma length_frame_wire [simp]: "length (frame_wire f) = format_length f + 2"
  by (simp add: frame_wire_def format_length_def)

subsection \<open>Encoding\<close>

lemma EncodeFrame_frame_wire:
  "EncodeFrame (as_frame f) limits =
     (if frame_status f limits = HdlcStatus.Ok then Inr (frame_wire f) else Inl (frame_status f limits))"
proof (cases "frame_status f limits = HdlcStatus.Ok")
  case True
  let ?full = "EffectiveMaximumFrameSize limits"
  have *: "\<not> length (information f) > EffectiveMaximumInformationFieldSize (as_frame f) limits"
    "\<not> format_length f > kMaximumFormatFieldLength" "\<not> format_length f + 2 > ?full"
    using True by (auto simp: frame_status_def split: if_splits)
  have sizes: "header_size f = 2 + encodedSize (destination f) + encodedSize (source f) + 1"
    by (simp add: header_size_def)
  have dst: "encodedSize (destination f) \<le> ?full - 3"
    and src: "encodedSize (source f) \<le> ?full - (3 + encodedSize (destination f))"
    using *(3) by (auto simp: format_length_def header_size_def)
  note defs = EncodeFrame_def EncodeFrameToBuffer_def Let_def HdlcControl_Encode_def frame_wire_def
    frame_body_def frame_header_def frame_format_def format_length_def header_size_def as_frame_def
  show ?thesis
  proof (cases "information f = []")
    case True
    with * dst src \<open>frame_status f limits = HdlcStatus.Ok\<close> show ?thesis by (simp add: defs)
  next
    case False
    with * dst src \<open>frame_status f limits = HdlcStatus.Ok\<close> show ?thesis by (simp add: defs)
  qed
next
  case False
  then show ?thesis
    by (auto simp: EncodeFrame_def EncodeFrameToBuffer_def Let_def frame_status_def
        format_length_def header_size_def as_frame_def)
qed

subsection \<open>The frame format field\<close>

lemma nat_bits_2047: "n \<le> 2047 \<Longrightarrow> 11 \<le> k \<Longrightarrow> \<not> bit (n :: nat) k"
proof -
  assume "n \<le> 2047" "11 \<le> k"
  then have "n < 2 ^ 11" "(2::nat) ^ 11 \<le> 2 ^ k" by (simp, intro power_increasing) auto
  then show ?thesis by (simp add: bit_iff_odd)
qed

lemma bit_format_length:
  "n \<le> 2047 \<Longrightarrow> bit (word_of_nat n :: u16) k \<longleftrightarrow> k < 11 \<and> bit n k"
  using nat_bits_2047 [of n k] by (auto simp: bit_simps not_le [symmetric])

lemma format_length_masks:
  assumes "n \<le> 2047"
  shows "word_of_nat n AND 0xf000 = (0 :: u16)" "word_of_nat n AND 0x0800 = (0 :: u16)"
    and "word_of_nat n AND 0x7ff = (word_of_nat n :: u16)"
proof -
  have "word_of_nat n AND push_bit 12 (0xf :: u16) = 0" "word_of_nat n AND push_bit 11 (1 :: u16) = 0"
    by (auto intro!: bit_word_eqI simp: bit_and_iff bit_push_bit_iff bit_format_length [OF assms]
        simp del: push_bit_numeral push_bit_of_1)
  then show "word_of_nat n AND 0xf000 = (0 :: u16)" "word_of_nat n AND 0x0800 = (0 :: u16)" by simp_all
  show "word_of_nat n AND 0x7ff = (word_of_nat n :: u16)"
    unfolding mask_simps
    by (rule bit_word_eqI) (auto simp: bit_take_bit_iff bit_format_length [OF assms])
qed

lemma format_bits:
  fixes seg :: bool and n :: nat
  assumes "n \<le> 2047"
  defines "fmt \<equiv> kFrameFormatType3 OR (if seg then kSegmentationBit else 0) OR word_of_nat n"
  shows "fmt AND 0xf000 = kFrameFormatType3"
    and "fmt AND kSegmentationBit \<noteq> 0 \<longleftrightarrow> seg"
    and "unat (fmt AND 0x07ff) = n"
  using assms(1) format_length_masks [OF assms(1)]
  by (simp_all add: fmt_def kFrameFormatType3_def kSegmentationBit_def bit.conj_disj_distrib2 unat_of_nat)

subsection \<open>Decoding an encoded frame\<close>

text \<open>What lies between the control field and the closing flag.\<close>

definition frame_tail :: "HdlcFrameBuffer \<Rightarrow> bytes" where
  "frame_tail f = (if information f = [] then []
     else le16 (CalculateHdlcCrc (View (frame_header f))) @ information f)
     @ le16 (CalculateHdlcCrc (View (frame_body f)))"

lemma frame_wire_split:
  "frame_wire f = [kHdlcFlag] @ be16 (frame_format f) @ address_bytes (destination f)
     @ address_bytes (source f) @ [controlValue (control f)] @ frame_tail f @ [kHdlcFlag]"
  by (simp add: frame_wire_def frame_body_def frame_header_def frame_tail_def)

lemma length_frame_tail: "length (frame_tail f) + header_size f = format_length f"
  by (simp add: frame_tail_def format_length_def)

lemma frame_inv_sizes:
  "frame_inv f \<Longrightarrow> 1 \<le> encodedSize (destination f) \<and> 1 \<le> encodedSize (source f) \<and> 6 \<le> format_length f"
  by (auto simp: frame_inv_def address_inv_def IsSupportedEncodedSize_def header_size_def format_length_def)

text \<open>The fields of an encoded frame, at the offsets the decoder looks for them.\<close>

lemma frame_wire_flags:
  "frame_wire f ! 0 = kHdlcFlag"
  "frame_inv f \<Longrightarrow> frame_wire f ! (format_length f + 2 - 1) = kHdlcFlag"
proof -
  show "frame_wire f ! 0 = kHdlcFlag" by (simp add: frame_wire_def)
  assume "frame_inv f"
  then show "frame_wire f ! (format_length f + 2 - 1) = kHdlcFlag"
    by (intro nth_at [of _ "[kHdlcFlag] @ frame_body f @ le16 (CalculateHdlcCrc (View (frame_body f)))" _ "[]"])
      (auto simp: frame_wire_def dest: frame_inv_sizes)
qed

lemma frame_wire_format: "be16_at (frame_wire f ! 1) (frame_wire f ! 2) = frame_format f"
  by (simp add: frame_wire_split be16_def numeral_2_eq_2 del: One_nat_def)

lemma frame_wire_destination:
  assumes "frame_inv f"
  shows "FromBytes (View (take (format_length f + 2 - 1 - 3) (drop 3 (frame_wire f)))) =
    Inr (destination f, encodedSize (destination f))"
proof -
  have "take (format_length f + 2 - 1 - 3) (drop 3 (frame_wire f)) = address_bytes (destination f)
      @ (address_bytes (source f) @ [controlValue (control f)] @ frame_tail f)"
    by (rule take_drop_at [of _ "[kHdlcFlag] @ be16 (frame_format f)" _ "[kHdlcFlag]"])
      (use length_frame_tail [of f] in \<open>simp_all add: frame_wire_split header_size_def\<close>)
  then show ?thesis using assms by (simp add: FromBytes_address_bytes frame_inv_def)
qed

lemma frame_wire_source:
  assumes "frame_inv f"
  defines "o1 \<equiv> 3 + encodedSize (destination f)"
  shows "FromBytes (View (take (format_length f + 2 - 1 - o1) (drop o1 (frame_wire f)))) =
    Inr (source f, encodedSize (source f))"
proof -
  have "take (format_length f + 2 - 1 - o1) (drop o1 (frame_wire f)) = address_bytes (source f)
      @ ([controlValue (control f)] @ frame_tail f)"
    by (rule take_drop_at [of _ "[kHdlcFlag] @ be16 (frame_format f) @ address_bytes (destination f)"
          _ "[kHdlcFlag]"])
      (use length_frame_tail [of f] in \<open>simp_all add: frame_wire_split header_size_def o1_def\<close>)
  then show ?thesis using assms by (simp add: FromBytes_address_bytes frame_inv_def)
qed

lemma frame_wire_control: "frame_wire f ! header_size f = controlValue (control f)"
  by (rule nth_at [of _ "[kHdlcFlag] @ be16 (frame_format f) @ address_bytes (destination f)
        @ address_bytes (source f)" _ "frame_tail f @ [kHdlcFlag]"])
    (simp_all add: frame_wire_split header_size_def)

lemma frame_wire_covered:
  "take (header_size f) (drop 1 (frame_wire f)) = frame_header f"
  "take (format_length f - 2) (drop 1 (frame_wire f)) = frame_body f"
proof -
  show "take (header_size f) (drop 1 (frame_wire f)) = frame_header f"
    by (rule take_drop_at [of _ "[kHdlcFlag]" _ "frame_tail f @ [kHdlcFlag]"])
      (simp_all add: frame_wire_split frame_header_def header_size_def)
  show "take (format_length f - 2) (drop 1 (frame_wire f)) = frame_body f"
    by (rule take_drop_at [of _ "[kHdlcFlag]" _
          "le16 (CalculateHdlcCrc (View (frame_body f))) @ [kHdlcFlag]"]) (simp_all add: frame_wire_def)
qed

text \<open>A check sequence stored low byte first after a prefix is read back.\<close>

lemma le16_at:
  assumes "w = P @ le16 v @ Q" "length P = n"
  shows "be16_at (w ! (n + 1)) (w ! n) = v"
proof -
  have "w ! n = ucast (v AND 0xff)" "w ! (n + 1) = ucast (drop_bit 8 v AND 0xff)"
    using assms by (auto simp: le16_def nth_append)
  then show ?thesis by simp
qed

lemma frame_wire_fcs:
  assumes "frame_inv f"
  shows "be16_at (frame_wire f ! (format_length f + 2 - 2)) (frame_wire f ! (format_length f + 2 - 3)) =
    CalculateHdlcCrc (View (frame_body f))"
proof -
  have idx: "format_length f + 2 - 2 = format_length f + 2 - 3 + 1"
    using frame_inv_sizes [OF assms] by linarith
  show ?thesis unfolding idx
    by (rule le16_at [of _ "[kHdlcFlag] @ frame_body f" _ "[kHdlcFlag]"])
      (use frame_inv_sizes [OF assms] in \<open>auto simp: frame_wire_def\<close>)
qed

lemma frame_wire_hcs:
  assumes "information f \<noteq> []"
  shows "be16_at (frame_wire f ! (header_size f + 1 + 1)) (frame_wire f ! (header_size f + 1)) =
      CalculateHdlcCrc (View (frame_header f))"
    and "take (length (information f)) (drop (header_size f + 1 + 2) (frame_wire f)) = information f"
proof -
  let ?hcs = "CalculateHdlcCrc (View (frame_header f))"
  let ?fcs = "CalculateHdlcCrc (View (frame_body f))"
  have w: "frame_wire f = ([kHdlcFlag] @ frame_header f) @ le16 ?hcs @ information f @ le16 ?fcs @ [kHdlcFlag]"
    using assms by (simp add: frame_wire_def frame_body_def)
  from le16_at [OF w, of "header_size f + 1"]
  show "be16_at (frame_wire f ! (header_size f + 1 + 1)) (frame_wire f ! (header_size f + 1)) = ?hcs"
    by simp
  show "take (length (information f)) (drop (header_size f + 1 + 2) (frame_wire f)) = information f"
    by (rule take_drop_at [of _ "[kHdlcFlag] @ frame_header f @ le16 ?hcs" _ "le16 ?fcs @ [kHdlcFlag]"])
      (simp_all add: w)
qed

lemma EffectiveMaximumInformationFieldSize_as_frame:
  "EffectiveMaximumInformationFieldSize
      \<lparr>frameSegmented = g, frameDestination = destination f, frameSource = source f,
        frameControl = c, frameInformation = v\<rparr> limits
    = EffectiveMaximumInformationFieldSize (as_frame f) limits"
  by (simp add: EffectiveMaximumInformationFieldSize_def as_frame_def)

lemma DecodeFrame_frame_wire [codec_simps]:
  assumes inv: "frame_inv f" and status: "frame_status f limits = HdlcStatus.Ok"
  shows "DecodeFrame (View (frame_wire f)) limits = Inr f"
proof -
  let ?w = "frame_wire f" and ?fl = "format_length f"
  have h: "3 + encodedSize (destination f) + encodedSize (source f) = header_size f"
    by (simp add: header_size_def)
  have lim: "length (information f) \<le> EffectiveMaximumInformationFieldSize (as_frame f) limits"
    "?fl \<le> 2047" "?fl + 2 \<le> EffectiveMaximumFrameSize limits"
    using status by (auto simp: frame_status_def kMaximumFormatFieldLength_def split: if_splits)
  have fl: "?fl = header_size f + 2 + (if information f = [] then 0 else 2 + length (information f))"
    by (simp add: format_length_def)
  have fb: "frame_format f AND 0xf000 = kFrameFormatType3"
    "frame_format f AND kSegmentationBit \<noteq> 0 \<longleftrightarrow> segmented f"
    "unat (frame_format f AND 0x07ff) = ?fl"
    using format_bits [OF lim(2), of "segmented f"] by (simp_all add: frame_format_def)
  have size: "view_size (View ?w) = ?fl + 2" "header_size f + 1 - 1 = header_size f" by simp_all
  have guards: "\<not> ?fl + 2 < 4" "\<not> ?fl < 6" "\<not> ?fl + 2 > EffectiveMaximumFrameSize limits"
    "\<not> header_size f \<ge> ?fl + 2 - 3" "\<not> ?fl > kMaximumFormatFieldLength"
    using fl lim frame_inv_sizes [OF inv] by (auto simp: kMaximumFormatFieldLength_def)
  note steps = frame_wire_flags(1) frame_wire_flags(2) [OF inv] frame_wire_format h fb size guards
    frame_wire_destination [OF inv] frame_wire_source [OF inv] frame_wire_control frame_wire_covered
    frame_wire_fcs [OF inv] HdlcControl_Decode_inv [OF inv [unfolded frame_inv_def, THEN conjunct2, THEN conjunct2]]
    EffectiveMaximumInformationFieldSize_as_frame
    view_null.simps view_bytes.simps not_True_eq_False not_False_eq_True simp_thms if_True if_False
    sum.case prod.case DecodeFrame_def DecodeFrameFromBuffer_def Let_def HdlcFrame.simps
  show ?thesis
  proof (cases "information f = []")
    case True
    then have b: "?fl + 2 - 3 - (header_size f + 1) = 0" using fl by simp
    have n: "(0 \<noteq> (0::nat)) = False" "(0 = (1::nat)) = False" "\<not> (0::nat) > m" "take 0 xs = []" for m xs by auto
    show ?thesis by (simp only: steps b n) (simp add: True)
  next
    case False
    then have b: "?fl + 2 - 3 - (header_size f + 1) = 2 + length (information f)"
        "?fl + 2 - 3 - (header_size f + 1 + 2) = length (information f)"
      using fl by simp_all
    have n: "(2 + m \<noteq> 0) = True" "(2 + m = (1::nat)) = False" for m :: nat by auto
    have g: "\<not> length (information f) > EffectiveMaximumFrameSize limits"
      "\<not> length (information f) > EffectiveMaximumInformationFieldSize (as_frame f) limits"
      using lim fl by (auto split: if_splits)
    show ?thesis by (simp only: steps b n g frame_wire_hcs [OF False]) simp
  qed
qed

subsection \<open>What a successful decoding says of the input\<close>

text \<open>
  The images of a frame: the one the encoder produces and, for a frame without information
  field, also the one with a redundant header check sequence.
\<close>

definition frame_image :: "bool \<Rightarrow> HdlcFrameBuffer \<Rightarrow> bytes" where
  "frame_image hcs f =
     (let n = header_size f + (if hcs then 2 else 0) + length (information f) + 2;
          header = be16 (kFrameFormatType3 OR (if segmented f then kSegmentationBit else 0) OR word_of_nat n)
            @ address_bytes (destination f) @ address_bytes (source f) @ [controlValue (control f)];
          body = header @ (if hcs then le16 (CalculateHdlcCrc (View header)) else []) @ information f
      in [kHdlcFlag] @ body @ le16 (CalculateHdlcCrc (View body)) @ [kHdlcFlag])"

lemma frame_wire_image: "frame_wire f = frame_image (information f \<noteq> []) f"
  by (simp add: frame_image_def frame_wire_def frame_body_def frame_header_def frame_format_def
      format_length_def Let_def)

lemma format_of_bits:
  assumes "w AND 0xf000 = kFrameFormatType3"
  shows "w = kFrameFormatType3 OR (if w AND kSegmentationBit \<noteq> 0 then kSegmentationBit else 0)
    OR word_of_nat (unat (w AND 0x07ff))"
proof -
  have "(0xffff :: u16) = -1" by simp
  then have "w AND 0xffff = w" by (simp only: and.right_neutral)
  then have "w = w AND (0xf000 OR 0x0800 OR 0x07ff)" by simp
  also have "\<dots> = w AND 0xf000 OR w AND 0x0800 OR w AND 0x07ff"
    by (simp only: bit.conj_disj_distrib or.assoc)
  finally have w: "w = w AND 0xf000 OR w AND 0x0800 OR w AND 0x07ff" .
  have "w AND push_bit 11 1 = (if bit w 11 then push_bit 11 1 else 0)"
    by (rule bit_word_eqI) (auto simp: bit_and_iff bit_push_bit_iff bit_1_iff simp del: push_bit_of_1)
  then have "w AND 0x0800 = (if w AND 0x0800 \<noteq> 0 then 0x0800 else 0)" by (simp split: if_splits)
  with w assms show ?thesis
    by (cases "w AND 0x0800 = 0") (simp_all add: kSegmentationBit_def)
qed

lemma take_drop_Cons: "n < length xs \<Longrightarrow> drop n xs = xs ! n # drop (Suc n) xs"
  by (rule Cons_nth_drop_Suc [symmetric])

lemma drop_split: "m \<le> n \<Longrightarrow> drop m xs = take (n - m) (drop m xs) @ drop n xs"
  using append_take_drop_id [of "n - m" "drop m xs"] by simp

text \<open>The facts a successful run of the decoder leaves behind, in the order of its tests.\<close>

lemma DecodeFrameFromBuffer_Inr:
  assumes "DecodeFrameFromBuffer (View bs) limits False m = Inr fr"
  defines "w \<equiv> be16_at (bs ! 1) (bs ! 2)"
  defines "n \<equiv> unat (w AND 0x07ff)"
  obtains dst c1 src c2 ctl h k where
    "length bs = n + 2" "6 \<le> n" "n \<le> kMaximumFormatFieldLength" "n + 2 \<le> EffectiveMaximumFrameSize limits"
    "bs ! 0 = kHdlcFlag" "bs ! (n + 1) = kHdlcFlag" "w AND 0xf000 = kFrameFormatType3"
    "FromBytes (View (take (n + 1 - 3) (drop 3 bs))) = Inr (dst, c1)"
    "FromBytes (View (take (n + 1 - (3 + c1)) (drop (3 + c1) bs))) = Inr (src, c2)"
    "h = 3 + c1 + c2" "h < n - 1" "HdlcControl_Decode (bs ! h) = Inr ctl"
    "n - 1 - (h + 1) \<noteq> 1" "k = n - 1 - (h + 1)"
    "k = 0 \<or> CalculateHdlcCrc (View (take h (drop 1 bs))) = be16_at (bs ! (h + 1 + 1)) (bs ! (h + 1))"
    "CalculateHdlcCrc (View (take (n - 2) (drop 1 bs))) = be16_at (bs ! n) (bs ! (n - 1))"
    "k - 2 \<le> m" "k - 2 \<le> EffectiveMaximumInformationFieldSize fr limits"
    "fr = \<lparr>frameSegmented = w AND kSegmentationBit \<noteq> 0, frameDestination = dst, frameSource = src,
       frameControl = ctl, frameInformation = View (take (k - 2) (drop (h + 3) bs))\<rparr>"
proof -
  have arith: "n + 2 - 1 = n + 1" "n + 2 - 2 = n" "n + 2 - 3 = n - 1" "(x::nat) + 1 - 1 = x"
    "(if n - 1 - (x + 1) \<noteq> 0 then n - 1 - (if n - 1 - (x + 1) \<noteq> 0 then x + 1 + 2 else x + 1) else 0)
      = n - 1 - (x + 1) - 2"
    "take (n - 1 - (x + 1) - 2) (drop (if n - 1 - (x + 1) \<noteq> 0 then x + 1 + 2 else x + 1) bs) =
      take (n - 1 - (x + 1) - 2) (drop (x + 3) bs)" for x
    by (auto simp: numeral_3_eq_3)
  note run = assms(1) [unfolded DecodeFrameFromBuffer_def Let_def chain_Inr view_size.simps view_bytes.simps,
    folded w_def, folded n_def, unfolded arith if_False sum.inject not_less not_le not_not de_Morgan_conj]
  show thesis
    using run by (elim conjE exE) (rule that, (assumption | rule refl | simp only: simp_thms)+)
qed

lemma le16_of_be16_at: "v = be16_at b a \<Longrightarrow> le16 v = [a, b]"
  by simp

lemma DecodeFrame_sound:
  assumes "DecodeFrame (View bs) limits = Inr f"
  shows "frame_inv f \<and> length bs \<le> EffectiveMaximumFrameSize limits \<and> length bs \<le> 2049
    \<and> length (information f) \<le> EffectiveMaximumInformationFieldSize (as_frame f) limits
    \<and> (\<exists>hcs. (information f \<noteq> [] \<longrightarrow> hcs) \<and> bs = frame_image hcs f)"
proof -
  define w where "w = be16_at (bs ! 1) (bs ! 2)"
  define n where "n = unat (w AND 0x07ff)"
  from assms obtain fr where run: "DecodeFrameFromBuffer (View bs) limits False (EffectiveMaximumFrameSize limits) = Inr fr"
    and f: "f = \<lparr>segmented = frameSegmented fr, destination = frameDestination fr, source = frameSource fr,
          control = frameControl fr, information = view_bytes (frameInformation fr)\<rparr>"
    by (auto simp: DecodeFrame_def chain_Inr)
  obtain dst c1 src c2 ctl h k where
    size: "length bs = n + 2" "6 \<le> n" "n \<le> kMaximumFormatFieldLength" "n + 2 \<le> EffectiveMaximumFrameSize limits"
    and flags: "bs ! 0 = kHdlcFlag" "bs ! (n + 1) = kHdlcFlag"
    and fmt: "w AND 0xf000 = kFrameFormatType3"
    and dst: "FromBytes (View (take (n + 1 - 3) (drop 3 bs))) = Inr (dst, c1)"
    and src: "FromBytes (View (take (n + 1 - (3 + c1)) (drop (3 + c1) bs))) = Inr (src, c2)"
    and h: "h = 3 + c1 + c2" "h < n - 1" and ctl: "HdlcControl_Decode (bs ! h) = Inr ctl"
    and k: "n - 1 - (h + 1) \<noteq> 1" "k = n - 1 - (h + 1)"
    and hcs: "k = 0 \<or> CalculateHdlcCrc (View (take h (drop 1 bs))) = be16_at (bs ! (h + 1 + 1)) (bs ! (h + 1))"
    and fcs: "CalculateHdlcCrc (View (take (n - 2) (drop 1 bs))) = be16_at (bs ! n) (bs ! (n - 1))"
    and lim: "k - 2 \<le> EffectiveMaximumInformationFieldSize fr limits"
    and fr: "fr = \<lparr>frameSegmented = w AND kSegmentationBit \<noteq> 0, frameDestination = dst, frameSource = src,
       frameControl = ctl, frameInformation = View (take (k - 2) (drop (h + 3) bs))\<rparr>"
    by (rule DecodeFrameFromBuffer_Inr [OF run, folded w_def, folded n_def])
  from FromBytes_sound [OF dst] have d: "address_inv dst" "c1 = encodedSize dst" "take c1 (drop 3 bs) = address_bytes dst"
    by (auto simp: min_def split: if_splits)
  from FromBytes_sound [OF src] have s: "address_inv src" "c2 = encodedSize src"
    "take c2 (drop (3 + c1) bs) = address_bytes src"
    by (auto simp: min_def split: if_splits)
  from HdlcControl_Decode_Inr [OF ctl] have c: "controlValue ctl = bs ! h" "control_inv ctl" by auto
  have hs: "header_size f = h" using f fr d(2) s(2) h(1) by (simp add: header_size_def)
  have info: "information f = take (k - 2) (drop (h + 3) bs)" using f fr by simp
  have li: "length (information f) = k - 2" using info size k by simp
  have hdr: "take h (drop 1 bs) = be16 w @ address_bytes dst @ address_bytes src @ [controlValue ctl]"
  proof -
    have e: "h = 2 + (c1 + (c2 + 1))" "1 + 2 = (3::nat)" "3 + c1 + c2 = h" using h by auto
    have "take h (drop 1 bs) = take 2 (drop 1 bs) @ take c1 (drop 3 bs) @ take c2 (drop (3 + c1) bs) @ take 1 (drop h bs)"
      by (subst e(1)) (simp only: slice_add e(2,3))
    also have "take 2 (drop 1 bs) = be16 w"
      using size slice_2 [of 1 bs] by (simp add: w_def numeral_2_eq_2)
    also have "take 1 (drop h bs) = [bs ! h]" using size h by (intro slice_1) simp
    finally show ?thesis by (simp only: d(3) s(3) c(1))
  qed
  have w: "w = kFrameFormatType3 OR (if segmented f then kSegmentationBit else 0) OR word_of_nat n"
    using format_of_bits [OF fmt] f fr n_def by simp
  have nk: "n = h + 2 + k" and k1: "k \<noteq> 1" using k h by auto
  have body: "take (n - 2) (drop 1 bs) = take h (drop 1 bs)
      @ (if k = 0 then [] else le16 (CalculateHdlcCrc (View (take h (drop 1 bs))))) @ information f"
  proof (cases "k = 0")
    case False
    then have e: "n - 2 = h + (2 + (k - 2))" "1 + h = h + 1" "h + 1 + 2 = h + 3" using k1 nk by auto
    have "take (n - 2) (drop 1 bs) = take h (drop 1 bs) @ take 2 (drop (h + 1) bs) @ take (k - 2) (drop (h + 3) bs)"
      by (subst e(1)) (simp only: slice_add e(2,3))
    moreover have "take 2 (drop (h + 1) bs) = [bs ! (h + 1), bs ! (h + 1 + 1)]"
      using size(1) nk False by (intro slice_2) simp
    ultimately show ?thesis using False hcs info le16_of_be16_at by simp
  qed (use nk info in simp)
  have bs: "bs = [kHdlcFlag] @ take (n - 2) (drop 1 bs) @ [bs ! (n - 1), bs ! n] @ [kHdlcFlag]"
  proof -
    have e: "n + 2 = 1 + (n - 2 + (2 + 1))" "0 + 1 = (1::nat)" "1 + (n - 2) = n - 1" "n - 1 + 2 = n + 1"
      using size by auto
    have "bs = take (n + 2) (drop 0 bs)" using size by simp
    also have "\<dots> = take 1 (drop 0 bs) @ take (n - 2) (drop 1 bs) @ take 2 (drop (n - 1) bs) @ take 1 (drop (n + 1) bs)"
      by (subst e(1)) (simp only: slice_add e(2-4))
    finally show ?thesis
      using size flags slice_1 [of 0 bs] slice_1 [of "n + 1" bs] slice_2 [of "n - 1" bs] by simp
  qed
  have "bs = frame_image (k \<noteq> 0) f"
  proof -
    have n: "h + (if k \<noteq> 0 then 2 else 0) + (k - 2) + 2 = n" using nk k1 by auto
    have fields: "destination f = dst" "source f = src" "control f = ctl" using f fr by simp_all
    have "be16 (kFrameFormatType3 OR (if segmented f then kSegmentationBit else 0) OR word_of_nat n)
        @ address_bytes dst @ address_bytes src @ [controlValue ctl] = take h (drop 1 bs)"
      by (simp only: hdr flip: w)
    then have "frame_image (k \<noteq> 0) f = [kHdlcFlag] @ take (n - 2) (drop 1 bs)
        @ le16 (CalculateHdlcCrc (View (take (n - 2) (drop 1 bs)))) @ [kHdlcFlag]"
      unfolding frame_image_def Let_def hs li n fields body by simp
    also have "\<dots> = bs" using bs fcs le16_of_be16_at by metis
    finally show ?thesis by simp
  qed
  moreover have "information f \<noteq> [] \<longrightarrow> k \<noteq> 0" using li by (cases k) auto
  moreover have "EffectiveMaximumInformationFieldSize (as_frame f) limits = EffectiveMaximumInformationFieldSize fr limits"
    using f by (simp add: as_frame_def EffectiveMaximumInformationFieldSize_def)
  moreover have "frame_inv f" using d(1) s(1) c(2) f fr by (simp add: frame_inv_def)
  moreover have "length bs \<le> 2049" "length bs \<le> EffectiveMaximumFrameSize limits"
    using size by (simp_all add: kMaximumFormatFieldLength_def)
  ultimately show ?thesis using li lim by (intro conjI exI [of _ "k \<noteq> 0"]) simp_all
qed

lemma frame_image_residue:
  "\<exists>mid. frame_image hcs f = kHdlcFlag # mid @ [kHdlcFlag] \<and> CalculateHdlcCrc (View mid) = 0x0f47"
  unfolding frame_image_def Let_def append_Cons append_Nil append_assoc [symmetric]
  by (intro exI conjI, rule refl) (rule CalculateHdlcCrc_residue)

lemma length_frame_image:
  "length (frame_image hcs f) = header_size f + (if hcs then 2 else 0) + length (information f) + 4"
  by (simp add: frame_image_def Let_def header_size_def)

lemmas frame_eval = frame_wire_def frame_body_def frame_header_def frame_format_def address_bytes_def
  format_length_def header_size_def kHdlcFlag_def kFrameFormatType3_def kSegmentationBit_def
  Encode_byte_def be16_def le16_def crc_eval

lemmas frame_limits_eval = frame_status_def EffectiveMaximumInformationFieldSize_def
  EffectiveMaximumFrameSize_def DefaultHdlcCodecLimits_def kMaximumFormatFieldLength_def
  format_length_def header_size_def as_frame_def

lemmas frame_inv_eval = frame_inv_def address_inv_def IsSupportedEncodedSize_def MaximumRawValue_def
  control_inv_def HdlcControl_Decode_def IsSupportedUnnumbered_def

text \<open>An information frame with two bytes of information, for the concrete instances.\<close>

definition example_frame :: HdlcFrameBuffer where
  "example_frame = \<lparr>segmented = False, destination = \<lparr>rawValue = 1, encodedSize = 1\<rparr>,
     source = \<lparr>rawValue = 16, encodedSize = 1\<rparr>, control = \<lparr>controlValue = 0x10\<rparr>,
     information = [0xc0, 0x01]\<rparr>"

lemma example_frame_facts:
  "frame_inv example_frame" "frame_status example_frame DefaultHdlcCodecLimits = HdlcStatus.Ok"
  "frame_wire example_frame = [0x7e, 0xa0, 0x0b, 0x03, 0x21, 0x10, 0xa8, 0x20, 0xc0, 0x01, 0xfd, 0x27, 0x7e]"
  by (simp add: example_frame_def frame_inv_eval)
    (simp add: example_frame_def frame_limits_eval, simp add: example_frame_def frame_eval)

lemma example_frame_decodes:
  "DecodeFrame (View [0x7e, 0xa0, 0x0b, 0x03, 0x21, 0x10, 0xa8, 0x20, 0xc0, 0x01, 0xfd, 0x27, 0x7e])
     DefaultHdlcCodecLimits = Inr example_frame"
  using DecodeFrame_frame_wire [OF example_frame_facts(1,2)] by (simp only: example_frame_facts)

subsection \<open>Properties\<close>

text \<open>
  Round trip. Every frame that \<open>EncodeFrame\<close> encodes is decoded by \<open>DecodeFrame\<close> under the
  same limits into the same frame: addresses, segmentation bit, control field and
  information field.
\<close>

theorem DecodeFrame_EncodeFrame:
  assumes "frame_inv f" "EncodeFrame (as_frame f) limits = Inr bs"
  shows "DecodeFrame (View bs) limits = Inr f"
  using assms by (auto simp: EncodeFrame_frame_wire DecodeFrame_frame_wire split: if_splits)

theorem DecodeFrame_EncodeFrame_witness:
  "EncodeFrame (as_frame example_frame) DefaultHdlcCodecLimits =
     Inr [0x7e, 0xa0, 0x0b, 0x03, 0x21, 0x10, 0xa8, 0x20, 0xc0, 0x01, 0xfd, 0x27, 0x7e]
   \<and> DecodeFrame (View [0x7e, 0xa0, 0x0b, 0x03, 0x21, 0x10, 0xa8, 0x20, 0xc0, 0x01, 0xfd, 0x27, 0x7e])
     DefaultHdlcCodecLimits = Inr example_frame"
  using DecodeFrame_EncodeFrame [OF example_frame_facts(1), of DefaultHdlcCodecLimits]
  by (simp add: EncodeFrame_frame_wire example_frame_facts)

text \<open>
  Canonicity. A byte string \<open>DecodeFrame\<close> accepts with a non-empty information field is
  exactly what \<open>EncodeFrame\<close> produces for the decoded frame under the same limits, and the
  decoded frame has valid addresses and a valid control field.
\<close>

theorem EncodeFrame_DecodeFrame:
  assumes "DecodeFrame (View bs) limits = Inr f" "information f \<noteq> []"
  shows "frame_inv f \<and> EncodeFrame (as_frame f) limits = Inr bs"
proof -
  from DecodeFrame_sound [OF assms(1)] assms(2)
  have inv: "frame_inv f" and bs: "bs = frame_wire f"
    and lim: "length bs \<le> EffectiveMaximumFrameSize limits" "length bs \<le> 2049"
      "length (information f) \<le> EffectiveMaximumInformationFieldSize (as_frame f) limits"
    by (auto simp: frame_wire_image)
  from lim bs have "frame_status f limits = HdlcStatus.Ok"
    by (simp add: frame_status_def kMaximumFormatFieldLength_def)
  with inv bs show ?thesis by (simp add: EncodeFrame_frame_wire)
qed

theorem EncodeFrame_DecodeFrame_witness:
  "information example_frame \<noteq> [] \<and> frame_inv example_frame \<and>
   EncodeFrame (as_frame example_frame) DefaultHdlcCodecLimits =
     Inr [0x7e, 0xa0, 0x0b, 0x03, 0x21, 0x10, 0xa8, 0x20, 0xc0, 0x01, 0xfd, 0x27, 0x7e]"
proof -
  have "information example_frame \<noteq> []" by (simp add: example_frame_def)
  with EncodeFrame_DecodeFrame [OF example_frame_decodes] show ?thesis by blast
qed

text \<open>
  C20: Burst errors. Whenever a byte string decodes as a frame, no byte string whose bits
  between the flags, in the order of transmission, differ from it only inside a burst of at
  most sixteen bits decodes as a frame, whatever the limits. The burst may begin and end at
  any bit, so it may reach into three bytes, and it may hit the header, the information
  field and both check sequences.
\<close>

theorem DecodeFrame_rejects_burst:
  assumes "DecodeFrame (View (kHdlcFlag # bs @ [kHdlcFlag])) limits = Inr f"
    and "bits_of bs = pre @ w @ post" "bits_of bs' = pre @ w' @ post"
    and "length w = length w'" "length w \<le> 16" "w \<noteq> w'"
  shows "\<nexists>g. DecodeFrame (View (kHdlcFlag # bs' @ [kHdlcFlag])) limits' = Inr g"
proof
  have residue: "CalculateHdlcCrc (View xs) = 0x0f47"
    if "DecodeFrame (View (kHdlcFlag # xs @ [kHdlcFlag])) l = Inr h" for xs l h
  proof -
    from DecodeFrame_sound [OF that] obtain hcs
      where "kHdlcFlag # xs @ [kHdlcFlag] = frame_image hcs h" by blast
    with frame_image_residue [of hcs h] obtain mid where
      "xs @ [kHdlcFlag] = mid @ [kHdlcFlag]" "CalculateHdlcCrc (View mid) = 0x0f47"
      by auto
    then show ?thesis by (simp only: append_same_eq)
  qed
  assume "\<exists>g. DecodeFrame (View (kHdlcFlag # bs' @ [kHdlcFlag])) limits' = Inr g"
  then show False
    using residue [OF assms(1)] residue CalculateHdlcCrc_burst [OF assms(2-)] by metis
qed

text \<open>The instance inverts the last bit of one byte, two of the next and two of the third.\<close>

theorem DecodeFrame_rejects_burst_witness:
  "\<nexists>g. DecodeFrame (View (kHdlcFlag # [0xa0, 0x0b, 0x03, 0x21, 0x10, 0xa8, 0xa0, 0xc3, 0x61, 0xfd, 0x27]
      @ [kHdlcFlag])) DefaultHdlcCodecLimits = Inr g"
proof -
  let ?bs = "[0xa0, 0x0b, 0x03, 0x21, 0x10, 0xa8, 0x20, 0xc0, 0x01, 0xfd, 0x27] :: u8 list"
  let ?bs' = "[0xa0, 0x0b, 0x03, 0x21, 0x10, 0xa8, 0xa0, 0xc3, 0x61, 0xfd, 0x27] :: u8 list"
  let ?w = "take 16 (drop 55 (bits_of ?bs))"
  let ?w' = "take 16 (drop 55 (bits_of ?bs'))"
  have "DecodeFrame (View (kHdlcFlag # ?bs @ [kHdlcFlag])) DefaultHdlcCodecLimits = Inr example_frame"
    using example_frame_decodes by (simp add: kHdlcFlag_def)
  moreover have "bits_of ?bs = take 55 (bits_of ?bs) @ ?w @ drop 71 (bits_of ?bs)"
    by (simp add: bits_of_def upt_rec)
  moreover have "bits_of ?bs' = take 55 (bits_of ?bs) @ ?w' @ drop 71 (bits_of ?bs)"
    by (simp add: bits_of_def upt_rec)
  moreover have "length ?w = length ?w'" "length ?w \<le> 16" "?w \<noteq> ?w'"
    by (simp_all add: bits_of_def upt_rec)
  ultimately show ?thesis by (rule DecodeFrame_rejects_burst)
qed

end
