(* ===== verification/Hdlc_Stream.thy ===== *)
theory Hdlc_Stream
  imports Hdlc_Codec
begin

text \<open>
  The incremental HDLC decoder (\<open>hdlc_stream_decoder.hpp\<close>, \<open>hdlc_stream_decoder.cpp\<close>).
  \<open>stream_step\<close> is one turn of the loop of \<open>Push\<close>, \<open>Push_loop\<close> the loop and \<open>Push\<close> the method.
  The decoder implements the interface \<open>stream_decoder\<close>, which gives independence of the
  chunking; the theory adds the bound on the buffer and what an error leaves behind.
\<close>

datatype HdlcNoisePolicy = IgnoreUntilOpeningFlag | ReportError

record HdlcStreamDecoderOptions =
  streamLimits :: HdlcCodecLimits
  noisePolicy :: HdlcNoisePolicy

record HdlcStreamDecoder =
  decoderOptions :: HdlcStreamDecoderOptions
  decoderBuffer :: bytes

definition HdlcStreamDecoder_init :: "HdlcStreamDecoderOptions \<Rightarrow> HdlcStreamDecoder" where
  "HdlcStreamDecoder_init options = \<lparr>decoderOptions = options, decoderBuffer = []\<rparr>"

text \<open>
  One turn: \<open>Fail\<close> stands for a return after \<open>Reset\<close>, \<open>More\<close> for a return that keeps the
  given buffer, \<open>Emit\<close> for a decoded frame and the buffer after it is erased.
\<close>

definition framed_step :: "HdlcStreamDecoderOptions \<Rightarrow> bytes \<Rightarrow> (HdlcStatus, HdlcFrameBuffer) scan" where
  "framed_step options buffer =
     (if length buffer < 3 then More buffer
      else
        let frameFormat = be16_at (buffer ! 1) (buffer ! 2) in
        if frameFormat AND 0xf000 \<noteq> kFrameFormatType3 then Fail HdlcStatus.InvalidFrameFormat
        else
          let formatFieldLength = unat (frameFormat AND 0x07ff);
              fullFrameSize = formatFieldLength + 2
          in
          if formatFieldLength < 6 then Fail HdlcStatus.InvalidFrameLength
          else if fullFrameSize > EffectiveMaximumFrameSize (streamLimits options) then Fail HdlcStatus.FrameTooLarge
          else if length buffer < fullFrameSize then More buffer
          else
            case DecodeFrame (View (take fullFrameSize buffer)) (streamLimits options) of
              Inl status \<Rightarrow> Fail status
            | Inr frame \<Rightarrow> Emit frame (drop fullFrameSize buffer))"

definition stream_step :: "HdlcStreamDecoderOptions \<Rightarrow> bytes \<Rightarrow> (HdlcStatus, HdlcFrameBuffer) scan" where
  "stream_step options buffer =
     (let fromFlag = dropWhile (\<lambda>b. b \<noteq> kHdlcFlag) buffer in
      if fromFlag = [] then
        (if buffer \<noteq> [] \<and> noisePolicy options = ReportError then Fail HdlcStatus.InvalidFlag else More [])
      else if fromFlag \<noteq> buffer \<and> noisePolicy options = ReportError then Fail HdlcStatus.InvalidFlag
      else framed_step options fromFlag)"

lemma length_dropWhile_flag: "length (dropWhile (\<lambda>b. b \<noteq> kHdlcFlag) buffer) \<le> length buffer"
  by (rule length_dropWhile_le)

lemma framed_step_emit_less: "framed_step options b = Emit f r \<Longrightarrow> length r < length b"
  by (auto simp: framed_step_def Let_def split: if_splits sum.splits)

lemma stream_step_emit_less: "stream_step options b = Emit f r \<Longrightarrow> length r < length b"
  using length_dropWhile_flag [of b] framed_step_emit_less [of options _ f r]
  by (fastforce simp: stream_step_def Let_def split: if_splits)

function Push_loop ::
    "HdlcStreamDecoderOptions \<Rightarrow> bytes \<Rightarrow> HdlcFrameBuffer list \<Rightarrow> HdlcStatus \<times> HdlcFrameBuffer list \<times> bytes" where
  "Push_loop options buffer frames =
     (case stream_step options buffer of
        Emit frame rest \<Rightarrow> Push_loop options rest (frames @ [frame])
      | More rest \<Rightarrow> (if frames = [] then HdlcStatus.NeedMoreData else HdlcStatus.Ok, frames, rest)
      | Fail status \<Rightarrow> (status, frames, []))"
  by pat_completeness auto
termination
  by (relation "measure (\<lambda>(options, buffer, frames). length buffer)") (auto dest: stream_step_emit_less)

declare Push_loop.simps [simp del]

definition Push :: "HdlcStreamDecoder \<Rightarrow> view \<Rightarrow> HdlcStatus \<times> HdlcFrameBuffer list \<times> HdlcStreamDecoder" where
  "Push decoder data =
     (if bad_view data then (HdlcStatus.InvalidArgument, [], decoder)
      else case Push_loop (decoderOptions decoder) (decoderBuffer decoder @ view_bytes data) [] of
        (status, frames, buffer) \<Rightarrow> (status, frames, decoder\<lparr>decoderBuffer := buffer\<rparr>))"

definition HdlcStreamDecoder_Reset :: "HdlcStreamDecoder \<Rightarrow> HdlcStreamDecoder" where
  "HdlcStreamDecoder_Reset decoder = decoder\<lparr>decoderBuffer := []\<rparr>"

text \<open>A caller that pushes the chunks of a stream one after another and collects the frames.\<close>

fun PushAll :: "HdlcStreamDecoder \<Rightarrow> bytes list \<Rightarrow> HdlcStatus list \<times> HdlcFrameBuffer list \<times> HdlcStreamDecoder" where
  "PushAll decoder [] = ([], [], decoder)"
| "PushAll decoder (c # cs) =
     (let (status, frames, decoder1) = Push decoder (View c);
          (statuses, frames', decoder2) = PushAll decoder1 cs
      in (status # statuses, frames @ frames', decoder2))"

subsection \<open>The decoder implements the stream interface\<close>

text \<open>
  An item of the stream: bytes without a flag, allowed only where noise is ignored, and a frame
  the codec can encode under the limits of the decoder.
\<close>

fun item_ok :: "HdlcStreamDecoderOptions \<Rightarrow> bytes \<times> HdlcFrameBuffer \<Rightarrow> bool" where
  "item_ok options (noise, f) \<longleftrightarrow> frame_inv f \<and> frame_status f (streamLimits options) = HdlcStatus.Ok
     \<and> kHdlcFlag \<notin> set noise \<and> (noise = [] \<or> noisePolicy options = IgnoreUntilOpeningFlag)"

fun item_bytes :: "bytes \<times> HdlcFrameBuffer \<Rightarrow> bytes" where
  "item_bytes (noise, f) = noise @ frame_wire f"

lemma dropWhile_append_nonempty: "dropWhile P b \<noteq> [] \<Longrightarrow> dropWhile P (b @ x) = dropWhile P b @ x"
  by (induction b) auto

lemma dropWhile_append_empty: "dropWhile P b = [] \<Longrightarrow> dropWhile P (b @ x) = dropWhile P x"
  by (induction b) (auto split: if_splits)

lemma dropWhile_flag_idem:
  "dropWhile P b \<noteq> [] \<Longrightarrow> dropWhile P (dropWhile P b @ x) = dropWhile P b @ x"
  by (metis dropWhile_append_nonempty dropWhile_idem)

lemma dropWhile_longer: "dropWhile P x = b @ x \<Longrightarrow> b = []"
  using length_dropWhile_le [of P x] by auto

lemma framed_step_append:
  "framed_step options b = Emit f r \<Longrightarrow> framed_step options (b @ x) = Emit f (r @ x)"
  "framed_step options b = Fail e \<Longrightarrow> framed_step options (b @ x) = Fail e"
  "framed_step options b = More r \<Longrightarrow> r = b"
  unfolding framed_step_def Let_def
  by (auto simp: nth_append split: if_splits sum.splits)

lemma stream_step_append:
  "stream_step options b = Emit f r \<Longrightarrow> stream_step options (b @ x) = Emit f (r @ x)"
  "stream_step options b = Fail e \<Longrightarrow> stream_step options (b @ x) = Fail e"
  "stream_step options b = More r \<Longrightarrow> stream_step options (b @ x) = stream_step options (r @ x)"
proof -
  let ?d = "dropWhile (\<lambda>b. b \<noteq> kHdlcFlag) b"
  note app = framed_step_append dropWhile_append_nonempty dropWhile_append_empty
  show "stream_step options b = Emit f r \<Longrightarrow> stream_step options (b @ x) = Emit f (r @ x)"
    by (auto simp: stream_step_def Let_def app split: if_splits)
  show "stream_step options b = Fail e \<Longrightarrow> stream_step options (b @ x) = Fail e"
    by (cases "?d = []")
      (auto simp: stream_step_def Let_def app split: if_splits dest: dropWhile_longer)
  show "stream_step options (b @ x) = stream_step options (r @ x)" if more: "stream_step options b = More r"
  proof (cases "?d = []")
    case True
    with more have "r = []" "b = [] \<or> noisePolicy options \<noteq> ReportError"
      by (auto simp: stream_step_def Let_def split: if_splits)
    moreover from dropWhile_append_empty [OF True, of x]
    have "dropWhile (\<lambda>b. b \<noteq> kHdlcFlag) (b @ x) = dropWhile (\<lambda>b. b \<noteq> kHdlcFlag) x" .
    ultimately show ?thesis unfolding stream_step_def by (elim disjE) (simp_all only: append_Nil simp_thms)
  next
    case False
    with more have "framed_step options ?d = More r" and p: "?d = b \<or> noisePolicy options \<noteq> ReportError"
      unfolding stream_step_def Let_def by (metis scan.distinct(5))+
    then have r: "r = ?d" by (simp add: framed_step_append(3))
    from dropWhile_append_nonempty [OF False, of x] dropWhile_flag_idem [OF False, of x] p show ?thesis
      unfolding stream_step_def r by (elim disjE) (simp_all only: simp_thms)
  qed
qed

lemma framed_step_frame:
  assumes "frame_inv f" "frame_status f (streamLimits options) = HdlcStatus.Ok"
  shows "framed_step options (frame_wire f @ x) = Emit f x"
proof -
  have fl: "6 \<le> format_length f" "format_length f \<le> 2047"
    "format_length f + 2 \<le> EffectiveMaximumFrameSize (streamLimits options)"
    using assms frame_inv_sizes by (auto simp: frame_status_def kMaximumFormatFieldLength_def split: if_splits)
  have fmt: "be16_at ((frame_wire f @ x) ! 1) ((frame_wire f @ x) ! 2) = frame_format f"
    using fl(1) frame_wire_format [of f] by (simp add: nth_append)
  have bits: "frame_format f AND 0xf000 = kFrameFormatType3" "unat (frame_format f AND 0x07ff) = format_length f"
    using format_bits [OF fl(2), of "segmented f"] by (simp_all add: frame_format_def)
  show ?thesis
    unfolding framed_step_def Let_def fmt bits
    using fl DecodeFrame_frame_wire [OF assms] by simp
qed

lemma hd_frame_wire [simp]: "hd (frame_wire f @ x) = kHdlcFlag" "frame_wire f \<noteq> []"
  by (simp_all add: frame_wire_def)

lemma stream_step_item:
  assumes "item_ok options i"
  shows "stream_step options (item_bytes i @ x) = Emit (snd i) x"
proof -
  obtain noise f where i: "i = (noise, f)" by fastforce
  have "dropWhile (\<lambda>b. b \<noteq> kHdlcFlag) (noise @ frame_wire f @ x) = frame_wire f @ x"
    using assms i
    by (subst dropWhile_append2) (auto simp: dropWhile_eq_self_iff)
  then show ?thesis using assms i framed_step_frame [of f options x]
    by (auto simp: stream_step_def Let_def)
qed

interpretation hdlc_decoder: stream_decoder "stream_step options" "Push_loop options"
  HdlcStatus.NeedMoreData HdlcStatus.Ok "item_ok options" item_bytes snd
  for options
proof unfold_locales
  show "Push_loop options b fs = (case stream_step options b of
      Emit f r \<Rightarrow> Push_loop options r (fs @ [f])
    | More r \<Rightarrow> (if fs = [] then HdlcStatus.NeedMoreData else HdlcStatus.Ok, fs, r)
    | Fail e \<Rightarrow> (e, fs, []))" for b fs
    by (rule Push_loop.simps)
  show "stream_step options [] = More []" by (simp add: stream_step_def)
qed (auto simp: stream_step_append stream_step_item dest: stream_step_emit_less)

lemma PushAll_push_all:
  "PushAll d cs = (case hdlc_decoder.push_all (decoderOptions d) (decoderBuffer d) cs of
     (sts, fs, r) \<Rightarrow> (sts, fs, d\<lparr>decoderBuffer := r\<rparr>))"
  by (induction cs arbitrary: d) (simp_all add: Push_def Let_def split: prod.splits)

subsection \<open>What is kept in the buffer\<close>

lemma framed_step_more:
  "framed_step options b = More r \<Longrightarrow> length r \<le> max 2 (EffectiveMaximumFrameSize (streamLimits options) - 1)"
  by (auto simp: framed_step_def Let_def split: if_splits sum.splits)

lemma stream_step_more:
  assumes "stream_step options b = More r"
  shows "length r \<le> max 2 (EffectiveMaximumFrameSize (streamLimits options) - 1)
    \<and> (r = [] \<or> hd r = kHdlcFlag)"
proof -
  let ?d = "dropWhile (\<lambda>b. b \<noteq> kHdlcFlag) b"
  from assms consider "r = []" | "?d \<noteq> []" "framed_step options ?d = More r"
    by (auto simp: stream_step_def Let_def split: if_splits)
  then show ?thesis
  proof cases
    case 2
    with framed_step_append(3) [OF 2(2)] framed_step_more [OF 2(2)] hd_dropWhile [of "\<lambda>b. b \<noteq> kHdlcFlag" b]
    show ?thesis by auto
  qed simp
qed

lemma Push_loop_buffer:
  "Push_loop options b fs = (st, gs, r) \<Longrightarrow>
     length r \<le> max 2 (EffectiveMaximumFrameSize (streamLimits options) - 1) \<and> (r = [] \<or> hd r = kHdlcFlag)"
proof (induction options b fs rule: Push_loop.induct)
  case (1 options b fs)
  from "1.prems" show ?case
    by (subst (asm) Push_loop.simps) (auto split: scan.splits dest: stream_step_more "1.IH")
qed

lemma Push_loop_error:
  "Push_loop options b fs = (st, gs, r) \<Longrightarrow> st \<notin> {HdlcStatus.Ok, HdlcStatus.NeedMoreData} \<Longrightarrow> r = []"
proof (induction options b fs rule: Push_loop.induct)
  case (1 options b fs)
  from "1.prems" show ?case
    by (subst (asm) Push_loop.simps) (auto split: scan.splits if_splits dest: "1.IH")
qed

lemma PushAll_items:
  assumes "\<forall>i \<in> set items. item_ok options i" "concat chunks = concat (map item_bytes items)"
  shows "\<exists>sts. PushAll (HdlcStreamDecoder_init options) chunks =
      (sts, map snd items, HdlcStreamDecoder_init options) \<and> set sts \<subseteq> {HdlcStatus.NeedMoreData, HdlcStatus.Ok}"
proof -
  from hdlc_decoder.push_all_items [OF assms(1) hdlc_decoder.scan_Nil, of chunks] assms(2)
  show ?thesis by (auto simp: PushAll_push_all HdlcStreamDecoder_init_def)
qed

subsection \<open>Properties\<close>

text \<open>
  C19: Delivery. Whatever the chunks a stream of valid frames arrives in, a fresh decoder that is
  pushed the chunks one by one delivers exactly those frames in their order, reports only
  \<open>Ok\<close> and \<open>NeedMoreData\<close>, and ends with an empty buffer. Bytes without a flag may stand
  before each frame when the noise policy ignores them; flag bytes inside a frame do not
  end it.
\<close>

theorem PushAll_delivers:
  assumes "\<forall>i \<in> set items. item_ok options i" "concat chunks = concat (map item_bytes items)"
  shows "\<exists>sts. PushAll (HdlcStreamDecoder_init options) chunks =
      (sts, map snd items, HdlcStreamDecoder_init options) \<and> set sts \<subseteq> {HdlcStatus.NeedMoreData, HdlcStatus.Ok}"
  using assms by (rule PushAll_items)

theorem PushAll_delivers_witness:
  "\<exists>sts. PushAll (HdlcStreamDecoder_init \<lparr>streamLimits = DefaultHdlcCodecLimits, noisePolicy = IgnoreUntilOpeningFlag\<rparr>)
      [[0x55, 0x7e, 0xa0, 0x0b, 0x03], [0x21, 0x10, 0xa8, 0x20, 0xc0, 0x01, 0xfd, 0x27, 0x7e]] =
    (sts, [example_frame],
      HdlcStreamDecoder_init \<lparr>streamLimits = DefaultHdlcCodecLimits, noisePolicy = IgnoreUntilOpeningFlag\<rparr>)
    \<and> set sts \<subseteq> {HdlcStatus.NeedMoreData, HdlcStatus.Ok}"
  using PushAll_delivers [of "[([0x55], example_frame)]"
      "\<lparr>streamLimits = DefaultHdlcCodecLimits, noisePolicy = IgnoreUntilOpeningFlag\<rparr>"
      "[[0x55, 0x7e, 0xa0, 0x0b, 0x03], [0x21, 0x10, 0xa8, 0x20, 0xc0, 0x01, 0xfd, 0x27, 0x7e]]"]
  by (simp add: example_frame_facts kHdlcFlag_def)

text \<open>
  C23: Bounded buffer and reset. After a push the decoder keeps its options, its buffer starts
  with an opening flag or is empty and is shorter than the largest frame the limits admit
  (or than three bytes), however much data arrived; after an error the buffer is empty. A
  null pointer with a size changes nothing.
\<close>

theorem Push_buffer:
  assumes "Push d data = (st, fs, d')"
  shows "decoderOptions d' = decoderOptions d \<and>
    (if bad_view data then st = HdlcStatus.InvalidArgument \<and> fs = [] \<and> d' = d
     else (decoderBuffer d' = [] \<or> hd (decoderBuffer d') = kHdlcFlag)
      \<and> length (decoderBuffer d') \<le> max 2 (EffectiveMaximumFrameSize (streamLimits (decoderOptions d)) - 1)
      \<and> (st \<notin> {HdlcStatus.Ok, HdlcStatus.NeedMoreData} \<longrightarrow> d' = HdlcStreamDecoder_Reset d))"
proof (cases "bad_view data")
  case False
  with assms obtain r where "Push_loop (decoderOptions d) (decoderBuffer d @ view_bytes data) [] = (st, fs, r)"
    and "d' = d\<lparr>decoderBuffer := r\<rparr>"
    by (auto simp: Push_def split: prod.splits)
  with Push_loop_buffer [OF this(1)] Push_loop_error [OF this(1)] False show ?thesis
    by (auto simp: HdlcStreamDecoder_Reset_def)
qed (use assms in \<open>simp add: Push_def\<close>)

theorem Push_buffer_witness:
  "let d = \<lparr>decoderOptions = \<lparr>streamLimits = DefaultHdlcCodecLimits, noisePolicy = ReportError\<rparr>, decoderBuffer = [0x7e, 0xa0]\<rparr>
   in Push d (View [0x00]) = (HdlcStatus.InvalidFrameLength, [], HdlcStreamDecoder_Reset d)"
proof -
  define d :: HdlcStreamDecoder where "d = \<lparr>decoderOptions = \<lparr>streamLimits = DefaultHdlcCodecLimits, noisePolicy = ReportError\<rparr>,
    decoderBuffer = [0x7e, 0xa0]\<rparr>"
  obtain d' where p: "Push d (View [0x00]) = (HdlcStatus.InvalidFrameLength, [], d')"
    by (simp add: d_def Push_def Push_loop.simps stream_step_def framed_step_def Let_def
        kHdlcFlag_def kFrameFormatType3_def be16_at_def)
  from Push_buffer [OF this] have "d' = HdlcStreamDecoder_Reset d" by simp
  with p show ?thesis by (simp add: d_def)
qed

text \<open>
  Divergence. A complete frame whose source address has no terminating byte is answered with
  \<open>NeedMoreData\<close>, as if it were incomplete, although the decoder has already thrown the frame
  away: the status of the address parser reaches the caller unchanged.
\<close>

theorem Push_unterminated_address:
  "Push (HdlcStreamDecoder_init \<lparr>streamLimits = DefaultHdlcCodecLimits, noisePolicy = ReportError\<rparr>)
     (View [0x7e, 0xa0, 0x06, 0x03, 0x00, 0x00, 0x00, 0x7e]) =
   (HdlcStatus.NeedMoreData, [],
     HdlcStreamDecoder_init \<lparr>streamLimits = DefaultHdlcCodecLimits, noisePolicy = ReportError\<rparr>)"
  apply (simp add: Push_def Push_loop.simps stream_step_def framed_step_def Let_def HdlcStreamDecoder_init_def
      DecodeFrame_def DecodeFrameFromBuffer_def FromBytes_def kHdlcFlag_def kFrameFormatType3_def
      kSegmentationBit_def be16_at_def DefaultHdlcCodecLimits_def EffectiveMaximumFrameSize_def
      kMaximumFormatFieldLength_def IsSupportedEncodedSize_def)
  done

end
