(* ===== verification/Hdlc_Segmentation.thy ===== *)
theory Hdlc_Segmentation
  imports Hdlc_Codec
begin

text \<open>
  Segmentation and reassembly of information fields (\<open>hdlc_segmentation.hpp\<close>,
  \<open>hdlc_segmentation.cpp\<close>). The theory shows that the segments of a payload fit the limit,
  carry the payload in order and mark the last one, that the reassembler gives the payload
  back, that it never mixes two senders, and where its size limit holds and where it does
  not: the limit is tested with a subtraction on \<open>std::size_t\<close>, which wraps.
\<close>

definition SegmentFieldSize :: "HdlcCodecLimits \<Rightarrow> nat" where
  "SegmentFieldSize limits =
     (if maximumInformationFieldSize limits = 0 then 2030 else maximumInformationFieldSize limits)"

definition EffectiveMaximumReassembledInformationSize :: "HdlcCodecLimits \<Rightarrow> nat" where
  "EffectiveMaximumReassembledInformationSize limits =
     (if maximumReassembledInformationSize limits = 0 then 65535 else maximumReassembledInformationSize limits)"

definition CompatibleFrameType :: "HdlcControl \<Rightarrow> HdlcControl \<Rightarrow> bool" where
  "CompatibleFrameType left right \<longleftrightarrow> FrameKind left = FrameKind right"

definition MakeFrameBuffer :: "HdlcFrame \<Rightarrow> bool \<Rightarrow> bytes \<Rightarrow> HdlcFrameBuffer" where
  "MakeFrameBuffer baseFrame seg info =
     \<lparr>segmented = seg, destination = frameDestination baseFrame, source = frameSource baseFrame,
      control = frameControl baseFrame, information = info\<rparr>"

text \<open>
  The loop of \<open>SegmentInformation\<close> from \<open>offset\<close> on. A chunk is empty only for the limit 0, which
  the caller excludes; the test makes the recursion end there too.
\<close>

function SegmentInformation_loop :: "HdlcFrame \<Rightarrow> nat \<Rightarrow> bytes \<Rightarrow> nat \<Rightarrow> HdlcFrameBuffer list" where
  "SegmentInformation_loop baseFrame maximum info offset =
     (if offset < length info then
        let remaining = length info - offset;
            chunkSize = min maximum remaining;
            hasMore = (offset + chunkSize < length info)
        in MakeFrameBuffer baseFrame hasMore (take chunkSize (drop offset info))
             # (if chunkSize = 0 then [] else SegmentInformation_loop baseFrame maximum info (offset + chunkSize))
      else [])"
  by pat_completeness auto
termination
  by (relation "measure (\<lambda>(b, m, info, offset). length info - offset)") auto

declare SegmentInformation_loop.simps [simp del]

definition SegmentInformation :: "HdlcCodecLimits \<Rightarrow> HdlcFrame \<Rightarrow> view \<Rightarrow> HdlcStatus + HdlcFrameBuffer list" where
  "SegmentInformation limits baseFrame payload =
     (if bad_view payload then Inl HdlcStatus.InvalidArgument
      else
        let maximum = SegmentFieldSize limits in
        if maximum = 0 then Inl HdlcStatus.InvalidArgument
        else if view_size payload \<le> maximum
          then Inr [MakeFrameBuffer baseFrame False (view_bytes payload)]
        else Inr (SegmentInformation_loop baseFrame maximum (view_bytes payload) 0))"

definition HdlcFrameBuffer_default :: HdlcFrameBuffer where
  "HdlcFrameBuffer_default = \<lparr>segmented = False, destination = HdlcAddress_default,
     source = HdlcAddress_default, control = HdlcControl_default, information = []\<rparr>"

record HdlcReassembler =
  reassemblerLimits :: HdlcCodecLimits
  hasPending :: bool
  pendingFrame :: HdlcFrameBuffer

definition HdlcReassembler_init :: "HdlcCodecLimits \<Rightarrow> HdlcReassembler" where
  "HdlcReassembler_init limits =
     \<lparr>reassemblerLimits = limits, hasPending = False, pendingFrame = HdlcFrameBuffer_default\<rparr>"

definition HdlcReassembler_Reset :: "HdlcReassembler \<Rightarrow> HdlcReassembler" where
  "HdlcReassembler_Reset r = r\<lparr>hasPending := False, pendingFrame := HdlcFrameBuffer_default\<rparr>"

text \<open>The second component is the completed frame where \<open>hasCompletedFrame\<close> is set.\<close>

definition PushFrame ::
    "HdlcReassembler \<Rightarrow> HdlcFrameBuffer \<Rightarrow> HdlcStatus \<times> HdlcFrameBuffer option \<times> HdlcReassembler" where
  "PushFrame r frame =
     (let maximum = EffectiveMaximumReassembledInformationSize (reassemblerLimits r);
          pending = pendingFrame r
      in
      if \<not> hasPending r then
        (if length (information frame) > maximum then (HdlcStatus.SegmentationOverflow, None, r)
         else if \<not> segmented frame then (HdlcStatus.Ok, Some frame, r)
         else (HdlcStatus.SegmentationIncomplete, None, r\<lparr>pendingFrame := frame, hasPending := True\<rparr>))
      else if \<not> SameAddress (destination pending) (destination frame)
          \<or> \<not> SameAddress (source pending) (source frame)
          \<or> \<not> CompatibleFrameType (control pending) (control frame)
        then (HdlcStatus.SegmentationError, None, HdlcReassembler_Reset r)
      else if length (information pending) > size_sub maximum (length (information frame))
        then (HdlcStatus.SegmentationOverflow, None, HdlcReassembler_Reset r)
      else
        let joined = pending\<lparr>information := information pending @ information frame\<rparr> in
        if segmented frame then (HdlcStatus.SegmentationIncomplete, None, r\<lparr>pendingFrame := joined\<rparr>)
        else (HdlcStatus.Ok, Some (joined\<lparr>segmented := False\<rparr>), HdlcReassembler_Reset r))"

text \<open>Pushing the frames of a list, with the statuses and the completed frames in order.\<close>

fun PushFrames :: "HdlcReassembler \<Rightarrow> HdlcFrameBuffer list \<Rightarrow> HdlcStatus list \<times> HdlcFrameBuffer list \<times> HdlcReassembler" where
  "PushFrames r [] = ([], [], r)"
| "PushFrames r (f # fs) =
     (let (st, c, r1) = PushFrame r f; (sts, cs, r2) = PushFrames r1 fs
      in (st # sts, (case c of None \<Rightarrow> cs | Some g \<Rightarrow> g # cs), r2))"

subsection \<open>Segments\<close>

lemma SegmentFieldSize_pos [simp]: "0 < SegmentFieldSize limits" "SegmentFieldSize limits \<noteq> 0"
  by (simp_all add: SegmentFieldSize_def)

lemma SegmentInformation_loop_concat:
  "0 < m \<Longrightarrow> concat (map information (SegmentInformation_loop b m info offset)) = drop offset info"
proof (induction b m info offset rule: SegmentInformation_loop.induct)
  case (1 b m info offset)
  show ?case
  proof (cases "offset < length info")
    case True
    let ?c = "min m (length info - offset)"
    from "1.IH" [OF True refl refl refl] "1.prems" True
    have "concat (map information (SegmentInformation_loop b m info (offset + ?c))) = drop (offset + ?c) info"
      by auto
    with "1.prems" True append_take_drop_id [of ?c "drop offset info"] show ?thesis
      by (subst SegmentInformation_loop.simps) (simp add: Let_def MakeFrameBuffer_def add.commute)
  next
    case False
    then show ?thesis by (subst SegmentInformation_loop.simps) simp
  qed
qed

text \<open>Every segment but the last is marked, belongs to the base frame and is not too long.\<close>

lemma SegmentInformation_loop_segments:
  assumes "0 < m" "offset < length info"
  shows "\<exists>init last. SegmentInformation_loop b m info offset
      = map (MakeFrameBuffer b True) init @ [MakeFrameBuffer b False last]
    \<and> (\<forall>x \<in> set (init @ [last]). 0 < length x \<and> length x \<le> m)"
  using assms
proof (induction b m info offset rule: SegmentInformation_loop.induct)
  case (1 b m info offset)
  let ?c = "min m (length info - offset)"
  let ?x = "take ?c (drop offset info)"
  have step: "SegmentInformation_loop b m info offset =
      MakeFrameBuffer b (offset + ?c < length info) ?x # SegmentInformation_loop b m info (offset + ?c)"
    using "1.prems" by (subst SegmentInformation_loop.simps) (auto simp: Let_def min_def)
  have x: "0 < length ?x" "length ?x \<le> m" using "1.prems" by auto
  show ?case
  proof (cases "offset + ?c < length info")
    case True
    have "?c \<noteq> 0" using "1.prems" by auto
    from "1.IH" [OF "1.prems"(2) refl refl refl this "1.prems"(1) True] obtain init last where
      "SegmentInformation_loop b m info (offset + ?c) = map (MakeFrameBuffer b True) init @ [MakeFrameBuffer b False last]"
      and *: "\<forall>x \<in> set (init @ [last]). 0 < length x \<and> length x \<le> m" by blast
    moreover from True have "(offset + ?c < length info) = True" by simp
    ultimately have "SegmentInformation_loop b m info offset
        = map (MakeFrameBuffer b True) (?x # init) @ [MakeFrameBuffer b False last]"
      using step by (simp only: list.map append_Cons)
    with * x show ?thesis by (intro exI [of _ "?x # init"] exI [of _ last]) auto
  next
    case False
    then have "SegmentInformation_loop b m info (offset + ?c) = []"
      by (subst SegmentInformation_loop.simps) simp
    with step x False show ?thesis by (intro exI [of _ "[]"] exI [of _ ?x]) auto
  qed
qed

lemma SegmentInformation_View:
  obtains init last where
    "SegmentInformation limits b (View info) = Inr (map (MakeFrameBuffer b True) init @ [MakeFrameBuffer b False last])"
    "concat init @ last = info"
    "\<forall>x \<in> set (init @ [last]). length x \<le> SegmentFieldSize limits"
proof (cases "length info \<le> SegmentFieldSize limits")
  case True
  then show thesis by (intro that [of "[]" info]) (simp_all add: SegmentInformation_def Let_def)
next
  case False
  then have "0 < length info" by auto
  from SegmentInformation_loop_segments [OF SegmentFieldSize_pos(1) this, of b limits]
  obtain init last where *: "SegmentInformation_loop b (SegmentFieldSize limits) info 0
      = map (MakeFrameBuffer b True) init @ [MakeFrameBuffer b False last]"
    "\<forall>x \<in> set (init @ [last]). 0 < length x \<and> length x \<le> SegmentFieldSize limits" by blast
  moreover have "concat init @ last = info"
    using SegmentInformation_loop_concat [OF SegmentFieldSize_pos(1), of b limits info 0] *(1)
    by (simp add: MakeFrameBuffer_def comp_def)
  ultimately show thesis using False by (intro that [of init last]) (auto simp: SegmentInformation_def Let_def)
qed

subsection \<open>Reassembly\<close>

text \<open>Frames that may continue a pending one.\<close>

definition continues :: "HdlcFrameBuffer \<Rightarrow> HdlcFrameBuffer \<Rightarrow> bool" where
  "continues p f \<longleftrightarrow> destination f = destination p \<and> source f = source p
     \<and> CompatibleFrameType (control p) (control f)"

abbreviation reassembled_limit :: "HdlcReassembler \<Rightarrow> nat" where
  "reassembled_limit r \<equiv> EffectiveMaximumReassembledInformationSize (reassemblerLimits r)"

lemma PushFrame_continue:
  assumes "hasPending r" "continues (pendingFrame r) f"
    and "length (information (pendingFrame r)) + length (information f) \<le> reassembled_limit r"
  defines "j \<equiv> (pendingFrame r)\<lparr>information := information (pendingFrame r) @ information f\<rparr>"
  shows "PushFrame r f =
    (if segmented f then (HdlcStatus.SegmentationIncomplete, None, r\<lparr>pendingFrame := j\<rparr>)
     else (HdlcStatus.Ok, Some (j\<lparr>segmented := False\<rparr>), HdlcReassembler_Reset r))"
  using assms by (auto simp: PushFrame_def Let_def continues_def size_sub_le)

lemma PushFrames_pending:
  assumes "hasPending r" "\<forall>f \<in> set (init @ [l]). continues (pendingFrame r) f"
    and "\<forall>f \<in> set init. segmented f" "\<not> segmented l"
    and "length (information (pendingFrame r)) + length (concat (map information (init @ [l]))) \<le> reassembled_limit r"
  shows "PushFrames r (init @ [l]) =
    (replicate (length init) HdlcStatus.SegmentationIncomplete @ [HdlcStatus.Ok],
     [(pendingFrame r)\<lparr>information := information (pendingFrame r) @ concat (map information (init @ [l])),
        segmented := False\<rparr>],
     HdlcReassembler_Reset r)"
  using assms
proof (induction init arbitrary: r)
  case Nil
  then show ?case by (simp add: PushFrame_continue)
next
  case (Cons f init)
  let ?r = "r\<lparr>pendingFrame := (pendingFrame r)\<lparr>information := information (pendingFrame r) @ information f\<rparr>\<rparr>"
  have "PushFrame r f = (HdlcStatus.SegmentationIncomplete, None, ?r)"
    using Cons.prems by (subst PushFrame_continue) auto
  moreover from Cons.IH [of ?r] Cons.prems
  have "PushFrames ?r (init @ [l]) =
    (replicate (length init) HdlcStatus.SegmentationIncomplete @ [HdlcStatus.Ok],
     [(pendingFrame r)\<lparr>information := information (pendingFrame r) @ information f @ concat (map information (init @ [l])),
        segmented := False\<rparr>], HdlcReassembler_Reset r)"
    by (simp add: continues_def HdlcReassembler_Reset_def)
  ultimately show ?case by simp
qed

lemma PushFrames_fresh:
  assumes "\<not> hasPending r" "pendingFrame r = HdlcFrameBuffer_default"
    and "\<forall>f \<in> set (init @ [l]). continues (hd (init @ [l])) f"
    and "\<forall>f \<in> set init. segmented f" "\<not> segmented l"
    and "length (concat (map information (init @ [l]))) \<le> reassembled_limit r"
  shows "PushFrames r (init @ [l]) =
    (replicate (length init) HdlcStatus.SegmentationIncomplete @ [HdlcStatus.Ok],
     [(hd (init @ [l]))\<lparr>information := concat (map information (init @ [l])), segmented := False\<rparr>], r)"
proof (cases init)
  case Nil
  with assms show ?thesis by (simp add: PushFrame_def Let_def)
next
  case (Cons f init')
  let ?r = "r\<lparr>pendingFrame := f, hasPending := True\<rparr>"
  have "PushFrame r f = (HdlcStatus.SegmentationIncomplete, None, ?r)"
    using assms Cons by (auto simp: PushFrame_def Let_def)
  moreover have "PushFrames ?r (init' @ [l]) =
    (replicate (length init') HdlcStatus.SegmentationIncomplete @ [HdlcStatus.Ok],
     [f\<lparr>information := information f @ concat (map information (init' @ [l])), segmented := False\<rparr>],
     HdlcReassembler_Reset ?r)"
    using PushFrames_pending [of ?r init' l] assms Cons by simp
  moreover have "HdlcReassembler_Reset ?r = r"
    using assms(1,2) by (cases r) (simp add: HdlcReassembler_Reset_def)
  ultimately show ?thesis using Cons by simp
qed

lemma reassemble_segments:
  assumes "SegmentInformation limits baseFrame (View payload) = Inr fs"
    and "length payload \<le> EffectiveMaximumReassembledInformationSize limits'"
  shows "PushFrames (HdlcReassembler_init limits') fs =
    (replicate (length fs - 1) HdlcStatus.SegmentationIncomplete @ [HdlcStatus.Ok],
     [MakeFrameBuffer baseFrame False payload], HdlcReassembler_init limits')"
proof -
  obtain init last where "SegmentInformation limits baseFrame (View payload) =
      Inr (map (MakeFrameBuffer baseFrame True) init @ [MakeFrameBuffer baseFrame False last])"
    and info: "concat init @ last = payload"
    by (rule SegmentInformation_View)
  with assms(1) have fs: "fs = map (MakeFrameBuffer baseFrame True) init @ [MakeFrameBuffer baseFrame False last]"
    by simp
  let ?h = "hd fs"
  have h: "?h = MakeFrameBuffer baseFrame (init \<noteq> []) (information ?h)"
    unfolding fs by (cases init) (simp_all add: MakeFrameBuffer_def)
  have c: "\<forall>f \<in> set fs. continues ?h f"
    by (subst h) (auto simp: fs continues_def MakeFrameBuffer_def CompatibleFrameType_def)
  have i: "concat (map information fs) = payload"
    using info by (simp add: fs MakeFrameBuffer_def comp_def)
  have "PushFrames (HdlcReassembler_init limits') fs =
      (replicate (length init) HdlcStatus.SegmentationIncomplete @ [HdlcStatus.Ok],
       [?h\<lparr>information := concat (map information fs), segmented := False\<rparr>], HdlcReassembler_init limits')"
    using PushFrames_fresh [of "HdlcReassembler_init limits'" "map (MakeFrameBuffer baseFrame True) init"
        "MakeFrameBuffer baseFrame False last", folded fs] c i assms(2)
    by (simp add: HdlcReassembler_init_def MakeFrameBuffer_def)
  moreover have "?h\<lparr>information := payload, segmented := False\<rparr> = MakeFrameBuffer baseFrame False payload"
    by (subst h) (simp add: MakeFrameBuffer_def)
  ultimately show ?thesis by (simp add: i) (simp add: fs)
qed

subsection \<open>Properties\<close>

text \<open>
  Segments. \<open>SegmentInformation\<close> succeeds on every payload that is not a null pointer with a
  size; the segments carry the payload in order, each has at most the configured number of
  bytes, all have the addresses and control field of the base frame, and exactly the last
  one is unmarked.
\<close>

theorem SegmentInformation_segments:
  assumes "\<not> bad_view payload"
  shows "\<exists>fs. SegmentInformation limits baseFrame payload = Inr fs \<and> fs \<noteq> []
    \<and> concat (map information fs) = view_bytes payload
    \<and> (\<forall>f \<in> set fs. length (information f) \<le> SegmentFieldSize limits
        \<and> destination f = frameDestination baseFrame \<and> source f = frameSource baseFrame
        \<and> control f = frameControl baseFrame)
    \<and> map segmented fs = replicate (length fs - 1) True @ [False]"
proof -
  have view: "SegmentInformation limits baseFrame payload = SegmentInformation limits baseFrame (View (view_bytes payload))"
    using assms view_size_bytes [OF assms] by (cases payload) (auto simp: SegmentInformation_def bad_view_def)
  obtain init last where seg: "SegmentInformation limits baseFrame (View (view_bytes payload)) =
      Inr (map (MakeFrameBuffer baseFrame True) init @ [MakeFrameBuffer baseFrame False last])"
    and "concat init @ last = view_bytes payload" "\<forall>x \<in> set (init @ [last]). length x \<le> SegmentFieldSize limits"
    by (rule SegmentInformation_View)
  then show ?thesis unfolding view seg
    by (auto simp: MakeFrameBuffer_def comp_def map_replicate_const)
qed

theorem SegmentInformation_segments_witness:
  "\<exists>fs. SegmentInformation \<lparr>maximumFrameSize = 0, maximumInformationFieldSize = 2, maximumReassembledInformationSize = 0\<rparr>
      (as_frame example_frame) (View [1, 2, 3]) = Inr fs
    \<and> concat (map information fs) = [1, 2, 3] \<and> map segmented fs = replicate (length fs - 1) True @ [False]"
  using SegmentInformation_segments [of "View [1, 2, 3]"] by fastforce

text \<open>
  Reassembly gives the payload back. Pushing the segments of a payload that fits the
  reassembly limit into a reassembler without a pending sequence reports
  \<open>SegmentationIncomplete\<close> for every segment but the last and then completes one unsegmented
  frame with the whole payload, leaving the reassembler as it was.
\<close>

theorem PushFrames_SegmentInformation:
  assumes "SegmentInformation limits baseFrame (View payload) = Inr fs"
    and "length payload \<le> EffectiveMaximumReassembledInformationSize limits'"
  shows "PushFrames (HdlcReassembler_init limits') fs =
    (replicate (length fs - 1) HdlcStatus.SegmentationIncomplete @ [HdlcStatus.Ok],
     [MakeFrameBuffer baseFrame False payload], HdlcReassembler_init limits')"
  using assms by (rule reassemble_segments)

theorem PushFrames_SegmentInformation_witness:
  "let l = \<lparr>maximumFrameSize = 0, maximumInformationFieldSize = 2, maximumReassembledInformationSize = 4\<rparr>;
       fs = [MakeFrameBuffer (as_frame example_frame) True [1, 2], MakeFrameBuffer (as_frame example_frame) False [3]]
   in SegmentInformation l (as_frame example_frame) (View [1, 2, 3]) = Inr fs
    \<and> PushFrames (HdlcReassembler_init l) fs =
      ([HdlcStatus.SegmentationIncomplete, HdlcStatus.Ok],
       [MakeFrameBuffer (as_frame example_frame) False [1, 2, 3]], HdlcReassembler_init l)"
proof -
  define l :: HdlcCodecLimits where
    "l = \<lparr>maximumFrameSize = 0, maximumInformationFieldSize = 2, maximumReassembledInformationSize = 4\<rparr>"
  let ?fs = "[MakeFrameBuffer (as_frame example_frame) True [1, 2], MakeFrameBuffer (as_frame example_frame) False [3]]"
  have "SegmentInformation l (as_frame example_frame) (View [1, 2, 3]) = Inr ?fs"
    by (simp add: SegmentInformation_def SegmentInformation_loop.simps SegmentFieldSize_def l_def Let_def
        numeral_2_eq_2)
  moreover have "length [1, 2, 3 :: u8] \<le> EffectiveMaximumReassembledInformationSize l"
    by (simp add: l_def EffectiveMaximumReassembledInformationSize_def)
  ultimately show ?thesis using PushFrames_SegmentInformation [of l "as_frame example_frame" "[1, 2, 3]" ?fs l]
    by (simp add: l_def)
qed

text \<open>
  Sender check and limit. While every pushed frame is itself within the reassembly limit, the
  pending information stays within it, every completed frame is within it, and a frame from
  another sender, to another destination or of another kind is answered with
  \<open>SegmentationError\<close> and drops the pending sequence.
\<close>

theorem PushFrame_limit:
  assumes "length (information (pendingFrame r)) \<le> reassembled_limit r"
    and "length (information f) \<le> reassembled_limit r"
    and "PushFrame r f = (st, c, r')"
  shows "length (information (pendingFrame r')) \<le> reassembled_limit r' \<and> reassemblerLimits r' = reassemblerLimits r
    \<and> (\<forall>g. c = Some g \<longrightarrow> length (information g) \<le> reassembled_limit r)
    \<and> (hasPending r \<and> \<not> continues (pendingFrame r) f
        \<longrightarrow> st = HdlcStatus.SegmentationError \<and> c = None \<and> r' = HdlcReassembler_Reset r)"
proof -
  let ?m = "reassembled_limit r" and ?p = "pendingFrame r"
  note reset = HdlcReassembler_Reset_def HdlcFrameBuffer_default_def
  consider "\<not> hasPending r" | "hasPending r" "\<not> continues ?p f"
    | "hasPending r" "continues ?p f" "length (information ?p) + length (information f) \<le> ?m"
    | "hasPending r" "continues ?p f" "length (information ?p) + length (information f) > ?m" by linarith
  then show ?thesis
  proof cases
    case 1
    with assms show ?thesis by (auto simp: PushFrame_def Let_def split: if_splits)
  next
    case 2
    with assms(3) show ?thesis by (auto simp: PushFrame_def Let_def continues_def reset)
  next
    case 3
    with assms(3) PushFrame_continue [OF 3] show ?thesis by (cases "segmented f") (auto simp: reset)
  next
    case 4
    with assms(2) have "length (information ?p) > size_sub ?m (length (information f))" by (simp add: size_sub_le)
    with 4 have "PushFrame r f = (HdlcStatus.SegmentationOverflow, None, HdlcReassembler_Reset r)"
      by (simp add: PushFrame_def Let_def continues_def)
    with assms(3) 4 show ?thesis by (auto simp: reset)
  qed
qed

theorem PushFrame_limit_witness:
  "let r = (HdlcReassembler_init DefaultHdlcCodecLimits)\<lparr>hasPending := True, pendingFrame := example_frame\<rparr>;
       f = example_frame\<lparr>source := HdlcAddress_default\<rparr>
   in PushFrame r f = (HdlcStatus.SegmentationError, None, HdlcReassembler_Reset r)"
proof -
  define r where "r = (HdlcReassembler_init DefaultHdlcCodecLimits)\<lparr>hasPending := True, pendingFrame := example_frame\<rparr>"
  define f where "f = example_frame\<lparr>source := HdlcAddress_default\<rparr>"
  have "length (information (pendingFrame r)) \<le> reassembled_limit r" "length (information f) \<le> reassembled_limit r"
    "hasPending r" "\<not> continues (pendingFrame r) f"
    by (simp_all add: r_def f_def example_frame_def HdlcReassembler_init_def DefaultHdlcCodecLimits_def
        EffectiveMaximumReassembledInformationSize_def continues_def HdlcAddress_default_def)
  moreover obtain st c r' where "PushFrame r f = (st, c, r')" by (rule prod_cases3)
  ultimately have "PushFrame r f = (HdlcStatus.SegmentationError, None, HdlcReassembler_Reset r)"
    using PushFrame_limit [of r f st c r'] by blast
  then show ?thesis by (simp only: r_def f_def Let_def)
qed

text \<open>
  Defect. A frame that is larger than the whole reassembly limit, arriving while a sequence is
  pending, is accepted: the subtraction of its size from the limit wraps, so the test that
  should report \<open>SegmentationOverflow\<close> passes and the completed frame exceeds the limit.
\<close>

theorem PushFrame_limit_bypass:
  assumes "hasPending r" "continues (pendingFrame r) f" "\<not> segmented f"
    and "reassembled_limit r < length (information f)"
    and "length (information (pendingFrame r)) + length (information f) \<le> size_t_modulus"
  shows "\<exists>g. PushFrame r f = (HdlcStatus.Ok, Some g, HdlcReassembler_Reset r)
    \<and> reassembled_limit r < length (information g)"
  using assms by (auto simp: PushFrame_def Let_def continues_def size_sub_def)

theorem PushFrame_limit_bypass_witness:
  "let r = (HdlcReassembler_init (DefaultHdlcCodecLimits\<lparr>maximumReassembledInformationSize := 1\<rparr>))
       \<lparr>hasPending := True, pendingFrame := example_frame\<lparr>information := [7]\<rparr>\<rparr>
   in \<exists>g. PushFrame r example_frame = (HdlcStatus.Ok, Some g, HdlcReassembler_Reset r)
     \<and> reassembled_limit r = 1 \<and> 1 < length (information g)"
proof -
  define r where "r = (HdlcReassembler_init (DefaultHdlcCodecLimits\<lparr>maximumReassembledInformationSize := 1\<rparr>))
       \<lparr>hasPending := True, pendingFrame := example_frame\<lparr>information := [7]\<rparr>\<rparr>"
  have *: "reassembled_limit r = 1" "hasPending r" "continues (pendingFrame r) example_frame" "\<not> segmented example_frame"
    "reassembled_limit r < length (information example_frame)"
    "length (information (pendingFrame r)) + length (information example_frame) \<le> size_t_modulus"
    by (simp_all add: r_def example_frame_def HdlcReassembler_init_def DefaultHdlcCodecLimits_def
        EffectiveMaximumReassembledInformationSize_def continues_def CompatibleFrameType_def size_t_modulus_def)
  from PushFrame_limit_bypass [OF *(2-6)] *(1) show ?thesis unfolding r_def [symmetric] Let_def by simp
qed

end
