(* ===== verification/Hdlc_Session.thy ===== *)
theory Hdlc_Session
  imports Hdlc_Codec
begin

text \<open>
  The HDLC session state machine (\<open>hdlc_session.hpp\<close>, \<open>hdlc_session.cpp\<close>): connection
  set-up with parameter negotiation, information transfer with three-bit sequence numbers and
  a sliding window, and disconnection. The operations take the session and return it; the
  builders also return the status or the encoded frame. The theory shows the invariant of the
  session over every sequence of calls (options and limits, sequence numbers, window, owed responses),
  and which calls raise and clear the flags of the owed responses.
\<close>

datatype HdlcSessionRole = Client | Server

datatype HdlcSessionState = Disconnected | AwaitingConnection | Connected | AwaitingDisconnect

record HdlcSessionNegotiationLimits =
  maxInformationFieldLengthTransmit :: nat
  maxInformationFieldLengthReceive :: nat
  windowSizeTransmit :: u8
  windowSizeReceive :: u8

record HdlcSessionOptions =
  role :: HdlcSessionRole
  clientAddress :: HdlcAddress
  serverAddress :: HdlcAddress
  sessionLimits :: HdlcCodecLimits
  negotiationLimits :: HdlcSessionNegotiationLimits

record SnrmParams =
  maxInfoTx :: nat
  maxInfoRx :: nat
  windowTx :: u32
  windowRx :: u32

record PendingNegotiation =
  active :: bool
  pendingParams :: SnrmParams

record HdlcSession =
  sessionOptions :: HdlcSessionOptions
  sessionState :: HdlcSessionState
  sendSequence :: u8
  receiveSequence :: u8
  acknowledgeSequence :: u8
  connectResponsePending :: bool
  disconnectResponsePending :: bool
  dmResponsePending :: bool
  pendingNegotiation :: PendingNegotiation
  negotiatedLimits :: HdlcSessionNegotiationLimits
  windowTransmit :: u8
  receivedUserInformation :: bytes

definition kSnrmControl :: u8 where
  "kSnrmControl = 0x93"

definition kUaControl :: u8 where
  "kUaControl = 0x73"

definition kDiscControl :: u8 where
  "kDiscControl = 0x53"

definition kDmControl :: u8 where
  "kDmControl = 0x1f"

definition kReceiveReadyBase :: u8 where
  "kReceiveReadyBase = 0x01"

definition kDefaultMaxInfoFieldLength :: nat where
  "kDefaultMaxInfoFieldLength = 128"

definition kDefaultWindowSize :: u8 where
  "kDefaultWindowSize = 1"

definition NextSequence :: "u8 \<Rightarrow> u8" where
  "NextSequence sequence = (sequence + 1) AND 7"

definition MakeInformationControl :: "u8 \<Rightarrow> u8 \<Rightarrow> bool \<Rightarrow> u8" where
  "MakeInformationControl sendSeq receiveSeq pollFinal =
     push_bit 1 (sendSeq AND 7) OR (if pollFinal then 0x10 else 0) OR push_bit 5 (receiveSeq AND 7)"

definition MakeReceiveReadyControl :: "u8 \<Rightarrow> bool \<Rightarrow> u8" where
  "MakeReceiveReadyControl receiveSeq pollFinal =
     kReceiveReadyBase OR (if pollFinal then 0x10 else 0) OR push_bit 5 (receiveSeq AND 7)"

definition DefaultSnrmParams :: SnrmParams where
  "DefaultSnrmParams = \<lparr>maxInfoTx = kDefaultMaxInfoFieldLength, maxInfoRx = kDefaultMaxInfoFieldLength,
     windowTx = ucast kDefaultWindowSize, windowRx = ucast kDefaultWindowSize\<rparr>"

definition ParseBeValue :: "bytes \<Rightarrow> u32" where
  "ParseBeValue bs = foldl (\<lambda>result b. push_bit 8 result OR ucast b) 0 bs"

text \<open>The loop over the parameters of the group; the list is what is left of the group.\<close>

fun ParseSnrm_loop :: "bytes \<Rightarrow> SnrmParams \<Rightarrow> HdlcStatus + SnrmParams" where
  "ParseSnrm_loop [] params = Inr params"
| "ParseSnrm_loop [tag] params = Inl HdlcStatus.InvalidFrameFormat"
| "ParseSnrm_loop (tag # len # rest) params =
     (let valLen = unat len in
      if valLen = 0 \<or> valLen > 4 \<or> valLen > length rest then Inl HdlcStatus.InvalidFrameFormat
      else
        let value = ParseBeValue (take valLen rest);
            rest' = drop valLen rest
        in
        if tag = 0x05 then ParseSnrm_loop rest' (params\<lparr>maxInfoTx := unat value\<rparr>)
        else if tag = 0x06 then ParseSnrm_loop rest' (params\<lparr>maxInfoRx := unat value\<rparr>)
        else if tag = 0x07 then ParseSnrm_loop rest' (params\<lparr>windowTx := value\<rparr>)
        else if tag = 0x08 then ParseSnrm_loop rest' (params\<lparr>windowRx := value\<rparr>)
        else Inl HdlcStatus.UnsupportedFeature)"

text \<open>The second component of the result is \<open>negotiationConsumed\<close>.\<close>

definition ParseSnrmInfoField :: "bytes \<Rightarrow> HdlcStatus + SnrmParams \<times> nat" where
  "ParseSnrmInfoField data =
     (if length data = 0 then Inr (DefaultSnrmParams, 0)
      else if length data < 3 \<or> data ! 0 \<noteq> 0x81 \<or> data ! 1 \<noteq> 0x80 then Inr (DefaultSnrmParams, 0)
      else
        let groupLen = unat (data ! 2) in
        if 3 + groupLen > length data then Inl HdlcStatus.InvalidFrameFormat
        else
          case ParseSnrm_loop (take groupLen (drop 3 data)) DefaultSnrmParams of
            Inl status \<Rightarrow> Inl status
          | Inr params \<Rightarrow> Inr (params, 3 + groupLen))"

definition EncodeSnrmNegotiationBlock :: "SnrmParams \<Rightarrow> bytes" where
  "EncodeSnrmNegotiationBlock params =
     [0x81, 0x80, 0x14,
      0x05, 0x02, word_of_nat (maxInfoTx params div 256 mod 256), word_of_nat (maxInfoTx params mod 256),
      0x06, 0x02, word_of_nat (maxInfoRx params div 256 mod 256), word_of_nat (maxInfoRx params mod 256),
      0x07, 0x04, 0x00, 0x00, 0x00, ucast (windowTx params AND 0xff),
      0x08, 0x04, 0x00, 0x00, 0x00, ucast (windowRx params AND 0xff)]"

definition NegotiateParams :: "SnrmParams \<Rightarrow> HdlcSessionNegotiationLimits \<Rightarrow> SnrmParams" where
  "NegotiateParams prop loc =
     \<lparr>maxInfoTx = min (maxInfoTx prop) (maxInformationFieldLengthReceive loc),
      maxInfoRx = min (maxInfoRx prop) (maxInformationFieldLengthTransmit loc),
      windowTx = min (windowTx prop) (ucast (windowSizeReceive loc)),
      windowRx = min (windowRx prop) (ucast (windowSizeTransmit loc))\<rparr>"

definition DefaultHdlcSessionNegotiationLimits :: HdlcSessionNegotiationLimits where
  "DefaultHdlcSessionNegotiationLimits =
     \<lparr>maxInformationFieldLengthTransmit = kDefaultMaxInfoFieldLength,
      maxInformationFieldLengthReceive = kDefaultMaxInfoFieldLength,
      windowSizeTransmit = kDefaultWindowSize, windowSizeReceive = kDefaultWindowSize\<rparr>"

definition IsDefaultNegotiationLimits :: "HdlcSessionNegotiationLimits \<Rightarrow> bool" where
  "IsDefaultNegotiationLimits l \<longleftrightarrow>
     maxInformationFieldLengthTransmit l = kDefaultMaxInfoFieldLength \<and>
     maxInformationFieldLengthReceive l = kDefaultMaxInfoFieldLength \<and>
     windowSizeTransmit l = kDefaultWindowSize \<and> windowSizeReceive l = kDefaultWindowSize"

text \<open>The constructor, with its normalisation of zero fields.\<close>

definition normalised :: "HdlcSessionNegotiationLimits \<Rightarrow> HdlcSessionNegotiationLimits" where
  "normalised l =
     \<lparr>maxInformationFieldLengthTransmit = (if maxInformationFieldLengthTransmit l = 0
        then kDefaultMaxInfoFieldLength else maxInformationFieldLengthTransmit l),
      maxInformationFieldLengthReceive = (if maxInformationFieldLengthReceive l = 0
        then kDefaultMaxInfoFieldLength else maxInformationFieldLengthReceive l),
      windowSizeTransmit = (if windowSizeTransmit l = 0 then kDefaultWindowSize else windowSizeTransmit l),
      windowSizeReceive = (if windowSizeReceive l = 0 then kDefaultWindowSize else windowSizeReceive l)\<rparr>"

definition HdlcSession_init :: "HdlcSessionOptions \<Rightarrow> HdlcSession" where
  "HdlcSession_init options =
     (let limits = normalised (negotiationLimits options) in
      \<lparr>sessionOptions = options\<lparr>negotiationLimits := limits\<rparr>, sessionState = Disconnected,
       sendSequence = 0, receiveSequence = 0, acknowledgeSequence = 0,
       connectResponsePending = False, disconnectResponsePending = False, dmResponsePending = False,
       pendingNegotiation = \<lparr>active = False, pendingParams = DefaultSnrmParams\<rparr>,
       negotiatedLimits = limits, windowTransmit = windowSizeTransmit limits,
       receivedUserInformation = []\<rparr>)"

definition outstanding :: "HdlcSession \<Rightarrow> u8" where
  "outstanding s = (sendSequence s - acknowledgeSequence s) AND 7"

definition CanSendInformationFrame :: "HdlcSession \<Rightarrow> bool" where
  "CanSendInformationFrame s \<longleftrightarrow> outstanding s < windowTransmit s"

definition LocalAddress :: "HdlcSession \<Rightarrow> HdlcAddress" where
  "LocalAddress s = (if role (sessionOptions s) = Client then clientAddress (sessionOptions s)
     else serverAddress (sessionOptions s))"

definition RemoteAddress :: "HdlcSession \<Rightarrow> HdlcAddress" where
  "RemoteAddress s = (if role (sessionOptions s) = Client then serverAddress (sessionOptions s)
     else clientAddress (sessionOptions s))"

definition IncomingAddressesMatch :: "HdlcSession \<Rightarrow> HdlcFrameBuffer \<Rightarrow> bool" where
  "IncomingAddressesMatch s frame \<longleftrightarrow>
     SameAddress (destination frame) (LocalAddress s) \<and> SameAddress (source frame) (RemoteAddress s)"

definition zero_sequences :: "HdlcSession \<Rightarrow> HdlcSession" where
  "zero_sequences s = s\<lparr>sendSequence := 0, receiveSequence := 0, acknowledgeSequence := 0\<rparr>"

definition BuildFrame :: "HdlcSession \<Rightarrow> u8 \<Rightarrow> view \<Rightarrow> HdlcStatus + bytes" where
  "BuildFrame s controlByte info =
     (case HdlcControl_Decode controlByte of
        Inl status \<Rightarrow> Inl status
      | Inr ctl \<Rightarrow>
          EncodeFrame \<lparr>frameSegmented = False, frameDestination = RemoteAddress s,
            frameSource = LocalAddress s, frameControl = ctl, frameInformation = info\<rparr>
            (sessionLimits (sessionOptions s)))"

definition BuildUnnumberedFrame :: "HdlcSession \<Rightarrow> u8 \<Rightarrow> HdlcStatus + bytes" where
  "BuildUnnumberedFrame s controlByte = BuildFrame s controlByte (NullView 0)"

definition BuildSupervisoryFrame :: "HdlcSession \<Rightarrow> u8 \<Rightarrow> HdlcStatus + bytes" where
  "BuildSupervisoryFrame s controlByte = BuildFrame s controlByte (NullView 0)"

definition hasUserInfo :: "view \<Rightarrow> bool" where
  "hasUserInfo info \<longleftrightarrow> \<not> view_null info \<and> view_size info > 0"

subsection \<open>Builders\<close>

definition BuildConnectRequestInternal :: "HdlcSession \<Rightarrow> bool \<Rightarrow> view \<Rightarrow> (HdlcStatus + bytes) \<times> HdlcSession" where
  "BuildConnectRequestInternal s includeNegotiation userInformation =
     (if role (sessionOptions s) \<noteq> Client then (Inl HdlcStatus.UnsupportedFeature, s)
      else if sessionState s \<noteq> Disconnected then (Inl HdlcStatus.UnsupportedFrame, s)
      else
        let own = negotiationLimits (sessionOptions s);
            prop = \<lparr>maxInfoTx = maxInformationFieldLengthTransmit own,
              maxInfoRx = maxInformationFieldLengthReceive own,
              windowTx = ucast (windowSizeTransmit own), windowRx = ucast (windowSizeReceive own)\<rparr>;
            infoField = (if includeNegotiation then EncodeSnrmNegotiationBlock prop else [])
              @ (if hasUserInfo userInformation then view_bytes userInformation else [])
        in
        case BuildFrame s kSnrmControl (view_of infoField) of
          Inl status \<Rightarrow> (Inl status, s)
        | Inr output \<Rightarrow> (Inr output, zero_sequences (s\<lparr>sessionState := AwaitingConnection\<rparr>)))"

definition BuildConnectRequest :: "HdlcSession \<Rightarrow> (HdlcStatus + bytes) \<times> HdlcSession" where
  "BuildConnectRequest s =
     BuildConnectRequestInternal s (\<not> IsDefaultNegotiationLimits (negotiationLimits (sessionOptions s))) (NullView 0)"

definition BuildConnectRequestUser :: "HdlcSession \<Rightarrow> view \<Rightarrow> (HdlcStatus + bytes) \<times> HdlcSession" where
  "BuildConnectRequestUser s userInformation = BuildConnectRequestInternal s True userInformation"

text \<open>The limits the server adopts for negotiated parameters, before the UA frame is built.\<close>

definition adopt_server :: "HdlcSession \<Rightarrow> SnrmParams \<Rightarrow> HdlcSession" where
  "adopt_server s negotiated =
     (let l = \<lparr>maxInformationFieldLengthTransmit = maxInfoRx negotiated,
            maxInformationFieldLengthReceive = maxInfoTx negotiated,
            windowSizeTransmit = ucast (windowRx negotiated), windowSizeReceive = ucast (windowTx negotiated)\<rparr>;
          lim = (sessionLimits (sessionOptions s))\<lparr>maximumInformationFieldSize := maxInformationFieldLengthTransmit l\<rparr>
      in s\<lparr>negotiatedLimits := l, sessionOptions := (sessionOptions s)\<lparr>sessionLimits := lim\<rparr>,
           windowTransmit := windowSizeTransmit l\<rparr>)"

definition BuildConnectResponse :: "HdlcSession \<Rightarrow> (HdlcStatus + bytes) \<times> HdlcSession" where
  "BuildConnectResponse s =
     (if role (sessionOptions s) \<noteq> Server then (Inl HdlcStatus.UnsupportedFeature, s)
      else if \<not> connectResponsePending s then (Inl HdlcStatus.UnsupportedFrame, s)
      else
        let negotiated = NegotiateParams (pendingParams (pendingNegotiation s)) (negotiationLimits (sessionOptions s));
            infoField = (if active (pendingNegotiation s) then EncodeSnrmNegotiationBlock negotiated else []);
            s1 = (if active (pendingNegotiation s) then adopt_server s negotiated else s)
        in
        case BuildFrame s1 kUaControl (view_of infoField) of
          Inl status \<Rightarrow> (Inl status, s1)
        | Inr output \<Rightarrow> (Inr output, zero_sequences (s1\<lparr>sessionState := Connected,
            connectResponsePending := False, pendingNegotiation := (pendingNegotiation s1)\<lparr>active := False\<rparr>\<rparr>)))"

definition BuildDisconnectRequestUser :: "HdlcSession \<Rightarrow> view \<Rightarrow> (HdlcStatus + bytes) \<times> HdlcSession" where
  "BuildDisconnectRequestUser s userInformation =
     (if sessionState s \<noteq> Connected then (Inl HdlcStatus.UnsupportedFrame, s)
      else
        case BuildFrame s kDiscControl (if hasUserInfo userInformation then userInformation else NullView 0) of
          Inl status \<Rightarrow> (Inl status, s)
        | Inr output \<Rightarrow> (Inr output, s\<lparr>sessionState := AwaitingDisconnect\<rparr>))"

definition BuildDisconnectRequest :: "HdlcSession \<Rightarrow> (HdlcStatus + bytes) \<times> HdlcSession" where
  "BuildDisconnectRequest s = BuildDisconnectRequestUser s (NullView 0)"

definition BuildDisconnectResponse :: "HdlcSession \<Rightarrow> (HdlcStatus + bytes) \<times> HdlcSession" where
  "BuildDisconnectResponse s =
     (if \<not> disconnectResponsePending s then (Inl HdlcStatus.UnsupportedFrame, s)
      else
        case BuildUnnumberedFrame s kUaControl of
          Inl status \<Rightarrow> (Inl status, s)
        | Inr output \<Rightarrow> (Inr output, zero_sequences (s\<lparr>sessionState := Disconnected, disconnectResponsePending := False\<rparr>)))"

definition BuildDmResponse :: "HdlcSession \<Rightarrow> (HdlcStatus + bytes) \<times> HdlcSession" where
  "BuildDmResponse s =
     (if \<not> dmResponsePending s then (Inl HdlcStatus.UnsupportedFrame, s)
      else
        case BuildUnnumberedFrame s kDmControl of
          Inl status \<Rightarrow> (Inl status, s)
        | Inr output \<Rightarrow> (Inr output, s\<lparr>dmResponsePending := False\<rparr>))"

definition BuildInformationFrame :: "HdlcSession \<Rightarrow> view \<Rightarrow> bool \<Rightarrow> (HdlcStatus + bytes) \<times> HdlcSession" where
  "BuildInformationFrame s info pollFinal =
     (if sessionState s \<noteq> Connected then (Inl HdlcStatus.UnsupportedFrame, s)
      else if \<not> CanSendInformationFrame s then (Inl HdlcStatus.UnsupportedFrame, s)
      else
        case BuildFrame s (MakeInformationControl (sendSequence s) (receiveSequence s) pollFinal) info of
          Inl status \<Rightarrow> (Inl status, s)
        | Inr output \<Rightarrow> (Inr output, s\<lparr>sendSequence := NextSequence (sendSequence s)\<rparr>))"

definition BuildReceiveReadyFrame :: "HdlcSession \<Rightarrow> bool \<Rightarrow> (HdlcStatus + bytes) \<times> HdlcSession" where
  "BuildReceiveReadyFrame s pollFinal =
     (if sessionState s \<noteq> Connected then (Inl HdlcStatus.UnsupportedFrame, s)
      else (BuildSupervisoryFrame s (MakeReceiveReadyControl (receiveSequence s) pollFinal), s))"

subsection \<open>Receivers\<close>

text \<open>The test that \<open>N(R)\<close> lies between \<open>V(A)\<close> and \<open>V(S)\<close>, modulo 8.\<close>

definition valid_nr :: "HdlcSession \<Rightarrow> u8 \<Rightarrow> bool" where
  "valid_nr s nr \<longleftrightarrow> (nr - acknowledgeSequence s) AND 7 \<le> (sendSequence s - acknowledgeSequence s) AND 7"

definition ReceiveInformationFrame :: "HdlcSession \<Rightarrow> HdlcFrameBuffer \<Rightarrow> HdlcStatus \<times> HdlcSession" where
  "ReceiveInformationFrame s frame =
     (if sessionState s \<noteq> Connected then (HdlcStatus.UnsupportedFrame, s)
      else if SendSequence (control frame) \<noteq> receiveSequence s then (HdlcStatus.InvalidControlField, s)
      else if \<not> valid_nr s (ReceiveSequence (control frame)) then (HdlcStatus.InvalidControlField, s)
      else (HdlcStatus.Ok, s\<lparr>acknowledgeSequence := ReceiveSequence (control frame),
              receiveSequence := NextSequence (receiveSequence s)\<rparr>))"

definition ReceiveSupervisoryFrame :: "HdlcSession \<Rightarrow> HdlcFrameBuffer \<Rightarrow> HdlcStatus \<times> HdlcSession" where
  "ReceiveSupervisoryFrame s frame =
     (if sessionState s \<noteq> Connected then (HdlcStatus.UnsupportedFrame, s)
      else case SupervisoryKind (control frame) of
        Inl status \<Rightarrow> (status, s)
      | Inr _ \<Rightarrow>
          if \<not> valid_nr s (ReceiveSequence (control frame)) then (HdlcStatus.InvalidControlField, s)
          else (HdlcStatus.Ok, s\<lparr>acknowledgeSequence := ReceiveSequence (control frame)\<rparr>))"

definition ReceiveSnrm :: "HdlcSession \<Rightarrow> bytes \<Rightarrow> HdlcStatus \<times> HdlcSession" where
  "ReceiveSnrm s info =
     (if role (sessionOptions s) \<noteq> Server \<or> sessionState s \<noteq> Disconnected then (HdlcStatus.UnsupportedFrame, s)
      else
        let s0 = s\<lparr>receivedUserInformation := [],
              pendingNegotiation := (pendingNegotiation s)\<lparr>active := False\<rparr>\<rparr>;
            accept = (\<lambda>s'. (HdlcStatus.Ok, zero_sequences (s'\<lparr>connectResponsePending := True\<rparr>)))
        in
        if info = [] then accept s0
        else case ParseSnrmInfoField info of
          Inl parseStatus \<Rightarrow> (parseStatus, s0\<lparr>dmResponsePending := True\<rparr>)
        | Inr (prop, negotiationConsumed) \<Rightarrow>
            let s1 = (if negotiationConsumed > 0
                  then s0\<lparr>pendingNegotiation := \<lparr>active = True, pendingParams = prop\<rparr>\<rparr> else s0);
                s2 = (if negotiationConsumed < length info
                  then s1\<lparr>receivedUserInformation := drop negotiationConsumed info\<rparr> else s1)
            in accept s2)"

definition adopt_client :: "HdlcSession \<Rightarrow> SnrmParams \<Rightarrow> HdlcSession" where
  "adopt_client s uaParams =
     (let l = \<lparr>maxInformationFieldLengthTransmit = maxInfoTx uaParams,
            maxInformationFieldLengthReceive = maxInfoRx uaParams,
            windowSizeTransmit = ucast (windowTx uaParams), windowSizeReceive = ucast (windowRx uaParams)\<rparr>;
          lim = (sessionLimits (sessionOptions s))\<lparr>maximumInformationFieldSize := maxInformationFieldLengthTransmit l\<rparr>
      in s\<lparr>negotiatedLimits := l, sessionOptions := (sessionOptions s)\<lparr>sessionLimits := lim\<rparr>,
           windowTransmit := windowSizeTransmit l\<rparr>)"

definition ReceiveUa :: "HdlcSession \<Rightarrow> bytes \<Rightarrow> HdlcStatus \<times> HdlcSession" where
  "ReceiveUa s info =
     (if sessionState s = AwaitingConnection then
        let s1 = (if info = [] then s
              else case ParseSnrmInfoField info of
                Inl _ \<Rightarrow> s
              | Inr (uaParams, consumed) \<Rightarrow> if consumed > 0 then adopt_client s uaParams else s)
        in (HdlcStatus.Ok, zero_sequences (s1\<lparr>sessionState := Connected\<rparr>))
      else if sessionState s = AwaitingDisconnect then
        (HdlcStatus.Ok, zero_sequences (s\<lparr>sessionState := Disconnected\<rparr>))
      else (HdlcStatus.UnsupportedFrame, s))"

definition ReceiveUnnumberedFrame :: "HdlcSession \<Rightarrow> HdlcFrameBuffer \<Rightarrow> HdlcStatus \<times> HdlcSession" where
  "ReceiveUnnumberedFrame s frame =
     (case UnnumberedKind (control frame) of
        Inl status \<Rightarrow> (status, s)
      | Inr kind \<Rightarrow>
          if kind = Snrm then ReceiveSnrm s (information frame)
          else if kind = Ua then ReceiveUa s (information frame)
          else if kind = Disc then
            (if sessionState s \<noteq> Connected then (HdlcStatus.UnsupportedFrame, s)
             else (HdlcStatus.Ok, s\<lparr>receivedUserInformation := information frame, disconnectResponsePending := True\<rparr>))
          else if kind = Dm then (HdlcStatus.Ok, zero_sequences (s\<lparr>sessionState := Disconnected\<rparr>))
          else (HdlcStatus.UnsupportedFrame, s))"

definition ReceiveFrame :: "HdlcSession \<Rightarrow> HdlcFrameBuffer \<Rightarrow> HdlcStatus \<times> HdlcSession" where
  "ReceiveFrame s frame =
     (if \<not> IncomingAddressesMatch s frame then (HdlcStatus.InvalidAddress, s)
      else case FrameKind (control frame) of
        Information \<Rightarrow> ReceiveInformationFrame s frame
      | Supervisory \<Rightarrow> ReceiveSupervisoryFrame s frame
      | Unnumbered \<Rightarrow> ReceiveUnnumberedFrame s frame)"

subsection \<open>Every sequence of calls\<close>

inductive session_step :: "HdlcSession \<Rightarrow> HdlcSession \<Rightarrow> bool" where
  connect_request: "session_step s (snd (BuildConnectRequest s))"
| connect_request_user: "session_step s (snd (BuildConnectRequestUser s v))"
| connect_response: "session_step s (snd (BuildConnectResponse s))"
| disconnect_request: "session_step s (snd (BuildDisconnectRequestUser s v))"
| disconnect_response: "session_step s (snd (BuildDisconnectResponse s))"
| dm_response: "session_step s (snd (BuildDmResponse s))"
| information: "session_step s (snd (BuildInformationFrame s v p))"
| receive_ready: "session_step s (snd (BuildReceiveReadyFrame s p))"
| receive: "session_step s (snd (ReceiveFrame s f))"

inductive session_reachable :: "HdlcSessionOptions \<Rightarrow> HdlcSession \<Rightarrow> bool" for opts where
  init: "session_reachable opts (HdlcSession_init opts)"
| step: "session_reachable opts s \<Longrightarrow> session_step s s' \<Longrightarrow> session_reachable opts s'"

text \<open>
  The codec limits of the constructor are kept except for the size of the information field,
  which is still that of the constructor or follows the negotiated limits; a server never
  adopts more than it was configured with.
\<close>

definition within_limits :: "HdlcSessionNegotiationLimits \<Rightarrow> HdlcSessionNegotiationLimits \<Rightarrow> bool" where
  "within_limits l own \<longleftrightarrow>
     maxInformationFieldLengthTransmit l \<le> maxInformationFieldLengthTransmit own
     \<and> maxInformationFieldLengthReceive l \<le> maxInformationFieldLengthReceive own
     \<and> windowSizeTransmit l \<le> windowSizeTransmit own \<and> windowSizeReceive l \<le> windowSizeReceive own"

definition limits_kept :: "HdlcSessionOptions \<Rightarrow> HdlcSession \<Rightarrow> bool" where
  "limits_kept opts s \<longleftrightarrow>
     (sessionLimits (sessionOptions s) = sessionLimits opts
        \<and> negotiatedLimits s = normalised (negotiationLimits opts)
      \<or> sessionLimits (sessionOptions s) = (sessionLimits opts)
          \<lparr>maximumInformationFieldSize := maxInformationFieldLengthTransmit (negotiatedLimits s)\<rparr>)
     \<and> (role opts = Server \<longrightarrow> within_limits (negotiatedLimits s) (normalised (negotiationLimits opts)))"

text \<open>
  How one call may change the three flags of owed responses: each is raised only by the role and
  in the state that owes the response, a connect response that is no longer owed has connected
  the session, and a disconnect response that is no longer owed has disconnected it.
\<close>

definition flags_follow :: "HdlcSession \<Rightarrow> HdlcSession \<Rightarrow> bool" where
  "flags_follow s s' \<longleftrightarrow>
     (connectResponsePending s' \<and> \<not> connectResponsePending s \<longrightarrow>
        role (sessionOptions s) = Server \<and> sessionState s = Disconnected \<and> sessionState s' = Disconnected)
     \<and> (dmResponsePending s' \<and> \<not> dmResponsePending s \<longrightarrow>
        role (sessionOptions s) = Server \<and> sessionState s = Disconnected \<and> sessionState s' = Disconnected)
     \<and> (disconnectResponsePending s' \<and> \<not> disconnectResponsePending s \<longrightarrow>
        sessionState s = Connected \<and> sessionState s' = Connected)
     \<and> (connectResponsePending s \<and> \<not> connectResponsePending s' \<longrightarrow> sessionState s' = Connected)
     \<and> (disconnectResponsePending s \<and> \<not> disconnectResponsePending s' \<longrightarrow>
        sessionState s' = Disconnected \<and> sendSequence s' = 0 \<and> receiveSequence s' = 0)
     \<and> (dmResponsePending s \<and> \<not> dmResponsePending s' \<longrightarrow> sessionState s' = sessionState s)"

definition session_inv :: "HdlcSessionOptions \<Rightarrow> HdlcSession \<Rightarrow> bool" where
  "session_inv opts s \<longleftrightarrow>
     role (sessionOptions s) = role opts \<and> clientAddress (sessionOptions s) = clientAddress opts
     \<and> serverAddress (sessionOptions s) = serverAddress opts
     \<and> negotiationLimits (sessionOptions s) = normalised (negotiationLimits opts)
     \<and> sendSequence s < 8 \<and> receiveSequence s < 8 \<and> acknowledgeSequence s < 8
     \<and> outstanding s \<le> windowTransmit s
     \<and> windowTransmit s = windowSizeTransmit (negotiatedLimits s)
     \<and> (sessionState s = AwaitingConnection \<longrightarrow> role opts = Client)
     \<and> (connectResponsePending s \<longrightarrow> role opts = Server \<and> sessionState s = Disconnected)
     \<and> (dmResponsePending s \<longrightarrow> role opts = Server)
     \<and> limits_kept opts s
     \<and> (sessionState s \<in> {Disconnected, AwaitingConnection} \<longrightarrow>
         sendSequence s = 0 \<and> receiveSequence s = 0 \<and> acknowledgeSequence s = 0)"

subsection \<open>Sequence numbers\<close>

lemma uint_and_7: "uint (a AND 7 :: u8) = uint a mod 8"
  by (simp only: and_0x07 unsigned_take_bit_eq) (simp add: take_bit_eq_mod)

lemma uint_seq_diff: "uint ((a - b) AND 7 :: u8) = (uint a - uint b) mod 8"
  by (simp add: uint_and_7 uint_word_ariths mod_mod_cancel)

lemma uint_NextSequence: "uint (NextSequence a) = (uint a + 1) mod 8"
  by (simp add: NextSequence_def uint_and_7 uint_word_ariths mod_mod_cancel)

lemma u8_less_8: "(a :: u8) < 8 \<longleftrightarrow> uint a < 8"
  by (simp add: word_less_def)

lemma NextSequence_less [simp]: "NextSequence a < 8"
  by (simp add: u8_less_8 uint_NextSequence)

lemma outstanding_next:
  assumes "(vs - va) AND 7 < (w :: u8)"
  shows "(NextSequence vs - va) AND 7 \<le> w"
proof -
  have "uint ((NextSequence vs - va) AND 7) = (uint ((vs - va) AND 7) + 1) mod 8"
    unfolding uint_seq_diff uint_NextSequence by (simp add: mod_simps algebra_simps)
  also have "\<dots> \<le> uint ((vs - va) AND 7) + 1" by (rule zmod_le_nonneg_dividend) simp
  finally show ?thesis using assms by (simp add: word_le_def word_less_def)
qed

lemma acknowledge_shrinks:
  assumes "(nr - va) AND 7 \<le> ((vs - va) AND 7 :: u8)"
  shows "(vs - nr) AND 7 \<le> (vs - va) AND 7"
proof -
  have "(uint vs - uint nr) mod 8 = ((uint vs - uint va) mod 8 - (uint nr - uint va) mod 8) mod 8"
    by (simp add: mod_simps)
  moreover have "(uint nr - uint va) mod 8 \<le> (uint vs - uint va) mod 8"
    using assms by (simp add: word_le_def uint_seq_diff)
  moreover have "0 \<le> (uint nr - uint va) mod 8" by simp
  moreover have "((uint vs - uint va) mod 8 - (uint nr - uint va) mod 8) mod 8
      \<le> (uint vs - uint va) mod 8 - (uint nr - uint va) mod 8"
    using calculation(2) by (intro zmod_le_nonneg_dividend) simp
  ultimately have "(uint vs - uint nr) mod 8 \<le> (uint vs - uint va) mod 8" by linarith
  then show ?thesis by (simp add: word_le_def uint_seq_diff)
qed
subsection \<open>The invariant\<close>

lemma ReceiveSequence_less [simp]: "ReceiveSequence c < 8"
  using ReceiveSequence_bound [of c] by (simp add: word_less_nat_alt)

lemma session_inv_irrelevant [simp]:
  "session_inv opts (s\<lparr>receivedUserInformation := u\<rparr>) = session_inv opts s"
  "session_inv opts (s\<lparr>pendingNegotiation := n\<rparr>) = session_inv opts s"
  "session_inv opts (s\<lparr>disconnectResponsePending := d\<rparr>) = session_inv opts s"
  by (simp_all add: session_inv_def outstanding_def limits_kept_def)

lemma limits_kept_irrelevant [simp]:
  "limits_kept opts (s\<lparr>sessionState := st\<rparr>) = limits_kept opts s"
  "limits_kept opts (s\<lparr>sendSequence := n\<rparr>) = limits_kept opts s"
  "limits_kept opts (s\<lparr>receiveSequence := n\<rparr>) = limits_kept opts s"
  "limits_kept opts (s\<lparr>acknowledgeSequence := n\<rparr>) = limits_kept opts s"
  "limits_kept opts (s\<lparr>connectResponsePending := d\<rparr>) = limits_kept opts s"
  "limits_kept opts (s\<lparr>disconnectResponsePending := d\<rparr>) = limits_kept opts s"
  "limits_kept opts (s\<lparr>dmResponsePending := d\<rparr>) = limits_kept opts s"
  "limits_kept opts (s\<lparr>receivedUserInformation := u\<rparr>) = limits_kept opts s"
  "limits_kept opts (s\<lparr>pendingNegotiation := p\<rparr>) = limits_kept opts s"
  by (simp_all add: limits_kept_def)

lemma session_inv_dm:
  "session_inv opts s \<Longrightarrow> d \<longrightarrow> dmResponsePending s \<or> role (sessionOptions s) = Server \<Longrightarrow>
     session_inv opts (s\<lparr>dmResponsePending := d\<rparr>)"
  by (auto simp: session_inv_def outstanding_def)

lemma session_inv_pending:
  "session_inv opts s \<Longrightarrow> role (sessionOptions s) = Server \<Longrightarrow> sessionState s = Disconnected \<Longrightarrow>
    session_inv opts (zero_sequences (s\<lparr>connectResponsePending := True\<rparr>))"
  by (simp add: session_inv_def zero_sequences_def outstanding_def)

lemma session_inv_zero:
  assumes "session_inv opts s"
    and "st = AwaitingConnection \<longrightarrow> role opts = Client"
    and "connectResponsePending s \<longrightarrow> st = Disconnected"
  shows "session_inv opts (zero_sequences (s\<lparr>sessionState := st\<rparr>))"
  using assms by (auto simp: session_inv_def zero_sequences_def outstanding_def)

lemma session_inv_init: "session_inv opts (HdlcSession_init opts)"
  by (simp add: session_inv_def HdlcSession_init_def Let_def outstanding_def limits_kept_def within_limits_def)

lemma session_inv_BuildConnectRequestInternal:
  assumes "session_inv opts s"
  shows "session_inv opts (snd (BuildConnectRequestInternal s b v))"
proof -
  have "connectResponsePending s \<Longrightarrow> role (sessionOptions s) \<noteq> Client" "role (sessionOptions s) = role opts"
    using assms by (auto simp: session_inv_def)
  with assms show ?thesis
    by (auto simp: BuildConnectRequestInternal_def Let_def split: sum.split intro!: session_inv_zero)
qed

lemma ucast_min_window: "ucast (min (w :: u32) (ucast (l :: u8))) \<le> (l :: u8)"
proof (cases "w \<le> ucast l")
  case True
  moreover have "unat (ucast l :: u32) = unat l" using unsigned_less [of l, where ?'a = nat]
    by (simp add: unsigned_ucast_eq take_bit_nat_eq_self)
  ultimately have "unat w \<le> unat l" by (simp add: word_le_nat_alt)
  moreover from this have "unat (ucast w :: u8) = unat w"
    using unsigned_less [of l, where ?'a = nat] by (simp add: unsigned_ucast_eq take_bit_nat_eq_self)
  ultimately show ?thesis using True by (simp add: word_le_nat_alt min_def)
next
  case False
  have "ucast (ucast l :: u32) = l" by (rule bit_word_eqI) (auto simp: bit_simps)
  with False show ?thesis by (simp add: min_def)
qed

lemma session_inv_adopt_server:
  assumes "session_inv opts s" "connectResponsePending s"
  shows "session_inv opts (adopt_server s (NegotiateParams prop (negotiationLimits (sessionOptions s))))"
proof -
  have "negotiationLimits (sessionOptions s) = normalised (negotiationLimits opts)"
    using assms by (simp add: session_inv_def)
  then have "limits_kept opts (adopt_server s (NegotiateParams prop (negotiationLimits (sessionOptions s))))"
    using assms by (auto simp: session_inv_def limits_kept_def adopt_server_def Let_def NegotiateParams_def
        within_limits_def ucast_min_window)
  moreover have "session_inv opts (adopt_server s n)" if "limits_kept opts (adopt_server s n)" for n
    using assms that by (simp add: session_inv_def adopt_server_def Let_def outstanding_def)
  ultimately show ?thesis by blast
qed

lemma session_inv_connected:
  assumes "session_inv opts s"
  shows "session_inv opts (zero_sequences (s\<lparr>sessionState := Connected, connectResponsePending := False,
    pendingNegotiation := p\<rparr>))"
  using assms by (simp add: session_inv_def zero_sequences_def outstanding_def)

lemma session_inv_BuildConnectResponse:
  "session_inv opts s \<Longrightarrow> session_inv opts (snd (BuildConnectResponse s))"
  by (simp add: BuildConnectResponse_def Let_def session_inv_connected session_inv_adopt_server split: sum.split)

lemma session_inv_BuildDisconnect:
  assumes "session_inv opts s"
  shows "session_inv opts (snd (BuildDisconnectRequestUser s v))"
    and "session_inv opts (snd (BuildDisconnectResponse s))"
    and "session_inv opts (snd (BuildDmResponse s))"
    and "session_inv opts (snd (BuildReceiveReadyFrame s p))"
proof -
  have "session_inv opts (s\<lparr>sessionState := AwaitingDisconnect\<rparr>)" if "sessionState s = Connected"
    using assms that by (auto simp: session_inv_def outstanding_def)
  then show "session_inv opts (snd (BuildDisconnectRequestUser s v))"
    using assms by (simp add: BuildDisconnectRequestUser_def split: sum.split)
  have "session_inv opts (zero_sequences (s\<lparr>sessionState := Disconnected, disconnectResponsePending := False\<rparr>))"
    using session_inv_zero [OF assms, of Disconnected] by (simp add: session_inv_def zero_sequences_def outstanding_def)
  then show "session_inv opts (snd (BuildDisconnectResponse s))"
    using assms by (simp add: BuildDisconnectResponse_def split: sum.split)
  show "session_inv opts (snd (BuildDmResponse s))" "session_inv opts (snd (BuildReceiveReadyFrame s p))"
    using assms by (simp_all add: BuildDmResponse_def BuildReceiveReadyFrame_def session_inv_dm split: sum.split)
qed

lemma session_inv_sent:
  assumes "session_inv opts s" "sessionState s = Connected" "CanSendInformationFrame s"
  shows "session_inv opts (s\<lparr>sendSequence := NextSequence (sendSequence s)\<rparr>)"
  using assms outstanding_next [of "sendSequence s" "acknowledgeSequence s" "windowTransmit s"]
  by (simp add: session_inv_def outstanding_def CanSendInformationFrame_def)

lemma session_inv_BuildInformationFrame:
  "session_inv opts s \<Longrightarrow> session_inv opts (snd (BuildInformationFrame s v p))"
  by (simp add: BuildInformationFrame_def session_inv_sent split: sum.split)

lemma session_inv_acknowledge:
  assumes "session_inv opts s" "sessionState s = Connected" "valid_nr s nr" "nr < 8" "vr < 8"
  shows "session_inv opts (s\<lparr>acknowledgeSequence := nr, receiveSequence := vr\<rparr>)"
  using assms acknowledge_shrinks [of nr "acknowledgeSequence s" "sendSequence s"]
  by (auto simp: session_inv_def outstanding_def valid_nr_def)

lemma session_inv_ReceiveSnrm: "session_inv opts s \<Longrightarrow> session_inv opts (snd (ReceiveSnrm s info))"
  by (simp add: ReceiveSnrm_def Let_def session_inv_pending session_inv_dm split: sum.split prod.split)

lemma session_inv_adopt_client:
  "session_inv opts s \<Longrightarrow> sessionState s = AwaitingConnection \<Longrightarrow>
    session_inv opts (adopt_client s n) \<and> \<not> connectResponsePending (adopt_client s n)"
  by (auto simp: session_inv_def adopt_client_def Let_def outstanding_def limits_kept_def)

lemma session_inv_ReceiveUa:
  assumes "session_inv opts s"
  shows "session_inv opts (snd (ReceiveUa s info))"
proof -
  have "\<not> connectResponsePending s" if "sessionState s = AwaitingConnection"
    using assms that by (auto simp: session_inv_def)
  with assms session_inv_adopt_client [OF assms] show ?thesis
    by (simp add: ReceiveUa_def Let_def session_inv_zero split: sum.split prod.split)
qed

lemma session_inv_ReceiveFrame:
  assumes "session_inv opts s"
  shows "session_inv opts (snd (ReceiveFrame s f))"
proof -
  have i: "session_inv opts (snd (ReceiveInformationFrame s f))"
    using assms session_inv_acknowledge [OF assms]
    by (auto simp: ReceiveInformationFrame_def)
  have sup: "session_inv opts (snd (ReceiveSupervisoryFrame s f))"
    using assms session_inv_acknowledge [OF assms, of "ReceiveSequence (control f)" "receiveSequence s"]
    by (auto simp: ReceiveSupervisoryFrame_def session_inv_def split: sum.splits)
  have u: "session_inv opts (snd (ReceiveUnnumberedFrame s f))"
    using assms session_inv_ReceiveSnrm [OF assms] session_inv_ReceiveUa [OF assms]
      session_inv_zero [OF assms, of Disconnected]
    by (simp add: ReceiveUnnumberedFrame_def split: sum.split)
  show ?thesis using assms i sup u
    by (auto simp: ReceiveFrame_def split: HdlcFrameKind.splits)
qed

lemmas session_inv_ops = session_inv_BuildConnectRequestInternal session_inv_BuildConnectResponse
  session_inv_BuildDisconnect session_inv_BuildInformationFrame session_inv_ReceiveFrame

lemma session_inv_step: "session_step s s' \<Longrightarrow> session_inv opts s \<Longrightarrow> session_inv opts s'"
  by (induction rule: session_step.induct)
    (simp_all add: BuildConnectRequest_def BuildConnectRequestUser_def session_inv_ops)

subsection \<open>The flags of owed responses\<close>

lemma flags_follow_refl: "flags_follow s s"
  by (simp add: flags_follow_def)

lemma flags_follow_builders:
  "flags_follow s (snd (BuildConnectRequestInternal s b v))"
  "flags_follow s (snd (BuildConnectResponse s))"
  "flags_follow s (snd (BuildDisconnectRequestUser s v))"
  "flags_follow s (snd (BuildDisconnectResponse s))"
  "flags_follow s (snd (BuildDmResponse s))"
  "flags_follow s (snd (BuildInformationFrame s v p))"
  "flags_follow s (snd (BuildReceiveReadyFrame s p))"
  by (simp_all add: BuildConnectRequestInternal_def BuildConnectResponse_def BuildDisconnectRequestUser_def
      BuildDisconnectResponse_def BuildDmResponse_def BuildInformationFrame_def BuildReceiveReadyFrame_def
      flags_follow_def zero_sequences_def adopt_server_def Let_def split: sum.split)

lemma flags_follow_receivers:
  "flags_follow s (snd (ReceiveInformationFrame s f))"
  "flags_follow s (snd (ReceiveSupervisoryFrame s f))"
  "flags_follow s (snd (ReceiveSnrm s info))"
  "flags_follow s (snd (ReceiveUa s info))"
  by (simp_all add: ReceiveInformationFrame_def ReceiveSupervisoryFrame_def ReceiveSnrm_def ReceiveUa_def
      flags_follow_def zero_sequences_def adopt_client_def Let_def split: sum.split prod.split)

lemma flags_follow_ReceiveFrame: "flags_follow s (snd (ReceiveFrame s f))"
proof -
  have "flags_follow s (snd (ReceiveUnnumberedFrame s f))"
    using flags_follow_receivers(3,4) [of s "information f"]
    by (simp add: ReceiveUnnumberedFrame_def flags_follow_refl split: sum.split)
      (simp add: flags_follow_def zero_sequences_def)
  then show ?thesis
    using flags_follow_receivers(1,2) by (simp add: ReceiveFrame_def flags_follow_refl split: HdlcFrameKind.split)
qed

lemma flags_follow_step: "session_step s s' \<Longrightarrow> flags_follow s s'"
  by (induction rule: session_step.induct)
    (simp_all add: BuildConnectRequest_def BuildConnectRequestUser_def flags_follow_builders flags_follow_ReceiveFrame)

subsection \<open>Properties\<close>

text \<open>
  C16: Invariant of every sequence of calls. In every session state reachable by any calls of the
  builders and by the reception of any frames: role, addresses and negotiation limits are those
  of the constructor; so are the codec limits, except that the size of the information field is
  that of the negotiated limits once these were adopted, and a server never adopts more than it
  was configured with; the three sequence variables are below 8, no more information frames are
  outstanding than the transmit window allows, and the variables are zero while the session is
  disconnected or awaits a connection; only a client awaits a connection, only a disconnected
  server owes a connect response and only a server owes a DM. From each such state every call
  raises the flag of an owed response only in the role and the state that owe it (connect response
  and DM: a disconnected server; disconnect response: a connected session), withdraws a connect
  response only by connecting and a disconnect response only by disconnecting. Nothing is said of
  the state in which a disconnect response stays owed: a DM leaves it so.
\<close>

theorem session_reachable_inv:
  assumes "session_reachable opts s"
  shows "session_inv opts s \<and> (\<forall>s'. session_step s s' \<longrightarrow> flags_follow s s')"
proof
  show "session_inv opts s"
    using assms by (induction rule: session_reachable.induct) (auto intro: session_inv_init session_inv_step)
qed (blast intro: flags_follow_step)

text \<open>The instance is a server that owes a DM: it received an SNRM with a truncated negotiation block.\<close>

theorem session_reachable_inv_witness:
  "let opts = \<lparr>role = Server, clientAddress = \<lparr>rawValue = 16, encodedSize = 1\<rparr>,
       serverAddress = \<lparr>rawValue = 1, encodedSize = 1\<rparr>, sessionLimits = DefaultHdlcCodecLimits,
       negotiationLimits = DefaultHdlcSessionNegotiationLimits\<rparr>;
     f = \<lparr>segmented = False, destination = \<lparr>rawValue = 1, encodedSize = 1\<rparr>,
       source = \<lparr>rawValue = 16, encodedSize = 1\<rparr>, control = \<lparr>controlValue = kSnrmControl\<rparr>,
       information = [0x81, 0x80, 0x14]\<rparr>;
     s = snd (ReceiveFrame (HdlcSession_init opts) f)
   in dmResponsePending s \<and> session_inv opts s \<and> flags_follow s (snd (BuildDmResponse s))"
proof -
  have reach: "session_reachable opts (snd (ReceiveFrame (HdlcSession_init opts) f))" for opts f
    by (rule session_reachable.step [OF session_reachable.init session_step.receive])
  have "session_step s (snd (BuildDmResponse s))" for s by (rule session_step.dm_response)
  note inv = session_reachable_inv [OF reach, THEN conjunct1] session_reachable_inv [OF reach, THEN conjunct2, rule_format, OF this]
  show ?thesis
    unfolding Let_def
    by (intro conjI inv) (simp add: ReceiveFrame_def IncomingAddressesMatch_def LocalAddress_def RemoteAddress_def SameAddress_def
        HdlcSession_init_def Let_def FrameKind_def ReceiveUnnumberedFrame_def UnnumberedKind_def ReceiveSnrm_def
        ParseSnrmInfoField_def kSnrmControl_def)
qed

end
