(* ===== verification/Hdlc_Link.thy ===== *)
theory Hdlc_Link
  imports Hdlc_Session
begin

text \<open>
  Two HDLC sessions connected through the frame codec: what the builders of \<open>Hdlc_Session\<close> put
  on the wire, the handshake of a client and a server with its negotiation, the exchange of
  information frames and their acknowledgement, and where the negotiation deviates from the session requirements
  (\<open>docs/04_hdlc_session_requirements.md\<close>).
\<close>

subsection \<open>Frames the builders produce\<close>

definition session_frame :: "HdlcSession \<Rightarrow> u8 \<Rightarrow> bytes \<Rightarrow> HdlcFrameBuffer" where
  "session_frame s c info = \<lparr>segmented = False, destination = RemoteAddress s, source = LocalAddress s,
     control = \<lparr>controlValue = c\<rparr>, information = info\<rparr>"

lemma EncodeFrame_view:
  "\<not> bad_view v \<Longrightarrow> EncodeFrame (fr\<lparr>frameInformation := v\<rparr>) limits
     = EncodeFrame (fr\<lparr>frameInformation := view_of (view_bytes v)\<rparr>) limits"
  by (cases fr) (simp only: EncodeFrame_def EncodeFrameToBuffer_def EffectiveMaximumInformationFieldSize_def
      HdlcFrame.simps view_size_bytes view_of_simps if_False simp_thms)

lemma BuildFrame_session_frame:
  assumes "HdlcControl_Decode c = Inr \<lparr>controlValue = c\<rparr>" "\<not> bad_view v"
  shows "BuildFrame s c v =
    EncodeFrame (as_frame (session_frame s c (view_bytes v))) (sessionLimits (sessionOptions s))"
  using assms(1) EncodeFrame_view [OF assms(2), of "as_frame (session_frame s c (view_bytes v))"]
  by (simp add: BuildFrame_def as_frame_def session_frame_def)

lemma BuildFrame_bad_view: "bad_view v \<Longrightarrow> BuildFrame s c v \<noteq> Inr bs"
  by (auto simp: BuildFrame_def EncodeFrame_def EncodeFrameToBuffer_def split: sum.splits)

text \<open>The default limits admit every frame that any limits admit.\<close>

lemma frame_status_default:
  assumes "frame_status f limits = HdlcStatus.Ok"
  shows "frame_status f DefaultHdlcCodecLimits = HdlcStatus.Ok"
  using assms
  by (auto simp: frame_limits_eval Let_def split: if_splits)

definition addresses_ok :: "HdlcSession \<Rightarrow> bool" where
  "addresses_ok s \<longleftrightarrow> address_inv (clientAddress (sessionOptions s)) \<and> address_inv (serverAddress (sessionOptions s))"

lemma session_frame_inv:
  assumes "addresses_ok s" "HdlcControl_Decode c = Inr \<lparr>controlValue = c\<rparr>"
  shows "frame_inv (session_frame s c info)"
  using assms by (simp add: frame_inv_def session_frame_def addresses_ok_def LocalAddress_def RemoteAddress_def
      control_inv_def)

lemma BuildFrame_decodes:
  assumes "BuildFrame s c v = Inr bs" "addresses_ok s" "HdlcControl_Decode c = Inr \<lparr>controlValue = c\<rparr>"
  shows "DecodeFrame (View bs) DefaultHdlcCodecLimits = Inr (session_frame s c (view_bytes v))"
proof -
  have "\<not> bad_view v" using assms(1) BuildFrame_bad_view by blast
  then have "bs = frame_wire (session_frame s c (view_bytes v))"
    "frame_status (session_frame s c (view_bytes v)) (sessionLimits (sessionOptions s)) = HdlcStatus.Ok"
    using assms(1) by (auto simp: BuildFrame_session_frame [OF assms(3)] EncodeFrame_frame_wire split: if_splits)
  then show ?thesis
    using session_frame_inv [OF assms(2,3)] by (simp add: DecodeFrame_frame_wire frame_status_default)
qed

subsection \<open>Control fields\<close>

lemma control_consts:
  "HdlcControl_Decode kSnrmControl = Inr \<lparr>controlValue = kSnrmControl\<rparr>"
  "HdlcControl_Decode kUaControl = Inr \<lparr>controlValue = kUaControl\<rparr>"
  "FrameKind \<lparr>controlValue = kSnrmControl\<rparr> = Unnumbered" "FrameKind \<lparr>controlValue = kUaControl\<rparr> = Unnumbered"
  "UnnumberedKind \<lparr>controlValue = kSnrmControl\<rparr> = Inr Snrm" "UnnumberedKind \<lparr>controlValue = kUaControl\<rparr> = Inr Ua"
  by (simp_all add: HdlcControl_Decode_def kSnrmControl_def kUaControl_def IsSupportedUnnumbered_def
      FrameKind_def UnnumberedKind_def)

lemma and_7_less_8: "a < 8 \<Longrightarrow> a AND 7 = (a :: u8)"
  by (simp add: word_uint_eq_iff uint_and_7 u8_less_8)

lemma information_control:
  fixes a b :: u8 and p :: bool
  assumes "a < 8" "b < 8"
  defines "c \<equiv> MakeInformationControl a b p"
  shows "HdlcControl_Decode c = Inr \<lparr>controlValue = c\<rparr>" "FrameKind \<lparr>controlValue = c\<rparr> = Information"
    "SendSequence \<lparr>controlValue = c\<rparr> = a" "ReceiveSequence \<lparr>controlValue = c\<rparr> = b"
proof -
  define pf :: u8 where "pf = (if p then push_bit 4 1 else 0)"
  have c: "c = push_bit 1 (take_bit 3 a) OR pf OR push_bit 5 (take_bit 3 b)"
    by (simp add: c_def MakeInformationControl_def pf_def mask_simps)
  have "\<not> bit c 0" by (auto simp: c pf_def bit_simps)
  then have even: "c AND 1 = 0" using and_1_bit [of c] by auto
  then show "HdlcControl_Decode c = Inr \<lparr>controlValue = c\<rparr>" and k: "FrameKind \<lparr>controlValue = c\<rparr> = Information"
    by (simp_all add: HdlcControl_Decode_def FrameKind_def)
  have "drop_bit 1 c AND 7 = a AND 7" "drop_bit 5 c AND 7 = b AND 7"
    unfolding mask_simps c by (auto intro!: bit_word_eqI simp: pf_def bit_simps)
  with k assms show "SendSequence \<lparr>controlValue = c\<rparr> = a" "ReceiveSequence \<lparr>controlValue = c\<rparr> = b"
    by (simp_all add: SendSequence_def ReceiveSequence_def and_7_less_8)
qed

lemma receive_ready_control:
  fixes b :: u8 and p :: bool
  assumes "b < 8"
  defines "c \<equiv> MakeReceiveReadyControl b p"
  shows "HdlcControl_Decode c = Inr \<lparr>controlValue = c\<rparr>" "FrameKind \<lparr>controlValue = c\<rparr> = Supervisory"
    "SupervisoryKind \<lparr>controlValue = c\<rparr> = Inr ReceiveReady" "ReceiveSequence \<lparr>controlValue = c\<rparr> = b"
proof -
  define pf :: u8 where "pf = (if p then push_bit 4 1 else 0)"
  have c: "c = 1 OR pf OR push_bit 5 (take_bit 3 b)"
    by (simp add: c_def MakeReceiveReadyControl_def kReceiveReadyBase_def pf_def mask_simps)
  have low: "take_bit 4 c = 1"
    unfolding c by (auto intro!: bit_word_eqI simp: pf_def bit_simps)
  have "c AND 3 = take_bit 2 (take_bit 4 c)" by (simp add: mask_simps)
  then have three: "c AND 3 = 1" by (simp add: low)
  have "bit c 0" by (auto simp: c bit_simps)
  then have one: "c AND 1 \<noteq> 0" by (simp only: and_1_bit not_False_eq_True)
  show "HdlcControl_Decode c = Inr \<lparr>controlValue = c\<rparr>" and k: "FrameKind \<lparr>controlValue = c\<rparr> = Supervisory"
    using three one by (simp_all add: HdlcControl_Decode_def FrameKind_def)
  have "drop_bit 2 c AND 3 = drop_bit 2 (take_bit 4 c)" by (simp add: mask_simps drop_bit_take_bit)
  then have "drop_bit 2 c AND 3 = 0" by (simp add: low)
  with k show "SupervisoryKind \<lparr>controlValue = c\<rparr> = Inr ReceiveReady"
    by (simp add: SupervisoryKind_def)
  have "drop_bit 5 c AND 7 = b AND 7"
    unfolding mask_simps c by (auto intro!: bit_word_eqI simp: pf_def bit_simps)
  with k assms show "ReceiveSequence \<lparr>controlValue = c\<rparr> = b"
    by (simp add: ReceiveSequence_def and_7_less_8)
qed

subsection \<open>Negotiation parameters\<close>

lemma ParseBeValue_2:
  assumes "n < 65536"
  shows "unat (ParseBeValue [word_of_nat (n div 256 mod 256), word_of_nat (n mod 256)]) = n"
proof -
  let ?h = "word_of_nat (n div 256 mod 256) :: u8" and ?l = "word_of_nat (n mod 256) :: u8"
  have "ParseBeValue [?h, ?l] = push_bit 8 (ucast ?h) OR ucast ?l" by (simp add: ParseBeValue_def)
  also have "\<dots> = ucast ?h * 256 + ucast ?l" unfolding push_or_add by (simp add: push_bit_eq_mult)
  finally have "unat (ParseBeValue [?h, ?l]) = unat (ucast ?h * 256 + ucast ?l :: u32)" by (rule arg_cong)
  also have "\<dots> = (n div 256 mod 256) * 256 + n mod 256"
  proof -
    have "n div 256 mod 256 < 256" "n mod 256 < 256" by simp_all
    then have "n div 256 mod 256 * 256 + n mod 256 < 65536" by linarith
    moreover have "take_bit 32 (n div 256 mod 256) = n div 256 mod 256" "take_bit 32 (n mod 256) = n mod 256"
      by (simp_all add: take_bit_nat_eq_self_iff less_trans [OF mod_less_divisor])
    ultimately show ?thesis by (simp add: unat_word_ariths unat_of_nat unsigned_ucast_eq)
  qed
  also have "\<dots> = n" using assms by simp
  finally show ?thesis .
qed

lemma ParseBeValue_4: "w \<le> 0xff \<Longrightarrow> ParseBeValue [0, 0, 0, ucast (w AND 0xff)] = w"
proof -
  assume w: "w \<le> 0xff"
  then have "unat w < 2 ^ 8" by (simp add: word_le_nat_alt)
  then have "take_bit 8 w = w" by (simp add: word_unat_eq_iff unsigned_take_bit_eq take_bit_nat_eq_self)
  moreover have "ucast (ucast (take_bit 8 w) :: u8) = take_bit 8 w"
    by (rule bit_word_eqI) (auto simp: bit_simps)
  ultimately show ?thesis by (simp add: ParseBeValue_def mask_simps)
qed
lemma ParseSnrm_loop_steps:
  "ParseSnrm_loop (0x05 # 0x02 # a # b # rest) p = ParseSnrm_loop rest (p\<lparr>maxInfoTx := unat (ParseBeValue [a, b])\<rparr>)"
  "ParseSnrm_loop (0x06 # 0x02 # a # b # rest) p = ParseSnrm_loop rest (p\<lparr>maxInfoRx := unat (ParseBeValue [a, b])\<rparr>)"
  "ParseSnrm_loop (0x07 # 0x04 # a # b # c # d # rest) p = ParseSnrm_loop rest (p\<lparr>windowTx := ParseBeValue [a, b, c, d]\<rparr>)"
  "ParseSnrm_loop (0x08 # 0x04 # a # b # c # d # rest) p = ParseSnrm_loop rest (p\<lparr>windowRx := ParseBeValue [a, b, c, d]\<rparr>)"
  by (simp_all add: Let_def)

text \<open>The encoded block is parsed back, whatever user information follows it.\<close>

lemma ParseSnrmInfoField_block:
  assumes "maxInfoTx p < 65536" "maxInfoRx p < 65536" "windowTx p \<le> 0xff" "windowRx p \<le> 0xff"
  shows "ParseSnrmInfoField (EncodeSnrmNegotiationBlock p @ user) = Inr (p, 23)"
proof -
  note vals = ParseBeValue_2 [OF assms(1)] ParseBeValue_2 [OF assms(2)]
    ParseBeValue_4 [OF assms(3)] ParseBeValue_4 [OF assms(4)]
  have "ParseSnrm_loop (drop 3 (EncodeSnrmNegotiationBlock p)) DefaultSnrmParams = Inr p"
    by (simp add: EncodeSnrmNegotiationBlock_def ParseSnrm_loop_steps vals DefaultSnrmParams_def
        del: ParseSnrm_loop.simps(3))
  moreover have "take 20 (drop 3 (EncodeSnrmNegotiationBlock p @ user)) = drop 3 (EncodeSnrmNegotiationBlock p)"
    by (simp add: EncodeSnrmNegotiationBlock_def)
  moreover have "length (EncodeSnrmNegotiationBlock p @ user) = 23 + length user"
    "(EncodeSnrmNegotiationBlock p @ user) ! 0 = 0x81" "(EncodeSnrmNegotiationBlock p @ user) ! 1 = 0x80"
    "(EncodeSnrmNegotiationBlock p @ user) ! 2 = 0x14"
    by (simp_all add: EncodeSnrmNegotiationBlock_def)
  moreover have "unat (0x14 :: u8) = 20" by simp
  ultimately show ?thesis
    unfolding ParseSnrmInfoField_def Let_def by (simp only:) simp
qed

subsection \<open>A connected pair\<close>

text \<open>Two endpoints that agree on addresses and on the next sequence number in each direction.\<close>

definition peers :: "HdlcSession \<Rightarrow> HdlcSession \<Rightarrow> bool" where
  "peers a b \<longleftrightarrow> addresses_ok a \<and> addresses_ok b
     \<and> LocalAddress a = RemoteAddress b \<and> RemoteAddress a = LocalAddress b
     \<and> sessionState a = Connected \<and> sessionState b = Connected
     \<and> sendSequence a = receiveSequence b \<and> sendSequence b = receiveSequence a
     \<and> sendSequence a < 8 \<and> sendSequence b < 8"

lemma address_updates [simp]:
  "LocalAddress (s\<lparr>sendSequence := x\<rparr>) = LocalAddress s" "RemoteAddress (s\<lparr>sendSequence := x\<rparr>) = RemoteAddress s"
  "LocalAddress (s\<lparr>receiveSequence := x\<rparr>) = LocalAddress s" "RemoteAddress (s\<lparr>receiveSequence := x\<rparr>) = RemoteAddress s"
  "LocalAddress (s\<lparr>acknowledgeSequence := x\<rparr>) = LocalAddress s"
  "RemoteAddress (s\<lparr>acknowledgeSequence := x\<rparr>) = RemoteAddress s"
  "LocalAddress (s\<lparr>sessionState := st\<rparr>) = LocalAddress s" "RemoteAddress (s\<lparr>sessionState := st\<rparr>) = RemoteAddress s"
  "addresses_ok (s\<lparr>sendSequence := x\<rparr>) = addresses_ok s" "addresses_ok (s\<lparr>receiveSequence := x\<rparr>) = addresses_ok s"
  "addresses_ok (s\<lparr>acknowledgeSequence := x\<rparr>) = addresses_ok s"
  by (simp_all add: LocalAddress_def RemoteAddress_def addresses_ok_def)

lemma NextSequence_neq: "a < 8 \<Longrightarrow> NextSequence a \<noteq> a"
proof
  assume "a < 8" "NextSequence a = a"
  then have "(uint a + 1) mod 8 = uint a" "uint a < 8" "0 \<le> uint a"
    using uint_NextSequence [of a] by (simp_all add: u8_less_8)
  then show False by presburger
qed

lemma BuildInformationFrame_Inr:
  assumes "BuildInformationFrame a v p = (Inr bs, a')"
  shows "sessionState a = Connected \<and> outstanding a < windowTransmit a
    \<and> BuildFrame a (MakeInformationControl (sendSequence a) (receiveSequence a) p) v = Inr bs
    \<and> a' = a\<lparr>sendSequence := NextSequence (sendSequence a)\<rparr>"
  using assms by (auto simp: BuildInformationFrame_def CanSendInformationFrame_def split: if_splits sum.splits)

subsection \<open>Negotiation between two ends\<close>

text \<open>What a client proposes and what both ends must adopt: the smaller value in each direction.\<close>

definition agreed :: "HdlcSessionNegotiationLimits \<Rightarrow> HdlcSessionNegotiationLimits \<Rightarrow> HdlcSessionNegotiationLimits" where
  "agreed own other =
     \<lparr>maxInformationFieldLengthTransmit = min (maxInformationFieldLengthTransmit own) (maxInformationFieldLengthReceive other),
      maxInformationFieldLengthReceive = min (maxInformationFieldLengthReceive own) (maxInformationFieldLengthTransmit other),
      windowSizeTransmit = min (windowSizeTransmit own) (windowSizeReceive other),
      windowSizeReceive = min (windowSizeReceive own) (windowSizeTransmit other)\<rparr>"

definition proposal :: "HdlcSessionNegotiationLimits \<Rightarrow> SnrmParams" where
  "proposal own = \<lparr>maxInfoTx = maxInformationFieldLengthTransmit own,
     maxInfoRx = maxInformationFieldLengthReceive own,
     windowTx = ucast (windowSizeTransmit own), windowRx = ucast (windowSizeReceive own)\<rparr>"

lemma ucast_u8_u32_le: "(ucast (a :: u8) :: u32) \<le> 0xff"
proof -
  have "unat a < 2 ^ 8" by (rule order_less_le_trans [OF unsigned_less]) simp
  then show ?thesis by (simp add: word_le_nat_alt unsigned_ucast_eq take_bit_nat_eq_self)
qed

lemma ucast_u8_u32_min: "min (ucast (a :: u8)) (ucast (b :: u8)) = (ucast (min a b) :: u32)"
  by (simp add: min_def word_le_nat_alt unsigned_ucast_eq take_bit_nat_eq_self order_less_le_trans [OF unsigned_less])

lemma ucast_u8_u32_u8 [simp]: "ucast (ucast (a :: u8) :: u32) = a"
  by (rule bit_word_eqI) (auto simp: bit_simps)

lemma NegotiateParams_agreed:
  "NegotiateParams (proposal c) s = proposal (agreed c s)"
  by (simp add: NegotiateParams_def proposal_def agreed_def ucast_u8_u32_min)

lemma agreed_swap: "agreed s c = \<lparr>maxInformationFieldLengthTransmit = maxInformationFieldLengthReceive (agreed c s),
    maxInformationFieldLengthReceive = maxInformationFieldLengthTransmit (agreed c s),
    windowSizeTransmit = windowSizeReceive (agreed c s), windowSizeReceive = windowSizeTransmit (agreed c s)\<rparr>"
  by (simp add: agreed_def min.commute)

lemma parse_proposal:
  assumes "maxInformationFieldLengthTransmit l < 65536" "maxInformationFieldLengthReceive l < 65536"
  shows "ParseSnrmInfoField (EncodeSnrmNegotiationBlock (proposal l)) = Inr (proposal l, 23)"
  using ParseSnrmInfoField_block [of "proposal l" "[]"] assms ucast_u8_u32_le by (simp add: proposal_def)

lemma length_block [simp]: "length (EncodeSnrmNegotiationBlock p) = 23" "EncodeSnrmNegotiationBlock p \<noteq> []"
  by (simp_all add: EncodeSnrmNegotiationBlock_def)

text \<open>A codec configuration with room for a frame with a negotiation block.\<close>

definition room_for_block :: "HdlcCodecLimits \<Rightarrow> bool" where
  "room_for_block l \<longleftrightarrow> 40 \<le> EffectiveMaximumFrameSize l
     \<and> (maximumInformationFieldSize l = 0 \<or> 23 \<le> maximumInformationFieldSize l)"

lemma BuildFrame_fits:
  assumes "addresses_ok s" "HdlcControl_Decode c = Inr \<lparr>controlValue = c\<rparr>" "length info \<le> 23"
    and "info = [] \<and> 15 \<le> EffectiveMaximumFrameSize (sessionLimits (sessionOptions s))
      \<or> room_for_block (sessionLimits (sessionOptions s))"
  shows "\<exists>bs. BuildFrame s c (view_of info) = Inr bs
    \<and> DecodeFrame (View bs) DefaultHdlcCodecLimits = Inr (session_frame s c info)"
proof -
  let ?f = "session_frame s c info" and ?l = "sessionLimits (sessionOptions s)"
  have sizes: "encodedSize (RemoteAddress s) \<le> 4" "encodedSize (LocalAddress s) \<le> 4"
    using assms(1) by (auto simp: addresses_ok_def address_inv_def IsSupportedEncodedSize_def
        LocalAddress_def RemoteAddress_def)
  have fl: "format_length ?f \<le> 38" "info = [] \<Longrightarrow> format_length ?f \<le> 13"
    using sizes assms(3) by (simp_all add: format_length_def header_size_def session_frame_def)
  have info: "length (information ?f) \<le> EffectiveMaximumInformationFieldSize (as_frame ?f) ?l"
    using sizes assms(3,4)
    by (auto simp: EffectiveMaximumInformationFieldSize_def as_frame_def session_frame_def room_for_block_def Let_def)
  have "frame_status ?f ?l = HdlcStatus.Ok"
    using fl info assms(4) by (auto simp: frame_status_def kMaximumFormatFieldLength_def room_for_block_def)
  then have "BuildFrame s c (view_of info) = Inr (frame_wire ?f)"
    using BuildFrame_session_frame [OF assms(2), of "view_of info" s] by (simp add: EncodeFrame_frame_wire)
  with BuildFrame_decodes [OF this assms(1,2)] show ?thesis by simp
qed

lemma BuildFrame_block:
  assumes "addresses_ok s" "room_for_block (sessionLimits (sessionOptions s))" "length info \<le> 23"
    and "HdlcControl_Decode c = Inr \<lparr>controlValue = c\<rparr>"
  shows "\<exists>bs. BuildFrame s c (view_of info) = Inr bs
    \<and> DecodeFrame (View bs) DefaultHdlcCodecLimits = Inr (session_frame s c info)"
  using BuildFrame_fits [OF assms(1,4,3)] assms(2) by blast

text \<open>A session after the handshake: connected, with the agreed limits and all sequence numbers reset.\<close>

definition established :: "HdlcSession \<Rightarrow> HdlcSessionNegotiationLimits \<Rightarrow> HdlcSession" where
  "established s l = zero_sequences (s\<lparr>sessionState := Connected, negotiatedLimits := l,
     sessionOptions := (sessionOptions s)\<lparr>sessionLimits := (sessionLimits (sessionOptions s))
       \<lparr>maximumInformationFieldSize := maxInformationFieldLengthTransmit l\<rparr>\<rparr>,
     windowTransmit := windowSizeTransmit l\<rparr>)"

lemma established_simps [simp]:
  "sendSequence (established s l) = 0" "receiveSequence (established s l) = 0" "acknowledgeSequence (established s l) = 0"
  "sessionState (established s l) = Connected" "negotiatedLimits (established s l) = l"
  "windowTransmit (established s l) = windowSizeTransmit l"
  "connectResponsePending (established s l) = connectResponsePending s"
  "LocalAddress (established s l) = LocalAddress s" "RemoteAddress (established s l) = RemoteAddress s"
  "addresses_ok (established s l) = addresses_ok s"
  by (simp_all add: established_def zero_sequences_def LocalAddress_def RemoteAddress_def addresses_ok_def)

text \<open>The client's half of the handshake.\<close>

lemma BuildConnectRequest_proposes:
  assumes "role (sessionOptions c) = Client" "sessionState c = Disconnected" "addresses_ok c"
    and "\<not> IsDefaultNegotiationLimits (negotiationLimits (sessionOptions c))" "room_for_block (sessionLimits (sessionOptions c))"
  shows "\<exists>bs. BuildConnectRequest c = (Inr bs, zero_sequences (c\<lparr>sessionState := AwaitingConnection\<rparr>))
    \<and> DecodeFrame (View bs) DefaultHdlcCodecLimits =
      Inr (session_frame c kSnrmControl (EncodeSnrmNegotiationBlock (proposal (negotiationLimits (sessionOptions c)))))"
proof -
  let ?block = "EncodeSnrmNegotiationBlock (proposal (negotiationLimits (sessionOptions c)))"
  from BuildFrame_block [OF assms(3,5), of ?block, OF _ control_consts(1)] obtain bs where
    "BuildFrame c kSnrmControl (view_of ?block) = Inr bs"
    and dec: "DecodeFrame (View bs) DefaultHdlcCodecLimits = Inr (session_frame c kSnrmControl ?block)"
    by auto
  then have "BuildConnectRequest c = (Inr bs, zero_sequences (c\<lparr>sessionState := AwaitingConnection\<rparr>))"
    using assms
    by (simp add: BuildConnectRequest_def BuildConnectRequestInternal_def Let_def proposal_def hasUserInfo_def)
  with dec show ?thesis by blast
qed

lemma ReceiveFrame_snrm_block:
  assumes "role (sessionOptions s) = Server" "sessionState s = Disconnected"
    and "f = session_frame c kSnrmControl (EncodeSnrmNegotiationBlock (proposal l))"
    and "LocalAddress s = RemoteAddress c" "RemoteAddress s = LocalAddress c"
    and "maxInformationFieldLengthTransmit l < 65536" "maxInformationFieldLengthReceive l < 65536"
  shows "ReceiveFrame s f = (HdlcStatus.Ok, zero_sequences (s\<lparr>receivedUserInformation := [],
    pendingNegotiation := \<lparr>active = True, pendingParams = proposal l\<rparr>, connectResponsePending := True\<rparr>))"
  using assms parse_proposal [OF assms(6,7)] control_consts
  by (simp add: ReceiveFrame_def session_frame_def IncomingAddressesMatch_def ReceiveUnnumberedFrame_def
      ReceiveSnrm_def Let_def)

text \<open>The server's answer.\<close>

lemma BuildConnectResponse_answers:
  assumes "role (sessionOptions s) = Server" "addresses_ok s" "connectResponsePending s"
    and "pendingNegotiation s = \<lparr>active = True, pendingParams = proposal l\<rparr>"
    and "40 \<le> EffectiveMaximumFrameSize (sessionLimits (sessionOptions s))"
  defines "n \<equiv> negotiationLimits (sessionOptions s)"
  assumes "23 \<le> maxInformationFieldLengthTransmit (agreed n l)"
  shows "\<exists>bs. BuildConnectResponse s = (Inr bs, established (s\<lparr>connectResponsePending := False,
        pendingNegotiation := \<lparr>active = False, pendingParams = proposal l\<rparr>\<rparr>) (agreed n l))
    \<and> DecodeFrame (View bs) DefaultHdlcCodecLimits =
      Inr (session_frame s kUaControl (EncodeSnrmNegotiationBlock (proposal (agreed l n))))"
proof -
  let ?a = "adopt_server s (proposal (agreed l n))"
  have a: "?a = s\<lparr>negotiatedLimits := agreed n l,
      sessionOptions := (sessionOptions s)\<lparr>sessionLimits := (sessionLimits (sessionOptions s))
        \<lparr>maximumInformationFieldSize := maxInformationFieldLengthTransmit (agreed n l)\<rparr>\<rparr>,
      windowTransmit := windowSizeTransmit (agreed n l)\<rparr>"
    using agreed_swap [of n l] by (simp add: adopt_server_def Let_def proposal_def)
  have "addresses_ok ?a" "room_for_block (sessionLimits (sessionOptions ?a))"
    using assms(2,5,7) unfolding a by (auto simp: addresses_ok_def room_for_block_def
        Let_def EffectiveMaximumFrameSize_def split: if_splits)
  from BuildFrame_block [OF this, of "EncodeSnrmNegotiationBlock (proposal (agreed l n))", OF _ control_consts(2)]
  obtain bs where bs: "BuildFrame ?a kUaControl (view_of (EncodeSnrmNegotiationBlock (proposal (agreed l n)))) = Inr bs"
    and dec: "DecodeFrame (View bs) DefaultHdlcCodecLimits =
      Inr (session_frame ?a kUaControl (EncodeSnrmNegotiationBlock (proposal (agreed l n))))"
    by auto
  have "session_frame ?a kUaControl info = session_frame s kUaControl info" for info
    unfolding a by (simp add: session_frame_def LocalAddress_def RemoteAddress_def)
  moreover have "BuildConnectResponse s = (Inr bs, zero_sequences (?a\<lparr>sessionState := Connected,
      connectResponsePending := False, pendingNegotiation := (pendingNegotiation ?a)\<lparr>active := False\<rparr>\<rparr>))"
    using bs assms(1,3,4)
    by (simp add: BuildConnectResponse_def Let_def NegotiateParams_agreed flip: n_def)
  moreover have "zero_sequences (?a\<lparr>sessionState := Connected, connectResponsePending := False,
      pendingNegotiation := (pendingNegotiation ?a)\<lparr>active := False\<rparr>\<rparr>) =
    established (s\<lparr>connectResponsePending := False,
      pendingNegotiation := \<lparr>active = False, pendingParams = proposal l\<rparr>\<rparr>) (agreed n l)"
    unfolding a by (simp add: established_def zero_sequences_def assms(4))
  ultimately show ?thesis using dec by simp
qed

lemma ReceiveFrame_ua_block:
  assumes "sessionState c = AwaitingConnection"
    and "f = session_frame s kUaControl (EncodeSnrmNegotiationBlock (proposal l))"
    and "LocalAddress c = RemoteAddress s" "RemoteAddress c = LocalAddress s"
    and "maxInformationFieldLengthTransmit l < 65536" "maxInformationFieldLengthReceive l < 65536"
  shows "ReceiveFrame c f = (HdlcStatus.Ok, established c l)"
proof -
  have "zero_sequences (adopt_client c (proposal l)\<lparr>sessionState := Connected\<rparr>) = established c l"
    by (simp add: adopt_client_def established_def zero_sequences_def Let_def proposal_def)
  then show ?thesis
    using assms parse_proposal [OF assms(5,6)] control_consts
    by (simp add: ReceiveFrame_def session_frame_def IncomingAddressesMatch_def ReceiveUnnumberedFrame_def
        ReceiveUa_def)
qed

lemma zero_sequences_simps [simp]:
  "LocalAddress (zero_sequences s) = LocalAddress s" "RemoteAddress (zero_sequences s) = RemoteAddress s"
  "addresses_ok (zero_sequences s) = addresses_ok s" "sessionState (zero_sequences s) = sessionState s"
  "sessionOptions (zero_sequences s) = sessionOptions s"
  "connectResponsePending (zero_sequences s) = connectResponsePending s"
  "pendingNegotiation (zero_sequences s) = pendingNegotiation s"
  by (simp_all add: zero_sequences_def)

lemma session_frame_cong: "LocalAddress s = LocalAddress s' \<Longrightarrow> RemoteAddress s = RemoteAddress s' \<Longrightarrow>
    session_frame s c info = session_frame s' c info"
  by (simp add: session_frame_def)

lemma init_addresses:
  "LocalAddress (HdlcSession_init opts) = (if role opts = Client then clientAddress opts else serverAddress opts)"
  "RemoteAddress (HdlcSession_init opts) = (if role opts = Client then serverAddress opts else clientAddress opts)"
  by (simp_all add: LocalAddress_def RemoteAddress_def HdlcSession_init_def Let_def)

text \<open>The three sequence variables of a session.\<close>

definition sequences :: "HdlcSession \<Rightarrow> u8 \<times> u8 \<times> u8" where
  "sequences s = (sendSequence s, receiveSequence s, acknowledgeSequence s)"

definition with_sequences :: "u8 \<times> u8 \<times> u8 \<Rightarrow> HdlcSession \<Rightarrow> HdlcSession" where
  "with_sequences n s = s\<lparr>sendSequence := fst n, receiveSequence := fst (snd n), acknowledgeSequence := snd (snd n)\<rparr>"

lemma sequences_simps [simp]:
  "sequences (established s l) = (0, 0, 0)" "sequences (zero_sequences s) = (0, 0, 0)"
  "established (with_sequences n s) l = established s l"
  "LocalAddress (with_sequences n s) = LocalAddress s" "RemoteAddress (with_sequences n s) = RemoteAddress s"
  "addresses_ok (with_sequences n s) = addresses_ok s" "sessionState (with_sequences n s) = sessionState s"
  "sessionOptions (with_sequences n s) = sessionOptions s"
  "connectResponsePending (with_sequences n s) = connectResponsePending s"
  "pendingNegotiation (with_sequences n s) = pendingNegotiation s"
  "with_sequences (0, 0, 0) s = zero_sequences s"
  by (simp_all add: sequences_def with_sequences_def established_def zero_sequences_def LocalAddress_def
      RemoteAddress_def addresses_ok_def)

lemma BuildFrame_sequences [simp]: "BuildFrame (with_sequences n s) = BuildFrame s"
  by (simp add: BuildFrame_def fun_eq_iff split: sum.split)

lemma adopt_sequences: "adopt_server (with_sequences n s) p = with_sequences n (adopt_server s p)"
  by (simp add: adopt_server_def with_sequences_def Let_def)

lemma zero_after_sequences:
  "zero_sequences ((with_sequences n s)\<lparr>sessionState := st, connectResponsePending := p, pendingNegotiation := q\<rparr>)
     = zero_sequences (s\<lparr>sessionState := st, connectResponsePending := p, pendingNegotiation := q\<rparr>)"
  by (simp add: zero_sequences_def with_sequences_def)

lemma BuildConnectResponse_sequences:
  "BuildConnectResponse s = (Inr ua, s') \<Longrightarrow> BuildConnectResponse (with_sequences n s) = (Inr ua, s')"
  by (auto simp: BuildConnectResponse_def Let_def adopt_sequences zero_after_sequences split: if_splits sum.splits)

lemma established_peers:
  assumes "addresses_ok c" "addresses_ok s" "LocalAddress c = RemoteAddress s" "RemoteAddress c = LocalAddress s"
  shows "peers (established c l) (established s m)"
  using assms by (simp add: peers_def)

subsection \<open>Properties\<close>

text \<open>
  The receive-ready answer: when the codec of the answering end admits a frame of 15 bytes, the
  frame is built without a change of the session, and the other end takes all it has sent as
  acknowledged.
\<close>

lemma receive_ready_exchange:
  assumes "peers a b" "15 \<le> EffectiveMaximumFrameSize (sessionLimits (sessionOptions b))"
  shows "\<exists>rr g. BuildReceiveReadyFrame b pollFinal = (Inr rr, b)
    \<and> DecodeFrame (View rr) DefaultHdlcCodecLimits = Inr g \<and> SupervisoryKind (control g) = Inr ReceiveReady
    \<and> ReceiveFrame a g = (HdlcStatus.Ok, a\<lparr>acknowledgeSequence := sendSequence a\<rparr>)"
proof -
  let ?c = "MakeReceiveReadyControl (receiveSequence b) pollFinal"
  have p: "addresses_ok b" "LocalAddress a = RemoteAddress b" "RemoteAddress a = LocalAddress b" "sessionState a = Connected"
    "sessionState b = Connected" "sendSequence a = receiveSequence b" "receiveSequence b < 8"
    using assms(1) by (auto simp: peers_def)
  note ctl = receive_ready_control [OF p(7), of pollFinal]
  from BuildFrame_fits [OF p(1) ctl(1), of "[]"] assms(2) obtain rr where
    "BuildFrame b ?c (NullView 0) = Inr rr" "DecodeFrame (View rr) DefaultHdlcCodecLimits = Inr (session_frame b ?c [])"
    by (auto simp: view_of_def)
  moreover have "valid_nr a (receiveSequence b)" using p(6) by (simp add: valid_nr_def)
  moreover from this have "ReceiveFrame a (session_frame b ?c []) = (HdlcStatus.Ok, a\<lparr>acknowledgeSequence := sendSequence a\<rparr>)"
    using p ctl by (simp add: ReceiveFrame_def session_frame_def IncomingAddressesMatch_def ReceiveSupervisoryFrame_def)
  ultimately show ?thesis
    using p(5) ctl(3) by (auto simp: BuildReceiveReadyFrame_def BuildSupervisoryFrame_def session_frame_def)
qed

text \<open>
  C18: Information transfer. When a connected endpoint builds an information frame, its peer decodes
  exactly the payload and accepts the frame, the two stay synchronised, the peer has no
  unacknowledged frame left, and the same frame delivered once more is refused with
  \<open>InvalidControlField\<close> without any change. The receive-ready frame the peer then builds (its codec
  must admit frames of 15 bytes) is decoded and accepted by the sender, acknowledges everything the
  sender has sent, so that nothing is outstanding and the window is open again, changes nothing else, and
  leaves the two synchronised.
\<close>

theorem information_exchange:
  assumes "peers a b" "BuildInformationFrame a payload pollFinal = (Inr bs, a')"
  shows "\<exists>f b'. DecodeFrame (View bs) DefaultHdlcCodecLimits = Inr f \<and> information f = view_bytes payload
    \<and> ReceiveFrame b f = (HdlcStatus.Ok, b') \<and> peers a' b' \<and> outstanding b' = 0
    \<and> ReceiveFrame b' f = (HdlcStatus.InvalidControlField, b')
    \<and> sendSequence a' = NextSequence (sendSequence a) \<and> receiveSequence b' = NextSequence (receiveSequence b)
    \<and> (15 \<le> EffectiveMaximumFrameSize (sessionLimits (sessionOptions b)) \<longrightarrow>
        (\<exists>rr g a''. BuildReceiveReadyFrame b' final = (Inr rr, b')
          \<and> DecodeFrame (View rr) DefaultHdlcCodecLimits = Inr g \<and> SupervisoryKind (control g) = Inr ReceiveReady
          \<and> ReceiveFrame a' g = (HdlcStatus.Ok, a'') \<and> a'' = a'\<lparr>acknowledgeSequence := sendSequence a'\<rparr>
          \<and> outstanding a'' = 0 \<and> peers a'' b'))"
proof -
  let ?c = "MakeInformationControl (sendSequence a) (receiveSequence a) pollFinal"
  let ?f = "session_frame a ?c (view_bytes payload)"
  let ?b = "b\<lparr>acknowledgeSequence := receiveSequence a, receiveSequence := NextSequence (receiveSequence b)\<rparr>"
  from BuildInformationFrame_Inr [OF assms(2)]
  have bf: "BuildFrame a ?c payload = Inr bs" and a': "a' = a\<lparr>sendSequence := NextSequence (sendSequence a)\<rparr>" by auto
  have p: "addresses_ok a" "LocalAddress a = RemoteAddress b" "RemoteAddress a = LocalAddress b"
    "sessionState b = Connected" "sendSequence a = receiveSequence b" "sendSequence b = receiveSequence a"
    "sendSequence a < 8" "receiveSequence a < 8"
    using assms(1) by (auto simp: peers_def)
  note ctl = information_control [OF p(7,8), of pollFinal]
  have dec: "DecodeFrame (View bs) DefaultHdlcCodecLimits = Inr ?f"
    by (rule BuildFrame_decodes [OF bf p(1) ctl(1)])
  have "valid_nr b (receiveSequence a)" using p by (simp add: valid_nr_def)
  then have rec: "ReceiveFrame b ?f = (HdlcStatus.Ok, ?b)"
    using p ctl by (simp add: ReceiveFrame_def session_frame_def IncomingAddressesMatch_def ReceiveInformationFrame_def)
  have again: "ReceiveFrame ?b ?f = (HdlcStatus.InvalidControlField, ?b)"
    using p ctl NextSequence_neq [OF p(7)]
    by (simp add: ReceiveFrame_def session_frame_def IncomingAddressesMatch_def ReceiveInformationFrame_def)
  have peers: "peers a' ?b" "outstanding ?b = 0" "information ?f = view_bytes payload"
    using assms(1) a' p(8) by (simp_all add: peers_def outstanding_def session_frame_def)
  have rr: "\<exists>rr g a''. BuildReceiveReadyFrame ?b final = (Inr rr, ?b)
      \<and> DecodeFrame (View rr) DefaultHdlcCodecLimits = Inr g \<and> SupervisoryKind (control g) = Inr ReceiveReady
      \<and> ReceiveFrame a' g = (HdlcStatus.Ok, a'') \<and> a'' = a'\<lparr>acknowledgeSequence := sendSequence a'\<rparr>
      \<and> outstanding a'' = 0 \<and> peers a'' ?b"
    if "15 \<le> EffectiveMaximumFrameSize (sessionLimits (sessionOptions b))"
  proof -
    have "15 \<le> EffectiveMaximumFrameSize (sessionLimits (sessionOptions ?b))" using that by simp
    from receive_ready_exchange [OF peers(1) this, of final] obtain rr g
      where "BuildReceiveReadyFrame ?b final = (Inr rr, ?b)" "DecodeFrame (View rr) DefaultHdlcCodecLimits = Inr g"
      "SupervisoryKind (control g) = Inr ReceiveReady"
      "ReceiveFrame a' g = (HdlcStatus.Ok, a'\<lparr>acknowledgeSequence := sendSequence a'\<rparr>)"
      by blast
    moreover have "peers (a'\<lparr>acknowledgeSequence := sendSequence a'\<rparr>) ?b" "outstanding (a'\<lparr>acknowledgeSequence := sendSequence a'\<rparr>) = 0"
      using peers(1) by (auto simp: peers_def outstanding_def)
    ultimately show ?thesis by blast
  qed
  have "sendSequence a' = NextSequence (sendSequence a)" "receiveSequence ?b = NextSequence (receiveSequence b)"
    using a' by simp_all
  with dec rec again peers rr show ?thesis by blast
qed

text \<open>
  C17: Handshake. A client and a server with the same addresses, both disconnected but in any other
  respect in any state (whatever sequence numbers, negotiated limits and flags earlier
  connections left), the client with negotiation limits other than the defaults, connect by SNRM
  and UA over the frame codec: each call succeeds, both end in the state Connected with all their
  sequence numbers reset to 0 and no connect response owed, and both adopt, in each direction, the
  smaller of what the one end can send and the other can receive. Each of the four calls resets the
  numbers of its end, the last two also if they were changed in between. The codec limits of both ends and
  the agreed size of the server's information fields must have room for the two frames.
\<close>

theorem session_handshake:
  assumes "role (sessionOptions c) = Client" "role (sessionOptions s) = Server"
    and "sessionState c = Disconnected" "sessionState s = Disconnected"
    and "clientAddress (sessionOptions s) = clientAddress (sessionOptions c)"
    and "serverAddress (sessionOptions s) = serverAddress (sessionOptions c)"
    and "address_inv (clientAddress (sessionOptions c))" "address_inv (serverAddress (sessionOptions c))"
    and "room_for_block (sessionLimits (sessionOptions c))"
    and "40 \<le> EffectiveMaximumFrameSize (sessionLimits (sessionOptions s))"
    and nc: "nc = negotiationLimits (sessionOptions c)" and ns: "ns = negotiationLimits (sessionOptions s)"
    and "\<not> IsDefaultNegotiationLimits nc"
    and "maxInformationFieldLengthTransmit nc < 65536" "maxInformationFieldLengthReceive nc < 65536"
    and "23 \<le> maxInformationFieldLengthTransmit (agreed ns nc)"
  shows "\<exists>snrm c1 f1 s1 ua s2 f2 c2.
      BuildConnectRequest c = (Inr snrm, c1)
    \<and> DecodeFrame (View snrm) DefaultHdlcCodecLimits = Inr f1
    \<and> ReceiveFrame s f1 = (HdlcStatus.Ok, s1)
    \<and> BuildConnectResponse s1 = (Inr ua, s2)
    \<and> DecodeFrame (View ua) DefaultHdlcCodecLimits = Inr f2
    \<and> ReceiveFrame c1 f2 = (HdlcStatus.Ok, c2)
    \<and> peers c2 s2 \<and> negotiatedLimits c2 = agreed nc ns \<and> negotiatedLimits s2 = agreed ns nc
    \<and> sequences c1 = (0, 0, 0) \<and> sequences s1 = (0, 0, 0) \<and> sequences s2 = (0, 0, 0) \<and> sequences c2 = (0, 0, 0)
    \<and> \<not> connectResponsePending s2
    \<and> (\<forall>n. BuildConnectResponse (with_sequences n s1) = (Inr ua, s2)
         \<and> ReceiveFrame (with_sequences n c1) f2 = (HdlcStatus.Ok, c2))"
proof -
  let ?c1 = "zero_sequences (c\<lparr>sessionState := AwaitingConnection\<rparr>)"
  let ?s1 = "zero_sequences (s\<lparr>receivedUserInformation := [],
    pendingNegotiation := \<lparr>active = True, pendingParams = proposal nc\<rparr>, connectResponsePending := True\<rparr>)"
  let ?s2 = "established (?s1\<lparr>connectResponsePending := False,
    pendingNegotiation := \<lparr>active = False, pendingParams = proposal nc\<rparr>\<rparr>) (agreed ns nc)"
  have ok: "addresses_ok c" "addresses_ok s" "addresses_ok ?s1" using assms(5-8) by (simp_all add: addresses_ok_def)
  have addr: "LocalAddress s = RemoteAddress c" "RemoteAddress s = LocalAddress c"
    "LocalAddress ?s1 = LocalAddress s" "RemoteAddress ?s1 = RemoteAddress s"
    "LocalAddress ?c1 = LocalAddress c" "RemoteAddress ?c1 = RemoteAddress c"
    using assms(1,2,5,6) by (simp_all add: LocalAddress_def RemoteAddress_def)
  from BuildConnectRequest_proposes [OF assms(1,3) ok(1)] assms(9,13) obtain snrm where
    c1: "BuildConnectRequest c = (Inr snrm, ?c1)"
    and f1: "DecodeFrame (View snrm) DefaultHdlcCodecLimits =
      Inr (session_frame c kSnrmControl (EncodeSnrmNegotiationBlock (proposal nc)))"
    unfolding nc by auto
  have s1: "ReceiveFrame s (session_frame c kSnrmControl (EncodeSnrmNegotiationBlock (proposal nc))) = (HdlcStatus.Ok, ?s1)"
    by (rule ReceiveFrame_snrm_block [OF assms(2,4) refl addr(1,2) assms(14,15)])
  from BuildConnectResponse_answers [of ?s1 nc] assms(2,10,16) ok(3) ns obtain ua where
    ua: "BuildConnectResponse ?s1 = (Inr ua, ?s2)"
    and f2: "DecodeFrame (View ua) DefaultHdlcCodecLimits =
      Inr (session_frame ?s1 kUaControl (EncodeSnrmNegotiationBlock (proposal (agreed nc ns))))"
    by auto
  have ua': "BuildConnectResponse (with_sequences n ?s1) = (Inr ua, ?s2)" for n
    using ua by (rule BuildConnectResponse_sequences)
  have c2: "ReceiveFrame (with_sequences n ?c1)
      (session_frame ?s1 kUaControl (EncodeSnrmNegotiationBlock (proposal (agreed nc ns)))) =
      (HdlcStatus.Ok, established ?c1 (agreed nc ns))" for n
  proof -
    have "ReceiveFrame (with_sequences n ?c1) (session_frame ?s1 kUaControl (EncodeSnrmNegotiationBlock (proposal (agreed nc ns)))) =
      (HdlcStatus.Ok, established (with_sequences n ?c1) (agreed nc ns))"
      by (rule ReceiveFrame_ua_block [OF _ refl])
        (use assms(14,15) addr in \<open>auto simp: agreed_def min_less_iff_disj\<close>)
    then show ?thesis by simp
  qed
  have "peers (established ?c1 (agreed nc ns)) ?s2"
    by (rule established_peers) (use assms(1,2,5-8) in \<open>simp_all add: addresses_ok_def LocalAddress_def RemoteAddress_def\<close>)
  moreover have "ReceiveFrame ?c1 (session_frame ?s1 kUaControl (EncodeSnrmNegotiationBlock (proposal (agreed nc ns)))) =
      (HdlcStatus.Ok, established ?c1 (agreed nc ns))"
    using c2 [of "(0, 0, 0)"] by (simp add: zero_sequences_def)
  moreover have "sequences ?c1 = (0, 0, 0)" "sequences ?s1 = (0, 0, 0)" "sequences ?s2 = (0, 0, 0)"
    "sequences (established ?c1 (agreed nc ns)) = (0, 0, 0)" "\<not> connectResponsePending ?s2"
    "negotiatedLimits ?s2 = agreed ns nc" "negotiatedLimits (established ?c1 (agreed nc ns)) = agreed nc ns"
    by simp_all
  moreover note c1 f1 s1 ua f2 ua' c2
  ultimately show ?thesis
    by (intro exI [of _ snrm] exI [of _ ?c1] exI [of _ ?s1] exI [of _ ua] exI [of _ ?s2]
        exI [of _ "established ?c1 (agreed nc ns)"] exI conjI allI) assumption+
qed

text \<open>
  Deviation. When the negotiated size of the server's information fields is between 1 and 22,
  \<open>BuildConnectResponse\<close> applies it before it builds the UA frame, whose negotiation block has
  23 bytes: the call fails with \<open>InformationFieldTooLarge\<close>, the server stays disconnected with
  the response still owed, and every further call fails the same way. The requirements ask
  for the codec limits to change after the UA is sent.
\<close>

theorem BuildConnectResponse_small_limit:
  assumes "role (sessionOptions s) = Server" "connectResponsePending s" "active (pendingNegotiation s)"
    and "n = NegotiateParams (pendingParams (pendingNegotiation s)) (negotiationLimits (sessionOptions s))"
    and "0 < maxInfoRx n" "maxInfoRx n < 23"
  shows "BuildConnectResponse s = (Inl HdlcStatus.InformationFieldTooLarge, adopt_server s n)
    \<and> sessionState (adopt_server s n) = sessionState s
    \<and> BuildConnectResponse (adopt_server s n) = (Inl HdlcStatus.InformationFieldTooLarge, adopt_server s n)"
proof -
  let ?a = "adopt_server s n" and ?info = "EncodeSnrmNegotiationBlock n"
  have lim: "maximumInformationFieldSize (sessionLimits (sessionOptions ?a)) = maxInfoRx n"
    by (simp add: adopt_server_def Let_def)
  have "BuildFrame ?a kUaControl (view_of ?info) = Inl HdlcStatus.InformationFieldTooLarge"
    using BuildFrame_session_frame [OF control_consts(2), of "view_of ?info" ?a] lim assms(5,6)
    by (simp add: EncodeFrame_frame_wire frame_status_def session_frame_def EffectiveMaximumInformationFieldSize_def)
  moreover have "adopt_server ?a n = ?a" by (simp add: adopt_server_def Let_def)
  moreover have "role (sessionOptions ?a) = Server" "connectResponsePending ?a"
    "pendingNegotiation ?a = pendingNegotiation s" "sessionState ?a = sessionState s"
    "negotiationLimits (sessionOptions ?a) = negotiationLimits (sessionOptions s)"
    using assms(1,2) by (simp_all add: adopt_server_def Let_def)
  ultimately show ?thesis
    using assms(1-3) by (simp add: BuildConnectResponse_def Let_def assms(4) [symmetric])
qed

text \<open>
  Deviation. After an SNRM without information field, which by the requirements means the
  default limits on both sides (128 bytes, window 1), the server connects with its own
  configured limits and transmit window instead.
\<close>

theorem connect_without_negotiation:
  assumes "role opts = Server" "IncomingAddressesMatch (HdlcSession_init opts) f"
    and "control f = \<lparr>controlValue = kSnrmControl\<rparr>" "information f = []"
    and "ReceiveFrame (HdlcSession_init opts) f = (st, s1)" "BuildConnectResponse s1 = (Inr ua, s2)"
  shows "st = HdlcStatus.Ok \<and> sessionState s2 = Connected
    \<and> negotiatedLimits s2 = normalised (negotiationLimits opts)
    \<and> windowTransmit s2 = windowSizeTransmit (normalised (negotiationLimits opts))"
proof -
  have "ReceiveFrame (HdlcSession_init opts) f =
      (HdlcStatus.Ok, (HdlcSession_init opts)\<lparr>connectResponsePending := True\<rparr>)"
    using assms(1-4) control_consts
    by (simp add: ReceiveFrame_def ReceiveUnnumberedFrame_def ReceiveSnrm_def HdlcSession_init_def Let_def
        zero_sequences_def)
  with assms(5) have s1: "s1 = (HdlcSession_init opts)\<lparr>connectResponsePending := True\<rparr>" "st = HdlcStatus.Ok" by auto
  have "s2 = zero_sequences (s1\<lparr>sessionState := Connected, connectResponsePending := False,
      pendingNegotiation := (pendingNegotiation s1)\<lparr>active := False\<rparr>\<rparr>)"
    using assms(1,6) unfolding s1(1)
    by (auto simp: BuildConnectResponse_def HdlcSession_init_def Let_def split: sum.splits)
  then show ?thesis using s1 by (simp add: zero_sequences_def HdlcSession_init_def Let_def)
qed

subsection \<open>Concrete instances\<close>

definition example_client :: HdlcSessionOptions where
  "example_client = \<lparr>role = Client, clientAddress = \<lparr>rawValue = 16, encodedSize = 1\<rparr>,
     serverAddress = \<lparr>rawValue = 1, encodedSize = 1\<rparr>, sessionLimits = DefaultHdlcCodecLimits,
     negotiationLimits = \<lparr>maxInformationFieldLengthTransmit = 512, maxInformationFieldLengthReceive = 256,
       windowSizeTransmit = 3, windowSizeReceive = 2\<rparr>\<rparr>"

definition example_server :: HdlcSessionOptions where
  "example_server = example_client\<lparr>role := Server,
     negotiationLimits := \<lparr>maxInformationFieldLengthTransmit = 128, maxInformationFieldLengthReceive = 300,
       windowSizeTransmit = 0, windowSizeReceive = 7\<rparr>\<rparr>"

lemmas session_eval = example_client_def example_server_def normalised_def agreed_def room_for_block_def
  DefaultHdlcCodecLimits_def EffectiveMaximumFrameSize_def kDefaultWindowSize_def kDefaultMaxInfoFieldLength_def
  IsDefaultNegotiationLimits_def Let_def

lemma example_addresses: "address_inv \<lparr>rawValue = 16, encodedSize = 1\<rparr>" "address_inv \<lparr>rawValue = 1, encodedSize = 1\<rparr>"
  by (simp_all add: address_inv_def IsSupportedEncodedSize_def MaximumRawValue_def)

lemma example_roles [simp]: "role example_client = Client" "role example_server = Server"
  by (simp_all add: example_client_def example_server_def)

theorem session_handshake_witness:
  "\<exists>snrm c1 f1 s1 ua s2 f2 c2.
      BuildConnectRequest (with_sequences (5, 2, 3) (HdlcSession_init example_client)) = (Inr snrm, c1)
    \<and> DecodeFrame (View snrm) DefaultHdlcCodecLimits = Inr f1
    \<and> ReceiveFrame (with_sequences (1, 7, 1) (HdlcSession_init example_server)) f1 = (HdlcStatus.Ok, s1)
    \<and> BuildConnectResponse s1 = (Inr ua, s2)
    \<and> DecodeFrame (View ua) DefaultHdlcCodecLimits = Inr f2
    \<and> ReceiveFrame c1 f2 = (HdlcStatus.Ok, c2)
    \<and> peers c2 s2 \<and> sequences c2 = (0, 0, 0) \<and> sequences s2 = (0, 0, 0)
    \<and> negotiatedLimits c2 = \<lparr>maxInformationFieldLengthTransmit = 300, maxInformationFieldLengthReceive = 128,
        windowSizeTransmit = 3, windowSizeReceive = 1\<rparr>
    \<and> negotiatedLimits s2 = \<lparr>maxInformationFieldLengthTransmit = 128, maxInformationFieldLengthReceive = 300,
        windowSizeTransmit = 1, windowSizeReceive = 3\<rparr>"
proof -
  let ?c = "with_sequences (5, 2, 3) (HdlcSession_init example_client)"
  let ?s = "with_sequences (1, 7, 1) (HdlcSession_init example_server)"
  have own: "negotiationLimits (sessionOptions ?c) = normalised (negotiationLimits example_client)"
    "negotiationLimits (sessionOptions ?s) = normalised (negotiationLimits example_server)"
    "sessionLimits (sessionOptions ?c) = DefaultHdlcCodecLimits" "sessionLimits (sessionOptions ?s) = DefaultHdlcCodecLimits"
    "sessionState ?c = Disconnected" "sessionState ?s = Disconnected"
    by (simp_all add: HdlcSession_init_def Let_def session_eval)
  have ends: "role (sessionOptions ?c) = Client" "role (sessionOptions ?s) = Server"
    "clientAddress (sessionOptions ?s) = clientAddress (sessionOptions ?c)"
    "serverAddress (sessionOptions ?s) = serverAddress (sessionOptions ?c)"
    "address_inv (clientAddress (sessionOptions ?c))" "address_inv (serverAddress (sessionOptions ?c))"
    by (simp_all add: HdlcSession_init_def Let_def example_client_def example_server_def example_addresses del: One_nat_def)
  have agreed: "agreed (normalised (negotiationLimits example_client)) (normalised (negotiationLimits example_server)) =
      \<lparr>maxInformationFieldLengthTransmit = 300, maxInformationFieldLengthReceive = 128,
        windowSizeTransmit = 3, windowSizeReceive = 1\<rparr>"
    "agreed (normalised (negotiationLimits example_server)) (normalised (negotiationLimits example_client)) =
      \<lparr>maxInformationFieldLengthTransmit = 128, maxInformationFieldLengthReceive = 300,
        windowSizeTransmit = 1, windowSizeReceive = 3\<rparr>"
    by (simp_all add: session_eval)
  note handshake = session_handshake [OF ends(1,2) own(5,6) ends(3-6), unfolded own agreed, OF _ _ refl refl, unfolded agreed]
  have "room_for_block DefaultHdlcCodecLimits" "40 \<le> EffectiveMaximumFrameSize DefaultHdlcCodecLimits"
    "\<not> IsDefaultNegotiationLimits (normalised (negotiationLimits example_client))"
    "maxInformationFieldLengthTransmit (normalised (negotiationLimits example_client)) < 65536"
    "maxInformationFieldLengthReceive (normalised (negotiationLimits example_client)) < 65536"
    by (simp_all add: session_eval)
  from handshake [OF this] show ?thesis by simp blast
qed

text \<open>A connected pair, as the handshake leaves it.\<close>

abbreviation example_pair :: "HdlcSession \<times> HdlcSession" where
  "example_pair \<equiv> (established (HdlcSession_init example_client) (normalised (negotiationLimits example_client)),
     established ((HdlcSession_init example_server)\<lparr>pendingNegotiation := \<lparr>active = False, pendingParams = DefaultSnrmParams\<rparr>\<rparr>)
       (normalised (negotiationLimits example_server)))"

theorem information_exchange_witness:
  "\<exists>bs a' f b' rr g a''. BuildInformationFrame (fst example_pair) (View [1, 2, 3]) True = (Inr bs, a')
    \<and> DecodeFrame (View bs) DefaultHdlcCodecLimits = Inr f \<and> information f = [1, 2, 3]
    \<and> ReceiveFrame (snd example_pair) f = (HdlcStatus.Ok, b')
    \<and> ReceiveFrame b' f = (HdlcStatus.InvalidControlField, b')
    \<and> outstanding a' = 1 \<and> BuildReceiveReadyFrame b' True = (Inr rr, b')
    \<and> DecodeFrame (View rr) DefaultHdlcCodecLimits = Inr g \<and> ReceiveFrame a' g = (HdlcStatus.Ok, a'')
    \<and> acknowledgeSequence a'' = 1 \<and> outstanding a'' = 0"
proof -
  let ?a = "fst example_pair"
  let ?c = "MakeInformationControl 0 0 True"
  have p: "peers ?a (snd example_pair)"
    unfolding fst_conv snd_conv
    by (rule established_peers)
      (simp_all add: addresses_ok_def LocalAddress_def RemoteAddress_def HdlcSession_init_def Let_def
        example_client_def example_server_def example_addresses del: One_nat_def)
  have c: "HdlcControl_Decode ?c = Inr \<lparr>controlValue = ?c\<rparr>" by (rule information_control) simp_all
  have "room_for_block (sessionLimits (sessionOptions ?a))"
    by (simp add: established_def zero_sequences_def HdlcSession_init_def session_eval)
  with p BuildFrame_block [OF _ _ _ c, of ?a "[1, 2, 3]"] obtain bs where
    "BuildFrame ?a ?c (View [1, 2, 3]) = Inr bs"
    by (auto simp: peers_def view_of_def)
  then have b: "BuildInformationFrame ?a (View [1, 2, 3]) True = (Inr bs, ?a\<lparr>sendSequence := NextSequence 0\<rparr>)"
    by (simp add: BuildInformationFrame_def CanSendInformationFrame_def outstanding_def normalised_def example_client_def)
  have room: "15 \<le> EffectiveMaximumFrameSize (sessionLimits (sessionOptions (snd example_pair)))"
    by (simp add: established_def zero_sequences_def HdlcSession_init_def session_eval)
  have one: "NextSequence 0 = 1" by (simp add: NextSequence_def)
  from information_exchange [OF p b, of True] room obtain f b' rr g where
    "DecodeFrame (View bs) DefaultHdlcCodecLimits = Inr f" "information f = [1, 2, 3]"
    "ReceiveFrame (snd example_pair) f = (HdlcStatus.Ok, b')" "ReceiveFrame b' f = (HdlcStatus.InvalidControlField, b')"
    "BuildReceiveReadyFrame b' True = (Inr rr, b')" "DecodeFrame (View rr) DefaultHdlcCodecLimits = Inr g"
    "ReceiveFrame (?a\<lparr>sendSequence := NextSequence 0\<rparr>) g = (HdlcStatus.Ok, ?a\<lparr>sendSequence := NextSequence 0, acknowledgeSequence := NextSequence 0\<rparr>)"
    by auto
  with b show ?thesis
    by (intro exI conjI) (assumption | simp add: one outstanding_def)+
qed

theorem BuildConnectResponse_small_limit_witness:
  "let s = (HdlcSession_init example_server)\<lparr>connectResponsePending := True,
        pendingNegotiation := \<lparr>active = True, pendingParams = DefaultSnrmParams\<lparr>maxInfoRx := 22\<rparr>\<rparr>\<rparr>;
      n = NegotiateParams (DefaultSnrmParams\<lparr>maxInfoRx := 22\<rparr>) (normalised (negotiationLimits example_server))
   in BuildConnectResponse s = (Inl HdlcStatus.InformationFieldTooLarge, adopt_server s n)
    \<and> BuildConnectResponse (adopt_server s n) = (Inl HdlcStatus.InformationFieldTooLarge, adopt_server s n)"
proof -
  define s where "s = (HdlcSession_init example_server)\<lparr>connectResponsePending := True,
        pendingNegotiation := \<lparr>active = True, pendingParams = DefaultSnrmParams\<lparr>maxInfoRx := 22\<rparr>\<rparr>\<rparr>"
  define n where "n = NegotiateParams (DefaultSnrmParams\<lparr>maxInfoRx := 22\<rparr>) (normalised (negotiationLimits example_server))"
  have "role (sessionOptions s) = Server" "connectResponsePending s" "active (pendingNegotiation s)"
    "n = NegotiateParams (pendingParams (pendingNegotiation s)) (negotiationLimits (sessionOptions s))"
    "0 < maxInfoRx n" "maxInfoRx n < 23"
    by (simp_all add: s_def n_def HdlcSession_init_def Let_def NegotiateParams_def session_eval)
  from BuildConnectResponse_small_limit [OF this] show ?thesis by (simp only: s_def n_def Let_def)
qed

theorem connect_without_negotiation_witness:
  "\<exists>ua s1 s2. ReceiveFrame (HdlcSession_init example_server)
      (session_frame (HdlcSession_init example_client) kSnrmControl []) = (HdlcStatus.Ok, s1)
    \<and> BuildConnectResponse s1 = (Inr ua, s2) \<and> sessionState s2 = Connected
    \<and> maxInformationFieldLengthReceive (negotiatedLimits s2) = 300"
proof -
  let ?f = "session_frame (HdlcSession_init example_client) kSnrmControl []"
  have m: "IncomingAddressesMatch (HdlcSession_init example_server) ?f"
    by (simp add: IncomingAddressesMatch_def init_addresses session_frame_def example_client_def example_server_def)
  have role: "role example_server = Server" by (simp add: example_server_def)
  let ?s1 = "(HdlcSession_init example_server)\<lparr>connectResponsePending := True\<rparr>"
  have r: "ReceiveFrame (HdlcSession_init example_server) ?f = (HdlcStatus.Ok, ?s1)"
    using m role control_consts
    by (simp add: ReceiveFrame_def ReceiveUnnumberedFrame_def ReceiveSnrm_def HdlcSession_init_def Let_def
        zero_sequences_def session_frame_def)
  have "addresses_ok ?s1" "room_for_block (sessionLimits (sessionOptions ?s1))"
    by (simp_all add: addresses_ok_def HdlcSession_init_def session_eval example_addresses del: One_nat_def)
  from BuildFrame_block [OF this, of "[]", OF _ control_consts(2)] obtain ua where
    "BuildFrame ?s1 kUaControl (view_of []) = Inr ua" by auto
  then obtain s2 where b: "BuildConnectResponse ?s1 = (Inr ua, s2)"
    using role by (auto simp: BuildConnectResponse_def HdlcSession_init_def Let_def)
  from connect_without_negotiation [OF role m _ _ r b] r b show ?thesis
    by (auto simp: session_frame_def session_eval)
qed

end
