(* ===== verification/Llc.thy ===== *)
theory Llc
  imports Prelude
begin

text \<open>
  The LLC sublayer (\<open>llc_types.hpp\<close>, \<open>llc_header.cpp\<close>, \<open>llc_codec.cpp\<close>): the three-byte header
  in front of an APDU on HDLC. Encoder and decoder are inverse to each other, broadcast
  destinations are only ever decoded, and only on request.
\<close>

datatype LlcStatus =
  Ok | NeedMoreData | OutputBufferTooSmall | InvalidArgument | InvalidHeader | InvalidDsap | InvalidSsap
  | InvalidControl | InvalidLpduLength | LsduTooLarge | BroadcastEncodeForbidden | UnsupportedAddress
  | UnsupportedControl | UnsupportedFeature | InternalError

datatype LlcDirection = ClientToServer | ServerToClient

record LlcHeader =
  dsap :: u8
  ssap :: u8
  llcControl :: u8

record LlcLpdu =
  viewHeader :: LlcHeader
  viewLsdu :: view

record LlcLpduBuffer =
  lpduHeader :: LlcHeader
  lsdu :: bytes

definition kLlcDsapDlms :: u8 where
  "kLlcDsapDlms = 0xe6"

definition kLlcSsapClient :: u8 where
  "kLlcSsapClient = 0xe6"

definition kLlcSsapServer :: u8 where
  "kLlcSsapServer = 0xe7"

definition kLlcDsapBroadcast :: u8 where
  "kLlcDsapBroadcast = 0xff"

definition kLlcControlDefault :: u8 where
  "kLlcControlDefault = 0x00"

definition kLlcHeaderSize :: nat where
  "kLlcHeaderSize = 3"

definition IsKnownSourceLsap :: "u8 \<Rightarrow> bool" where
  "IsKnownSourceLsap s \<longleftrightarrow> s = kLlcSsapClient \<or> s = kLlcSsapServer"

fun MakeLlcHeader :: "LlcDirection \<Rightarrow> LlcHeader" where
  "MakeLlcHeader ClientToServer = \<lparr>dsap = kLlcDsapDlms, ssap = kLlcSsapClient, llcControl = kLlcControlDefault\<rparr>"
| "MakeLlcHeader ServerToClient = \<lparr>dsap = kLlcDsapDlms, ssap = kLlcSsapServer, llcControl = kLlcControlDefault\<rparr>"

definition IsKnownDlmsLlcHeader :: "LlcHeader \<Rightarrow> bool" where
  "IsKnownDlmsLlcHeader header \<longleftrightarrow> dsap header = kLlcDsapDlms \<and> llcControl header = kLlcControlDefault
     \<and> IsKnownSourceLsap (ssap header)"

definition ValidateLlcHeader :: "LlcHeader \<Rightarrow> bool \<Rightarrow> LlcStatus" where
  "ValidateLlcHeader header allowBroadcastDestination =
     (if llcControl header \<noteq> kLlcControlDefault then UnsupportedControl
      else if dsap header = kLlcDsapBroadcast \<and> \<not> allowBroadcastDestination then BroadcastEncodeForbidden
      else if dsap header \<noteq> kLlcDsapBroadcast \<and> dsap header \<noteq> kLlcDsapDlms then InvalidDsap
      else if \<not> IsKnownSourceLsap (ssap header) then InvalidSsap
      else Ok)"

definition HasRepresentableLpduSize :: "nat \<Rightarrow> bool" where
  "HasRepresentableLpduSize lsduSize \<longleftrightarrow> lsduSize \<le> size_t_modulus - 1 - kLlcHeaderSize"

text \<open>\<open>None\<close> is a null output pointer; the result is the status, the written size and the bytes stored.\<close>

definition EncodeLpduToBuffer :: "LlcHeader \<Rightarrow> view \<Rightarrow> nat option \<Rightarrow> LlcStatus \<times> nat \<times> bytes" where
  "EncodeLpduToBuffer header payload output =
     (if bad_view payload then (InvalidArgument, 0, [])
      else case output of None \<Rightarrow> (InvalidArgument, 0, [])
      | Some outputSize \<Rightarrow>
        let headerStatus = ValidateLlcHeader header False in
        if headerStatus \<noteq> Ok then (headerStatus, 0, [])
        else if \<not> HasRepresentableLpduSize (view_size payload) then (LsduTooLarge, 0, [])
        else
          let requiredSize = kLlcHeaderSize + view_size payload in
          if outputSize < requiredSize then (OutputBufferTooSmall, requiredSize, [])
          else (Ok, requiredSize, [dsap header, ssap header, llcControl header] @ view_bytes payload))"

definition EncodeLpdu :: "LlcHeader \<Rightarrow> view \<Rightarrow> LlcStatus + bytes" where
  "EncodeLpdu header payload =
     (if \<not> HasRepresentableLpduSize (view_size payload) then Inl LsduTooLarge
      else case EncodeLpduToBuffer header payload (Some (kLlcHeaderSize + view_size payload)) of
        (status, writtenSize, output) \<Rightarrow>
          if status \<noteq> Ok then Inl status else Inr (take writtenSize output))"

definition DecodeLpduFromBuffer :: "view \<Rightarrow> bool \<Rightarrow> LlcStatus + LlcLpdu" where
  "DecodeLpduFromBuffer input allowBroadcastDestination =
     (if bad_view input then Inl InvalidArgument
      else if view_size input < kLlcHeaderSize then Inl NeedMoreData
      else
        let bs = view_bytes input;
            header = \<lparr>dsap = bs ! 0, ssap = bs ! 1, llcControl = bs ! 2\<rparr>;
            headerStatus = ValidateLlcHeader header allowBroadcastDestination
        in
        if headerStatus \<noteq> Ok then Inl headerStatus
        else Inr \<lparr>viewHeader = header, viewLsdu = View (drop kLlcHeaderSize bs)\<rparr>)"

definition DecodeLpdu :: "view \<Rightarrow> bool \<Rightarrow> LlcStatus + LlcLpduBuffer" where
  "DecodeLpdu input allowBroadcastDestination =
     (case DecodeLpduFromBuffer input allowBroadcastDestination of
        Inl status \<Rightarrow> Inl status
      | Inr v \<Rightarrow> Inr \<lparr>lpduHeader = viewHeader v, lsdu = view_bytes (viewLsdu v)\<rparr>)"

definition EncodeDlmsRequest :: "view \<Rightarrow> LlcStatus + bytes" where
  "EncodeDlmsRequest apdu = EncodeLpdu (MakeLlcHeader ClientToServer) apdu"

definition EncodeDlmsResponse :: "view \<Rightarrow> LlcStatus + bytes" where
  "EncodeDlmsResponse apdu = EncodeLpdu (MakeLlcHeader ServerToClient) apdu"

subsection \<open>Headers\<close>

lemmas llc_consts = kLlcDsapDlms_def kLlcSsapClient_def kLlcSsapServer_def kLlcDsapBroadcast_def
  kLlcControlDefault_def kLlcHeaderSize_def

lemma ValidateLlcHeader_Ok:
  "ValidateLlcHeader h allow = Ok \<longleftrightarrow> IsKnownDlmsLlcHeader h
     \<or> allow \<and> dsap h = kLlcDsapBroadcast \<and> llcControl h = kLlcControlDefault \<and> IsKnownSourceLsap (ssap h)"
  by (auto simp: ValidateLlcHeader_def IsKnownDlmsLlcHeader_def llc_consts)

lemma MakeLlcHeader_known [simp]: "IsKnownDlmsLlcHeader (MakeLlcHeader d)"
  by (cases d) (simp_all add: IsKnownDlmsLlcHeader_def IsKnownSourceLsap_def)

lemma EncodeLpdu_Inr:
  "EncodeLpdu h (View l) = Inr bs \<longleftrightarrow> HasRepresentableLpduSize (length l) \<and> IsKnownDlmsLlcHeader h
     \<and> bs = [dsap h, ssap h, llcControl h] @ l"
  by (auto simp: EncodeLpdu_def EncodeLpduToBuffer_def Let_def ValidateLlcHeader_Ok kLlcHeaderSize_def)

lemma DecodeLpdu_Inr:
  "DecodeLpdu (View bs) allow = Inr p \<longleftrightarrow>
     bs = [dsap (lpduHeader p), ssap (lpduHeader p), llcControl (lpduHeader p)] @ lsdu p
     \<and> ValidateLlcHeader (lpduHeader p) allow = Ok"
proof (cases "length bs < 3")
  case True
  then show ?thesis
    by (auto simp: DecodeLpdu_def DecodeLpduFromBuffer_def kLlcHeaderSize_def)
next
  case False
  then obtain a b c rest where bs: "bs = a # b # c # rest"
    by (metis length_0_conv length_Cons less_Suc_eq_0_disj list.exhaust numeral_3_eq_3 not_less_eq zero_less_Suc)
  show ?thesis
    by (cases p; cases "lpduHeader p")
      (auto simp: bs DecodeLpdu_def DecodeLpduFromBuffer_def kLlcHeaderSize_def Let_def)
qed

subsection \<open>Properties\<close>

text \<open>
  C24: The LLC encoder and the decoder that does not allow broadcast are inverse to each other: for
  a link protocol data unit of representable size, encoding a header and a payload gives
  those bytes exactly when decoding the bytes gives that header and payload.
\<close>

theorem EncodeLpdu_DecodeLpdu:
  assumes "length bs < size_t_modulus"
  shows "EncodeLpdu h (View l) = Inr bs \<longleftrightarrow> DecodeLpdu (View bs) False = Inr \<lparr>lpduHeader = h, lsdu = l\<rparr>"
  using assms by (auto simp: EncodeLpdu_Inr DecodeLpdu_Inr ValidateLlcHeader_Ok HasRepresentableLpduSize_def
      kLlcHeaderSize_def)

theorem EncodeLpdu_DecodeLpdu_witness:
  "EncodeLpdu (MakeLlcHeader ClientToServer) (View [0xc0]) = Inr [0xe6, 0xe6, 0x00, 0xc0]
   \<and> DecodeLpdu (View [0xe6, 0xe6, 0x00, 0xc0]) False = Inr \<lparr>lpduHeader = MakeLlcHeader ClientToServer, lsdu = [0xc0]\<rparr>"
proof -
  have "EncodeLpdu (MakeLlcHeader ClientToServer) (View [0xc0]) = Inr [0xe6, 0xe6, 0x00, 0xc0]"
    unfolding EncodeLpdu_Inr by (simp add: HasRepresentableLpduSize_def size_t_modulus_def llc_consts
        IsKnownDlmsLlcHeader_def IsKnownSourceLsap_def)
  with EncodeLpdu_DecodeLpdu [of "[0xe6, 0xe6, 0x00, 0xc0]" "MakeLlcHeader ClientToServer" "[0xc0]"]
  show ?thesis by (simp add: size_t_modulus_def)
qed

text \<open>
  Broadcast policy. No encoder call ever produces a broadcast destination; the decoder accepts
  one exactly when the caller allows it, and answers \<open>BroadcastEncodeForbidden\<close> otherwise; an
  input shorter than the header needs more data.
\<close>

theorem llc_broadcast_policy:
  "(\<forall>h v bs. EncodeLpdu h v = Inr bs \<longrightarrow> bs ! 0 = kLlcDsapDlms)
   \<and> (\<forall>s l. IsKnownSourceLsap s \<longrightarrow> DecodeLpdu (View ([kLlcDsapBroadcast, s, kLlcControlDefault] @ l)) allow =
        (if allow then Inr \<lparr>lpduHeader = \<lparr>dsap = kLlcDsapBroadcast, ssap = s, llcControl = kLlcControlDefault\<rparr>, lsdu = l\<rparr>
         else Inl BroadcastEncodeForbidden))
   \<and> (\<forall>bs. length bs < 3 \<longrightarrow> DecodeLpdu (View bs) allow = Inl NeedMoreData)"
proof (intro conjI allI impI)
  fix h v bs
  assume "EncodeLpdu h v = Inr bs"
  then show "bs ! 0 = kLlcDsapDlms"
    by (auto simp: EncodeLpdu_def EncodeLpduToBuffer_def Let_def ValidateLlcHeader_Ok IsKnownDlmsLlcHeader_def
        kLlcHeaderSize_def split: if_splits)
qed (auto simp: DecodeLpdu_def DecodeLpduFromBuffer_def ValidateLlcHeader_def Let_def llc_consts)

theorem llc_broadcast_policy_witness:
  "IsKnownSourceLsap kLlcSsapClient \<and> EncodeLpdu (MakeLlcHeader ServerToClient) (View []) = Inr [0xe6, 0xe7, 0]
   \<and> ([0xe6, 0xe7, 0] :: bytes) ! 0 = kLlcDsapDlms
   \<and> DecodeLpdu (View ([kLlcDsapBroadcast, kLlcSsapClient, kLlcControlDefault] @ [])) False = Inl BroadcastEncodeForbidden"
proof -
  have e: "EncodeLpdu (MakeLlcHeader ServerToClient) (View []) = Inr [0xe6, 0xe7, 0]"
    unfolding EncodeLpdu_Inr by (simp add: HasRepresentableLpduSize_def size_t_modulus_def llc_consts
        IsKnownDlmsLlcHeader_def IsKnownSourceLsap_def)
  have k: "IsKnownSourceLsap kLlcSsapClient" by (simp add: IsKnownSourceLsap_def)
  show ?thesis using llc_broadcast_policy [of False] e k by fastforce
qed

end
