(* ===== verification/Wrapper.thy ===== *)
theory Wrapper
  imports Prelude
begin

text \<open>
  The TCP/UDP wrapper (\<open>wrapper_types.hpp\<close>, \<open>wrapper_ports.cpp\<close>, \<open>wrapper_codec.cpp\<close>,
  \<open>wrapper_stream_decoder.cpp\<close>): the eight-byte header with version, ports and length in front
  of an APDU, and the incremental decoder for TCP. The codec is a bijection between the
  frames it admits and their wire images; the decoder implements the interface
  \<open>stream_decoder\<close>.
\<close>

datatype WrapperStatus =
  Ok | NeedMoreData | OutputBufferTooSmall | InvalidArgument | InvalidVersion | InvalidLength
  | InvalidSourcePort | InvalidDestinationPort | DataTooLarge | FrameTooLarge | UnsupportedFeature | InternalError

record WrapperHeader =
  version :: u16
  headerSourcePort :: u16
  headerDestinationPort :: u16
  dataLength :: u16

record WrapperFrame =
  frameSourcePort :: u16
  frameDestinationPort :: u16
  frameData :: view

record WrapperFrameBuffer =
  wrapperSourcePort :: u16
  wrapperDestinationPort :: u16
  wrapperData :: bytes

record WrapperCodecLimits =
  maximumDataSize :: nat
  maximumWpduSize :: nat

definition kWrapperVersion :: u16 where
  "kWrapperVersion = 0x0001"

definition kWrapperHeaderSize :: nat where
  "kWrapperHeaderSize = 8"

definition kMaximumWrapperDataLength :: nat where
  "kMaximumWrapperDataLength = 0xffff"

definition kMaximumWrapperFrameLength :: nat where
  "kMaximumWrapperFrameLength = kWrapperHeaderSize + kMaximumWrapperDataLength"

definition DefaultWrapperCodecLimits :: WrapperCodecLimits where
  "DefaultWrapperCodecLimits =
     \<lparr>maximumDataSize = kMaximumWrapperDataLength, maximumWpduSize = kMaximumWrapperFrameLength\<rparr>"

subsection \<open>Ports\<close>

definition kNoStation :: u16 where
  "kNoStation = 0x0000"

definition kClientManagementProcess :: u16 where
  "kClientManagementProcess = 0x0001"

definition kPublicClient :: u16 where
  "kPublicClient = 0x0010"

definition kManagementLogicalDevice :: u16 where
  "kManagementLogicalDevice = 0x0001"

definition kAllStationBroadcast :: u16 where
  "kAllStationBroadcast = 0x007f"

definition IsNoStationWrapperPort :: "u16 \<Rightarrow> bool" where
  "IsNoStationWrapperPort port \<longleftrightarrow> port = kNoStation"

definition IsClientWrapperPort :: "u16 \<Rightarrow> bool" where
  "IsClientWrapperPort port \<longleftrightarrow> port \<ge> 0x0001 \<and> port \<le> 0x00ff"

definition IsServerWrapperPort :: "u16 \<Rightarrow> bool" where
  "IsServerWrapperPort port \<longleftrightarrow> port = kManagementLogicalDevice \<or> (port \<ge> 0x0010 \<and> port \<le> kAllStationBroadcast)"

definition IsReservedClientWrapperPort :: "u16 \<Rightarrow> bool" where
  "IsReservedClientWrapperPort port \<longleftrightarrow>
     port = kNoStation \<or> port = kClientManagementProcess \<or> port = kPublicClient"

definition IsReservedServerWrapperPort :: "u16 \<Rightarrow> bool" where
  "IsReservedServerWrapperPort port \<longleftrightarrow> port = kNoStation \<or> port = kManagementLogicalDevice
     \<or> (port \<ge> 0x0002 \<and> port \<le> 0x000f) \<or> port = kAllStationBroadcast"

definition IsOpenClientWrapperPort :: "u16 \<Rightarrow> bool" where
  "IsOpenClientWrapperPort port \<longleftrightarrow>
     (port \<ge> 0x0002 \<and> port \<le> 0x000f) \<or> (port \<ge> 0x0011 \<and> port \<le> 0x00ff)"

definition IsOpenServerWrapperPort :: "u16 \<Rightarrow> bool" where
  "IsOpenServerWrapperPort port \<longleftrightarrow> port \<ge> 0x0010 \<and> port \<le> 0x007e"

subsection \<open>Codec\<close>

definition EncodeWrapperHeader :: "WrapperHeader \<Rightarrow> nat option \<Rightarrow> WrapperStatus \<times> nat \<times> bytes" where
  "EncodeWrapperHeader header output =
     (case output of None \<Rightarrow> (InvalidArgument, 0, [])
      | Some outputSize \<Rightarrow>
        if version header \<noteq> kWrapperVersion then (InvalidVersion, 0, [])
        else if outputSize < kWrapperHeaderSize then (OutputBufferTooSmall, 0, [])
        else (Ok, kWrapperHeaderSize, be16 (version header) @ be16 (headerSourcePort header)
          @ be16 (headerDestinationPort header) @ be16 (dataLength header)))"

definition DecodeWrapperHeader :: "view \<Rightarrow> WrapperStatus + WrapperHeader" where
  "DecodeWrapperHeader input =
     (if bad_view input then Inl InvalidArgument
      else if view_size input < kWrapperHeaderSize then Inl NeedMoreData
      else
        let bs = view_bytes input;
            header = \<lparr>version = be16_at (bs ! 0) (bs ! 1), headerSourcePort = be16_at (bs ! 2) (bs ! 3),
              headerDestinationPort = be16_at (bs ! 4) (bs ! 5), dataLength = be16_at (bs ! 6) (bs ! 7)\<rparr>
        in if version header \<noteq> kWrapperVersion then Inl InvalidVersion else Inr header)"

definition ValidateWrapperHeader :: "WrapperHeader \<Rightarrow> WrapperCodecLimits \<Rightarrow> nat \<Rightarrow> WrapperStatus" where
  "ValidateWrapperHeader header limits availableDataSize =
     (if version header \<noteq> kWrapperVersion then InvalidVersion
      else if unat (dataLength header) > maximumDataSize limits then DataTooLarge
      else if kWrapperHeaderSize + unat (dataLength header) > maximumWpduSize limits then FrameTooLarge
      else if availableDataSize < unat (dataLength header) then NeedMoreData
      else if availableDataSize > unat (dataLength header) then InvalidLength
      else Ok)"

definition EncodeWpduToBuffer ::
    "WrapperFrame \<Rightarrow> WrapperCodecLimits \<Rightarrow> nat option \<Rightarrow> WrapperStatus \<times> nat \<times> bytes" where
  "EncodeWpduToBuffer frame limits output =
     (case output of None \<Rightarrow> (InvalidArgument, 0, [])
      | Some outputSize \<Rightarrow>
        if bad_view (frameData frame) then (InvalidArgument, 0, [])
        else if IsNoStationWrapperPort (frameSourcePort frame) then (InvalidSourcePort, 0, [])
        else if IsNoStationWrapperPort (frameDestinationPort frame) then (InvalidDestinationPort, 0, [])
        else if view_size (frameData frame) > kMaximumWrapperDataLength
            \<or> view_size (frameData frame) > maximumDataSize limits then (DataTooLarge, 0, [])
        else
          let frameSize = kWrapperHeaderSize + view_size (frameData frame) in
          if frameSize > maximumWpduSize limits then (FrameTooLarge, 0, [])
          else if outputSize < frameSize then (OutputBufferTooSmall, frameSize, [])
          else
            case EncodeWrapperHeader \<lparr>version = kWrapperVersion, headerSourcePort = frameSourcePort frame,
                headerDestinationPort = frameDestinationPort frame,
                dataLength = word_of_nat (view_size (frameData frame))\<rparr> (Some outputSize) of
              (headerStatus, headerSize, header) \<Rightarrow>
                if headerStatus \<noteq> Ok then (headerStatus, 0, header)
                else (Ok, frameSize, header @ view_bytes (frameData frame)))"

definition EncodeWpdu :: "WrapperFrame \<Rightarrow> WrapperCodecLimits \<Rightarrow> WrapperStatus + bytes" where
  "EncodeWpdu frame limits =
     (if view_size (frameData frame) > kMaximumWrapperDataLength
          \<or> view_size (frameData frame) > maximumDataSize limits then Inl DataTooLarge
      else
        let frameSize = kWrapperHeaderSize + view_size (frameData frame) in
        if frameSize > maximumWpduSize limits then Inl FrameTooLarge
        else case EncodeWpduToBuffer frame limits (Some frameSize) of
          (status, writtenSize, output) \<Rightarrow>
            if status \<noteq> Ok then Inl status else Inr (take writtenSize output))"

definition DecodeWpduView :: "view \<Rightarrow> WrapperCodecLimits \<Rightarrow> WrapperStatus + WrapperFrame" where
  "DecodeWpduView input limits =
     (case DecodeWrapperHeader input of
        Inl headerStatus \<Rightarrow> Inl headerStatus
      | Inr header \<Rightarrow>
          let availableDataSize = view_size input - kWrapperHeaderSize;
              validationStatus = ValidateWrapperHeader header limits availableDataSize
          in
          if validationStatus \<noteq> Ok then Inl validationStatus
          else if IsNoStationWrapperPort (headerSourcePort header) then Inl InvalidSourcePort
          else if IsNoStationWrapperPort (headerDestinationPort header) then Inl InvalidDestinationPort
          else Inr \<lparr>frameSourcePort = headerSourcePort header, frameDestinationPort = headerDestinationPort header,
            frameData = (if dataLength header = 0 then NullView 0
              else View (take (unat (dataLength header)) (drop kWrapperHeaderSize (view_bytes input))))\<rparr>)"

definition DecodeWpdu :: "view \<Rightarrow> WrapperCodecLimits \<Rightarrow> WrapperStatus + WrapperFrameBuffer" where
  "DecodeWpdu input limits =
     (case DecodeWpduView input limits of
        Inl status \<Rightarrow> Inl status
      | Inr v \<Rightarrow> Inr \<lparr>wrapperSourcePort = frameSourcePort v, wrapperDestinationPort = frameDestinationPort v,
          wrapperData = view_bytes (frameData v)\<rparr>)"

subsection \<open>Stream decoder\<close>

record WrapperStreamDecoder =
  wrapperLimits :: WrapperCodecLimits
  wrapperBuffer :: bytes

definition WrapperStreamDecoder_init :: "WrapperCodecLimits \<Rightarrow> WrapperStreamDecoder" where
  "WrapperStreamDecoder_init limits = \<lparr>wrapperLimits = limits, wrapperBuffer = []\<rparr>"

text \<open>
  One turn of the loop of \<open>Push\<close>: \<open>More\<close> where the loop ends, \<open>Fail\<close> for a return after
  \<open>Reset\<close>.
\<close>

definition wrapper_step :: "WrapperCodecLimits \<Rightarrow> bytes \<Rightarrow> (WrapperStatus, WrapperFrameBuffer) scan" where
  "wrapper_step limits buffer =
     (if length buffer < kWrapperHeaderSize then More buffer
      else case DecodeWrapperHeader (View buffer) of
        Inl status \<Rightarrow> Fail status
      | Inr header \<Rightarrow>
          let status = ValidateWrapperHeader header limits (length buffer - kWrapperHeaderSize) in
          if status = NeedMoreData then More buffer
          else if status \<noteq> Ok \<and> status \<noteq> InvalidLength then Fail status
          else
            let frameSize = kWrapperHeaderSize + unat (dataLength header) in
            if length buffer < frameSize then More buffer
            else case DecodeWpdu (View (take frameSize buffer)) limits of
              Inl status \<Rightarrow> Fail status
            | Inr frame \<Rightarrow> Emit frame (drop frameSize buffer))"

lemma wrapper_step_emit_less: "wrapper_step limits b = Emit f r \<Longrightarrow> length r < length b"
  by (auto simp: wrapper_step_def kWrapperHeaderSize_def Let_def split: if_splits sum.splits)

function WrapperPush_loop ::
    "WrapperCodecLimits \<Rightarrow> bytes \<Rightarrow> WrapperFrameBuffer list \<Rightarrow> WrapperStatus \<times> WrapperFrameBuffer list \<times> bytes" where
  "WrapperPush_loop limits buffer frames =
     (case wrapper_step limits buffer of
        Emit frame rest \<Rightarrow> WrapperPush_loop limits rest (frames @ [frame])
      | More rest \<Rightarrow> (if frames = [] then NeedMoreData else Ok, frames, rest)
      | Fail status \<Rightarrow> (status, frames, []))"
  by pat_completeness auto
termination
  by (relation "measure (\<lambda>(limits, buffer, frames). length buffer)") (auto dest: wrapper_step_emit_less)

declare WrapperPush_loop.simps [simp del]

definition WrapperPush ::
    "WrapperStreamDecoder \<Rightarrow> view \<Rightarrow> WrapperStatus \<times> WrapperFrameBuffer list \<times> WrapperStreamDecoder" where
  "WrapperPush decoder chunk =
     (if bad_view chunk then (InvalidArgument, [], decoder)
      else case WrapperPush_loop (wrapperLimits decoder) (wrapperBuffer decoder @ view_bytes chunk) [] of
        (status, frames, buffer) \<Rightarrow> (status, frames, decoder\<lparr>wrapperBuffer := buffer\<rparr>))"

definition WrapperReset :: "WrapperStreamDecoder \<Rightarrow> WrapperStreamDecoder" where
  "WrapperReset decoder = decoder\<lparr>wrapperBuffer := []\<rparr>"

fun WrapperPushAll ::
    "WrapperStreamDecoder \<Rightarrow> bytes list \<Rightarrow> WrapperStatus list \<times> WrapperFrameBuffer list \<times> WrapperStreamDecoder" where
  "WrapperPushAll decoder [] = ([], [], decoder)"
| "WrapperPushAll decoder (c # cs) =
     (let (status, frames, decoder1) = WrapperPush decoder (View c);
          (statuses, frames', decoder2) = WrapperPushAll decoder1 cs
      in (status # statuses, frames @ frames', decoder2))"

subsection \<open>The wire image\<close>

definition wpdu_ok :: "WrapperCodecLimits \<Rightarrow> WrapperFrameBuffer \<Rightarrow> bool" where
  "wpdu_ok limits f \<longleftrightarrow> wrapperSourcePort f \<noteq> kNoStation \<and> wrapperDestinationPort f \<noteq> kNoStation
     \<and> length (wrapperData f) \<le> 0xffff \<and> length (wrapperData f) \<le> maximumDataSize limits
     \<and> 8 + length (wrapperData f) \<le> maximumWpduSize limits"

definition wpdu_wire :: "WrapperFrameBuffer \<Rightarrow> bytes" where
  "wpdu_wire f = [0, 1] @ be16 (wrapperSourcePort f) @ be16 (wrapperDestinationPort f)
     @ be16 (word_of_nat (length (wrapperData f))) @ wrapperData f"

definition as_wpdu :: "WrapperFrameBuffer \<Rightarrow> WrapperFrame" where
  "as_wpdu f = \<lparr>frameSourcePort = wrapperSourcePort f, frameDestinationPort = wrapperDestinationPort f,
     frameData = view_of (wrapperData f)\<rparr>"

lemma be16_version: "be16 kWrapperVersion = [0, 1]"
  by (simp add: be16_def kWrapperVersion_def)

lemma length_wpdu_wire [simp]: "length (wpdu_wire f) = 8 + length (wrapperData f)"
  by (simp add: wpdu_wire_def)

lemma EncodeWpdu_Inr: "EncodeWpdu (as_wpdu f) limits = Inr bs \<longleftrightarrow> wpdu_ok limits f \<and> bs = wpdu_wire f"
  by (auto simp: EncodeWpdu_def EncodeWpduToBuffer_def EncodeWrapperHeader_def as_wpdu_def wpdu_ok_def wpdu_wire_def
      kWrapperHeaderSize_def kMaximumWrapperDataLength_def IsNoStationWrapperPort_def be16_version Let_def)

text \<open>Reading the header of a byte string with at least eight bytes.\<close>

lemma list_8:
  assumes "8 \<le> length bs"
  obtains a0 a1 a2 a3 a4 a5 a6 a7 rest where "bs = a0 # a1 # a2 # a3 # a4 # a5 # a6 # a7 # rest"
  using assms that by (auto simp: numeral_eq_Suc Suc_le_length_iff)

lemma unat_eq_length: "unat (w :: u16) = n \<longleftrightarrow> w = word_of_nat n \<and> n \<le> 0xffff"
proof
  assume "unat w = n"
  moreover have "unat w < 2 ^ 16" by (rule order_less_le_trans [OF unsigned_less]) simp
  ultimately show "w = word_of_nat n \<and> n \<le> 0xffff" by auto
qed (simp add: unat_of_nat)

lemma DecodeWrapperHeader_Cons:
  "DecodeWrapperHeader (View (a0 # a1 # a2 # a3 # a4 # a5 # a6 # a7 # rest)) =
     (if be16_at a0 a1 \<noteq> kWrapperVersion then Inl InvalidVersion
      else Inr \<lparr>version = be16_at a0 a1, headerSourcePort = be16_at a2 a3,
        headerDestinationPort = be16_at a4 a5, dataLength = be16_at a6 a7\<rparr>)"
  by (simp add: DecodeWrapperHeader_def kWrapperHeaderSize_def Let_def)

lemma DecodeWrapperHeader_Inr:
  "DecodeWrapperHeader (View bs) = Inr h \<longleftrightarrow> version h = kWrapperVersion
     \<and> (\<exists>rest. bs = [0, 1] @ be16 (headerSourcePort h) @ be16 (headerDestinationPort h) @ be16 (dataLength h) @ rest)"
  (is "?l \<longleftrightarrow> ?r")
proof
  assume l: ?l
  then have "8 \<le> length bs"
    by (auto simp: DecodeWrapperHeader_def kWrapperHeaderSize_def split: if_splits)
  then obtain a0 a1 a2 a3 a4 a5 a6 a7 rest where bs: "bs = a0 # a1 # a2 # a3 # a4 # a5 # a6 # a7 # rest"
    by (rule list_8)
  with l have v: "be16_at a0 a1 = kWrapperVersion" and h: "h = \<lparr>version = kWrapperVersion,
      headerSourcePort = be16_at a2 a3, headerDestinationPort = be16_at a4 a5, dataLength = be16_at a6 a7\<rparr>"
    by (auto simp: DecodeWrapperHeader_Cons split: if_splits)
  from v have "[a0, a1] = [0, 1]" using be16_be16_at [of a0 a1] be16_version by simp
  with bs h show ?r by simp
next
  assume ?r
  then obtain rest where v: "version h = kWrapperVersion"
    and bs: "bs = [0, 1] @ be16 (headerSourcePort h) @ be16 (headerDestinationPort h) @ be16 (dataLength h) @ rest"
    by blast
  have "be16_at 0 1 = kWrapperVersion" by (simp add: be16_at_def kWrapperVersion_def)
  with v show ?l unfolding bs be16_def by (cases h) (simp add: DecodeWrapperHeader_Cons)
qed

lemma DecodeWpdu_Inr: "DecodeWpdu (View bs) limits = Inr f \<longleftrightarrow> wpdu_ok limits f \<and> bs = wpdu_wire f"
  (is "?l \<longleftrightarrow> ?r")
proof
  assume l: ?l
  then obtain h where h: "DecodeWrapperHeader (View bs) = Inr h"
    and v: "ValidateWrapperHeader h limits (length bs - 8) = Ok"
    and p: "headerSourcePort h \<noteq> kNoStation" "headerDestinationPort h \<noteq> kNoStation"
    and f: "f = \<lparr>wrapperSourcePort = headerSourcePort h, wrapperDestinationPort = headerDestinationPort h,
      wrapperData = take (unat (dataLength h)) (drop 8 bs)\<rparr>"
    by (auto simp: DecodeWpdu_def DecodeWpduView_def Let_def kWrapperHeaderSize_def IsNoStationWrapperPort_def
        split: sum.splits if_splits)
  from h obtain rest where
    bs: "bs = [0, 1] @ be16 (headerSourcePort h) @ be16 (headerDestinationPort h) @ be16 (dataLength h) @ rest"
    by (auto simp: DecodeWrapperHeader_Inr)
  from v bs have n: "unat (dataLength h) = length rest" "length rest \<le> maximumDataSize limits"
    "8 + length rest \<le> maximumWpduSize limits"
    by (auto simp: ValidateWrapperHeader_def kWrapperHeaderSize_def split: if_splits)
  then have "dataLength h = word_of_nat (length rest)" "length rest \<le> 0xffff" by (simp_all only: unat_eq_length)
  with n bs f p show ?r by (simp add: wpdu_ok_def wpdu_wire_def)
next
  assume r: ?r
  let ?h = "\<lparr>version = kWrapperVersion, headerSourcePort = wrapperSourcePort f,
    headerDestinationPort = wrapperDestinationPort f, dataLength = word_of_nat (length (wrapperData f))\<rparr>"
  have "DecodeWrapperHeader (View bs) = Inr ?h" using r by (simp add: DecodeWrapperHeader_Inr wpdu_wire_def)
  moreover have n: "unat (word_of_nat (length (wrapperData f)) :: u16) = length (wrapperData f)"
    using r by (simp add: unat_eq_length wpdu_ok_def)
  moreover have "ValidateWrapperHeader ?h limits (length bs - 8) = Ok"
    using r n by (simp add: ValidateWrapperHeader_def wpdu_ok_def kWrapperHeaderSize_def)
  moreover have "take (length (wrapperData f)) (drop 8 bs) = wrapperData f"
    using r by (simp add: wpdu_wire_def be16_def)
  moreover have "word_of_nat (length (wrapperData f)) = (0 :: u16) \<Longrightarrow> wrapperData f = []" using n by auto
  ultimately show ?l
    using r by (auto simp: DecodeWpdu_def DecodeWpduView_def Let_def kWrapperHeaderSize_def
        IsNoStationWrapperPort_def wpdu_ok_def)
qed

subsection \<open>The decoder implements the stream interface\<close>

lemma DecodeWrapperHeader_append:
  assumes "8 \<le> length b"
  shows "DecodeWrapperHeader (View (b @ x)) = DecodeWrapperHeader (View b)"
  using assms by (rule list_8) (simp add: DecodeWrapperHeader_Cons)

lemma wrapper_step_alt:
  "wrapper_step limits b =
     (if length b < 8 then More b
      else case DecodeWrapperHeader (View b) of
        Inl status \<Rightarrow> Fail status
      | Inr h \<Rightarrow>
          if unat (dataLength h) > maximumDataSize limits then Fail DataTooLarge
          else if 8 + unat (dataLength h) > maximumWpduSize limits then Fail FrameTooLarge
          else if length b < 8 + unat (dataLength h) then More b
          else case DecodeWpdu (View (take (8 + unat (dataLength h)) b)) limits of
            Inl status \<Rightarrow> Fail status
          | Inr frame \<Rightarrow> Emit frame (drop (8 + unat (dataLength h)) b))"
proof (cases "DecodeWrapperHeader (View b)")
  case (Inr h)
  then have "version h = kWrapperVersion" by (simp add: DecodeWrapperHeader_Inr)
  then show ?thesis using Inr
    by (auto simp: wrapper_step_def ValidateWrapperHeader_def kWrapperHeaderSize_def Let_def)
qed (simp add: wrapper_step_def kWrapperHeaderSize_def)

lemma wrapper_step_append:
  "wrapper_step limits b = Emit f r \<Longrightarrow> wrapper_step limits (b @ x) = Emit f (r @ x)"
  "wrapper_step limits b = Fail e \<Longrightarrow> wrapper_step limits (b @ x) = Fail e"
  "wrapper_step limits b = More r \<Longrightarrow> r = b"
  unfolding wrapper_step_alt
  by (auto simp: DecodeWrapperHeader_append split: if_splits sum.splits)

lemma wrapper_step_frame:
  assumes "wpdu_ok limits f"
  shows "wrapper_step limits (wpdu_wire f @ x) = Emit f x"
proof -
  let ?h = "\<lparr>version = kWrapperVersion, headerSourcePort = wrapperSourcePort f,
    headerDestinationPort = wrapperDestinationPort f, dataLength = word_of_nat (length (wrapperData f))\<rparr>"
  have "DecodeWrapperHeader (View (wpdu_wire f @ x)) = Inr ?h" by (simp add: DecodeWrapperHeader_Inr wpdu_wire_def)
  moreover have "unat (dataLength ?h) = length (wrapperData f)" using assms by (simp add: unat_eq_length wpdu_ok_def)
  moreover have "DecodeWpdu (View (wpdu_wire f)) limits = Inr f" using assms by (simp add: DecodeWpdu_Inr)
  ultimately show ?thesis using assms unfolding wrapper_step_alt by (simp add: wpdu_ok_def)
qed

interpretation wrapper_decoder: stream_decoder "wrapper_step limits" "WrapperPush_loop limits"
  WrapperStatus.NeedMoreData WrapperStatus.Ok "wpdu_ok limits" wpdu_wire "\<lambda>f. f"
  for limits
proof unfold_locales
  show "WrapperPush_loop limits b fs = (case wrapper_step limits b of
      Emit f r \<Rightarrow> WrapperPush_loop limits r (fs @ [f])
    | More r \<Rightarrow> (if fs = [] then NeedMoreData else Ok, fs, r)
    | Fail e \<Rightarrow> (e, fs, []))" for b fs
    by (rule WrapperPush_loop.simps)
  show "wrapper_step limits [] = More []" by (simp add: wrapper_step_def kWrapperHeaderSize_def)
  show "wrapper_step limits (b @ x) = wrapper_step limits (r @ x)" if "wrapper_step limits b = More r" for b r x
    using wrapper_step_append(3) [OF that] by simp
qed (auto simp: wrapper_step_append wrapper_step_frame dest: wrapper_step_emit_less)

lemma WrapperPushAll_push_all:
  "WrapperPushAll d cs = (case wrapper_decoder.push_all (wrapperLimits d) (wrapperBuffer d) cs of
     (sts, fs, r) \<Rightarrow> (sts, fs, d\<lparr>wrapperBuffer := r\<rparr>))"
  by (induction cs arbitrary: d) (simp_all add: WrapperPush_def Let_def split: prod.splits)

lemma WrapperPush_loop_buffer:
  "WrapperPush_loop limits b fs = (st, gs, r) \<Longrightarrow>
     length r \<le> max 7 (maximumWpduSize limits - 1) \<and> (st \<notin> {Ok, NeedMoreData} \<longrightarrow> r = [])"
proof (induction limits b fs rule: WrapperPush_loop.induct)
  case (1 limits b fs)
  have "wrapper_step limits b = More r' \<Longrightarrow> length r' \<le> max 7 (maximumWpduSize limits - 1)" for r'
    by (auto simp: wrapper_step_alt split: if_splits sum.splits)
  with "1.prems" show ?case
    by (subst (asm) WrapperPush_loop.simps) (auto split: scan.splits if_splits dest: "1.IH")
qed

lemma WrapperPushAll_wires:
  assumes "\<forall>f \<in> set frames. wpdu_ok limits f" "concat chunks = concat (map wpdu_wire frames)"
  shows "\<exists>sts. WrapperPushAll (WrapperStreamDecoder_init limits) chunks =
      (sts, frames, WrapperStreamDecoder_init limits) \<and> set sts \<subseteq> {NeedMoreData, Ok}"
  using wrapper_decoder.push_all_items [OF assms(1) wrapper_decoder.scan_Nil, of chunks] assms(2)
  by (auto simp: WrapperPushAll_push_all WrapperStreamDecoder_init_def)

subsection \<open>Properties\<close>

text \<open>
  The wrapper codec is a bijection: under any limits, encoding a frame gives a byte string
  exactly when decoding that byte string gives the frame. In particular every frame that is
  encoded is decoded again, every accepted input is the only encoding of its frame, and both
  directions refuse the port 0, oversized data and any other version.
\<close>

theorem EncodeWpdu_DecodeWpdu:
  "EncodeWpdu (as_wpdu f) limits = Inr bs \<longleftrightarrow> DecodeWpdu (View bs) limits = Inr f"
  by (simp only: EncodeWpdu_Inr DecodeWpdu_Inr)

text \<open>
  C22: Delivery over TCP. Whatever chunks a stream of valid frames arrives in, a fresh decoder
  delivers exactly those frames in their order, reports only \<open>Ok\<close> and \<open>NeedMoreData\<close>, and
  ends with an empty buffer.
\<close>

theorem WrapperPushAll_delivers:
  assumes "\<forall>f \<in> set frames. \<exists>bs. EncodeWpdu (as_wpdu f) limits = Inr bs"
    and "concat chunks = concat (map wpdu_wire frames)"
  shows "\<exists>sts. WrapperPushAll (WrapperStreamDecoder_init limits) chunks =
      (sts, frames, WrapperStreamDecoder_init limits) \<and> set sts \<subseteq> {NeedMoreData, Ok}"
  using WrapperPushAll_wires [OF _ assms(2)] assms(1) by (simp add: EncodeWpdu_Inr)

theorem WrapperPushAll_delivers_witness:
  "\<exists>sts. WrapperPushAll (WrapperStreamDecoder_init DefaultWrapperCodecLimits)
      [[0, 1, 0, 16], [0, 1, 0, 2, 0xc0], [0x01]] =
    (sts, [\<lparr>wrapperSourcePort = 16, wrapperDestinationPort = 1, wrapperData = [0xc0, 0x01]\<rparr>],
      WrapperStreamDecoder_init DefaultWrapperCodecLimits) \<and> set sts \<subseteq> {NeedMoreData, Ok}"
proof -
  let ?f = "\<lparr>wrapperSourcePort = 16, wrapperDestinationPort = 1, wrapperData = [0xc0, 0x01]\<rparr>"
  have "wpdu_ok DefaultWrapperCodecLimits ?f"
    by (simp add: wpdu_ok_def DefaultWrapperCodecLimits_def kMaximumWrapperDataLength_def
        kMaximumWrapperFrameLength_def kWrapperHeaderSize_def kNoStation_def)
  moreover have "wpdu_wire ?f = [0, 1, 0, 16, 0, 1, 0, 2, 0xc0, 0x01]" by (simp add: wpdu_wire_def be16_def)
  ultimately show ?thesis
    using WrapperPushAll_delivers [of "[?f]" DefaultWrapperCodecLimits "[[0, 1, 0, 16], [0, 1, 0, 2, 0xc0], [0x01]]"]
    by (simp add: EncodeWpdu_Inr)
qed

text \<open>
  Bounded buffer and reset. After any push the decoder keeps its limits and holds fewer bytes
  than the largest frame the limits admit (or than a header); after an error it holds
  nothing; a null pointer with a size changes nothing.
\<close>

theorem WrapperPush_buffer:
  assumes "WrapperPush d chunk = (st, fs, d')"
  shows "wrapperLimits d' = wrapperLimits d \<and>
    (if bad_view chunk then st = InvalidArgument \<and> fs = [] \<and> d' = d
     else length (wrapperBuffer d') \<le> max 7 (maximumWpduSize (wrapperLimits d) - 1)
      \<and> (st \<notin> {Ok, NeedMoreData} \<longrightarrow> d' = WrapperReset d))"
proof (cases "bad_view chunk")
  case False
  with assms obtain r where "WrapperPush_loop (wrapperLimits d) (wrapperBuffer d @ view_bytes chunk) [] = (st, fs, r)"
    and "d' = d\<lparr>wrapperBuffer := r\<rparr>"
    by (auto simp: WrapperPush_def split: prod.splits)
  with WrapperPush_loop_buffer [OF this(1)] False show ?thesis by (auto simp: WrapperReset_def)
qed (use assms in \<open>simp add: WrapperPush_def\<close>)

theorem WrapperPush_buffer_witness:
  "WrapperPush (WrapperStreamDecoder_init DefaultWrapperCodecLimits) (View [0, 2, 0, 0, 0, 0, 0, 0]) =
     (InvalidVersion, [], WrapperReset (WrapperStreamDecoder_init DefaultWrapperCodecLimits))"
proof -
  obtain d' where p: "WrapperPush (WrapperStreamDecoder_init DefaultWrapperCodecLimits) (View [0, 2, 0, 0, 0, 0, 0, 0])
      = (InvalidVersion, [], d')"
    by (simp add: WrapperPush_def WrapperPush_loop.simps wrapper_step_def WrapperStreamDecoder_init_def
        kWrapperHeaderSize_def DecodeWrapperHeader_Cons kWrapperVersion_def be16_at_def)
  from WrapperPush_buffer [OF p] p show ?thesis by simp
qed

text \<open>
  Port classes. Every port up to 0xff is either reserved or open for a client and every port up
  to 0x7f is either reserved or open for a server, never both; an open client port is a client
  port and an open server port is a server port.
\<close>

theorem wrapper_port_classes:
  "(port \<le> 0xff \<longrightarrow> IsReservedClientWrapperPort port \<noteq> IsOpenClientWrapperPort port)
   \<and> (port \<le> 0x7f \<longrightarrow> IsReservedServerWrapperPort port \<noteq> IsOpenServerWrapperPort port)
   \<and> (IsOpenClientWrapperPort port \<longrightarrow> IsClientWrapperPort port)
   \<and> (IsOpenServerWrapperPort port \<longrightarrow> IsServerWrapperPort port)"
  unfolding IsReservedClientWrapperPort_def IsOpenClientWrapperPort_def IsReservedServerWrapperPort_def
    IsOpenServerWrapperPort_def IsClientWrapperPort_def IsServerWrapperPort_def kNoStation_def
    kClientManagementProcess_def kPublicClient_def kManagementLogicalDevice_def kAllStationBroadcast_def
  by (simp add: word_le_nat_alt word_unat_eq_iff) linarith

theorem wrapper_port_classes_witness:
  "(0x20 :: u16) \<le> 0x7f \<and> IsOpenServerWrapperPort 0x20 \<and> IsServerWrapperPort 0x20 \<and> \<not> IsReservedServerWrapperPort 0x20"
proof -
  have "IsOpenServerWrapperPort 0x20" by (simp add: IsOpenServerWrapperPort_def)
  with wrapper_port_classes [of "0x20"] show ?thesis by simp
qed

end
