(* ===== verification/Apdu_IO.thy ===== *)
theory Apdu_IO
  imports Prelude
begin

text \<open>
  The bounded reader and writer under every APDU codec (\<open>apdu_error.hpp\<close>, \<open>apdu_reader.cpp\<close>,
  \<open>apdu_writer.cpp\<close>) and the interface \<open>wire_codec\<close> that the codecs above them implement: what
  is written is read back, a writer without room reports it, and no reader operation moves the
  read position out of its buffer. A reader is its buffer and position; a writer is the size of
  its buffer, whether the pointer is null, and the bytes stored so far, so that its position is
  their number.
\<close>

datatype ApduStatus =
  Ok | NeedMoreData | OutputBufferTooSmall | InvalidArgument | InvalidTag | InvalidLength | InvalidBer
  | InvalidAxdr | InvalidChoice | InvalidData | InvalidInvokeId | InvalidDescriptor | InvalidConformance
  | UnsupportedApdu | UnsupportedAcseField | UnsupportedXdlmsService | UnsupportedDataType
  | UnsupportedFeature | PduTooLarge | InternalError

record ApduReader =
  readerData :: view
  readerPosition :: nat

record ApduWriter =
  writerNull :: bool
  writerSize :: nat
  written :: bytes

type_synonym 'a reading = "ApduReader \<Rightarrow> (ApduStatus + 'a) \<times> ApduReader"
type_synonym writing = "ApduWriter \<Rightarrow> (ApduStatus + unit) \<times> ApduWriter"

definition ApduReader_init :: "view \<Rightarrow> ApduReader" where
  "ApduReader_init v = \<lparr>readerData = v, readerPosition = 0\<rparr>"

definition reader_remaining :: "ApduReader \<Rightarrow> nat" where
  "reader_remaining r = size_sub (view_size (readerData r)) (readerPosition r)"

definition reader_empty :: "ApduReader \<Rightarrow> bool" where
  "reader_empty r \<longleftrightarrow> reader_remaining r = 0"

definition ReadU8 :: "u8 reading" where
  "ReadU8 r =
     (if bad_view (readerData r) then (Inl InvalidArgument, r)
      else if reader_remaining r < 1 then (Inl NeedMoreData, r)
      else (Inr (view_bytes (readerData r) ! readerPosition r), r\<lparr>readerPosition := readerPosition r + 1\<rparr>))"

definition ReadU16 :: "u16 reading" where
  "ReadU16 r =
     (if bad_view (readerData r) then (Inl InvalidArgument, r)
      else if reader_remaining r < 2 then (Inl NeedMoreData, r)
      else try_then ReadU8 (\<lambda>high. try_then ReadU8 (\<lambda>low. yield (be16_at high low))) r)"

definition be32_at :: "u8 \<Rightarrow> u8 \<Rightarrow> u8 \<Rightarrow> u8 \<Rightarrow> u32" where
  "be32_at b0 b1 b2 b3 = push_bit 24 (ucast b0) OR push_bit 16 (ucast b1) OR push_bit 8 (ucast b2) OR ucast b3"

definition be32 :: "u32 \<Rightarrow> bytes" where
  "be32 v = [ucast (drop_bit 24 v AND 0xff), ucast (drop_bit 16 v AND 0xff),
     ucast (drop_bit 8 v AND 0xff), ucast (v AND 0xff)]"

definition ReadU32 :: "u32 reading" where
  "ReadU32 r =
     (if bad_view (readerData r) then (Inl InvalidArgument, r)
      else if reader_remaining r < 4 then (Inl NeedMoreData, r)
      else try_then ReadU8 (\<lambda>b0. try_then ReadU8 (\<lambda>b1. try_then ReadU8 (\<lambda>b2. try_then ReadU8 (\<lambda>b3.
        yield (be32_at b0 b1 b2 b3))))) r)"

definition ReadBytes :: "nat \<Rightarrow> bytes reading" where
  "ReadBytes count r =
     (if bad_view (readerData r) then (Inl InvalidArgument, r)
      else if reader_remaining r < count then (Inl NeedMoreData, r)
      else (Inr (take count (drop (readerPosition r) (view_bytes (readerData r)))),
            r\<lparr>readerPosition := readerPosition r + count\<rparr>))"

definition Skip :: "nat \<Rightarrow> unit reading" where
  "Skip count = try_then (ReadBytes count) (\<lambda>_. yield ())"

definition ApduWriter_init :: "bool \<Rightarrow> nat \<Rightarrow> ApduWriter" where
  "ApduWriter_init null bufferSize = \<lparr>writerNull = null, writerSize = bufferSize, written = []\<rparr>"

definition writer_remaining :: "ApduWriter \<Rightarrow> nat" where
  "writer_remaining w = size_sub (writerSize w) (length (written w))"

definition bad_writer :: "ApduWriter \<Rightarrow> bool" where
  "bad_writer w \<longleftrightarrow> writerNull w \<and> writerSize w \<noteq> 0"

definition store :: "bytes \<Rightarrow> ApduWriter \<Rightarrow> ApduWriter" where
  "store bs w = w\<lparr>written := written w @ bs\<rparr>"

definition WriteU8 :: "u8 \<Rightarrow> writing" where
  "WriteU8 v w =
     (if bad_writer w then (Inl InvalidArgument, w)
      else if writer_remaining w < 1 then (Inl OutputBufferTooSmall, w)
      else (Inr (), store [v] w))"

definition WriteU16 :: "u16 \<Rightarrow> writing" where
  "WriteU16 v w =
     (if bad_writer w then (Inl InvalidArgument, w)
      else if writer_remaining w < 2 then (Inl OutputBufferTooSmall, w)
      else try_then (WriteU8 (ucast (drop_bit 8 v AND 0xff))) (\<lambda>_. WriteU8 (ucast (v AND 0xff))) w)"

definition WriteU32 :: "u32 \<Rightarrow> writing" where
  "WriteU32 v w =
     (if bad_writer w then (Inl InvalidArgument, w)
      else if writer_remaining w < 4 then (Inl OutputBufferTooSmall, w)
      else try_then (WriteU8 (ucast (drop_bit 24 v AND 0xff))) (\<lambda>_.
        try_then (WriteU8 (ucast (drop_bit 16 v AND 0xff))) (\<lambda>_.
        try_then (WriteU8 (ucast (drop_bit 8 v AND 0xff))) (\<lambda>_. WriteU8 (ucast (v AND 0xff))))) w)"

definition WriteBytes :: "view \<Rightarrow> writing" where
  "WriteBytes v w =
     (if bad_writer w then (Inl InvalidArgument, w)
      else if bad_view v then (Inl InvalidArgument, w)
      else if writer_remaining w < view_size v then (Inl OutputBufferTooSmall, w)
      else (Inr (), store (view_bytes v) w))"

text \<open>A loop that runs an operation a fixed number of times and collects the results.\<close>

primrec read_many :: "nat \<Rightarrow> 'a reading \<Rightarrow> 'a list reading" where
  "read_many 0 m = yield []"
| "read_many (Suc n) m = try_then m (\<lambda>x. try_then (read_many n m) (\<lambda>xs. yield (x # xs)))"

primrec write_all :: "writing list \<Rightarrow> writing" where
  "write_all [] = yield ()"
| "write_all (m # ms) = try_then m (\<lambda>_. write_all ms)"

subsection \<open>Reader and writer states\<close>

text \<open>A reader over a non-null buffer that has consumed \<open>pre\<close> and has \<open>rest\<close> left.\<close>

definition reader_at :: "bytes \<Rightarrow> bytes \<Rightarrow> ApduReader" where
  "reader_at pre rest = \<lparr>readerData = View (pre @ rest), readerPosition = length pre\<rparr>"

definition reader_ok :: "ApduReader \<Rightarrow> bool" where
  "reader_ok r \<longleftrightarrow> readerPosition r \<le> view_size (readerData r)"

text \<open>An operation that only ever advances within the buffer.\<close>

definition safe_read :: "'a reading \<Rightarrow> bool" where
  "safe_read m \<longleftrightarrow> (\<forall>r. reader_ok r \<longrightarrow> reader_ok (snd (m r)) \<and> readerData (snd (m r)) = readerData r
     \<and> readerPosition r \<le> readerPosition (snd (m r)))"

definition writer_ok :: "ApduWriter \<Rightarrow> bool" where
  "writer_ok w \<longleftrightarrow> \<not> writerNull w \<and> length (written w) \<le> writerSize w"

lemma ApduReader_init_at: "ApduReader_init (View bs) = reader_at [] bs"
  by (simp add: ApduReader_init_def reader_at_def)

lemma reader_at_simps [simp]:
  "reader_remaining (reader_at pre rest) = length rest" "\<not> bad_view (readerData (reader_at pre rest))"
  "reader_empty (reader_at pre rest) \<longleftrightarrow> rest = []" "readerPosition (reader_at pre rest) = length pre"
  by (simp_all add: reader_at_def reader_remaining_def reader_empty_def size_sub_le)

lemma writer_remaining_ok [simp]: "writer_ok w \<Longrightarrow> writer_remaining w = writerSize w - length (written w)"
  by (simp add: writer_ok_def writer_remaining_def size_sub_le)

lemma writer_ok_not_bad [simp]: "writer_ok w \<Longrightarrow> \<not> bad_writer w"
  by (simp add: writer_ok_def bad_writer_def)

lemma store_simps [simp]:
  "written (store bs w) = written w @ bs" "writerSize (store bs w) = writerSize w" "writerNull (store bs w) = writerNull w"
  "store cs (store bs w) = store (bs @ cs) w" "store [] w = w"
  by (simp_all add: store_def)

lemma writer_ok_store [simp]:
  "writer_ok w \<Longrightarrow> writer_ok (store bs w) \<longleftrightarrow> length bs \<le> writerSize w - length (written w)"
  by (auto simp: writer_ok_def)

lemma writer_ok_init [simp]: "writer_ok (ApduWriter_init False n)"
  by (simp add: writer_ok_def ApduWriter_init_def)

lemma ReadU8_at [codec_simps]: "ReadU8 (reader_at pre (b # rest)) = (Inr b, reader_at (pre @ [b]) rest)"
  by (simp add: ReadU8_def) (simp add: reader_at_def)

lemma ReadU8_at_Nil [codec_simps]: "ReadU8 (reader_at pre []) = (Inl NeedMoreData, reader_at pre [])"
  by (simp add: ReadU8_def)

lemma ReadBytes_at [codec_simps]:
  "length bs = n \<Longrightarrow> ReadBytes n (reader_at pre (bs @ rest)) = (Inr bs, reader_at (pre @ bs) rest)"
  by (simp add: ReadBytes_def) (simp add: reader_at_def)

lemma ReadU16_at [codec_simps]: "ReadU16 (reader_at pre (be16 v @ rest)) = (Inr v, reader_at (pre @ be16 v) rest)"
  using be16_at_be16 [of v] by (simp add: ReadU16_def try_then_def be16_def ReadU8_at)

lemma be32_at_be32 [simp]:
  "be32_at (ucast (drop_bit 24 v AND 0xff)) (ucast (drop_bit 16 v AND 0xff))
     (ucast (drop_bit 8 v AND 0xff)) (ucast (v AND 0xff)) = v"
proof (rule bit_word_eqI)
  fix n
  assume "n < LENGTH(32)"
  then consider "n < 8" | "8 \<le> n" "n < 16" | "16 \<le> n" "n < 24" | "24 \<le> n" "n < 32" by fastforce
  then show "bit (be32_at (ucast (drop_bit 24 v AND 0xff)) (ucast (drop_bit 16 v AND 0xff))
      (ucast (drop_bit 8 v AND 0xff)) (ucast (v AND 0xff))) n \<longleftrightarrow> bit v n"
    unfolding be32_at_def mask_simps by cases (auto simp: bit_simps)
qed

lemma length_be32 [simp]: "length (be32 v) = 4"
  by (simp add: be32_def)

lemma ReadU32_at [codec_simps]: "ReadU32 (reader_at pre (be32 v @ rest)) = (Inr v, reader_at (pre @ be32 v) rest)"
  using be32_at_be32 [of v] by (simp add: ReadU32_def try_then_def be32_def ReadU8_at)

subsection \<open>Safety of the reader\<close>

lemma safe_read_yield [simp]: "safe_read (yield a)" "safe_read (refuse e)"
  by (simp_all add: safe_read_def)

lemma safe_read_then [intro]:
  assumes "safe_read m" "\<And>a. safe_read (k a)"
  shows "safe_read (try_then m k)"
  unfolding safe_read_def
proof (intro allI impI)
  fix r
  assume r: "reader_ok r"
  obtain v r1 where m: "m r = (v, r1)" by fastforce
  with assms(1) r have 1: "reader_ok r1" "readerData r1 = readerData r" "readerPosition r \<le> readerPosition r1"
    by (auto simp: safe_read_def)
  show "reader_ok (snd (try_then m k r)) \<and> readerData (snd (try_then m k r)) = readerData r
      \<and> readerPosition r \<le> readerPosition (snd (try_then m k r))"
  proof (cases v)
    case (Inr a)
    from assms(2) [of a] 1 have "reader_ok (snd (k a r1)) \<and> readerData (snd (k a r1)) = readerData r1
        \<and> readerPosition r1 \<le> readerPosition (snd (k a r1))" by (simp add: safe_read_def)
    with m Inr 1 show ?thesis by (simp add: try_then_def)
  qed (use m 1 in \<open>simp add: try_then_def\<close>)
qed

lemma safe_read_if [intro]: "safe_read m \<Longrightarrow> safe_read n \<Longrightarrow> safe_read (\<lambda>r. if P r then m r else n r)"
  by (simp add: safe_read_def)

lemma safe_read_if_const [intro]: "safe_read m \<Longrightarrow> safe_read n \<Longrightarrow> safe_read (if b then m else n)"
  by simp

lemma safe_ReadU8 [simp]: "safe_read ReadU8"
  by (auto simp: safe_read_def ReadU8_def reader_ok_def reader_remaining_def size_sub_def split: if_splits)

lemma safe_ReadBytes [simp]: "safe_read (ReadBytes n)"
  by (auto simp: safe_read_def ReadBytes_def reader_ok_def reader_remaining_def size_sub_def split: if_splits)

lemma safe_ReadU16 [simp]: "safe_read ReadU16"
proof -
  have "safe_read (try_then ReadU8 (\<lambda>high. try_then ReadU8 (\<lambda>low. yield (be16_at high low))))"
    by (intro safe_read_then) simp_all
  then show ?thesis by (auto simp: safe_read_def ReadU16_def)
qed

lemma safe_ReadU32 [simp]: "safe_read ReadU32"
proof -
  have "safe_read (try_then ReadU8 (\<lambda>b0. try_then ReadU8 (\<lambda>b1. try_then ReadU8 (\<lambda>b2. try_then ReadU8 (\<lambda>b3.
      yield (be32_at b0 b1 b2 b3))))))" by (intro safe_read_then) simp_all
  then show ?thesis by (auto simp: safe_read_def ReadU32_def)
qed

lemma safe_read_many [simp]: "safe_read m \<Longrightarrow> safe_read (read_many n m)"
  by (induction n) (simp_all add: safe_read_then)

subsection \<open>Interface: a codec over the reader and the writer\<close>

text \<open>
  Reading exactly the bytes \<open>bs\<close> as the value \<open>a\<close>, whatever surrounds them; and writing exactly
  the bytes \<open>bs\<close> if they fit, or else stopping with \<open>OutputBufferTooSmall\<close> after a prefix of them.
\<close>

definition reads :: "'a reading \<Rightarrow> bytes \<Rightarrow> 'a \<Rightarrow> bool" where
  "reads m bs a \<longleftrightarrow> (\<forall>pre rest. m (reader_at pre (bs @ rest)) = (Inr a, reader_at (pre @ bs) rest))"

definition writes :: "writing \<Rightarrow> bytes \<Rightarrow> bool" where
  "writes m bs \<longleftrightarrow> (\<forall>w. writer_ok w \<longrightarrow>
     (if length bs \<le> writerSize w - length (written w) then m w = (Inr (), store bs w)
      else \<exists>k. k < length bs \<and> length (written w) + k \<le> writerSize w
        \<and> m w = (Inl OutputBufferTooSmall, store (take k bs) w)))"

lemma reads_at: "reads m bs a \<Longrightarrow> m (reader_at pre (bs @ rest)) = (Inr a, reader_at (pre @ bs) rest)"
  by (simp add: reads_def)

lemma reads_yield [simp]: "reads (yield a) [] a"
  by (simp add: reads_def)

lemma reads_then [intro]: "reads m bs a \<Longrightarrow> reads (k a) cs b \<Longrightarrow> reads (try_then m k) (bs @ cs) b"
  by (simp add: reads_def try_then_def)

lemma reads_then_yield: "reads m bs a \<Longrightarrow> reads (try_then m (\<lambda>x. yield (g x))) bs (g a)"
  using reads_then [of m bs a "\<lambda>x. yield (g x)" "[]" "g a"] by simp

lemma reads_ReadU8 [simp]: "reads ReadU8 [b] b"
  by (simp add: reads_def ReadU8_at)

lemma reads_ReadU16 [simp]: "reads ReadU16 (be16 v) v"
  by (simp add: reads_def ReadU16_at)

lemma reads_ReadBytes: "length bs = n \<Longrightarrow> reads (ReadBytes n) bs bs"
  by (simp add: reads_def ReadBytes_at)

lemma writes_ok: "writes m bs \<Longrightarrow> writer_ok w \<Longrightarrow> length bs \<le> writerSize w - length (written w) \<Longrightarrow> m w = (Inr (), store bs w)"
  by (simp add: writes_def)

lemma writes_full:
  assumes "writes m bs" "writer_ok w" "\<not> length bs \<le> writerSize w - length (written w)"
  obtains k where "k < length bs" "length (written w) + k \<le> writerSize w"
    "m w = (Inl OutputBufferTooSmall, store (take k bs) w)"
  using assms(1) [unfolded writes_def, rule_format, OF assms(2)] assms(3) that by auto

lemma writes_fresh:
  assumes "writes m bs" "length bs \<le> n"
  shows "m (ApduWriter_init False n) = (Inr (), store bs (ApduWriter_init False n))"
  using writes_ok [OF assms(1) writer_ok_init, of n] assms(2) by (simp add: ApduWriter_init_def)

lemma writes_fresh_full:
  assumes "writes m bs" "n < length bs"
  shows "fst (m (ApduWriter_init False n)) = Inl OutputBufferTooSmall"
  by (rule writes_full [OF assms(1) writer_ok_init [of n]]) (use assms(2) in \<open>auto simp: ApduWriter_init_def\<close>)

lemma writes_yield [simp]: "writes (yield ()) []"
  by (simp add: writes_def)

lemma writes_then [intro]:
  assumes "writes m bs" "writes n cs"
  shows "writes (try_then m (\<lambda>_. n)) (bs @ cs)"
  unfolding writes_def
proof (intro allI impI)
  fix w
  assume w: "writer_ok w"
  let ?free = "writerSize w - length (written w)"
  consider "length (bs @ cs) \<le> ?free" | "length bs \<le> ?free" "\<not> length (bs @ cs) \<le> ?free" | "\<not> length bs \<le> ?free"
    by force
  then show "if length (bs @ cs) \<le> ?free then try_then m (\<lambda>_. n) w = (Inr (), store (bs @ cs) w)
      else \<exists>k. k < length (bs @ cs) \<and> length (written w) + k \<le> writerSize w
        \<and> try_then m (\<lambda>_. n) w = (Inl OutputBufferTooSmall, store (take k (bs @ cs)) w)"
  proof cases
    case 1
    with w writes_ok [OF assms(1) w] writes_ok [OF assms(2), of "store bs w"] show ?thesis
      by (simp add: try_then_def)
  next
    case 2
    with w have s: "writer_ok (store bs w)" "\<not> length cs \<le> writerSize (store bs w) - length (written (store bs w))"
      by auto
    from writes_full [OF assms(2) s] obtain k where k: "k < length cs" "length (written (store bs w)) + k \<le> writerSize w"
      "n (store bs w) = (Inl OutputBufferTooSmall, store (take k cs) (store bs w))" by (metis store_simps(2))
    with 2 writes_ok [OF assms(1) w] show ?thesis
      by (auto simp: try_then_def intro!: exI [of _ "length bs + k"])
  next
    case 3
    from writes_full [OF assms(1) w 3] obtain k where "k < length bs" "length (written w) + k \<le> writerSize w"
      "m w = (Inl OutputBufferTooSmall, store (take k bs) w)" .
    with 3 show ?thesis by (auto simp: try_then_def intro!: exI [of _ k])
  qed
qed

lemma writes_WriteU8 [simp]: "writes (WriteU8 b) [b]"
  by (auto simp: writes_def WriteU8_def writer_ok_def intro!: exI [of _ 0])

lemma writes_WriteBytes: "\<not> bad_view v \<Longrightarrow> writes (WriteBytes v) (view_bytes v)"
  using view_size_bytes [of v]
  by (auto simp: writes_def WriteBytes_def writer_ok_def intro!: exI [of _ 0])

text \<open>An operation that first tests for the room it needs behaves as the operation without the test.\<close>

lemma writes_guarded:
  assumes "writes m bs" "\<And>w. writer_ok w \<Longrightarrow> P w \<longleftrightarrow> writerSize w - length (written w) < length bs"
    and "\<And>w. writer_ok w \<Longrightarrow> n w = (if P w then (Inl OutputBufferTooSmall, w) else m w)"
  shows "writes n bs"
  using assms by (auto simp: writes_def writer_ok_def intro!: exI [of _ 0])

lemma writes_WriteU16 [simp]: "writes (WriteU16 v) (be16 v)"
proof (rule writes_guarded [where P = "\<lambda>w. writer_remaining w < 2"])
  show "writes (try_then (WriteU8 (ucast (drop_bit 8 v AND 0xff))) (\<lambda>_. WriteU8 (ucast (v AND 0xff)))) (be16 v)"
    using writes_then [OF writes_WriteU8 writes_WriteU8] by (simp add: be16_def)
qed (simp_all add: WriteU16_def)

lemma reads_ReadU32 [simp]: "reads ReadU32 (be32 v) v"
  by (simp add: reads_def ReadU32_at)

lemma writes_WriteU32 [simp]: "writes (WriteU32 v) (be32 v)"
proof (rule writes_guarded [where P = "\<lambda>w. writer_remaining w < 4"])
  show "writes (try_then (WriteU8 (ucast (drop_bit 24 v AND 0xff))) (\<lambda>_.
      try_then (WriteU8 (ucast (drop_bit 16 v AND 0xff))) (\<lambda>_.
      try_then (WriteU8 (ucast (drop_bit 8 v AND 0xff))) (\<lambda>_. WriteU8 (ucast (v AND 0xff)))))) (be32 v)"
    using writes_then [OF writes_WriteU8 writes_then [OF writes_WriteU8 writes_then [OF writes_WriteU8 writes_WriteU8]]]
    by (simp add: be32_def)
qed (simp_all add: WriteU32_def)

text \<open>What a reading may yield, from any position within the buffer.\<close>

definition yields :: "'a reading \<Rightarrow> ('a \<Rightarrow> bool) \<Rightarrow> bool" where
  "yields m P \<longleftrightarrow> (\<forall>r a r'. reader_ok r \<longrightarrow> m r = (Inr a, r') \<longrightarrow> P a)"

lemma yields_yield [simp]: "P a \<Longrightarrow> yields (yield a) P" "yields (refuse e) P" "yields m (\<lambda>_. True)"
  by (simp_all add: yields_def)

lemma yields_then:
  assumes "yields m P" "safe_read m" "\<And>a. P a \<Longrightarrow> yields (k a) Q"
  shows "yields (try_then m k) Q"
  unfolding yields_def
proof (intro allI impI)
  fix r a r'
  assume r: "reader_ok r" and t: "try_then m k r = (Inr a, r')"
  from t obtain b s where b: "m r = (Inr b, s)" "k b s = (Inr a, r')" by (rule try_then_InrE)
  with r assms(1,2) have "P b" "reader_ok s" by (auto simp: yields_def safe_read_def)
  with b assms(3) [of b] show "Q a" by (auto simp: yields_def)
qed

lemma yields_any: "safe_read m \<Longrightarrow> (\<And>a. yields (k a) Q) \<Longrightarrow> yields (try_then m k) Q"
  by (rule yields_then [of m "\<lambda>_. True"]) simp_all

lemma yields_if: "(b \<Longrightarrow> yields m P) \<Longrightarrow> (\<not> b \<Longrightarrow> yields n P) \<Longrightarrow> yields (if b then m else n) P"
  by simp

lemma yields_many: "yields m P \<Longrightarrow> safe_read m \<Longrightarrow> yields (read_many n m) (\<lambda>xs. length xs = n \<and> (\<forall>x \<in> set xs. P x))"
proof (induction n)
  case (Suc n)
  then show ?case
    unfolding read_many.simps by (intro yields_then [OF Suc.prems(1)] yields_then [OF Suc.IH]) simp_all
qed simp

lemma yields_ReadBytes: "yields (ReadBytes n) (\<lambda>bs. length bs = n)"
proof -
  have "length bs = n" if "reader_ok r" "ReadBytes n r = (Inr bs, r')" for r bs r'
    using that view_size_bytes [of "readerData r"]
    by (auto simp: ReadBytes_def reader_ok_def reader_remaining_def size_sub_le split: if_splits)
  then show ?thesis by (simp add: yields_def)
qed

text \<open>Sequencing by the byte at the front, for the tags and choices.\<close>

lemma reads_Cons: "reads (k b) cs a \<Longrightarrow> reads (try_then ReadU8 k) (b # cs) a"
  using reads_then [OF reads_ReadU8, of k b cs a] by simp

lemma reads_Nil: "a = b \<Longrightarrow> reads (yield a) [] b"
  by simp

lemma writes_Cons: "writes n cs \<Longrightarrow> writes (try_then (WriteU8 b) (\<lambda>_. n)) (b # cs)"
  using writes_then [OF writes_WriteU8, of n cs b] by simp

lemma writes_Cons_yield: "writes (try_then (WriteU8 b) yield) [b]"
  using writes_Cons [OF writes_yield] by simp

text \<open>
  The rules by which a codec over a structure is put together from the codecs of its fields,
  applied from the first byte to the last.
\<close>

named_theorems codec_reads and codec_writes and codec_yields and codec_safe and sequencing

lemma safe_read_case_prod: "(\<And>x y. safe_read (f x y)) \<Longrightarrow> safe_read (case p of (x, y) \<Rightarrow> f x y)"
  by (cases p) simp

lemma yields_case_prod: "(\<And>x y. p = (x, y) \<Longrightarrow> yields (f x y) P) \<Longrightarrow> yields (case p of (x, y) \<Rightarrow> f x y) P"
  by (cases p) simp

lemma try_then_yield [sequencing]: "try_then (yield a) k = k a"
  by (simp add: fun_eq_iff try_then_def)

lemma try_then_refuse [sequencing]: "try_then (refuse e) k = refuse e"
  by (simp add: fun_eq_iff try_then_def)

lemma try_then_assoc [sequencing]: "try_then (try_then m f) k = try_then m (\<lambda>a. try_then (f a) k)"
  by (auto simp: fun_eq_iff try_then_def split: prod.splits sum.splits)

lemma try_then_if [sequencing]: "try_then (if b then m else n) k = (if b then try_then m k else try_then n k)"
  by simp

lemma try_then_case_prod [sequencing]: "try_then (case p of (x, y) \<Rightarrow> g x y) k = (case p of (x, y) \<Rightarrow> try_then (g x y) k)"
  by (simp split: prod.splits)

lemmas [codec_reads] = reads_Cons reads_Nil
lemmas [codec_writes] = writes_Cons writes_Cons_yield writes_WriteU8 writes_yield
lemmas [codec_yields] = yields_if yields_case_prod yields_any [OF safe_ReadU8]
lemmas [codec_safe] = safe_read_then safe_read_if_const safe_read_case_prod safe_read_yield safe_read_many
  safe_ReadU8 safe_ReadU16 safe_ReadU32 safe_ReadBytes

locale wire_codec =
  fixes wf :: "'a \<Rightarrow> bool"
    and enc :: "'a \<Rightarrow> bytes"
    and rd :: "'a reading"
    and wr :: "'a \<Rightarrow> writing"
  assumes rd_reads: "wf a \<Longrightarrow> reads rd (enc a) a"
    and wr_writes: "wf a \<Longrightarrow> writes (wr a) (enc a)"
    and rd_safe: "safe_read rd"
    and rd_yields: "yields rd wf"
begin

text \<open>A buffer of enough bytes holds the encoding after the write, and reading it gives the value back.\<close>

lemma write_read:
  assumes "wf a" "length (enc a) \<le> n"
  shows "\<exists>w. wr a (ApduWriter_init False n) = (Inr (), w) \<and> written w = enc a
    \<and> rd (ApduReader_init (View (written w))) = (Inr a, reader_at (enc a) [])"
proof -
  have "wr a (ApduWriter_init False n) = (Inr (), store (enc a) (ApduWriter_init False n))"
    by (rule writes_fresh [OF wr_writes [OF assms(1)] assms(2)])
  moreover have "rd (ApduReader_init (View (enc a))) = (Inr a, reader_at (enc a) [])"
    using reads_at [OF rd_reads [OF assms(1)], of "[]" "[]"] by (simp add: ApduReader_init_at)
  ultimately show ?thesis by (simp add: ApduWriter_init_def)
qed

lemma write_full: "wf a \<Longrightarrow> n < length (enc a) \<Longrightarrow> fst (wr a (ApduWriter_init False n)) = Inl OutputBufferTooSmall"
  by (rule writes_fresh_full [OF wr_writes])

lemma list_reads: "\<forall>x \<in> set xs. wf x \<Longrightarrow> reads (read_many (length xs) rd) (concat (map enc xs)) xs"
proof (induction xs)
  case (Cons x xs)
  then have "reads (try_then (read_many (length xs) rd) (\<lambda>ys. yield (x # ys))) (concat (map enc xs)) (x # xs)"
    by (intro reads_then_yield) simp
  with Cons.prems rd_reads [of x] show ?case by (auto intro: reads_then)
qed simp

lemma list_writes: "\<forall>x \<in> set xs. wf x \<Longrightarrow> writes (write_all (map wr xs)) (concat (map enc xs))"
  by (induction xs) (auto intro: writes_then wr_writes)

text \<open>What is read can be written, and is read back the same.\<close>

lemma read_write:
  assumes "fst (rd (ApduReader_init v)) = Inr a"
  shows "wf a \<and> wr a (ApduWriter_init False (length (enc a))) = (Inr (), store (enc a) (ApduWriter_init False (length (enc a))))
    \<and> fst (rd (ApduReader_init (View (enc a)))) = Inr a"
proof -
  have "reader_ok (ApduReader_init v)" by (simp add: reader_ok_def ApduReader_init_def)
  with assms rd_yields have "wf a" unfolding yields_def by (metis prod.collapse)
  then show ?thesis
    using writes_fresh [OF wr_writes order_refl] reads_at [OF rd_reads, of a "[]" "[]"] by (simp add: ApduReader_init_at)
qed

text \<open>The rules for a field of the codec's type, followed by others or last.\<close>

lemma rd_then: "wf a \<Longrightarrow> reads (k a) cs b \<Longrightarrow> reads (try_then rd k) (enc a @ cs) b"
  by (rule reads_then [OF rd_reads])

lemma rd_last: "wf a \<Longrightarrow> reads (k a) [] b \<Longrightarrow> reads (try_then rd k) (enc a) b"
  using rd_then [of a k "[]" b] by simp

lemma rd_many: "length xs = n \<Longrightarrow> \<forall>x \<in> set xs. wf x \<Longrightarrow> reads (k xs) cs b
    \<Longrightarrow> reads (try_then (read_many n rd) k) (concat (map enc xs) @ cs) b"
  using reads_then [OF list_reads [of xs], of k cs b] by simp

lemma rd_many_last: "length xs = n \<Longrightarrow> \<forall>x \<in> set xs. wf x \<Longrightarrow> reads (k xs) [] b
    \<Longrightarrow> reads (try_then (read_many n rd) k) (concat (map enc xs)) b"
  using rd_many [of xs n k "[]" b] by simp

lemma wr_then: "wf a \<Longrightarrow> writes n cs \<Longrightarrow> writes (try_then (wr a) (\<lambda>_. n)) (enc a @ cs)"
  by (rule writes_then [OF wr_writes])

lemma wr_many: "\<forall>x \<in> set xs. wf x \<Longrightarrow> writes n cs
    \<Longrightarrow> writes (try_then (write_all (map wr xs)) (\<lambda>_. n)) (concat (map enc xs) @ cs)"
  by (rule writes_then [OF list_writes])

lemma yd_then: "(\<And>a. wf a \<Longrightarrow> yields (k a) Q) \<Longrightarrow> yields (try_then rd k) Q"
  by (rule yields_then [OF rd_yields rd_safe])

lemma yd_many: "(\<And>xs. length xs = n \<Longrightarrow> \<forall>x \<in> set xs. wf x \<Longrightarrow> yields (k xs) Q) \<Longrightarrow> yields (try_then (read_many n rd) k) Q"
  by (rule yields_then [OF yields_many [OF rd_yields rd_safe] safe_read_many [OF rd_safe]]) simp

lemmas rd_rules = rd_then rd_last rd_many rd_many_last rd_reads list_reads
lemmas wr_rules = wr_then wr_writes wr_many list_writes
lemmas yd_rules = yd_then yd_many

end

text \<open>Every such codec is a prefix codec: no encoding is a proper prefix of another one.\<close>

definition prefix_dec :: "'a reading \<Rightarrow> bytes \<Rightarrow> ApduStatus + 'a \<times> nat" where
  "prefix_dec m bs = (case m (ApduReader_init (View bs)) of
     (Inl e, r) \<Rightarrow> Inl e | (Inr a, r) \<Rightarrow> Inr (a, readerPosition r))"

sublocale wire_codec \<subseteq> pre: prefix_codec wf enc "prefix_dec rd"
  by unfold_locales (simp add: prefix_dec_def ApduReader_init_at reads_at [OF rd_reads])

interpretation u8c: wire_codec "\<lambda>_. True" "\<lambda>b. [b]" ReadU8 WriteU8
  by unfold_locales simp_all

interpretation u16c: wire_codec "\<lambda>_. True" be16 ReadU16 WriteU16
  by unfold_locales simp_all

interpretation u32c: wire_codec "\<lambda>_. True" be32 ReadU32 WriteU32
  by unfold_locales simp_all

text \<open>A fixed number of single bytes.\<close>

lemma reads_octets: "length bs = n \<Longrightarrow> reads (k bs) cs b \<Longrightarrow> reads (try_then (read_many n ReadU8) k) (bs @ cs) b"
  using u8c.rd_many [of bs n k cs b] by simp

lemma writes_octets: "writes n cs \<Longrightarrow> writes (try_then (write_all (map WriteU8 bs)) (\<lambda>_. n)) (bs @ cs)"
  using u8c.wr_many [of bs n cs] by simp

lemmas [codec_reads] = reads_octets u8c.rd_rules u16c.rd_rules u32c.rd_rules
lemmas [codec_writes] = writes_octets u8c.wr_rules u16c.wr_rules u32c.wr_rules
lemmas [codec_yields] = u8c.yd_rules u16c.yd_rules u32c.yd_rules

subsection \<open>Interface: a message that fills its buffer\<close>

text \<open>
  The decoders of whole APDUs test the pointer, start a reader on the buffer and end with the test
  that no byte is left.
\<close>

definition decode_with :: "'a reading \<Rightarrow> view \<Rightarrow> ApduStatus + 'a" where
  "decode_with body input = (if bad_view input then Inl InvalidArgument else fst (body (ApduReader_init input)))"

definition RequireNoTrailingBytes :: "unit reading" where
  "RequireNoTrailingBytes r = (if reader_empty r then (Inr (), r) else (Inl InvalidLength, r))"

definition whole :: "'a reading \<Rightarrow> 'a reading" where
  "whole m = try_then m (\<lambda>a. try_then RequireNoTrailingBytes (\<lambda>_. yield a))"

definition finishes :: "'a reading \<Rightarrow> bytes \<Rightarrow> 'a \<Rightarrow> bool" where
  "finishes m bs a \<longleftrightarrow> (\<forall>pre. fst (m (reader_at pre bs)) = Inr a)"

lemma finishes_Cons: "finishes (k b) cs a \<Longrightarrow> finishes (try_then ReadU8 k) (b # cs) a"
  by (simp add: finishes_def try_then_def ReadU8_at)

lemma finishes_reads: "reads m bs a \<Longrightarrow> finishes m bs a"
  unfolding finishes_def using reads_at [of m bs a _ "[]"] by simp

lemma finishes_then: "reads m bs a \<Longrightarrow> finishes (k a) cs b \<Longrightarrow> finishes (try_then m k) (bs @ cs) b"
  by (simp add: finishes_def reads_def try_then_def)

lemma finishes_last: "reads m bs a \<Longrightarrow> finishes (k a) [] b \<Longrightarrow> finishes (try_then m k) bs b"
  using finishes_then [of m bs a k "[]" b] by simp

lemma finishes_end: "finishes (try_then RequireNoTrailingBytes (\<lambda>_. yield a)) [] a"
  by (simp add: finishes_def RequireNoTrailingBytes_def try_then_def)

lemma safe_RequireNoTrailingBytes [simp]: "safe_read RequireNoTrailingBytes"
  by (simp add: safe_read_def RequireNoTrailingBytes_def)

text \<open>
  The round trip of a message: it is written, as exactly the bytes given, into every buffer that
  has room for them, a smaller buffer is reported, and decoding what was written gives it back.
\<close>

definition round_trips :: "bytes \<Rightarrow> writing \<Rightarrow> (view \<Rightarrow> ApduStatus + 'a) \<Rightarrow> 'a \<Rightarrow> bool" where
  "round_trips bs m decode a \<longleftrightarrow> (\<forall>n. if length bs \<le> n
     then \<exists>w. m (ApduWriter_init False n) = (Inr (), w) \<and> written w = bs \<and> decode (View (written w)) = Inr a
     else fst (m (ApduWriter_init False n)) = Inl OutputBufferTooSmall)"

locale message_codec =
  fixes wf :: "'a \<Rightarrow> bool"
    and enc :: "'a \<Rightarrow> bytes"
    and body :: "'a reading"
    and wr :: "'a \<Rightarrow> writing"
  assumes body_finishes: "wf a \<Longrightarrow> finishes body (enc a) a"
    and wr_writes: "wf a \<Longrightarrow> writes (wr a) (enc a)"
    and body_yields: "yields body wf"
begin

lemma decode_enc: "wf a \<Longrightarrow> decode_with body (View (enc a)) = Inr a"
  using body_finishes [of a] by (simp add: decode_with_def ApduReader_init_at finishes_def)

lemma write_decode: "wf a \<Longrightarrow> round_trips (enc a) (wr a) (decode_with body) a"
  using writes_fresh [OF wr_writes [of a]] writes_fresh_full [OF wr_writes [of a]] decode_enc [of a]
  by (auto simp: round_trips_def ApduWriter_init_def)

lemma decode_wf:
  assumes "decode_with body v = Inr a"
  shows "wf a"
proof -
  have "fst (body (ApduReader_init v)) = Inr a" using assms by (simp add: decode_with_def split: if_splits)
  moreover have "reader_ok (ApduReader_init v)" by (simp add: reader_ok_def ApduReader_init_def)
  ultimately show ?thesis using body_yields unfolding yields_def by (metis prod.collapse)
qed

lemma message_laws:
  "(wf a \<longrightarrow> round_trips (enc a) (wr a) (decode_with body) a) \<and> (decode_with body v = Inr a \<longrightarrow> wf a)"
  using write_decode decode_wf by blast

end

text \<open>A codec of fields gives a codec of messages that consist of these fields.\<close>

sublocale wire_codec \<subseteq> msg: message_codec wf enc "whole rd" wr
proof unfold_locales
  show "finishes (whole rd) (enc a) a" if "wf a" for a
    unfolding whole_def by (rule finishes_last [OF rd_reads [OF that] finishes_end])
  show "yields (whole rd) wf"
    unfolding whole_def by (rule yd_then) (simp add: yields_any)
qed (rule wr_writes)

subsection \<open>Big-endian numbers of any length\<close>

text \<open>Accumulating bytes into a 64-bit value, as several loops do, and its value when it does not wrap.\<close>

definition accumulate :: "u64 \<Rightarrow> bytes \<Rightarrow> u64" where
  "accumulate acc bs = foldl (\<lambda>r b. push_bit 8 r OR ucast b) acc bs"

definition be_value :: "bytes \<Rightarrow> nat" where
  "be_value bs = foldl (\<lambda>r b. r * 256 + unat b) 0 bs"

primrec ReadOctets_loop :: "nat \<Rightarrow> u64 \<Rightarrow> u64 reading" where
  "ReadOctets_loop 0 result = yield result"
| "ReadOctets_loop (Suc n) result = try_then ReadU8 (\<lambda>byte. ReadOctets_loop n (push_bit 8 result OR ucast byte))"

lemma reads_ReadOctets_loop: "length bs = n \<Longrightarrow> reads (ReadOctets_loop n acc) bs (accumulate acc bs)"
proof (induction n arbitrary: bs acc)
  case (Suc n)
  then obtain b cs where bs: "bs = b # cs" "length cs = n" by (cases bs) auto
  from Suc.IH [OF bs(2), of "push_bit 8 acc OR ucast b"]
    reads_then [OF reads_ReadU8, of "\<lambda>b. ReadOctets_loop n (push_bit 8 acc OR ucast b)" b cs]
  show ?case by (simp add: bs accumulate_def)
qed (simp add: accumulate_def)

lemma safe_ReadOctets_loop [simp]: "safe_read (ReadOctets_loop n acc)"
  by (induction n arbitrary: acc) (simp_all add: safe_read_then)

lemma be_value_snoc: "be_value (bs @ [b]) = be_value bs * 256 + unat b"
  by (simp add: be_value_def)

lemma unat_u8_less: "unat (b :: u8) < 256"
  using unsigned_less [of b] by simp

lemma be_value_less: "be_value bs < 256 ^ length bs"
proof (induction bs rule: rev_induct)
  case (snoc b bs)
  then have "be_value bs * 256 + 256 \<le> 256 ^ length bs * 256" by linarith
  with unat_u8_less [of b] show ?case by (simp add: be_value_snoc)
qed (simp add: be_value_def)

lemma unat_accumulate:
  assumes "length bs \<le> 8"
  shows "unat (accumulate 0 bs) = be_value bs"
  using assms
proof (induction bs rule: rev_induct)
  case (snoc b bs)
  have "be_value (bs @ [b]) < 2 ^ 64"
    using be_value_less [of "bs @ [b]"] power_increasing [of "length (bs @ [b])" 8 "256 :: nat"] snoc.prems by simp
  moreover have "accumulate 0 (bs @ [b]) = push_bit 8 (accumulate 0 bs) + ucast b"
    by (simp add: accumulate_def push_or_add)
  moreover have "unat (ucast b :: u64) = unat b" by (simp add: unsigned_ucast_eq take_bit_nat_eq_self order_less_le_trans [OF unat_u8_less])
  ultimately show ?case
    using snoc by (simp add: be_value_snoc push_bit_eq_mult unat_word_ariths)
qed (simp add: accumulate_def be_value_def)

lemma yields_ReadOctets_loop: "yields (ReadOctets_loop n acc) (\<lambda>u. \<exists>bs. length bs = n \<and> u = accumulate acc bs)"
proof (induction n arbitrary: acc)
  case (Suc n)
  have "yields (ReadOctets_loop n (push_bit 8 acc OR ucast b)) (\<lambda>u. \<exists>bs. length bs = Suc n \<and> u = accumulate acc bs)" for b :: u8
    using Suc [of "push_bit 8 acc OR ucast b"] unfolding yields_def accumulate_def
    by (metis (no_types, lifting) foldl_Cons length_Cons)
  then show ?case unfolding ReadOctets_loop.simps by (intro yields_any) simp_all
qed (simp add: accumulate_def)

end
