(* ===== verification/Security_Types.thy ===== *)
theory Security_Types
  imports Apdu_IO
begin

text \<open>
  The data of the security layer and its two stores: \<open>security_types.cpp\<close> (keys, contexts and
  their validation), \<open>in_memory_invocation_counter_store.cpp\<close> and \<open>in_memory_key_store.cpp\<close>.
  The interfaces \<open>IInvocationCounterStore\<close> and \<open>IKeyStore\<close>, which the ciphering and the
  authentication call, are the locales \<open>invocation_counters\<close> and \<open>key_store\<close>; the stores in memory
  interpret them.
\<close>

subsection \<open>Types and validation\<close>

datatype SecurityStatus = Ok | InvalidArgument | InvalidContext | UnsupportedFeature | MissingKey
  | InvalidKeyLength | InvalidSystemTitle | InvalidInvocationCounter | InvocationCounterExhausted
  | ReplayDetected | AuthenticationFailed | CipherFailed | DecipherFailed | OutputBufferTooSmall | InternalError

datatype SecuritySuite = Suite0 | Suite1 | Suite2

datatype SecurityRole = Client | Server

datatype SecurityKeyRole = GlobalUnicastEncryption | GlobalBroadcastEncryption | Authentication
  | KeyEncryption | Dedicated

datatype SecurityPolicy = PolicyNone | Authenticated | Encrypted | AuthenticatedAndEncrypted

text \<open>The array \<open>bytes\<close> of a key has 32 elements, of which the first \<open>size\<close> are the key.\<close>

record SecurityKey =
  keyRole :: SecurityKeyRole
  keyBytes :: bytes
  keySize :: nat

record SecurityContext =
  suite :: SecuritySuite
  policy :: SecurityPolicy
  contextRole :: SecurityRole
  clientSap :: u16
  serverSap :: u16
  localSystemTitle :: bytes
  remoteSystemTitle :: bytes

definition EmptySecurityKey :: "SecurityKeyRole \<Rightarrow> SecurityKey" where
  "EmptySecurityKey role = \<lparr>keyRole = role, keyBytes = replicate 32 0, keySize = 0\<rparr>"

definition EmptySecurityContext :: SecurityContext where
  "EmptySecurityContext = \<lparr>suite = Suite0, policy = PolicyNone, contextRole = Client, clientSap = 0, serverSap = 0,
     localSystemTitle = replicate 8 0, remoteSystemTitle = replicate 8 0\<rparr>"

definition IsValidSecurityByteView :: "view \<Rightarrow> bool" where
  "IsValidSecurityByteView v \<longleftrightarrow> view_size v = 0 \<or> \<not> view_null v"

text \<open>A system title is an array of eight bytes, of which one has to be different from zero.\<close>

definition IsValidSystemTitle :: "bytes \<Rightarrow> bool" where
  "IsValidSystemTitle systemTitle \<longleftrightarrow> (\<exists>b \<in> set (take 8 systemTitle). b \<noteq> 0)"

fun RequiredKeySize :: "SecuritySuite \<Rightarrow> nat" where
  "RequiredKeySize Suite0 = 16"
| "RequiredKeySize Suite1 = 16"
| "RequiredKeySize Suite2 = 32"

definition ValidateSecurityKey :: "SecuritySuite \<Rightarrow> SecurityKey \<Rightarrow> SecurityStatus" where
  "ValidateSecurityKey s key =
     (let requiredSize = RequiredKeySize s in
      if requiredSize = 0 then UnsupportedFeature
      else if keySize key = 0 then MissingKey
      else if keySize key \<noteq> requiredSize then InvalidKeyLength
      else Ok)"

definition ValidateSecurityContext :: "SecurityContext \<Rightarrow> SecurityStatus" where
  "ValidateSecurityContext context =
     (if suite context \<noteq> Suite0 then UnsupportedFeature
      else if clientSap context = 0 \<or> serverSap context = 0 then InvalidContext
      else if policy context = PolicyNone then Ok
      else if \<not> IsValidSystemTitle (localSystemTitle context) \<or> \<not> IsValidSystemTitle (remoteSystemTitle context)
        then InvalidSystemTitle
      else Ok)"

subsection \<open>Invocation counters\<close>

record InMemoryInvocationCounterStore =
  nextLocal :: u32
  highestRemote :: u32
  highestRemoteBySystemTitle :: "bytes \<rightharpoonup> u32"

definition InMemoryInvocationCounterStore_init :: InMemoryInvocationCounterStore where
  "InMemoryInvocationCounterStore_init =
     \<lparr>nextLocal = 1, highestRemote = 0, highestRemoteBySystemTitle = Map.empty\<rparr>"

definition SetLocalCounter :: "u32 \<Rightarrow> InMemoryInvocationCounterStore \<Rightarrow> InMemoryInvocationCounterStore" where
  "SetLocalCounter c s = s\<lparr>nextLocal := c\<rparr>"

definition SetHighestRemoteCounter :: "u32 \<Rightarrow> InMemoryInvocationCounterStore \<Rightarrow> InMemoryInvocationCounterStore" where
  "SetHighestRemoteCounter c s = s\<lparr>highestRemote := c\<rparr>"

definition NextLocal ::
    "InMemoryInvocationCounterStore \<Rightarrow> (SecurityStatus + u32) \<times> InMemoryInvocationCounterStore" where
  "NextLocal s =
     (if nextLocal s = - 1 then (Inl InvocationCounterExhausted, s)
      else (Inr (nextLocal s), s\<lparr>nextLocal := nextLocal s + 1\<rparr>))"

definition ValidateRemote ::
    "u32 \<Rightarrow> InMemoryInvocationCounterStore \<Rightarrow> SecurityStatus \<times> InMemoryInvocationCounterStore" where
  "ValidateRemote c s =
     (if c = 0 then (InvalidInvocationCounter, s)
      else if c \<le> highestRemote s then (ReplayDetected, s)
      else (Ok, s\<lparr>highestRemote := c\<rparr>))"

definition ValidateRemoteForSystemTitle ::
    "view \<Rightarrow> u32 \<Rightarrow> InMemoryInvocationCounterStore \<Rightarrow> SecurityStatus \<times> InMemoryInvocationCounterStore" where
  "ValidateRemoteForSystemTitle systemTitle c s =
     (if view_null systemTitle \<or> view_size systemTitle \<noteq> 8 then (InvalidSystemTitle, s)
      else if c = 0 then (InvalidInvocationCounter, s)
      else let key = view_bytes systemTitle in
        case highestRemoteBySystemTitle s key of
          Some highest \<Rightarrow>
            if c \<le> highest then (ReplayDetected, s)
            else (Ok, s\<lparr>highestRemoteBySystemTitle := (highestRemoteBySystemTitle s)(key \<mapsto> c)\<rparr>)
        | None \<Rightarrow> (Ok, s\<lparr>highestRemoteBySystemTitle := (highestRemoteBySystemTitle s)(key \<mapsto> c)\<rparr>))"

definition ResetAfterKeyRotation ::
    "SecurityKeyRole \<Rightarrow> InMemoryInvocationCounterStore \<Rightarrow> SecurityStatus \<times> InMemoryInvocationCounterStore" where
  "ResetAfterKeyRotation role s = (Ok, s\<lparr>nextLocal := 1, highestRemote := 0, highestRemoteBySystemTitle := Map.empty\<rparr>)"

subsection \<open>Keys\<close>

type_synonym InMemoryKeyStore = "SecurityKeyRole \<rightharpoonup> SecurityKey"

definition SetKey :: "SecurityKey \<Rightarrow> InMemoryKeyStore \<Rightarrow> SecurityStatus \<times> InMemoryKeyStore" where
  "SetKey key keys =
     (if keySize key = 0 \<or> keySize key > 32 then (InvalidKeyLength, keys)
      else (Ok, keys(keyRole key \<mapsto> key)))"

definition Clear :: "InMemoryKeyStore \<Rightarrow> InMemoryKeyStore" where
  "Clear keys = Map.empty"

definition GetKey :: "InMemoryKeyStore \<Rightarrow> SecurityKeyRole \<Rightarrow> SecurityStatus + SecurityKey" where
  "GetKey keys role = (case keys role of None \<Rightarrow> Inl MissingKey | Some key \<Rightarrow> Inr key)"

subsection \<open>The interfaces of the stores\<close>

text \<open>
  What the ciphering relies on: local counters are handed out in increasing order, a remote counter
  is accepted only above all those accepted before from the same system title, and a refusal
  changes nothing.
\<close>

locale invocation_counters =
  fixes next_local :: "'s \<Rightarrow> (SecurityStatus + u32) \<times> 's"
    and validate :: "view \<Rightarrow> u32 \<Rightarrow> 's \<Rightarrow> SecurityStatus \<times> 's"
    and floor :: "'s \<Rightarrow> nat"
    and highest :: "'s \<Rightarrow> bytes \<Rightarrow> nat"
  assumes next_Inr: "next_local s = (Inr c, s') \<Longrightarrow> floor s \<le> unat c \<and> floor s' = Suc (unat c) \<and> highest s' = highest s"
    and next_Inl: "next_local s = (Inl e, s') \<Longrightarrow> s' = s"
    and validate_Ok: "validate (View t) c s = (Ok, s') \<Longrightarrow> highest s t < unat c \<and> floor s' = floor s \<and> highest s' = (highest s)(t := unat c)"
    and validate_fresh: "length t = 8 \<Longrightarrow> highest s t < unat c \<Longrightarrow> \<exists>s'. validate (View t) c s = (Ok, s')"
    and validate_refused: "validate v c s = (e, s') \<Longrightarrow> e \<noteq> Ok \<Longrightarrow> s' = s"
    and validate_replay: "length t = 8 \<Longrightarrow> 0 < unat c \<Longrightarrow> unat c \<le> highest s t \<Longrightarrow> validate (View t) c s = (ReplayDetected, s)"
begin

lemma next_less: "next_local s = (Inr c, s') \<Longrightarrow> next_local s' = (Inr c', s'') \<Longrightarrow> c < c'"
  by (auto dest!: next_Inr simp: word_less_nat_alt)

lemma validate_again:
  assumes "validate (View t) c s = (Ok, s')" "length t = 8"
  shows "validate (View t) c s' = (ReplayDetected, s')"
  using validate_Ok [OF assms(1)] by (intro validate_replay) (simp_all add: assms(2))

end

definition highest_remote :: "InMemoryInvocationCounterStore \<Rightarrow> bytes \<Rightarrow> nat" where
  "highest_remote s t = (case highestRemoteBySystemTitle s t of None \<Rightarrow> 0 | Some c \<Rightarrow> unat c)"

lemma unat_Suc_not_max: "(c :: u32) \<noteq> - 1 \<Longrightarrow> unat (c + 1) = Suc (unat c)"
  by (metis unatSuc add.commute add_eq_0_iff)

interpretation counters: invocation_counters NextLocal ValidateRemoteForSystemTitle "\<lambda>s. unat (nextLocal s)" highest_remote
proof
  fix s c s' assume "NextLocal s = (Inr c, s')"
  then show "unat (nextLocal s) \<le> unat c \<and> unat (nextLocal s') = Suc (unat c) \<and> highest_remote s' = highest_remote s"
    by (auto simp: NextLocal_def highest_remote_def fun_eq_iff unat_Suc_not_max split: if_splits)
qed (auto simp: NextLocal_def ValidateRemoteForSystemTitle_def highest_remote_def Let_def fun_eq_iff word_le_nat_alt
    unat_gt_0 unat_eq_zero split: if_splits option.splits)

text \<open>
  A key store returns the key last set for a role, and setting a key for one role leaves the others.
\<close>

locale key_store =
  fixes get_key :: "'k \<Rightarrow> SecurityKeyRole \<Rightarrow> SecurityStatus + SecurityKey"
    and set_key :: "SecurityKey \<Rightarrow> 'k \<Rightarrow> SecurityStatus \<times> 'k"
  assumes set_get: "set_key key k = (Ok, k') \<Longrightarrow> get_key k' role = (if role = keyRole key then Inr key else get_key k role)"
    and set_refused: "set_key key k = (e, k') \<Longrightarrow> e \<noteq> Ok \<Longrightarrow> k' = k"
begin

lemma set_two:
  assumes "set_key a k = (Ok, k1)" "set_key b k1 = (Ok, k2)" "keyRole a \<noteq> keyRole b"
  shows "get_key k2 (keyRole a) = Inr a" "get_key k2 (keyRole b) = Inr b"
  using set_get [OF assms(1)] set_get [OF assms(2)] assms(3) by simp_all

lemma keep_other: "set_key key k = (e, k') \<Longrightarrow> role \<noteq> keyRole key \<Longrightarrow> get_key k' role = get_key k role"
  using set_get [of key k k' role] set_refused [of key k e k'] by (cases "e = Ok") auto

end

interpretation keys: key_store GetKey SetKey
  by unfold_locales (auto simp: GetKey_def SetKey_def split: if_splits)

text \<open>A key that the suite 0 operations accept.\<close>

definition suite0_key :: "SecurityKey \<Rightarrow> bool" where
  "suite0_key key \<longleftrightarrow> keySize key = 16 \<and> length (keyBytes key) = 32"

lemma suite0_key_valid: "suite0_key key \<Longrightarrow> ValidateSecurityKey Suite0 key = Ok"
  by (simp add: suite0_key_def ValidateSecurityKey_def)

lemma ValidateSecurityKey_Suite0: "ValidateSecurityKey Suite0 key = Ok \<longleftrightarrow> keySize key = 16"
  by (simp add: ValidateSecurityKey_def)

end
