(* ===== verification/Security_Gcm.thy ===== *)
theory Security_Gcm
  imports Security_Types
begin

text \<open>
  AES-GCM of suite 0 as \<open>suite0_aes_gcm.cpp\<close> drives it. The calls into OpenSSL are a parameter: a
  record with one function for each group of calls, given the key, the nonce and the data that
  the context has absorbed so far. What OpenSSL documents for AES-128-GCM is the predicate
  \<open>documented_gcm\<close>, a hypothesis of the theorems that need it.
\<close>

text \<open>
  \<open>evpNew\<close> says whether a context can be allocated; \<open>evpInit\<close> stands for the three initialising calls;
  \<open>evpAad\<close> is the update without output buffer and gives the length it reports; \<open>evpUpdate\<close> gives the
  bytes it stores, whose number it reports; the final calls give the length they report (in
  this stream mode they store nothing). The flag is true for encryption.
\<close>

record OpenSslGcm =
  evpNew :: bool
  evpInit :: "bool \<Rightarrow> bytes \<Rightarrow> bytes \<Rightarrow> bool"
  evpAad :: "bool \<Rightarrow> bytes \<Rightarrow> bytes \<Rightarrow> bytes \<Rightarrow> nat option"
  evpUpdate :: "bool \<Rightarrow> bytes \<Rightarrow> bytes \<Rightarrow> bytes \<Rightarrow> bytes \<Rightarrow> bytes option"
  evpEncryptFinal :: "bytes \<Rightarrow> bytes \<Rightarrow> bytes \<Rightarrow> bytes \<Rightarrow> nat option"
  evpGetTag :: "bytes \<Rightarrow> bytes \<Rightarrow> bytes \<Rightarrow> bytes \<Rightarrow> bytes option"
  evpSetTag :: "bytes \<Rightarrow> bool"
  evpDecryptFinal :: "bytes \<Rightarrow> bytes \<Rightarrow> bytes \<Rightarrow> bytes \<Rightarrow> bytes \<Rightarrow> nat option"

record AesGcmParameters =
  nonce :: view
  additionalAuthenticatedData :: view
  input :: view

definition kNonceSize :: nat where "kNonceSize = 12"
definition kTagSize :: nat where "kTagSize = 16"

definition ValidateAesGcmInput :: "SecurityKey \<Rightarrow> AesGcmParameters \<Rightarrow> bool \<Rightarrow> SecurityStatus" where
  "ValidateAesGcmInput key parameters tagNull =
     (let keyStatus = ValidateSecurityKey Suite0 key in
      if keyStatus \<noteq> Ok then keyStatus
      else if \<not> IsValidSecurityByteView (nonce parameters) \<or> view_size (nonce parameters) \<noteq> kNonceSize
        then InvalidArgument
      else if \<not> IsValidSecurityByteView (additionalAuthenticatedData parameters)
          \<or> \<not> IsValidSecurityByteView (input parameters) \<or> tagNull
        then InvalidArgument
      else Ok)"

definition SizeFitsInt :: "nat \<Rightarrow> bool" where
  "SizeFitsInt n \<longleftrightarrow> n \<le> 2 ^ 31 - 1"

text \<open>\<open>std::vector::resize\<close> fills up with zeros; an update overwrites the front of the vector.\<close>

definition resize :: "nat \<Rightarrow> bytes \<Rightarrow> bytes" where
  "resize n xs = take n xs @ replicate (n - length xs) 0"

definition overwrite :: "bytes \<Rightarrow> bytes \<Rightarrow> bytes" where
  "overwrite ws xs = ws @ drop (length ws) xs"

text \<open>
  The variable \<open>outputSize\<close> is shared by both updates: without data it keeps the value that the
  update for the additional data stored.
\<close>

definition gcm_updates ::
    "OpenSslGcm \<Rightarrow> bool \<Rightarrow> bytes \<Rightarrow> bytes \<Rightarrow> bytes \<Rightarrow> bytes \<Rightarrow> (bytes \<times> nat) option" where
  "gcm_updates ssl encrypt key iv aad data =
     (if \<not> evpNew ssl \<or> \<not> evpInit ssl encrypt key iv then None
      else case (if aad = [] then Some 0 else evpAad ssl encrypt key iv aad) of
        None \<Rightarrow> None
      | Some outputSize \<Rightarrow>
          let zeros = replicate (length data) 0 in
          if data = [] then Some (zeros, outputSize)
          else case evpUpdate ssl encrypt key iv aad data of
            None \<Rightarrow> None
          | Some stored \<Rightarrow> Some (overwrite stored zeros, length stored))"

definition OpenSslSeal :: "OpenSslGcm \<Rightarrow> SecurityKey \<Rightarrow> AesGcmParameters \<Rightarrow> SecurityStatus + bytes \<times> bytes" where
  "OpenSslSeal ssl key parameters =
     (let k = take 16 (keyBytes key); iv = view_bytes (nonce parameters);
          aad = view_bytes (additionalAuthenticatedData parameters); data = view_bytes (input parameters)
      in
      if \<not> SizeFitsInt (view_size (input parameters))
          \<or> \<not> SizeFitsInt (view_size (additionalAuthenticatedData parameters)) then Inl InvalidArgument
      else case gcm_updates ssl True k iv aad data of
        None \<Rightarrow> Inl CipherFailed
      | Some (cipherText, outputSize) \<Rightarrow>
          (case evpEncryptFinal ssl k iv aad data of
            None \<Rightarrow> Inl CipherFailed
          | Some finalSize \<Rightarrow>
              (case evpGetTag ssl k iv aad data of
                None \<Rightarrow> Inl CipherFailed
              | Some tag \<Rightarrow> Inr (resize (outputSize + finalSize) cipherText, tag))))"

definition OpenSslOpen :: "OpenSslGcm \<Rightarrow> SecurityKey \<Rightarrow> AesGcmParameters \<Rightarrow> bytes \<Rightarrow> SecurityStatus + bytes" where
  "OpenSslOpen ssl key parameters tag =
     (let k = take 16 (keyBytes key); iv = view_bytes (nonce parameters);
          aad = view_bytes (additionalAuthenticatedData parameters); data = view_bytes (input parameters)
      in
      if \<not> SizeFitsInt (view_size (input parameters))
          \<or> \<not> SizeFitsInt (view_size (additionalAuthenticatedData parameters)) then Inl InvalidArgument
      else case gcm_updates ssl False k iv aad data of
        None \<Rightarrow> Inl DecipherFailed
      | Some (plainText, outputSize) \<Rightarrow>
          if \<not> evpSetTag ssl tag then Inl DecipherFailed
          else (case evpDecryptFinal ssl k iv aad data tag of
            None \<Rightarrow> Inl DecipherFailed
          | Some finalSize \<Rightarrow> Inr (resize (outputSize + finalSize) plainText)))"

text \<open>Callers pass a tag array, so the test for its pointer never fails.\<close>

definition Seal :: "OpenSslGcm \<Rightarrow> SecurityKey \<Rightarrow> AesGcmParameters \<Rightarrow> SecurityStatus + bytes \<times> bytes" where
  "Seal ssl key parameters =
     (let validation = ValidateAesGcmInput key parameters False in
      if validation \<noteq> Ok then Inl validation else OpenSslSeal ssl key parameters)"

definition Open :: "OpenSslGcm \<Rightarrow> SecurityKey \<Rightarrow> AesGcmParameters \<Rightarrow> bytes \<Rightarrow> SecurityStatus + bytes" where
  "Open ssl key parameters tag =
     (let validation = ValidateAesGcmInput key parameters False in
      if validation \<noteq> Ok then Inl validation else OpenSslOpen ssl key parameters tag)"

subsection \<open>The documented behaviour of OpenSSL\<close>

text \<open>
  For keys of 16 and nonces of 12 bytes, no call fails but the final call of a decryption with a
  wrong tag; the ciphertext has the length of the plaintext, decryption inverts encryption, and
  the tag has 16 bytes. The length reported for the additional data is left open.
\<close>

definition documented_gcm :: "OpenSslGcm \<Rightarrow> bool" where
  "documented_gcm ssl \<longleftrightarrow> evpNew ssl \<and> (\<forall>tag. length tag = 16 \<longrightarrow> evpSetTag ssl tag)
     \<and> (\<forall>k iv aad data. length k = 16 \<and> length iv = 12 \<longrightarrow>
          evpInit ssl True k iv \<and> evpInit ssl False k iv
        \<and> evpAad ssl True k iv aad \<noteq> None \<and> evpAad ssl False k iv aad \<noteq> None
        \<and> evpEncryptFinal ssl k iv aad data = Some 0
        \<and> (\<exists>cipher tag. evpUpdate ssl True k iv aad data = Some cipher \<and> length cipher = length data
             \<and> evpUpdate ssl False k iv aad cipher = Some data
             \<and> evpGetTag ssl k iv aad data = Some tag \<and> length tag = 16
             \<and> (\<forall>tag'. evpDecryptFinal ssl k iv aad cipher tag' = (if tag' = tag then Some 0 else None))))"

text \<open>The parameters of the calls in this library: all pointers valid, sizes within \<open>int\<close>.\<close>

definition gcm_args :: "SecurityKey \<Rightarrow> bytes \<Rightarrow> bytes \<Rightarrow> bytes \<Rightarrow> bool" where
  "gcm_args key iv aad data \<longleftrightarrow> suite0_key key \<and> length iv = 12 \<and> length aad \<le> 2 ^ 31 - 1 \<and> length data \<le> 2 ^ 31 - 1"

definition gcm_parameters :: "bytes \<Rightarrow> bytes \<Rightarrow> view \<Rightarrow> AesGcmParameters" where
  "gcm_parameters iv aad data = \<lparr>nonce = View iv, additionalAuthenticatedData = view_of aad, input = data\<rparr>"

lemma gcm_valid:
  assumes "gcm_args key iv aad (view_bytes v)" "\<not> bad_view v"
  shows "ValidateAesGcmInput key (gcm_parameters iv aad v) False = Ok"
    "SizeFitsInt (view_size v)" "SizeFitsInt (length aad)"
  using assms by (cases v; auto simp: ValidateAesGcmInput_def gcm_args_def gcm_parameters_def suite0_key_valid
      kNonceSize_def IsValidSecurityByteView_def SizeFitsInt_def bad_view_def Let_def view_of_def)+

lemma overwrite_all [simp]: "length ws = length zs \<Longrightarrow> overwrite ws zs = ws"
  by (simp add: overwrite_def)

lemma resize_self [simp]: "length xs = n \<Longrightarrow> resize n xs = xs"
  by (auto simp: resize_def)

lemma bytes_of_view_of [simp]: "view_bytes (view_of bs) = bs"
  by (simp add: view_of_def)

lemma documented_gcmE:
  assumes "documented_gcm ssl" "length k = 16" "length iv = 12"
  obtains cipher tag a b where "evpNew ssl" "\<forall>tag. length tag = 16 \<longrightarrow> evpSetTag ssl tag"
    "evpInit ssl True k iv" "evpInit ssl False k iv" "evpAad ssl True k iv aad = Some a"
    "evpAad ssl False k iv aad = Some b" "evpEncryptFinal ssl k iv aad data = Some 0"
    "evpUpdate ssl True k iv aad data = Some cipher" "length cipher = length data"
    "evpUpdate ssl False k iv aad cipher = Some data" "evpGetTag ssl k iv aad data = Some tag" "length tag = 16"
    "\<forall>tag'. evpDecryptFinal ssl k iv aad cipher tag' = (if tag' = tag then Some 0 else None)"
proof -
  note laws = assms(1) [unfolded documented_gcm_def]
  from laws [THEN conjunct2, THEN conjunct2, rule_format, of k iv aad data] assms(2,3) obtain cipher tag where
    "evpUpdate ssl True k iv aad data = Some cipher" "length cipher = length data"
    "evpUpdate ssl False k iv aad cipher = Some data" "evpGetTag ssl k iv aad data = Some tag" "length tag = 16"
    "\<forall>tag'. evpDecryptFinal ssl k iv aad cipher tag' = (if tag' = tag then Some 0 else None)"
    and rest: "evpInit ssl True k iv" "evpInit ssl False k iv" "evpEncryptFinal ssl k iv aad data = Some 0"
      "evpAad ssl True k iv aad \<noteq> None" "evpAad ssl False k iv aad \<noteq> None"
    by blast
  moreover from rest obtain a b where "evpAad ssl True k iv aad = Some a" "evpAad ssl False k iv aad = Some b" by blast
  ultimately show thesis using that laws by blast
qed

lemma gcm_updates_data:
  assumes "evpNew ssl" "evpInit ssl e k iv" "evpAad ssl e k iv aad = Some a" "data \<noteq> []"
    "evpUpdate ssl e k iv aad data = Some stored" "length stored = length data"
  shows "gcm_updates ssl e k iv aad data = Some (stored, length data)"
  using assms by (cases "aad = []") (auto simp: gcm_updates_def Let_def)

text \<open>Sealing data that is not empty, and opening it with the same and with another tag.\<close>

lemma Seal_Open:
  assumes "documented_gcm ssl" "gcm_args key iv aad data" "data \<noteq> []"
  obtains cipher tag where
    "Seal ssl key (gcm_parameters iv aad (View data)) = Inr (cipher, tag)"
    "length cipher = length data" "length tag = 16"
    "\<forall>tag'. length tag' = 16 \<longrightarrow> Open ssl key (gcm_parameters iv aad (View cipher)) tag' = (if tag' = tag then Inr data else Inl DecipherFailed)"
proof -
  let ?k = "take 16 (keyBytes key)"
  have len: "length ?k = 16" "length iv = 12" using assms(2) by (simp_all add: gcm_args_def suite0_key_def)
  obtain cipher tag a b where facts: "evpNew ssl" "\<forall>tag. length tag = 16 \<longrightarrow> evpSetTag ssl tag"
    "evpInit ssl True ?k iv" "evpInit ssl False ?k iv" "evpAad ssl True ?k iv aad = Some a"
    "evpAad ssl False ?k iv aad = Some b" "evpEncryptFinal ssl ?k iv aad data = Some 0"
    "evpUpdate ssl True ?k iv aad data = Some cipher" "length cipher = length data"
    "evpUpdate ssl False ?k iv aad cipher = Some data" "evpGetTag ssl ?k iv aad data = Some tag" "length tag = 16"
    "\<forall>tag'. evpDecryptFinal ssl ?k iv aad cipher tag' = (if tag' = tag then Some 0 else None)"
    by (rule documented_gcmE [OF assms(1) len, of aad data])
  have bad: "\<not> bad_view (View xs)" for xs by (simp add: bad_view_def)
  have args: "gcm_args key iv aad cipher" using assms(2) facts(9) by (simp add: gcm_args_def)
  have "Seal ssl key (gcm_parameters iv aad (View data)) = Inr (cipher, tag)"
    using gcm_valid [OF _ bad, of key iv aad data] assms(2) facts(7,9,11) gcm_updates_data [OF facts(1,3,5) assms(3) facts(8,9)]
    by (simp add: Seal_def OpenSslSeal_def gcm_parameters_def Let_def)
  moreover have "Open ssl key (gcm_parameters iv aad (View cipher)) tag' = (if tag' = tag then Inr data else Inl DecipherFailed)"
    if "length tag' = 16" for tag'
    using gcm_valid [OF _ bad, of key iv aad cipher] args facts(2,9,13) that
      gcm_updates_data [OF facts(1,4,6) _ facts(10)] assms(3)
    by (force simp: Open_def OpenSslOpen_def gcm_parameters_def Let_def)
  ultimately show thesis using that facts(9,12) by blast
qed

text \<open>Without data the vector is resized to the length that was reported for the additional data.\<close>

lemma Seal_empty:
  assumes "documented_gcm ssl" "gcm_args key iv aad []" "view_bytes v = []" "\<not> bad_view v" "aad \<noteq> []"
  obtains tag a where "evpAad ssl True (take 16 (keyBytes key)) iv aad = Some a"
    "evpGetTag ssl (take 16 (keyBytes key)) iv aad [] = Some tag" "length tag = 16"
    "Seal ssl key (gcm_parameters iv aad v) = Inr (replicate a 0, tag)"
proof -
  let ?k = "take 16 (keyBytes key)"
  have len: "length ?k = 16" "length iv = 12" using assms(2) by (simp_all add: gcm_args_def suite0_key_def)
  obtain cipher tag a b where facts: "evpNew ssl" "\<forall>tag. length tag = 16 \<longrightarrow> evpSetTag ssl tag"
    "evpInit ssl True ?k iv" "evpInit ssl False ?k iv" "evpAad ssl True ?k iv aad = Some a"
    "evpAad ssl False ?k iv aad = Some b" "evpEncryptFinal ssl ?k iv aad [] = Some 0"
    "evpUpdate ssl True ?k iv aad [] = Some cipher" "length cipher = length ([] :: bytes)"
    "evpUpdate ssl False ?k iv aad cipher = Some []" "evpGetTag ssl ?k iv aad [] = Some tag" "length tag = 16"
    "\<forall>tag'. evpDecryptFinal ssl ?k iv aad cipher tag' = (if tag' = tag then Some 0 else None)"
    by (rule documented_gcmE [OF assms(1) len, of aad "[]"])
  have "Seal ssl key (gcm_parameters iv aad v) = Inr (replicate a 0, tag)"
    using gcm_valid [of key iv aad v] assms(2-5) facts(1,3,5,7,11)
    by (simp add: Seal_def OpenSslSeal_def gcm_updates_def gcm_parameters_def Let_def resize_def)
  with that facts(5,11,12) show thesis by blast
qed

text \<open>A cipher with the documented behaviour, for concrete runs: it masks the data with a key byte.\<close>

definition sample_ssl :: OpenSslGcm where
  "sample_ssl = \<lparr>evpNew = True, evpInit = (\<lambda>e k iv. True), evpAad = (\<lambda>e k iv aad. Some (length aad)),
     evpUpdate = (\<lambda>e k iv aad data. Some (map (\<lambda>b. b XOR hd k) data)), evpEncryptFinal = (\<lambda>k iv aad data. Some 0),
     evpGetTag = (\<lambda>k iv aad data. Some k), evpSetTag = (\<lambda>tag. True),
     evpDecryptFinal = (\<lambda>k iv aad data tag. if tag = k then Some 0 else None)\<rparr>"

lemma sample_ssl_documented: "documented_gcm sample_ssl"
  by (simp add: documented_gcm_def sample_ssl_def comp_def xor.assoc)

end
