(* ===== verification/Security_Processor.thy ===== *)
theory Security_Processor
  imports Security_Gcm
begin

text \<open>
  Ciphering of APDUs: \<open>ciphered_apdu_processor.cpp\<close>. A protected APDU is the security control byte,
  the invocation counter, the ciphertext and the tag. The key store and the counter store are
  reached through their interfaces, so \<open>Protect\<close> and \<open>Unprotect\<close> take the operations of these
  interfaces as arguments; the context is an argument too, because the object keeps a reference
  and reads it in every call.
\<close>

fun SecurityControlForPolicy :: "SecurityPolicy \<Rightarrow> u8" where
  "SecurityControlForPolicy PolicyNone = 0x00"
| "SecurityControlForPolicy Authenticated = 0x10"
| "SecurityControlForPolicy Encrypted = 0x20"
| "SecurityControlForPolicy AuthenticatedAndEncrypted = 0x30"

definition IsSupportedPolicy :: "SecurityPolicy \<Rightarrow> bool" where
  "IsSupportedPolicy p \<longleftrightarrow> p = PolicyNone \<or> p = AuthenticatedAndEncrypted"

definition ValidateProcessorContext :: "SecurityContext \<Rightarrow> SecurityStatus" where
  "ValidateProcessorContext context =
     (let status = ValidateSecurityContext context in
      if status \<noteq> Ok then status
      else if \<not> IsSupportedPolicy (policy context) then UnsupportedFeature
      else Ok)"

definition WriteBigEndian32 :: "u32 \<Rightarrow> bytes" where
  "WriteBigEndian32 v = [ucast (drop_bit 24 v AND 0xff), ucast (drop_bit 16 v AND 0xff),
     ucast (drop_bit 8 v AND 0xff), ucast (v AND 0xff)]"

definition ReadBigEndian32 :: "bytes \<Rightarrow> u32" where
  "ReadBigEndian32 bs = push_bit 24 (ucast (bs ! 0)) OR push_bit 16 (ucast (bs ! 1)) OR push_bit 8 (ucast (bs ! 2))
     OR ucast (bs ! 3)"

definition BuildNonce :: "bytes \<Rightarrow> u32 \<Rightarrow> SecurityStatus + bytes" where
  "BuildNonce systemTitle invocationCounter =
     (if \<not> IsValidSystemTitle systemTitle then Inl InvalidSystemTitle
      else Inr (take 8 systemTitle @ WriteBigEndian32 invocationCounter))"

definition GetSuite0Key ::
    "(SecurityKeyRole \<Rightarrow> SecurityStatus + SecurityKey) \<Rightarrow> SecurityKeyRole \<Rightarrow> SecurityStatus + SecurityKey" where
  "GetSuite0Key getKey role =
     (case getKey role of
        Inl status \<Rightarrow> Inl status
      | Inr key \<Rightarrow>
          let status = ValidateSecurityKey Suite0 key in if status \<noteq> Ok then Inl status else Inr key)"

definition BuildAad :: "u8 \<Rightarrow> SecurityKey \<Rightarrow> bytes" where
  "BuildAad securityControl authenticationKey = securityControl # take (keySize authenticationKey) (keyBytes authenticationKey)"

definition kHeaderSize :: nat where "kHeaderSize = 5"

definition Protect ::
    "OpenSslGcm \<Rightarrow> (SecurityKeyRole \<Rightarrow> SecurityStatus + SecurityKey) \<Rightarrow> ('s \<Rightarrow> (SecurityStatus + u32) \<times> 's)
      \<Rightarrow> SecurityContext \<Rightarrow> view \<Rightarrow> 's \<Rightarrow> (SecurityStatus + bytes) \<times> 's" where
  "Protect ssl getKey nextOp context plainApdu s =
     (if \<not> IsValidSecurityByteView plainApdu then (Inl InvalidArgument, s)
      else
        let contextStatus = ValidateProcessorContext context in
        if contextStatus \<noteq> Ok then (Inl contextStatus, s)
        else if policy context = PolicyNone then (Inr (view_bytes plainApdu), s)
        else case GetSuite0Key getKey GlobalUnicastEncryption of
          Inl status \<Rightarrow> (Inl status, s)
        | Inr encryptionKey \<Rightarrow>
        (case GetSuite0Key getKey Authentication of
          Inl status \<Rightarrow> (Inl status, s)
        | Inr authenticationKey \<Rightarrow>
        try_then nextOp (\<lambda>invocationCounter s'.
          case BuildNonce (localSystemTitle context) invocationCounter of
            Inl status \<Rightarrow> (Inl status, s')
          | Inr iv \<Rightarrow>
              let securityControl = SecurityControlForPolicy (policy context);
                  aad = BuildAad securityControl authenticationKey
              in
              (case Seal ssl encryptionKey (gcm_parameters iv aad plainApdu) of
                Inl status \<Rightarrow> (Inl status, s')
              | Inr (cipherText, tag) \<Rightarrow>
                  (Inr (securityControl # WriteBigEndian32 invocationCounter @ cipherText @ tag), s'))) s))"

definition Unprotect ::
    "OpenSslGcm \<Rightarrow> (SecurityKeyRole \<Rightarrow> SecurityStatus + SecurityKey) \<Rightarrow> (view \<Rightarrow> u32 \<Rightarrow> 's \<Rightarrow> SecurityStatus \<times> 's)
      \<Rightarrow> SecurityContext \<Rightarrow> view \<Rightarrow> 's \<Rightarrow> (SecurityStatus + bytes) \<times> 's" where
  "Unprotect ssl getKey validate context protectedApdu s =
     (if \<not> IsValidSecurityByteView protectedApdu then (Inl InvalidArgument, s)
      else
        let contextStatus = ValidateProcessorContext context in
        if contextStatus \<noteq> Ok then (Inl contextStatus, s)
        else if policy context = PolicyNone then (Inr (view_bytes protectedApdu), s)
        else
          let minimumSize = kHeaderSize + kTagSize;
              expectedControl = SecurityControlForPolicy (policy context);
              inp = view_bytes protectedApdu
          in
          if view_size protectedApdu < minimumSize then (Inl InvalidArgument, s)
          else if inp ! 0 \<noteq> expectedControl then (Inl AuthenticationFailed, s)
          else case GetSuite0Key getKey GlobalUnicastEncryption of
            Inl status \<Rightarrow> (Inl status, s)
          | Inr encryptionKey \<Rightarrow>
          (case GetSuite0Key getKey Authentication of
            Inl status \<Rightarrow> (Inl status, s)
          | Inr authenticationKey \<Rightarrow>
          let invocationCounter = ReadBigEndian32 (drop 1 inp) in
          (case BuildNonce (remoteSystemTitle context) invocationCounter of
            Inl status \<Rightarrow> (Inl status, s)
          | Inr iv \<Rightarrow>
          let aad = BuildAad expectedControl authenticationKey;
              cipherTextSize = view_size protectedApdu - minimumSize;
              tag = take kTagSize (drop (kHeaderSize + cipherTextSize) inp)
          in
          (case Open ssl encryptionKey (gcm_parameters iv aad (View (take cipherTextSize (drop kHeaderSize inp)))) tag of
            Inl status \<Rightarrow> (Inl status, s)
          | Inr plainApdu \<Rightarrow>
              (case validate (View (remoteSystemTitle context)) invocationCounter s of
                (status, s') \<Rightarrow> if status \<noteq> Ok then (Inl status, s') else (Inr plainApdu, s'))))))"

subsection \<open>One call\<close>

lemma be32_read_write: "ReadBigEndian32 (WriteBigEndian32 v @ rest) = v"
  using be32_at_be32 [of v] by (simp add: ReadBigEndian32_def WriteBigEndian32_def be32_at_def)

lemma length_WriteBigEndian32 [simp]: "length (WriteBigEndian32 v) = 4"
  by (simp add: WriteBigEndian32_def)

lemma IsValidSecurityByteView_eq: "IsValidSecurityByteView v \<longleftrightarrow> \<not> bad_view v"
  by (auto simp: IsValidSecurityByteView_def bad_view_def)

lemma wire_tag: "drop (5 + length cipher) (b # WriteBigEndian32 c @ cipher @ tag) = tag"
  by (simp add: numeral_eq_Suc)

text \<open>The counter in the header of a protected APDU.\<close>

definition counter_of :: "bytes \<Rightarrow> u32" where
  "counter_of wire = ReadBigEndian32 (drop 1 wire)"

lemma counter_of_header [simp]: "counter_of (control # WriteBigEndian32 c @ rest) = c"
  by (simp add: counter_of_def be32_read_write)

lemma Protect_Inr:
  assumes "Protect ssl getKey nextOp context v s = (Inr wire, s')" "policy context \<noteq> PolicyNone"
  shows "nextOp s = (Inr (counter_of wire), s')"
  using assms by (auto simp: Protect_def Let_def try_then_def split: if_splits sum.splits prod.splits)

lemma Protect_state:
  "snd (Protect ssl getKey nextOp context v s) = s \<or> (\<exists>r. nextOp s = (r, snd (Protect ssl getKey nextOp context v s)))"
  by (auto simp: Protect_def Let_def try_then_def split: if_splits sum.splits prod.splits)

lemma Unprotect_Inr:
  assumes "Unprotect ssl getKey validate context v s = (Inr plain, s')" "policy context \<noteq> PolicyNone"
  shows "validate (View (remoteSystemTitle context)) (counter_of (view_bytes v)) s = (Ok, s')"
  using assms by (auto simp: Unprotect_def Let_def counter_of_def split: if_splits sum.splits prod.splits)

lemma Unprotect_Inl:
  assumes "Unprotect ssl getKey validate context v s = (Inl e, s')"
  shows "s' = s \<or> (\<exists>st. validate (View (remoteSystemTitle context)) (counter_of (view_bytes v)) s = (st, s') \<and> st \<noteq> Ok)"
  using assms by (auto simp: Unprotect_def Let_def counter_of_def split: if_splits sum.splits prod.splits)

lemma PolicyNone_state:
  assumes "policy context = PolicyNone"
  shows "snd (Protect ssl getKey nextOp context v s) = s" "snd (Unprotect ssl getKey validate context v s) = s"
  using assms by (auto simp: Protect_def Unprotect_def Let_def split: if_splits)

subsection \<open>A sender and a receiver\<close>

text \<open>
  The two ends of a protected channel: contexts that suite 0 accepts, with ciphering switched on,
  the title of the sender known to the receiver, and the same pair of keys.
\<close>

definition ciphering_context :: "SecurityContext \<Rightarrow> bool" where
  "ciphering_context context \<longleftrightarrow> suite context = Suite0 \<and> clientSap context \<noteq> 0 \<and> serverSap context \<noteq> 0
     \<and> policy context = AuthenticatedAndEncrypted
     \<and> length (localSystemTitle context) = 8 \<and> IsValidSystemTitle (localSystemTitle context)
     \<and> length (remoteSystemTitle context) = 8 \<and> IsValidSystemTitle (remoteSystemTitle context)"

definition provides_keys :: "(SecurityKeyRole \<Rightarrow> SecurityStatus + SecurityKey) \<Rightarrow> SecurityKey \<Rightarrow> SecurityKey \<Rightarrow> bool" where
  "provides_keys getKey ek ak \<longleftrightarrow> getKey GlobalUnicastEncryption = Inr ek \<and> getKey Authentication = Inr ak
     \<and> suite0_key ek \<and> suite0_key ak"

lemma ciphering_context_valid:
  assumes "ciphering_context context"
  shows "ValidateProcessorContext context = Ok" "policy context \<noteq> PolicyNone"
    "SecurityControlForPolicy (policy context) = 0x30"
    "BuildNonce (localSystemTitle context) c = Inr (localSystemTitle context @ WriteBigEndian32 c)"
    "BuildNonce (remoteSystemTitle context) c = Inr (remoteSystemTitle context @ WriteBigEndian32 c)"
  using assms by (simp_all add: ciphering_context_def ValidateProcessorContext_def ValidateSecurityContext_def
      IsSupportedPolicy_def BuildNonce_def Let_def)

lemma provides_keys_get:
  assumes "provides_keys getKey ek ak"
  shows "GetSuite0Key getKey GlobalUnicastEncryption = Inr ek" "GetSuite0Key getKey Authentication = Inr ak"
  using assms by (simp_all add: provides_keys_def GetSuite0Key_def suite0_key_valid Let_def)

text \<open>Both ends, with the bytes of a protected APDU written out.\<close>

lemma Protect_step:
  assumes "ciphering_context context" "provides_keys getKey ek ak" "\<not> bad_view v" "nextOp s = (Inr c, s')"
  shows "Protect ssl getKey nextOp context v s =
    (case Seal ssl ek (gcm_parameters (localSystemTitle context @ WriteBigEndian32 c) (BuildAad 0x30 ak) v) of
       Inl status \<Rightarrow> (Inl status, s')
     | Inr (cipherText, tag) \<Rightarrow> (Inr (0x30 # WriteBigEndian32 c @ cipherText @ tag), s'))"
  using assms
  by (simp add: Protect_def ciphering_context_valid provides_keys_get try_then_def IsValidSecurityByteView_eq Let_def)

lemma Unprotect_step:
  assumes "ciphering_context context" "provides_keys getKey ek ak" "length tag = 16"
  shows "Unprotect ssl getKey validate context (View (0x30 # WriteBigEndian32 c @ cipher @ tag)) s =
    (case Open ssl ek (gcm_parameters (remoteSystemTitle context @ WriteBigEndian32 c) (BuildAad 0x30 ak) (View cipher)) tag of
       Inl status \<Rightarrow> (Inl status, s)
     | Inr plain \<Rightarrow> (case validate (View (remoteSystemTitle context)) c s of
         (status, s') \<Rightarrow> if status \<noteq> Ok then (Inl status, s') else (Inr plain, s')))"
  using assms
  by (simp add: Unprotect_def ciphering_context_valid provides_keys_get IsValidSecurityByteView_eq bad_view_def Let_def kHeaderSize_def
      kTagSize_def be32_read_write wire_tag)

lemma ciphering_gcm_args:
  assumes "ciphering_context context" "provides_keys getKey ek ak" "length data \<le> 2 ^ 31 - 1"
  shows "gcm_args ek (localSystemTitle context @ WriteBigEndian32 c) (BuildAad 0x30 ak) data"
    "gcm_args ek (remoteSystemTitle context @ WriteBigEndian32 c) (BuildAad 0x30 ak) data"
  using assms by (simp_all add: gcm_args_def ciphering_context_def provides_keys_def suite0_key_def BuildAad_def)

context invocation_counters
begin

lemma protected_round_trip:
  assumes ssl: "documented_gcm ssl" and sc: "ciphering_context sc" and rc: "ciphering_context rc"
    and title: "remoteSystemTitle rc = localSystemTitle sc"
    and sk: "provides_keys sgk ek ak" and rk: "provides_keys rgk ek ak"
    and plain: "plain \<noteq> []" "length plain \<le> 2 ^ 31 - 1"
    and nxt: "next_local s = (Inr c, s')" and fresh: "highest r (localSystemTitle sc) < unat c"
  shows "\<exists>cipher tag r'. length cipher = length plain \<and> length tag = 16
    \<and> Protect ssl sgk next_local sc (View plain) s = (Inr (0x30 # WriteBigEndian32 c @ cipher @ tag), s')
    \<and> Unprotect ssl rgk validate rc (View (0x30 # WriteBigEndian32 c @ cipher @ tag)) r = (Inr plain, r')
    \<and> highest r' = (highest r)(localSystemTitle sc := unat c)
    \<and> Unprotect ssl rgk validate rc (View (0x30 # WriteBigEndian32 c @ cipher @ tag)) r' = (Inl ReplayDetected, r')
    \<and> (\<forall>tag'. length tag' = 16 \<and> tag' \<noteq> tag \<longrightarrow>
         Unprotect ssl rgk validate rc (View (0x30 # WriteBigEndian32 c @ cipher @ tag')) r = (Inl DecipherFailed, r))"
proof -
  obtain cipher tag where seal:
    "Seal ssl ek (gcm_parameters (localSystemTitle sc @ WriteBigEndian32 c) (BuildAad 0x30 ak) (View plain)) = Inr (cipher, tag)"
    and len: "length cipher = length plain" "length tag = 16"
    and opn: "\<forall>tag'. length tag' = 16 \<longrightarrow> Open ssl ek (gcm_parameters (localSystemTitle sc @ WriteBigEndian32 c)
      (BuildAad 0x30 ak) (View cipher)) tag' = (if tag' = tag then Inr plain else Inl DecipherFailed)"
    by (rule Seal_Open [OF ssl ciphering_gcm_args(1) [OF sc sk plain(2), of c] plain(1)])
  have title8: "length (localSystemTitle sc) = 8" using sc by (simp add: ciphering_context_def)
  from validate_fresh [OF this fresh] obtain r' where ok: "validate (View (localSystemTitle sc)) c r = (Ok, r')" by blast
  have "Protect ssl sgk next_local sc (View plain) s = (Inr (0x30 # WriteBigEndian32 c @ cipher @ tag), s')"
    using Protect_step [where nextOp = next_local, OF sc sk _ nxt, of "View plain" ssl] seal by (simp add: bad_view_def)
  moreover note Unprotect_step [OF rc rk, where ssl = ssl and validate = validate] title opn len ok
    validate_Ok [OF ok] validate_again [OF ok title8]
  ultimately show ?thesis by (intro exI [of _ cipher] exI [of _ tag] exI [of _ r']) auto
qed

end

subsection \<open>Properties\<close>

text \<open>
  C11: The protected channel. With the documented behaviour of AES-GCM, a plain APDU that the sender
  protects is delivered unchanged by a receiver with the same keys that knows the title of the
  sender, if the counter of the sender is above all it accepted before; the receiver then
  refuses the same bytes as a replay, and refuses any other tag without a change of its state.
\<close>

theorem protected_channel:
  assumes "documented_gcm ssl" "ciphering_context sc" "ciphering_context rc" "remoteSystemTitle rc = localSystemTitle sc"
    and "provides_keys (GetKey sk) ek ak" "provides_keys (GetKey rk) ek ak" "plain \<noteq> []" "length plain \<le> 2 ^ 31 - 1"
    and "nextLocal s \<noteq> - 1" "highest_remote r (localSystemTitle sc) < unat (nextLocal s)"
  shows "\<exists>cipher tag r'. length cipher = length plain \<and> length tag = 16
    \<and> Protect ssl (GetKey sk) NextLocal sc (View plain) s
        = (Inr (0x30 # WriteBigEndian32 (nextLocal s) @ cipher @ tag), s\<lparr>nextLocal := nextLocal s + 1\<rparr>)
    \<and> Unprotect ssl (GetKey rk) ValidateRemoteForSystemTitle rc (View (0x30 # WriteBigEndian32 (nextLocal s) @ cipher @ tag)) r
        = (Inr plain, r')
    \<and> highest_remote r' = (highest_remote r)(localSystemTitle sc := unat (nextLocal s))
    \<and> Unprotect ssl (GetKey rk) ValidateRemoteForSystemTitle rc (View (0x30 # WriteBigEndian32 (nextLocal s) @ cipher @ tag)) r'
        = (Inl ReplayDetected, r')
    \<and> (\<forall>tag'. length tag' = 16 \<and> tag' \<noteq> tag \<longrightarrow>
         Unprotect ssl (GetKey rk) ValidateRemoteForSystemTitle rc (View (0x30 # WriteBigEndian32 (nextLocal s) @ cipher @ tag')) r
           = (Inl DecipherFailed, r))"
  by (rule counters.protected_round_trip [OF assms(1-8) _ assms(10)]) (use assms(9) in \<open>simp add: NextLocal_def\<close>)

definition sample_key :: "SecurityKeyRole \<Rightarrow> SecurityKey" where
  "sample_key role = \<lparr>keyRole = role, keyBytes = replicate 32 7, keySize = 16\<rparr>"

definition sample_context :: "u8 \<Rightarrow> u8 \<Rightarrow> SecurityContext" where
  "sample_context a b = EmptySecurityContext\<lparr>policy := AuthenticatedAndEncrypted, clientSap := 16, serverSap := 1,
     localSystemTitle := replicate 8 a, remoteSystemTitle := replicate 8 b\<rparr>"

abbreviation sample_keys :: InMemoryKeyStore where
  "sample_keys \<equiv> snd (SetKey (sample_key Authentication) (snd (SetKey (sample_key GlobalUnicastEncryption) Map.empty)))"

lemma sample_facts:
  "provides_keys (GetKey sample_keys) (sample_key GlobalUnicastEncryption) (sample_key Authentication)"
  "a \<noteq> 0 \<Longrightarrow> b \<noteq> 0 \<Longrightarrow> ciphering_context (sample_context a b)"
  by (simp_all add: provides_keys_def GetKey_def SetKey_def sample_key_def suite0_key_def ciphering_context_def
      sample_context_def EmptySecurityContext_def IsValidSystemTitle_def)

theorem protected_channel_witness:
  "\<exists>cipher tag r'. length cipher = 2 \<and> length tag = 16
    \<and> Protect sample_ssl (GetKey sample_keys) NextLocal (sample_context 1 2) (View [0xc0, 1]) InMemoryInvocationCounterStore_init
        = (Inr (0x30 # WriteBigEndian32 1 @ cipher @ tag), InMemoryInvocationCounterStore_init\<lparr>nextLocal := 2\<rparr>)
    \<and> Unprotect sample_ssl (GetKey sample_keys) ValidateRemoteForSystemTitle (sample_context 2 1)
        (View (0x30 # WriteBigEndian32 1 @ cipher @ tag)) InMemoryInvocationCounterStore_init = (Inr [0xc0, 1], r')"
  using protected_channel [OF sample_ssl_documented sample_facts(2) [of 1 2] sample_facts(2) [of 2 1] _ sample_facts(1)
      sample_facts(1), of "[0xc0, 1]" InMemoryInvocationCounterStore_init InMemoryInvocationCounterStore_init]
  by (auto simp: sample_context_def InMemoryInvocationCounterStore_init_def highest_remote_def)

definition reports_aad_length :: "OpenSslGcm \<Rightarrow> bool" where
  "reports_aad_length ssl \<longleftrightarrow> (\<forall>e k iv aad. evpAad ssl e k iv aad = Some (length aad))"

lemma Open_empty:
  assumes "documented_gcm ssl" "reports_aad_length ssl" "gcm_args key iv aad []" "aad \<noteq> []"
    "evpGetTag ssl (take 16 (keyBytes key)) iv aad [] = Some tag"
  shows "Open ssl key (gcm_parameters iv aad (View [])) tag = Inr (replicate (length aad) 0)"
proof -
  let ?k = "take 16 (keyBytes key)"
  have len: "length ?k = 16" "length iv = 12" using assms(3) by (simp_all add: gcm_args_def suite0_key_def)
  obtain cipher tag' a b where facts: "evpNew ssl" "\<forall>tag. length tag = 16 \<longrightarrow> evpSetTag ssl tag"
    "evpInit ssl True ?k iv" "evpInit ssl False ?k iv" "evpAad ssl True ?k iv aad = Some a"
    "evpAad ssl False ?k iv aad = Some b" "evpEncryptFinal ssl ?k iv aad [] = Some 0"
    "evpUpdate ssl True ?k iv aad [] = Some cipher" "length cipher = length ([] :: bytes)"
    "evpUpdate ssl False ?k iv aad cipher = Some []" "evpGetTag ssl ?k iv aad [] = Some tag'" "length tag' = 16"
    "\<forall>t. evpDecryptFinal ssl ?k iv aad cipher t = (if t = tag' then Some 0 else None)"
    by (rule documented_gcmE [OF assms(1) len, of aad "[]"])
  from facts assms(2,4,5) gcm_valid [of key iv aad "View []"] assms(3) show ?thesis
    by (simp add: Open_def OpenSslOpen_def gcm_updates_def gcm_parameters_def Let_def resize_def reports_aad_length_def
        bad_view_def)
qed

text \<open>
  An empty APDU is not protected faithfully. OpenSSL reports the length of the additional data in
  the variable that later decides the size of the result; without data it is not overwritten,
  so 17 zero bytes appear as ciphertext when an empty APDU is protected, and a peer's correctly
  protected empty APDU (header and tag alone) is delivered as 17 zero bytes.
\<close>

theorem empty_apdu_padded:
  assumes "documented_gcm ssl" "reports_aad_length ssl" "ciphering_context sc" "ciphering_context rc"
    and "remoteSystemTitle rc = localSystemTitle sc"
    and "provides_keys (GetKey sk) ek ak" "provides_keys (GetKey rk) ek ak"
    and "nextLocal s \<noteq> - 1" "highest_remote r (localSystemTitle sc) < unat (nextLocal s)"
  shows "\<exists>tag r'. length tag = 16
    \<and> Protect ssl (GetKey sk) NextLocal sc (View []) s
        = (Inr (0x30 # WriteBigEndian32 (nextLocal s) @ replicate 17 0 @ tag), s\<lparr>nextLocal := nextLocal s + 1\<rparr>)
    \<and> Unprotect ssl (GetKey rk) ValidateRemoteForSystemTitle rc (View (0x30 # WriteBigEndian32 (nextLocal s) @ [] @ tag)) r
        = (Inr (replicate 17 0), r')"
proof -
  let ?iv = "localSystemTitle sc @ WriteBigEndian32 (nextLocal s)" and ?aad = "BuildAad 0x30 ak"
  have aad: "length ?aad = 17" "?aad \<noteq> []" using assms(6) by (auto simp: BuildAad_def provides_keys_def suite0_key_def)
  have args: "gcm_args ek ?iv ?aad []" using ciphering_gcm_args(1) [OF assms(3,6)] by simp
  obtain tag a where seal: "evpAad ssl True (take 16 (keyBytes ek)) ?iv ?aad = Some a"
    "evpGetTag ssl (take 16 (keyBytes ek)) ?iv ?aad [] = Some tag" "length tag = 16"
    "Seal ssl ek (gcm_parameters ?iv ?aad (View [])) = Inr (replicate a 0, tag)"
    by (rule Seal_empty [OF assms(1) args, of "View []"]) (use aad in \<open>simp_all add: bad_view_def\<close>)
  then have "a = 17" using assms(2) aad by (simp add: reports_aad_length_def)
  have "length (localSystemTitle sc) = 8" using assms(3) by (simp add: ciphering_context_def)
  with counters.validate_fresh assms(9) obtain r'
    where ok: "ValidateRemoteForSystemTitle (View (localSystemTitle sc)) (nextLocal s) r = (Ok, r')" by blast
  have "NextLocal s = (Inr (nextLocal s), s\<lparr>nextLocal := nextLocal s + 1\<rparr>)" using assms(8) by (simp add: NextLocal_def)
  from Protect_step [where nextOp = NextLocal, OF assms(3,6) _ this, of "View []" ssl] seal(4) \<open>a = 17\<close>
  have "Protect ssl (GetKey sk) NextLocal sc (View []) s
        = (Inr (0x30 # WriteBigEndian32 (nextLocal s) @ replicate 17 0 @ tag), s\<lparr>nextLocal := nextLocal s + 1\<rparr>)"
    by (simp add: bad_view_def)
  moreover note Unprotect_step [OF assms(4,7) seal(3), where cipher = "[]" and c = "nextLocal s" and ssl = ssl
      and validate = ValidateRemoteForSystemTitle and s = r]
    Open_empty [OF assms(1,2) args aad(2) seal(2)] assms(5) aad(1) ok
  ultimately show ?thesis using seal(3) by (intro exI [of _ tag] exI [of _ r']) simp
qed

theorem empty_apdu_padded_witness:
  "\<exists>tag r'. length tag = 16
    \<and> Protect sample_ssl (GetKey sample_keys) NextLocal (sample_context 1 2) (View []) InMemoryInvocationCounterStore_init
        = (Inr (0x30 # WriteBigEndian32 1 @ replicate 17 0 @ tag), InMemoryInvocationCounterStore_init\<lparr>nextLocal := 2\<rparr>)
    \<and> Unprotect sample_ssl (GetKey sample_keys) ValidateRemoteForSystemTitle (sample_context 2 1)
        (View (0x30 # WriteBigEndian32 1 @ [] @ tag)) InMemoryInvocationCounterStore_init = (Inr (replicate 17 0), r')"
proof -
  have "reports_aad_length sample_ssl" by (simp add: reports_aad_length_def sample_ssl_def)
  from empty_apdu_padded [OF sample_ssl_documented this sample_facts(2) [of 1 2] sample_facts(2) [of 2 1] _ sample_facts(1)
      sample_facts(1), of InMemoryInvocationCounterStore_init InMemoryInvocationCounterStore_init]
  show ?thesis by (simp add: sample_context_def InMemoryInvocationCounterStore_init_def highest_remote_def)
qed

end
