(* ===== verification/Security_Hls.thy ===== *)
theory Security_Hls
  imports Security_Processor
begin

text \<open>
  The authenticators for high level security: \<open>hls_gmac_authenticator.cpp\<close>, which proves knowledge
  of the authentication key by a GMAC over the challenge of the peer, and
  \<open>hls_high_authenticator.cpp\<close>, which encrypts the challenge under the password. AES itself and the
  source of random bytes are parameters. The second part follows any sequence of calls of
  ciphering and authentication on one counter store: the messages they send, and the counter and the nonce of each.
\<close>

subsection \<open>GMAC\<close>

definition kGmacSecurityControl :: u8 where "kGmacSecurityControl = 0x10"
definition kChallengeSize :: nat where "kChallengeSize = 16"
definition kResponseTagSize :: nat where "kResponseTagSize = 16"
definition kResponseHeaderSize :: nat where "kResponseHeaderSize = 5"

definition ValidateHlsContext :: "SecurityContext \<Rightarrow> SecurityStatus" where
  "ValidateHlsContext context =
     (if suite context \<noteq> Suite0 then UnsupportedFeature
      else if clientSap context = 0 \<or> serverSap context = 0 then InvalidContext
      else if \<not> IsValidSystemTitle (localSystemTitle context) \<or> \<not> IsValidSystemTitle (remoteSystemTitle context)
        then InvalidSystemTitle
      else Ok)"

definition GetAuthenticationKey ::
    "(SecurityKeyRole \<Rightarrow> SecurityStatus + SecurityKey) \<Rightarrow> SecurityStatus + SecurityKey" where
  "GetAuthenticationKey getKey =
     (case getKey Authentication of
        Inl status \<Rightarrow> Inl status
      | Inr key \<Rightarrow>
          let status = ValidateSecurityKey Suite0 key in if status \<noteq> Ok then Inl status else Inr key)"

definition BuildGmacAad :: "bytes \<Rightarrow> SecurityKey \<Rightarrow> bytes" where
  "BuildGmacAad challenge authenticationKey =
     kGmacSecurityControl # take (keySize authenticationKey) (keyBytes authenticationKey) @ challenge"

definition BuildTag :: "OpenSslGcm \<Rightarrow> bytes \<Rightarrow> u32 \<Rightarrow> bytes \<Rightarrow> SecurityKey \<Rightarrow> SecurityStatus + bytes" where
  "BuildTag ssl systemTitle invocationCounter challenge authenticationKey =
     (case BuildNonce systemTitle invocationCounter of
        Inl status \<Rightarrow> Inl status
      | Inr iv \<Rightarrow>
          (case Seal ssl authenticationKey (gcm_parameters iv (BuildGmacAad challenge authenticationKey) (NullView 0)) of
             Inl status \<Rightarrow> Inl status
           | Inr (cipherText, tag) \<Rightarrow> Inr tag))"

text \<open>The random source is given the size of the challenge and its own state.\<close>

definition BuildChallenge :: "(nat \<Rightarrow> 'r \<Rightarrow> (SecurityStatus + bytes) \<times> 'r) \<Rightarrow> 'r \<Rightarrow> (SecurityStatus + bytes) \<times> 'r" where
  "BuildChallenge fill = try_then (fill kChallengeSize) (\<lambda>challenge. yield challenge)"

definition BuildResponse ::
    "OpenSslGcm \<Rightarrow> (SecurityKeyRole \<Rightarrow> SecurityStatus + SecurityKey) \<Rightarrow> ('s \<Rightarrow> (SecurityStatus + u32) \<times> 's)
      \<Rightarrow> SecurityContext \<Rightarrow> view \<Rightarrow> 's \<Rightarrow> (SecurityStatus + bytes) \<times> 's" where
  "BuildResponse ssl getKey nextOp context challenge s =
     (if \<not> IsValidSecurityByteView challenge \<or> view_size challenge = 0 then (Inl InvalidArgument, s)
      else
        let status = ValidateHlsContext context in
        if status \<noteq> Ok then (Inl status, s)
        else case GetAuthenticationKey getKey of
          Inl status \<Rightarrow> (Inl status, s)
        | Inr authenticationKey \<Rightarrow>
            try_then nextOp (\<lambda>invocationCounter s'.
              case BuildTag ssl (localSystemTitle context) invocationCounter (view_bytes challenge) authenticationKey of
                Inl status \<Rightarrow> (Inl status, s')
              | Inr tag \<Rightarrow> (Inr (kGmacSecurityControl # WriteBigEndian32 invocationCounter @ tag), s')) s)"

definition VerifyResponse ::
    "OpenSslGcm \<Rightarrow> (SecurityKeyRole \<Rightarrow> SecurityStatus + SecurityKey) \<Rightarrow> (view \<Rightarrow> u32 \<Rightarrow> 's \<Rightarrow> SecurityStatus \<times> 's)
      \<Rightarrow> SecurityContext \<Rightarrow> view \<Rightarrow> view \<Rightarrow> 's \<Rightarrow> SecurityStatus \<times> 's" where
  "VerifyResponse ssl getKey validate context challenge response s =
     (if \<not> IsValidSecurityByteView challenge \<or> view_size challenge = 0 \<or> \<not> IsValidSecurityByteView response
        then (InvalidArgument, s)
      else
        let status = ValidateHlsContext context; inp = view_bytes response in
        if status \<noteq> Ok then (status, s)
        else if view_size response \<noteq> kResponseHeaderSize + kResponseTagSize then (InvalidArgument, s)
        else if inp ! 0 \<noteq> kGmacSecurityControl then (AuthenticationFailed, s)
        else case GetAuthenticationKey getKey of
          Inl status \<Rightarrow> (status, s)
        | Inr authenticationKey \<Rightarrow>
        let invocationCounter = ReadBigEndian32 (drop 1 inp) in
        (case BuildTag ssl (remoteSystemTitle context) invocationCounter (view_bytes challenge) authenticationKey of
          Inl status \<Rightarrow> (status, s)
        | Inr expectedTag \<Rightarrow>
            if take kResponseTagSize (drop kResponseHeaderSize inp) \<noteq> take kResponseTagSize expectedTag
              then (AuthenticationFailed, s)
            else validate (View (remoteSystemTitle context)) invocationCounter s))"

subsection \<open>The password based authenticator\<close>

definition IsValidInput :: "view \<Rightarrow> bool" where
  "IsValidInput v \<longleftrightarrow> \<not> view_null v \<and> view_size v \<noteq> 0"

definition RoundUpBlockSize :: "nat \<Rightarrow> nat" where
  "RoundUpBlockSize n = (let remainder = n mod 16 in if remainder = 0 then n else n + 16 - remainder)"

text \<open>
  \<open>ecb\<close> stands for the calls of OpenSSL that encrypt the vector in place, without padding; it gives
  None when one of them fails.
\<close>

definition TransformHigh :: "(bytes \<Rightarrow> bytes \<Rightarrow> bytes option) \<Rightarrow> view \<Rightarrow> view \<Rightarrow> SecurityStatus + bytes" where
  "TransformHigh ecb challenge password =
     (if \<not> IsValidInput challenge \<or> \<not> IsValidInput password then Inl InvalidArgument
      else
        let paddedSize = RoundUpBlockSize (max (view_size challenge) (view_size password));
            response = overwrite (view_bytes challenge) (replicate paddedSize 0);
            key = overwrite (take 16 (view_bytes password)) (replicate 16 0)
        in case ecb key response of None \<Rightarrow> Inl CipherFailed | Some data \<Rightarrow> Inr data)"

definition HlsHighAuthenticator_init :: "view \<Rightarrow> bytes" where
  "HlsHighAuthenticator_init password = (if IsValidInput password then view_bytes password else [])"

definition High_BuildResponse :: "(bytes \<Rightarrow> bytes \<Rightarrow> bytes option) \<Rightarrow> bytes \<Rightarrow> view \<Rightarrow> SecurityStatus + bytes" where
  "High_BuildResponse ecb password challenge = TransformHigh ecb challenge (view_of password)"

definition High_VerifyResponse :: "(bytes \<Rightarrow> bytes \<Rightarrow> bytes option) \<Rightarrow> bytes \<Rightarrow> view \<Rightarrow> view \<Rightarrow> SecurityStatus" where
  "High_VerifyResponse ecb password challenge response =
     (case High_BuildResponse ecb password challenge of
        Inl status \<Rightarrow> status
      | Inr expected \<Rightarrow>
          if view_size response \<noteq> length expected \<or> (view_size response \<noteq> 0 \<and> view_bytes response \<noteq> expected)
          then AuthenticationFailed else Ok)"

subsection \<open>One exchange\<close>

definition hls_context :: "SecurityContext \<Rightarrow> bool" where
  "hls_context context \<longleftrightarrow> suite context = Suite0 \<and> clientSap context \<noteq> 0 \<and> serverSap context \<noteq> 0
     \<and> length (localSystemTitle context) = 8 \<and> IsValidSystemTitle (localSystemTitle context)
     \<and> length (remoteSystemTitle context) = 8 \<and> IsValidSystemTitle (remoteSystemTitle context)"

lemma hls_context_valid: "hls_context context \<Longrightarrow> ValidateHlsContext context = Ok"
  by (simp add: hls_context_def ValidateHlsContext_def)

lemma GetAuthenticationKey_Inr:
  "getKey Authentication = Inr ak \<Longrightarrow> suite0_key ak \<Longrightarrow> GetAuthenticationKey getKey = Inr ak"
  by (simp add: GetAuthenticationKey_def suite0_key_valid Let_def)

lemma BuildTag_ok:
  assumes "documented_gcm ssl" "suite0_key ak" "length title = 8" "IsValidSystemTitle title" "length challenge \<le> 2 ^ 31 - 18"
  obtains tag where "BuildTag ssl title c challenge ak = Inr tag" "length tag = 16"
proof -
  let ?iv = "title @ WriteBigEndian32 c" and ?aad = "BuildGmacAad challenge ak"
  have args: "gcm_args ak ?iv ?aad []" "?aad \<noteq> []"
    using assms(2,3,5) by (simp_all add: gcm_args_def suite0_key_def BuildGmacAad_def)
  obtain tag a where "evpAad ssl True (take 16 (keyBytes ak)) ?iv ?aad = Some a"
    "evpGetTag ssl (take 16 (keyBytes ak)) ?iv ?aad [] = Some tag" "length tag = 16"
    "Seal ssl ak (gcm_parameters ?iv ?aad (NullView 0)) = Inr (replicate a 0, tag)"
    by (rule Seal_empty [OF assms(1) args(1), of "NullView 0"]) (use args(2) in \<open>simp_all add: bad_view_def\<close>)
  with assms(3,4) have "BuildTag ssl title c challenge ak = Inr tag" by (simp add: BuildTag_def BuildNonce_def)
  with \<open>length tag = 16\<close> that show thesis by blast
qed

lemma VerifyResponse_step:
  assumes "hls_context context" "getKey Authentication = Inr ak" "suite0_key ak" "challenge \<noteq> []"
    and "BuildTag ssl (remoteSystemTitle context) c challenge ak = Inr expected" "length expected = 16" "length tag = 16"
  shows "VerifyResponse ssl getKey validate context (View challenge) (View (0x10 # WriteBigEndian32 c @ tag)) s =
    (if tag \<noteq> expected then (AuthenticationFailed, s) else validate (View (remoteSystemTitle context)) c s)"
  using assms wire_tag [of "[]" "0x10" c tag]
  by (simp add: VerifyResponse_def hls_context_valid GetAuthenticationKey_Inr IsValidSecurityByteView_def Let_def
      kResponseHeaderSize_def kResponseTagSize_def kGmacSecurityControl_def be32_read_write)

lemma failures_not_Ok: "Seal ssl key p \<noteq> Inl Ok" "BuildTag ssl t c ch key \<noteq> Inl Ok"
  by (auto simp: BuildTag_def BuildNonce_def Seal_def OpenSslSeal_def Let_def split: if_splits sum.splits option.splits prod.splits)

lemma GetAuthenticationKey_not_Ok: "GetAuthenticationKey (GetKey keys) \<noteq> Inl Ok"
  by (auto simp: GetAuthenticationKey_def GetKey_def Let_def split: option.splits sum.splits)

lemma VerifyResponse_Ok:
  assumes "VerifyResponse ssl (GetKey keys) validate context challenge response s = (Ok, s')"
  shows "validate (View (remoteSystemTitle context)) (counter_of (view_bytes response)) s = (Ok, s')"
    "\<exists>key. GetAuthenticationKey (GetKey keys) = Inr key
       \<and> (\<exists>tag. BuildTag ssl (remoteSystemTitle context) (counter_of (view_bytes response)) (view_bytes challenge) key = Inr tag
           \<and> take 16 (drop 5 (view_bytes response)) = take 16 tag)"
  using assms failures_not_Ok(2) GetAuthenticationKey_not_Ok
  by (auto simp: VerifyResponse_def Let_def counter_of_def kResponseTagSize_def kResponseHeaderSize_def
      split: if_splits sum.splits)

lemma VerifyResponse_refused:
  assumes "VerifyResponse ssl getKey validate context challenge response s = (e, s')" "e \<noteq> Ok"
  shows "s' = s \<or> validate (View (remoteSystemTitle context)) (counter_of (view_bytes response)) s = (e, s')"
  using assms by (auto simp: VerifyResponse_def Let_def counter_of_def split: if_splits sum.splits)

lemma BuildResponse_Inr:
  assumes "BuildResponse ssl getKey nextOp context challenge s = (Inr response, s')"
  shows "nextOp s = (Inr (counter_of response), s')"
  using assms by (auto simp: BuildResponse_def Let_def try_then_def split: if_splits sum.splits prod.splits)

lemma BuildResponse_state:
  "snd (BuildResponse ssl getKey nextOp context v s) = s \<or> (\<exists>r. nextOp s = (r, snd (BuildResponse ssl getKey nextOp context v s)))"
  by (auto simp: BuildResponse_def Let_def try_then_def split: if_splits sum.splits prod.splits)

subsection \<open>Sequences of calls\<close>

text \<open>
  The calls that use the counters, each with the context and the keys it sees (both can change
  between calls), the counters that a call sends, and the pairs of title and counter it accepts.
\<close>

datatype security_call =
  ProtectCall SecurityContext InMemoryKeyStore view
  | UnprotectCall SecurityContext InMemoryKeyStore view
  | BuildResponseCall SecurityContext InMemoryKeyStore view
  | VerifyResponseCall SecurityContext InMemoryKeyStore view view

fun sent_by :: "OpenSslGcm \<Rightarrow> ('s \<Rightarrow> (SecurityStatus + u32) \<times> 's) \<Rightarrow> security_call \<Rightarrow> 's \<Rightarrow> u32 list" where
  "sent_by ssl nextOp (ProtectCall context keys v) s =
     (case Protect ssl (GetKey keys) nextOp context v s of
        (Inr wire, _) \<Rightarrow> if policy context = PolicyNone then [] else [counter_of wire]
      | (Inl _, _) \<Rightarrow> [])"
| "sent_by ssl nextOp (BuildResponseCall context keys v) s =
     (case BuildResponse ssl (GetKey keys) nextOp context v s of (Inr response, _) \<Rightarrow> [counter_of response] | (Inl _, _) \<Rightarrow> [])"
| "sent_by ssl nextOp _ s = []"

fun accepted_by :: "OpenSslGcm \<Rightarrow> (view \<Rightarrow> u32 \<Rightarrow> 's \<Rightarrow> SecurityStatus \<times> 's) \<Rightarrow> security_call \<Rightarrow> 's \<Rightarrow> (bytes \<times> u32) list" where
  "accepted_by ssl validate (UnprotectCall context keys v) s =
     (case Unprotect ssl (GetKey keys) validate context v s of
        (Inr plain, _) \<Rightarrow> if policy context = PolicyNone then [] else [(remoteSystemTitle context, counter_of (view_bytes v))]
      | (Inl _, _) \<Rightarrow> [])"
| "accepted_by ssl validate (VerifyResponseCall context keys ch v) s =
     (if fst (VerifyResponse ssl (GetKey keys) validate context ch v s) = Ok
      then [(remoteSystemTitle context, counter_of (view_bytes v))] else [])"
| "accepted_by ssl validate _ s = []"

fun state_after :: "OpenSslGcm \<Rightarrow> ('s \<Rightarrow> (SecurityStatus + u32) \<times> 's) \<Rightarrow> (view \<Rightarrow> u32 \<Rightarrow> 's \<Rightarrow> SecurityStatus \<times> 's)
    \<Rightarrow> security_call \<Rightarrow> 's \<Rightarrow> 's" where
  "state_after ssl nextOp validate (ProtectCall context keys v) s = snd (Protect ssl (GetKey keys) nextOp context v s)"
| "state_after ssl nextOp validate (UnprotectCall context keys v) s = snd (Unprotect ssl (GetKey keys) validate context v s)"
| "state_after ssl nextOp validate (BuildResponseCall context keys v) s = snd (BuildResponse ssl (GetKey keys) nextOp context v s)"
| "state_after ssl nextOp validate (VerifyResponseCall context keys ch v) s =
     snd (VerifyResponse ssl (GetKey keys) validate context ch v s)"

primrec sent_counters ::
    "OpenSslGcm \<Rightarrow> ('s \<Rightarrow> (SecurityStatus + u32) \<times> 's) \<Rightarrow> (view \<Rightarrow> u32 \<Rightarrow> 's \<Rightarrow> SecurityStatus \<times> 's)
      \<Rightarrow> security_call list \<Rightarrow> 's \<Rightarrow> u32 list" where
  "sent_counters ssl nextOp validate [] s = []"
| "sent_counters ssl nextOp validate (c # cs) s =
     sent_by ssl nextOp c s @ sent_counters ssl nextOp validate cs (state_after ssl nextOp validate c s)"

primrec accepted_counters ::
    "OpenSslGcm \<Rightarrow> ('s \<Rightarrow> (SecurityStatus + u32) \<times> 's) \<Rightarrow> (view \<Rightarrow> u32 \<Rightarrow> 's \<Rightarrow> SecurityStatus \<times> 's)
      \<Rightarrow> security_call list \<Rightarrow> 's \<Rightarrow> (bytes \<times> u32) list" where
  "accepted_counters ssl nextOp validate [] s = []"
| "accepted_counters ssl nextOp validate (c # cs) s =
     accepted_by ssl validate c s @ accepted_counters ssl nextOp validate cs (state_after ssl nextOp validate c s)"

text \<open>
  The APDUs and responses that the calls produce under a key, each with its call; the nonce of
  such an output, which is the one \<open>BuildNonce\<close> makes of the title of the sender and of the counter
  in the header; and that the output is what \<open>Seal\<close> gives under a nonce: of a protected APDU the
  cipher text and the tag, of a response the tag.
\<close>

fun output_of :: "OpenSslGcm \<Rightarrow> ('s \<Rightarrow> (SecurityStatus + u32) \<times> 's) \<Rightarrow> security_call \<Rightarrow> 's \<Rightarrow> bytes list" where
  "output_of ssl nextOp (ProtectCall context keys v) s =
     (case fst (Protect ssl (GetKey keys) nextOp context v s) of
        Inr wire \<Rightarrow> if policy context = PolicyNone then [] else [wire] | Inl _ \<Rightarrow> [])"
| "output_of ssl nextOp (BuildResponseCall context keys v) s =
     (case fst (BuildResponse ssl (GetKey keys) nextOp context v s) of Inr response \<Rightarrow> [response] | Inl _ \<Rightarrow> [])"
| "output_of ssl nextOp _ s = []"

primrec sent_messages ::
    "OpenSslGcm \<Rightarrow> ('s \<Rightarrow> (SecurityStatus + u32) \<times> 's) \<Rightarrow> (view \<Rightarrow> u32 \<Rightarrow> 's \<Rightarrow> SecurityStatus \<times> 's)
      \<Rightarrow> security_call list \<Rightarrow> 's \<Rightarrow> (security_call \<times> bytes) list" where
  "sent_messages ssl nextOp validate [] s = []"
| "sent_messages ssl nextOp validate (c # cs) s =
     map (Pair c) (output_of ssl nextOp c s) @ sent_messages ssl nextOp validate cs (state_after ssl nextOp validate c s)"

fun call_title :: "security_call \<Rightarrow> bytes" where
  "call_title (ProtectCall context keys v) = localSystemTitle context"
| "call_title (BuildResponseCall context keys v) = localSystemTitle context"
| "call_title (UnprotectCall context keys v) = remoteSystemTitle context"
| "call_title (VerifyResponseCall context keys ch v) = remoteSystemTitle context"

definition nonce_of :: "security_call \<times> bytes \<Rightarrow> bytes" where
  "nonce_of m = (case BuildNonce (call_title (fst m)) (counter_of (snd m)) of Inr iv \<Rightarrow> iv | Inl _ \<Rightarrow> [])"

fun sealed_under :: "OpenSslGcm \<Rightarrow> bytes \<Rightarrow> security_call \<times> bytes \<Rightarrow> bool" where
  "sealed_under ssl iv (ProtectCall context keys v, wire) \<longleftrightarrow>
     (\<exists>key ak cipherText tag. GetSuite0Key (GetKey keys) GlobalUnicastEncryption = Inr key
        \<and> GetSuite0Key (GetKey keys) Authentication = Inr ak
        \<and> Seal ssl key (gcm_parameters iv (BuildAad (SecurityControlForPolicy (policy context)) ak) v) = Inr (cipherText, tag)
        \<and> drop 5 wire = cipherText @ tag)"
| "sealed_under ssl iv (BuildResponseCall context keys v, wire) \<longleftrightarrow>
     (\<exists>key cipherText tag. GetAuthenticationKey (GetKey keys) = Inr key
        \<and> Seal ssl key (gcm_parameters iv (BuildGmacAad (view_bytes v) key) (NullView 0)) = Inr (cipherText, tag)
        \<and> drop 5 wire = tag)"
| "sealed_under ssl iv _ \<longleftrightarrow> False"

lemma drop_header: "drop 5 (control # WriteBigEndian32 c @ rest) = rest"
  by (simp add: numeral_eq_Suc)

lemma WriteBigEndian32_inj: "WriteBigEndian32 c = WriteBigEndian32 c' \<longleftrightarrow> c = c'"
  by (metis be32_read_write)

lemma BuildNonce_counter: "BuildNonce t c = Inr iv \<Longrightarrow> BuildNonce t' c' = Inr iv \<Longrightarrow> c = c'"
  using append_eq_append_conv [of "WriteBigEndian32 c" "WriteBigEndian32 c'" "take 8 t" "take 8 t'"]
  by (auto simp: BuildNonce_def WriteBigEndian32_inj split: if_splits)

lemma Protect_sealed:
  assumes "fst (Protect ssl (GetKey keys) nextOp context v s) = Inr wire" "policy context \<noteq> PolicyNone"
  shows "\<exists>iv. BuildNonce (localSystemTitle context) (counter_of wire) = Inr iv
    \<and> sealed_under ssl iv (ProtectCall context keys v, wire)"
  using assms by (auto simp: Protect_def Let_def try_then_def drop_header split: if_splits sum.splits prod.splits)

lemma BuildResponse_sealed:
  assumes "fst (BuildResponse ssl (GetKey keys) nextOp context v s) = Inr wire"
  shows "\<exists>iv. BuildNonce (localSystemTitle context) (counter_of wire) = Inr iv
    \<and> sealed_under ssl iv (BuildResponseCall context keys v, wire)"
  using assms
  by (auto simp: BuildResponse_def BuildTag_def Let_def try_then_def drop_header split: if_splits sum.splits prod.splits)

lemma output_sealed:
  assumes "wire \<in> set (output_of ssl nextOp c s)"
  shows "\<exists>iv. BuildNonce (call_title c) (counter_of wire) = Inr iv \<and> sealed_under ssl iv (c, wire)"
proof (cases c)
  case (ProtectCall ctx keys v)
  with assms have "fst (Protect ssl (GetKey keys) nextOp ctx v s) = Inr wire" "policy ctx \<noteq> PolicyNone"
    by (auto split: sum.splits if_splits)
  from Protect_sealed [OF this] ProtectCall show ?thesis by (simp only: call_title.simps)
next
  case (BuildResponseCall ctx keys v)
  with assms have "fst (BuildResponse ssl (GetKey keys) nextOp ctx v s) = Inr wire"
    by (auto split: sum.splits)
  from BuildResponse_sealed [OF this] BuildResponseCall show ?thesis by (simp only: call_title.simps)
qed (use assms in \<open>simp_all\<close>)

lemma sent_messages_sealed:
  "m \<in> set (sent_messages ssl nextOp validate cs s) \<Longrightarrow>
     BuildNonce (call_title (fst m)) (counter_of (snd m)) = Inr (nonce_of m) \<and> sealed_under ssl (nonce_of m) m"
  by (induction cs arbitrary: s) (auto simp: nonce_of_def dest: output_sealed)

lemma sent_by_output: "sent_by ssl nextOp c s = map counter_of (output_of ssl nextOp c s)"
  by (cases c) (auto split: sum.splits prod.splits)

lemma sent_counters_messages:
  "sent_counters ssl nextOp validate cs s = map (\<lambda>m. counter_of (snd m)) (sent_messages ssl nextOp validate cs s)"
  by (induction cs arbitrary: s) (simp_all add: sent_by_output comp_def)

lemma sent_nonces_distinct:
  assumes "distinct (sent_counters ssl nextOp validate cs s)"
  shows "distinct (map nonce_of (sent_messages ssl nextOp validate cs s))"
proof -
  let ?ms = "sent_messages ssl nextOp validate cs s"
  have "counter_of (snd m) = counter_of (snd m')" if "m \<in> set ?ms" "m' \<in> set ?ms" "nonce_of m = nonce_of m'" for m m'
    by (rule BuildNonce_counter [OF sent_messages_sealed [OF that(1), THEN conjunct1]])
      (rule sent_messages_sealed [OF that(2), THEN conjunct1, folded that(3)])
  then have "inj_on nonce_of (set ?ms)" if "inj_on (\<lambda>m. counter_of (snd m)) (set ?ms)"
    using that unfolding inj_on_def by blast
  with assms show ?thesis by (simp add: sent_counters_messages distinct_map)
qed

context invocation_counters
begin

lemma next_floor: "next_local s = (r, s') \<Longrightarrow> floor s \<le> floor s' \<and> highest s' = highest s"
  using next_Inr [of s _ s'] next_Inl [of s _ s'] by (cases r) fastforce+

lemma validate_mono:
  assumes "validate (View t) c s = (e, s')"
  shows "floor s' = floor s \<and> highest s t' \<le> highest s' t'"
  using validate_Ok [of t c s s'] validate_refused [of "View t" c s e s'] assms by (cases "e = Ok") auto

lemma sent_by_bounds:
  "sent_by ssl next_local c s = []
   \<or> (\<exists>n. sent_by ssl next_local c s = [n] \<and> floor s \<le> unat n \<and> floor (state_after ssl next_local validate c s) = Suc (unat n))"
proof (cases c)
  case (ProtectCall ctx keys v)
  then show ?thesis
    using Protect_Inr [of ssl "GetKey keys" next_local ctx v s]
    by (auto split: sum.splits prod.splits dest!: next_Inr)
next
  case (BuildResponseCall ctx keys v)
  then show ?thesis
    using BuildResponse_Inr [of ssl "GetKey keys" next_local ctx v s]
    by (auto split: sum.splits prod.splits dest!: next_Inr)
qed simp_all

lemma state_after_mono:
  "floor s \<le> floor (state_after ssl next_local validate c s)
   \<and> highest s t \<le> highest (state_after ssl next_local validate c s) t"
proof (cases c)
  case (ProtectCall ctx keys v)
  then show ?thesis using Protect_state [of ssl "GetKey keys" next_local ctx v s] next_floor by fastforce
next
  case (BuildResponseCall ctx keys v)
  then show ?thesis using BuildResponse_state [of ssl "GetKey keys" next_local ctx v s] next_floor by fastforce
next
  case (UnprotectCall ctx keys v)
  obtain r s' where u: "Unprotect ssl (GetKey keys) validate ctx v s = (r, s')" by fastforce
  then have "s' = s \<or> (\<exists>st. validate (View (remoteSystemTitle ctx)) (counter_of (view_bytes v)) s = (st, s'))"
    using Unprotect_Inr [of ssl _ validate ctx v s _ s'] Unprotect_Inl [of ssl _ validate ctx v s _ s']
      PolicyNone_state(2) [of ctx ssl "GetKey keys" validate v s]
    by (cases r; cases "policy ctx = PolicyNone") fastforce+
  with UnprotectCall u show ?thesis using validate_mono by fastforce
next
  case (VerifyResponseCall ctx keys ch v)
  obtain e s' where u: "VerifyResponse ssl (GetKey keys) validate ctx ch v s = (e, s')" by fastforce
  then have "s' = s \<or> validate (View (remoteSystemTitle ctx)) (counter_of (view_bytes v)) s = (e, s')"
    using VerifyResponse_Ok(1) [of ssl keys validate ctx ch v s s'] VerifyResponse_refused [OF u] by (cases "e = Ok") auto
  with VerifyResponseCall u show ?thesis using validate_mono by fastforce
qed

lemma accepted_by_bounds:
  "accepted_by ssl validate c s = []
   \<or> (\<exists>t n. accepted_by ssl validate c s = [(t, n)] \<and> highest s t < unat n
        \<and> highest (state_after ssl next_local validate c s) t = unat n)"
proof (cases c)
  case (UnprotectCall ctx keys v)
  then show ?thesis
    using Unprotect_Inr [of ssl "GetKey keys" validate ctx v s]
    by (auto split: sum.splits prod.splits dest!: validate_Ok)
next
  case (VerifyResponseCall ctx keys ch v)
  then show ?thesis
    using VerifyResponse_Ok(1) [of ssl keys validate ctx ch v s]
    by (cases "VerifyResponse ssl (GetKey keys) validate ctx ch v s") (auto dest!: validate_Ok)
qed simp_all

lemma sent_counters_above: "n \<in> set (sent_counters ssl next_local validate cs s) \<Longrightarrow> floor s \<le> unat n"
proof (induction cs arbitrary: s)
  case (Cons c cs)
  from sent_by_bounds [of ssl c s] state_after_mono [of s ssl c undefined] Cons show ?case
    by (auto dest!: Cons.IH)
qed simp

lemma accepted_counters_above: "(t, n) \<in> set (accepted_counters ssl next_local validate cs s) \<Longrightarrow> highest s t < unat n"
proof (induction cs arbitrary: s)
  case (Cons c cs)
  from accepted_by_bounds [of ssl c s] state_after_mono [of s ssl c t] Cons show ?case
    by (auto dest!: Cons.IH)
qed simp

lemma sent_counters_increase: "sorted_wrt (<) (sent_counters ssl next_local validate cs s)"
proof (induction cs arbitrary: s)
  case (Cons c cs)
  from sent_by_bounds [of ssl c s] Cons.IH [of "state_after ssl next_local validate c s"] show ?case
    by (auto simp: word_less_nat_alt Suc_le_eq dest!: sent_counters_above)
qed simp

lemma accepted_counters_increase:
  "sorted_wrt (\<lambda>(t, m) (t', n). t = t' \<longrightarrow> m < n) (accepted_counters ssl next_local validate cs s)"
proof (induction cs arbitrary: s)
  case (Cons c cs)
  from accepted_by_bounds [of ssl c s] Cons.IH [of "state_after ssl next_local validate c s"] show ?case
    by (auto simp: word_less_nat_alt dest!: accepted_counters_above)
qed simp

end

subsection \<open>Properties\<close>

text \<open>
  C12: Counters are never reused. Along any sequence of calls to \<open>Protect\<close>, \<open>Unprotect\<close>, \<open>BuildResponse\<close> and
  \<open>VerifyResponse\<close> on one store in memory, with arbitrary contexts, keys, inputs and behaviour of
  OpenSSL, the counters in the produced APDUs and responses strictly increase. Each of these outputs
  is what \<open>Seal\<close> gives under the nonce that \<open>BuildNonce\<close> makes of the title of the sender and the
  counter in the header, and these nonces are pairwise different, so no two outputs of the store
  are sealed under the same nonce, under whatever keys. For each system title the counters of the
  APDUs and responses that are accepted strictly increase too, so none is accepted twice.
\<close>

theorem counters_never_reused:
  "sorted_wrt (<) (sent_counters ssl NextLocal ValidateRemoteForSystemTitle calls s)
   \<and> sorted_wrt (\<lambda>(t, m) (t', n). t = t' \<longrightarrow> m < n) (accepted_counters ssl NextLocal ValidateRemoteForSystemTitle calls s)
   \<and> sent_counters ssl NextLocal ValidateRemoteForSystemTitle calls s
       = map (\<lambda>m. counter_of (snd m)) (sent_messages ssl NextLocal ValidateRemoteForSystemTitle calls s)
   \<and> distinct (map nonce_of (sent_messages ssl NextLocal ValidateRemoteForSystemTitle calls s))
   \<and> (\<forall>m\<in>set (sent_messages ssl NextLocal ValidateRemoteForSystemTitle calls s). sealed_under ssl (nonce_of m) m)"
  by (intro conjI ballI counters.sent_counters_increase counters.accepted_counters_increase sent_counters_messages
      sent_nonces_distinct [OF strict_sorted_iff [THEN iffD1, THEN conjunct2]] sent_messages_sealed [THEN conjunct2])

text \<open>The instance protects an APDU, answers a challenge and protects the same APDU again.\<close>

abbreviation sample_calls :: "security_call list" where
  "sample_calls \<equiv> [ProtectCall (sample_context 1 2) sample_keys (View [1]),
     BuildResponseCall (sample_context 1 2) sample_keys (View [5, 6]),
     ProtectCall (sample_context 1 2) sample_keys (View [1])]"

theorem counters_never_reused_witness:
  "sent_counters sample_ssl NextLocal ValidateRemoteForSystemTitle sample_calls InMemoryInvocationCounterStore_init = [1, 2, 3]
   \<and> distinct (map nonce_of (sent_messages sample_ssl NextLocal ValidateRemoteForSystemTitle sample_calls
       InMemoryInvocationCounterStore_init))"
proof -
  note facts = sample_ssl_documented sample_facts(1)
  have ctx: "ciphering_context (sample_context 1 2)" "hls_context (sample_context 1 2)"
    using sample_facts(2) [of 1 2] by (simp_all add: ciphering_context_def hls_context_def)
  have keys: "GetAuthenticationKey (GetKey sample_keys) = Inr (sample_key Authentication)" "suite0_key (sample_key Authentication)"
    using facts(2) by (simp_all add: provides_keys_def GetAuthenticationKey_Inr)
  have protect: "\<exists>rest. Protect sample_ssl (GetKey sample_keys) NextLocal (sample_context 1 2) (View [1]) s
      = (Inr (0x30 # WriteBigEndian32 (nextLocal s) @ rest), s\<lparr>nextLocal := nextLocal s + 1\<rparr>)"
    if "nextLocal s \<noteq> - 1" for s
  proof -
    obtain cipher tag where "Seal sample_ssl (sample_key GlobalUnicastEncryption)
        (gcm_parameters (localSystemTitle (sample_context 1 2) @ WriteBigEndian32 (nextLocal s))
          (BuildAad 0x30 (sample_key Authentication)) (View [1])) = Inr (cipher, tag)"
      by (rule Seal_Open [OF facts(1) ciphering_gcm_args(1) [OF ctx(1) facts(2), of "[1]" "nextLocal s"]]) simp_all
    with that Protect_step [where nextOp = NextLocal, OF ctx(1) facts(2), of "View [1]"] show ?thesis
      by (simp add: NextLocal_def bad_view_def)
  qed
  have response: "\<exists>tag. BuildResponse sample_ssl (GetKey sample_keys) NextLocal (sample_context 1 2) (View [5, 6]) s
      = (Inr (0x10 # WriteBigEndian32 (nextLocal s) @ tag), s\<lparr>nextLocal := nextLocal s + 1\<rparr>)"
    if "nextLocal s \<noteq> - 1" for s
  proof -
    have title: "length (localSystemTitle (sample_context 1 2)) = 8" "IsValidSystemTitle (localSystemTitle (sample_context 1 2))"
      using ctx(2) by (simp_all add: hls_context_def)
    obtain tag where "BuildTag sample_ssl (localSystemTitle (sample_context 1 2)) (nextLocal s) [5, 6] (sample_key Authentication)
        = Inr tag"
      by (rule BuildTag_ok [OF facts(1) keys(2) title, of "[5, 6]" "nextLocal s"]) simp_all
    with that keys(1) ctx(2) show ?thesis
      by (simp add: BuildResponse_def hls_context_valid IsValidSecurityByteView_def Let_def try_then_def NextLocal_def
          kGmacSecurityControl_def)
  qed
  have none: "policy (sample_context 1 2) \<noteq> PolicyNone" using ctx(1) by (simp add: ciphering_context_def)
  have sent: "sent_counters sample_ssl NextLocal ValidateRemoteForSystemTitle (c # cs) s
      = nextLocal s # sent_counters sample_ssl NextLocal ValidateRemoteForSystemTitle cs (s\<lparr>nextLocal := nextLocal s + 1\<rparr>)"
    if "nextLocal s \<noteq> - 1" "c \<in> set sample_calls" for c cs s
    using that(2) protect [OF that(1)] response [OF that(1)] none by auto
  have "sent_counters sample_ssl NextLocal ValidateRemoteForSystemTitle sample_calls InMemoryInvocationCounterStore_init = [1, 2, 3]"
    by (simp add: sent InMemoryInvocationCounterStore_init_def del: sent_counters.simps(2))
  with counters_never_reused [of sample_ssl sample_calls InMemoryInvocationCounterStore_init] show ?thesis by blast
qed

text \<open>
  C13: One pass of GMAC authentication. The response to a challenge is accepted by a verifier with the
  same authentication key that knows the title of the claimant, and updates the highest counter;
  the same response is then a replay, and a response with another tag fails and changes nothing.
\<close>

theorem hls_gmac_exchange:
  assumes "documented_gcm ssl" "hls_context cc" "hls_context vc" "remoteSystemTitle vc = localSystemTitle cc"
    and "GetKey ck Authentication = Inr ak" "GetKey vk Authentication = Inr ak" "suite0_key ak"
    and "challenge \<noteq> []" "length challenge \<le> 2 ^ 31 - 18"
    and "nextLocal s \<noteq> - 1" "highest_remote r (localSystemTitle cc) < unat (nextLocal s)"
  shows "\<exists>tag r'. length tag = 16
    \<and> BuildResponse ssl (GetKey ck) NextLocal cc (View challenge) s
        = (Inr (0x10 # WriteBigEndian32 (nextLocal s) @ tag), s\<lparr>nextLocal := nextLocal s + 1\<rparr>)
    \<and> VerifyResponse ssl (GetKey vk) ValidateRemoteForSystemTitle vc (View challenge)
        (View (0x10 # WriteBigEndian32 (nextLocal s) @ tag)) r = (Ok, r')
    \<and> highest_remote r' = (highest_remote r)(localSystemTitle cc := unat (nextLocal s))
    \<and> VerifyResponse ssl (GetKey vk) ValidateRemoteForSystemTitle vc (View challenge)
        (View (0x10 # WriteBigEndian32 (nextLocal s) @ tag)) r' = (ReplayDetected, r')
    \<and> (\<forall>tag'. length tag' = 16 \<and> tag' \<noteq> tag \<longrightarrow>
         VerifyResponse ssl (GetKey vk) ValidateRemoteForSystemTitle vc (View challenge)
           (View (0x10 # WriteBigEndian32 (nextLocal s) @ tag')) r = (AuthenticationFailed, r))"
proof -
  have title: "length (localSystemTitle cc) = 8" "IsValidSystemTitle (localSystemTitle cc)"
    using assms(2) by (simp_all add: hls_context_def)
  obtain tag where tag: "BuildTag ssl (localSystemTitle cc) (nextLocal s) challenge ak = Inr tag" "length tag = 16"
    by (rule BuildTag_ok [OF assms(1,7) title assms(9)])
  from counters.validate_fresh [OF title(1) assms(11)] obtain r'
    where ok: "ValidateRemoteForSystemTitle (View (localSystemTitle cc)) (nextLocal s) r = (Ok, r')" by blast
  have "BuildResponse ssl (GetKey ck) NextLocal cc (View challenge) s
        = (Inr (0x10 # WriteBigEndian32 (nextLocal s) @ tag), s\<lparr>nextLocal := nextLocal s + 1\<rparr>)"
    using assms(2,5,7,8,10) tag(1)
    by (simp add: BuildResponse_def hls_context_valid GetAuthenticationKey_Inr IsValidSecurityByteView_def Let_def
        try_then_def NextLocal_def kGmacSecurityControl_def)
  moreover note VerifyResponse_step [where getKey = "GetKey vk" and validate = ValidateRemoteForSystemTitle and c = "nextLocal s",
      OF assms(3,6,7,8)] assms(4) tag ok counters.validate_Ok [OF ok] counters.validate_again [OF ok title(1)]
  ultimately show ?thesis by (intro exI [of _ tag] exI [of _ r']) auto
qed

theorem hls_gmac_exchange_witness:
  "\<exists>tag r'. length tag = 16
    \<and> BuildResponse sample_ssl (GetKey sample_keys) NextLocal (sample_context 1 2) (View [5, 6]) InMemoryInvocationCounterStore_init
        = (Inr (0x10 # WriteBigEndian32 1 @ tag), InMemoryInvocationCounterStore_init\<lparr>nextLocal := 2\<rparr>)
    \<and> VerifyResponse sample_ssl (GetKey sample_keys) ValidateRemoteForSystemTitle (sample_context 2 1) (View [5, 6])
        (View (0x10 # WriteBigEndian32 1 @ tag)) InMemoryInvocationCounterStore_init = (Ok, r')"
proof -
  have "hls_context (sample_context 1 2)" "hls_context (sample_context 2 1)"
    by (simp_all add: hls_context_def sample_context_def EmptySecurityContext_def IsValidSystemTitle_def)
  moreover have "GetKey sample_keys Authentication = Inr (sample_key Authentication)" "suite0_key (sample_key Authentication)"
    using sample_facts(1) by (simp_all add: provides_keys_def)
  ultimately show ?thesis
    using hls_gmac_exchange [OF sample_ssl_documented, of "sample_context 1 2" "sample_context 2 1" sample_keys _ sample_keys
        "[5, 6]" InMemoryInvocationCounterStore_init InMemoryInvocationCounterStore_init]
    by (auto simp: sample_context_def InMemoryInvocationCounterStore_init_def highest_remote_def)
qed

end
