(* ===== verification/Security_KeyWrap.thy ===== *)
theory Security_KeyWrap
  imports Security_Types
begin

text \<open>
  The AES key wrap of suite 0, \<open>suite0_key_wrap.cpp\<close>. The block cipher is a parameter: \<open>aes\<close> takes the
  direction (true for encryption), the key and a block, and gives None when a call of OpenSSL
  fails. Both loops are folds over the list of their index pairs.
\<close>

type_synonym block_cipher = "bool \<Rightarrow> bytes \<Rightarrow> bytes \<Rightarrow> bytes option"

definition kDefaultIntegrityValue :: bytes where
  "kDefaultIntegrityValue = replicate 8 0xa6"

definition kKeySize :: nat where "kKeySize = 16"
definition kWrappedKeySize :: nat where "kWrappedKeySize = 24"

definition ValidateKeyWrapInput :: "SecurityKey \<Rightarrow> view \<Rightarrow> nat \<Rightarrow> SecurityStatus" where
  "ValidateKeyWrapInput keyEncryptionKey inp expectedSize =
     (let keyStatus = ValidateSecurityKey Suite0 keyEncryptionKey in
      if keyStatus \<noteq> Ok then keyStatus
      else if \<not> IsValidSecurityByteView inp \<or> view_size inp \<noteq> expectedSize then InvalidArgument
      else Ok)"

definition AesEcbCryptBlock :: "block_cipher \<Rightarrow> bool \<Rightarrow> SecurityKey \<Rightarrow> bytes \<Rightarrow> SecurityStatus + bytes" where
  "AesEcbCryptBlock aes encrypt key block =
     (case aes encrypt (take 16 (keyBytes key)) block of
        None \<Rightarrow> Inl (if encrypt then CipherFailed else DecipherFailed)
      | Some out \<Rightarrow>
          if length out \<noteq> 16 then Inl (if encrypt then CipherFailed else DecipherFailed) else Inr out)"

text \<open>The loop over \<open>a[i - 1]\<close>, \<open>a[i - 2]\<close>, ... while \<open>t\<close> is not zero.\<close>

fun XorAWithT_loop :: "nat \<Rightarrow> bytes \<Rightarrow> u32 \<Rightarrow> bytes" where
  "XorAWithT_loop 0 a t = a"
| "XorAWithT_loop (Suc i) a t =
     (if t = 0 then a else XorAWithT_loop i (a[i := a ! i XOR ucast (t AND 0xff)]) (drop_bit 8 t))"

definition XorAWithT :: "bytes \<Rightarrow> u32 \<Rightarrow> bytes" where
  "XorAWithT a t = XorAWithT_loop 8 a t"

text \<open>The registers: \<open>a\<close> and the two halves \<open>r\<close> of the key.\<close>

definition wrap_step :: "block_cipher \<Rightarrow> SecurityKey \<Rightarrow> nat \<times> nat \<Rightarrow> bytes \<times> bytes list \<Rightarrow> SecurityStatus + bytes \<times> bytes list" where
  "wrap_step aes kek = (\<lambda>(j, i) (a, r).
     case AesEcbCryptBlock aes True kek (a @ r ! i) of
       Inl status \<Rightarrow> Inl status
     | Inr encrypted \<Rightarrow> Inr (XorAWithT (take 8 encrypted) (of_nat (2 * j + i + 1)), r[i := drop 8 encrypted]))"

definition unwrap_step :: "block_cipher \<Rightarrow> SecurityKey \<Rightarrow> nat \<times> nat \<Rightarrow> bytes \<times> bytes list \<Rightarrow> SecurityStatus + bytes \<times> bytes list" where
  "unwrap_step aes kek = (\<lambda>(j, i) (a, r).
     case AesEcbCryptBlock aes False kek (XorAWithT a (of_nat (2 * (j - 1) + i)) @ r ! (i - 1)) of
       Inl status \<Rightarrow> Inl status
     | Inr decrypted \<Rightarrow> Inr (take 8 decrypted, r[i - 1 := drop 8 decrypted]))"

fun run_steps :: "('i \<Rightarrow> 'a \<Rightarrow> 'e + 'a) \<Rightarrow> 'i list \<Rightarrow> 'a \<Rightarrow> 'e + 'a" where
  "run_steps step [] x = Inr x"
| "run_steps step (i # is) x = (case step i x of Inl e \<Rightarrow> Inl e | Inr y \<Rightarrow> run_steps step is y)"

definition wrap_indices :: "(nat \<times> nat) list" where
  "wrap_indices = concat (map (\<lambda>j. map (Pair j) [0, 1]) [0, 1, 2, 3, 4, 5])"

definition unwrap_indices :: "(nat \<times> nat) list" where
  "unwrap_indices = concat (map (\<lambda>j. map (Pair j) [2, 1]) [6, 5, 4, 3, 2, 1])"

definition Wrap :: "block_cipher \<Rightarrow> SecurityKey \<Rightarrow> view \<Rightarrow> SecurityStatus + bytes" where
  "Wrap aes keyEncryptionKey plainKey =
     (let validation = ValidateKeyWrapInput keyEncryptionKey plainKey kKeySize; inp = view_bytes plainKey in
      if validation \<noteq> Ok then Inl validation
      else case run_steps (wrap_step aes keyEncryptionKey) wrap_indices
          (kDefaultIntegrityValue, [take 8 inp, take 8 (drop 8 inp)]) of
        Inl status \<Rightarrow> Inl status
      | Inr (a, r) \<Rightarrow> Inr (a @ r ! 0 @ r ! 1))"

definition Unwrap :: "block_cipher \<Rightarrow> SecurityKey \<Rightarrow> view \<Rightarrow> SecurityStatus + bytes" where
  "Unwrap aes keyEncryptionKey wrappedKey =
     (let validation = ValidateKeyWrapInput keyEncryptionKey wrappedKey kWrappedKeySize; inp = view_bytes wrappedKey in
      if validation \<noteq> Ok then Inl validation
      else case run_steps (unwrap_step aes keyEncryptionKey) unwrap_indices
          (take 8 inp, [take 8 (drop 8 inp), take 8 (drop 16 inp)]) of
        Inl status \<Rightarrow> Inl status
      | Inr (a, r) \<Rightarrow>
          if a \<noteq> kDefaultIntegrityValue then Inl AuthenticationFailed else Inr (r ! 0 @ r ! 1))"

subsection \<open>Steps are inverse\<close>

lemma XorAWithT_loop_update: "i \<le> j \<Longrightarrow> XorAWithT_loop i (a[j := b]) t = (XorAWithT_loop i a t)[j := b]"
proof (induction i arbitrary: a t)
  case (Suc i)
  then have "a[j := b, i := x] = a[i := x, j := b]" for x by (intro list_update_swap) simp
  with Suc show ?case by simp
qed simp

lemma XorAWithT_loop_nth: "i \<le> j \<Longrightarrow> XorAWithT_loop i a t ! j = a ! j"
  by (induction i arbitrary: a t) simp_all

lemma length_XorAWithT_loop [simp]: "length (XorAWithT_loop i a t) = length a"
  by (induction i arbitrary: a t) simp_all

lemma XorAWithT_loop_twice: "i \<le> length a \<Longrightarrow> XorAWithT_loop i (XorAWithT_loop i a t) t = a"
proof (induction i arbitrary: a t)
  case (Suc i)
  then show ?case
    by (simp add: XorAWithT_loop_nth XorAWithT_loop_update [symmetric] xor.assoc del: XorAWithT_loop_update)
qed simp

lemma XorAWithT_twice: "length a = 8 \<Longrightarrow> XorAWithT (XorAWithT a t) t = a"
  by (simp add: XorAWithT_def XorAWithT_loop_twice)

lemma length_XorAWithT [simp]: "length (XorAWithT a t) = length a"
  by (simp add: XorAWithT_def)

text \<open>
  AES with a fixed key is a permutation of the blocks, and OpenSSL gives both directions.
\<close>

definition documented_aes :: "block_cipher \<Rightarrow> bool" where
  "documented_aes aes \<longleftrightarrow> (\<forall>k b. length k = 16 \<and> length b = 16 \<longrightarrow>
     (\<exists>c. length c = 16 \<and> aes True k b = Some c \<and> aes False k c = Some b)
     \<and> (\<exists>d. length d = 16 \<and> aes False k b = Some d \<and> aes True k d = Some b))"

definition registers :: "bytes \<times> bytes list \<Rightarrow> bool" where
  "registers = (\<lambda>(a, r). length a = 8 \<and> length r = 2 \<and> (\<forall>b \<in> set r. length b = 8))"

lemma crypt_block:
  assumes "documented_aes aes" "suite0_key kek" "length b = 16"
  obtains c d where "length c = 16" "AesEcbCryptBlock aes True kek b = Inr c" "AesEcbCryptBlock aes False kek c = Inr b"
    "length d = 16" "AesEcbCryptBlock aes False kek b = Inr d" "AesEcbCryptBlock aes True kek d = Inr b"
proof -
  have "length (take 16 (keyBytes kek)) = 16" using assms(2) by (simp add: suite0_key_def)
  with assms(1,3) obtain c d where "length c = 16" "aes True (take 16 (keyBytes kek)) b = Some c"
    "aes False (take 16 (keyBytes kek)) c = Some b" "length d = 16" "aes False (take 16 (keyBytes kek)) b = Some d"
    "aes True (take 16 (keyBytes kek)) d = Some b"
    unfolding documented_aes_def by blast
  with that assms(3) show thesis by (simp add: AesEcbCryptBlock_def)
qed

text \<open>One step of wrapping and the step of unwrapping with the same indices.\<close>

lemma unwrap_step_Suc:
  "unwrap_step aes kek (Suc j, Suc i) (a, r) =
    (case AesEcbCryptBlock aes False kek (XorAWithT a (of_nat (2 * j + i + 1)) @ r ! i) of
       Inl status \<Rightarrow> Inl status
     | Inr decrypted \<Rightarrow> Inr (take 8 decrypted, r[i := drop 8 decrypted]))"
  unfolding unwrap_step_def by (simp add: ac_simps split: sum.split)

lemma wrap_unwrap_step:
  assumes aes: "documented_aes aes" "suite0_key kek" and st: "registers st" and i: "i < 2"
  obtains st' where "registers st'" "wrap_step aes kek (j, i) st = Inr st'" "unwrap_step aes kek (Suc j, Suc i) st' = Inr st"
proof -
  obtain a r where [simp]: "st = (a, r)" by (cases st)
  have len: "length (a @ r ! i) = 16" "i < length r" "length a = 8" "length (r ! i) = 8"
    using st i by (auto simp: registers_def)
  obtain c where c: "length c = 16" "AesEcbCryptBlock aes True kek (a @ r ! i) = Inr c"
    "AesEcbCryptBlock aes False kek c = Inr (a @ r ! i)"
    by (rule crypt_block [OF aes len(1)])
  let ?st' = "(XorAWithT (take 8 c) (of_nat (2 * j + i + 1)), r[i := drop 8 c])"
  have "registers ?st'" using st i c(1) by (auto simp: registers_def dest!: set_update_subset_insert [THEN subsetD])
  moreover have "wrap_step aes kek (j, i) st = Inr ?st'" using c(2) by (simp add: wrap_step_def)
  moreover have "unwrap_step aes kek (Suc j, Suc i) ?st' = Inr st"
    using c len by (simp add: unwrap_step_Suc XorAWithT_twice)
  ultimately show thesis by (rule that)
qed

lemma unwrap_wrap_step:
  assumes aes: "documented_aes aes" "suite0_key kek" and st: "registers st" and i: "i < 2"
  obtains st' where "registers st'" "unwrap_step aes kek (Suc j, Suc i) st = Inr st'" "wrap_step aes kek (j, i) st' = Inr st"
proof -
  obtain a r where [simp]: "st = (a, r)" by (cases st)
  let ?t = "of_nat (2 * j + i + 1)"
  have len: "length (XorAWithT a ?t @ r ! i) = 16" "i < length r" "length a = 8" "length (r ! i) = 8"
    using st i by (auto simp: registers_def)
  obtain d where d: "length d = 16" "AesEcbCryptBlock aes False kek (XorAWithT a ?t @ r ! i) = Inr d"
    "AesEcbCryptBlock aes True kek d = Inr (XorAWithT a ?t @ r ! i)"
    by (rule crypt_block [OF aes len(1)])
  let ?st' = "(take 8 d, r[i := drop 8 d])"
  have "registers ?st'" using st i d(1) by (auto simp: registers_def dest!: set_update_subset_insert [THEN subsetD])
  moreover have "unwrap_step aes kek (Suc j, Suc i) st = Inr ?st'" using d(2) by (simp only: \<open>st = (a, r)\<close> unwrap_step_Suc sum.case)
  moreover have "wrap_step aes kek (j, i) ?st' = Inr st"
    using d(3) len XorAWithT_twice [OF len(3), of ?t] by (simp add: wrap_step_def)
  ultimately show thesis by (rule that)
qed

text \<open>Runs of inverse steps: a general law, for both directions.\<close>

lemma run_steps_append:
  "run_steps step (is @ js) x = (case run_steps step is x of Inl e \<Rightarrow> Inl e | Inr y \<Rightarrow> run_steps step js y)"
  by (induction "is" arbitrary: x) (simp_all split: sum.split)

lemma run_inverse:
  assumes step: "\<And>i x. i \<in> set is \<Longrightarrow> ok x \<Longrightarrow> \<exists>y. ok y \<and> fwd i x = Inr y \<and> bwd (f i) y = Inr x"
    and "ok x"
  shows "\<exists>y. ok y \<and> run_steps fwd is x = Inr y \<and> run_steps bwd (rev (map f is)) y = Inr x"
  using assms
proof (induction "is" arbitrary: x)
  case (Cons i "is")
  from Cons.prems obtain y where y: "ok y" "fwd i x = Inr y" "bwd (f i) y = Inr x" by (meson list.set_intros(1))
  from Cons.IH [OF _ y(1)] Cons.prems(1) obtain z
    where "ok z" "run_steps fwd is y = Inr z" "run_steps bwd (rev (map f is)) z = Inr y" by (meson list.set_intros(2))
  with y show ?case by (auto simp: run_steps_append)
qed simp

definition up :: "nat \<times> nat \<Rightarrow> nat \<times> nat" where
  "up = (\<lambda>(j, i). (Suc j, Suc i))"

definition down :: "nat \<times> nat \<Rightarrow> nat \<times> nat" where
  "down = (\<lambda>(j, i). (j - 1, i - 1))"

lemma indices: "unwrap_indices = rev (map up wrap_indices)" "wrap_indices = rev (map down unwrap_indices)"
  by (simp_all add: unwrap_indices_def wrap_indices_def up_def down_def)

lemma wrap_run:
  assumes "documented_aes aes" "suite0_key kek" "registers st"
  shows "\<exists>st'. registers st' \<and> run_steps (wrap_step aes kek) wrap_indices st = Inr st'
    \<and> run_steps (unwrap_step aes kek) unwrap_indices st' = Inr st"
  unfolding indices(1)
proof (rule run_inverse [where ok = registers and x = st])
  fix p x assume "p \<in> set wrap_indices" "registers x"
  then obtain j i where p: "p = (j, i)" "i < 2" by (auto simp: wrap_indices_def)
  obtain y where "registers y" "wrap_step aes kek (j, i) x = Inr y" "unwrap_step aes kek (Suc j, Suc i) y = Inr x"
    by (rule wrap_unwrap_step [OF assms(1,2) \<open>registers x\<close> p(2), of j])
  then show "\<exists>y. registers y \<and> wrap_step aes kek p x = Inr y \<and> unwrap_step aes kek (up p) y = Inr x"
    by (intro exI [of _ y]) (simp add: p(1) up_def)
qed (fact assms(3))

lemma unwrap_run:
  assumes "documented_aes aes" "suite0_key kek" "registers st"
  shows "\<exists>st'. registers st' \<and> run_steps (unwrap_step aes kek) unwrap_indices st = Inr st'
    \<and> run_steps (wrap_step aes kek) wrap_indices st' = Inr st"
  unfolding indices(2)
proof (rule run_inverse [where ok = registers and x = st])
  fix p x assume "p \<in> set unwrap_indices" "registers x"
  then obtain j i where p: "p = (Suc j, Suc i)" "i < 2" by (auto simp: unwrap_indices_def)
  obtain y where "registers y" "unwrap_step aes kek (Suc j, Suc i) x = Inr y" "wrap_step aes kek (j, i) y = Inr x"
    by (rule unwrap_wrap_step [OF assms(1,2) \<open>registers x\<close> p(2), of j])
  then show "\<exists>y. registers y \<and> unwrap_step aes kek p x = Inr y \<and> wrap_step aes kek (down p) y = Inr x"
    by (intro exI [of _ y]) (simp add: p(1) down_def)
qed (fact assms(3))

text \<open>Lists of 16 and 24 bytes as registers.\<close>

lemma registers_bytes:
  "length p = 16 \<Longrightarrow> take 8 p @ take 8 (drop 8 p) = p"
  "length w = 24 \<Longrightarrow> take 8 w @ take 8 (drop 8 w) @ take 8 (drop 16 w) = w"
  using append_take_drop_id [of 8 "drop 8 w"] append_take_drop_id [of 8 w]
  by (auto simp: registers_def min_def)

lemma registers_cases:
  assumes "registers st"
  obtains a x y where "st = (a, [x, y])" "length a = 8" "length x = 8" "length y = 8"
  using assms that by (cases st) (auto simp: registers_def numeral_2_eq_2 length_Suc_conv)

subsection \<open>Properties\<close>

text \<open>Wrapping and unwrapping are inverse.\<close>

lemma wrap_unwrap:
  assumes "documented_aes aes" "suite0_key kek"
  shows "(Wrap aes kek (View p) = Inr w \<longleftrightarrow> Unwrap aes kek (View w) = Inr p)
    \<and> (length p = 16 \<longrightarrow> (\<exists>w. Wrap aes kek (View p) = Inr w \<and> length w = 24))"
proof -
  note valid = suite0_key_valid [OF assms(2)] kKeySize_def kWrappedKeySize_def IsValidSecurityByteView_def
  have wrap: "\<exists>w. Wrap aes kek (View p) = Inr w \<and> length w = 24 \<and> Unwrap aes kek (View w) = Inr p" if "length p = 16" for p
  proof -
    have "registers (kDefaultIntegrityValue, [take 8 p, take 8 (drop 8 p)])"
      using that by (simp add: registers_def kDefaultIntegrityValue_def)
    from wrap_run [OF assms this] obtain st where st: "registers st"
      "run_steps (wrap_step aes kek) wrap_indices (kDefaultIntegrityValue, [take 8 p, take 8 (drop 8 p)]) = Inr st"
      "run_steps (unwrap_step aes kek) unwrap_indices st = Inr (kDefaultIntegrityValue, [take 8 p, take 8 (drop 8 p)])"
      by blast
    from st(1) obtain a x y where "st = (a, [x, y])" "length a = 8" "length x = 8" "length y = 8" by (rule registers_cases)
    with st that registers_bytes(1) [OF that] show ?thesis
      by (intro exI [of _ "a @ x @ y"]) (simp add: Wrap_def Unwrap_def ValidateKeyWrapInput_def valid Let_def)
  qed
  have unwrap: "Wrap aes kek (View p) = Inr w" if u: "Unwrap aes kek (View w) = Inr p" for p w
  proof -
    have len: "length w = 24" using u by (auto simp: Unwrap_def ValidateKeyWrapInput_def valid Let_def split: if_splits)
    then have "registers (take 8 w, [take 8 (drop 8 w), take 8 (drop 16 w)])" by (simp add: registers_def)
    from unwrap_run [OF assms this] obtain st where st: "registers st"
      "run_steps (unwrap_step aes kek) unwrap_indices (take 8 w, [take 8 (drop 8 w), take 8 (drop 16 w)]) = Inr st"
      "run_steps (wrap_step aes kek) wrap_indices st = Inr (take 8 w, [take 8 (drop 8 w), take 8 (drop 16 w)])"
      by blast
    from st(1) obtain a x y where "st = (a, [x, y])" "length a = 8" "length x = 8" "length y = 8" by (rule registers_cases)
    with st len u registers_bytes(2) [OF len] show ?thesis
      by (auto simp: Wrap_def Unwrap_def ValidateKeyWrapInput_def valid Let_def split: if_splits)
  qed
  have "length p = 16" if "Wrap aes kek (View p) = Inr w" for p w
    using that by (auto simp: Wrap_def ValidateKeyWrapInput_def valid Let_def split: if_splits)
  with wrap unwrap show ?thesis by (metis sum.inject(2))
qed

text \<open>
  C14: Key wrapping. With AES as a permutation of blocks, wrapping a key of 16 bytes gives 24 bytes,
  and unwrapping accepts exactly the bytes that wrapping produces, with the key they were
  produced from: \<open>Unwrap\<close> is the inverse of \<open>Wrap\<close>, and everything else is refused.
\<close>

theorem key_wrap_inverse:
  assumes "documented_aes aes" "suite0_key kek"
  shows "(Wrap aes kek (View p) = Inr w \<longleftrightarrow> Unwrap aes kek (View w) = Inr p)
    \<and> (length p = 16 \<longrightarrow> (\<exists>w. Wrap aes kek (View p) = Inr w \<and> length w = 24))"
  by (rule wrap_unwrap [OF assms])

theorem key_wrap_inverse_witness:
  "\<exists>w. Wrap (\<lambda>e k b. Some (rev b)) \<lparr>keyRole = KeyEncryption, keyBytes = replicate 32 1, keySize = 16\<rparr> (View (replicate 16 9)) = Inr w
    \<and> length w = 24"
proof -
  have "documented_aes (\<lambda>e k b. Some (rev b))" by (simp add: documented_aes_def)
  from key_wrap_inverse [OF this, of "\<lparr>keyRole = KeyEncryption, keyBytes = replicate 32 1, keySize = 16\<rparr>" "replicate 16 9" "[]"]
  show ?thesis by (simp add: suite0_key_def)
qed

end
