(* ===== verification/Axdr.thy ===== *)
theory Axdr
  imports Apdu_IO
begin

text \<open>
  The A-XDR primitives (\<open>axdr.cpp\<close>) over the reader and writer: booleans, optional flags, lengths
  of one to nine octets, octet strings and the conformance block, each shown to implement the
  interface \<open>wire_codec\<close>.
\<close>

fun octet_count :: "nat \<Rightarrow> nat" where
  "octet_count remaining = (if remaining = 0 then 0 else 1 + octet_count (remaining div 256))"

declare octet_count.simps [simp del]

definition AxdrLengthEncodedSize :: "nat \<Rightarrow> nat" where
  "AxdrLengthEncodedSize len = (if len < 0x80 then 1 else 1 + octet_count len)"

definition ReadAxdrBoolean :: "bool reading" where
  "ReadAxdrBoolean = try_then ReadU8 (\<lambda>raw. yield (raw \<noteq> 0))"

definition WriteAxdrBoolean :: "bool \<Rightarrow> writing" where
  "WriteAxdrBoolean v = WriteU8 (if v then 0x01 else 0x00)"

definition ReadAxdrOptionalFlag :: "bool reading" where
  "ReadAxdrOptionalFlag = try_then ReadU8 (\<lambda>raw. if raw > 1 then refuse InvalidAxdr else yield (raw \<noteq> 0))"

definition WriteAxdrOptionalFlag :: "bool \<Rightarrow> writing" where
  "WriteAxdrOptionalFlag present = WriteU8 (if present then 0x01 else 0x00)"

definition ReadAxdrLength :: "nat reading" where
  "ReadAxdrLength = try_then ReadU8 (\<lambda>first.
     if first AND 0x80 = 0 then yield (unat first)
     else
       let lengthOctets = unat (first AND 0x7f) in
       if lengthOctets = 0 \<or> lengthOctets > 8 then refuse InvalidLength
       else try_then (ReadOctets_loop lengthOctets 0) (\<lambda>result.
         if result < 0x80 then refuse InvalidLength else yield (unat result)))"

text \<open>The octets of a length, filled into the array from its end.\<close>

fun length_octets :: "nat \<Rightarrow> bytes \<Rightarrow> bytes" where
  "length_octets remaining encoded =
     (if remaining = 0 then encoded
      else length_octets (remaining div 256) (word_of_nat (remaining mod 256) # encoded))"

declare length_octets.simps [simp del]

definition WriteAxdrLength :: "nat \<Rightarrow> writing" where
  "WriteAxdrLength len w =
     (if writer_remaining w < AxdrLengthEncodedSize len then (Inl OutputBufferTooSmall, w)
      else if len < 0x80 then WriteU8 (word_of_nat len) w
      else
        let encoded = length_octets len [];
            encodedSize = octet_count len
        in try_then (WriteU8 (0x80 OR word_of_nat encodedSize)) (\<lambda>_. WriteBytes (View encoded)) w)"

definition ReadAxdrOctetString :: "bytes reading" where
  "ReadAxdrOctetString = try_then ReadAxdrLength ReadBytes"

definition WriteAxdrOctetString :: "view \<Rightarrow> writing" where
  "WriteAxdrOctetString v w =
     (if bad_view v then (Inl InvalidArgument, w)
      else if writer_remaining w < AxdrLengthEncodedSize (view_size v) + view_size v
        then (Inl OutputBufferTooSmall, w)
      else try_then (WriteAxdrLength (view_size v)) (\<lambda>_. WriteBytes v) w)"

text \<open>The three conformance bytes.\<close>

definition ReadAxdrConformance :: "bytes reading" where
  "ReadAxdrConformance = try_then ReadU8 (\<lambda>tag0. try_then ReadU8 (\<lambda>tag1. try_then ReadU8 (\<lambda>len.
     try_then ReadU8 (\<lambda>unusedBits.
       if tag0 \<noteq> 0x5f \<or> tag1 \<noteq> 0x1f \<or> len \<noteq> 0x04 \<or> unusedBits \<noteq> 0x00 then refuse InvalidConformance
       else read_many 3 ReadU8))))"

definition WriteAxdrConformance :: "bytes \<Rightarrow> writing" where
  "WriteAxdrConformance v w =
     (if writer_remaining w < 7 then (Inl OutputBufferTooSmall, w)
      else try_then (WriteU8 0x5f) (\<lambda>_. try_then (WriteU8 0x1f) (\<lambda>_. try_then (WriteU8 0x04) (\<lambda>_.
        try_then (WriteU8 0x00) (\<lambda>_. WriteBytes (View v))))) w)"

subsection \<open>Lengths\<close>

definition length_bytes :: "nat \<Rightarrow> bytes" where
  "length_bytes n = (if n < 0x80 then [word_of_nat n] else (0x80 OR word_of_nat (octet_count n)) # length_octets n [])"

lemma length_length_octets: "length (length_octets n acc) = octet_count n + length acc"
  by (induction n acc rule: length_octets.induct)
    (subst length_octets.simps, subst octet_count.simps, simp)

lemma length_octets_append: "length_octets n acc = length_octets n [] @ acc"
proof (induction n arbitrary: acc rule: octet_count.induct)
  case (1 n)
  show ?case
  proof (cases "n = 0")
    case False
    let ?b = "word_of_nat (n mod 256) :: u8"
    have "length_octets (n div 256) (?b # acc) = length_octets (n div 256) [] @ ?b # acc"
      "length_octets (n div 256) [?b] = length_octets (n div 256) [] @ [?b]"
      by (rule "1.IH" [OF False])+
    with False show ?thesis
      using length_octets.simps [of n acc] length_octets.simps [of n "[]"] by simp
  qed (simp add: length_octets.simps)
qed

lemma be_value_length_octets: "be_value (length_octets n []) = n"
proof (induction n rule: octet_count.induct)
  case (1 n)
  show ?case
  proof (cases "n = 0")
    case False
    have "length_octets n [] = length_octets (n div 256) [] @ [word_of_nat (n mod 256)]"
      using False length_octets_append [of "n div 256" "[word_of_nat (n mod 256)]"]
      by (subst length_octets.simps) simp
    with "1.IH" [OF False] show ?thesis by (simp add: be_value_snoc unat_of_nat)
  qed (simp add: length_octets.simps be_value_def)
qed

lemma octet_count_le: "n < 256 ^ k \<Longrightarrow> octet_count n \<le> k"
proof (induction k arbitrary: n)
  case (Suc k)
  then have "n div 256 < 256 ^ k" by (simp add: less_mult_imp_div_less mult.commute)
  with Suc.IH [of "n div 256"] show ?case by (subst octet_count.simps) simp
qed (simp add: octet_count.simps)

lemma octet_count_8: "n < size_t_modulus \<Longrightarrow> octet_count n \<le> 8"
  by (rule octet_count_le) (simp add: size_t_modulus_def)

lemma octet_count_pos: "0 < n \<Longrightarrow> 0 < octet_count n"
  by (subst octet_count.simps) simp

lemma length_length_bytes: "length (length_bytes n) = AxdrLengthEncodedSize n"
  by (simp add: length_bytes_def AxdrLengthEncodedSize_def length_length_octets)

text \<open>The first octet of a long length.\<close>

lemma long_form:
  assumes "0 < k" "k \<le> 8"
  shows "(0x80 OR word_of_nat k) AND 0x80 \<noteq> (0 :: u8)" "unat ((0x80 OR word_of_nat k) AND (0x7f :: u8)) = k"
proof -
  from assms have "k \<in> {1, 2, 3, 4, 5, 6, 7, 8}" by auto
  then show "(0x80 OR word_of_nat k) AND 0x80 \<noteq> (0 :: u8)" "unat ((0x80 OR word_of_nat k) AND (0x7f :: u8)) = k"
    by auto
qed

lemma short_form: "n < 0x80 \<Longrightarrow> word_of_nat n AND 0x80 = (0 :: u8)" "n < 0x80 \<Longrightarrow> unat (word_of_nat n :: u8) = n"
proof -
  assume n: "n < 0x80"
  show "unat (word_of_nat n :: u8) = n" using n by (simp add: unat_of_nat)
  have "\<not> bit n 7" using n by (simp add: bit_iff_odd)
  then have "word_of_nat n AND push_bit 7 (1 :: u8) = 0"
  proof (intro bit_word_eqI)
    fix k
    assume "\<not> bit n 7"
    then show "bit (word_of_nat n AND push_bit 7 (1 :: u8)) k = bit 0 k"
      by (cases "k = 7") (auto simp: bit_simps simp del: push_bit_of_1)
  qed
  then show "word_of_nat n AND 0x80 = (0 :: u8)" by simp
qed

lemma reads_length:
  assumes "n < size_t_modulus"
  shows "reads ReadAxdrLength (length_bytes n) n"
proof (cases "n < 0x80")
  case True
  then show ?thesis
    using reads_then [OF reads_ReadU8, of _ "word_of_nat n" "[]" n] short_form [OF True]
    by (simp add: ReadAxdrLength_def length_bytes_def)
next
  case False
  let ?k = "octet_count n" and ?bs = "length_octets n []"
  have k: "0 < ?k" "?k \<le> 8" using False assms octet_count_pos [of n] octet_count_8 by auto
  have len: "length ?bs = ?k" by (simp add: length_length_octets)
  have v: "unat (accumulate 0 ?bs) = n" using unat_accumulate [of ?bs] be_value_length_octets [of n] len k by simp
  then have "\<not> accumulate 0 ?bs < 0x80" using False by (simp add: word_less_nat_alt)
  then have "reads (try_then (ReadOctets_loop ?k 0) (\<lambda>result.
      if result < 0x80 then refuse InvalidLength else yield (unat result))) ?bs n"
    using reads_then [OF reads_ReadOctets_loop [OF len], of _ 0 "[]" n] v by simp
  then show ?thesis
    using reads_then [OF reads_ReadU8, of _ "0x80 OR word_of_nat ?k" ?bs n] long_form [OF k] k False
    by (simp add: ReadAxdrLength_def length_bytes_def)
qed

lemma writes_length: "writes (WriteAxdrLength n) (length_bytes n)"
proof (rule writes_guarded [where P = "\<lambda>w. writer_remaining w < AxdrLengthEncodedSize n"])
  show "writes (if n < 0x80 then WriteU8 (word_of_nat n)
      else try_then (WriteU8 (0x80 OR word_of_nat (octet_count n))) (\<lambda>_. WriteBytes (View (length_octets n [])))) (length_bytes n)"
    using writes_then [OF writes_WriteU8 writes_WriteBytes [of "View (length_octets n [])"]]
    by (auto simp: length_bytes_def)
qed (simp_all add: WriteAxdrLength_def length_length_bytes Let_def)

lemma safe_ReadAxdrLength [simp]: "safe_read ReadAxdrLength"
  unfolding ReadAxdrLength_def Let_def by (intro safe_read_then safe_read_if_const) simp_all

lemma yields_ReadAxdrLength: "yields ReadAxdrLength (\<lambda>n. n < size_t_modulus)"
proof -
  have small: "unat (b :: u8) < size_t_modulus" for b using unat_u8_less [of b] by (simp add: size_t_modulus_def)
  have "unat (u :: u64) < size_t_modulus" for u using unsigned_less [of u] by (simp add: size_t_modulus_def)
  with small show ?thesis unfolding ReadAxdrLength_def Let_def by (intro yields_any yields_if) simp_all
qed

interpretation lengthc: wire_codec "\<lambda>n. n < size_t_modulus" length_bytes ReadAxdrLength WriteAxdrLength
  by unfold_locales (simp_all add: reads_length writes_length yields_ReadAxdrLength)

subsection \<open>The other primitives\<close>

interpretation boolc: wire_codec "\<lambda>_. True" "\<lambda>b. [if b then 1 else 0]" ReadAxdrBoolean WriteAxdrBoolean
proof unfold_locales
  show "reads ReadAxdrBoolean [if b then 1 else 0] b" for b
    by (simp add: ReadAxdrBoolean_def reads_def try_then_def ReadU8_at)
  show "safe_read ReadAxdrBoolean" unfolding ReadAxdrBoolean_def by (intro safe_read_then) simp_all
qed (simp_all add: WriteAxdrBoolean_def)

interpretation flagc: wire_codec "\<lambda>_. True" "\<lambda>b. [if b then 1 else 0]" ReadAxdrOptionalFlag WriteAxdrOptionalFlag
proof unfold_locales
  show "reads ReadAxdrOptionalFlag [if b then 1 else 0] b" for b
    by (simp add: ReadAxdrOptionalFlag_def reads_def try_then_def ReadU8_at)
  show "safe_read ReadAxdrOptionalFlag"
    unfolding ReadAxdrOptionalFlag_def by (intro safe_read_then safe_read_if_const) simp_all
qed (simp_all add: WriteAxdrOptionalFlag_def)

definition octet_string_bytes :: "bytes \<Rightarrow> bytes" where
  "octet_string_bytes bs = length_bytes (length bs) @ bs"

lemma writes_octet_string:
  assumes "\<not> bad_view v"
  shows "writes (WriteAxdrOctetString v) (octet_string_bytes (view_bytes v))"
proof (rule writes_guarded [where P = "\<lambda>w. writer_remaining w < AxdrLengthEncodedSize (view_size v) + view_size v"])
  show "writes (try_then (WriteAxdrLength (view_size v)) (\<lambda>_. WriteBytes v)) (octet_string_bytes (view_bytes v))"
    unfolding octet_string_bytes_def view_size_bytes [OF assms, symmetric]
    by (rule writes_then [OF writes_length writes_WriteBytes [OF assms]])
qed (use assms view_size_bytes [OF assms] in
    \<open>simp_all add: WriteAxdrOctetString_def octet_string_bytes_def length_length_bytes\<close>)

lemma yields_octets: "yields ReadAxdrOctetString (\<lambda>bs. length bs < size_t_modulus)"
  unfolding ReadAxdrOctetString_def
proof (rule yields_then [OF yields_ReadAxdrLength])
  show "yields (ReadBytes n) (\<lambda>bs. length bs < size_t_modulus)" if "n < size_t_modulus" for n
    using yields_ReadBytes [of n] that by (auto simp: yields_def)
qed simp

interpretation octetc: wire_codec "\<lambda>bs. length bs < size_t_modulus" octet_string_bytes
  ReadAxdrOctetString "\<lambda>bs. WriteAxdrOctetString (View bs)"
proof unfold_locales
  show "reads ReadAxdrOctetString (octet_string_bytes bs) bs" if "length bs < size_t_modulus" for bs
    unfolding ReadAxdrOctetString_def octet_string_bytes_def
    by (rule reads_then [OF reads_length [OF that] reads_ReadBytes]) simp
  show "writes (WriteAxdrOctetString (View bs)) (octet_string_bytes bs)" for bs
    using writes_octet_string [of "View bs"] by simp
  show "safe_read ReadAxdrOctetString" unfolding ReadAxdrOctetString_def by (intro safe_read_then) simp_all
qed (rule yields_octets)

definition conformance_bytes :: "bytes \<Rightarrow> bytes" where
  "conformance_bytes c = [0x5f, 0x1f, 0x04, 0x00] @ c"

interpretation conformancec: wire_codec "\<lambda>c. length c = 3" conformance_bytes ReadAxdrConformance WriteAxdrConformance
proof unfold_locales
  show "reads ReadAxdrConformance (conformance_bytes c) c" if "length c = 3" for c
    using u8c.list_reads [of c] that
    by (simp add: ReadAxdrConformance_def conformance_bytes_def reads_def try_then_def ReadU8_at)
  show "writes (WriteAxdrConformance c) (conformance_bytes c)" if "length c = 3" for c
  proof (rule writes_guarded [where P = "\<lambda>w. writer_remaining w < 7"])
    show "writes (try_then (WriteU8 0x5f) (\<lambda>_. try_then (WriteU8 0x1f) (\<lambda>_. try_then (WriteU8 0x04) (\<lambda>_.
        try_then (WriteU8 0x00) (\<lambda>_. WriteBytes (View c)))))) (conformance_bytes c)"
      using writes_then [OF writes_WriteU8 writes_then [OF writes_WriteU8 writes_then [OF writes_WriteU8
            writes_then [OF writes_WriteU8 writes_WriteBytes [of "View c"]]]]]
      by (simp add: conformance_bytes_def)
  qed (use that in \<open>simp_all add: WriteAxdrConformance_def conformance_bytes_def\<close>)
  show "safe_read ReadAxdrConformance"
    unfolding ReadAxdrConformance_def by (intro safe_read_then safe_read_if_const safe_read_many) simp_all
  have "yields (read_many 3 ReadU8) (\<lambda>c. length c = 3)"
    using yields_many [of ReadU8 "\<lambda>_. True" 3] by (simp add: yields_def)
  then show "yields ReadAxdrConformance (\<lambda>c. length c = 3)"
    unfolding ReadAxdrConformance_def by (intro codec_yields) simp_all
qed

text \<open>Flags and booleans by their byte.\<close>

lemma reads_flags:
  "reads (k True) cs x \<Longrightarrow> reads (try_then ReadAxdrOptionalFlag k) (1 # cs) x"
  "reads (k False) cs x \<Longrightarrow> reads (try_then ReadAxdrOptionalFlag k) (0 # cs) x"
  "reads (k True) cs x \<Longrightarrow> reads (try_then ReadAxdrBoolean k) (1 # cs) x"
  "reads (k False) cs x \<Longrightarrow> reads (try_then ReadAxdrBoolean k) (0 # cs) x"
  using flagc.rd_then [where a = True and k = k and cs = cs and b = x] flagc.rd_then [where a = False and k = k and cs = cs and b = x]
    boolc.rd_then [where a = True and k = k and cs = cs and b = x] boolc.rd_then [where a = False and k = k and cs = cs and b = x]
  by simp_all

lemmas [codec_reads] = reads_flags lengthc.rd_rules boolc.rd_rules flagc.rd_rules octetc.rd_rules conformancec.rd_rules
lemmas [codec_writes] = lengthc.wr_rules boolc.wr_rules flagc.wr_rules octetc.wr_rules conformancec.wr_rules
lemmas [codec_yields] = lengthc.yd_rules boolc.yd_rules flagc.yd_rules octetc.yd_rules conformancec.yd_rules
lemmas axdr_safe [simp, codec_safe] = lengthc.rd_safe boolc.rd_safe flagc.rd_safe octetc.rd_safe conformancec.rd_safe

subsection \<open>Properties\<close>

text \<open>
  A-XDR octet strings. Every octet string whose size is a \<open>size_t\<close> is written into a buffer of
  exactly the announced size, with the shortest length prefix, and read back from it; in a
  smaller buffer the writer reports \<open>OutputBufferTooSmall\<close>.
\<close>

theorem axdr_octet_string:
  assumes "length bs < size_t_modulus"
  defines "n \<equiv> AxdrLengthEncodedSize (length bs) + length bs"
  shows "(\<exists>w. WriteAxdrOctetString (View bs) (ApduWriter_init False n) = (Inr (), w) \<and> length (written w) = n
      \<and> fst (ReadAxdrOctetString (ApduReader_init (View (written w)))) = Inr bs)
    \<and> (\<forall>m < n. fst (WriteAxdrOctetString (View bs) (ApduWriter_init False m)) = Inl OutputBufferTooSmall)"
proof -
  have n: "length (octet_string_bytes bs) = n" by (simp add: octet_string_bytes_def length_length_bytes n_def)
  with octetc.write_read [OF assms(1), of n] octetc.write_full [OF assms(1)] show ?thesis by auto
qed

theorem axdr_octet_string_witness:
  "\<exists>w. WriteAxdrOctetString (View [7, 8]) (ApduWriter_init False 3) = (Inr (), w)
     \<and> fst (ReadAxdrOctetString (ApduReader_init (View (written w)))) = Inr [7, 8]"
  using axdr_octet_string [of "[7, 8]"] by (auto simp: size_t_modulus_def AxdrLengthEncodedSize_def numeral_3_eq_3)

end
