(* ===== verification/Ber.thy ===== *)
theory Ber
  imports Axdr
begin

text \<open>
  BER tag-length-value items (\<open>ber.cpp\<close>): length fields, reading and writing of one item, and the
  recursive validation with its depth limit. The validation is shown to end on every input and
  to accept the encoding of a tree of items exactly when the tree is not deeper than allowed.
\<close>

record BerTlv =
  tlvTag :: u8
  tlvValue :: bytes
  tlvHeaderSize :: nat

definition BerLengthEncodedSize :: "nat \<Rightarrow> nat" where
  "BerLengthEncodedSize len = (if len < 128 then 1 else 1 + octet_count len)"

definition BerTagIsConstructed :: "u8 \<Rightarrow> bool" where
  "BerTagIsConstructed tag \<longleftrightarrow> tag AND 0x20 \<noteq> 0"

text \<open>The loop of \<open>ReadBerLength\<close>, with its test against overflow of \<open>size_t\<close>.\<close>

primrec ReadBerLength_loop :: "nat \<Rightarrow> u64 \<Rightarrow> u64 reading" where
  "ReadBerLength_loop 0 result = yield result"
| "ReadBerLength_loop (Suc n) result = try_then ReadU8 (\<lambda>byte.
     if result > drop_bit 8 (- 1) then refuse InvalidLength
     else ReadBerLength_loop n (push_bit 8 result OR ucast byte))"

definition ReadBerLength :: "nat reading" where
  "ReadBerLength = try_then ReadU8 (\<lambda>first.
     if first AND 0x80 = 0 then yield (unat first)
     else
       let lengthOctets = unat (first AND 0x7f) in
       if lengthOctets = 0 then refuse UnsupportedFeature
       else if lengthOctets > 8 then refuse InvalidLength
       else try_then (ReadBerLength_loop lengthOctets 0) (\<lambda>result.
         if result < 128 then refuse InvalidLength else yield (unat result)))"

definition WriteBerLength :: "nat \<Rightarrow> writing" where
  "WriteBerLength len w =
     (if writer_remaining w < BerLengthEncodedSize len then (Inl OutputBufferTooSmall, w)
      else if len < 128 then WriteU8 (word_of_nat len) w
      else
        let encoded = length_octets len [];
            encodedSize = octet_count len
        in try_then (WriteU8 (0x80 OR word_of_nat encodedSize)) (\<lambda>_. WriteBytes (View encoded)) w)"

definition ReadBerTlv :: "BerTlv reading" where
  "ReadBerTlv r =
     (let startPosition = readerPosition r in
      try_then ReadU8 (\<lambda>tag.
        if tag AND 0x1f = 0x1f then refuse UnsupportedFeature
        else try_then ReadBerLength (\<lambda>len. try_then (ReadBytes len) (\<lambda>value r'.
          (Inr \<lparr>tlvTag = tag, tlvValue = value, tlvHeaderSize = readerPosition r' - startPosition - len\<rparr>, r')))) r)"

definition WriteBerTlv :: "u8 \<Rightarrow> view \<Rightarrow> writing" where
  "WriteBerTlv tag value w =
     (if tag AND 0x1f = 0x1f then (Inl UnsupportedFeature, w)
      else if bad_view value then (Inl InvalidArgument, w)
      else if writer_remaining w < 1 + BerLengthEncodedSize (view_size value) + view_size value
        then (Inl OutputBufferTooSmall, w)
      else try_then (WriteU8 tag) (\<lambda>_. try_then (WriteBerLength (view_size value)) (\<lambda>_. WriteBytes value)) w)"

subsection \<open>Progress of the reader\<close>

text \<open>Operations that never give the reader back with more left, and strictly less on success.\<close>

definition shrinking :: "nat \<Rightarrow> 'a reading \<Rightarrow> bool" where
  "shrinking k m \<longleftrightarrow> (\<forall>r a r'. m r = (Inr a, r') \<longrightarrow> reader_remaining r' + k \<le> reader_remaining r)"

lemma size_sub_step: "n \<le> size_sub a b \<Longrightarrow> size_sub a (b + n) + n = size_sub a b"
  by (auto simp: size_sub_def split: if_splits)

lemma shrinking_ReadU8: "shrinking 1 ReadU8"
  using size_sub_step [of 1] by (auto simp: shrinking_def ReadU8_def reader_remaining_def split: if_splits)

lemma shrinking_ReadBytes: "shrinking n (ReadBytes n)"
  using size_sub_step [of n] by (auto simp: shrinking_def ReadBytes_def reader_remaining_def split: if_splits)

lemma shrinking_yield [simp]: "shrinking 0 (yield a)" "shrinking k (refuse e)"
  by (simp_all add: shrinking_def)

lemma shrinking_then:
  assumes "shrinking i m" "\<And>a. shrinking j (k a)"
  shows "shrinking (i + j) (try_then m k)"
  unfolding shrinking_def
proof (intro allI impI)
  fix r b r'
  assume "try_then m k r = (Inr b, r')"
  then obtain a s where "m r = (Inr a, s)" "k a s = (Inr b, r')" by (rule try_then_InrE)
  with assms have "reader_remaining s + i \<le> reader_remaining r" "reader_remaining r' + j \<le> reader_remaining s"
    by (auto simp: shrinking_def)
  then show "reader_remaining r' + (i + j) \<le> reader_remaining r" by simp
qed

lemma shrinking_mono: "shrinking i m \<Longrightarrow> j \<le> i \<Longrightarrow> shrinking j m"
  by (fastforce simp: shrinking_def)

lemma shrinking_ReadBerLength_loop: "shrinking 0 (ReadBerLength_loop n acc)"
proof (induction n arbitrary: acc)
  case (Suc n)
  show ?case unfolding ReadBerLength_loop.simps
    by (rule shrinking_mono [OF shrinking_then [OF shrinking_ReadU8, where j = 0]]) (auto simp: Suc.IH)
qed simp

lemma shrinking_ReadBerLength: "shrinking 1 ReadBerLength"
proof -
  have "shrinking (1 + 0) ReadBerLength" unfolding ReadBerLength_def Let_def
    by (rule shrinking_then [OF shrinking_ReadU8])
      (auto intro!: shrinking_mono [OF shrinking_then [OF shrinking_ReadBerLength_loop, where j = 0]])
  then show ?thesis by simp
qed

lemma ReadBerTlv_shrinks: "ReadBerTlv r = (Inr tlv, r') \<Longrightarrow> reader_remaining r' < reader_remaining r"
proof -
  assume t: "ReadBerTlv r = (Inr tlv, r')"
  then obtain tag s where s: "ReadU8 r = (Inr tag, s)"
    and k: "(if tag AND 0x1f = 0x1f then refuse UnsupportedFeature
        else try_then ReadBerLength (\<lambda>len. try_then (ReadBytes len) (\<lambda>value r'.
          (Inr \<lparr>tlvTag = tag, tlvValue = value, tlvHeaderSize = readerPosition r' - readerPosition r - len\<rparr>, r')))) s = (Inr tlv, r')"
    unfolding ReadBerTlv_def Let_def by (rule try_then_InrE)
  from s shrinking_ReadU8 have "reader_remaining s + 1 \<le> reader_remaining r" by (auto simp: shrinking_def)
  moreover from k obtain len u where "ReadBerLength s = (Inr len, u)"
    and "try_then (ReadBytes len) (\<lambda>value r'. (Inr \<lparr>tlvTag = tag, tlvValue = value,
      tlvHeaderSize = readerPosition r' - readerPosition r - len\<rparr>, r')) u = (Inr tlv, r')"
    by (auto split: if_splits elim: try_then_InrE)
  moreover from this(2) obtain v where "ReadBytes len u = (Inr v, r')" by (auto elim: try_then_InrE)
  ultimately show ?thesis using shrinking_ReadBerLength shrinking_ReadBytes [of len]
    by (fastforce simp: shrinking_def)
qed

subsection \<open>Validation\<close>

text \<open>
  \<open>ValidateBerReader\<close> and \<open>ValidateBerTlv\<close> call each other; the loop over the items of one level is
  the recursion on the reader.
\<close>

function (sequential) ValidateBerReader :: "nat \<Rightarrow> ApduReader \<Rightarrow> ApduStatus"
  and ValidateBerTlv :: "nat \<Rightarrow> view \<Rightarrow> ApduStatus" where
  "ValidateBerReader maximumDepth r =
     (if reader_empty r then Ok
      else case ReadBerTlv r of
        (Inl status, r') \<Rightarrow> status
      | (Inr tlv, r') \<Rightarrow>
          if BerTagIsConstructed (tlvTag tlv) then
            (if maximumDepth = 0 then InvalidBer
             else
               let childStatus = ValidateBerTlv (maximumDepth - 1) (View (tlvValue tlv)) in
               if childStatus \<noteq> Ok then childStatus else ValidateBerReader maximumDepth r')
          else ValidateBerReader maximumDepth r')"
| "ValidateBerTlv maximumDepth input =
     (if bad_view input then InvalidArgument else ValidateBerReader maximumDepth (ApduReader_init input))"
  by pat_completeness auto
termination
  by (relation "inv_image (less_than <*lex*> less_than <*lex*> less_than)
      (\<lambda>x. case x of Inl (d, r) \<Rightarrow> (d, 0, reader_remaining r) | Inr (d, v) \<Rightarrow> (d, 1, 0))")
    (auto dest: ReadBerTlv_shrinks [OF sym])

declare ValidateBerReader.simps [simp del]

subsection \<open>Lengths and items\<close>

lemma unat_shift_or:
  assumes "unat (acc :: u64) < 256 ^ 7"
  shows "unat (push_bit 8 acc OR ucast (b :: u8)) = unat acc * 256 + unat b"
proof -
  have "unat (ucast b :: u64) = unat b"
    by (simp add: unsigned_ucast_eq take_bit_nat_eq_self order_less_le_trans [OF unat_u8_less])
  moreover have "unat acc * 256 + unat b < 2 ^ 64" using assms unat_u8_less [of b] by simp
  ultimately show ?thesis unfolding push_or_add by (simp add: push_bit_eq_mult unat_word_ariths)
qed

text \<open>With at most eight octets the overflow test never fires.\<close>

lemma ReadBerLength_loop_octets:
  "n \<le> 8 \<Longrightarrow> unat acc < 256 ^ (8 - n) \<Longrightarrow> ReadBerLength_loop n acc = ReadOctets_loop n acc"
proof (induction n arbitrary: acc)
  case (Suc n)
  have small: "unat acc < 256 ^ 7"
    using Suc.prems power_increasing [of "8 - Suc n" 7 "256 :: nat"] by simp
  have "\<not> acc > drop_bit 8 (- 1)" using small by (simp add: word_less_nat_alt mask_eq_exp_minus_1)
  moreover have "unat (push_bit 8 acc OR ucast b) < 256 ^ (8 - n)" for b :: u8
  proof -
    have "unat acc * 256 + unat b < 256 * 256 ^ (8 - Suc n)"
      using Suc.prems(2) unat_u8_less [of b] by linarith
    also have "256 * 256 ^ (8 - Suc n) = (256 :: nat) ^ (8 - n)"
      using Suc.prems(1) by (simp flip: power_Suc add: Suc_diff_le)
    finally show ?thesis by (simp only: unat_shift_or [OF small])
  qed
  ultimately show ?case using Suc by simp
qed simp

lemma reads_ber_length:
  assumes "n < size_t_modulus"
  shows "reads ReadBerLength (length_bytes n) n"
proof -
  have "ReadBerLength (reader_at pre (length_bytes n @ rest)) = ReadAxdrLength (reader_at pre (length_bytes n @ rest))" for pre rest
  proof (cases "n < 0x80")
    case True
    then show ?thesis using short_form [OF True]
      by (simp add: ReadBerLength_def ReadAxdrLength_def length_bytes_def try_then_def ReadU8_at)
  next
    case False
    then have k: "0 < octet_count n" "octet_count n \<le> 8" using assms octet_count_pos [of n] octet_count_8 by auto
    have "ReadBerLength_loop (octet_count n) 0 = ReadOctets_loop (octet_count n) 0"
      by (rule ReadBerLength_loop_octets [OF k(2)]) simp
    then show ?thesis using False k long_form [OF k]
      by (simp add: ReadBerLength_def ReadAxdrLength_def length_bytes_def try_then_def ReadU8_at)
  qed
  then show ?thesis using reads_length [OF assms] by (simp add: reads_def)
qed

lemma WriteBerLength_axdr: "WriteBerLength = WriteAxdrLength"
  by (intro ext) (simp add: WriteBerLength_def WriteAxdrLength_def BerLengthEncodedSize_def AxdrLengthEncodedSize_def)

definition tlv_bytes :: "u8 \<Rightarrow> bytes \<Rightarrow> bytes" where
  "tlv_bytes tag v = [tag] @ length_bytes (length v) @ v"

lemma ReadBerTlv_at:
  assumes "tag AND 0x1f \<noteq> 0x1f" "length v < size_t_modulus"
  shows "ReadBerTlv (reader_at pre (tlv_bytes tag v @ rest)) =
    (Inr \<lparr>tlvTag = tag, tlvValue = v, tlvHeaderSize = 1 + AxdrLengthEncodedSize (length v)\<rparr>,
     reader_at (pre @ tlv_bytes tag v) rest)"
  using assms reads_at [OF reads_ber_length [OF assms(2)], of "pre @ [tag]" "v @ rest"] length_length_bytes [of "length v"]
  by (simp add: ReadBerTlv_def tlv_bytes_def try_then_def ReadU8_at ReadBytes_at Let_def)

lemma writes_tlv:
  assumes "tag AND 0x1f \<noteq> 0x1f" "\<not> bad_view v"
  shows "writes (WriteBerTlv tag v) (tlv_bytes tag (view_bytes v))"
proof (rule writes_guarded [where P = "\<lambda>w. writer_remaining w < 1 + BerLengthEncodedSize (view_size v) + view_size v"])
  have "writes (WriteBerLength (view_size v)) (length_bytes (length (view_bytes v)))"
    using writes_length [of "view_size v"] view_size_bytes [OF assms(2)] by (simp add: WriteBerLength_axdr)
  with writes_then [OF writes_WriteU8 writes_then [OF this writes_WriteBytes [OF assms(2)]], of tag]
  show "writes (try_then (WriteU8 tag) (\<lambda>_. try_then (WriteBerLength (view_size v)) (\<lambda>_. WriteBytes v)))
      (tlv_bytes tag (view_bytes v))"
    by (simp add: tlv_bytes_def)
qed (use assms view_size_bytes [OF assms(2)] in \<open>simp_all add: WriteBerTlv_def tlv_bytes_def length_length_bytes
    BerLengthEncodedSize_def AxdrLengthEncodedSize_def\<close>)

subsection \<open>Trees of items\<close>

datatype ber_tree = Primitive u8 bytes | Constructed u8 "ber_tree list"

fun ber_bytes :: "ber_tree \<Rightarrow> bytes" where
  "ber_bytes (Primitive tag v) = tlv_bytes tag v"
| "ber_bytes (Constructed tag ts) = tlv_bytes tag (concat (map ber_bytes ts))"

fun ber_depth :: "ber_tree \<Rightarrow> nat" where
  "ber_depth (Primitive tag v) = 0"
| "ber_depth (Constructed tag ts) = 1 + Max (insert 0 (ber_depth ` set ts))"

fun ber_wf :: "ber_tree \<Rightarrow> bool" where
  "ber_wf (Primitive tag v) \<longleftrightarrow>
     tag AND 0x1f \<noteq> 0x1f \<and> \<not> BerTagIsConstructed tag \<and> length v < size_t_modulus"
| "ber_wf (Constructed tag ts) \<longleftrightarrow>
     tag AND 0x1f \<noteq> 0x1f \<and> BerTagIsConstructed tag \<and> (\<forall>t \<in> set ts. ber_wf t)
     \<and> length (concat (map ber_bytes ts)) < size_t_modulus"

lemma ber_depth_Constructed_le: "ber_depth (Constructed tag ts) \<le> Suc d \<longleftrightarrow> (\<forall>t \<in> set ts. ber_depth t \<le> d)"
  by simp

lemma ValidateBer_item:
  assumes "tag AND 0x1f \<noteq> 0x1f" "length v < size_t_modulus"
  shows "ValidateBerReader d (reader_at pre (tlv_bytes tag v @ rest)) =
    (if BerTagIsConstructed tag then
       (if d = 0 then InvalidBer
        else if ValidateBerTlv (d - 1) (View v) \<noteq> Ok then ValidateBerTlv (d - 1) (View v)
        else ValidateBerReader d (reader_at (pre @ tlv_bytes tag v) rest))
     else ValidateBerReader d (reader_at (pre @ tlv_bytes tag v) rest))"
proof -
  have "tlv_bytes tag v \<noteq> []" by (simp add: tlv_bytes_def)
  then show ?thesis
    by (subst ValidateBerReader.simps) (simp add: ReadBerTlv_at [OF assms] Let_def del: ValidateBerTlv.simps)
qed

lemma ValidateBer_trees:
  "\<forall>t \<in> set ts. ber_wf t \<Longrightarrow>
   ValidateBerReader d (reader_at pre (concat (map ber_bytes ts))) =
     (if \<forall>t \<in> set ts. ber_depth t \<le> d then Ok else InvalidBer)"
proof (induction "length (concat (map ber_bytes ts))" arbitrary: ts d pre rule: less_induct)
  case less
  show ?case
  proof (cases ts)
    case Nil
    then show ?thesis by (subst ValidateBerReader.simps) simp
  next
    case (Cons t ts')
    have shorter: "length (concat (map ber_bytes ts')) < length (concat (map ber_bytes ts))"
      unfolding Cons by (cases t) (simp_all add: tlv_bytes_def)
    have rest: "ValidateBerReader d (reader_at p (concat (map ber_bytes ts'))) =
        (if \<forall>t \<in> set ts'. ber_depth t \<le> d then Ok else InvalidBer)" for p
      using less.prems Cons by (intro less.hyps [OF shorter]) simp
    show ?thesis
    proof (cases t)
      case (Primitive tag v)
      with Cons less.prems rest show ?thesis by (simp add: ValidateBer_item)
    next
      case (Constructed tag cs)
      have "length (concat (map ber_bytes cs)) < length (concat (map ber_bytes ts))"
        unfolding Cons Constructed by (simp add: tlv_bytes_def)
      then have child: "ValidateBerTlv e (View (concat (map ber_bytes cs))) =
          (if \<forall>t \<in> set cs. ber_depth t \<le> e then Ok else InvalidBer)" for e
        using less.prems Cons Constructed less.hyps [of cs e "[]"] by (simp add: ApduReader_init_at)
      show ?thesis
      proof (cases d)
        case 0
        with Cons Constructed less.prems show ?thesis by (simp add: ValidateBer_item del: ValidateBerTlv.simps)
      next
        case (Suc e)
        with Cons Constructed less.prems rest child [of e] show ?thesis
          by (simp add: ValidateBer_item del: ValidateBerTlv.simps)
      qed
    qed
  qed
qed

subsection \<open>Properties\<close>

text \<open>
  BER items. An item with a supported tag and a value whose size is a \<open>size_t\<close> is written into a
  buffer of exactly the size it needs and read back with its tag, value and header size; in a
  smaller buffer the writer reports \<open>OutputBufferTooSmall\<close>.
\<close>

theorem ber_tlv_roundtrip:
  assumes "tag AND 0x1f \<noteq> 0x1f" "length v < size_t_modulus"
  defines "n \<equiv> 1 + BerLengthEncodedSize (length v) + length v"
  shows "(\<exists>w. WriteBerTlv tag (View v) (ApduWriter_init False n) = (Inr (), w) \<and> length (written w) = n
      \<and> fst (ReadBerTlv (ApduReader_init (View (written w)))) =
          Inr \<lparr>tlvTag = tag, tlvValue = v, tlvHeaderSize = n - length v\<rparr>)
    \<and> (\<forall>m < n. fst (WriteBerTlv tag (View v) (ApduWriter_init False m)) = Inl OutputBufferTooSmall)"
proof -
  have n: "length (tlv_bytes tag v) = n"
    by (simp add: tlv_bytes_def length_length_bytes n_def BerLengthEncodedSize_def AxdrLengthEncodedSize_def)
  have w: "writes (WriteBerTlv tag (View v)) (tlv_bytes tag v)" using writes_tlv [OF assms(1), of "View v"] by simp
  from writes_ok [OF w writer_ok_init, of n] n
  have "WriteBerTlv tag (View v) (ApduWriter_init False n) = (Inr (), store (tlv_bytes tag v) (ApduWriter_init False n))"
    by (simp add: ApduWriter_init_def)
  moreover have "fst (ReadBerTlv (ApduReader_init (View (tlv_bytes tag v)))) =
      Inr \<lparr>tlvTag = tag, tlvValue = v, tlvHeaderSize = n - length v\<rparr>"
    using ReadBerTlv_at [OF assms(1,2), of "[]" "[]"]
    by (simp add: ApduReader_init_at n_def BerLengthEncodedSize_def AxdrLengthEncodedSize_def)
  moreover have "fst (WriteBerTlv tag (View v) (ApduWriter_init False m)) = Inl OutputBufferTooSmall" if "m < n" for m
    by (rule writes_full [OF w writer_ok_init [of m]]) (use that n in \<open>auto simp: ApduWriter_init_def\<close>)
  ultimately show ?thesis using n by (auto simp: ApduWriter_init_def)
qed

theorem ber_tlv_roundtrip_witness:
  "\<exists>w. WriteBerTlv 0x80 (View [7]) (ApduWriter_init False 3) = (Inr (), w)
     \<and> fst (ReadBerTlv (ApduReader_init (View (written w)))) = Inr \<lparr>tlvTag = 0x80, tlvValue = [7], tlvHeaderSize = 2\<rparr>"
proof -
  have "(0x80 :: u8) AND 0x1f \<noteq> 0x1f" "length [7 :: u8] < size_t_modulus" by (simp_all add: size_t_modulus_def)
  moreover have "1 + BerLengthEncodedSize (length [7 :: u8]) + length [7 :: u8] = 3" "3 - length [7 :: u8] = 2"
    by (simp_all add: BerLengthEncodedSize_def)
  ultimately show ?thesis using ber_tlv_roundtrip [of "0x80" "[7]"] by metis
qed

text \<open>
  Depth limit. The validation of a sequence of encoded item trees returns \<open>Ok\<close> when no tree
  nests constructed items deeper than the limit and \<open>InvalidBer\<close> otherwise.
\<close>

theorem ValidateBerTlv_depth:
  assumes "\<forall>t \<in> set ts. ber_wf t"
  shows "ValidateBerTlv d (View (concat (map ber_bytes ts))) =
    (if \<forall>t \<in> set ts. ber_depth t \<le> d then Ok else InvalidBer)"
  using ValidateBer_trees [OF assms, of d "[]"] by (simp add: ApduReader_init_at)

theorem ValidateBerTlv_depth_witness:
  "ValidateBerTlv 0 (View [0x30, 3, 0x02, 1, 5]) = InvalidBer \<and> ValidateBerTlv 1 (View [0x30, 3, 0x02, 1, 5]) = Ok"
proof -
  let ?t = "Constructed 0x30 [Primitive 0x02 [5]]"
  have w: "\<forall>t \<in> set [?t]. ber_wf t"
    by (simp add: BerTagIsConstructed_def size_t_modulus_def tlv_bytes_def length_bytes_def)
  have "concat (map ber_bytes [?t]) = [0x30, 3, 0x02, 1, 5]" by (simp add: tlv_bytes_def length_bytes_def)
  with ValidateBerTlv_depth [OF w, of 0] ValidateBerTlv_depth [OF w, of 1] show ?thesis
    by (simp del: ValidateBerTlv.simps)
qed

end
