(* ===== verification/Dlms_Data.thy ===== *)
theory Dlms_Data
  imports Axdr
begin

text \<open>
  The A-XDR encoding of COSEM data (\<open>data.hpp\<close>, \<open>data.cpp\<close>). \<open>DlmsData\<close> is the structure of the
  source, with a type tag and one field per kind of value; \<open>cosem_value\<close> is the abstract
  data type it represents. The theory shows that the structure of a value is written as the
  wire image of the value and read back, that a value nested too deeply is refused with
  \<open>InvalidData\<close>, that whatever is decoded represents a value within the depth limit, and that
  the decoder stays within its buffer.
\<close>

datatype DlmsData = DlmsData
  (dataType: u8) (booleanValue: bool) (signedValue: u64) (unsignedValue: u64) (dataBytes: view)
  (elements: "DlmsData list")

definition kNullDataTag :: u8 where "kNullDataTag = 0x00"
definition kArrayTag :: u8 where "kArrayTag = 0x01"
definition kStructureTag :: u8 where "kStructureTag = 0x02"
definition kBooleanTag :: u8 where "kBooleanTag = 0x03"
definition kDoubleLongTag :: u8 where "kDoubleLongTag = 0x05"
definition kDoubleLongUnsignedTag :: u8 where "kDoubleLongUnsignedTag = 0x06"
definition kOctetStringTag :: u8 where "kOctetStringTag = 0x09"
definition kIntegerTag :: u8 where "kIntegerTag = 0x0f"
definition kLongTag :: u8 where "kLongTag = 0x10"
definition kUnsignedTag :: u8 where "kUnsignedTag = 0x11"
definition kLongUnsignedTag :: u8 where "kLongUnsignedTag = 0x12"
definition kLong64Tag :: u8 where "kLong64Tag = 0x14"
definition kLong64UnsignedTag :: u8 where "kLong64UnsignedTag = 0x15"
definition kEnumTag :: u8 where "kEnumTag = 0x16"
definition kDateTimeTag :: u8 where "kDateTimeTag = 0x19"
definition kDateTag :: u8 where "kDateTag = 0x1a"
definition kTimeTag :: u8 where "kTimeTag = 0x1b"
definition kDateTimeSize :: nat where "kDateTimeSize = 12"
definition kDateSize :: nat where "kDateSize = 5"
definition kTimeSize :: nat where "kTimeSize = 4"

definition SignExtend :: "u64 \<Rightarrow> nat \<Rightarrow> u64" where
  "SignExtend value byteCount =
     (let signBit = push_bit (byteCount * 8 - 1) 1 in
      if value AND signBit = 0 then value
      else let mask = push_bit (byteCount * 8) (- 1) in value OR mask)"

definition ReadUnsigned :: "nat \<Rightarrow> u64 reading" where
  "ReadUnsigned byteCount = ReadOctets_loop byteCount 0"

definition WriteUnsigned :: "u64 \<Rightarrow> nat \<Rightarrow> writing" where
  "WriteUnsigned value byteCount =
     write_all (map (\<lambda>i. WriteU8 (ucast (drop_bit ((byteCount - i - 1) * 8) value))) [0..<byteCount])"

definition ReadFixedBytes :: "nat \<Rightarrow> view reading" where
  "ReadFixedBytes count = try_then (ReadBytes count) (\<lambda>bytes. yield (View bytes))"

definition WriteFixedBytes :: "view \<Rightarrow> nat \<Rightarrow> writing" where
  "WriteFixedBytes v count w =
     (if view_size v \<noteq> count then (Inl InvalidLength, w)
      else if view_null v \<and> count \<noteq> 0 then (Inl InvalidArgument, w)
      else WriteBytes v w)"

text \<open>The structure with one field set and the others zero, as the decoder fills it.\<close>

abbreviation data_plain :: "u8 \<Rightarrow> DlmsData" where
  "data_plain tag \<equiv> DlmsData tag False 0 0 (NullView 0) []"

abbreviation data_signed :: "u8 \<Rightarrow> u64 \<Rightarrow> DlmsData" where
  "data_signed tag s \<equiv> DlmsData tag False s 0 (NullView 0) []"

abbreviation data_unsigned :: "u8 \<Rightarrow> u64 \<Rightarrow> DlmsData" where
  "data_unsigned tag u \<equiv> DlmsData tag False 0 u (NullView 0) []"

abbreviation data_octets :: "u8 \<Rightarrow> view \<Rightarrow> DlmsData" where
  "data_octets tag v \<equiv> DlmsData tag False 0 0 v []"

text \<open>Allocation of the element vector is taken to succeed.\<close>

primrec DecodeDlmsDataValue :: "nat \<Rightarrow> DlmsData reading" where
  "DecodeDlmsDataValue 0 = refuse InvalidData"
| "DecodeDlmsDataValue (Suc depth) = try_then ReadU8 (\<lambda>tag.
     if tag = kNullDataTag then yield (data_plain tag)
     else if tag = kArrayTag \<or> tag = kStructureTag then
       try_then ReadAxdrLength (\<lambda>elementCount.
         try_then (read_many elementCount (DecodeDlmsDataValue depth)) (\<lambda>es.
           yield (DlmsData tag False 0 0 (NullView 0) es)))
     else if tag = kBooleanTag then
       try_then ReadAxdrBoolean (\<lambda>b. yield (DlmsData tag b 0 0 (NullView 0) []))
     else if tag = kDoubleLongTag then
       try_then (ReadUnsigned 4) (\<lambda>u. yield (data_signed tag (SignExtend u 4)))
     else if tag = kDoubleLongUnsignedTag then
       try_then (ReadUnsigned 4) (\<lambda>u. yield (data_unsigned tag u))
     else if tag = kOctetStringTag then
       try_then ReadAxdrOctetString (\<lambda>bs. yield (data_octets tag (View bs)))
     else if tag = kIntegerTag then
       try_then (ReadUnsigned 1) (\<lambda>u. yield (data_signed tag (SignExtend u 1)))
     else if tag = kLongTag then
       try_then (ReadUnsigned 2) (\<lambda>u. yield (data_signed tag (SignExtend u 2)))
     else if tag = kUnsignedTag \<or> tag = kEnumTag then
       try_then (ReadUnsigned 1) (\<lambda>u. yield (data_unsigned tag u))
     else if tag = kLongUnsignedTag then
       try_then (ReadUnsigned 2) (\<lambda>u. yield (data_unsigned tag u))
     else if tag = kLong64Tag then
       try_then (ReadUnsigned 8) (\<lambda>u. yield (data_signed tag u))
     else if tag = kLong64UnsignedTag then
       try_then (ReadUnsigned 8) (\<lambda>u. yield (data_unsigned tag u))
     else if tag = kDateTimeTag then
       try_then (ReadFixedBytes kDateTimeSize) (\<lambda>v. yield (data_octets tag v))
     else if tag = kDateTag then
       try_then (ReadFixedBytes kDateSize) (\<lambda>v. yield (data_octets tag v))
     else if tag = kTimeTag then
       try_then (ReadFixedBytes kTimeSize) (\<lambda>v. yield (data_octets tag v))
     else refuse UnsupportedDataType)"

fun EncodeDlmsDataValue :: "DlmsData \<Rightarrow> writing" where
  "EncodeDlmsDataValue (DlmsData tag b s u v es) = try_then (WriteU8 tag) (\<lambda>_.
     if tag = kNullDataTag then yield ()
     else if tag = kArrayTag \<or> tag = kStructureTag then
       try_then (WriteAxdrLength (length es)) (\<lambda>_. write_all (map EncodeDlmsDataValue es))
     else if tag = kBooleanTag then WriteAxdrBoolean b
     else if tag = kDoubleLongTag then WriteUnsigned (ucast (ucast s :: u32)) 4
     else if tag = kDoubleLongUnsignedTag then WriteUnsigned u 4
     else if tag = kOctetStringTag then WriteAxdrOctetString v
     else if tag = kIntegerTag then WriteUnsigned (ucast (ucast s :: u8)) 1
     else if tag = kLongTag then WriteUnsigned (ucast (ucast s :: u16)) 2
     else if tag = kUnsignedTag \<or> tag = kEnumTag then WriteUnsigned u 1
     else if tag = kLongUnsignedTag then WriteUnsigned u 2
     else if tag = kLong64Tag then WriteUnsigned s 8
     else if tag = kLong64UnsignedTag then WriteUnsigned u 8
     else if tag = kDateTimeTag then WriteFixedBytes v kDateTimeSize
     else if tag = kDateTag then WriteFixedBytes v kDateSize
     else if tag = kTimeTag then WriteFixedBytes v kTimeSize
     else refuse UnsupportedDataType)"

definition DecodeDlmsDataFromReader :: "nat \<Rightarrow> DlmsData reading" where
  "DecodeDlmsDataFromReader maximumDepth = DecodeDlmsDataValue maximumDepth"

definition DecodeDlmsData :: "view \<Rightarrow> nat \<Rightarrow> ApduStatus + DlmsData" where
  "DecodeDlmsData input maximumDepth =
     (if bad_view input then Inl InvalidArgument
      else case DecodeDlmsDataFromReader maximumDepth (ApduReader_init input) of
        (Inl status, r) \<Rightarrow> Inl status
      | (Inr output, r) \<Rightarrow> if \<not> reader_empty r then Inl InvalidLength else Inr output)"

definition EncodeDlmsData :: "DlmsData \<Rightarrow> writing" where
  "EncodeDlmsData input = EncodeDlmsDataValue input"

lemmas data_tags = kNullDataTag_def kArrayTag_def kStructureTag_def kBooleanTag_def kDoubleLongTag_def
  kDoubleLongUnsignedTag_def kOctetStringTag_def kIntegerTag_def kLongTag_def kUnsignedTag_def
  kLongUnsignedTag_def kLong64Tag_def kLong64UnsignedTag_def kEnumTag_def kDateTimeTag_def kDateTag_def
  kTimeTag_def kDateTimeSize_def kDateSize_def kTimeSize_def

subsection \<open>Numbers\<close>

definition be_bytes :: "nat \<Rightarrow> u64 \<Rightarrow> bytes" where
  "be_bytes n x = map (\<lambda>i. ucast (drop_bit ((n - i - 1) * 8) x)) [0..<n]"

lemma length_be_bytes [simp]: "length (be_bytes n x) = n"
  by (simp add: be_bytes_def)

lemma be_bytes_Suc: "be_bytes (Suc n) x = be_bytes n (drop_bit 8 x) @ [ucast x]"
proof -
  have "map (\<lambda>i. ucast (drop_bit ((Suc n - i - 1) * 8) x)) [0..<n] =
      map (\<lambda>i. ucast (drop_bit ((n - i - 1) * 8) (drop_bit 8 x)) :: u8) [0..<n]"
  proof (rule map_cong [OF refl])
    fix i
    assume "i \<in> set [0..<n]"
    then have "(Suc n - i - 1) * 8 = (n - i - 1) * 8 + 8" by (simp add: algebra_simps)
    then show "ucast (drop_bit ((Suc n - i - 1) * 8) x) = (ucast (drop_bit ((n - i - 1) * 8) (drop_bit 8 x)) :: u8)"
      by (simp only: drop_bit_drop_bit)
  qed
  then show ?thesis by (simp add: be_bytes_def)
qed

lemma accumulate_be_bytes: "accumulate 0 (be_bytes n x) = take_bit (8 * n) x"
proof (induction n arbitrary: x)
  case (Suc n)
  have "accumulate 0 (be_bytes (Suc n) x) = push_bit 8 (take_bit (8 * n) (drop_bit 8 x)) OR ucast (ucast x :: u8)"
    using Suc [of "drop_bit 8 x"] by (simp add: be_bytes_Suc accumulate_def)
  also have "\<dots> = take_bit (8 * Suc n) x"
    by (rule bit_word_eqI) (auto simp: bit_simps not_less)
  finally show ?case .
qed (simp add: be_bytes_def accumulate_def)

lemma reads_ReadUnsigned: "reads (ReadUnsigned n) (be_bytes n x) (take_bit (8 * n) x)"
  using reads_ReadOctets_loop [of "be_bytes n x" n 0] by (simp add: ReadUnsigned_def accumulate_be_bytes)

lemma writes_WriteUnsigned: "writes (WriteUnsigned x n) (be_bytes n x)"
proof -
  have "writes (write_all (map WriteU8 bs)) bs" for bs
    using u8c.list_writes [of bs] by simp
  from this [of "be_bytes n x"] show ?thesis by (simp add: WriteUnsigned_def be_bytes_def comp_def)
qed


lemma bit_SignExtend:
  assumes "0 < n" "n < 8"
  shows "bit (SignExtend v n) k \<longleftrightarrow> k < 64 \<and> (bit v k \<or> bit v (8 * n - 1) \<and> 8 * n \<le> k)"
proof -
  have sign: "v AND push_bit (n * 8 - 1) 1 = 0 \<longleftrightarrow> \<not> bit v (8 * n - 1)"
    by (simp add: push_bit_of_1 and_exp_eq_0_iff_not_bit mult.commute)
  show ?thesis unfolding SignExtend_def Let_def sign using bit_imp_le_length [of v k] by (auto simp: bit_simps)
qed

lemma SignExtend_scast [simp]:
  "SignExtend (ucast (a :: u8)) (Suc 0) = scast a" "SignExtend (ucast (b :: u16)) 2 = scast b"
  "SignExtend (ucast (c :: u32)) 4 = scast c"
proof -
  show "SignExtend (ucast a) (Suc 0) = scast a"
  proof (rule bit_word_eqI)
    show "bit (SignExtend (ucast a) (Suc 0)) n = bit (scast a :: u64) n" if "n < LENGTH(64)" for n
      using that bit_imp_le_length [of a n] by (cases "n = 7") (auto simp: bit_SignExtend bit_simps min_def)
  qed
  show "SignExtend (ucast b) 2 = scast b"
  proof (rule bit_word_eqI)
    show "bit (SignExtend (ucast b) 2) n = bit (scast b :: u64) n" if "n < LENGTH(64)" for n
      using that bit_imp_le_length [of b n] by (cases "n = 15") (auto simp: bit_SignExtend bit_simps min_def)
  qed
  show "SignExtend (ucast c) 4 = scast c"
  proof (rule bit_word_eqI)
    show "bit (SignExtend (ucast c) 4) n = bit (scast c :: u64) n" if "n < LENGTH(64)" for n
      using that bit_imp_le_length [of c n] by (cases "n = 31") (auto simp: bit_SignExtend bit_simps min_def)
  qed
qed

lemma ucast_scast [simp]: "ucast (scast (a :: u8) :: u64) = a" "ucast (scast (b :: u16) :: u64) = b"
  "ucast (scast (c :: u32) :: u64) = c"
proof -
  have "min n 7 = n" if "n < 8" for n :: nat using that by linarith
  then show "ucast (scast a :: u64) = a" by (intro bit_word_eqI) (auto simp: bit_simps)
  have "min n 15 = n" if "n < 16" for n :: nat using that by linarith
  then show "ucast (scast b :: u64) = b" by (intro bit_word_eqI) (auto simp: bit_simps)
  have "min n 31 = n" if "n < 32" for n :: nat using that by linarith
  then show "ucast (scast c :: u64) = c" by (intro bit_word_eqI) (auto simp: bit_simps)
qed

lemma take_bit_ucast [simp]:
  "take_bit 8 (ucast (a :: u8) :: u64) = ucast a" "take_bit 16 (ucast (b :: u16) :: u64) = ucast b"
  "take_bit 32 (ucast (c :: u32) :: u64) = ucast c" "take_bit 64 (e :: u64) = e"
  by (rule bit_word_eqI; auto simp: bit_simps dest: bit_imp_le_length)+

subsection \<open>The values\<close>

datatype cosem_value =
  NullV | ArrayV "cosem_value list" | StructureV "cosem_value list" | BoolV bool
  | DoubleLongV u32 | DoubleLongUnsignedV u32 | OctetsV bytes | IntegerV u8 | LongV u16 | UnsignedV u8
  | LongUnsignedV u16 | Long64V u64 | Long64UnsignedV u64 | EnumV u8 | DateTimeV bytes | DateV bytes | TimeV bytes

fun repr :: "cosem_value \<Rightarrow> DlmsData" where
  "repr NullV = data_plain kNullDataTag"
| "repr (ArrayV vs) = DlmsData kArrayTag False 0 0 (NullView 0) (map repr vs)"
| "repr (StructureV vs) = DlmsData kStructureTag False 0 0 (NullView 0) (map repr vs)"
| "repr (BoolV b) = DlmsData kBooleanTag b 0 0 (NullView 0) []"
| "repr (DoubleLongV x) = data_signed kDoubleLongTag (scast x)"
| "repr (DoubleLongUnsignedV x) = data_unsigned kDoubleLongUnsignedTag (ucast x)"
| "repr (OctetsV bs) = data_octets kOctetStringTag (View bs)"
| "repr (IntegerV x) = data_signed kIntegerTag (scast x)"
| "repr (LongV x) = data_signed kLongTag (scast x)"
| "repr (UnsignedV x) = data_unsigned kUnsignedTag (ucast x)"
| "repr (LongUnsignedV x) = data_unsigned kLongUnsignedTag (ucast x)"
| "repr (Long64V x) = data_signed kLong64Tag x"
| "repr (Long64UnsignedV x) = data_unsigned kLong64UnsignedTag x"
| "repr (EnumV x) = data_unsigned kEnumTag (ucast x)"
| "repr (DateTimeV bs) = data_octets kDateTimeTag (View bs)"
| "repr (DateV bs) = data_octets kDateTag (View bs)"
| "repr (TimeV bs) = data_octets kTimeTag (View bs)"

fun wire :: "cosem_value \<Rightarrow> bytes" where
  "wire NullV = [kNullDataTag]"
| "wire (ArrayV vs) = kArrayTag # length_bytes (length vs) @ concat (map wire vs)"
| "wire (StructureV vs) = kStructureTag # length_bytes (length vs) @ concat (map wire vs)"
| "wire (BoolV b) = [kBooleanTag, if b then 1 else 0]"
| "wire (DoubleLongV x) = kDoubleLongTag # be_bytes 4 (ucast x)"
| "wire (DoubleLongUnsignedV x) = kDoubleLongUnsignedTag # be_bytes 4 (ucast x)"
| "wire (OctetsV bs) = kOctetStringTag # octet_string_bytes bs"
| "wire (IntegerV x) = kIntegerTag # be_bytes 1 (ucast x)"
| "wire (LongV x) = kLongTag # be_bytes 2 (ucast x)"
| "wire (UnsignedV x) = kUnsignedTag # be_bytes 1 (ucast x)"
| "wire (LongUnsignedV x) = kLongUnsignedTag # be_bytes 2 (ucast x)"
| "wire (Long64V x) = kLong64Tag # be_bytes 8 x"
| "wire (Long64UnsignedV x) = kLong64UnsignedTag # be_bytes 8 x"
| "wire (EnumV x) = kEnumTag # be_bytes 1 (ucast x)"
| "wire (DateTimeV bs) = kDateTimeTag # bs"
| "wire (DateV bs) = kDateTag # bs"
| "wire (TimeV bs) = kTimeTag # bs"

text \<open>The number of levels of a value, and the size limits of its parts.\<close>

fun value_depth :: "cosem_value \<Rightarrow> nat" where
  "value_depth (ArrayV vs) = Suc (Max (insert 0 (set (map value_depth vs))))"
| "value_depth (StructureV vs) = Suc (Max (insert 0 (set (map value_depth vs))))"
| "value_depth _ = 1"

fun value_wf :: "cosem_value \<Rightarrow> bool" where
  "value_wf (ArrayV vs) \<longleftrightarrow> length vs < size_t_modulus \<and> list_all value_wf vs"
| "value_wf (StructureV vs) \<longleftrightarrow> length vs < size_t_modulus \<and> list_all value_wf vs"
| "value_wf (OctetsV bs) \<longleftrightarrow> length bs < size_t_modulus"
| "value_wf (DateTimeV bs) \<longleftrightarrow> length bs = kDateTimeSize"
| "value_wf (DateV bs) \<longleftrightarrow> length bs = kDateSize"
| "value_wf (TimeV bs) \<longleftrightarrow> length bs = kTimeSize"
| "value_wf _ \<longleftrightarrow> True"

lemma value_depth_list:
  "value_depth (ArrayV vs) \<le> Suc d \<longleftrightarrow> list_all (\<lambda>v. value_depth v \<le> d) vs"
  "value_depth (StructureV vs) \<le> Suc d \<longleftrightarrow> list_all (\<lambda>v. value_depth v \<le> d) vs"
  by (simp_all add: list_all_iff)

subsection \<open>Writing a value\<close>

lemma writes_FixedBytes: "length bs = n \<Longrightarrow> writes (WriteFixedBytes (View bs) n) bs"
  using writes_WriteBytes [of "View bs"] by (simp add: WriteFixedBytes_def [abs_def])

lemma writes_map: "(\<And>x. x \<in> set xs \<Longrightarrow> writes (f x) (g x)) \<Longrightarrow> writes (write_all (map f xs)) (concat (map g xs))"
  by (induction xs) (auto intro: writes_then)

lemma writes_list:
  assumes "\<And>v. v \<in> set vs \<Longrightarrow> writes (EncodeDlmsDataValue (repr v)) (wire v)"
  shows "writes (try_then (WriteAxdrLength (length vs)) (\<lambda>_. write_all (map EncodeDlmsDataValue (map repr vs))))
    (length_bytes (length vs) @ concat (map wire vs))"
  using writes_map [of vs "EncodeDlmsDataValue \<circ> repr" wire] assms by (auto intro: writes_then writes_length)

lemma writes_EncodeDlmsDataValue: "value_wf v \<Longrightarrow> writes (EncodeDlmsDataValue (repr v)) (wire v)"
proof (induction v)
  case (ArrayV vs)
  then have "writes (try_then (WriteAxdrLength (length vs)) (\<lambda>_. write_all (map EncodeDlmsDataValue (map repr vs))))
      (length_bytes (length vs) @ concat (map wire vs))"
    by (intro writes_list) (auto simp: list_all_iff)
  then show ?case by (simp add: data_tags writes_Cons)
next
  case (StructureV vs)
  then have "writes (try_then (WriteAxdrLength (length vs)) (\<lambda>_. write_all (map EncodeDlmsDataValue (map repr vs))))
      (length_bytes (length vs) @ concat (map wire vs))"
    by (intro writes_list) (auto simp: list_all_iff)
  then show ?case by (simp add: data_tags writes_Cons)
qed (simp_all add: data_tags writes_Cons writes_WriteUnsigned writes_FixedBytes boolc.wr_writes octetc.wr_writes
    writes_Cons_yield)

subsection \<open>Reading a value\<close>

lemma reads_FixedBytes: "length bs = n \<Longrightarrow> reads (ReadFixedBytes n) bs (View bs)"
  unfolding ReadFixedBytes_def by (intro reads_then_yield reads_ReadBytes)

lemma reads_fixed:
  "length bs = n \<Longrightarrow> reads (try_then (ReadFixedBytes n) (\<lambda>v. yield (g v))) bs (g (View bs))"
  by (intro reads_then_yield reads_FixedBytes)

lemma reads_map:
  "(\<And>x. x \<in> set xs \<Longrightarrow> reads m (g x) (f x)) \<Longrightarrow> reads (read_many (length xs) m) (concat (map g xs)) (map f xs)"
  by (induction xs) (auto intro!: reads_then reads_then_yield)

lemma reads_list:
  assumes "length vs < size_t_modulus" "\<And>v. v \<in> set vs \<Longrightarrow> reads m (wire v) (repr v)"
  shows "reads (try_then ReadAxdrLength (\<lambda>n. try_then (read_many n m) (\<lambda>es. yield (g es))))
    (length_bytes (length vs) @ concat (map wire vs)) (g (map repr vs))"
  by (intro reads_then [OF reads_length [OF assms(1)]] reads_then_yield reads_map assms(2))

lemma reads_number:
  "g (take_bit (8 * n) x) = y \<Longrightarrow> reads (try_then (ReadUnsigned n) (\<lambda>u. yield (g u))) (be_bytes n x) y"
  using reads_then_yield [OF reads_ReadUnsigned] by blast

lemma reads_DecodeDlmsDataValue:
  "value_wf v \<Longrightarrow> value_depth v \<le> d \<Longrightarrow> reads (DecodeDlmsDataValue d) (wire v) (repr v)"
proof (induction v arbitrary: d)
  case (ArrayV vs)
  then obtain e where d: "d = Suc e" by (cases d) auto
  with ArrayV.prems have "reads (DecodeDlmsDataValue e) (wire v) (repr v)" if "v \<in> set vs" for v
    using that unfolding d value_depth_list by (intro ArrayV.IH) (auto simp: list_all_iff)
  with ArrayV.prems show ?case by (auto simp: d data_tags intro!: reads_Cons reads_list)
next
  case (StructureV vs)
  then obtain e where d: "d = Suc e" by (cases d) auto
  with StructureV.prems have "reads (DecodeDlmsDataValue e) (wire v) (repr v)" if "v \<in> set vs" for v
    using that unfolding d value_depth_list by (intro StructureV.IH) (auto simp: list_all_iff)
  with StructureV.prems show ?case by (auto simp: d data_tags intro!: reads_Cons reads_list)
next
  case (BoolV b)
  then show ?case
    using boolc.rd_reads [of b] by (cases d) (auto simp: data_tags intro!: reads_Cons reads_then_yield)
next
  case (OctetsV bs)
  then show ?case by (cases d) (auto simp: data_tags octetc.rd_reads intro!: reads_Cons reads_then_yield)
qed (auto simp: data_tags dest!: Suc_le_D intro!: reads_Cons reads_number reads_fixed)

text \<open>A value with more levels than the limit is refused.\<close>

definition refuses :: "'a reading \<Rightarrow> bytes \<Rightarrow> ApduStatus \<Rightarrow> bool" where
  "refuses m bs e \<longleftrightarrow> (\<forall>pre rest. fst (m (reader_at pre (bs @ rest))) = Inl e)"

lemma refuses_step: "fst (m r) = Inl e \<Longrightarrow> fst (try_then m k r) = Inl e"
  by (auto simp: try_then_def split: prod.splits sum.splits)

lemma refuses_first: "refuses m bs e \<Longrightarrow> refuses (try_then m k) (bs @ cs) e"
  unfolding refuses_def append_assoc by (metis refuses_step)

lemma refuses_later: "reads m bs a \<Longrightarrow> refuses (k a) cs e \<Longrightarrow> refuses (try_then m k) (bs @ cs) e"
  by (simp add: refuses_def reads_def try_then_def)

lemma refuses_many:
  assumes "\<And>x. x \<in> set xs \<Longrightarrow> (if ok x then reads m (g x) (f x) else refuses m (g x) e)" "\<not> list_all ok xs"
  shows "refuses (read_many (length xs) m) (concat (map g xs)) e"
  using assms
proof (induction xs)
  case (Cons x xs)
  show ?case
  proof (cases "ok x")
    case True
    with Cons have "refuses (try_then (read_many (length xs) m) (\<lambda>ys. yield (f x # ys))) (concat (map g xs) @ []) e"
      by (intro refuses_first) auto
    moreover from True Cons.prems(1) [of x] have "reads m (g x) (f x)" by simp
    ultimately show ?thesis by (simp add: refuses_later)
  next
    case False
    with Cons.prems(1) [of x] show ?thesis by (simp add: refuses_first)
  qed
qed simp

lemma refuses_list:
  assumes "length vs < size_t_modulus" "\<not> list_all (\<lambda>v. value_depth v \<le> d) vs"
    and "\<And>v. v \<in> set vs \<Longrightarrow> if value_depth v \<le> d then reads m (wire v) (repr v) else refuses m (wire v) e"
  shows "refuses (try_then ReadAxdrLength (\<lambda>n. try_then (read_many n m) (\<lambda>es. yield (k es))))
    (length_bytes (length vs) @ concat (map wire vs)) e"
  using refuses_first [OF refuses_many [OF assms(3,2)], of "\<lambda>es. yield (k es)" "[]"]
  by (intro refuses_later [OF reads_length [OF assms(1)]]) simp

lemma refuses_Cons: "refuses (k b) cs e \<Longrightarrow> refuses (try_then ReadU8 k) (b # cs) e"
  using refuses_later [OF reads_ReadU8, of k b cs e] by simp

lemma refuses_DecodeDlmsDataValue:
  "value_wf v \<Longrightarrow> \<not> value_depth v \<le> d \<Longrightarrow> refuses (DecodeDlmsDataValue d) (wire v) InvalidData"
proof (induction v arbitrary: d)
  case (ArrayV vs)
  show ?case
  proof (cases d)
    case (Suc e)
    have "if value_depth v \<le> e then reads (DecodeDlmsDataValue e) (wire v) (repr v)
        else refuses (DecodeDlmsDataValue e) (wire v) InvalidData" if "v \<in> set vs" for v
      using that ArrayV by (auto simp: list_all_iff intro: reads_DecodeDlmsDataValue)
    moreover from ArrayV.prems(2) have "\<not> list_all (\<lambda>v. value_depth v \<le> e) vs"
      unfolding Suc value_depth_list .
    ultimately show ?thesis
      using ArrayV.prems(1) by (auto simp: Suc data_tags intro!: refuses_Cons refuses_list [where d = e])
  qed (simp add: refuses_def)
next
  case (StructureV vs)
  show ?case
  proof (cases d)
    case (Suc e)
    have "if value_depth v \<le> e then reads (DecodeDlmsDataValue e) (wire v) (repr v)
        else refuses (DecodeDlmsDataValue e) (wire v) InvalidData" if "v \<in> set vs" for v
      using that StructureV by (auto simp: list_all_iff intro: reads_DecodeDlmsDataValue)
    moreover from StructureV.prems(2) have "\<not> list_all (\<lambda>v. value_depth v \<le> e) vs"
      unfolding Suc value_depth_list .
    ultimately show ?thesis
      using StructureV.prems(1) by (auto simp: Suc data_tags intro!: refuses_Cons refuses_list [where d = e])
  qed (simp add: refuses_def)
qed (auto simp: refuses_def Suc_le_eq)

lemma safe_DecodeDlmsDataValue [simp]: "safe_read (DecodeDlmsDataValue d)"
proof (induction d)
  case (Suc d)
  have "safe_read (ReadUnsigned n)" "safe_read (ReadFixedBytes n)" for n
    unfolding ReadUnsigned_def ReadFixedBytes_def by (auto intro: safe_read_then)
  with Suc show ?case
    unfolding DecodeDlmsDataValue.simps by (intro safe_read_then safe_read_if_const safe_read_many) simp_all
qed (simp add: safe_read_def)

subsection \<open>What a reading may yield\<close>

lemma yields_ReadUnsigned: "n \<le> 8 \<Longrightarrow> yields (ReadUnsigned n) (\<lambda>u. take_bit (8 * n) u = u)"
proof -
  assume n: "n \<le> 8"
  have "take_bit (8 * n) (accumulate 0 bs) = accumulate 0 bs" if "length bs = n" for bs
    using be_value_less [of bs] unat_accumulate [of bs] n that
    by (simp add: word_unat_eq_iff unsigned_take_bit_eq take_bit_nat_eq_self power_mult)
  with yields_ReadOctets_loop [of n 0] show ?thesis by (auto simp: ReadUnsigned_def yields_def)
qed

definition represented :: "nat \<Rightarrow> DlmsData \<Rightarrow> bool" where
  "represented d x \<longleftrightarrow> (\<exists>v. value_wf v \<and> value_depth v \<le> d \<and> x = repr v)"

lemma representedI: "x = repr v \<Longrightarrow> value_wf v \<Longrightarrow> value_depth v \<le> d \<Longrightarrow> represented d x"
  by (auto simp: represented_def)

lemma represented_list:
  assumes "length xs < size_t_modulus" "\<forall>x \<in> set xs. represented d x" "tag = kArrayTag \<or> tag = kStructureTag"
  shows "represented (Suc d) (DlmsData tag False 0 0 (NullView 0) xs)"
proof -
  from assms(2) obtain f where f: "\<forall>x \<in> set xs. value_wf (f x) \<and> value_depth (f x) \<le> d \<and> x = repr (f x)"
    by (auto simp: represented_def bchoice_iff)
  then have vs: "map repr (map f xs) = xs" "list_all value_wf (map f xs)" "list_all (\<lambda>v. value_depth v \<le> d) (map f xs)"
    by (auto simp: list_all_iff map_idI)
  have "represented (Suc d) (repr (K (map f xs)))" if "K = ArrayV \<or> K = StructureV" for K
    using that vs(2,3) assms(1) value_depth_list [of "map f xs" d]
    by (intro representedI [where v = "K (map f xs)"]) auto
  from this [of ArrayV] this [of StructureV] assms(3) show ?thesis using vs(1) by auto
qed

lemma ucast_ucast_take_bit:
  "take_bit 8 (u :: u64) = u \<Longrightarrow> ucast (ucast u :: u8) = u" "take_bit 16 (u :: u64) = u \<Longrightarrow> ucast (ucast u :: u16) = u"
  "take_bit 32 (u :: u64) = u \<Longrightarrow> ucast (ucast u :: u32) = u"
  by (simp_all add: unsigned_ucast_eq word_unat_eq_iff unsigned_take_bit_eq)

lemma represented_number:
  "take_bit 32 u = u \<Longrightarrow> represented (Suc d) (data_signed kDoubleLongTag (SignExtend u 4))"
  "take_bit 32 u = u \<Longrightarrow> represented (Suc d) (data_unsigned kDoubleLongUnsignedTag u)"
  "take_bit 8 u = u \<Longrightarrow> represented (Suc d) (data_signed kIntegerTag (SignExtend u (Suc 0)))"
  "take_bit 8 u = u \<Longrightarrow> represented (Suc d) (data_unsigned kUnsignedTag u)"
  "take_bit 8 u = u \<Longrightarrow> represented (Suc d) (data_unsigned kEnumTag u)"
  "take_bit 16 u = u \<Longrightarrow> represented (Suc d) (data_signed kLongTag (SignExtend u 2))"
  "take_bit 16 u = u \<Longrightarrow> represented (Suc d) (data_unsigned kLongUnsignedTag u)"
  "represented (Suc d) (data_signed kLong64Tag u)"
  "represented (Suc d) (data_unsigned kLong64UnsignedTag u)"
  using ucast_ucast_take_bit [of u] SignExtend_scast(1) [of "ucast u"] SignExtend_scast(2) [of "ucast u"]
    SignExtend_scast(3) [of "ucast u"]
  by (auto intro: representedI [where v = "DoubleLongV (ucast u)"] representedI [where v = "DoubleLongUnsignedV (ucast u)"]
      representedI [where v = "IntegerV (ucast u)"] representedI [where v = "UnsignedV (ucast u)"]
      representedI [where v = "EnumV (ucast u)"] representedI [where v = "LongV (ucast u)"]
      representedI [where v = "LongUnsignedV (ucast u)"] representedI [where v = "Long64V u"]
      representedI [where v = "Long64UnsignedV u"])

lemma represented_other:
  "represented (Suc d) (data_plain kNullDataTag)" "represented (Suc d) (DlmsData kBooleanTag b 0 0 (NullView 0) [])"
  "length bs < size_t_modulus \<Longrightarrow> represented (Suc d) (data_octets kOctetStringTag (View bs))"
  "length bs = kDateTimeSize \<Longrightarrow> represented (Suc d) (data_octets kDateTimeTag (View bs))"
  "length bs = kDateSize \<Longrightarrow> represented (Suc d) (data_octets kDateTag (View bs))"
  "length bs = kTimeSize \<Longrightarrow> represented (Suc d) (data_octets kTimeTag (View bs))"
  by (auto intro: representedI [where v = NullV] representedI [where v = "BoolV b"] representedI [where v = "OctetsV bs"]
      representedI [where v = "DateTimeV bs"] representedI [where v = "DateV bs"] representedI [where v = "TimeV bs"])

lemma safe_numbers [simp]: "safe_read (ReadUnsigned n)" "safe_read (ReadFixedBytes n)"
  unfolding ReadUnsigned_def ReadFixedBytes_def by (auto intro: safe_read_then)

lemma yields_number:
  "n \<le> 8 \<Longrightarrow> (\<And>u. take_bit (8 * n) u = u \<Longrightarrow> P (g u)) \<Longrightarrow> yields (try_then (ReadUnsigned n) (\<lambda>u. yield (g u))) P"
  by (rule yields_then [OF yields_ReadUnsigned]) simp_all

lemma yields_fixed:
  "(\<And>bs. length bs = n \<Longrightarrow> P (g (View bs))) \<Longrightarrow> yields (try_then (ReadFixedBytes n) (\<lambda>v. yield (g v))) P"
  unfolding ReadFixedBytes_def
  by (intro yields_then [where P = "\<lambda>v. \<exists>bs. v = View bs \<and> length bs = n"] yields_then [OF yields_ReadBytes]) auto

lemma yields_elements:
  assumes "yields m (represented d)" "safe_read m" "tag = kArrayTag \<or> tag = kStructureTag"
  shows "yields (try_then ReadAxdrLength (\<lambda>n. try_then (read_many n m)
    (\<lambda>es. yield (DlmsData tag False 0 0 (NullView 0) es)))) (represented (Suc d))"
  using assms by (intro yields_then [OF yields_ReadAxdrLength] yields_then [OF yields_many [OF assms(1,2)]])
    (simp_all add: represented_list)

lemma yields_DecodeDlmsDataValue: "yields (DecodeDlmsDataValue d) (represented d)"
proof (induction d)
  case (Suc d)
  show ?case unfolding DecodeDlmsDataValue.simps
    by (intro yields_any [OF safe_ReadU8] yields_if yields_elements [OF Suc] yields_number yields_fixed
        yields_any [OF boolc.rd_safe] yields_then [OF yields_octets])
      (simp_all add: represented_number represented_other, auto simp: represented_number)
qed (simp add: yields_def)

subsection \<open>Data as a field of an APDU\<close>

text \<open>The bytes of a structure, as the encoder puts them together.\<close>

fun data_bytes :: "DlmsData \<Rightarrow> bytes" where
  "data_bytes (DlmsData tag b s u v es) = tag #
     (if tag = kNullDataTag then []
      else if tag = kArrayTag \<or> tag = kStructureTag then length_bytes (length es) @ concat (map data_bytes es)
      else if tag = kBooleanTag then [if b then 1 else 0]
      else if tag = kDoubleLongTag then be_bytes 4 (ucast (ucast s :: u32))
      else if tag = kDoubleLongUnsignedTag then be_bytes 4 u
      else if tag = kOctetStringTag then octet_string_bytes (view_bytes v)
      else if tag = kIntegerTag then be_bytes 1 (ucast (ucast s :: u8))
      else if tag = kLongTag then be_bytes 2 (ucast (ucast s :: u16))
      else if tag = kUnsignedTag \<or> tag = kEnumTag then be_bytes 1 u
      else if tag = kLongUnsignedTag then be_bytes 2 u
      else if tag = kLong64Tag then be_bytes 8 s
      else if tag = kLong64UnsignedTag then be_bytes 8 u
      else view_bytes v)"

lemma data_bytes_repr: "data_bytes (repr v) = wire v"
proof (induction v)
  case (ArrayV vs)
  then have "map data_bytes (map repr vs) = map wire vs" by simp
  then show ?case by (simp add: data_tags del: map_map)
next
  case (StructureV vs)
  then have "map data_bytes (map repr vs) = map wire vs" by simp
  then show ?case by (simp add: data_tags del: map_map)
qed (simp_all add: data_tags)

interpretation datac: wire_codec "represented d" data_bytes "DecodeDlmsDataFromReader d" EncodeDlmsData for d
  by unfold_locales
    (auto simp: represented_def data_bytes_repr DecodeDlmsDataFromReader_def EncodeDlmsData_def yields_DecodeDlmsDataValue
      intro: reads_DecodeDlmsDataValue writes_EncodeDlmsDataValue)

lemmas [codec_reads] = datac.rd_rules
lemmas [codec_writes] = datac.wr_rules
lemmas [codec_yields] = datac.yd_rules
lemmas [simp, codec_safe] = datac.rd_safe

subsection \<open>Properties\<close>

lemma DecodeDlmsData_wire:
  assumes "value_wf v"
  shows "DecodeDlmsData (View (wire v)) d = (if value_depth v \<le> d then Inr (repr v) else Inl InvalidData)"
proof (cases "value_depth v \<le> d")
  case True
  from reads_at [OF reads_DecodeDlmsDataValue [OF assms True], of "[]" "[]"] True show ?thesis
    by (simp add: DecodeDlmsData_def DecodeDlmsDataFromReader_def ApduReader_init_at)
next
  case False
  from refuses_DecodeDlmsDataValue [OF assms this]
  have "fst (DecodeDlmsDataValue d (reader_at [] (wire v @ []))) = Inl InvalidData" unfolding refuses_def by blast
  with False show ?thesis
    by (auto simp: DecodeDlmsData_def DecodeDlmsDataFromReader_def ApduReader_init_at split: prod.splits sum.splits)
qed

text \<open>
  C21: Round trip of COSEM data. The structure of every well-formed value is written into any
  buffer that holds its encoding, as exactly that encoding, and a smaller buffer is reported as
  \<open>OutputBufferTooSmall\<close>; the decoder reads the written bytes back as the same structure when the
  value has no more levels than the depth limit, and refuses them with \<open>InvalidData\<close> otherwise.
\<close>

theorem dlms_data_roundtrip:
  assumes "value_wf v"
  shows "if length (wire v) \<le> n
    then \<exists>w. EncodeDlmsData (repr v) (ApduWriter_init False n) = (Inr (), w) \<and> written w = wire v
      \<and> DecodeDlmsData (View (written w)) d = (if value_depth v \<le> d then Inr (repr v) else Inl InvalidData)
    else fst (EncodeDlmsData (repr v) (ApduWriter_init False n)) = Inl OutputBufferTooSmall"
proof (cases "length (wire v) \<le> n")
  case True
  then have "EncodeDlmsData (repr v) (ApduWriter_init False n) = (Inr (), store (wire v) (ApduWriter_init False n))"
    unfolding EncodeDlmsData_def by (rule writes_fresh [OF writes_EncodeDlmsDataValue [OF assms]])
  with True show ?thesis by (auto simp: DecodeDlmsData_wire [OF assms] ApduWriter_init_def)
next
  case False
  then show ?thesis using writes_fresh_full [OF writes_EncodeDlmsDataValue [OF assms]] by (simp add: EncodeDlmsData_def)
qed

theorem dlms_data_roundtrip_witness:
  "\<exists>w. EncodeDlmsData (repr (StructureV [EnumV 2, BoolV True])) (ApduWriter_init False 6) = (Inr (), w)
     \<and> DecodeDlmsData (View (written w)) 2 = Inr (repr (StructureV [EnumV 2, BoolV True]))"
  using dlms_data_roundtrip [of "StructureV [EnumV 2, BoolV True]" 6 2]
  by (auto simp: size_t_modulus_def length_bytes_def)

text \<open>
  Decoded data is canonical. Whatever \<open>DecodeDlmsData\<close> accepts represents a value with at most
  the allowed number of levels and in-range parts: the structure can be encoded, and decoding the
  encoding gives the same structure again. (The input itself may be another encoding: a boolean
  may be any non-zero byte.)
\<close>

theorem DecodeDlmsData_canonical:
  assumes "DecodeDlmsData input d = Inr x"
  shows "\<exists>v. value_wf v \<and> value_depth v \<le> d \<and> x = repr v
    \<and> EncodeDlmsData x (ApduWriter_init False (length (wire v))) = (Inr (), store (wire v) (ApduWriter_init False (length (wire v))))
    \<and> DecodeDlmsData (View (wire v)) d = Inr x"
proof -
  from assms obtain r where "DecodeDlmsDataValue d (ApduReader_init input) = (Inr x, r)"
    by (auto simp: DecodeDlmsData_def DecodeDlmsDataFromReader_def split: if_splits prod.splits sum.splits)
  moreover have "reader_ok (ApduReader_init input)" by (simp add: reader_ok_def ApduReader_init_def)
  ultimately have "represented d x" using yields_DecodeDlmsDataValue [of d] by (auto simp: yields_def)
  then obtain v where v: "value_wf v" "value_depth v \<le> d" "x = repr v" by (auto simp: represented_def)
  have "EncodeDlmsData x (ApduWriter_init False (length (wire v))) = (Inr (), store (wire v) (ApduWriter_init False (length (wire v))))"
    unfolding EncodeDlmsData_def v(3)
    by (rule writes_fresh [OF writes_EncodeDlmsDataValue [OF v(1)] order_refl])
  with v DecodeDlmsData_wire [OF v(1), of d] show ?thesis by auto
qed

theorem DecodeDlmsData_canonical_witness:
  "\<exists>v. value_wf v \<and> value_depth v \<le> 1 \<and> DecodeDlmsData (View [0x03, 0x07]) 1 = Inr (repr v)
     \<and> DecodeDlmsData (View (wire v)) 1 = Inr (repr v)"
proof -
  have "DecodeDlmsData (View [0x03, 0x07]) 1 = Inr (DlmsData kBooleanTag True 0 0 (NullView 0) [])"
    by (simp add: DecodeDlmsData_def DecodeDlmsDataFromReader_def ApduReader_init_at try_then_def ReadU8_at
        data_tags ReadAxdrBoolean_def)
  from this DecodeDlmsData_canonical [OF this] show ?thesis by auto
qed

text \<open>
  The data decoder stays inside its buffer: from any position within the buffer, whatever the
  bytes, it never moves the position back or past the end, on success and on error.
\<close>

theorem DecodeDlmsDataFromReader_bounds:
  assumes "readerPosition r \<le> view_size (readerData r)"
  shows "let r' = snd (DecodeDlmsDataFromReader d r) in
    readerPosition r \<le> readerPosition r' \<and> readerPosition r' \<le> view_size (readerData r) \<and> readerData r' = readerData r"
  using safe_DecodeDlmsDataValue [of d] assms
  by (auto simp: safe_read_def reader_ok_def DecodeDlmsDataFromReader_def Let_def)

theorem DecodeDlmsDataFromReader_bounds_witness:
  "readerPosition (snd (DecodeDlmsDataFromReader 3 (ApduReader_init (View [0x01, 0x7f])))) \<le> 2"
  using DecodeDlmsDataFromReader_bounds [of "ApduReader_init (View [0x01, 0x7f])" 3] by (simp add: ApduReader_init_def Let_def)

end
