(* ===== verification/Apdu_Initiate.thy ===== *)
theory Apdu_Initiate
  imports Dlms_Data
begin

text \<open>
  The xDLMS initiate request and response (\<open>initiate.hpp\<close>, \<open>initiate.cpp\<close>), the messages in which
  client and server propose and settle the conformance block and their maximum PDU sizes. An
  eight-bit signed value is kept as its byte.
\<close>

record InitiateRequest =
  hasDedicatedKey :: bool
  dedicatedKey :: view
  responseAllowed :: bool
  hasProposedQualityOfService :: bool
  proposedQualityOfService :: u8
  proposedDlmsVersionNumber :: u8
  proposedConformance :: bytes
  clientMaxReceivePduSize :: u16

record InitiateResponse =
  hasNegotiatedQualityOfService :: bool
  negotiatedQualityOfService :: u8
  negotiatedDlmsVersionNumber :: u8
  negotiatedConformance :: bytes
  serverMaxReceivePduSize :: u16
  vaaName :: u16

definition ReadOptionalInteger8 :: "(bool \<times> u8) reading" where
  "ReadOptionalInteger8 = try_then ReadAxdrOptionalFlag (\<lambda>present.
     if \<not> present then yield (present, 0)
     else try_then ReadU8 (\<lambda>raw. yield (present, raw)))"

definition WriteOptionalInteger8 :: "bool \<Rightarrow> u8 \<Rightarrow> writing" where
  "WriteOptionalInteger8 present v = try_then (WriteAxdrOptionalFlag present) (\<lambda>_.
     if \<not> present then yield () else WriteU8 v)"

definition MakeDefaultInitiateRequest :: InitiateRequest where
  "MakeDefaultInitiateRequest =
     \<lparr>hasDedicatedKey = False, dedicatedKey = NullView 0, responseAllowed = True, hasProposedQualityOfService = False,
      proposedQualityOfService = 0, proposedDlmsVersionNumber = 6, proposedConformance = [0x00, 0x7e, 0x1f],
      clientMaxReceivePduSize = 0x0200\<rparr>"

definition DecodeInitiateRequest_fields :: "InitiateRequest reading" where
  "DecodeInitiateRequest_fields = try_then ReadU8 (\<lambda>tag.
     if tag \<noteq> 0x01 then refuse InvalidTag
     else try_then ReadAxdrOptionalFlag (\<lambda>hasKey.
       try_then (if hasKey then try_then ReadAxdrOctetString (\<lambda>key. yield (View key)) else yield (NullView 0)) (\<lambda>key.
       try_then ReadAxdrOptionalFlag (\<lambda>hasResponseAllowed.
       try_then (if hasResponseAllowed then ReadAxdrBoolean else yield True) (\<lambda>allowed.
       try_then ReadOptionalInteger8 (\<lambda>(hasQos, qos).
       try_then ReadU8 (\<lambda>version.
       try_then ReadAxdrConformance (\<lambda>conformance.
       try_then ReadU16 (\<lambda>pduSize.
         yield \<lparr>hasDedicatedKey = hasKey, dedicatedKey = key, responseAllowed = allowed,
           hasProposedQualityOfService = hasQos, proposedQualityOfService = qos,
           proposedDlmsVersionNumber = version, proposedConformance = conformance,
           clientMaxReceivePduSize = pduSize\<rparr>)))))))))"

definition DecodeInitiateRequest :: "view \<Rightarrow> ApduStatus + InitiateRequest" where
  "DecodeInitiateRequest input = fst (whole DecodeInitiateRequest_fields (ApduReader_init input))"

definition EncodeInitiateRequest :: "InitiateRequest \<Rightarrow> writing" where
  "EncodeInitiateRequest input = try_then (WriteU8 0x01) (\<lambda>_.
     try_then (WriteAxdrOptionalFlag (hasDedicatedKey input)) (\<lambda>_.
     try_then (if hasDedicatedKey input then WriteAxdrOctetString (dedicatedKey input) else yield ()) (\<lambda>_.
     try_then (WriteAxdrOptionalFlag (\<not> responseAllowed input)) (\<lambda>_.
     try_then (if \<not> responseAllowed input then WriteAxdrBoolean (responseAllowed input) else yield ()) (\<lambda>_.
     try_then (WriteOptionalInteger8 (hasProposedQualityOfService input) (proposedQualityOfService input)) (\<lambda>_.
     try_then (WriteU8 (proposedDlmsVersionNumber input)) (\<lambda>_.
     try_then (WriteAxdrConformance (proposedConformance input)) (\<lambda>_.
     WriteU16 (clientMaxReceivePduSize input)))))))))"

definition DecodeInitiateResponse_fields :: "InitiateResponse reading" where
  "DecodeInitiateResponse_fields = try_then ReadU8 (\<lambda>tag.
     if tag \<noteq> 0x08 then refuse InvalidTag
     else try_then ReadOptionalInteger8 (\<lambda>(hasQos, qos).
       try_then ReadU8 (\<lambda>version.
       try_then ReadAxdrConformance (\<lambda>conformance.
       try_then ReadU16 (\<lambda>pduSize.
       try_then ReadU16 (\<lambda>vaa.
         yield \<lparr>hasNegotiatedQualityOfService = hasQos, negotiatedQualityOfService = qos,
           negotiatedDlmsVersionNumber = version, negotiatedConformance = conformance,
           serverMaxReceivePduSize = pduSize, vaaName = vaa\<rparr>))))))"

definition DecodeInitiateResponse :: "view \<Rightarrow> ApduStatus + InitiateResponse" where
  "DecodeInitiateResponse input = fst (whole DecodeInitiateResponse_fields (ApduReader_init input))"

definition EncodeInitiateResponse :: "InitiateResponse \<Rightarrow> writing" where
  "EncodeInitiateResponse input = try_then (WriteU8 0x08) (\<lambda>_.
     try_then (WriteOptionalInteger8 (hasNegotiatedQualityOfService input) (negotiatedQualityOfService input)) (\<lambda>_.
     try_then (WriteU8 (negotiatedDlmsVersionNumber input)) (\<lambda>_.
     try_then (WriteAxdrConformance (negotiatedConformance input)) (\<lambda>_.
     try_then (WriteU16 (serverMaxReceivePduSize input)) (\<lambda>_.
     WriteU16 (vaaName input))))))"

subsection \<open>Optional fields\<close>

definition integer8_bytes :: "bool \<times> u8 \<Rightarrow> bytes" where
  "integer8_bytes x = (if fst x then [1, snd x] else [0])"

interpretation integer8c: wire_codec "\<lambda>(present, v). present \<or> v = 0" integer8_bytes ReadOptionalInteger8
  "\<lambda>(present, v). WriteOptionalInteger8 present v"
proof unfold_locales
  fix x :: "bool \<times> u8"
  obtain p v where x: "x = (p, v)" by fastforce
  show "reads ReadOptionalInteger8 (integer8_bytes x) x" if "case x of (present, v) \<Rightarrow> present \<or> v = 0"
    using that unfolding x ReadOptionalInteger8_def integer8_bytes_def
    by (auto simp: reads_def try_then_def ReadAxdrOptionalFlag_def ReadU8_at)
  show "writes (case x of (present, v) \<Rightarrow> WriteOptionalInteger8 present v) (integer8_bytes x)"
    unfolding x WriteOptionalInteger8_def integer8_bytes_def WriteAxdrOptionalFlag_def
    by (auto intro: codec_writes)
next
  show "safe_read ReadOptionalInteger8"
    unfolding ReadOptionalInteger8_def by (intro safe_read_then safe_read_if_const) simp_all
  show "yields ReadOptionalInteger8 (\<lambda>(present, v). present \<or> v = 0)"
    unfolding ReadOptionalInteger8_def by (intro codec_yields) simp_all
qed

lemmas [codec_reads] = integer8c.rd_then [of "(p, v)" for p v, unfolded case_prod_conv]
lemmas [codec_writes] = integer8c.wr_then [of "(p, v)" for p v, unfolded case_prod_conv]
lemmas [codec_yields] = integer8c.yd_rules
lemmas [simp, codec_safe] = integer8c.rd_safe

subsection \<open>The messages\<close>

text \<open>
  A request that the decoder can produce: an absent key is a null view, an absent quality of
  service is zero, and the conformance block has three bytes.
\<close>

definition key_wf :: "bool \<Rightarrow> view \<Rightarrow> bool" where
  "key_wf hasKey key \<longleftrightarrow> (if hasKey then \<exists>bs. key = View bs \<and> length bs < size_t_modulus else key = NullView 0)"

definition initiate_request_wf :: "InitiateRequest \<Rightarrow> bool" where
  "initiate_request_wf m \<longleftrightarrow> key_wf (hasDedicatedKey m) (dedicatedKey m) \<and> length (proposedConformance m) = 3
     \<and> (hasProposedQualityOfService m \<or> proposedQualityOfService m = 0)"

definition initiate_request_bytes :: "InitiateRequest \<Rightarrow> bytes" where
  "initiate_request_bytes m = 0x01
     # (if hasDedicatedKey m then 1 # octet_string_bytes (view_bytes (dedicatedKey m)) else [0])
     @ (if responseAllowed m then [0] else [1, 0])
     @ integer8_bytes (hasProposedQualityOfService m, proposedQualityOfService m)
     @ proposedDlmsVersionNumber m # conformance_bytes (proposedConformance m) @ be16 (clientMaxReceivePduSize m)"

definition initiate_response_wf :: "InitiateResponse \<Rightarrow> bool" where
  "initiate_response_wf m \<longleftrightarrow> length (negotiatedConformance m) = 3
     \<and> (hasNegotiatedQualityOfService m \<or> negotiatedQualityOfService m = 0)"

definition initiate_response_bytes :: "InitiateResponse \<Rightarrow> bytes" where
  "initiate_response_bytes m = 0x08 # integer8_bytes (hasNegotiatedQualityOfService m, negotiatedQualityOfService m)
     @ negotiatedDlmsVersionNumber m # conformance_bytes (negotiatedConformance m)
     @ be16 (serverMaxReceivePduSize m) @ be16 (vaaName m)"

interpretation initiate_requestc: wire_codec initiate_request_wf initiate_request_bytes
  DecodeInitiateRequest_fields EncodeInitiateRequest
proof unfold_locales
  fix m
  assume wf: "initiate_request_wf m"
  show "reads DecodeInitiateRequest_fields (initiate_request_bytes m) m"
    using wf unfolding initiate_request_wf_def key_wf_def DecodeInitiateRequest_fields_def initiate_request_bytes_def
    by (cases "hasDedicatedKey m"; cases "responseAllowed m") (auto simp: sequencing intro!: codec_reads)
  show "writes (EncodeInitiateRequest m) (initiate_request_bytes m)"
    using wf unfolding initiate_request_wf_def key_wf_def EncodeInitiateRequest_def initiate_request_bytes_def
      WriteAxdrOptionalFlag_def WriteAxdrBoolean_def
    by (cases "hasDedicatedKey m"; cases "responseAllowed m") (auto simp: sequencing intro!: codec_writes)
next
  show "safe_read DecodeInitiateRequest_fields"
    unfolding DecodeInitiateRequest_fields_def by (intro codec_safe)
  show "yields DecodeInitiateRequest_fields initiate_request_wf"
    unfolding DecodeInitiateRequest_fields_def sequencing
    by (intro codec_yields) (auto simp: initiate_request_wf_def key_wf_def)
qed

interpretation initiate_responsec: wire_codec initiate_response_wf initiate_response_bytes
  DecodeInitiateResponse_fields EncodeInitiateResponse
proof unfold_locales
  fix m
  assume wf: "initiate_response_wf m"
  show "reads DecodeInitiateResponse_fields (initiate_response_bytes m) m"
    using wf unfolding initiate_response_wf_def DecodeInitiateResponse_fields_def initiate_response_bytes_def
    by (auto simp: sequencing intro!: codec_reads)
  show "writes (EncodeInitiateResponse m) (initiate_response_bytes m)"
    using wf unfolding initiate_response_wf_def EncodeInitiateResponse_def initiate_response_bytes_def
    by (auto simp: sequencing intro!: codec_writes)
next
  show "safe_read DecodeInitiateResponse_fields"
    unfolding DecodeInitiateResponse_fields_def by (intro codec_safe)
  show "yields DecodeInitiateResponse_fields initiate_response_wf"
    unfolding DecodeInitiateResponse_fields_def
    by (intro codec_yields) (auto simp: initiate_response_wf_def)
qed

lemma whole_null: "bad_view v \<Longrightarrow> fst (whole (try_then ReadU8 k) (ApduReader_init v)) = Inl InvalidArgument"
  by (simp add: whole_def try_then_def ReadU8_def ApduReader_init_def)

lemma DecodeInitiate_decode_with:
  "DecodeInitiateRequest = decode_with (whole DecodeInitiateRequest_fields)"
  "DecodeInitiateResponse = decode_with (whole DecodeInitiateResponse_fields)"
  by (simp_all add: fun_eq_iff DecodeInitiateRequest_def DecodeInitiateResponse_def decode_with_def whole_null
      DecodeInitiateRequest_fields_def DecodeInitiateResponse_fields_def)

subsection \<open>Properties\<close>

text \<open>
  Initiate messages. Every request and response whose absent fields have their default values
  makes the round trip (it is written into any buffer with room, a smaller buffer is reported,
  and decoding gives it back), whether or not the dedicated key, the response-allowed flag and
  the quality of service are present; and whatever the decoders accept is such a message.
\<close>

theorem initiate_messages:
  "(initiate_request_wf q \<longrightarrow> round_trips (initiate_request_bytes q) (EncodeInitiateRequest q) DecodeInitiateRequest q)
   \<and> (DecodeInitiateRequest v = Inr q \<longrightarrow> initiate_request_wf q)
   \<and> (initiate_response_wf r \<longrightarrow> round_trips (initiate_response_bytes r) (EncodeInitiateResponse r) DecodeInitiateResponse r)
   \<and> (DecodeInitiateResponse v = Inr r \<longrightarrow> initiate_response_wf r)"
  using initiate_requestc.msg.message_laws initiate_responsec.msg.message_laws
  unfolding DecodeInitiate_decode_with by blast

theorem initiate_messages_witness:
  "initiate_request_wf MakeDefaultInitiateRequest
   \<and> round_trips [0x01, 0, 0, 0, 6, 0x5f, 0x1f, 0x04, 0x00, 0x00, 0x7e, 0x1f, 0x02, 0x00]
      (EncodeInitiateRequest MakeDefaultInitiateRequest) DecodeInitiateRequest MakeDefaultInitiateRequest"
proof -
  have "initiate_request_wf MakeDefaultInitiateRequest"
    "initiate_request_bytes MakeDefaultInitiateRequest = [0x01, 0, 0, 0, 6, 0x5f, 0x1f, 0x04, 0x00, 0x00, 0x7e, 0x1f, 0x02, 0x00]"
    by (simp_all add: initiate_request_wf_def key_wf_def initiate_request_bytes_def MakeDefaultInitiateRequest_def
        integer8_bytes_def conformance_bytes_def be16_def)
  with initiate_messages [of MakeDefaultInitiateRequest] show ?thesis by simp
qed

end
