(* ===== verification/Apdu_Descriptor.thy ===== *)
theory Apdu_Descriptor
  imports Dlms_Data
begin

text \<open>
  The attribute and method descriptors of COSEM objects (\<open>cosem_descriptor.hpp\<close>,
  \<open>cosem_descriptor.cpp\<close>): class, logical name of six bytes, and attribute or method number, in
  nine bytes. Both implement the interface \<open>wire_codec\<close>.
\<close>

record CosemAttributeDescriptor =
  attributeClassId :: u16
  attributeLogicalName :: bytes
  attributeId :: u8

record CosemMethodDescriptor =
  methodClassId :: u16
  methodLogicalName :: bytes
  methodId :: u8

definition DecodeCosemAttributeDescriptor :: "CosemAttributeDescriptor reading" where
  "DecodeCosemAttributeDescriptor = try_then ReadU16 (\<lambda>classId. try_then (read_many 6 ReadU8) (\<lambda>logicalName.
     try_then ReadU8 (\<lambda>attribute.
       yield \<lparr>attributeClassId = classId, attributeLogicalName = logicalName, attributeId = attribute\<rparr>)))"

definition EncodeCosemAttributeDescriptor :: "CosemAttributeDescriptor \<Rightarrow> writing" where
  "EncodeCosemAttributeDescriptor input = try_then (WriteU16 (attributeClassId input)) (\<lambda>_.
     try_then (write_all (map WriteU8 (attributeLogicalName input))) (\<lambda>_. WriteU8 (attributeId input)))"

definition DecodeCosemMethodDescriptor :: "CosemMethodDescriptor reading" where
  "DecodeCosemMethodDescriptor = try_then ReadU16 (\<lambda>classId. try_then (read_many 6 ReadU8) (\<lambda>logicalName.
     try_then ReadU8 (\<lambda>method.
       yield \<lparr>methodClassId = classId, methodLogicalName = logicalName, methodId = method\<rparr>)))"

definition EncodeCosemMethodDescriptor :: "CosemMethodDescriptor \<Rightarrow> writing" where
  "EncodeCosemMethodDescriptor input = try_then (WriteU16 (methodClassId input)) (\<lambda>_.
     try_then (write_all (map WriteU8 (methodLogicalName input))) (\<lambda>_. WriteU8 (methodId input)))"

text \<open>The arrays of six bytes, and the wire images.\<close>

definition attribute_wf :: "CosemAttributeDescriptor \<Rightarrow> bool" where
  "attribute_wf d \<longleftrightarrow> length (attributeLogicalName d) = 6"

definition attribute_bytes :: "CosemAttributeDescriptor \<Rightarrow> bytes" where
  "attribute_bytes d = be16 (attributeClassId d) @ attributeLogicalName d @ [attributeId d]"

definition method_wf :: "CosemMethodDescriptor \<Rightarrow> bool" where
  "method_wf d \<longleftrightarrow> length (methodLogicalName d) = 6"

definition method_bytes :: "CosemMethodDescriptor \<Rightarrow> bytes" where
  "method_bytes d = be16 (methodClassId d) @ methodLogicalName d @ [methodId d]"

interpretation attributec: wire_codec attribute_wf attribute_bytes DecodeCosemAttributeDescriptor EncodeCosemAttributeDescriptor
proof unfold_locales
  show "reads DecodeCosemAttributeDescriptor (attribute_bytes d) d" if "attribute_wf d" for d
    using that unfolding attribute_wf_def attribute_bytes_def DecodeCosemAttributeDescriptor_def
    by (intro codec_reads) simp_all
  show "writes (EncodeCosemAttributeDescriptor d) (attribute_bytes d)" for d
    unfolding attribute_bytes_def EncodeCosemAttributeDescriptor_def by (intro codec_writes) simp_all
  show "safe_read DecodeCosemAttributeDescriptor"
    unfolding DecodeCosemAttributeDescriptor_def by (intro safe_read_then) simp_all
  show "yields DecodeCosemAttributeDescriptor attribute_wf"
    unfolding DecodeCosemAttributeDescriptor_def by (intro codec_yields) (simp add: attribute_wf_def)
qed

interpretation methodc: wire_codec method_wf method_bytes DecodeCosemMethodDescriptor EncodeCosemMethodDescriptor
proof unfold_locales
  show "reads DecodeCosemMethodDescriptor (method_bytes d) d" if "method_wf d" for d
    using that unfolding method_wf_def method_bytes_def DecodeCosemMethodDescriptor_def
    by (intro codec_reads) simp_all
  show "writes (EncodeCosemMethodDescriptor d) (method_bytes d)" for d
    unfolding method_bytes_def EncodeCosemMethodDescriptor_def by (intro codec_writes) simp_all
  show "safe_read DecodeCosemMethodDescriptor"
    unfolding DecodeCosemMethodDescriptor_def by (intro safe_read_then) simp_all
  show "yields DecodeCosemMethodDescriptor method_wf"
    unfolding DecodeCosemMethodDescriptor_def by (intro codec_yields) (simp add: method_wf_def)
qed

lemmas [codec_reads] = attributec.rd_rules methodc.rd_rules
lemmas [codec_writes] = attributec.wr_rules methodc.wr_rules
lemmas [codec_yields] = attributec.yd_rules methodc.yd_rules
lemmas [simp, codec_safe] = attributec.rd_safe methodc.rd_safe

end
