(* ===== verification/Apdu_Get.thy ===== *)
theory Apdu_Get
  imports Apdu_Descriptor
begin

text \<open>
  The GET service (\<open>get.hpp\<close>, \<open>get.cpp\<close>): requests for one attribute, for the next block and for a
  list of attributes, and the responses with one result, a data block or a list of results. The
  enumerations of the source are bytes, because the decoders store any choice they read and the
  encoders answer an unknown one with \<open>InvalidChoice\<close>. Elements of a structure that a choice does
  not use have the value of \<open>output = {}\<close>. \<open>set.cpp\<close> and \<open>action.cpp\<close> repeat the helper functions;
  they are modelled once, here.
\<close>

definition DlmsData_default :: DlmsData where
  "DlmsData_default = DlmsData 0 False 0 0 (NullView 0) []"

record SelectiveAccessDescriptor =
  selector :: u8
  parameters :: DlmsData

record CosemAttributeDescriptorWithSelection =
  selectedDescriptor :: CosemAttributeDescriptor
  hasSelection :: bool
  selection :: SelectiveAccessDescriptor

record DataBlockG =
  lastBlock :: bool
  dataBlockNumber :: u32
  rawData :: view

record GetDataResult =
  resultChoice :: u8
  resultData :: DlmsData
  dataAccessError :: u8

record GetRequestNormal =
  getNormal_invokeIdAndPriority :: u8
  getNormal_descriptor :: CosemAttributeDescriptor
  getNormal_hasSelectiveAccess :: bool
  getNormal_selectiveAccess :: SelectiveAccessDescriptor

record GetResponseNormal =
  getResponseNormal_invokeIdAndPriority :: u8
  getResponseNormal_resultChoice :: u8
  getResponseNormal_data :: DlmsData
  getResponseNormal_dataAccessError :: u8

record GetRequest =
  getRequest_choice :: u8
  getRequest_invokeIdAndPriority :: u8
  getRequest_normal :: CosemAttributeDescriptorWithSelection
  getRequest_blockNumber :: u32
  getRequest_list :: "CosemAttributeDescriptorWithSelection list"

record GetResponse =
  getResponse_choice :: u8
  getResponse_invokeIdAndPriority :: u8
  getResponse_result :: GetDataResult
  getResponse_dataBlock :: DataBlockG
  getResponse_list :: "GetDataResult list"

definition kGetRequestTag :: u8 where "kGetRequestTag = 0xc0"
definition kGetResponseTag :: u8 where "kGetResponseTag = 0xc4"
definition kNormalChoice :: u8 where "kNormalChoice = 0x01"
definition kNextChoice :: u8 where "kNextChoice = 0x02"
definition kWithListChoice :: u8 where "kWithListChoice = 0x03"

lemmas get_consts = kGetRequestTag_def kGetResponseTag_def kNormalChoice_def kNextChoice_def kWithListChoice_def

definition SelectiveAccessDescriptor_default :: SelectiveAccessDescriptor where
  "SelectiveAccessDescriptor_default = \<lparr>selector = 0, parameters = DlmsData_default\<rparr>"

definition CosemAttributeDescriptor_default :: CosemAttributeDescriptor where
  "CosemAttributeDescriptor_default =
     \<lparr>attributeClassId = 0, attributeLogicalName = [0, 0, 0, 0, 0, 0], attributeId = 0\<rparr>"

definition WithSelection_default :: CosemAttributeDescriptorWithSelection where
  "WithSelection_default = \<lparr>selectedDescriptor = CosemAttributeDescriptor_default, hasSelection = False,
     selection = SelectiveAccessDescriptor_default\<rparr>"

definition DataBlockG_default :: DataBlockG where
  "DataBlockG_default = \<lparr>lastBlock = False, dataBlockNumber = 0, rawData = NullView 0\<rparr>"

definition GetDataResult_default :: GetDataResult where
  "GetDataResult_default = \<lparr>resultChoice = 0, resultData = DlmsData_default, dataAccessError = 0\<rparr>"

definition GetRequest_default :: GetRequest where
  "GetRequest_default = \<lparr>getRequest_choice = 0, getRequest_invokeIdAndPriority = 0,
     getRequest_normal = WithSelection_default, getRequest_blockNumber = 0, getRequest_list = []\<rparr>"

definition GetResponse_default :: GetResponse where
  "GetResponse_default = \<lparr>getResponse_choice = 0, getResponse_invokeIdAndPriority = 0,
     getResponse_result = GetDataResult_default, getResponse_dataBlock = DataBlockG_default, getResponse_list = []\<rparr>"

lemmas get_defaults = GetRequest_default_def GetResponse_default_def GetDataResult_default_def

definition ReadRawData :: "view reading" where
  "ReadRawData = try_then ReadAxdrOctetString (\<lambda>bs. yield (View bs))"

definition WriteRawData :: "view \<Rightarrow> writing" where
  "WriteRawData input = WriteAxdrOctetString input"

definition DecodeSelection :: "nat \<Rightarrow> (bool \<times> SelectiveAccessDescriptor) reading" where
  "DecodeSelection maximumDataDepth = try_then ReadU8 (\<lambda>flag.
     if flag > 1 then refuse InvalidChoice
     else if flag = 0 then yield (False, SelectiveAccessDescriptor_default)
     else try_then ReadU8 (\<lambda>sel. try_then (DecodeDlmsDataFromReader maximumDataDepth) (\<lambda>params.
       yield (True, \<lparr>selector = sel, parameters = params\<rparr>))))"

definition EncodeSelection :: "bool \<Rightarrow> SelectiveAccessDescriptor \<Rightarrow> writing" where
  "EncodeSelection present input = try_then (WriteU8 (if present then 0x01 else 0x00)) (\<lambda>_.
     if \<not> present then yield ()
     else try_then (WriteU8 (selector input)) (\<lambda>_. EncodeDlmsData (parameters input)))"

definition DecodeDescriptorWithSelection :: "nat \<Rightarrow> CosemAttributeDescriptorWithSelection reading" where
  "DecodeDescriptorWithSelection maximumDataDepth = try_then DecodeCosemAttributeDescriptor (\<lambda>descriptor.
     try_then (DecodeSelection maximumDataDepth) (\<lambda>(present, sel).
       yield \<lparr>selectedDescriptor = descriptor, hasSelection = present, selection = sel\<rparr>))"

definition EncodeDescriptorWithSelection :: "CosemAttributeDescriptorWithSelection \<Rightarrow> writing" where
  "EncodeDescriptorWithSelection input = try_then (EncodeCosemAttributeDescriptor (selectedDescriptor input)) (\<lambda>_.
     EncodeSelection (hasSelection input) (selection input))"

text \<open>A data block of GET and ACTION, and of SET, has the same fields.\<close>

definition DecodeDataBlockG :: "DataBlockG reading" where
  "DecodeDataBlockG = try_then ReadAxdrBoolean (\<lambda>isLast. try_then ReadU32 (\<lambda>number. try_then ReadRawData (\<lambda>raw.
     yield \<lparr>lastBlock = isLast, dataBlockNumber = number, rawData = raw\<rparr>)))"

definition EncodeDataBlockG :: "DataBlockG \<Rightarrow> writing" where
  "EncodeDataBlockG input = try_then (WriteAxdrBoolean (lastBlock input)) (\<lambda>_.
     try_then (WriteU32 (dataBlockNumber input)) (\<lambda>_. WriteRawData (rawData input)))"

definition DecodeGetDataResult_fields :: "nat \<Rightarrow> GetDataResult reading" where
  "DecodeGetDataResult_fields maximumDataDepth = try_then ReadU8 (\<lambda>choice.
     if choice > 1 then refuse InvalidChoice
     else if choice = 0 then try_then (DecodeDlmsDataFromReader maximumDataDepth) (\<lambda>d.
       yield (GetDataResult_default\<lparr>resultChoice := choice, resultData := d\<rparr>))
     else try_then ReadU8 (\<lambda>e.
       yield (GetDataResult_default\<lparr>resultChoice := choice, dataAccessError := e\<rparr>)))"

definition DecodeGetDataResult :: "view \<Rightarrow> nat \<Rightarrow> ApduStatus + GetDataResult" where
  "DecodeGetDataResult input maximumDataDepth =
     fst (whole (DecodeGetDataResult_fields maximumDataDepth) (ApduReader_init input))"

definition EncodeGetDataResult :: "GetDataResult \<Rightarrow> writing" where
  "EncodeGetDataResult input = try_then (WriteU8 (resultChoice input)) (\<lambda>_.
     if resultChoice input = 0 then EncodeDlmsData (resultData input)
     else if resultChoice input = 1 then WriteU8 (dataAccessError input)
     else refuse InvalidChoice)"

text \<open>All bytes that are left, as the reader hands them to a nested decoder.\<close>

definition ReadRemaining :: "bytes reading" where
  "ReadRemaining r = ReadBytes (reader_remaining r) r"

text \<open>One result of a list: with a test that there is a byte to read and that the position has moved.\<close>

definition GetResult_item :: "nat \<Rightarrow> GetDataResult reading" where
  "GetResult_item maximumDataDepth r =
     (if reader_remaining r = 0 then (Inl NeedMoreData, r)
      else try_then (try_then ReadU8 (\<lambda>choice.
          if choice = 0 then try_then (DecodeDlmsDataFromReader maximumDataDepth) (\<lambda>d.
            yield (GetDataResult_default\<lparr>resultChoice := 0, resultData := d\<rparr>))
          else if choice = 1 then try_then ReadU8 (\<lambda>e.
            yield (GetDataResult_default\<lparr>resultChoice := 1, dataAccessError := e\<rparr>))
          else refuse InvalidChoice))
        (\<lambda>result r'. if readerPosition r' = readerPosition r then (Inl InternalError, r') else (Inr result, r')) r)"

definition DecodeGetRequestNormal_fields :: "GetRequestNormal reading" where
  "DecodeGetRequestNormal_fields = try_then ReadU8 (\<lambda>tag.
     if tag \<noteq> kGetRequestTag then refuse InvalidTag
     else try_then ReadU8 (\<lambda>choice.
       if choice \<noteq> kNormalChoice then refuse UnsupportedXdlmsService
       else try_then ReadU8 (\<lambda>invoke. try_then DecodeCosemAttributeDescriptor (\<lambda>descriptor.
         try_then ReadU8 (\<lambda>flag.
           if flag > 1 then refuse InvalidChoice
           else if flag \<noteq> 0 then
             try_then ReadU8 (\<lambda>sel. try_then (DecodeDlmsDataFromReader 8) (\<lambda>params.
               yield \<lparr>getNormal_invokeIdAndPriority = invoke, getNormal_descriptor = descriptor,
                 getNormal_hasSelectiveAccess = True,
                 getNormal_selectiveAccess = \<lparr>selector = sel, parameters = params\<rparr>\<rparr>))
           else yield \<lparr>getNormal_invokeIdAndPriority = invoke, getNormal_descriptor = descriptor,
                 getNormal_hasSelectiveAccess = False,
                 getNormal_selectiveAccess = SelectiveAccessDescriptor_default\<rparr>)))))"

definition DecodeGetRequestNormal :: "view \<Rightarrow> ApduStatus + GetRequestNormal" where
  "DecodeGetRequestNormal input = decode_with (whole DecodeGetRequestNormal_fields) input"

definition EncodeGetRequestNormal :: "GetRequestNormal \<Rightarrow> writing" where
  "EncodeGetRequestNormal input = try_then (WriteU8 kGetRequestTag) (\<lambda>_. try_then (WriteU8 kNormalChoice) (\<lambda>_.
     try_then (WriteU8 (getNormal_invokeIdAndPriority input)) (\<lambda>_.
     try_then (EncodeCosemAttributeDescriptor (getNormal_descriptor input)) (\<lambda>_.
     EncodeSelection (getNormal_hasSelectiveAccess input) (getNormal_selectiveAccess input)))))"

definition DecodeGetRequest_fields :: "nat \<Rightarrow> GetRequest reading" where
  "DecodeGetRequest_fields maximumDataDepth = try_then ReadU8 (\<lambda>tag.
     if tag \<noteq> kGetRequestTag then refuse InvalidTag
     else try_then ReadU8 (\<lambda>choice. try_then ReadU8 (\<lambda>invoke.
       let output = GetRequest_default\<lparr>getRequest_choice := choice, getRequest_invokeIdAndPriority := invoke\<rparr> in
       if choice = kNormalChoice then
         try_then (DecodeDescriptorWithSelection maximumDataDepth) (\<lambda>x. yield (output\<lparr>getRequest_normal := x\<rparr>))
       else if choice = kNextChoice then
         try_then ReadU32 (\<lambda>n. yield (output\<lparr>getRequest_blockNumber := n\<rparr>))
       else if choice = kWithListChoice then
         try_then ReadAxdrLength (\<lambda>count.
           try_then (read_many count (DecodeDescriptorWithSelection maximumDataDepth)) (\<lambda>items.
             yield (output\<lparr>getRequest_list := items\<rparr>)))
       else refuse UnsupportedXdlmsService)))"

definition DecodeGetRequest :: "view \<Rightarrow> nat \<Rightarrow> ApduStatus + GetRequest" where
  "DecodeGetRequest input maximumDataDepth = decode_with (whole (DecodeGetRequest_fields maximumDataDepth)) input"

definition EncodeGetRequest :: "GetRequest \<Rightarrow> writing" where
  "EncodeGetRequest input = try_then (WriteU8 kGetRequestTag) (\<lambda>_.
     try_then (WriteU8 (getRequest_choice input)) (\<lambda>_.
     try_then (WriteU8 (getRequest_invokeIdAndPriority input)) (\<lambda>_.
     if getRequest_choice input = kNormalChoice then EncodeDescriptorWithSelection (getRequest_normal input)
     else if getRequest_choice input = kNextChoice then WriteU32 (getRequest_blockNumber input)
     else if getRequest_choice input = kWithListChoice then
       try_then (WriteAxdrLength (length (getRequest_list input))) (\<lambda>_.
         write_all (map EncodeDescriptorWithSelection (getRequest_list input)))
     else refuse InvalidChoice)))"

definition nested :: "ApduStatus + 'a \<Rightarrow> ('a \<Rightarrow> 'b) \<Rightarrow> 'b reading" where
  "nested x f r = (case x of Inl e \<Rightarrow> (Inl e, r) | Inr a \<Rightarrow> (Inr (f a), r))"

definition DecodeGetResponseNormal_body :: "nat \<Rightarrow> GetResponseNormal reading" where
  "DecodeGetResponseNormal_body maximumDataDepth = try_then ReadU8 (\<lambda>tag.
     if tag \<noteq> kGetResponseTag then refuse InvalidTag
     else try_then ReadU8 (\<lambda>choice.
       if choice \<noteq> kNormalChoice then refuse UnsupportedXdlmsService
       else try_then ReadU8 (\<lambda>invoke. try_then ReadU8 (\<lambda>result.
         if result > 1 then refuse InvalidChoice
         else if result = 0 then
           try_then ReadRemaining (\<lambda>bs. nested (DecodeDlmsData (View bs) maximumDataDepth) (\<lambda>d.
             \<lparr>getResponseNormal_invokeIdAndPriority = invoke, getResponseNormal_resultChoice = result,
              getResponseNormal_data = d, getResponseNormal_dataAccessError = 0\<rparr>))
         else whole (try_then ReadU8 (\<lambda>e.
           yield \<lparr>getResponseNormal_invokeIdAndPriority = invoke, getResponseNormal_resultChoice = result,
              getResponseNormal_data = DlmsData_default, getResponseNormal_dataAccessError = e\<rparr>))))))"

definition DecodeGetResponseNormal :: "view \<Rightarrow> nat \<Rightarrow> ApduStatus + GetResponseNormal" where
  "DecodeGetResponseNormal input maximumDataDepth = decode_with (DecodeGetResponseNormal_body maximumDataDepth) input"

definition EncodeGetResponseNormal :: "GetResponseNormal \<Rightarrow> writing" where
  "EncodeGetResponseNormal input = try_then (WriteU8 kGetResponseTag) (\<lambda>_. try_then (WriteU8 kNormalChoice) (\<lambda>_.
     try_then (WriteU8 (getResponseNormal_invokeIdAndPriority input)) (\<lambda>_.
     try_then (WriteU8 (getResponseNormal_resultChoice input)) (\<lambda>_.
     if getResponseNormal_resultChoice input = 0 then EncodeDlmsData (getResponseNormal_data input)
     else if getResponseNormal_resultChoice input = 1 then WriteU8 (getResponseNormal_dataAccessError input)
     else refuse InvalidChoice))))"

definition DecodeGetResponse_body :: "nat \<Rightarrow> GetResponse reading" where
  "DecodeGetResponse_body maximumDataDepth = try_then ReadU8 (\<lambda>tag.
     if tag \<noteq> kGetResponseTag then refuse InvalidTag
     else try_then ReadU8 (\<lambda>choice. try_then ReadU8 (\<lambda>invoke.
       let output = GetResponse_default\<lparr>getResponse_choice := choice, getResponse_invokeIdAndPriority := invoke\<rparr> in
       if choice = kNormalChoice then
         try_then ReadRemaining (\<lambda>bs. nested (DecodeGetDataResult (View bs) maximumDataDepth)
           (\<lambda>x. output\<lparr>getResponse_result := x\<rparr>))
       else if choice = kNextChoice then
         whole (try_then DecodeDataBlockG (\<lambda>x. yield (output\<lparr>getResponse_dataBlock := x\<rparr>)))
       else if choice = kWithListChoice then
         whole (try_then ReadAxdrLength (\<lambda>count.
           try_then (read_many count (GetResult_item maximumDataDepth)) (\<lambda>items.
             yield (output\<lparr>getResponse_list := items\<rparr>))))
       else refuse UnsupportedXdlmsService)))"

definition DecodeGetResponse :: "view \<Rightarrow> nat \<Rightarrow> ApduStatus + GetResponse" where
  "DecodeGetResponse input maximumDataDepth = decode_with (DecodeGetResponse_body maximumDataDepth) input"

definition EncodeGetResponse :: "GetResponse \<Rightarrow> writing" where
  "EncodeGetResponse input = try_then (WriteU8 kGetResponseTag) (\<lambda>_.
     try_then (WriteU8 (getResponse_choice input)) (\<lambda>_.
     try_then (WriteU8 (getResponse_invokeIdAndPriority input)) (\<lambda>_.
     if getResponse_choice input = kNormalChoice then EncodeGetDataResult (getResponse_result input)
     else if getResponse_choice input = kNextChoice then EncodeDataBlockG (getResponse_dataBlock input)
     else if getResponse_choice input = kWithListChoice then
       try_then (WriteAxdrLength (length (getResponse_list input))) (\<lambda>_.
         write_all (map EncodeGetDataResult (getResponse_list input)))
     else refuse InvalidChoice)))"

subsection \<open>Parts of the messages\<close>

definition raw_wf :: "view \<Rightarrow> bool" where
  "raw_wf v \<longleftrightarrow> (\<exists>bs. v = View bs \<and> length bs < size_t_modulus)"

definition raw_bytes :: "view \<Rightarrow> bytes" where
  "raw_bytes v = octet_string_bytes (view_bytes v)"

interpretation rawc: wire_codec raw_wf raw_bytes ReadRawData WriteRawData
proof unfold_locales
  show "reads ReadRawData (raw_bytes v) v" if "raw_wf v" for v
    using that unfolding ReadRawData_def raw_bytes_def raw_wf_def by (auto intro!: codec_reads)
  show "writes (WriteRawData v) (raw_bytes v)" if "raw_wf v" for v
    using that unfolding WriteRawData_def raw_bytes_def raw_wf_def by (auto intro!: codec_writes)
  show "safe_read ReadRawData" unfolding ReadRawData_def by (intro codec_safe)
  show "yields ReadRawData raw_wf" unfolding ReadRawData_def by (intro codec_yields) (simp add: raw_wf_def)
qed

lemmas [codec_reads] = rawc.rd_rules
lemmas [codec_writes] = rawc.wr_rules
lemmas [codec_yields] = rawc.yd_rules
lemmas [simp, codec_safe] = rawc.rd_safe

definition selection_wf :: "nat \<Rightarrow> bool \<times> SelectiveAccessDescriptor \<Rightarrow> bool" where
  "selection_wf d x \<longleftrightarrow> (if fst x then represented d (parameters (snd x)) else snd x = SelectiveAccessDescriptor_default)"

definition selection_bytes :: "bool \<times> SelectiveAccessDescriptor \<Rightarrow> bytes" where
  "selection_bytes x = (if fst x then 1 # selector (snd x) # data_bytes (parameters (snd x)) else [0])"

interpretation selectionc: wire_codec "selection_wf d" selection_bytes "DecodeSelection d" "\<lambda>(p, s). EncodeSelection p s" for d
proof unfold_locales
  fix x
  assume wf: "selection_wf d x"
  show "reads (DecodeSelection d) (selection_bytes x) x"
    using wf unfolding DecodeSelection_def selection_bytes_def selection_wf_def
    by (cases x; cases "fst x") (auto intro!: codec_reads)
  show "writes (case x of (p, s) \<Rightarrow> EncodeSelection p s) (selection_bytes x)"
    using wf unfolding EncodeSelection_def selection_bytes_def selection_wf_def
    by (cases x; cases "fst x") (auto intro!: codec_writes)
next
  show "safe_read (DecodeSelection d)" unfolding DecodeSelection_def by (intro codec_safe)
  show "yields (DecodeSelection d) (selection_wf d)"
    unfolding DecodeSelection_def by (intro codec_yields) (simp_all add: selection_wf_def)
qed

lemmas [codec_reads] = selectionc.rd_then selectionc.rd_last
lemmas [codec_writes] = selectionc.wr_then [of d "(p, s)" for d p s, unfolded case_prod_conv]
  selectionc.wr_writes [of d "(p, s)" for d p s, unfolded case_prod_conv]
lemmas [codec_yields] = selectionc.yd_rules
lemmas [simp, codec_safe] = selectionc.rd_safe

definition selected_wf :: "nat \<Rightarrow> CosemAttributeDescriptorWithSelection \<Rightarrow> bool" where
  "selected_wf d x \<longleftrightarrow> attribute_wf (selectedDescriptor x) \<and> selection_wf d (hasSelection x, selection x)"

definition selected_bytes :: "CosemAttributeDescriptorWithSelection \<Rightarrow> bytes" where
  "selected_bytes x = attribute_bytes (selectedDescriptor x) @ selection_bytes (hasSelection x, selection x)"

interpretation selectedc: wire_codec "selected_wf d" selected_bytes "DecodeDescriptorWithSelection d" EncodeDescriptorWithSelection for d
proof unfold_locales
  fix x
  assume wf: "selected_wf d x"
  show "reads (DecodeDescriptorWithSelection d) (selected_bytes x) x"
    using wf unfolding DecodeDescriptorWithSelection_def selected_bytes_def selected_wf_def
    by (auto intro!: codec_reads)
  show "writes (EncodeDescriptorWithSelection x) (selected_bytes x)"
    using wf unfolding EncodeDescriptorWithSelection_def selected_bytes_def selected_wf_def
    by (auto intro!: codec_writes)
next
  show "safe_read (DecodeDescriptorWithSelection d)" unfolding DecodeDescriptorWithSelection_def by (intro codec_safe)
  show "yields (DecodeDescriptorWithSelection d) (selected_wf d)"
    unfolding DecodeDescriptorWithSelection_def by (intro codec_yields) (simp_all add: selected_wf_def)
qed

definition block_wf :: "DataBlockG \<Rightarrow> bool" where
  "block_wf x \<longleftrightarrow> raw_wf (rawData x)"

definition block_bytes :: "DataBlockG \<Rightarrow> bytes" where
  "block_bytes x = (if lastBlock x then 1 else 0) # be32 (dataBlockNumber x) @ raw_bytes (rawData x)"

interpretation blockc: wire_codec block_wf block_bytes DecodeDataBlockG EncodeDataBlockG
proof unfold_locales
  fix x
  assume wf: "block_wf x"
  show "reads DecodeDataBlockG (block_bytes x) x"
    using wf unfolding DecodeDataBlockG_def block_bytes_def block_wf_def
    by (cases "lastBlock x") (auto intro!: codec_reads)
  show "writes (EncodeDataBlockG x) (block_bytes x)"
    using wf unfolding EncodeDataBlockG_def block_bytes_def block_wf_def WriteAxdrBoolean_def
    by (auto intro!: codec_writes)
next
  show "safe_read DecodeDataBlockG" unfolding DecodeDataBlockG_def by (intro codec_safe)
  show "yields DecodeDataBlockG block_wf"
    unfolding DecodeDataBlockG_def by (intro codec_yields) (simp_all add: block_wf_def)
qed

lemmas [codec_reads] = selectedc.rd_rules blockc.rd_rules
lemmas [codec_writes] = selectedc.wr_rules blockc.wr_rules
lemmas [codec_yields] = selectedc.yd_rules blockc.yd_rules
lemmas [simp, codec_safe] = selectedc.rd_safe blockc.rd_safe

subsection \<open>Results\<close>

definition result_wf :: "nat \<Rightarrow> GetDataResult \<Rightarrow> bool" where
  "result_wf d x \<longleftrightarrow> (if resultChoice x = 0 then represented d (resultData x) \<and> dataAccessError x = 0
     else resultChoice x = 1 \<and> resultData x = DlmsData_default)"

definition result_bytes :: "GetDataResult \<Rightarrow> bytes" where
  "result_bytes x = resultChoice x # (if resultChoice x = 0 then data_bytes (resultData x) else [dataAccessError x])"

lemma le_1_u8: "(c :: u8) > 1 \<longleftrightarrow> c \<noteq> 0 \<and> c \<noteq> 1"
  by (auto simp: word_less_nat_alt word_unat_eq_iff)

interpretation resultc: wire_codec "result_wf d" result_bytes "DecodeGetDataResult_fields d" EncodeGetDataResult for d
proof unfold_locales
  fix x
  assume wf: "result_wf d x"
  show "reads (DecodeGetDataResult_fields d) (result_bytes x) x"
    using wf unfolding DecodeGetDataResult_fields_def result_bytes_def result_wf_def GetDataResult_default_def
    by (cases x) (auto simp: le_1_u8 split: if_splits intro!: codec_reads)
  show "writes (EncodeGetDataResult x) (result_bytes x)"
    using wf unfolding EncodeGetDataResult_def result_bytes_def result_wf_def
    by (auto split: if_splits intro!: codec_writes)
next
  show "safe_read (DecodeGetDataResult_fields d)" unfolding DecodeGetDataResult_fields_def by (intro codec_safe)
  show "yields (DecodeGetDataResult_fields d) (result_wf d)"
    unfolding DecodeGetDataResult_fields_def
    by (intro codec_yields) (auto simp: result_wf_def GetDataResult_default_def le_1_u8)
qed

lemma DecodeGetDataResult_decode_with:
  "DecodeGetDataResult v d = decode_with (whole (DecodeGetDataResult_fields d)) v"
  by (auto simp: DecodeGetDataResult_def decode_with_def whole_def try_then_def DecodeGetDataResult_fields_def
      ReadU8_def ApduReader_init_def)

text \<open>An item of the list reads the same fields: the two extra tests never fail.\<close>

lemma safe_guarded:
  assumes "safe_read m"
  shows "safe_read (\<lambda>r. if P r then (Inl e, r) else try_then m (\<lambda>x r'. if Q r r' then (Inl e', r') else (Inr x, r')) r)"
  unfolding safe_read_def
proof (intro allI impI)
  fix r
  assume "reader_ok r"
  moreover obtain v r1 where "m r = (v, r1)" by fastforce
  moreover from calculation assms have "reader_ok r1" "readerData r1 = readerData r" "readerPosition r \<le> readerPosition r1"
    by (auto simp: safe_read_def)
  ultimately show "reader_ok (snd (if P r then (Inl e, r) else try_then m (\<lambda>x r'. if Q r r' then (Inl e', r') else (Inr x, r')) r))
      \<and> readerData (snd (if P r then (Inl e, r) else try_then m (\<lambda>x r'. if Q r r' then (Inl e', r') else (Inr x, r')) r)) = readerData r
      \<and> readerPosition r \<le> readerPosition (snd (if P r then (Inl e, r)
        else try_then m (\<lambda>x r'. if Q r r' then (Inl e', r') else (Inr x, r')) r))"
    by (cases v) (simp_all add: try_then_def)
qed

lemma GetResult_item_fields:
  "GetResult_item d r = (if reader_remaining r = 0 then (Inl NeedMoreData, r)
     else try_then (DecodeGetDataResult_fields d)
       (\<lambda>result r'. if readerPosition r' = readerPosition r then (Inl InternalError, r') else (Inr result, r')) r)"
proof -
  have *: "(if choice = 0 then a else if choice = 1 then b else (refuse InvalidChoice :: GetDataResult reading)) =
      (if choice > 1 then refuse InvalidChoice else if choice = 0 then a else b)" for choice :: u8 and a b
    by (simp add: le_1_u8)
  show ?thesis unfolding GetResult_item_def DecodeGetDataResult_fields_def *
    by (rule if_cong [OF refl refl], rule arg_cong [where f = "\<lambda>m. try_then m _ r"], rule arg_cong [where f = "try_then ReadU8"])
      (auto simp: fun_eq_iff le_1_u8)
qed

interpretation itemc: wire_codec "result_wf d" result_bytes "GetResult_item d" EncodeGetDataResult for d
proof unfold_locales
  fix x
  assume wf: "result_wf d x"
  have "result_bytes x \<noteq> []" by (simp add: result_bytes_def)
  with reads_at [OF resultc.rd_reads [OF wf]] show "reads (GetResult_item d) (result_bytes x) x"
    by (auto simp: reads_def GetResult_item_fields try_then_def)
  show "writes (EncodeGetDataResult x) (result_bytes x)" by (rule resultc.wr_writes [OF wf])
next
  have "GetResult_item d = (\<lambda>r. if reader_remaining r = 0 then (Inl NeedMoreData, r)
     else try_then (DecodeGetDataResult_fields d)
       (\<lambda>result r'. if readerPosition r' = readerPosition r then (Inl InternalError, r') else (Inr result, r')) r)"
    by (rule ext) (rule GetResult_item_fields)
  then show "safe_read (GetResult_item d)" using safe_guarded [OF resultc.rd_safe [of d]] by simp
  show "yields (GetResult_item d) (result_wf d)"
    using resultc.rd_yields [of d] unfolding yields_def GetResult_item_fields
    by (auto simp: try_then_def split: if_splits prod.splits sum.splits)
qed

lemmas [codec_reads] = resultc.rd_rules itemc.rd_rules
lemmas [codec_writes] = resultc.wr_rules
lemmas [codec_yields] = resultc.yd_rules itemc.yd_rules
lemmas [simp, codec_safe] = resultc.rd_safe itemc.rd_safe

subsection \<open>Requests\<close>

definition get_normal_wf :: "GetRequestNormal \<Rightarrow> bool" where
  "get_normal_wf m \<longleftrightarrow> attribute_wf (getNormal_descriptor m)
     \<and> selection_wf 8 (getNormal_hasSelectiveAccess m, getNormal_selectiveAccess m)"

definition get_normal_bytes :: "GetRequestNormal \<Rightarrow> bytes" where
  "get_normal_bytes m = kGetRequestTag # kNormalChoice # getNormal_invokeIdAndPriority m
     # attribute_bytes (getNormal_descriptor m)
     @ selection_bytes (getNormal_hasSelectiveAccess m, getNormal_selectiveAccess m)"

text \<open>The inlined selection of \<open>DecodeGetRequestNormal\<close> is \<open>DecodeSelection\<close> with depth 8.\<close>

lemma DecodeGetRequestNormal_selection:
  "DecodeGetRequestNormal_fields = try_then ReadU8 (\<lambda>tag.
     if tag \<noteq> kGetRequestTag then refuse InvalidTag
     else try_then ReadU8 (\<lambda>choice.
       if choice \<noteq> kNormalChoice then refuse UnsupportedXdlmsService
       else try_then ReadU8 (\<lambda>invoke. try_then DecodeCosemAttributeDescriptor (\<lambda>descriptor.
         try_then (DecodeSelection 8) (\<lambda>(present, sel).
           yield \<lparr>getNormal_invokeIdAndPriority = invoke, getNormal_descriptor = descriptor,
             getNormal_hasSelectiveAccess = present, getNormal_selectiveAccess = sel\<rparr>)))))"
proof -
  have sel: "try_then (DecodeSelection 8) (\<lambda>(present, s). yield (f present s)) = try_then ReadU8 (\<lambda>flag.
      if flag > 1 then refuse InvalidChoice
      else if flag \<noteq> 0 then try_then ReadU8 (\<lambda>s. try_then (DecodeDlmsDataFromReader 8) (\<lambda>params.
        yield (f True \<lparr>selector = s, parameters = params\<rparr>)))
      else yield (f False SelectiveAccessDescriptor_default))" for f
    unfolding DecodeSelection_def try_then_assoc
    by (rule arg_cong [where f = "try_then ReadU8"], rule ext) (simp add: sequencing del: yield_apply refuse_apply)
  show ?thesis unfolding DecodeGetRequestNormal_fields_def sel ..
qed

interpretation get_normalc: wire_codec get_normal_wf get_normal_bytes DecodeGetRequestNormal_fields EncodeGetRequestNormal
proof unfold_locales
  fix m
  assume wf: "get_normal_wf m"
  show "reads DecodeGetRequestNormal_fields (get_normal_bytes m) m"
    using wf unfolding DecodeGetRequestNormal_selection get_normal_bytes_def get_normal_wf_def
    by (auto intro!: codec_reads)
  show "writes (EncodeGetRequestNormal m) (get_normal_bytes m)"
    using wf unfolding EncodeGetRequestNormal_def get_normal_bytes_def get_normal_wf_def
    by (auto intro!: codec_writes)
next
  show "safe_read DecodeGetRequestNormal_fields" unfolding DecodeGetRequestNormal_selection by (intro codec_safe)
  show "yields DecodeGetRequestNormal_fields get_normal_wf"
    unfolding DecodeGetRequestNormal_selection by (intro codec_yields) (simp_all add: get_normal_wf_def)
qed

definition get_request_wf :: "nat \<Rightarrow> GetRequest \<Rightarrow> bool" where
  "get_request_wf d m \<longleftrightarrow>
     (if getRequest_choice m = kNormalChoice then selected_wf d (getRequest_normal m)
        \<and> getRequest_blockNumber m = 0 \<and> getRequest_list m = []
      else if getRequest_choice m = kNextChoice then getRequest_normal m = WithSelection_default \<and> getRequest_list m = []
      else getRequest_choice m = kWithListChoice \<and> getRequest_normal m = WithSelection_default
        \<and> getRequest_blockNumber m = 0 \<and> length (getRequest_list m) < size_t_modulus
        \<and> (\<forall>x \<in> set (getRequest_list m). selected_wf d x))"

definition get_request_bytes :: "GetRequest \<Rightarrow> bytes" where
  "get_request_bytes m = kGetRequestTag # getRequest_choice m # getRequest_invokeIdAndPriority m
     # (if getRequest_choice m = kNormalChoice then selected_bytes (getRequest_normal m)
        else if getRequest_choice m = kNextChoice then be32 (getRequest_blockNumber m)
        else length_bytes (length (getRequest_list m)) @ concat (map selected_bytes (getRequest_list m)))"

interpretation get_requestc: wire_codec "get_request_wf d" get_request_bytes "DecodeGetRequest_fields d" EncodeGetRequest for d
proof unfold_locales
  fix m
  assume wf: "get_request_wf d m"
  show "reads (DecodeGetRequest_fields d) (get_request_bytes m) m"
    using wf unfolding DecodeGetRequest_fields_def get_request_bytes_def get_request_wf_def get_defaults Let_def
    by (cases m) (auto simp: get_consts split: if_splits intro!: codec_reads)
  show "writes (EncodeGetRequest m) (get_request_bytes m)"
    using wf unfolding EncodeGetRequest_def get_request_bytes_def get_request_wf_def
    by (auto simp: get_consts split: if_splits intro!: codec_writes)
next
  show "safe_read (DecodeGetRequest_fields d)" unfolding DecodeGetRequest_fields_def Let_def by (intro codec_safe)
  show "yields (DecodeGetRequest_fields d) (get_request_wf d)"
    unfolding DecodeGetRequest_fields_def Let_def
    by (intro codec_yields) (simp_all add: get_request_wf_def get_defaults get_consts)
qed

subsection \<open>Responses\<close>

lemma finishes_remaining: "(\<And>r. fst (k bs r) = Inr a) \<Longrightarrow> finishes (try_then ReadRemaining k) bs a"
  using ReadBytes_at [of bs "length bs" _ "[]"] by (simp add: finishes_def ReadRemaining_def try_then_def)

lemma yields_remaining: "(\<And>bs. yields (k bs) P) \<Longrightarrow> yields (try_then ReadRemaining k) P"
proof (rule yields_any)
  show "safe_read ReadRemaining" using safe_ReadBytes unfolding safe_read_def ReadRemaining_def by blast
qed

lemma yields_nested: "(\<And>a. x = Inr a \<Longrightarrow> P (f a)) \<Longrightarrow> yields (nested x f) P"
  by (auto simp: yields_def nested_def split: sum.splits)

lemma yields_whole: "safe_read m \<Longrightarrow> yields m P \<Longrightarrow> yields (whole m) P"
  unfolding whole_def by (rule yields_then [of m P]) (auto intro: yields_any)

lemma finishes_whole: "reads m bs a \<Longrightarrow> finishes (whole m) bs a"
  unfolding whole_def by (rule finishes_last [OF _ finishes_end])

definition get_response_wf :: "nat \<Rightarrow> GetResponse \<Rightarrow> bool" where
  "get_response_wf d m \<longleftrightarrow>
     (if getResponse_choice m = kNormalChoice then result_wf d (getResponse_result m)
        \<and> getResponse_dataBlock m = DataBlockG_default \<and> getResponse_list m = []
      else if getResponse_choice m = kNextChoice then block_wf (getResponse_dataBlock m)
        \<and> getResponse_result m = GetDataResult_default \<and> getResponse_list m = []
      else getResponse_choice m = kWithListChoice \<and> getResponse_result m = GetDataResult_default
        \<and> getResponse_dataBlock m = DataBlockG_default \<and> length (getResponse_list m) < size_t_modulus
        \<and> (\<forall>x \<in> set (getResponse_list m). result_wf d x))"

definition get_response_bytes :: "GetResponse \<Rightarrow> bytes" where
  "get_response_bytes m = kGetResponseTag # getResponse_choice m # getResponse_invokeIdAndPriority m
     # (if getResponse_choice m = kNormalChoice then result_bytes (getResponse_result m)
        else if getResponse_choice m = kNextChoice then block_bytes (getResponse_dataBlock m)
        else length_bytes (length (getResponse_list m)) @ concat (map result_bytes (getResponse_list m)))"

interpretation get_responsec: message_codec "get_response_wf d" get_response_bytes "DecodeGetResponse_body d" EncodeGetResponse for d
proof unfold_locales
  fix m
  assume wf: "get_response_wf d m"
  have "DecodeGetDataResult (View (result_bytes x)) d = Inr x" if "result_wf d x" for x
    using resultc.msg.decode_enc [OF that] by (simp add: DecodeGetDataResult_decode_with)
  then show "finishes (DecodeGetResponse_body d) (get_response_bytes m) m"
    using wf unfolding DecodeGetResponse_body_def get_response_bytes_def get_response_wf_def GetResponse_default_def Let_def
    by (cases m) (auto simp: get_consts nested_def split: if_splits intro!: finishes_Cons finishes_remaining finishes_whole codec_reads)
  show "writes (EncodeGetResponse m) (get_response_bytes m)"
    using wf unfolding EncodeGetResponse_def get_response_bytes_def get_response_wf_def
    by (auto simp: get_consts split: if_splits intro!: codec_writes)
next
  have "result_wf d x" if "DecodeGetDataResult (View bs) d = Inr x" for bs x
    using resultc.msg.decode_wf that by (simp add: DecodeGetDataResult_decode_with)
  then show "yields (DecodeGetResponse_body d) (get_response_wf d)"
    unfolding DecodeGetResponse_body_def Let_def
    by (intro codec_yields yields_remaining yields_nested yields_whole codec_safe)
      (simp_all add: get_response_wf_def GetResponse_default_def get_consts)
qed

definition get_response_normal_wf :: "nat \<Rightarrow> GetResponseNormal \<Rightarrow> bool" where
  "get_response_normal_wf d m \<longleftrightarrow>
     (if getResponseNormal_resultChoice m = 0
      then represented d (getResponseNormal_data m) \<and> getResponseNormal_dataAccessError m = 0
      else getResponseNormal_resultChoice m = 1 \<and> getResponseNormal_data m = DlmsData_default)"

definition get_response_normal_bytes :: "GetResponseNormal \<Rightarrow> bytes" where
  "get_response_normal_bytes m = kGetResponseTag # kNormalChoice # getResponseNormal_invokeIdAndPriority m
     # getResponseNormal_resultChoice m
     # (if getResponseNormal_resultChoice m = 0 then data_bytes (getResponseNormal_data m)
        else [getResponseNormal_dataAccessError m])"

lemma DecodeDlmsData_decode_with: "DecodeDlmsData v d = decode_with (whole (DecodeDlmsDataFromReader d)) v"
  by (auto simp: DecodeDlmsData_def decode_with_def whole_def try_then_def RequireNoTrailingBytes_def
      split: prod.splits sum.splits)

interpretation get_response_normalc: message_codec "get_response_normal_wf d" get_response_normal_bytes
  "DecodeGetResponseNormal_body d" EncodeGetResponseNormal for d
proof unfold_locales
  fix m
  assume wf: "get_response_normal_wf d m"
  have "DecodeDlmsData (View (data_bytes x)) d = Inr x" if "represented d x" for x
    using datac.msg.decode_enc [OF that] by (simp add: DecodeDlmsData_decode_with)
  then show "finishes (DecodeGetResponseNormal_body d) (get_response_normal_bytes m) m"
    using wf unfolding DecodeGetResponseNormal_body_def get_response_normal_bytes_def get_response_normal_wf_def
    by (cases m) (auto simp: le_1_u8 nested_def split: if_splits intro!: finishes_Cons finishes_remaining finishes_whole codec_reads)
  show "writes (EncodeGetResponseNormal m) (get_response_normal_bytes m)"
    using wf unfolding EncodeGetResponseNormal_def get_response_normal_bytes_def get_response_normal_wf_def
    by (auto split: if_splits intro!: codec_writes)
next
  have "represented d x" if "DecodeDlmsData (View bs) d = Inr x" for bs x
    using datac.msg.decode_wf that by (simp add: DecodeDlmsData_decode_with)
  then show "yields (DecodeGetResponseNormal_body d) (get_response_normal_wf d)"
    unfolding DecodeGetResponseNormal_body_def
    by (intro codec_yields yields_remaining yields_nested yields_whole codec_safe)
      (auto simp: get_response_normal_wf_def le_1_u8)
qed

subsection \<open>The two request decoders\<close>

text \<open>A request for one attribute as the structure of the general request.\<close>

definition general_request :: "GetRequestNormal \<Rightarrow> GetRequest" where
  "general_request m = GetRequest_default\<lparr>getRequest_choice := kNormalChoice,
     getRequest_invokeIdAndPriority := getNormal_invokeIdAndPriority m,
     getRequest_normal := \<lparr>selectedDescriptor = getNormal_descriptor m,
       hasSelection = getNormal_hasSelectiveAccess m, selection = getNormal_selectiveAccess m\<rparr>\<rparr>"

lemma try_then_Inr_iff:
  "try_then m k s = (Inr b, t) \<longleftrightarrow> (\<exists>a s'. m s = (Inr a, s') \<and> k a s' = (Inr b, t))"
  by (auto simp: try_then_def split: prod.splits sum.splits)

lemma refuse_Inr_iff: "refuse e s = (Inr b, t) \<longleftrightarrow> False" "yield a s = (Inr b, t) \<longleftrightarrow> a = b \<and> s = t"
  by auto

lemma if_apply: "(if b then m else n) s = (if b then m s else n s)"
  by simp

lemma general_request_eq:
  "general_request m = \<lparr>getRequest_choice = kNormalChoice, getRequest_invokeIdAndPriority = getNormal_invokeIdAndPriority m,
     getRequest_normal = \<lparr>selectedDescriptor = getNormal_descriptor m,
       hasSelection = getNormal_hasSelectiveAccess m, selection = getNormal_selectiveAccess m\<rparr>,
     getRequest_blockNumber = 0, getRequest_list = []\<rparr>"
  by (simp add: general_request_def get_defaults)

lemma DecodeGetRequestNormal_fields_iff:
  "DecodeGetRequestNormal_fields r = (Inr m, r') \<longleftrightarrow> DecodeGetRequest_fields 8 r = (Inr (general_request m), r')"
  unfolding DecodeGetRequestNormal_selection DecodeGetRequest_fields_def DecodeDescriptorWithSelection_def Let_def
    try_then_Inr_iff if_apply refuse_Inr_iff sequencing get_consts
  by (cases m) (auto simp: try_then_Inr_iff general_request_eq get_defaults get_consts)

lemma whole_Inr_iff: "whole m r = (Inr a, r') \<longleftrightarrow> m r = (Inr a, r') \<and> reader_empty r'"
  unfolding whole_def RequireNoTrailingBytes_def by (auto simp: try_then_Inr_iff split: if_splits)

lemma decode_with_Inr_iff: "decode_with body v = Inr a \<longleftrightarrow> \<not> bad_view v \<and> (\<exists>r. body (ApduReader_init v) = (Inr a, r))"
  by (auto simp: decode_with_def) (metis prod.collapse)

subsection \<open>Properties\<close>

text \<open>
  GET messages. Every request and response, of each choice, makes the round trip: it is encoded
  into any buffer with room, a smaller buffer is reported, and the decoder with a depth limit
  that covers its data gives it back. Whatever the decoders accept is such a message.
\<close>

theorem get_messages:
  "(get_request_wf d q \<longrightarrow> round_trips (get_request_bytes q) (EncodeGetRequest q) (\<lambda>v. DecodeGetRequest v d) q)
   \<and> (DecodeGetRequest v d = Inr q \<longrightarrow> get_request_wf d q)
   \<and> (get_response_wf d r \<longrightarrow> round_trips (get_response_bytes r) (EncodeGetResponse r) (\<lambda>v. DecodeGetResponse v d) r)
   \<and> (DecodeGetResponse v d = Inr r \<longrightarrow> get_response_wf d r)"
  using get_requestc.msg.message_laws get_responsec.message_laws
  unfolding DecodeGetRequest_def DecodeGetResponse_def by blast

theorem get_messages_witness:
  "round_trips [0xc4, 2, 0x81, 1, 0, 0, 0, 3, 2, 0xaa, 0xbb]
     (EncodeGetResponse (GetResponse_default\<lparr>getResponse_choice := 2, getResponse_invokeIdAndPriority := 0x81,
        getResponse_dataBlock := \<lparr>lastBlock = True, dataBlockNumber = 3, rawData = View [0xaa, 0xbb]\<rparr>\<rparr>))
     (\<lambda>v. DecodeGetResponse v 8)
     (GetResponse_default\<lparr>getResponse_choice := 2, getResponse_invokeIdAndPriority := 0x81,
        getResponse_dataBlock := \<lparr>lastBlock = True, dataBlockNumber = 3, rawData = View [0xaa, 0xbb]\<rparr>\<rparr>)"
  (is "round_trips ?bs (EncodeGetResponse ?r) _ ?r")
proof -
  have "get_response_wf 8 ?r" "get_response_bytes ?r = ?bs"
    by (simp_all add: get_response_wf_def get_response_bytes_def get_defaults get_consts block_wf_def raw_wf_def
        size_t_modulus_def block_bytes_def raw_bytes_def octet_string_bytes_def length_bytes_def be32_def)
  with get_messages [of 8 _ _ ?r] show ?thesis by auto
qed

text \<open>
  The decoder for a request of one attribute agrees with the general request decoder: it accepts
  a buffer as a message exactly when the general decoder, with depth limit 8, accepts it as the
  same message with the choice for one attribute; and the two encoders write the same.
\<close>

theorem get_normal_equivalence:
  "(DecodeGetRequestNormal v = Inr m \<longleftrightarrow> DecodeGetRequest v 8 = Inr (general_request m))
   \<and> EncodeGetRequestNormal m = EncodeGetRequest (general_request m)"
proof
  show "DecodeGetRequestNormal v = Inr m \<longleftrightarrow> DecodeGetRequest v 8 = Inr (general_request m)"
    unfolding DecodeGetRequestNormal_def DecodeGetRequest_def decode_with_Inr_iff whole_Inr_iff
      DecodeGetRequestNormal_fields_iff ..
  show "EncodeGetRequestNormal m = EncodeGetRequest (general_request m)"
    by (simp add: EncodeGetRequestNormal_def EncodeGetRequest_def EncodeDescriptorWithSelection_def general_request_eq)
qed

end
