(* ===== verification/Apdu_Set.thy ===== *)
theory Apdu_Set
  imports Apdu_Get
begin

text \<open>
  The SET service (\<open>set.hpp\<close>, \<open>set.cpp\<close>): requests that carry a value, a first or a further block
  of a long value, or a list of values, and the responses to them. \<open>DataBlockSA\<close> has the fields of
  \<open>DataBlockG\<close> and its codec is the same code.
\<close>

type_synonym DataBlockSA = DataBlockG

record SetRequestNormal =
  setNormal_invokeIdAndPriority :: u8
  setNormal_descriptor :: CosemAttributeDescriptor
  setNormal_hasSelectiveAccess :: bool
  setNormal_selectiveAccess :: SelectiveAccessDescriptor
  setNormal_data :: DlmsData

record SetResponseNormal =
  setResponseNormal_invokeIdAndPriority :: u8
  setResponseNormal_result :: u8

record SetRequest =
  setRequest_choice :: u8
  setRequest_invokeIdAndPriority :: u8
  setRequest_normal :: CosemAttributeDescriptorWithSelection
  setRequest_data :: DlmsData
  setRequest_dataBlock :: DataBlockSA
  setRequest_list :: "CosemAttributeDescriptorWithSelection list"
  setRequest_valueList :: "DlmsData list"

record SetResponse =
  setResponse_choice :: u8
  setResponse_invokeIdAndPriority :: u8
  setResponse_result :: u8
  setResponse_blockNumber :: u32
  setResponse_resultList :: bytes

definition kSetRequestTag :: u8 where "kSetRequestTag = 0xc1"
definition kSetResponseTag :: u8 where "kSetResponseTag = 0xc5"
definition kWithFirstDataBlockChoice :: u8 where "kWithFirstDataBlockChoice = 0x02"
definition kWithDataBlockChoice :: u8 where "kWithDataBlockChoice = 0x03"
definition kSetWithListChoice :: u8 where "kSetWithListChoice = 0x04"
definition kWithListAndFirstDataBlockChoice :: u8 where "kWithListAndFirstDataBlockChoice = 0x05"

lemmas set_consts = kSetRequestTag_def kSetResponseTag_def kNormalChoice_def kWithFirstDataBlockChoice_def
  kWithDataBlockChoice_def kSetWithListChoice_def kWithListAndFirstDataBlockChoice_def

definition SetRequest_default :: SetRequest where
  "SetRequest_default = \<lparr>setRequest_choice = 0, setRequest_invokeIdAndPriority = 0,
     setRequest_normal = WithSelection_default, setRequest_data = DlmsData_default,
     setRequest_dataBlock = DataBlockG_default, setRequest_list = [], setRequest_valueList = []\<rparr>"

definition SetResponse_default :: SetResponse where
  "SetResponse_default = \<lparr>setResponse_choice = 0, setResponse_invokeIdAndPriority = 0, setResponse_result = 0,
     setResponse_blockNumber = 0, setResponse_resultList = []\<rparr>"

definition DecodeDataBlockSA :: "DataBlockSA reading" where
  "DecodeDataBlockSA = DecodeDataBlockG"

definition EncodeDataBlockSA :: "DataBlockSA \<Rightarrow> writing" where
  "EncodeDataBlockSA = EncodeDataBlockG"

definition DecodeResultList :: "bytes reading" where
  "DecodeResultList = try_then ReadAxdrLength (\<lambda>count. read_many count ReadU8)"

definition EncodeResultList :: "bytes \<Rightarrow> writing" where
  "EncodeResultList input = try_then (WriteAxdrLength (length input)) (\<lambda>_. write_all (map WriteU8 input))"

definition DecodeSetRequestNormal_fields :: "nat \<Rightarrow> SetRequestNormal reading" where
  "DecodeSetRequestNormal_fields maximumDataDepth = try_then ReadU8 (\<lambda>tag.
     if tag \<noteq> kSetRequestTag then refuse InvalidTag
     else try_then ReadU8 (\<lambda>choice.
       if choice \<noteq> kNormalChoice then refuse UnsupportedXdlmsService
       else try_then ReadU8 (\<lambda>invoke. try_then DecodeCosemAttributeDescriptor (\<lambda>descriptor.
         try_then (DecodeSelection maximumDataDepth) (\<lambda>(present, sel).
         try_then (DecodeDlmsDataFromReader maximumDataDepth) (\<lambda>d.
           yield \<lparr>setNormal_invokeIdAndPriority = invoke, setNormal_descriptor = descriptor,
             setNormal_hasSelectiveAccess = present, setNormal_selectiveAccess = sel, setNormal_data = d\<rparr>))))))"

definition DecodeSetRequestNormal :: "view \<Rightarrow> nat \<Rightarrow> ApduStatus + SetRequestNormal" where
  "DecodeSetRequestNormal input maximumDataDepth = decode_with (whole (DecodeSetRequestNormal_fields maximumDataDepth)) input"

definition EncodeSetRequestNormal :: "SetRequestNormal \<Rightarrow> writing" where
  "EncodeSetRequestNormal input = try_then (WriteU8 kSetRequestTag) (\<lambda>_. try_then (WriteU8 kNormalChoice) (\<lambda>_.
     try_then (WriteU8 (setNormal_invokeIdAndPriority input)) (\<lambda>_.
     try_then (EncodeCosemAttributeDescriptor (setNormal_descriptor input)) (\<lambda>_.
     try_then (EncodeSelection (setNormal_hasSelectiveAccess input) (setNormal_selectiveAccess input)) (\<lambda>_.
     EncodeDlmsData (setNormal_data input))))))"

definition DecodeSetResponseNormal_fields :: "SetResponseNormal reading" where
  "DecodeSetResponseNormal_fields = try_then ReadU8 (\<lambda>tag.
     if tag \<noteq> kSetResponseTag then refuse InvalidTag
     else try_then ReadU8 (\<lambda>choice.
       if choice \<noteq> kNormalChoice then refuse UnsupportedXdlmsService
       else try_then ReadU8 (\<lambda>invoke. try_then ReadU8 (\<lambda>result.
         yield \<lparr>setResponseNormal_invokeIdAndPriority = invoke, setResponseNormal_result = result\<rparr>))))"

definition DecodeSetResponseNormal :: "view \<Rightarrow> ApduStatus + SetResponseNormal" where
  "DecodeSetResponseNormal input = decode_with (whole DecodeSetResponseNormal_fields) input"

definition EncodeSetResponseNormal :: "SetResponseNormal \<Rightarrow> writing" where
  "EncodeSetResponseNormal input = try_then (WriteU8 kSetResponseTag) (\<lambda>_. try_then (WriteU8 kNormalChoice) (\<lambda>_.
     try_then (WriteU8 (setResponseNormal_invokeIdAndPriority input)) (\<lambda>_.
     WriteU8 (setResponseNormal_result input))))"

definition DecodeSetRequest_fields :: "nat \<Rightarrow> SetRequest reading" where
  "DecodeSetRequest_fields maximumDataDepth = try_then ReadU8 (\<lambda>tag.
     if tag \<noteq> kSetRequestTag then refuse InvalidTag
     else try_then ReadU8 (\<lambda>choice. try_then ReadU8 (\<lambda>invoke.
       let output = SetRequest_default\<lparr>setRequest_choice := choice, setRequest_invokeIdAndPriority := invoke\<rparr> in
       if choice = kNormalChoice then
         try_then (DecodeDescriptorWithSelection maximumDataDepth) (\<lambda>x.
         try_then (DecodeDlmsDataFromReader maximumDataDepth) (\<lambda>d.
           yield (output\<lparr>setRequest_normal := x, setRequest_data := d\<rparr>)))
       else if choice = kWithFirstDataBlockChoice then
         try_then (DecodeDescriptorWithSelection maximumDataDepth) (\<lambda>x.
         try_then DecodeDataBlockSA (\<lambda>b.
           yield (output\<lparr>setRequest_normal := x, setRequest_dataBlock := b\<rparr>)))
       else if choice = kWithDataBlockChoice then
         try_then DecodeDataBlockSA (\<lambda>b. yield (output\<lparr>setRequest_dataBlock := b\<rparr>))
       else if choice = kSetWithListChoice \<or> choice = kWithListAndFirstDataBlockChoice then
         try_then ReadAxdrLength (\<lambda>count.
         try_then (read_many count (DecodeDescriptorWithSelection maximumDataDepth)) (\<lambda>items.
           if choice = kSetWithListChoice then
             try_then ReadAxdrLength (\<lambda>valueCount.
               if valueCount \<noteq> count then refuse InvalidLength
               else try_then (read_many valueCount (DecodeDlmsDataFromReader maximumDataDepth)) (\<lambda>values.
                 yield (output\<lparr>setRequest_list := items, setRequest_valueList := values\<rparr>)))
           else try_then DecodeDataBlockSA (\<lambda>b.
             yield (output\<lparr>setRequest_list := items, setRequest_dataBlock := b\<rparr>))))
       else refuse UnsupportedXdlmsService)))"

definition DecodeSetRequest :: "view \<Rightarrow> nat \<Rightarrow> ApduStatus + SetRequest" where
  "DecodeSetRequest input maximumDataDepth = decode_with (whole (DecodeSetRequest_fields maximumDataDepth)) input"

definition EncodeSetRequest :: "SetRequest \<Rightarrow> writing" where
  "EncodeSetRequest input = try_then (WriteU8 kSetRequestTag) (\<lambda>_.
     try_then (WriteU8 (setRequest_choice input)) (\<lambda>_.
     try_then (WriteU8 (setRequest_invokeIdAndPriority input)) (\<lambda>_.
     if setRequest_choice input = kNormalChoice then
       try_then (EncodeDescriptorWithSelection (setRequest_normal input)) (\<lambda>_. EncodeDlmsData (setRequest_data input))
     else if setRequest_choice input = kWithFirstDataBlockChoice then
       try_then (EncodeDescriptorWithSelection (setRequest_normal input)) (\<lambda>_. EncodeDataBlockSA (setRequest_dataBlock input))
     else if setRequest_choice input = kWithDataBlockChoice then EncodeDataBlockSA (setRequest_dataBlock input)
     else if setRequest_choice input = kSetWithListChoice then
       if length (setRequest_list input) \<noteq> length (setRequest_valueList input) then refuse InvalidLength
       else try_then (WriteAxdrLength (length (setRequest_list input))) (\<lambda>_.
         try_then (write_all (map EncodeDescriptorWithSelection (setRequest_list input))) (\<lambda>_.
         try_then (WriteAxdrLength (length (setRequest_valueList input))) (\<lambda>_.
         write_all (map EncodeDlmsData (setRequest_valueList input)))))
     else if setRequest_choice input = kWithListAndFirstDataBlockChoice then
       try_then (WriteAxdrLength (length (setRequest_list input))) (\<lambda>_.
         try_then (write_all (map EncodeDescriptorWithSelection (setRequest_list input))) (\<lambda>_.
         EncodeDataBlockSA (setRequest_dataBlock input)))
     else refuse InvalidChoice)))"

definition DecodeSetResponse_fields :: "SetResponse reading" where
  "DecodeSetResponse_fields = try_then ReadU8 (\<lambda>tag.
     if tag \<noteq> kSetResponseTag then refuse InvalidTag
     else try_then ReadU8 (\<lambda>choice. try_then ReadU8 (\<lambda>invoke.
       let output = SetResponse_default\<lparr>setResponse_choice := choice, setResponse_invokeIdAndPriority := invoke\<rparr> in
       if choice = kNormalChoice then try_then ReadU8 (\<lambda>x. yield (output\<lparr>setResponse_result := x\<rparr>))
       else if choice = kWithFirstDataBlockChoice then
         try_then ReadU32 (\<lambda>n. yield (output\<lparr>setResponse_blockNumber := n\<rparr>))
       else if choice = kWithDataBlockChoice then
         try_then ReadU8 (\<lambda>x. try_then ReadU32 (\<lambda>n.
           yield (output\<lparr>setResponse_result := x, setResponse_blockNumber := n\<rparr>)))
       else if choice = kSetWithListChoice then
         try_then DecodeResultList (\<lambda>xs. try_then ReadU32 (\<lambda>n.
           yield (output\<lparr>setResponse_resultList := xs, setResponse_blockNumber := n\<rparr>)))
       else if choice = kWithListAndFirstDataBlockChoice then
         try_then DecodeResultList (\<lambda>xs. yield (output\<lparr>setResponse_resultList := xs\<rparr>))
       else refuse UnsupportedXdlmsService)))"

definition DecodeSetResponse :: "view \<Rightarrow> ApduStatus + SetResponse" where
  "DecodeSetResponse input = decode_with (whole DecodeSetResponse_fields) input"

definition EncodeSetResponse :: "SetResponse \<Rightarrow> writing" where
  "EncodeSetResponse input = try_then (WriteU8 kSetResponseTag) (\<lambda>_.
     try_then (WriteU8 (setResponse_choice input)) (\<lambda>_.
     try_then (WriteU8 (setResponse_invokeIdAndPriority input)) (\<lambda>_.
     if setResponse_choice input = kNormalChoice then WriteU8 (setResponse_result input)
     else if setResponse_choice input = kWithFirstDataBlockChoice then WriteU32 (setResponse_blockNumber input)
     else if setResponse_choice input = kWithDataBlockChoice then
       try_then (WriteU8 (setResponse_result input)) (\<lambda>_. WriteU32 (setResponse_blockNumber input))
     else if setResponse_choice input = kSetWithListChoice then
       try_then (EncodeResultList (setResponse_resultList input)) (\<lambda>_. WriteU32 (setResponse_blockNumber input))
     else if setResponse_choice input = kWithListAndFirstDataBlockChoice then
       EncodeResultList (setResponse_resultList input)
     else refuse InvalidChoice)))"

subsection \<open>The codecs\<close>

definition result_list_bytes :: "bytes \<Rightarrow> bytes" where
  "result_list_bytes xs = length_bytes (length xs) @ xs"

interpretation result_listc: wire_codec "\<lambda>xs. length xs < size_t_modulus" result_list_bytes DecodeResultList EncodeResultList
proof unfold_locales
  show "reads DecodeResultList (result_list_bytes xs) xs" if "length xs < size_t_modulus" for xs
    using that u8c.list_reads [of xs] unfolding DecodeResultList_def result_list_bytes_def
    by (intro lengthc.rd_then) simp_all
  show "writes (EncodeResultList xs) (result_list_bytes xs)" if "length xs < size_t_modulus" for xs
    using that u8c.list_writes [of xs] unfolding EncodeResultList_def result_list_bytes_def
    by (intro lengthc.wr_then) simp_all
  show "safe_read DecodeResultList" unfolding DecodeResultList_def by (intro codec_safe)
  show "yields DecodeResultList (\<lambda>xs. length xs < size_t_modulus)"
    unfolding DecodeResultList_def
  proof (rule lengthc.yd_then)
    show "yields (read_many n ReadU8) (\<lambda>xs. length xs < size_t_modulus)" if "n < size_t_modulus" for n
      using yields_many [of ReadU8 "\<lambda>_. True" n] that by (auto simp: yields_def)
  qed
qed

lemmas [codec_reads] = result_listc.rd_rules
lemmas [codec_writes] = result_listc.wr_rules
lemmas [codec_yields] = result_listc.yd_rules
lemmas [simp, codec_safe] = result_listc.rd_safe

definition set_normal_wf :: "nat \<Rightarrow> SetRequestNormal \<Rightarrow> bool" where
  "set_normal_wf d m \<longleftrightarrow> attribute_wf (setNormal_descriptor m)
     \<and> selection_wf d (setNormal_hasSelectiveAccess m, setNormal_selectiveAccess m) \<and> represented d (setNormal_data m)"

definition set_normal_bytes :: "SetRequestNormal \<Rightarrow> bytes" where
  "set_normal_bytes m = kSetRequestTag # kNormalChoice # setNormal_invokeIdAndPriority m
     # attribute_bytes (setNormal_descriptor m)
     @ selection_bytes (setNormal_hasSelectiveAccess m, setNormal_selectiveAccess m) @ data_bytes (setNormal_data m)"

interpretation set_normalc: wire_codec "set_normal_wf d" set_normal_bytes "DecodeSetRequestNormal_fields d" EncodeSetRequestNormal for d
proof unfold_locales
  fix m
  assume wf: "set_normal_wf d m"
  show "reads (DecodeSetRequestNormal_fields d) (set_normal_bytes m) m"
    using wf unfolding DecodeSetRequestNormal_fields_def set_normal_bytes_def set_normal_wf_def
    by (auto intro!: codec_reads)
  show "writes (EncodeSetRequestNormal m) (set_normal_bytes m)"
    using wf unfolding EncodeSetRequestNormal_def set_normal_bytes_def set_normal_wf_def
    by (auto intro!: codec_writes)
next
  show "safe_read (DecodeSetRequestNormal_fields d)" unfolding DecodeSetRequestNormal_fields_def by (intro codec_safe)
  show "yields (DecodeSetRequestNormal_fields d) (set_normal_wf d)"
    unfolding DecodeSetRequestNormal_fields_def by (intro codec_yields) (simp_all add: set_normal_wf_def)
qed

definition set_response_normal_bytes :: "SetResponseNormal \<Rightarrow> bytes" where
  "set_response_normal_bytes m = [kSetResponseTag, kNormalChoice, setResponseNormal_invokeIdAndPriority m, setResponseNormal_result m]"

interpretation set_response_normalc: wire_codec "\<lambda>_. True" set_response_normal_bytes DecodeSetResponseNormal_fields EncodeSetResponseNormal
proof unfold_locales
  show "reads DecodeSetResponseNormal_fields (set_response_normal_bytes m) m" for m
    unfolding DecodeSetResponseNormal_fields_def set_response_normal_bytes_def by (auto intro!: codec_reads)
  show "writes (EncodeSetResponseNormal m) (set_response_normal_bytes m)" for m
    unfolding EncodeSetResponseNormal_def set_response_normal_bytes_def by (auto intro!: codec_writes)
  show "safe_read DecodeSetResponseNormal_fields" unfolding DecodeSetResponseNormal_fields_def by (intro codec_safe)
qed simp

lemmas block_sa = DecodeDataBlockSA_def EncodeDataBlockSA_def

text \<open>The fields that a choice of the request leaves at their default.\<close>

definition set_request_wf :: "nat \<Rightarrow> SetRequest \<Rightarrow> bool" where
  "set_request_wf d m \<longleftrightarrow>
     (let c = setRequest_choice m; lists = (c = kSetWithListChoice \<or> c = kWithListAndFirstDataBlockChoice) in
      c \<in> {kNormalChoice, kWithFirstDataBlockChoice, kWithDataBlockChoice, kSetWithListChoice, kWithListAndFirstDataBlockChoice}
      \<and> (if c = kNormalChoice \<or> c = kWithFirstDataBlockChoice then selected_wf d (setRequest_normal m)
         else setRequest_normal m = WithSelection_default)
      \<and> (if c = kNormalChoice then represented d (setRequest_data m) else setRequest_data m = DlmsData_default)
      \<and> (if c = kNormalChoice \<or> c = kSetWithListChoice then setRequest_dataBlock m = DataBlockG_default
         else block_wf (setRequest_dataBlock m))
      \<and> (if lists then length (setRequest_list m) < size_t_modulus \<and> (\<forall>x \<in> set (setRequest_list m). selected_wf d x)
         else setRequest_list m = [])
      \<and> (if c = kSetWithListChoice then length (setRequest_valueList m) = length (setRequest_list m)
           \<and> (\<forall>x \<in> set (setRequest_valueList m). represented d x)
         else setRequest_valueList m = []))"

definition set_request_bytes :: "SetRequest \<Rightarrow> bytes" where
  "set_request_bytes m = kSetRequestTag # setRequest_choice m # setRequest_invokeIdAndPriority m
     # (if setRequest_choice m = kNormalChoice then selected_bytes (setRequest_normal m) @ data_bytes (setRequest_data m)
        else if setRequest_choice m = kWithFirstDataBlockChoice
          then selected_bytes (setRequest_normal m) @ block_bytes (setRequest_dataBlock m)
        else if setRequest_choice m = kWithDataBlockChoice then block_bytes (setRequest_dataBlock m)
        else length_bytes (length (setRequest_list m)) @ concat (map selected_bytes (setRequest_list m))
          @ (if setRequest_choice m = kSetWithListChoice
             then length_bytes (length (setRequest_valueList m)) @ concat (map data_bytes (setRequest_valueList m))
             else block_bytes (setRequest_dataBlock m)))"

lemma set_request_cases:
  assumes "set_request_wf d m"
  obtains i x v where "m = SetRequest_default\<lparr>setRequest_choice := 1, setRequest_invokeIdAndPriority := i,
      setRequest_normal := x, setRequest_data := v\<rparr>" "selected_wf d x" "represented d v"
  | i x b where "m = SetRequest_default\<lparr>setRequest_choice := 2, setRequest_invokeIdAndPriority := i,
      setRequest_normal := x, setRequest_dataBlock := b\<rparr>" "selected_wf d x" "block_wf b"
  | i b where "m = SetRequest_default\<lparr>setRequest_choice := 3, setRequest_invokeIdAndPriority := i,
      setRequest_dataBlock := b\<rparr>" "block_wf b"
  | i xs vs where "m = SetRequest_default\<lparr>setRequest_choice := 4, setRequest_invokeIdAndPriority := i,
      setRequest_list := xs, setRequest_valueList := vs\<rparr>" "length xs < size_t_modulus" "length vs = length xs"
      "\<forall>x \<in> set xs. selected_wf d x" "\<forall>v \<in> set vs. represented d v"
  | i xs b where "m = SetRequest_default\<lparr>setRequest_choice := 5, setRequest_invokeIdAndPriority := i,
      setRequest_list := xs, setRequest_dataBlock := b\<rparr>" "length xs < size_t_modulus"
      "\<forall>x \<in> set xs. selected_wf d x" "block_wf b"
proof -
  obtain c i x v b xs vs where m: "m = \<lparr>setRequest_choice = c, setRequest_invokeIdAndPriority = i, setRequest_normal = x,
      setRequest_data = v, setRequest_dataBlock = b, setRequest_list = xs, setRequest_valueList = vs\<rparr>" by (cases m)
  note wf = assms [unfolded m set_request_wf_def set_consts Let_def]
  consider "c = 1" | "c = 2" | "c = 3" | "c = 4" | "c = 5" using wf by auto
  then show thesis
  proof cases
    case 1
    with wf show ?thesis by (intro that(1) [where i = i and x = x and v = v]) (simp_all add: m SetRequest_default_def)
  next
    case 2
    with wf show ?thesis by (intro that(2) [where i = i and x = x and b = b]) (simp_all add: m SetRequest_default_def)
  next
    case 3
    with wf show ?thesis by (intro that(3) [where i = i and b = b]) (simp_all add: m SetRequest_default_def)
  next
    case 4
    with wf show ?thesis by (intro that(4) [where i = i and xs = xs and vs = vs]) (simp_all add: m SetRequest_default_def)
  next
    case 5
    with wf show ?thesis by (intro that(5) [where i = i and xs = xs and b = b]) (simp_all add: m SetRequest_default_def)
  qed
qed

interpretation set_requestc: wire_codec "set_request_wf d" set_request_bytes "DecodeSetRequest_fields d" EncodeSetRequest for d
proof unfold_locales
  fix m
  assume wf: "set_request_wf d m"
  show "reads (DecodeSetRequest_fields d) (set_request_bytes m) m"
    using wf unfolding DecodeSetRequest_fields_def set_request_bytes_def Let_def block_sa
    by (cases rule: set_request_cases) (auto simp: set_consts SetRequest_default_def intro!: codec_reads)
  show "writes (EncodeSetRequest m) (set_request_bytes m)"
    using wf unfolding EncodeSetRequest_def set_request_bytes_def Let_def block_sa
    by (cases rule: set_request_cases) (auto simp: set_consts SetRequest_default_def intro!: codec_writes)
next
  show "safe_read (DecodeSetRequest_fields d)" unfolding DecodeSetRequest_fields_def Let_def block_sa by (intro codec_safe)
  show "yields (DecodeSetRequest_fields d) (set_request_wf d)"
    unfolding DecodeSetRequest_fields_def Let_def block_sa
    by (intro codec_yields) (simp_all add: set_request_wf_def SetRequest_default_def set_consts)
qed

definition set_response_wf :: "SetResponse \<Rightarrow> bool" where
  "set_response_wf m \<longleftrightarrow>
     (let c = setResponse_choice m in
      c \<in> {kNormalChoice, kWithFirstDataBlockChoice, kWithDataBlockChoice, kSetWithListChoice, kWithListAndFirstDataBlockChoice}
      \<and> (c \<notin> {kNormalChoice, kWithDataBlockChoice} \<longrightarrow> setResponse_result m = 0)
      \<and> (c \<in> {kNormalChoice, kWithListAndFirstDataBlockChoice} \<longrightarrow> setResponse_blockNumber m = 0)
      \<and> (if c = kSetWithListChoice \<or> c = kWithListAndFirstDataBlockChoice
         then length (setResponse_resultList m) < size_t_modulus else setResponse_resultList m = []))"

definition set_response_bytes :: "SetResponse \<Rightarrow> bytes" where
  "set_response_bytes m = kSetResponseTag # setResponse_choice m # setResponse_invokeIdAndPriority m
     # (if setResponse_choice m = kNormalChoice then [setResponse_result m]
        else if setResponse_choice m = kWithFirstDataBlockChoice then be32 (setResponse_blockNumber m)
        else if setResponse_choice m = kWithDataBlockChoice then setResponse_result m # be32 (setResponse_blockNumber m)
        else if setResponse_choice m = kSetWithListChoice
          then result_list_bytes (setResponse_resultList m) @ be32 (setResponse_blockNumber m)
        else result_list_bytes (setResponse_resultList m))"

interpretation set_responsec: wire_codec set_response_wf set_response_bytes DecodeSetResponse_fields EncodeSetResponse
proof unfold_locales
  fix m
  assume wf: "set_response_wf m"
  show "reads DecodeSetResponse_fields (set_response_bytes m) m"
    using wf unfolding DecodeSetResponse_fields_def set_response_bytes_def set_response_wf_def Let_def set_consts
    by (cases m) (auto simp: SetResponse_default_def split: if_splits intro!: codec_reads)
  show "writes (EncodeSetResponse m) (set_response_bytes m)"
    using wf unfolding EncodeSetResponse_def set_response_bytes_def set_response_wf_def Let_def set_consts
    by (cases m) (auto split: if_splits intro!: codec_writes)
next
  show "safe_read DecodeSetResponse_fields" unfolding DecodeSetResponse_fields_def Let_def by (intro codec_safe)
  show "yields DecodeSetResponse_fields set_response_wf"
    unfolding DecodeSetResponse_fields_def Let_def
    by (intro codec_yields) (simp_all add: set_response_wf_def SetResponse_default_def set_consts)
qed

subsection \<open>Properties\<close>

text \<open>
  SET messages. Every request and response of each choice makes the round trip, and whatever the
  decoders accept is such a message; in particular a decoded request with a list carries exactly
  one value for each attribute of the list, within the depth limit.
\<close>

theorem set_messages:
  "(set_request_wf d q \<longrightarrow> round_trips (set_request_bytes q) (EncodeSetRequest q) (\<lambda>v. DecodeSetRequest v d) q)
   \<and> (DecodeSetRequest v d = Inr q \<longrightarrow> set_request_wf d q
        \<and> (setRequest_choice q = kSetWithListChoice \<longrightarrow> length (setRequest_valueList q) = length (setRequest_list q)))
   \<and> (set_response_wf r \<longrightarrow> round_trips (set_response_bytes r) (EncodeSetResponse r) DecodeSetResponse r)
   \<and> (DecodeSetResponse v = Inr r \<longrightarrow> set_response_wf r)"
proof -
  have "length (setRequest_valueList q) = length (setRequest_list q)"
    if "set_request_wf d q" "setRequest_choice q = kSetWithListChoice"
    using that by (simp add: set_request_wf_def Let_def)
  moreover have "DecodeSetResponse = decode_with (whole DecodeSetResponse_fields)"
    by (simp add: fun_eq_iff DecodeSetResponse_def)
  ultimately show ?thesis
    using set_requestc.msg.message_laws [of d q v] set_responsec.msg.message_laws [of r v]
    unfolding DecodeSetRequest_def by auto
qed

theorem set_messages_witness:
  "round_trips [0xc5, 4, 7, 2, 0, 1, 0, 0, 0, 9]
     (EncodeSetResponse \<lparr>setResponse_choice = 4, setResponse_invokeIdAndPriority = 7, setResponse_result = 0,
        setResponse_blockNumber = 9, setResponse_resultList = [0, 1]\<rparr>) DecodeSetResponse
     \<lparr>setResponse_choice = 4, setResponse_invokeIdAndPriority = 7, setResponse_result = 0,
        setResponse_blockNumber = 9, setResponse_resultList = [0, 1]\<rparr>"
  (is "round_trips ?bs _ _ ?r")
proof -
  have "set_response_wf ?r" "set_response_bytes ?r = ?bs"
    by (simp_all add: set_response_wf_def set_response_bytes_def set_consts size_t_modulus_def Let_def
        result_list_bytes_def length_bytes_def be32_def)
  with set_messages [of _ _ _ ?r] show ?thesis by auto
qed

end
