(* ===== verification/Apdu_Action.thy ===== *)
theory Apdu_Action
  imports Apdu_Set
begin

text \<open>
  The ACTION service (\<open>action.hpp\<close>, \<open>action.cpp\<close>): requests to invoke a method, a list of methods,
  or with parameters in blocks, and their responses. A return parameter is preceded by its own
  choice byte, of which only the value 0 is supported.
\<close>

record ActionRequestNormal =
  actionNormal_invokeIdAndPriority :: u8
  actionNormal_descriptor :: CosemMethodDescriptor
  actionNormal_hasInvocationParameter :: bool
  actionNormal_invocationParameter :: DlmsData

record ActionResponseNormal =
  actionResponseNormal_invokeIdAndPriority :: u8
  actionResponseNormal_result :: u8
  actionResponseNormal_hasReturnParameter :: bool
  actionResponseNormal_returnParameter :: DlmsData

record ActionResponseItem =
  item_result :: u8
  item_hasReturnParameter :: bool
  item_returnParameter :: DlmsData

record CosemMethodDescriptorWithParameter =
  parameterDescriptor :: CosemMethodDescriptor
  hasInvocationParameter :: bool
  invocationParameter :: DlmsData

record ActionRequest =
  actionRequest_choice :: u8
  actionRequest_invokeIdAndPriority :: u8
  actionRequest_normal :: CosemMethodDescriptorWithParameter
  actionRequest_blockNumber :: u32
  actionRequest_dataBlock :: DataBlockSA
  actionRequest_list :: "CosemMethodDescriptorWithParameter list"
  actionRequest_descriptorList :: "CosemMethodDescriptor list"

record ActionResponse =
  actionResponse_choice :: u8
  actionResponse_invokeIdAndPriority :: u8
  actionResponse_normal :: ActionResponseItem
  actionResponse_dataBlock :: DataBlockG
  actionResponse_list :: "ActionResponseItem list"
  actionResponse_blockNumber :: u32

definition kActionRequestTag :: u8 where "kActionRequestTag = 0xc3"
definition kActionResponseTag :: u8 where "kActionResponseTag = 0xc7"
definition kNextPblockChoice :: u8 where "kNextPblockChoice = 0x02"
definition kWithFirstPblockChoice :: u8 where "kWithFirstPblockChoice = 0x04"
definition kWithListAndFirstPblockChoice :: u8 where "kWithListAndFirstPblockChoice = 0x05"
definition kWithPblockChoice :: u8 where "kWithPblockChoice = 0x06"

lemmas action_consts = kActionRequestTag_def kActionResponseTag_def kNormalChoice_def kNextPblockChoice_def
  kWithListChoice_def kWithFirstPblockChoice_def kWithListAndFirstPblockChoice_def kWithPblockChoice_def

definition CosemMethodDescriptor_default :: CosemMethodDescriptor where
  "CosemMethodDescriptor_default = \<lparr>methodClassId = 0, methodLogicalName = [0, 0, 0, 0, 0, 0], methodId = 0\<rparr>"

definition WithParameter_default :: CosemMethodDescriptorWithParameter where
  "WithParameter_default = \<lparr>parameterDescriptor = CosemMethodDescriptor_default, hasInvocationParameter = False,
     invocationParameter = DlmsData_default\<rparr>"

definition ActionResponseItem_default :: ActionResponseItem where
  "ActionResponseItem_default = \<lparr>item_result = 0, item_hasReturnParameter = False, item_returnParameter = DlmsData_default\<rparr>"

definition ActionRequest_default :: ActionRequest where
  "ActionRequest_default = \<lparr>actionRequest_choice = 0, actionRequest_invokeIdAndPriority = 0,
     actionRequest_normal = WithParameter_default, actionRequest_blockNumber = 0,
     actionRequest_dataBlock = DataBlockG_default, actionRequest_list = [], actionRequest_descriptorList = []\<rparr>"

definition ActionResponse_default :: ActionResponse where
  "ActionResponse_default = \<lparr>actionResponse_choice = 0, actionResponse_invokeIdAndPriority = 0,
     actionResponse_normal = ActionResponseItem_default, actionResponse_dataBlock = DataBlockG_default,
     actionResponse_list = [], actionResponse_blockNumber = 0\<rparr>"

definition DecodeOptionalData :: "nat \<Rightarrow> (bool \<times> DlmsData) reading" where
  "DecodeOptionalData maximumDataDepth = try_then ReadU8 (\<lambda>flag.
     if flag > 1 then refuse InvalidChoice
     else if flag = 0 then yield (False, DlmsData_default)
     else try_then (DecodeDlmsDataFromReader maximumDataDepth) (\<lambda>d. yield (True, d)))"

definition DecodeOptionalActionReturnParameter :: "nat \<Rightarrow> (bool \<times> DlmsData) reading" where
  "DecodeOptionalActionReturnParameter maximumDataDepth = try_then ReadU8 (\<lambda>flag.
     if flag > 1 then refuse InvalidChoice
     else if flag = 0 then yield (False, DlmsData_default)
     else try_then ReadU8 (\<lambda>choice.
       if choice \<noteq> 0 then refuse UnsupportedXdlmsService
       else try_then (DecodeDlmsDataFromReader maximumDataDepth) (\<lambda>d. yield (True, d))))"

definition EncodeOptionalData :: "bool \<Rightarrow> DlmsData \<Rightarrow> writing" where
  "EncodeOptionalData present d = try_then (WriteU8 (if present then 0x01 else 0x00)) (\<lambda>_.
     if \<not> present then yield () else EncodeDlmsData d)"

definition EncodeOptionalActionReturnParameter :: "bool \<Rightarrow> DlmsData \<Rightarrow> writing" where
  "EncodeOptionalActionReturnParameter present d = try_then (WriteU8 (if present then 0x01 else 0x00)) (\<lambda>_.
     if \<not> present then yield () else try_then (WriteU8 0x00) (\<lambda>_. EncodeDlmsData d))"

definition DecodeMethodWithParameter :: "nat \<Rightarrow> CosemMethodDescriptorWithParameter reading" where
  "DecodeMethodWithParameter maximumDataDepth = try_then DecodeCosemMethodDescriptor (\<lambda>descriptor.
     try_then (DecodeOptionalData maximumDataDepth) (\<lambda>(present, d).
       yield \<lparr>parameterDescriptor = descriptor, hasInvocationParameter = present, invocationParameter = d\<rparr>))"

definition EncodeMethodWithParameter :: "CosemMethodDescriptorWithParameter \<Rightarrow> writing" where
  "EncodeMethodWithParameter input = try_then (EncodeCosemMethodDescriptor (parameterDescriptor input)) (\<lambda>_.
     EncodeOptionalData (hasInvocationParameter input) (invocationParameter input))"

definition DecodeResponseItem :: "nat \<Rightarrow> ActionResponseItem reading" where
  "DecodeResponseItem maximumDataDepth = try_then ReadU8 (\<lambda>result.
     try_then (DecodeOptionalActionReturnParameter maximumDataDepth) (\<lambda>(present, d).
       yield \<lparr>item_result = result, item_hasReturnParameter = present, item_returnParameter = d\<rparr>))"

definition EncodeResponseItem :: "ActionResponseItem \<Rightarrow> writing" where
  "EncodeResponseItem input = try_then (WriteU8 (item_result input)) (\<lambda>_.
     EncodeOptionalActionReturnParameter (item_hasReturnParameter input) (item_returnParameter input))"

definition DecodeActionRequestNormal_fields :: "nat \<Rightarrow> ActionRequestNormal reading" where
  "DecodeActionRequestNormal_fields maximumDataDepth = try_then ReadU8 (\<lambda>tag.
     if tag \<noteq> kActionRequestTag then refuse InvalidTag
     else try_then ReadU8 (\<lambda>choice.
       if choice \<noteq> kNormalChoice then refuse UnsupportedXdlmsService
       else try_then ReadU8 (\<lambda>invoke. try_then DecodeCosemMethodDescriptor (\<lambda>descriptor.
         try_then (DecodeOptionalData maximumDataDepth) (\<lambda>(present, d).
           yield \<lparr>actionNormal_invokeIdAndPriority = invoke, actionNormal_descriptor = descriptor,
             actionNormal_hasInvocationParameter = present, actionNormal_invocationParameter = d\<rparr>)))))"

definition DecodeActionRequestNormal :: "view \<Rightarrow> nat \<Rightarrow> ApduStatus + ActionRequestNormal" where
  "DecodeActionRequestNormal input maximumDataDepth =
     decode_with (whole (DecodeActionRequestNormal_fields maximumDataDepth)) input"

definition EncodeActionRequestNormal :: "ActionRequestNormal \<Rightarrow> writing" where
  "EncodeActionRequestNormal input = try_then (WriteU8 kActionRequestTag) (\<lambda>_. try_then (WriteU8 kNormalChoice) (\<lambda>_.
     try_then (WriteU8 (actionNormal_invokeIdAndPriority input)) (\<lambda>_.
     try_then (EncodeCosemMethodDescriptor (actionNormal_descriptor input)) (\<lambda>_.
     EncodeOptionalData (actionNormal_hasInvocationParameter input) (actionNormal_invocationParameter input)))))"

definition DecodeActionResponseNormal_fields :: "nat \<Rightarrow> ActionResponseNormal reading" where
  "DecodeActionResponseNormal_fields maximumDataDepth = try_then ReadU8 (\<lambda>tag.
     if tag \<noteq> kActionResponseTag then refuse InvalidTag
     else try_then ReadU8 (\<lambda>choice.
       if choice \<noteq> kNormalChoice then refuse UnsupportedXdlmsService
       else try_then ReadU8 (\<lambda>invoke. try_then ReadU8 (\<lambda>result.
         try_then (DecodeOptionalActionReturnParameter maximumDataDepth) (\<lambda>(present, d).
           yield \<lparr>actionResponseNormal_invokeIdAndPriority = invoke, actionResponseNormal_result = result,
             actionResponseNormal_hasReturnParameter = present, actionResponseNormal_returnParameter = d\<rparr>)))))"

definition DecodeActionResponseNormal :: "view \<Rightarrow> nat \<Rightarrow> ApduStatus + ActionResponseNormal" where
  "DecodeActionResponseNormal input maximumDataDepth =
     decode_with (whole (DecodeActionResponseNormal_fields maximumDataDepth)) input"

definition EncodeActionResponseNormal :: "ActionResponseNormal \<Rightarrow> writing" where
  "EncodeActionResponseNormal input = try_then (WriteU8 kActionResponseTag) (\<lambda>_. try_then (WriteU8 kNormalChoice) (\<lambda>_.
     try_then (WriteU8 (actionResponseNormal_invokeIdAndPriority input)) (\<lambda>_.
     try_then (WriteU8 (actionResponseNormal_result input)) (\<lambda>_.
     EncodeOptionalActionReturnParameter (actionResponseNormal_hasReturnParameter input)
       (actionResponseNormal_returnParameter input)))))"

definition DecodeActionRequest_fields :: "nat \<Rightarrow> ActionRequest reading" where
  "DecodeActionRequest_fields maximumDataDepth = try_then ReadU8 (\<lambda>tag.
     if tag \<noteq> kActionRequestTag then refuse InvalidTag
     else try_then ReadU8 (\<lambda>choice. try_then ReadU8 (\<lambda>invoke.
       let output = ActionRequest_default\<lparr>actionRequest_choice := choice, actionRequest_invokeIdAndPriority := invoke\<rparr> in
       if choice = kNormalChoice then
         try_then (DecodeMethodWithParameter maximumDataDepth) (\<lambda>x. yield (output\<lparr>actionRequest_normal := x\<rparr>))
       else if choice = kNextPblockChoice then
         try_then ReadU32 (\<lambda>n. yield (output\<lparr>actionRequest_blockNumber := n\<rparr>))
       else if choice = kWithListChoice then
         try_then ReadAxdrLength (\<lambda>count. try_then (read_many count (DecodeMethodWithParameter maximumDataDepth)) (\<lambda>xs.
           yield (output\<lparr>actionRequest_list := xs\<rparr>)))
       else if choice = kWithFirstPblockChoice then
         try_then DecodeCosemMethodDescriptor (\<lambda>descriptor. try_then DecodeDataBlockSA (\<lambda>b.
           yield (output\<lparr>actionRequest_normal := WithParameter_default\<lparr>parameterDescriptor := descriptor\<rparr>,
             actionRequest_dataBlock := b\<rparr>)))
       else if choice = kWithListAndFirstPblockChoice then
         try_then ReadAxdrLength (\<lambda>count. try_then (read_many count DecodeCosemMethodDescriptor) (\<lambda>xs.
           try_then DecodeDataBlockSA (\<lambda>b.
             yield (output\<lparr>actionRequest_descriptorList := xs, actionRequest_dataBlock := b\<rparr>))))
       else if choice = kWithPblockChoice then
         try_then DecodeDataBlockSA (\<lambda>b. yield (output\<lparr>actionRequest_dataBlock := b\<rparr>))
       else refuse UnsupportedXdlmsService)))"

definition DecodeActionRequest :: "view \<Rightarrow> nat \<Rightarrow> ApduStatus + ActionRequest" where
  "DecodeActionRequest input maximumDataDepth = decode_with (whole (DecodeActionRequest_fields maximumDataDepth)) input"

definition EncodeActionRequest :: "ActionRequest \<Rightarrow> writing" where
  "EncodeActionRequest input = try_then (WriteU8 kActionRequestTag) (\<lambda>_.
     try_then (WriteU8 (actionRequest_choice input)) (\<lambda>_.
     try_then (WriteU8 (actionRequest_invokeIdAndPriority input)) (\<lambda>_.
     if actionRequest_choice input = kNormalChoice then EncodeMethodWithParameter (actionRequest_normal input)
     else if actionRequest_choice input = kNextPblockChoice then WriteU32 (actionRequest_blockNumber input)
     else if actionRequest_choice input = kWithListChoice then
       try_then (WriteAxdrLength (length (actionRequest_list input))) (\<lambda>_.
         write_all (map EncodeMethodWithParameter (actionRequest_list input)))
     else if actionRequest_choice input = kWithFirstPblockChoice then
       try_then (EncodeCosemMethodDescriptor (parameterDescriptor (actionRequest_normal input))) (\<lambda>_.
         EncodeDataBlockSA (actionRequest_dataBlock input))
     else if actionRequest_choice input = kWithListAndFirstPblockChoice then
       try_then (WriteAxdrLength (length (actionRequest_descriptorList input))) (\<lambda>_.
         try_then (write_all (map EncodeCosemMethodDescriptor (actionRequest_descriptorList input))) (\<lambda>_.
         EncodeDataBlockSA (actionRequest_dataBlock input)))
     else if actionRequest_choice input = kWithPblockChoice then EncodeDataBlockSA (actionRequest_dataBlock input)
     else refuse InvalidChoice)))"

definition DecodeActionResponse_fields :: "nat \<Rightarrow> ActionResponse reading" where
  "DecodeActionResponse_fields maximumDataDepth = try_then ReadU8 (\<lambda>tag.
     if tag \<noteq> kActionResponseTag then refuse InvalidTag
     else try_then ReadU8 (\<lambda>choice. try_then ReadU8 (\<lambda>invoke.
       let output = ActionResponse_default\<lparr>actionResponse_choice := choice, actionResponse_invokeIdAndPriority := invoke\<rparr> in
       if choice = kNormalChoice then
         try_then (DecodeResponseItem maximumDataDepth) (\<lambda>x. yield (output\<lparr>actionResponse_normal := x\<rparr>))
       else if choice = kNextPblockChoice then
         try_then DecodeDataBlockG (\<lambda>b. yield (output\<lparr>actionResponse_dataBlock := b\<rparr>))
       else if choice = kWithListChoice then
         try_then ReadAxdrLength (\<lambda>count. try_then (read_many count (DecodeResponseItem maximumDataDepth)) (\<lambda>xs.
           yield (output\<lparr>actionResponse_list := xs\<rparr>)))
       else if choice = kWithFirstPblockChoice then
         try_then ReadU32 (\<lambda>n. yield (output\<lparr>actionResponse_blockNumber := n\<rparr>))
       else refuse UnsupportedXdlmsService)))"

definition DecodeActionResponse :: "view \<Rightarrow> nat \<Rightarrow> ApduStatus + ActionResponse" where
  "DecodeActionResponse input maximumDataDepth = decode_with (whole (DecodeActionResponse_fields maximumDataDepth)) input"

definition EncodeActionResponse :: "ActionResponse \<Rightarrow> writing" where
  "EncodeActionResponse input = try_then (WriteU8 kActionResponseTag) (\<lambda>_.
     try_then (WriteU8 (actionResponse_choice input)) (\<lambda>_.
     try_then (WriteU8 (actionResponse_invokeIdAndPriority input)) (\<lambda>_.
     if actionResponse_choice input = kNormalChoice then EncodeResponseItem (actionResponse_normal input)
     else if actionResponse_choice input = kNextPblockChoice then EncodeDataBlockG (actionResponse_dataBlock input)
     else if actionResponse_choice input = kWithListChoice then
       try_then (WriteAxdrLength (length (actionResponse_list input))) (\<lambda>_.
         write_all (map EncodeResponseItem (actionResponse_list input)))
     else if actionResponse_choice input = kWithFirstPblockChoice then WriteU32 (actionResponse_blockNumber input)
     else refuse InvalidChoice)))"

subsection \<open>Optional data\<close>

definition optional_wf :: "nat \<Rightarrow> bool \<times> DlmsData \<Rightarrow> bool" where
  "optional_wf d x \<longleftrightarrow> (if fst x then represented d (snd x) else snd x = DlmsData_default)"

definition optional_bytes :: "bool \<times> DlmsData \<Rightarrow> bytes" where
  "optional_bytes x = (if fst x then 1 # data_bytes (snd x) else [0])"

definition return_bytes :: "bool \<times> DlmsData \<Rightarrow> bytes" where
  "return_bytes x = (if fst x then 1 # 0 # data_bytes (snd x) else [0])"

interpretation optionalc: wire_codec "optional_wf d" optional_bytes "DecodeOptionalData d" "\<lambda>(p, x). EncodeOptionalData p x" for d
proof unfold_locales
  fix x
  assume wf: "optional_wf d x"
  show "reads (DecodeOptionalData d) (optional_bytes x) x"
    using wf unfolding DecodeOptionalData_def optional_bytes_def optional_wf_def
    by (cases x; cases "fst x") (auto intro!: codec_reads)
  show "writes (case x of (p, y) \<Rightarrow> EncodeOptionalData p y) (optional_bytes x)"
    using wf unfolding EncodeOptionalData_def optional_bytes_def optional_wf_def
    by (cases x; cases "fst x") (auto intro!: codec_writes)
next
  show "safe_read (DecodeOptionalData d)" unfolding DecodeOptionalData_def by (intro codec_safe)
  show "yields (DecodeOptionalData d) (optional_wf d)"
    unfolding DecodeOptionalData_def by (intro codec_yields) (simp_all add: optional_wf_def)
qed

interpretation returnc: wire_codec "optional_wf d" return_bytes "DecodeOptionalActionReturnParameter d"
  "\<lambda>(p, x). EncodeOptionalActionReturnParameter p x" for d
proof unfold_locales
  fix x
  assume wf: "optional_wf d x"
  show "reads (DecodeOptionalActionReturnParameter d) (return_bytes x) x"
    using wf unfolding DecodeOptionalActionReturnParameter_def return_bytes_def optional_wf_def
    by (cases x; cases "fst x") (auto intro!: codec_reads)
  show "writes (case x of (p, y) \<Rightarrow> EncodeOptionalActionReturnParameter p y) (return_bytes x)"
    using wf unfolding EncodeOptionalActionReturnParameter_def return_bytes_def optional_wf_def
    by (cases x; cases "fst x") (auto intro!: codec_writes)
next
  show "safe_read (DecodeOptionalActionReturnParameter d)"
    unfolding DecodeOptionalActionReturnParameter_def by (intro codec_safe)
  show "yields (DecodeOptionalActionReturnParameter d) (optional_wf d)"
    unfolding DecodeOptionalActionReturnParameter_def by (intro codec_yields) (simp_all add: optional_wf_def)
qed

lemmas [codec_reads] = optionalc.rd_then optionalc.rd_last returnc.rd_then returnc.rd_last
lemmas [codec_writes] = optionalc.wr_writes [of d "(p, x)" for d p x, unfolded case_prod_conv]
  returnc.wr_writes [of d "(p, x)" for d p x, unfolded case_prod_conv]
lemmas [codec_yields] = optionalc.yd_rules returnc.yd_rules
lemmas [simp, codec_safe] = optionalc.rd_safe returnc.rd_safe

definition parameter_wf :: "nat \<Rightarrow> CosemMethodDescriptorWithParameter \<Rightarrow> bool" where
  "parameter_wf d x \<longleftrightarrow> method_wf (parameterDescriptor x) \<and> optional_wf d (hasInvocationParameter x, invocationParameter x)"

definition parameter_bytes :: "CosemMethodDescriptorWithParameter \<Rightarrow> bytes" where
  "parameter_bytes x = method_bytes (parameterDescriptor x) @ optional_bytes (hasInvocationParameter x, invocationParameter x)"

interpretation parameterc: wire_codec "parameter_wf d" parameter_bytes "DecodeMethodWithParameter d" EncodeMethodWithParameter for d
proof unfold_locales
  fix x
  assume wf: "parameter_wf d x"
  show "reads (DecodeMethodWithParameter d) (parameter_bytes x) x"
    using wf unfolding DecodeMethodWithParameter_def parameter_bytes_def parameter_wf_def by (auto intro!: codec_reads)
  show "writes (EncodeMethodWithParameter x) (parameter_bytes x)"
    using wf unfolding EncodeMethodWithParameter_def parameter_bytes_def parameter_wf_def by (auto intro!: codec_writes)
next
  show "safe_read (DecodeMethodWithParameter d)" unfolding DecodeMethodWithParameter_def by (intro codec_safe)
  show "yields (DecodeMethodWithParameter d) (parameter_wf d)"
    unfolding DecodeMethodWithParameter_def by (intro codec_yields) (simp_all add: parameter_wf_def)
qed

definition response_item_wf :: "nat \<Rightarrow> ActionResponseItem \<Rightarrow> bool" where
  "response_item_wf d x \<longleftrightarrow> optional_wf d (item_hasReturnParameter x, item_returnParameter x)"

definition response_item_bytes :: "ActionResponseItem \<Rightarrow> bytes" where
  "response_item_bytes x = item_result x # return_bytes (item_hasReturnParameter x, item_returnParameter x)"

interpretation response_itemc: wire_codec "response_item_wf d" response_item_bytes "DecodeResponseItem d" EncodeResponseItem for d
proof unfold_locales
  fix x
  assume wf: "response_item_wf d x"
  show "reads (DecodeResponseItem d) (response_item_bytes x) x"
    using wf unfolding DecodeResponseItem_def response_item_bytes_def response_item_wf_def by (auto intro!: codec_reads)
  show "writes (EncodeResponseItem x) (response_item_bytes x)"
    using wf unfolding EncodeResponseItem_def response_item_bytes_def response_item_wf_def by (auto intro!: codec_writes)
next
  show "safe_read (DecodeResponseItem d)" unfolding DecodeResponseItem_def by (intro codec_safe)
  show "yields (DecodeResponseItem d) (response_item_wf d)"
    unfolding DecodeResponseItem_def by (intro codec_yields) (simp_all add: response_item_wf_def)
qed

lemmas [codec_reads] = parameterc.rd_rules response_itemc.rd_rules
lemmas [codec_writes] = parameterc.wr_rules response_itemc.wr_rules
lemmas [codec_yields] = parameterc.yd_rules response_itemc.yd_rules
lemmas [simp, codec_safe] = parameterc.rd_safe response_itemc.rd_safe

subsection \<open>Messages with one method\<close>

definition action_normal_wf :: "nat \<Rightarrow> ActionRequestNormal \<Rightarrow> bool" where
  "action_normal_wf d m \<longleftrightarrow> method_wf (actionNormal_descriptor m)
     \<and> optional_wf d (actionNormal_hasInvocationParameter m, actionNormal_invocationParameter m)"

definition action_normal_bytes :: "ActionRequestNormal \<Rightarrow> bytes" where
  "action_normal_bytes m = kActionRequestTag # kNormalChoice # actionNormal_invokeIdAndPriority m
     # method_bytes (actionNormal_descriptor m)
     @ optional_bytes (actionNormal_hasInvocationParameter m, actionNormal_invocationParameter m)"

interpretation action_normalc: wire_codec "action_normal_wf d" action_normal_bytes
  "DecodeActionRequestNormal_fields d" EncodeActionRequestNormal for d
proof unfold_locales
  fix m
  assume wf: "action_normal_wf d m"
  show "reads (DecodeActionRequestNormal_fields d) (action_normal_bytes m) m"
    using wf unfolding DecodeActionRequestNormal_fields_def action_normal_bytes_def action_normal_wf_def
    by (auto intro!: codec_reads)
  show "writes (EncodeActionRequestNormal m) (action_normal_bytes m)"
    using wf unfolding EncodeActionRequestNormal_def action_normal_bytes_def action_normal_wf_def
    by (auto intro!: codec_writes)
next
  show "safe_read (DecodeActionRequestNormal_fields d)" unfolding DecodeActionRequestNormal_fields_def by (intro codec_safe)
  show "yields (DecodeActionRequestNormal_fields d) (action_normal_wf d)"
    unfolding DecodeActionRequestNormal_fields_def by (intro codec_yields) (simp_all add: action_normal_wf_def)
qed

definition action_response_normal_wf :: "nat \<Rightarrow> ActionResponseNormal \<Rightarrow> bool" where
  "action_response_normal_wf d m \<longleftrightarrow>
     optional_wf d (actionResponseNormal_hasReturnParameter m, actionResponseNormal_returnParameter m)"

definition action_response_normal_bytes :: "ActionResponseNormal \<Rightarrow> bytes" where
  "action_response_normal_bytes m = kActionResponseTag # kNormalChoice # actionResponseNormal_invokeIdAndPriority m
     # actionResponseNormal_result m
     # return_bytes (actionResponseNormal_hasReturnParameter m, actionResponseNormal_returnParameter m)"

interpretation action_response_normalc: wire_codec "action_response_normal_wf d" action_response_normal_bytes
  "DecodeActionResponseNormal_fields d" EncodeActionResponseNormal for d
proof unfold_locales
  fix m
  assume wf: "action_response_normal_wf d m"
  show "reads (DecodeActionResponseNormal_fields d) (action_response_normal_bytes m) m"
    using wf unfolding DecodeActionResponseNormal_fields_def action_response_normal_bytes_def action_response_normal_wf_def
    by (auto intro!: codec_reads)
  show "writes (EncodeActionResponseNormal m) (action_response_normal_bytes m)"
    using wf unfolding EncodeActionResponseNormal_def action_response_normal_bytes_def action_response_normal_wf_def
    by (auto intro!: codec_writes)
next
  show "safe_read (DecodeActionResponseNormal_fields d)" unfolding DecodeActionResponseNormal_fields_def by (intro codec_safe)
  show "yields (DecodeActionResponseNormal_fields d) (action_response_normal_wf d)"
    unfolding DecodeActionResponseNormal_fields_def by (intro codec_yields) (simp_all add: action_response_normal_wf_def)
qed

subsection \<open>General messages\<close>

definition action_request_wf :: "nat \<Rightarrow> ActionRequest \<Rightarrow> bool" where
  "action_request_wf d m \<longleftrightarrow>
     (let c = actionRequest_choice m;
          blocks = (c = kWithFirstPblockChoice \<or> c = kWithListAndFirstPblockChoice \<or> c = kWithPblockChoice) in
      c \<in> {kNormalChoice, kNextPblockChoice, kWithListChoice, kWithFirstPblockChoice, kWithListAndFirstPblockChoice,
          kWithPblockChoice}
      \<and> (if c = kNormalChoice then parameter_wf d (actionRequest_normal m)
         else if c = kWithFirstPblockChoice then method_wf (parameterDescriptor (actionRequest_normal m))
           \<and> actionRequest_normal m = WithParameter_default\<lparr>parameterDescriptor := parameterDescriptor (actionRequest_normal m)\<rparr>
         else actionRequest_normal m = WithParameter_default)
      \<and> (c \<noteq> kNextPblockChoice \<longrightarrow> actionRequest_blockNumber m = 0)
      \<and> (if blocks then block_wf (actionRequest_dataBlock m) else actionRequest_dataBlock m = DataBlockG_default)
      \<and> (if c = kWithListChoice
         then length (actionRequest_list m) < size_t_modulus \<and> (\<forall>x \<in> set (actionRequest_list m). parameter_wf d x)
         else actionRequest_list m = [])
      \<and> (if c = kWithListAndFirstPblockChoice
         then length (actionRequest_descriptorList m) < size_t_modulus \<and> (\<forall>x \<in> set (actionRequest_descriptorList m). method_wf x)
         else actionRequest_descriptorList m = []))"

definition action_request_bytes :: "ActionRequest \<Rightarrow> bytes" where
  "action_request_bytes m = kActionRequestTag # actionRequest_choice m # actionRequest_invokeIdAndPriority m
     # (if actionRequest_choice m = kNormalChoice then parameter_bytes (actionRequest_normal m)
        else if actionRequest_choice m = kNextPblockChoice then be32 (actionRequest_blockNumber m)
        else if actionRequest_choice m = kWithListChoice
          then length_bytes (length (actionRequest_list m)) @ concat (map parameter_bytes (actionRequest_list m))
        else if actionRequest_choice m = kWithFirstPblockChoice
          then method_bytes (parameterDescriptor (actionRequest_normal m)) @ block_bytes (actionRequest_dataBlock m)
        else if actionRequest_choice m = kWithListAndFirstPblockChoice
          then length_bytes (length (actionRequest_descriptorList m))
            @ concat (map method_bytes (actionRequest_descriptorList m)) @ block_bytes (actionRequest_dataBlock m)
        else block_bytes (actionRequest_dataBlock m))"

lemma action_request_cases:
  assumes "action_request_wf d m"
  obtains i x where "m = ActionRequest_default\<lparr>actionRequest_choice := 1, actionRequest_invokeIdAndPriority := i,
      actionRequest_normal := x\<rparr>" "parameter_wf d x"
  | i n where "m = ActionRequest_default\<lparr>actionRequest_choice := 2, actionRequest_invokeIdAndPriority := i,
      actionRequest_blockNumber := n\<rparr>"
  | i xs where "m = ActionRequest_default\<lparr>actionRequest_choice := 3, actionRequest_invokeIdAndPriority := i,
      actionRequest_list := xs\<rparr>" "length xs < size_t_modulus" "\<forall>x \<in> set xs. parameter_wf d x"
  | i x b where "m = ActionRequest_default\<lparr>actionRequest_choice := 4, actionRequest_invokeIdAndPriority := i,
      actionRequest_normal := WithParameter_default\<lparr>parameterDescriptor := x\<rparr>, actionRequest_dataBlock := b\<rparr>"
      "method_wf x" "block_wf b"
  | i ys b where "m = ActionRequest_default\<lparr>actionRequest_choice := 5, actionRequest_invokeIdAndPriority := i,
      actionRequest_descriptorList := ys, actionRequest_dataBlock := b\<rparr>" "length ys < size_t_modulus"
      "\<forall>y \<in> set ys. method_wf y" "block_wf b"
  | i b where "m = ActionRequest_default\<lparr>actionRequest_choice := 6, actionRequest_invokeIdAndPriority := i,
      actionRequest_dataBlock := b\<rparr>" "block_wf b"
proof -
  obtain c i x n b xs ys where m: "m = \<lparr>actionRequest_choice = c, actionRequest_invokeIdAndPriority = i,
      actionRequest_normal = x, actionRequest_blockNumber = n, actionRequest_dataBlock = b, actionRequest_list = xs,
      actionRequest_descriptorList = ys\<rparr>" by (cases m)
  note wf = assms [unfolded m action_request_wf_def action_consts Let_def]
  consider "c = 1" | "c = 2" | "c = 3" | "c = 4" | "c = 5" | "c = 6" using wf by auto
  then show thesis
  proof cases
    case 1
    with wf show ?thesis by (intro that(1) [where i = i and x = x]) (simp_all add: m ActionRequest_default_def)
  next
    case 2
    with wf show ?thesis by (intro that(2) [where i = i and n = n]) (simp_all add: m ActionRequest_default_def)
  next
    case 3
    with wf show ?thesis by (intro that(3) [where i = i and xs = xs]) (simp_all add: m ActionRequest_default_def)
  next
    case 4
    with wf show ?thesis
      by (intro that(4) [where i = i and x = "parameterDescriptor x" and b = b]) (simp_all add: m ActionRequest_default_def)
  next
    case 5
    with wf show ?thesis by (intro that(5) [where i = i and ys = ys and b = b]) (simp_all add: m ActionRequest_default_def)
  next
    case 6
    with wf show ?thesis by (intro that(6) [where i = i and b = b]) (simp_all add: m ActionRequest_default_def)
  qed
qed

interpretation action_requestc: wire_codec "action_request_wf d" action_request_bytes
  "DecodeActionRequest_fields d" EncodeActionRequest for d
proof unfold_locales
  fix m
  assume wf: "action_request_wf d m"
  show "reads (DecodeActionRequest_fields d) (action_request_bytes m) m"
    using wf unfolding DecodeActionRequest_fields_def action_request_bytes_def Let_def block_sa
    by (cases rule: action_request_cases) (auto simp: action_consts ActionRequest_default_def intro!: codec_reads)
  show "writes (EncodeActionRequest m) (action_request_bytes m)"
    using wf unfolding EncodeActionRequest_def action_request_bytes_def Let_def block_sa
    by (cases rule: action_request_cases) (auto simp: action_consts ActionRequest_default_def intro!: codec_writes)
next
  show "safe_read (DecodeActionRequest_fields d)"
    unfolding DecodeActionRequest_fields_def Let_def block_sa by (intro codec_safe)
  show "yields (DecodeActionRequest_fields d) (action_request_wf d)"
    unfolding DecodeActionRequest_fields_def Let_def block_sa
    by (intro codec_yields) (simp_all add: action_request_wf_def ActionRequest_default_def action_consts)
qed

definition action_response_wf :: "nat \<Rightarrow> ActionResponse \<Rightarrow> bool" where
  "action_response_wf d m \<longleftrightarrow>
     (let c = actionResponse_choice m in
      c \<in> {kNormalChoice, kNextPblockChoice, kWithListChoice, kWithFirstPblockChoice}
      \<and> (if c = kNormalChoice then response_item_wf d (actionResponse_normal m)
         else actionResponse_normal m = ActionResponseItem_default)
      \<and> (if c = kNextPblockChoice then block_wf (actionResponse_dataBlock m)
         else actionResponse_dataBlock m = DataBlockG_default)
      \<and> (if c = kWithListChoice
         then length (actionResponse_list m) < size_t_modulus \<and> (\<forall>x \<in> set (actionResponse_list m). response_item_wf d x)
         else actionResponse_list m = [])
      \<and> (c \<noteq> kWithFirstPblockChoice \<longrightarrow> actionResponse_blockNumber m = 0))"

definition action_response_bytes :: "ActionResponse \<Rightarrow> bytes" where
  "action_response_bytes m = kActionResponseTag # actionResponse_choice m # actionResponse_invokeIdAndPriority m
     # (if actionResponse_choice m = kNormalChoice then response_item_bytes (actionResponse_normal m)
        else if actionResponse_choice m = kNextPblockChoice then block_bytes (actionResponse_dataBlock m)
        else if actionResponse_choice m = kWithListChoice
          then length_bytes (length (actionResponse_list m)) @ concat (map response_item_bytes (actionResponse_list m))
        else be32 (actionResponse_blockNumber m))"

interpretation action_responsec: wire_codec "action_response_wf d" action_response_bytes
  "DecodeActionResponse_fields d" EncodeActionResponse for d
proof unfold_locales
  fix m
  assume wf: "action_response_wf d m"
  show "reads (DecodeActionResponse_fields d) (action_response_bytes m) m"
    using wf unfolding DecodeActionResponse_fields_def action_response_bytes_def action_response_wf_def Let_def action_consts
    by (cases m) (auto simp: ActionResponse_default_def split: if_splits intro!: codec_reads)
  show "writes (EncodeActionResponse m) (action_response_bytes m)"
    using wf unfolding EncodeActionResponse_def action_response_bytes_def action_response_wf_def Let_def action_consts
    by (cases m) (auto split: if_splits intro!: codec_writes)
next
  show "safe_read (DecodeActionResponse_fields d)" unfolding DecodeActionResponse_fields_def Let_def by (intro codec_safe)
  show "yields (DecodeActionResponse_fields d) (action_response_wf d)"
    unfolding DecodeActionResponse_fields_def Let_def
    by (intro codec_yields) (simp_all add: action_response_wf_def ActionResponse_default_def action_consts)
qed

subsection \<open>Properties\<close>

text \<open>
  ACTION messages. Every request and response of each choice makes the round trip, and whatever
  the decoders accept is such a message.
\<close>

theorem action_messages:
  "(action_request_wf d q \<longrightarrow> round_trips (action_request_bytes q) (EncodeActionRequest q) (\<lambda>v. DecodeActionRequest v d) q)
   \<and> (DecodeActionRequest v d = Inr q \<longrightarrow> action_request_wf d q)
   \<and> (action_response_wf d r \<longrightarrow> round_trips (action_response_bytes r) (EncodeActionResponse r) (\<lambda>v. DecodeActionResponse v d) r)
   \<and> (DecodeActionResponse v d = Inr r \<longrightarrow> action_response_wf d r)"
  using action_requestc.msg.message_laws action_responsec.msg.message_laws
  unfolding DecodeActionRequest_def DecodeActionResponse_def by blast

theorem action_messages_witness:
  "round_trips [0xc7, 1, 5, 0, 1, 0, 0x03, 1]
     (EncodeActionResponse (ActionResponse_default\<lparr>actionResponse_choice := 1, actionResponse_invokeIdAndPriority := 5,
        actionResponse_normal := \<lparr>item_result = 0, item_hasReturnParameter = True, item_returnParameter = repr (BoolV True)\<rparr>\<rparr>))
     (\<lambda>v. DecodeActionResponse v 1)
     (ActionResponse_default\<lparr>actionResponse_choice := 1, actionResponse_invokeIdAndPriority := 5,
        actionResponse_normal := \<lparr>item_result = 0, item_hasReturnParameter = True, item_returnParameter = repr (BoolV True)\<rparr>\<rparr>)"
  (is "round_trips ?bs (EncodeActionResponse ?r) _ ?r")
proof -
  have "represented 1 (repr (BoolV True))" by (rule representedI [OF refl]) simp_all
  then have "action_response_wf 1 ?r"
    by (simp add: action_response_wf_def ActionResponse_default_def action_consts response_item_wf_def optional_wf_def)
  moreover have "action_response_bytes ?r = ?bs"
    by (simp add: action_response_bytes_def ActionResponse_default_def action_consts response_item_bytes_def return_bytes_def
        data_tags)
  ultimately show ?thesis using action_messages [of 1 _ _ ?r] by auto
qed

end
