(* ===== verification/Apdu_Xdlms.thy ===== *)
theory Apdu_Xdlms
  imports Apdu_Initiate Apdu_Action
begin

text \<open>
  The xDLMS APDU as one structure (\<open>xdlms.hpp\<close>, \<open>xdlms.cpp\<close>): a kind and one field per message type,
  filled by the decoder the first byte selects, and an encoder through a buffer of 2048 bytes.
  \<open>xdlms_message\<close> is the tagged union that the structure represents.
\<close>

datatype XdlmsApduKind =
  KindInitiateRequest | KindInitiateResponse | KindGetRequest | KindGetResponse | KindSetRequest | KindSetResponse
  | KindActionRequest | KindActionResponse | KindCiphered

datatype CipheredApduKind = ServiceSpecific | GeneralGloCiphering | GeneralDedCiphering | GeneralCiphering

record CipheredApdu =
  cipheredKind :: CipheredApduKind
  cipheredTag :: u8
  cipheredPayload :: view

record XdlmsApdu =
  xdlmsKind :: XdlmsApduKind
  initiateRequest :: InitiateRequest
  initiateResponse :: InitiateResponse
  getRequest :: GetRequestNormal
  getResponse :: GetResponseNormal
  setRequest :: SetRequestNormal
  setResponse :: SetResponseNormal
  actionRequest :: ActionRequestNormal
  actionResponse :: ActionResponseNormal
  getRequestAny :: GetRequest
  getResponseAny :: GetResponse
  setRequestAny :: SetRequest
  setResponseAny :: SetResponse
  actionRequestAny :: ActionRequest
  actionResponseAny :: ActionResponse
  ciphered :: CipheredApdu

definition kInitiateRequestTag :: u8 where "kInitiateRequestTag = 0x01"
definition kInitiateResponseTag :: u8 where "kInitiateResponseTag = 0x08"
definition kGeneralGloCipheringTag :: u8 where "kGeneralGloCipheringTag = 0xdb"
definition kGeneralDedCipheringTag :: u8 where "kGeneralDedCipheringTag = 0xdc"
definition kGeneralCipheringTag :: u8 where "kGeneralCipheringTag = 0xdd"

text \<open>The tags of the service-specific ciphered APDUs, global and dedicated.\<close>

definition serviceSpecificTags :: "u8 list" where
  "serviceSpecificTags = [0xc8, 0xc9, 0xca, 0xcb, 0xcc, 0xcd, 0xcf, 0xd0, 0xd1, 0xd2, 0xd3, 0xd4, 0xd5, 0xd7]"

definition IsGetRequestChoice :: "u8 \<Rightarrow> bool" where
  "IsGetRequestChoice c \<longleftrightarrow> c = kNormalChoice \<or> c = kNextChoice \<or> c = kWithListChoice"

definition IsGetResponseChoice :: "u8 \<Rightarrow> bool" where
  "IsGetResponseChoice c \<longleftrightarrow> c = kNormalChoice \<or> c = kNextChoice \<or> c = kWithListChoice"

definition IsSetRequestChoice :: "u8 \<Rightarrow> bool" where
  "IsSetRequestChoice c \<longleftrightarrow> c = kNormalChoice \<or> c = kWithFirstDataBlockChoice \<or> c = kWithDataBlockChoice
     \<or> c = kSetWithListChoice \<or> c = kWithListAndFirstDataBlockChoice"

definition IsSetResponseChoice :: "u8 \<Rightarrow> bool" where
  "IsSetResponseChoice c \<longleftrightarrow> c = kNormalChoice \<or> c = kWithFirstDataBlockChoice \<or> c = kWithDataBlockChoice
     \<or> c = kSetWithListChoice \<or> c = kWithListAndFirstDataBlockChoice"

definition IsActionRequestChoice :: "u8 \<Rightarrow> bool" where
  "IsActionRequestChoice c \<longleftrightarrow> c = kNormalChoice \<or> c = kNextPblockChoice \<or> c = kWithListChoice
     \<or> c = kWithFirstPblockChoice \<or> c = kWithListAndFirstPblockChoice \<or> c = kWithPblockChoice"

definition IsActionResponseChoice :: "u8 \<Rightarrow> bool" where
  "IsActionResponseChoice c \<longleftrightarrow> c = kNormalChoice \<or> c = kNextPblockChoice \<or> c = kWithListChoice
     \<or> c = kWithFirstPblockChoice"

definition IsServiceSpecificCipheredTag :: "u8 \<Rightarrow> bool" where
  "IsServiceSpecificCipheredTag tag \<longleftrightarrow> tag \<in> set serviceSpecificTags"

definition IsCipheredTag :: "u8 \<Rightarrow> bool" where
  "IsCipheredTag tag \<longleftrightarrow> IsServiceSpecificCipheredTag tag \<or> tag = kGeneralGloCipheringTag
     \<or> tag = kGeneralDedCipheringTag \<or> tag = kGeneralCipheringTag"

definition CipheredKindFromTag :: "u8 \<Rightarrow> CipheredApduKind" where
  "CipheredKindFromTag tag =
     (if tag = kGeneralGloCipheringTag then GeneralGloCiphering
      else if tag = kGeneralDedCipheringTag then GeneralDedCiphering
      else if tag = kGeneralCipheringTag then GeneralCiphering
      else ServiceSpecific)"

definition XdlmsApdu_default :: XdlmsApdu where
  "XdlmsApdu_default =
     \<lparr>xdlmsKind = KindInitiateRequest, initiateRequest = MakeDefaultInitiateRequest,
      initiateResponse = \<lparr>hasNegotiatedQualityOfService = False, negotiatedQualityOfService = 0,
        negotiatedDlmsVersionNumber = 0, negotiatedConformance = [0, 0, 0], serverMaxReceivePduSize = 0, vaaName = 0\<rparr>,
      getRequest = \<lparr>getNormal_invokeIdAndPriority = 0, getNormal_descriptor = CosemAttributeDescriptor_default,
        getNormal_hasSelectiveAccess = False, getNormal_selectiveAccess = SelectiveAccessDescriptor_default\<rparr>,
      getResponse = \<lparr>getResponseNormal_invokeIdAndPriority = 0, getResponseNormal_resultChoice = 0,
        getResponseNormal_data = DlmsData_default, getResponseNormal_dataAccessError = 0\<rparr>,
      setRequest = \<lparr>setNormal_invokeIdAndPriority = 0, setNormal_descriptor = CosemAttributeDescriptor_default,
        setNormal_hasSelectiveAccess = False, setNormal_selectiveAccess = SelectiveAccessDescriptor_default,
        setNormal_data = DlmsData_default\<rparr>,
      setResponse = \<lparr>setResponseNormal_invokeIdAndPriority = 0, setResponseNormal_result = 0\<rparr>,
      actionRequest = \<lparr>actionNormal_invokeIdAndPriority = 0, actionNormal_descriptor = CosemMethodDescriptor_default,
        actionNormal_hasInvocationParameter = False, actionNormal_invocationParameter = DlmsData_default\<rparr>,
      actionResponse = \<lparr>actionResponseNormal_invokeIdAndPriority = 0, actionResponseNormal_result = 0,
        actionResponseNormal_hasReturnParameter = False, actionResponseNormal_returnParameter = DlmsData_default\<rparr>,
      getRequestAny = GetRequest_default, getResponseAny = GetResponse_default,
      setRequestAny = SetRequest_default, setResponseAny = SetResponse_default,
      actionRequestAny = ActionRequest_default, actionResponseAny = ActionResponse_default,
      ciphered = \<lparr>cipheredKind = ServiceSpecific, cipheredTag = 0, cipheredPayload = NullView 0\<rparr>\<rparr>"

definition XdlmsApdu_initiate :: "InitiateRequest \<Rightarrow> XdlmsApdu" where
  "XdlmsApdu_initiate request = XdlmsApdu_default\<lparr>initiateRequest := request\<rparr>"

definition MakeGetRequestNormal :: "u8 \<Rightarrow> u16 \<Rightarrow> bytes \<Rightarrow> u8 \<Rightarrow> XdlmsApdu" where
  "MakeGetRequestNormal invoke classId logicalName attribute =
     (let descriptor = \<lparr>attributeClassId = classId, attributeLogicalName = logicalName, attributeId = attribute\<rparr> in
      XdlmsApdu_default\<lparr>xdlmsKind := KindGetRequest,
        getRequest := (getRequest XdlmsApdu_default)\<lparr>getNormal_invokeIdAndPriority := invoke,
          getNormal_descriptor := descriptor, getNormal_hasSelectiveAccess := False\<rparr>,
        getRequestAny := GetRequest_default\<lparr>getRequest_choice := kNormalChoice, getRequest_invokeIdAndPriority := invoke,
          getRequest_normal := WithSelection_default\<lparr>selectedDescriptor := descriptor, hasSelection := False\<rparr>\<rparr>\<rparr>)"

text \<open>The structures of the messages for one attribute or method are filled from the general ones.\<close>

definition fill_get_request :: "GetRequest \<Rightarrow> XdlmsApdu \<Rightarrow> XdlmsApdu" where
  "fill_get_request q a =
     (if getRequest_choice q = kNormalChoice
      then a\<lparr>getRequestAny := q, getRequest := \<lparr>getNormal_invokeIdAndPriority = getRequest_invokeIdAndPriority q,
        getNormal_descriptor = selectedDescriptor (getRequest_normal q),
        getNormal_hasSelectiveAccess = hasSelection (getRequest_normal q),
        getNormal_selectiveAccess = selection (getRequest_normal q)\<rparr>\<rparr>
      else a\<lparr>getRequestAny := q\<rparr>)"

definition fill_get_response :: "GetResponse \<Rightarrow> XdlmsApdu \<Rightarrow> XdlmsApdu" where
  "fill_get_response q a =
     (if getResponse_choice q = kNormalChoice
      then a\<lparr>getResponseAny := q, getResponse := \<lparr>getResponseNormal_invokeIdAndPriority = getResponse_invokeIdAndPriority q,
        getResponseNormal_resultChoice = resultChoice (getResponse_result q),
        getResponseNormal_data = resultData (getResponse_result q),
        getResponseNormal_dataAccessError = dataAccessError (getResponse_result q)\<rparr>\<rparr>
      else a\<lparr>getResponseAny := q\<rparr>)"

definition fill_set_request :: "SetRequest \<Rightarrow> XdlmsApdu \<Rightarrow> XdlmsApdu" where
  "fill_set_request q a =
     (if setRequest_choice q = kNormalChoice
      then a\<lparr>setRequestAny := q, setRequest := \<lparr>setNormal_invokeIdAndPriority = setRequest_invokeIdAndPriority q,
        setNormal_descriptor = selectedDescriptor (setRequest_normal q),
        setNormal_hasSelectiveAccess = hasSelection (setRequest_normal q),
        setNormal_selectiveAccess = selection (setRequest_normal q), setNormal_data = setRequest_data q\<rparr>\<rparr>
      else a\<lparr>setRequestAny := q\<rparr>)"

definition fill_set_response :: "SetResponse \<Rightarrow> XdlmsApdu \<Rightarrow> XdlmsApdu" where
  "fill_set_response q a =
     (if setResponse_choice q = kNormalChoice
      then a\<lparr>setResponseAny := q, setResponse := \<lparr>setResponseNormal_invokeIdAndPriority = setResponse_invokeIdAndPriority q,
        setResponseNormal_result = setResponse_result q\<rparr>\<rparr>
      else a\<lparr>setResponseAny := q\<rparr>)"

definition fill_action_request :: "ActionRequest \<Rightarrow> XdlmsApdu \<Rightarrow> XdlmsApdu" where
  "fill_action_request q a =
     (if actionRequest_choice q = kNormalChoice
      then a\<lparr>actionRequestAny := q, actionRequest := \<lparr>actionNormal_invokeIdAndPriority = actionRequest_invokeIdAndPriority q,
        actionNormal_descriptor = parameterDescriptor (actionRequest_normal q),
        actionNormal_hasInvocationParameter = hasInvocationParameter (actionRequest_normal q),
        actionNormal_invocationParameter = invocationParameter (actionRequest_normal q)\<rparr>\<rparr>
      else a\<lparr>actionRequestAny := q\<rparr>)"

definition fill_action_response :: "ActionResponse \<Rightarrow> XdlmsApdu \<Rightarrow> XdlmsApdu" where
  "fill_action_response q a =
     (if actionResponse_choice q = kNormalChoice
      then a\<lparr>actionResponseAny := q, actionResponse := \<lparr>actionResponseNormal_invokeIdAndPriority = actionResponse_invokeIdAndPriority q,
        actionResponseNormal_result = item_result (actionResponse_normal q),
        actionResponseNormal_hasReturnParameter = item_hasReturnParameter (actionResponse_normal q),
        actionResponseNormal_returnParameter = item_returnParameter (actionResponse_normal q)\<rparr>\<rparr>
      else a\<lparr>actionResponseAny := q\<rparr>)"

abbreviation decoded :: "ApduStatus + 'a \<Rightarrow> ('a \<Rightarrow> 'b) \<Rightarrow> ApduStatus + 'b" where
  "decoded x f \<equiv> (case x of Inl e \<Rightarrow> Inl e | Inr a \<Rightarrow> Inr (f a))"

definition DecodeXdlmsApdu :: "view \<Rightarrow> ApduStatus + XdlmsApdu" where
  "DecodeXdlmsApdu input =
     (if view_null input \<or> view_size input = 0
      then Inl (if view_size input = 0 then NeedMoreData else InvalidArgument)
      else
        let tag = view_bytes input ! 0; output = XdlmsApdu_default in
        if tag = kInitiateRequestTag then
          decoded (DecodeInitiateRequest input) (\<lambda>m. output\<lparr>xdlmsKind := KindInitiateRequest, initiateRequest := m\<rparr>)
        else if tag = kInitiateResponseTag then
          decoded (DecodeInitiateResponse input) (\<lambda>m. output\<lparr>xdlmsKind := KindInitiateResponse, initiateResponse := m\<rparr>)
        else if tag = kGetRequestTag then
          decoded (DecodeGetRequest input 8) (\<lambda>m. fill_get_request m (output\<lparr>xdlmsKind := KindGetRequest\<rparr>))
        else if tag = kGetResponseTag then
          decoded (DecodeGetResponse input 8) (\<lambda>m. fill_get_response m (output\<lparr>xdlmsKind := KindGetResponse\<rparr>))
        else if tag = kSetRequestTag then
          decoded (DecodeSetRequest input 8) (\<lambda>m. fill_set_request m (output\<lparr>xdlmsKind := KindSetRequest\<rparr>))
        else if tag = kSetResponseTag then
          decoded (DecodeSetResponse input) (\<lambda>m. fill_set_response m (output\<lparr>xdlmsKind := KindSetResponse\<rparr>))
        else if tag = kActionRequestTag then
          decoded (DecodeActionRequest input 8) (\<lambda>m. fill_action_request m (output\<lparr>xdlmsKind := KindActionRequest\<rparr>))
        else if tag = kActionResponseTag then
          decoded (DecodeActionResponse input 8) (\<lambda>m. fill_action_response m (output\<lparr>xdlmsKind := KindActionResponse\<rparr>))
        else if IsCipheredTag tag then
          Inr (output\<lparr>xdlmsKind := KindCiphered, ciphered := \<lparr>cipheredKind = CipheredKindFromTag tag, cipheredTag = tag,
            cipheredPayload = View (drop 1 (view_bytes input))\<rparr>\<rparr>)
        else Inl UnsupportedXdlmsService)"

definition EncodeXdlmsApdu_write :: "XdlmsApdu \<Rightarrow> writing" where
  "EncodeXdlmsApdu_write input = (case xdlmsKind input of
     KindInitiateRequest \<Rightarrow> EncodeInitiateRequest (initiateRequest input)
   | KindInitiateResponse \<Rightarrow> EncodeInitiateResponse (initiateResponse input)
   | KindGetRequest \<Rightarrow>
       if IsGetRequestChoice (getRequest_choice (getRequestAny input)) then EncodeGetRequest (getRequestAny input)
       else EncodeGetRequestNormal (getRequest input)
   | KindGetResponse \<Rightarrow>
       if IsGetResponseChoice (getResponse_choice (getResponseAny input)) then EncodeGetResponse (getResponseAny input)
       else EncodeGetResponseNormal (getResponse input)
   | KindSetRequest \<Rightarrow>
       if IsSetRequestChoice (setRequest_choice (setRequestAny input)) then EncodeSetRequest (setRequestAny input)
       else EncodeSetRequestNormal (setRequest input)
   | KindSetResponse \<Rightarrow>
       if IsSetResponseChoice (setResponse_choice (setResponseAny input)) then EncodeSetResponse (setResponseAny input)
       else EncodeSetResponseNormal (setResponse input)
   | KindActionRequest \<Rightarrow>
       if IsActionRequestChoice (actionRequest_choice (actionRequestAny input)) then EncodeActionRequest (actionRequestAny input)
       else EncodeActionRequestNormal (actionRequest input)
   | KindActionResponse \<Rightarrow>
       if IsActionResponseChoice (actionResponse_choice (actionResponseAny input)) then EncodeActionResponse (actionResponseAny input)
       else EncodeActionResponseNormal (actionResponse input)
   | KindCiphered \<Rightarrow>
       if \<not> IsCipheredTag (cipheredTag (ciphered input)) then refuse UnsupportedXdlmsService
       else try_then (WriteU8 (cipheredTag (ciphered input))) (\<lambda>_. WriteBytes (cipheredPayload (ciphered input))))"

definition EncodeXdlmsApdu :: "XdlmsApdu \<Rightarrow> ApduStatus + bytes" where
  "EncodeXdlmsApdu input =
     (case EncodeXdlmsApdu_write input (ApduWriter_init False 2048) of
        (Inl status, w) \<Rightarrow> Inl status
      | (Inr u, w) \<Rightarrow> Inr (written w))"

subsection \<open>The messages as a tagged union\<close>

datatype xdlms_message =
  InitiateRequestM InitiateRequest | InitiateResponseM InitiateResponse | GetRequestM GetRequest
  | GetResponseM GetResponse | SetRequestM SetRequest | SetResponseM SetResponse
  | ActionRequestM ActionRequest | ActionResponseM ActionResponse | CipheredM u8 bytes

fun message_wf :: "xdlms_message \<Rightarrow> bool" where
  "message_wf (InitiateRequestM m) \<longleftrightarrow> initiate_request_wf m"
| "message_wf (InitiateResponseM m) \<longleftrightarrow> initiate_response_wf m"
| "message_wf (GetRequestM m) \<longleftrightarrow> get_request_wf 8 m"
| "message_wf (GetResponseM m) \<longleftrightarrow> get_response_wf 8 m"
| "message_wf (SetRequestM m) \<longleftrightarrow> set_request_wf 8 m"
| "message_wf (SetResponseM m) \<longleftrightarrow> set_response_wf m"
| "message_wf (ActionRequestM m) \<longleftrightarrow> action_request_wf 8 m"
| "message_wf (ActionResponseM m) \<longleftrightarrow> action_response_wf 8 m"
| "message_wf (CipheredM tag payload) \<longleftrightarrow> IsCipheredTag tag"

fun message_bytes :: "xdlms_message \<Rightarrow> bytes" where
  "message_bytes (InitiateRequestM m) = initiate_request_bytes m"
| "message_bytes (InitiateResponseM m) = initiate_response_bytes m"
| "message_bytes (GetRequestM m) = get_request_bytes m"
| "message_bytes (GetResponseM m) = get_response_bytes m"
| "message_bytes (SetRequestM m) = set_request_bytes m"
| "message_bytes (SetResponseM m) = set_response_bytes m"
| "message_bytes (ActionRequestM m) = action_request_bytes m"
| "message_bytes (ActionResponseM m) = action_response_bytes m"
| "message_bytes (CipheredM tag payload) = tag # payload"

fun apdu_of :: "xdlms_message \<Rightarrow> XdlmsApdu" where
  "apdu_of (InitiateRequestM m) = XdlmsApdu_default\<lparr>xdlmsKind := KindInitiateRequest, initiateRequest := m\<rparr>"
| "apdu_of (InitiateResponseM m) = XdlmsApdu_default\<lparr>xdlmsKind := KindInitiateResponse, initiateResponse := m\<rparr>"
| "apdu_of (GetRequestM m) = fill_get_request m (XdlmsApdu_default\<lparr>xdlmsKind := KindGetRequest\<rparr>)"
| "apdu_of (GetResponseM m) = fill_get_response m (XdlmsApdu_default\<lparr>xdlmsKind := KindGetResponse\<rparr>)"
| "apdu_of (SetRequestM m) = fill_set_request m (XdlmsApdu_default\<lparr>xdlmsKind := KindSetRequest\<rparr>)"
| "apdu_of (SetResponseM m) = fill_set_response m (XdlmsApdu_default\<lparr>xdlmsKind := KindSetResponse\<rparr>)"
| "apdu_of (ActionRequestM m) = fill_action_request m (XdlmsApdu_default\<lparr>xdlmsKind := KindActionRequest\<rparr>)"
| "apdu_of (ActionResponseM m) = fill_action_response m (XdlmsApdu_default\<lparr>xdlmsKind := KindActionResponse\<rparr>)"
| "apdu_of (CipheredM tag payload) = XdlmsApdu_default\<lparr>xdlmsKind := KindCiphered,
     ciphered := \<lparr>cipheredKind = CipheredKindFromTag tag, cipheredTag = tag, cipheredPayload = View payload\<rparr>\<rparr>"

lemma fill_simps [simp]:
  "xdlmsKind (fill_get_request q1 a) = xdlmsKind a" "getRequestAny (fill_get_request q1 a) = q1"
  "xdlmsKind (fill_get_response q2 a) = xdlmsKind a" "getResponseAny (fill_get_response q2 a) = q2"
  "xdlmsKind (fill_set_request q3 a) = xdlmsKind a" "setRequestAny (fill_set_request q3 a) = q3"
  "xdlmsKind (fill_set_response q4 a) = xdlmsKind a" "setResponseAny (fill_set_response q4 a) = q4"
  "xdlmsKind (fill_action_request q5 a) = xdlmsKind a" "actionRequestAny (fill_action_request q5 a) = q5"
  "xdlmsKind (fill_action_response q6 a) = xdlmsKind a" "actionResponseAny (fill_action_response q6 a) = q6"
  by (simp_all add: fill_get_request_def fill_get_response_def fill_set_request_def fill_set_response_def
      fill_action_request_def fill_action_response_def)

lemmas xdlms_tags = kInitiateRequestTag_def kInitiateResponseTag_def kGetRequestTag_def kGetResponseTag_def
  kSetRequestTag_def kSetResponseTag_def kActionRequestTag_def kActionResponseTag_def

lemma message_first:
  "initiate_request_bytes a ! 0 = 0x01" "initiate_response_bytes b ! 0 = 0x08" "get_request_bytes c ! 0 = 0xc0"
  "get_response_bytes e ! 0 = 0xc4" "set_request_bytes f ! 0 = 0xc1" "set_response_bytes g ! 0 = 0xc5"
  "action_request_bytes h ! 0 = 0xc3" "action_response_bytes i ! 0 = 0xc7"
  by (simp_all add: initiate_request_bytes_def initiate_response_bytes_def get_request_bytes_def get_response_bytes_def
      set_request_bytes_def set_response_bytes_def action_request_bytes_def action_response_bytes_def xdlms_tags)

lemma message_nonempty: "message_bytes m \<noteq> []"
  by (cases m) (simp_all add: initiate_request_bytes_def initiate_response_bytes_def get_request_bytes_def
      get_response_bytes_def set_request_bytes_def set_response_bytes_def action_request_bytes_def action_response_bytes_def)

lemma choices_known:
  "get_request_wf d q1 \<Longrightarrow> IsGetRequestChoice (getRequest_choice q1)"
  "get_response_wf d q2 \<Longrightarrow> IsGetResponseChoice (getResponse_choice q2)"
  "set_request_wf d q3 \<Longrightarrow> IsSetRequestChoice (setRequest_choice q3)"
  "set_response_wf q4 \<Longrightarrow> IsSetResponseChoice (setResponse_choice q4)"
  "action_request_wf d q5 \<Longrightarrow> IsActionRequestChoice (actionRequest_choice q5)"
  "action_response_wf d q6 \<Longrightarrow> IsActionResponseChoice (actionResponse_choice q6)"
  by (auto simp: get_request_wf_def get_response_wf_def set_request_wf_def set_response_wf_def action_request_wf_def
      action_response_wf_def IsGetRequestChoice_def IsGetResponseChoice_def IsSetRequestChoice_def IsSetResponseChoice_def
      IsActionRequestChoice_def IsActionResponseChoice_def Let_def split: if_splits)

lemma writes_message: "message_wf m \<Longrightarrow> writes (EncodeXdlmsApdu_write (apdu_of m)) (message_bytes m)"
proof (cases m)
  case (CipheredM tag payload)
  assume "message_wf m"
  with CipheredM show ?thesis
    using writes_Cons [OF writes_WriteBytes [of "View payload"]] by (simp add: EncodeXdlmsApdu_write_def)
qed (simp_all add: EncodeXdlmsApdu_write_def choices_known initiate_requestc.wr_writes initiate_responsec.wr_writes
    get_requestc.wr_writes get_responsec.wr_writes set_requestc.wr_writes set_responsec.wr_writes
    action_requestc.wr_writes action_responsec.wr_writes)

lemma ciphered_not_plain:
  "IsCipheredTag tag \<Longrightarrow> tag \<notin> {0x01, 0x08, 0xc0, 0xc1, 0xc3, 0xc4, 0xc5, 0xc7}"
  by (auto simp: IsCipheredTag_def IsServiceSpecificCipheredTag_def serviceSpecificTags_def kGeneralGloCipheringTag_def
      kGeneralDedCipheringTag_def kGeneralCipheringTag_def)

lemmas decode_messages = DecodeInitiate_decode_with DecodeGetRequest_def DecodeGetResponse_def DecodeSetRequest_def
  DecodeSetResponse_def DecodeActionRequest_def DecodeActionResponse_def

lemma DecodeXdlmsApdu_message:
  assumes "message_wf m"
  shows "DecodeXdlmsApdu (View (message_bytes m)) = Inr (apdu_of m)"
proof -
  note nonempty = message_nonempty [of m]
  show ?thesis
  proof (cases m)
    case (CipheredM tag payload)
    with assms ciphered_not_plain [of tag] show ?thesis by (simp add: DecodeXdlmsApdu_def Let_def xdlms_tags)
  qed (use assms nonempty in \<open>simp_all add: DecodeXdlmsApdu_def Let_def message_first xdlms_tags decode_messages
      initiate_requestc.msg.decode_enc initiate_responsec.msg.decode_enc get_requestc.msg.decode_enc
      get_responsec.decode_enc set_requestc.msg.decode_enc set_responsec.msg.decode_enc
      action_requestc.msg.decode_enc action_responsec.msg.decode_enc\<close>)
qed

text \<open>
  The encoder reads the kind of the structure and the member that belongs to it, so a structure that agrees
  there with the one of a message is encoded as the message.
\<close>

lemma EncodeXdlmsApdu_agreeing:
  assumes wf: "message_wf m" and same: "EncodeXdlmsApdu_write a = EncodeXdlmsApdu_write (apdu_of m)"
  shows "EncodeXdlmsApdu a = (if length (message_bytes m) \<le> 2048 then Inr (message_bytes m) else Inl OutputBufferTooSmall)"
proof (cases "length (message_bytes m) \<le> 2048")
  case True
  with writes_fresh [OF writes_message [OF wf], of 2048] show ?thesis
    by (simp add: EncodeXdlmsApdu_def ApduWriter_init_def same)
next
  case False
  with writes_fresh_full [OF writes_message [OF wf], of 2048] show ?thesis
    by (simp add: EncodeXdlmsApdu_def ApduWriter_init_def case_prod_beta same)
qed

lemmas EncodeXdlmsApdu_message = EncodeXdlmsApdu_agreeing [OF _ refl]

lemma decoded_Inr: "decoded x f = Inr b \<longleftrightarrow> (\<exists>a. x = Inr a \<and> f a = b)"
  by (cases x) auto

lemmas decode_wfs = initiate_requestc.msg.decode_wf initiate_responsec.msg.decode_wf get_requestc.msg.decode_wf
  get_responsec.decode_wf set_requestc.msg.decode_wf set_responsec.msg.decode_wf
  action_requestc.msg.decode_wf action_responsec.msg.decode_wf

text \<open>The structures that some well-formed message has.\<close>

definition represents_message :: "XdlmsApdu \<Rightarrow> bool" where
  "represents_message a \<longleftrightarrow> (\<exists>m. message_wf m \<and> a = apdu_of m)"

lemma represents_messageI: "message_wf m \<Longrightarrow> represents_message (apdu_of m)"
  by (auto simp: represents_message_def)

lemmas represented_structures =
  represents_messageI [of "InitiateRequestM m" for m, unfolded message_wf.simps apdu_of.simps]
  represents_messageI [of "InitiateResponseM m" for m, unfolded message_wf.simps apdu_of.simps]
  represents_messageI [of "GetRequestM m" for m, unfolded message_wf.simps apdu_of.simps]
  represents_messageI [of "GetResponseM m" for m, unfolded message_wf.simps apdu_of.simps]
  represents_messageI [of "SetRequestM m" for m, unfolded message_wf.simps apdu_of.simps]
  represents_messageI [of "SetResponseM m" for m, unfolded message_wf.simps apdu_of.simps]
  represents_messageI [of "ActionRequestM m" for m, unfolded message_wf.simps apdu_of.simps]
  represents_messageI [of "ActionResponseM m" for m, unfolded message_wf.simps apdu_of.simps]
  represents_messageI [of "CipheredM t p" for t p, unfolded message_wf.simps apdu_of.simps]

lemma DecodeXdlmsApdu_represents: "DecodeXdlmsApdu v = Inr a \<Longrightarrow> represents_message a"
  unfolding DecodeXdlmsApdu_def Let_def decode_messages
  by (auto simp: decoded_Inr split: if_splits dest!: decode_wfs intro: represented_structures)

subsection \<open>Properties\<close>

text \<open>
  C3: The xDLMS APDU structure implements the tagged union of its messages. Encoding the structure
  of a message gives exactly the bytes of the message, or \<open>OutputBufferTooSmall\<close> when they exceed
  the buffer of 2048 bytes; decoding the bytes of a message gives its structure; and every
  structure the decoder produces is that of some well-formed message.
\<close>

theorem xdlms_refinement:
  "(message_wf m \<longrightarrow>
      EncodeXdlmsApdu (apdu_of m) = (if length (message_bytes m) \<le> 2048 then Inr (message_bytes m) else Inl OutputBufferTooSmall)
      \<and> DecodeXdlmsApdu (View (message_bytes m)) = Inr (apdu_of m))
   \<and> (DecodeXdlmsApdu v = Inr a \<longrightarrow> represents_message a)"
  by (auto simp: DecodeXdlmsApdu_message EncodeXdlmsApdu_message dest: DecodeXdlmsApdu_represents)

theorem xdlms_refinement_witness:
  "EncodeXdlmsApdu (apdu_of (CipheredM 0xc8 [1, 2])) = Inr [0xc8, 1, 2]
   \<and> DecodeXdlmsApdu (View [0xc8, 1, 2]) = Inr (apdu_of (CipheredM 0xc8 [1, 2]))"
proof -
  have "message_wf (CipheredM 0xc8 [1, 2])"
    by (simp add: IsCipheredTag_def IsServiceSpecificCipheredTag_def serviceSpecificTags_def)
  with xdlms_refinement [of "CipheredM 0xc8 [1, 2]"] show ?thesis by simp
qed

text \<open>
  The tag decides. An input whose first byte is not the tag of a modelled message is refused with
  \<open>UnsupportedXdlmsService\<close>, an empty input needs more data, a null pointer with a size is an
  invalid argument, and a successfully decoded APDU has the kind that belongs to the first byte.
\<close>

theorem xdlms_dispatch:
  "DecodeXdlmsApdu (NullView n) = Inl (if n = 0 then NeedMoreData else InvalidArgument)
   \<and> DecodeXdlmsApdu (View []) = Inl NeedMoreData
   \<and> (tag \<notin> {0x01, 0x08, 0xc0, 0xc1, 0xc3, 0xc4, 0xc5, 0xc7} \<and> \<not> IsCipheredTag tag
        \<longrightarrow> DecodeXdlmsApdu (View (tag # rest)) = Inl UnsupportedXdlmsService)
   \<and> (DecodeXdlmsApdu (View (tag # rest)) = Inr a \<longrightarrow> (xdlmsKind a = KindCiphered \<longleftrightarrow> IsCipheredTag tag)
        \<and> (xdlmsKind a = KindGetRequest \<longleftrightarrow> tag = 0xc0) \<and> (xdlmsKind a = KindSetRequest \<longleftrightarrow> tag = 0xc1)
        \<and> (xdlmsKind a = KindActionRequest \<longleftrightarrow> tag = 0xc3))"
proof -
  have "(xdlmsKind a = KindCiphered \<longleftrightarrow> IsCipheredTag tag)
        \<and> (xdlmsKind a = KindGetRequest \<longleftrightarrow> tag = 0xc0) \<and> (xdlmsKind a = KindSetRequest \<longleftrightarrow> tag = 0xc1)
        \<and> (xdlmsKind a = KindActionRequest \<longleftrightarrow> tag = 0xc3)" if "DecodeXdlmsApdu (View (tag # rest)) = Inr a"
    using that ciphered_not_plain [of tag] unfolding DecodeXdlmsApdu_def Let_def xdlms_tags
    by (auto simp: decoded_Inr split: if_splits)
  then show ?thesis by (auto simp: DecodeXdlmsApdu_def Let_def xdlms_tags)
qed

theorem xdlms_dispatch_witness:
  "DecodeXdlmsApdu (View [0x05, 0x00]) = Inl UnsupportedXdlmsService"
  using xdlms_dispatch [of 0 "0x05" "[0x00]"]
  by (simp add: IsCipheredTag_def IsServiceSpecificCipheredTag_def serviceSpecificTags_def kGeneralGloCipheringTag_def
      kGeneralDedCipheringTag_def kGeneralCipheringTag_def)

end
