(* ===== verification/Apdu_Acse.thy ===== *)
theory Apdu_Acse
  imports Ber Apdu_Xdlms
begin

text \<open>
  The ACSE APDUs that open and release an association (\<open>acse.hpp\<close>, \<open>acse.cpp\<close>): a BER item whose
  value is a sequence of items, most of them kept as raw fields, with the xDLMS initiate message
  inside the user information. The template functions for the two release APDUs are polymorphic
  definitions. A 32-bit signed value is kept as its word.
\<close>

record AcseRawField =
  fieldTag :: u8
  fieldEncoded :: view

record AarqApdu =
  aarqFields :: "AcseRawField list"
  aarqInitiateRequest :: InitiateRequest

record AareApdu =
  aareFields :: "AcseRawField list"
  hasResult :: bool
  aareResult :: u32
  hasDiagnostic :: bool
  diagnostic :: u32
  aareInitiateResponse :: InitiateResponse

record 'i ReleaseApdu =
  releaseFields :: "AcseRawField list"
  hasReason :: bool
  reason :: u32
  releaseInitiate :: 'i

type_synonym RlrqApdu = "InitiateRequest ReleaseApdu"
type_synonym RlreApdu = "InitiateResponse ReleaseApdu"

datatype AcseApduKind = Aarq | Aare | Rlrq | Rlre

record AcseApdu =
  acseKind :: AcseApduKind
  aarq :: AarqApdu
  aare :: AareApdu
  rlrq :: RlrqApdu
  rlre :: RlreApdu

definition kAarqTag :: u8 where "kAarqTag = 0x60"
definition kAareTag :: u8 where "kAareTag = 0x61"
definition kRlrqTag :: u8 where "kRlrqTag = 0x62"
definition kRlreTag :: u8 where "kRlreTag = 0x63"
definition kUserInformationTag :: u8 where "kUserInformationTag = 0xbe"
definition kAcseOctetStringTag :: u8 where "kAcseOctetStringTag = 0x04"
definition kAssociationResultTag :: u8 where "kAssociationResultTag = 0xa2"
definition kResultSourceDiagnosticTag :: u8 where "kResultSourceDiagnosticTag = 0xa3"
definition kAcseServiceUserTag :: u8 where "kAcseServiceUserTag = 0xa1"
definition kBerIntegerTag :: u8 where "kBerIntegerTag = 0x02"
definition kReleaseReasonTag :: u8 where "kReleaseReasonTag = 0x80"

lemmas acse_tags = kAarqTag_def kAareTag_def kRlrqTag_def kRlreTag_def kUserInformationTag_def kAcseOctetStringTag_def
  kAssociationResultTag_def kResultSourceDiagnosticTag_def kAcseServiceUserTag_def kBerIntegerTag_def kReleaseReasonTag_def

text \<open>The value-initialised structures.\<close>

definition InitiateRequest_zero :: InitiateRequest where
  "InitiateRequest_zero = \<lparr>hasDedicatedKey = False, dedicatedKey = NullView 0, responseAllowed = False,
     hasProposedQualityOfService = False, proposedQualityOfService = 0, proposedDlmsVersionNumber = 0,
     proposedConformance = [0, 0, 0], clientMaxReceivePduSize = 0\<rparr>"

definition InitiateResponse_zero :: InitiateResponse where
  "InitiateResponse_zero = \<lparr>hasNegotiatedQualityOfService = False, negotiatedQualityOfService = 0,
     negotiatedDlmsVersionNumber = 0, negotiatedConformance = [0, 0, 0], serverMaxReceivePduSize = 0, vaaName = 0\<rparr>"

definition AarqApdu_default :: AarqApdu where
  "AarqApdu_default = \<lparr>aarqFields = [], aarqInitiateRequest = InitiateRequest_zero\<rparr>"

definition AareApdu_default :: AareApdu where
  "AareApdu_default = \<lparr>aareFields = [], hasResult = False, aareResult = 0, hasDiagnostic = False, diagnostic = 0,
     aareInitiateResponse = InitiateResponse_zero\<rparr>"

definition ReleaseApdu_default :: "'i \<Rightarrow> 'i ReleaseApdu" where
  "ReleaseApdu_default i = \<lparr>releaseFields = [], hasReason = False, reason = 0, releaseInitiate = i\<rparr>"

definition AcseApdu_default :: AcseApdu where
  "AcseApdu_default = \<lparr>acseKind = Aarq, aarq = AarqApdu_default, aare = AareApdu_default,
     rlrq = ReleaseApdu_default InitiateRequest_zero, rlre = ReleaseApdu_default InitiateResponse_zero\<rparr>"

subsection \<open>Reading items\<close>

definition ReadSingleTlv :: "view \<Rightarrow> u8 \<Rightarrow> ApduStatus + BerTlv" where
  "ReadSingleTlv input expectedTag =
     (if bad_view input then Inl InvalidArgument
      else case ReadBerTlv (ApduReader_init input) of
        (Inl status, r) \<Rightarrow> Inl status
      | (Inr tlv, r) \<Rightarrow>
          if tlvTag tlv \<noteq> expectedTag then Inl InvalidTag
          else if \<not> reader_empty r then Inl InvalidLength
          else Inr tlv)"

text \<open>With bytes after the item, its value is taken to extend to the end of the input.\<close>

definition ReadReleaseTlv :: "view \<Rightarrow> u8 \<Rightarrow> ApduStatus + BerTlv" where
  "ReadReleaseTlv input expectedTag =
     (if bad_view input then Inl InvalidArgument
      else case ReadBerTlv (ApduReader_init input) of
        (Inl status, r) \<Rightarrow> Inl status
      | (Inr tlv, r) \<Rightarrow>
          if tlvTag tlv \<noteq> expectedTag then Inl InvalidTag
          else if reader_empty r then Inr tlv
          else Inr (tlv\<lparr>tlvValue := drop (tlvHeaderSize tlv) (view_bytes input)\<rparr>))"

definition ReadUserInformation :: "u8 \<Rightarrow> bytes \<Rightarrow> bool \<Rightarrow> ApduStatus + bytes" where
  "ReadUserInformation tag value allowTrailingBytes =
     (if tag \<noteq> kUserInformationTag then Inl InvalidTag
      else case ReadBerTlv (ApduReader_init (View value)) of
        (Inl status, r) \<Rightarrow> Inl status
      | (Inr octetString, r) \<Rightarrow>
          let extended = (if allowTrailingBytes \<and> tlvHeaderSize octetString + length (tlvValue octetString) < length value
                then drop (tlvHeaderSize octetString) value else tlvValue octetString)
          in
          if tlvTag octetString \<noteq> kAcseOctetStringTag then Inl InvalidTag
          else if \<not> allowTrailingBytes \<and> \<not> reader_empty r then Inl InvalidLength
          else Inr extended)"

text \<open>Both functions accumulate at most four bytes and extend the sign of shorter values.\<close>

definition ReadPrimitiveIntegerValue :: "bytes \<Rightarrow> ApduStatus + u32" where
  "ReadPrimitiveIntegerValue value =
     (if length value = 0 \<or> length value > 4 then Inl InvalidLength
      else
        let result = foldl (\<lambda>r b. push_bit 8 r OR ucast b) 0 value in
        Inr (if value ! 0 AND 0x80 \<noteq> 0 \<and> length value < 4
             then result OR push_bit (length value * 8) (- 1) else result))"

definition ReadIntegerValue :: "BerTlv \<Rightarrow> ApduStatus + u32" where
  "ReadIntegerValue integerTlv =
     (if tlvTag integerTlv \<noteq> kBerIntegerTag then Inl InvalidTag
      else if length (tlvValue integerTlv) = 0 \<or> length (tlvValue integerTlv) > 4 then Inl InvalidLength
      else
        let result = foldl (\<lambda>r b. push_bit 8 r OR ucast b) 0 (tlvValue integerTlv) in
        Inr (if tlvValue integerTlv ! 0 AND 0x80 \<noteq> 0 \<and> length (tlvValue integerTlv) < 4
             then result OR push_bit (length (tlvValue integerTlv) * 8) (- 1) else result))"

definition ReadNestedInteger :: "bytes \<Rightarrow> u8 \<Rightarrow> ApduStatus + u32" where
  "ReadNestedInteger outer optionalInnerTag =
     (case ReadBerTlv (ApduReader_init (View outer)) of
        (Inl status, r) \<Rightarrow> Inl status
      | (Inr first, r) \<Rightarrow>
          if \<not> reader_empty r then Inl InvalidLength
          else if tlvTag first = kBerIntegerTag then ReadIntegerValue first
          else if tlvTag first \<noteq> optionalInnerTag then Inl InvalidTag
          else
          (case ReadBerTlv (ApduReader_init (View (tlvValue first))) of
            (Inl status, r) \<Rightarrow> Inl status
          | (Inr integerTlv, r) \<Rightarrow>
              if \<not> reader_empty r then Inl InvalidLength else ReadIntegerValue integerTlv))"

subsection \<open>Writing items\<close>

definition CopyRawField :: "AcseRawField \<Rightarrow> writing" where
  "CopyRawField field w =
     (if bad_view (fieldEncoded field) then (Inl InvalidArgument, w) else WriteBytes (fieldEncoded field) w)"

definition WriteUserInformation :: "bytes \<Rightarrow> writing" where
  "WriteUserInformation xdlms w =
     (case WriteBerTlv kAcseOctetStringTag (View xdlms) (ApduWriter_init False 512) of
        (Inl status, _) \<Rightarrow> (Inl status, w)
      | (Inr _, octetWriter) \<Rightarrow> WriteBerTlv kUserInformationTag (View (written octetWriter)) w)"

text \<open>The loop over the fields, and the value in its own buffer of 1024 bytes.\<close>

fun copy_fields :: "AcseRawField list \<Rightarrow> writing" where
  "copy_fields [] = yield ()"
| "copy_fields (f # fs) =
     (if fieldTag f = kUserInformationTag then refuse InvalidArgument
      else try_then (CopyRawField f) (\<lambda>_. copy_fields fs))"

definition EncodeAssociation :: "u8 \<Rightarrow> AcseRawField list \<Rightarrow> bytes \<Rightarrow> writing" where
  "EncodeAssociation tag rawFields xdlms w =
     (case try_then (copy_fields rawFields) (\<lambda>_. WriteUserInformation xdlms) (ApduWriter_init False 1024) of
        (Inl status, _) \<Rightarrow> (Inl status, w)
      | (Inr _, valueWriter) \<Rightarrow> WriteBerTlv tag (View (written valueWriter)) w)"

definition WriteReleaseReason :: "u32 \<Rightarrow> writing" where
  "WriteReleaseReason v =
     (if sint v < - 128 \<or> sint v > 127 then refuse UnsupportedFeature
      else WriteBerTlv kReleaseReasonTag (View [ucast (v AND 0xff)]))"

fun copy_release_fields :: "bool \<Rightarrow> AcseRawField list \<Rightarrow> writing" where
  "copy_release_fields skipReason [] = yield ()"
| "copy_release_fields skipReason (f # fs) =
     (if fieldTag f = kReleaseReasonTag \<and> skipReason then copy_release_fields skipReason fs
      else try_then (CopyRawField f) (\<lambda>_. copy_release_fields skipReason fs))"

definition EncodeRelease :: "u8 \<Rightarrow> 'i ReleaseApdu \<Rightarrow> writing" where
  "EncodeRelease tag input w =
     (case try_then (copy_release_fields (hasReason input) (releaseFields input)) (\<lambda>_.
          if hasReason input then WriteReleaseReason (reason input) else yield ()) (ApduWriter_init False 256) of
        (Inl status, _) \<Rightarrow> (Inl status, w)
      | (Inr _, valueWriter) \<Rightarrow> WriteBerTlv tag (View (written valueWriter)) w)"

subsection \<open>The association APDUs\<close>

text \<open>The encoding of the item between two positions of a reader.\<close>

definition element :: "ApduReader \<Rightarrow> ApduReader \<Rightarrow> u8 \<Rightarrow> AcseRawField" where
  "element r r' tag = \<lparr>fieldTag = tag,
     fieldEncoded = View (take (readerPosition r' - readerPosition r) (drop (readerPosition r) (view_bytes (readerData r))))\<rparr>"

text \<open>
  The loops of both decoders read one item after the other until the reader is empty and hand each
  item, with its encoding, to the body of the loop.
\<close>

function for_each_item :: "(BerTlv \<Rightarrow> AcseRawField \<Rightarrow> 'a \<Rightarrow> ApduStatus + 'a) \<Rightarrow> ApduReader \<Rightarrow> 'a \<Rightarrow> ApduStatus + 'a" where
  "for_each_item body r a =
     (if reader_empty r then Inr a
      else case ReadBerTlv r of
        (Inl status, r') \<Rightarrow> Inl status
      | (Inr child, r') \<Rightarrow>
          (case body child (element r r' (tlvTag child)) a of
             Inl status \<Rightarrow> Inl status
           | Inr a' \<Rightarrow> for_each_item body r' a'))"
  by pat_completeness auto
termination
  by (relation "measure (\<lambda>(b, r, a). reader_remaining r)") (auto dest: ReadBerTlv_shrinks [OF sym])

declare for_each_item.simps [simp del]

fun DecodeAarq_item :: "BerTlv \<Rightarrow> AcseRawField \<Rightarrow> AarqApdu \<times> bool \<Rightarrow> ApduStatus + AarqApdu \<times> bool" where
  "DecodeAarq_item child encoded (output, hasUserInformation) = (
     if tlvTag child \<noteq> kUserInformationTag then
       Inr (output\<lparr>aarqFields := aarqFields output @ [encoded]\<rparr>, hasUserInformation)
     else (case ReadUserInformation (tlvTag child) (tlvValue child) False of
       Inl status \<Rightarrow> Inl status
     | Inr octets \<Rightarrow>
         (case DecodeInitiateRequest (View octets) of
           Inl status \<Rightarrow> Inl status
         | Inr m \<Rightarrow> Inr (output\<lparr>aarqInitiateRequest := m\<rparr>, True))))"

definition DecodeAarq :: "view \<Rightarrow> ApduStatus + AarqApdu" where
  "DecodeAarq input =
     (case ReadSingleTlv input kAarqTag of
        Inl status \<Rightarrow> Inl status
      | Inr tlv \<Rightarrow>
          (case for_each_item DecodeAarq_item (ApduReader_init (View (tlvValue tlv))) (AarqApdu_default, False) of
             Inl status \<Rightarrow> Inl status
           | Inr (output, hasUserInformation) \<Rightarrow> if hasUserInformation then Inr output else Inl InvalidData))"

definition EncodeAarq :: "AarqApdu \<Rightarrow> writing" where
  "EncodeAarq input w =
     (case EncodeInitiateRequest (aarqInitiateRequest input) (ApduWriter_init False 256) of
        (Inl status, _) \<Rightarrow> (Inl status, w)
      | (Inr _, xdlmsWriter) \<Rightarrow> EncodeAssociation kAarqTag (aarqFields input) (written xdlmsWriter) w)"

text \<open>What a result or diagnostic item adds to the structure; other items add nothing here.\<close>

definition read_result :: "u8 \<Rightarrow> bytes \<Rightarrow> AareApdu \<Rightarrow> ApduStatus + AareApdu" where
  "read_result tag value output =
     (if tag = kAssociationResultTag then
        (case ReadNestedInteger value kBerIntegerTag of
           Inl status \<Rightarrow> Inl status
         | Inr v \<Rightarrow> Inr (output\<lparr>aareResult := v, hasResult := True\<rparr>))
      else if tag = kResultSourceDiagnosticTag then
        (case ReadNestedInteger value kAcseServiceUserTag of
           Inl status \<Rightarrow> Inl status
         | Inr v \<Rightarrow> Inr (output\<lparr>diagnostic := v, hasDiagnostic := True\<rparr>))
      else Inr output)"

fun DecodeAare_item :: "BerTlv \<Rightarrow> AcseRawField \<Rightarrow> AareApdu \<times> bool \<Rightarrow> ApduStatus + AareApdu \<times> bool" where
  "DecodeAare_item child encoded (output, hasUserInformation) = (
     case read_result (tlvTag child) (tlvValue child) output of
       Inl status \<Rightarrow> Inl status
     | Inr output' \<Rightarrow>
         if tlvTag child \<noteq> kUserInformationTag then
           Inr (output'\<lparr>aareFields := aareFields output' @ [encoded]\<rparr>, hasUserInformation)
         else (case ReadUserInformation (tlvTag child) (tlvValue child) False of
           Inl status \<Rightarrow> Inl status
         | Inr octets \<Rightarrow>
             (case DecodeInitiateResponse (View octets) of
               Inl status \<Rightarrow> Inl status
             | Inr m \<Rightarrow> Inr (output'\<lparr>aareInitiateResponse := m\<rparr>, True))))"

definition DecodeAare :: "view \<Rightarrow> ApduStatus + AareApdu" where
  "DecodeAare input =
     (case ReadSingleTlv input kAareTag of
        Inl status \<Rightarrow> Inl status
      | Inr tlv \<Rightarrow>
          (case for_each_item DecodeAare_item (ApduReader_init (View (tlvValue tlv))) (AareApdu_default, False) of
             Inl status \<Rightarrow> Inl status
           | Inr (output, hasUserInformation) \<Rightarrow> if hasUserInformation then Inr output else Inl InvalidData))"

definition EncodeAare :: "AareApdu \<Rightarrow> writing" where
  "EncodeAare input w =
     (case EncodeInitiateResponse (aareInitiateResponse input) (ApduWriter_init False 256) of
        (Inl status, _) \<Rightarrow> (Inl status, w)
      | (Inr _, xdlmsWriter) \<Rightarrow> EncodeAssociation kAareTag (aareFields input) (written xdlmsWriter) w)"

subsection \<open>The release APDUs\<close>

text \<open>
  The head of a turn of the loop of \<open>DecodeRelease\<close>: a user information item that is not the last
  takes the rest of the value with it. The only failure that \<open>Skip\<close> could report here is a bad
  pointer.
\<close>

definition ReadReleaseElement :: "bytes \<Rightarrow> (u8 \<times> bytes) reading" where
  "ReadReleaseElement value r = try_then ReadBerTlv (\<lambda>child r'.
     if tlvTag child = kUserInformationTag \<and> \<not> reader_empty r' then
       try_then (Skip (reader_remaining r')) (\<lambda>_.
         yield (tlvTag child, drop (readerPosition r + tlvHeaderSize child) value)) r'
     else (Inr (tlvTag child, tlvValue child), r')) r"

text \<open>What an item adds to the structure; the decoder of the initiate message is an argument.\<close>

definition read_release_child ::
    "(view \<Rightarrow> ApduStatus + 'i) \<Rightarrow> u8 \<Rightarrow> bytes \<Rightarrow> 'i ReleaseApdu \<Rightarrow> ApduStatus + 'i ReleaseApdu" where
  "read_release_child decodeInitiate tag childValue output =
     (if tag = kReleaseReasonTag then
        (case ReadPrimitiveIntegerValue childValue of
           Inl status \<Rightarrow> Inl status
         | Inr v \<Rightarrow> Inr (output\<lparr>reason := v, hasReason := True\<rparr>))
      else if tag = kUserInformationTag then
        (case ReadUserInformation tag childValue True of
           Inl status \<Rightarrow> Inl status
         | Inr octets \<Rightarrow>
             (case decodeInitiate (View octets) of
                Inl status \<Rightarrow> Inl status
              | Inr m \<Rightarrow> Inr (output\<lparr>releaseInitiate := m\<rparr>)))
      else Inr output)"

definition replace_last :: "bytes \<Rightarrow> nat \<Rightarrow> AcseRawField list \<Rightarrow> AcseRawField list" where
  "replace_last value start fs = butlast fs @ [(last fs)\<lparr>fieldEncoded := View (drop start value)\<rparr>]"

lemma Skip_remaining: "Skip n r = (Inr u, r') \<Longrightarrow> reader_remaining r' \<le> reader_remaining r"
proof -
  assume "Skip n r = (Inr u, r')"
  then obtain v where "ReadBytes n r = (Inr v, r')" unfolding Skip_def by (auto elim!: try_then_InrE simp: yield_def)
  with shrinking_ReadBytes [of n] show ?thesis by (fastforce simp: shrinking_def)
qed

lemma ReadReleaseElement_shrinks: "ReadReleaseElement value r = (Inr x, r') \<Longrightarrow> reader_remaining r' < reader_remaining r"
proof -
  assume "ReadReleaseElement value r = (Inr x, r')"
  then obtain child s where s: "ReadBerTlv r = (Inr child, s)" and
    k: "(if tlvTag child = kUserInformationTag \<and> \<not> reader_empty s then
       try_then (Skip (reader_remaining s)) (\<lambda>_. yield (tlvTag child, drop (readerPosition r + tlvHeaderSize child) value)) s
     else (Inr (tlvTag child, tlvValue child), s)) = (Inr x, r')"
    unfolding ReadReleaseElement_def by (rule try_then_InrE)
  have "reader_remaining r' \<le> reader_remaining s"
  proof (cases "tlvTag child = kUserInformationTag \<and> \<not> reader_empty s")
    case True
    with k obtain u t where "Skip (reader_remaining s) s = (Inr u, t)" "t = r'"
      by (auto elim!: try_then_InrE simp: yield_def)
    then show ?thesis using Skip_remaining by blast
  qed (use k in auto)
  with ReadBerTlv_shrinks [OF s] show ?thesis by simp
qed

function DecodeRelease_loop ::
    "(view \<Rightarrow> ApduStatus + 'i) \<Rightarrow> bytes \<Rightarrow> ApduReader \<Rightarrow> 'i ReleaseApdu \<Rightarrow> nat \<Rightarrow> ApduStatus + 'i ReleaseApdu" where
  "DecodeRelease_loop decodeInitiate value r output lastFieldStart =
     (if reader_empty r then Inr output
      else case ReadReleaseElement value r of
        (Inl status, r') \<Rightarrow>
          if status = NeedMoreData \<and> releaseFields output \<noteq> []
              \<and> fieldTag (last (releaseFields output)) = kUserInformationTag
            then Inr (output\<lparr>releaseFields := replace_last value lastFieldStart (releaseFields output)\<rparr>)
          else Inl status
      | (Inr (tag, childValue), r') \<Rightarrow>
          (case read_release_child decodeInitiate tag childValue output of
             Inl status \<Rightarrow> Inl status
           | Inr output' \<Rightarrow>
               DecodeRelease_loop decodeInitiate value r'
                 (output'\<lparr>releaseFields := releaseFields output' @ [element r r' tag]\<rparr>) (readerPosition r)))"
  by pat_completeness auto
termination
  by (relation "measure (\<lambda>(d, v, r, out, start). reader_remaining r)") (auto dest: ReadReleaseElement_shrinks [OF sym])

declare DecodeRelease_loop.simps [simp del]

definition DecodeRelease :: "(view \<Rightarrow> ApduStatus + 'i) \<Rightarrow> 'i \<Rightarrow> view \<Rightarrow> u8 \<Rightarrow> ApduStatus + 'i ReleaseApdu" where
  "DecodeRelease decodeInitiate zero input expectedTag =
     (case ReadReleaseTlv input expectedTag of
        Inl status \<Rightarrow> Inl status
      | Inr release \<Rightarrow>
          DecodeRelease_loop decodeInitiate (tlvValue release) (ApduReader_init (View (tlvValue release)))
            (ReleaseApdu_default zero) 0)"

definition DecodeRlrq :: "view \<Rightarrow> ApduStatus + RlrqApdu" where
  "DecodeRlrq input = DecodeRelease DecodeInitiateRequest InitiateRequest_zero input kRlrqTag"

definition EncodeRlrq :: "RlrqApdu \<Rightarrow> writing" where
  "EncodeRlrq input = EncodeRelease kRlrqTag input"

definition DecodeRlre :: "view \<Rightarrow> ApduStatus + RlreApdu" where
  "DecodeRlre input = DecodeRelease DecodeInitiateResponse InitiateResponse_zero input kRlreTag"

definition EncodeRlre :: "RlreApdu \<Rightarrow> writing" where
  "EncodeRlre input = EncodeRelease kRlreTag input"

subsection \<open>The tagged structure\<close>

definition MakeAarqWithInitiateRequest :: "XdlmsApdu \<Rightarrow> AcseApdu" where
  "MakeAarqWithInitiateRequest m =
     AcseApdu_default\<lparr>acseKind := Aarq, aarq := AarqApdu_default\<lparr>aarqInitiateRequest := initiateRequest m\<rparr>\<rparr>"

definition MakeRlrq :: AcseApdu where
  "MakeRlrq = AcseApdu_default\<lparr>acseKind := Rlrq\<rparr>"

definition DecodeAcseApdu :: "view \<Rightarrow> ApduStatus + AcseApdu" where
  "DecodeAcseApdu input =
     (if view_null input \<or> view_size input = 0
      then Inl (if view_size input = 0 then NeedMoreData else InvalidArgument)
      else
        let tag = view_bytes input ! 0; output = AcseApdu_default in
        if tag = kAarqTag then decoded (DecodeAarq input) (\<lambda>m. output\<lparr>acseKind := Aarq, aarq := m\<rparr>)
        else if tag = kAareTag then decoded (DecodeAare input) (\<lambda>m. output\<lparr>acseKind := Aare, aare := m\<rparr>)
        else if tag = kRlrqTag then decoded (DecodeRlrq input) (\<lambda>m. output\<lparr>acseKind := Rlrq, rlrq := m\<rparr>)
        else if tag = kRlreTag then decoded (DecodeRlre input) (\<lambda>m. output\<lparr>acseKind := Rlre, rlre := m\<rparr>)
        else Inl InvalidTag)"

definition EncodeAcseApdu_write :: "AcseApdu \<Rightarrow> writing" where
  "EncodeAcseApdu_write input = (case acseKind input of
     Aarq \<Rightarrow> EncodeAarq (aarq input)
   | Aare \<Rightarrow> EncodeAare (aare input)
   | Rlrq \<Rightarrow> EncodeRlrq (rlrq input)
   | Rlre \<Rightarrow> EncodeRlre (rlre input))"

definition EncodeAcseApdu :: "AcseApdu \<Rightarrow> ApduStatus + bytes" where
  "EncodeAcseApdu input =
     (case EncodeAcseApdu_write input (ApduWriter_init False 2048) of
        (Inl status, w) \<Rightarrow> Inl status
      | (Inr u, w) \<Rightarrow> Inr (written w))"

end
