(* ===== verification/Profile_Channel.thy ===== *)
theory Profile_Channel
  imports Apdu_IO
begin

text \<open>
  The interface of an APDU channel, \<open>apdu_channel.hpp\<close>: a record of functions on a state \<open>'e\<close> that
  stands for everything outside the object that uses the channel, so that a call may have any effect
  there. An output vector is returned beside the status, since it is defined for every status.
\<close>

datatype ProfileStatus = Ok | NeedMoreData | OutputBufferTooSmall | InvalidArgument | NotOpen | AlreadyOpen | OpenFailed
  | ReadFailed | WriteFailed | Timeout | ConnectionClosed | WouldBlock | InvalidFrame | InvalidLength | InvalidAddress
  | PayloadTooLarge | UnsupportedFeature | InternalError

record 'e ApduChannel =
  channel_Open :: "'e \<Rightarrow> ProfileStatus \<times> 'e"
  channel_Close :: "'e \<Rightarrow> ProfileStatus \<times> 'e"
  channel_SendApdu :: "view \<Rightarrow> 'e \<Rightarrow> ProfileStatus \<times> 'e"
  channel_ReceiveApdu :: "'e \<Rightarrow> (ProfileStatus \<times> bytes) \<times> 'e"
  channel_SetCorrelation :: "64 word \<Rightarrow> 'e \<Rightarrow> 'e"

end
