(* ===== verification/Association_Types.thy ===== *)
theory Association_Types
  imports Apdu_Acse Profile_Channel
begin

text \<open>
  The types of the association layer (\<open>association_types.hpp\<close>, \<open>association_types.cpp\<close>,
  \<open>association_status.hpp\<close>) and the interfaces it is given.

  Like the APDU channel, the strategies for high level security and the trace sink are objects behind
  abstract interfaces. Each is a record of functions on the state \<open>'e\<close> of the world.
\<close>

subsection \<open>Statuses\<close>

datatype AssociationStatus = Ok | InvalidArgument | InvalidState | AlreadyAssociated | UnsupportedApplicationContext
  | UnsupportedAuthentication | ChannelOpenFailed | ChannelCloseFailed | SendFailed | ReceiveFailed | EncodeFailed
  | DecodeFailed | AssociationRejected | NegotiationFailed | InternalError

datatype AssociationState = Closed | Open | Associating | Associated

datatype ApplicationContext = LogicalNameNoCiphering

datatype AuthenticationMode = NoAuthentication | LowLevelSecurity | HighLevelSecurity

datatype HighLevelSecurityMechanism = UnknownMechanism | HlsHigh | HlsMd5 | HlsSha1 | HlsGmac

datatype AssociationTraceKind = AarqBuilt | AarqBuildFailed | AareReceiveFailed

subsection \<open>Interfaces\<close>

record 'e HighLevelSecurityStrategy =
  Mechanism :: "'e \<Rightarrow> HighLevelSecurityMechanism"
  BuildInitialChallenge :: "'e \<Rightarrow> (AssociationStatus \<times> bytes) \<times> 'e"

record 'e HighLevelSecurityServerStrategy =
  SetCallingApplicationTitle :: "bytes \<Rightarrow> 'e \<Rightarrow> AssociationStatus \<times> 'e"
  ValidateInitialChallenge :: "HighLevelSecurityMechanism \<Rightarrow> bytes \<Rightarrow> 'e \<Rightarrow> AssociationStatus \<times> 'e"
  BuildResponseChallenge :: "HighLevelSecurityMechanism \<Rightarrow> 'e \<Rightarrow> (AssociationStatus \<times> bytes) \<times> 'e"

record AssociationTraceField =
  traceField_tag :: u8
  traceField_encodedSize :: nat

record AssociationTraceEvent =
  trace_kind :: AssociationTraceKind
  trace_status :: AssociationStatus
  trace_applicationContext :: ApplicationContext
  trace_authenticationMode :: AuthenticationMode
  trace_hlsMechanism :: HighLevelSecurityMechanism
  trace_hasProposedQualityOfService :: bool
  trace_proposedQualityOfService :: u8
  trace_proposedDlmsVersionNumber :: u8
  trace_proposedConformance :: bytes
  trace_clientMaxReceivePduSize :: u16
  trace_encodedAarqSize :: nat
  trace_callingAuthenticationValueSize :: nat
  trace_fields :: "AssociationTraceField list"

subsection \<open>Options and results\<close>

record 'e AssociationOptions =
  options_applicationContext :: ApplicationContext
  options_authenticationMode :: AuthenticationMode
  options_lowLevelSecurityCredential :: bytes
  options_highLevelSecurity :: "'e HighLevelSecurityStrategy option"
  options_callingApplicationTitle :: bytes
  options_traceSink :: "(AssociationTraceEvent \<Rightarrow> 'e \<Rightarrow> 'e) option"
  options_hasProposedQualityOfService :: bool
  options_proposedQualityOfService :: u8
  options_proposedDlmsVersionNumber :: u8
  options_proposedConformance :: bytes
  options_clientMaxReceivePduSize :: u16

record 'e AssociationServerOptions =
  server_applicationContext :: ApplicationContext
  server_authenticationMode :: AuthenticationMode
  server_lowLevelSecurityCredential :: bytes
  server_highLevelSecurity :: "'e HighLevelSecurityServerStrategy option"
  server_respondingApplicationTitle :: bytes
  server_negotiatedDlmsVersionNumber :: u8
  server_negotiatedConformance :: bytes
  server_serverMaxReceivePduSize :: u16
  server_vaaName :: u16

record AssociationResult =
  result_negotiatedDlmsVersionNumber :: u8
  result_negotiatedConformance :: bytes
  result_serverMaxReceivePduSize :: u16
  result_vaaName :: u16
  result_hasAareResult :: bool
  result_aareResult :: u32
  result_hasAareDiagnostic :: bool
  result_aareDiagnostic :: u32
  result_highLevelSecurityServerChallenge :: bytes
  result_callingApplicationTitle :: bytes
  result_respondingApplicationTitle :: bytes

definition DefaultAssociationOptions :: "'e AssociationOptions" where
  "DefaultAssociationOptions =
     (let request = MakeDefaultInitiateRequest in
      \<lparr>options_applicationContext = LogicalNameNoCiphering, options_authenticationMode = NoAuthentication,
       options_lowLevelSecurityCredential = [], options_highLevelSecurity = None, options_callingApplicationTitle = [],
       options_traceSink = None,
       options_hasProposedQualityOfService = hasProposedQualityOfService request,
       options_proposedQualityOfService = proposedQualityOfService request,
       options_proposedDlmsVersionNumber = proposedDlmsVersionNumber request,
       options_proposedConformance = proposedConformance request,
       options_clientMaxReceivePduSize = clientMaxReceivePduSize request\<rparr>)"

definition DefaultAssociationServerOptions :: "'e AssociationServerOptions" where
  "DefaultAssociationServerOptions =
     (let request = MakeDefaultInitiateRequest in
      \<lparr>server_applicationContext = LogicalNameNoCiphering, server_authenticationMode = NoAuthentication,
       server_lowLevelSecurityCredential = [], server_highLevelSecurity = None, server_respondingApplicationTitle = [],
       server_negotiatedDlmsVersionNumber = proposedDlmsVersionNumber request,
       server_negotiatedConformance = proposedConformance request,
       server_serverMaxReceivePduSize = clientMaxReceivePduSize request, server_vaaName = 0x0007\<rparr>)"

definition EmptyAssociationResult :: AssociationResult where
  "EmptyAssociationResult =
     \<lparr>result_negotiatedDlmsVersionNumber = 0, result_negotiatedConformance = [0, 0, 0], result_serverMaxReceivePduSize = 0,
      result_vaaName = 0, result_hasAareResult = False, result_aareResult = 0, result_hasAareDiagnostic = False,
      result_aareDiagnostic = 0, result_highLevelSecurityServerChallenge = [], result_callingApplicationTitle = [],
      result_respondingApplicationTitle = []\<rparr>"

subsection \<open>What client and server share\<close>

text \<open>Both sources define these helpers with the same text.\<close>

definition kSenderAcseRequirementsTag :: u8 where "kSenderAcseRequirementsTag = 0x8a"
definition kMechanismNameTag :: u8 where "kMechanismNameTag = 0x8b"
definition kCalledApInvocationIdTag :: u8 where "kCalledApInvocationIdTag = 0xa4"
definition kCallingApTitleTag :: u8 where "kCallingApTitleTag = 0xa6"
definition kRespondingAuthenticationValueTag :: u8 where "kRespondingAuthenticationValueTag = 0xaa"
definition kCallingAuthenticationValueTag :: u8 where "kCallingAuthenticationValueTag = 0xac"
definition kCharstringAuthenticationValueTag :: u8 where "kCharstringAuthenticationValueTag = 0x80"
definition kOctetStringFieldTag :: u8 where "kOctetStringFieldTag = 0x04"
definition kMaxShortBerAuthenticationValueSize :: nat where "kMaxShortBerAuthenticationValueSize = 125"
definition kRespondingApTitleTag :: u8 where "kRespondingApTitleTag = 0xa4"

lemmas association_tags = kSenderAcseRequirementsTag_def kMechanismNameTag_def kCalledApInvocationIdTag_def kCallingApTitleTag_def
  kRespondingAuthenticationValueTag_def kCallingAuthenticationValueTag_def kCharstringAuthenticationValueTag_def
  kOctetStringFieldTag_def kRespondingApTitleTag_def

definition IsProfileOk :: "ProfileStatus \<Rightarrow> bool" where
  "IsProfileOk status \<longleftrightarrow> status = ProfileStatus.Ok \<or> status = AlreadyOpen"

fun HlsMechanismId :: "HighLevelSecurityMechanism \<Rightarrow> u8 option" where
  "HlsMechanismId HlsHigh = Some 2"
| "HlsMechanismId HlsMd5 = Some 3"
| "HlsMechanismId HlsSha1 = Some 4"
| "HlsMechanismId HlsGmac = Some 5"
| "HlsMechanismId UnknownMechanism = None"

definition MakeByteView :: "bytes \<Rightarrow> view" where
  "MakeByteView bs = (if bs = [] then NullView 0 else View bs)"

definition MakeSenderAcseRequirementsField :: bytes where
  "MakeSenderAcseRequirementsField = [kSenderAcseRequirementsTag, 0x02, 0x07, 0x80]"

definition MakeLowLevelSecurityMechanismField :: bytes where
  "MakeLowLevelSecurityMechanismField = [kMechanismNameTag, 0x07, 0x60, 0x85, 0x74, 0x05, 0x08, 0x02, 0x01]"

text \<open>The identifier stays zero for an unknown mechanism.\<close>

definition MakeHighLevelSecurityMechanismField :: "HighLevelSecurityMechanism \<Rightarrow> bytes" where
  "MakeHighLevelSecurityMechanismField mechanism =
     [kMechanismNameTag, 0x07, 0x60, 0x85, 0x74, 0x05, 0x08, 0x02,
      (case HlsMechanismId mechanism of None \<Rightarrow> 0 | Some mechanismId \<Rightarrow> mechanismId)]"

definition MakeAuthenticationValueField :: "u8 \<Rightarrow> bytes \<Rightarrow> bytes" where
  "MakeAuthenticationValueField tag vs =
     tag # of_nat (length vs + 2) # kCharstringAuthenticationValueTag # of_nat (length vs) # vs"

definition MakeOctetStringField :: "u8 \<Rightarrow> bytes \<Rightarrow> bytes" where
  "MakeOctetStringField tag vs = tag # of_nat (length vs + 2) # kOctetStringFieldTag # of_nat (length vs) # vs"

definition raw_field :: "bytes \<Rightarrow> AcseRawField" where
  "raw_field encoded = \<lparr>fieldTag = (if encoded = [] then 0 else encoded ! 0), fieldEncoded = MakeByteView encoded\<rparr>"

end
