(* ===== verification/Association_Client.thy ===== *)
theory Association_Client
  imports Association_Types
begin

text \<open>
  The client side of an association, \<open>association_client.cpp\<close>. The object is a record of its options,
  state and result; its methods act on the pair of the object and the world outside it.
\<close>

subsection \<open>Trace events\<close>

fun CallingAuthenticationValueSize :: "AcseRawField list \<Rightarrow> nat" where
  "CallingAuthenticationValueSize [] = 0"
| "CallingAuthenticationValueSize (f # fs) =
     (if fieldTag f = kCallingAuthenticationValueTag \<and> \<not> view_null (fieldEncoded f) \<and> view_size (fieldEncoded f) \<ge> 4
      then unat (view_bytes (fieldEncoded f) ! 3) else CallingAuthenticationValueSize fs)"

definition EmitAssociationTrace ::
    "AssociationTraceKind \<Rightarrow> AssociationStatus \<Rightarrow> 'e AssociationOptions \<Rightarrow> HighLevelSecurityMechanism \<Rightarrow> AarqApdu option \<Rightarrow> nat \<Rightarrow> 'e \<Rightarrow> 'e" where
  "EmitAssociationTrace kind status options hlsMechanism request encodedAarqSize e =
     (case options_traceSink options of
        None \<Rightarrow> e
      | Some sink \<Rightarrow>
          sink \<lparr>trace_kind = kind, trace_status = status,
            trace_applicationContext = options_applicationContext options,
            trace_authenticationMode = options_authenticationMode options, trace_hlsMechanism = hlsMechanism,
            trace_hasProposedQualityOfService = options_hasProposedQualityOfService options,
            trace_proposedQualityOfService = options_proposedQualityOfService options,
            trace_proposedDlmsVersionNumber = options_proposedDlmsVersionNumber options,
            trace_proposedConformance = options_proposedConformance options,
            trace_clientMaxReceivePduSize = options_clientMaxReceivePduSize options,
            trace_encodedAarqSize = encodedAarqSize,
            trace_callingAuthenticationValueSize =
              (case request of None \<Rightarrow> 0 | Some a \<Rightarrow> CallingAuthenticationValueSize (aarqFields a)),
            trace_fields = (case request of None \<Rightarrow> []
              | Some a \<Rightarrow> map (\<lambda>f. \<lparr>traceField_tag = fieldTag f, traceField_encodedSize = view_size (fieldEncoded f)\<rparr>) (aarqFields a))\<rparr> e)"

subsection \<open>Fields of the request\<close>

definition AddRawFields :: "bytes list \<Rightarrow> AarqApdu \<Rightarrow> AarqApdu" where
  "AddRawFields encodedFields a = a\<lparr>aarqFields := aarqFields a @ map raw_field encodedFields\<rparr>"

definition AddLlsAuthenticationFields :: "'e AssociationOptions \<Rightarrow> AarqApdu \<Rightarrow> AarqApdu" where
  "AddLlsAuthenticationFields options a =
     (if options_authenticationMode options \<noteq> LowLevelSecurity then a
      else AddRawFields [MakeSenderAcseRequirementsField, MakeLowLevelSecurityMechanismField,
        MakeAuthenticationValueField kCallingAuthenticationValueTag (options_lowLevelSecurityCredential options)] a)"

text \<open>The list of encoded fields is empty when this is called: the mode is not low level security.\<close>

definition AddHlsAuthenticationFields ::
    "'e AssociationOptions \<Rightarrow> AarqApdu \<Rightarrow> 'e \<Rightarrow> (AssociationStatus + AarqApdu \<times> HighLevelSecurityMechanism) \<times> 'e" where
  "AddHlsAuthenticationFields options a e =
     (if options_authenticationMode options \<noteq> HighLevelSecurity then (Inr (a, UnknownMechanism), e)
      else case options_highLevelSecurity options of
        None \<Rightarrow> (Inl UnsupportedAuthentication, e)
      | Some strategy \<Rightarrow>
          let mechanism = Mechanism strategy e in
          if HlsMechanismId mechanism = None then (Inl UnsupportedAuthentication, e)
          else
            let ((status, challenge), e') = BuildInitialChallenge strategy e in
            if status \<noteq> Ok \<or> challenge = [] then (Inl UnsupportedAuthentication, e')
            else if length challenge > kMaxShortBerAuthenticationValueSize then (Inl InvalidArgument, e')
            else (Inr (AddRawFields [MakeSenderAcseRequirementsField, MakeHighLevelSecurityMechanismField mechanism,
                MakeAuthenticationValueField kCallingAuthenticationValueTag challenge] a, mechanism), e'))"

definition client_DecodeAuthenticationValue :: "AcseRawField \<Rightarrow> u8 \<Rightarrow> bytes option" where
  "client_DecodeAuthenticationValue field expectedTag =
     (let bs = view_bytes (fieldEncoded field); sz = view_size (fieldEncoded field) in
      if fieldTag field \<noteq> expectedTag \<or> view_null (fieldEncoded field) \<or> sz < 4 then None
      else if bs ! 0 \<noteq> expectedTag \<or> unat (bs ! 1) \<noteq> sz - 2 \<or> bs ! 2 \<noteq> kCharstringAuthenticationValueTag
          \<or> unat (bs ! 3) \<noteq> sz - 4 then None
      else Some (drop 4 bs))"

definition client_DecodeOctetStringField :: "AcseRawField \<Rightarrow> bytes option" where
  "client_DecodeOctetStringField field =
     (let bs = view_bytes (fieldEncoded field); sz = view_size (fieldEncoded field) in
      if view_null (fieldEncoded field) \<or> sz < 4 then None
      else if bs ! 0 \<noteq> fieldTag field \<or> unat (bs ! 1) \<noteq> sz - 2 \<or> bs ! 2 \<noteq> kOctetStringFieldTag
          \<or> unat (bs ! 3) \<noteq> sz - 4 then None
      else Some (drop 4 bs))"

subsection \<open>The object\<close>

record 'e AssociationClient =
  client_options :: "'e AssociationOptions"
  client_state :: AssociationState
  client_result :: AssociationResult

definition AssociationClient_init :: "'e AssociationOptions \<Rightarrow> 'e AssociationClient" where
  "AssociationClient_init options =
     \<lparr>client_options = options, client_state = Closed, client_result = EmptyAssociationResult\<rparr>"

definition AssociationClient_ValidateOptions :: "'e AssociationOptions \<Rightarrow> AssociationStatus" where
  "AssociationClient_ValidateOptions options =
     (if options_applicationContext options \<noteq> LogicalNameNoCiphering then UnsupportedApplicationContext
      else if options_authenticationMode options = LowLevelSecurity \<and> options_lowLevelSecurityCredential options = []
        then UnsupportedAuthentication
      else if options_authenticationMode options = LowLevelSecurity
          \<and> length (options_lowLevelSecurityCredential options) > kMaxShortBerAuthenticationValueSize
        then InvalidArgument
      else if options_authenticationMode options = HighLevelSecurity \<and> options_callingApplicationTitle options \<noteq> []
          \<and> length (options_callingApplicationTitle options) > kMaxShortBerAuthenticationValueSize
        then InvalidArgument
      else if options_authenticationMode options = HighLevelSecurity \<and> options_highLevelSecurity options = None
        then UnsupportedAuthentication
      else if options_proposedDlmsVersionNumber options = 0 \<or> options_clientMaxReceivePduSize options = 0
        then InvalidArgument
      else Ok)"

definition proposed_request :: "'e AssociationOptions \<Rightarrow> InitiateRequest" where
  "proposed_request options = MakeDefaultInitiateRequest
     \<lparr>hasProposedQualityOfService := options_hasProposedQualityOfService options,
      proposedQualityOfService := options_proposedQualityOfService options,
      proposedDlmsVersionNumber := options_proposedDlmsVersionNumber options,
      proposedConformance := options_proposedConformance options,
      clientMaxReceivePduSize := options_clientMaxReceivePduSize options\<rparr>"

definition AssociationClient_BuildAarq :: "'e AssociationOptions \<Rightarrow> 'e \<Rightarrow> (AssociationStatus + bytes) \<times> 'e" where
  "AssociationClient_BuildAarq options e =
     (let apdu = MakeAarqWithInitiateRequest (XdlmsApdu_initiate (proposed_request options));
          lls = AddLlsAuthenticationFields options (aarq apdu);
          titled = (if options_callingApplicationTitle options = [] then lls
            else AddRawFields [MakeOctetStringField kCallingApTitleTag (options_callingApplicationTitle options)] lls)
      in
      case AddHlsAuthenticationFields options titled e of
        (Inl status, e') \<Rightarrow> (Inl status, e')
      | (Inr (a, hlsMechanism), e') \<Rightarrow>
          (case EncodeAcseApdu (apdu\<lparr>aarq := a\<rparr>) of
            Inl _ \<Rightarrow> (Inl EncodeFailed, EmitAssociationTrace AarqBuildFailed EncodeFailed options hlsMechanism None 0 e')
          | Inr output \<Rightarrow> (Inr output, EmitAssociationTrace AarqBuilt Ok options hlsMechanism (Some a) (length output) e')))"

text \<open>The first field with one of the title tags that holds a well-formed octet string.\<close>

fun responding_title :: "AcseRawField list \<Rightarrow> bytes" where
  "responding_title [] = []"
| "responding_title (f # fs) =
     (if fieldTag f = kCalledApInvocationIdTag \<or> fieldTag f = kCallingApTitleTag
      then (case client_DecodeOctetStringField f of Some title \<Rightarrow> title | None \<Rightarrow> responding_title fs)
      else responding_title fs)"

definition read_server_challenge :: "AcseRawField list \<Rightarrow> AssociationStatus \<times> bytes" where
  "read_server_challenge fs =
     (case List.find (\<lambda>f. fieldTag f = kRespondingAuthenticationValueTag) fs of
        None \<Rightarrow> (DecodeFailed, [])
      | Some f \<Rightarrow>
          (case client_DecodeAuthenticationValue f kRespondingAuthenticationValueTag of
            None \<Rightarrow> (DecodeFailed, [])
          | Some challenge \<Rightarrow> (if challenge = [] then DecodeFailed else Ok, challenge)))"

definition AssociationClient_DecodeAare ::
    "'e AssociationOptions \<Rightarrow> bytes \<Rightarrow> AssociationResult \<Rightarrow> AssociationStatus \<times> AssociationResult" where
  "AssociationClient_DecodeAare options inp result =
     (if inp = [] then (DecodeFailed, result)
      else case DecodeAcseApdu (View inp) of
        Inl _ \<Rightarrow> (DecodeFailed, result)
      | Inr apdu \<Rightarrow>
          if acseKind apdu \<noteq> Aare then (DecodeFailed, result)
          else
            let a = aare apdu; response = aareInitiateResponse a;
                result1 = result\<lparr>result_hasAareResult := hasResult a, result_aareResult := aareResult a,
                  result_hasAareDiagnostic := hasDiagnostic a, result_aareDiagnostic := diagnostic a\<rparr>
            in
            if hasResult a \<and> aareResult a \<noteq> 0 then (AssociationRejected, result1)
            else if negotiatedDlmsVersionNumber response = 0 \<or> serverMaxReceivePduSize response = 0
              then (NegotiationFailed, result1)
            else
              let result2 = result1\<lparr>result_negotiatedDlmsVersionNumber := negotiatedDlmsVersionNumber response,
                    result_negotiatedConformance := negotiatedConformance response,
                    result_serverMaxReceivePduSize := serverMaxReceivePduSize response,
                    result_vaaName := vaaName response,
                    result_respondingApplicationTitle := responding_title (aareFields a)\<rparr>
              in
              if options_authenticationMode options = HighLevelSecurity then
                (let (status, challenge) = read_server_challenge (aareFields a) in
                 (status, result2\<lparr>result_highLevelSecurityServerChallenge := challenge\<rparr>))
              else (Ok, result2))"

definition AssociationClient_BuildRlrq :: "AssociationStatus + bytes" where
  "AssociationClient_BuildRlrq = (case EncodeAcseApdu MakeRlrq of Inl _ \<Rightarrow> Inl EncodeFailed | Inr output \<Rightarrow> Inr output)"

definition AssociationClient_DecodeRlre :: "bytes \<Rightarrow> AssociationStatus" where
  "AssociationClient_DecodeRlre inp =
     (if inp = [] then DecodeFailed
      else case DecodeAcseApdu (View inp) of
        Inl _ \<Rightarrow> DecodeFailed
      | Inr apdu \<Rightarrow> if acseKind apdu \<noteq> Rlre then DecodeFailed else Ok)"

fun AssociationClient_Open ::
    "'e ApduChannel \<Rightarrow> 'e AssociationClient \<times> 'e \<Rightarrow> AssociationStatus \<times> 'e AssociationClient \<times> 'e" where
  "AssociationClient_Open ch (c, e) =
     (if client_state c \<noteq> Closed then (Ok, c, e)
      else let (status, e') = channel_Open ch e in
        if \<not> IsProfileOk status then (ChannelOpenFailed, c, e')
        else (Ok, c\<lparr>client_result := EmptyAssociationResult, client_state := Open\<rparr>, e'))"

fun AssociationClient_Close ::
    "'e ApduChannel \<Rightarrow> 'e AssociationClient \<times> 'e \<Rightarrow> AssociationStatus \<times> 'e AssociationClient \<times> 'e" where
  "AssociationClient_Close ch (c, e) =
     (if client_state c = Closed then (Ok, c, e)
      else let (status, e') = channel_Close ch e in
        if status \<noteq> ProfileStatus.Ok then (ChannelCloseFailed, c, e')
        else (Ok, c\<lparr>client_result := EmptyAssociationResult, client_state := Closed\<rparr>, e'))"

fun AssociationClient_Establish ::
    "'e ApduChannel \<Rightarrow> 'e AssociationClient \<times> 'e \<Rightarrow> AssociationStatus \<times> 'e AssociationClient \<times> 'e" where
  "AssociationClient_Establish ch (c, e) =
     (let options = client_options c; optionStatus = AssociationClient_ValidateOptions options;
          opened = c\<lparr>client_state := Open, client_result := EmptyAssociationResult\<rparr>
      in
      if client_state c = Closed then (InvalidState, c, e)
      else if client_state c = Associated then (AlreadyAssociated, c, e)
      else if optionStatus \<noteq> Ok then (optionStatus, c, e)
      else case AssociationClient_BuildAarq options e of
        (Inl buildStatus, e1) \<Rightarrow>
          (buildStatus, opened, EmitAssociationTrace AarqBuildFailed buildStatus options UnknownMechanism None 0 e1)
      | (Inr request, e1) \<Rightarrow>
          let (sendStatus, e2) = channel_SendApdu ch (MakeByteView request) e1 in
          if sendStatus \<noteq> ProfileStatus.Ok then (SendFailed, opened, e2)
          else
            let ((receiveStatus, response), e3) = channel_ReceiveApdu ch e2 in
            if receiveStatus \<noteq> ProfileStatus.Ok then
              (ReceiveFailed, opened, EmitAssociationTrace AareReceiveFailed ReceiveFailed options UnknownMechanism None 0 e3)
            else
              let (decodeStatus, result) = AssociationClient_DecodeAare options response EmptyAssociationResult in
              (decodeStatus, c\<lparr>client_state := (if decodeStatus = Ok then Associated else Open), client_result := result\<rparr>, e3))"

fun AssociationClient_Release ::
    "'e ApduChannel \<Rightarrow> 'e AssociationClient \<times> 'e \<Rightarrow> AssociationStatus \<times> 'e AssociationClient \<times> 'e" where
  "AssociationClient_Release ch (c, e) =
     (if client_state c \<noteq> Associated then (InvalidState, c, e)
      else case AssociationClient_BuildRlrq of
        Inl buildStatus \<Rightarrow> (buildStatus, c, e)
      | Inr request \<Rightarrow>
          let (sendStatus, e1) = channel_SendApdu ch (MakeByteView request) e in
          if sendStatus \<noteq> ProfileStatus.Ok then (SendFailed, c, e1)
          else
            let ((receiveStatus, response), e2) = channel_ReceiveApdu ch e1 in
            if receiveStatus \<noteq> ProfileStatus.Ok then (ReceiveFailed, c, e2)
            else
              let decodeStatus = AssociationClient_DecodeRlre response in
              if decodeStatus \<noteq> Ok then (decodeStatus, c, e2)
              else (Ok, c\<lparr>client_result := EmptyAssociationResult, client_state := Open\<rparr>, e2))"

declare AssociationClient_Open.simps [simp del] AssociationClient_Close.simps [simp del]
  AssociationClient_Establish.simps [simp del] AssociationClient_Release.simps [simp del]

definition AssociationClient_IsAssociated :: "'e AssociationClient \<Rightarrow> bool" where
  "AssociationClient_IsAssociated c \<longleftrightarrow> client_state c = Associated"

end
