(* ===== verification/Association_Server.thy ===== *)
theory Association_Server
  imports Association_Types
begin

text \<open>
  The server side of an association, \<open>association_server.cpp\<close>.
\<close>

subsection \<open>Fields of the request\<close>

definition HlsMechanismFromId :: "u8 \<Rightarrow> bool \<times> HighLevelSecurityMechanism" where
  "HlsMechanismFromId mechanismId =
     (if mechanismId = 2 then (True, HlsHigh)
      else if mechanismId = 3 then (True, HlsMd5)
      else if mechanismId = 4 then (True, HlsSha1)
      else if mechanismId = 5 then (True, HlsGmac)
      else (False, UnknownMechanism))"

definition HasAuthenticationFields :: "AarqApdu \<Rightarrow> bool" where
  "HasAuthenticationFields a \<longleftrightarrow> list_ex (\<lambda>f. fieldTag f = kSenderAcseRequirementsTag
     \<or> fieldTag f = kMechanismNameTag \<or> fieldTag f = kCallingAuthenticationValueTag) (aarqFields a)"

text \<open>The loop stops at a second field with the tag.\<close>

fun FindSingleField_loop :: "u8 \<Rightarrow> AcseRawField list \<Rightarrow> AcseRawField option \<Rightarrow> AcseRawField option" where
  "FindSingleField_loop tag [] found = found"
| "FindSingleField_loop tag (f # fs) found =
     (if fieldTag f \<noteq> tag then FindSingleField_loop tag fs found
      else if found \<noteq> None then None
      else FindSingleField_loop tag fs (Some f))"

definition FindSingleField :: "AarqApdu \<Rightarrow> u8 \<Rightarrow> AcseRawField option" where
  "FindSingleField a tag = FindSingleField_loop tag (aarqFields a) None"

definition FieldEquals :: "AcseRawField \<Rightarrow> bytes \<Rightarrow> bool" where
  "FieldEquals field expected \<longleftrightarrow> view_size (fieldEncoded field) = length expected
     \<and> \<not> bad_view (fieldEncoded field) \<and> view_bytes (fieldEncoded field) = expected"

definition DecodeHlsMechanism :: "AcseRawField \<Rightarrow> HighLevelSecurityMechanism \<Rightarrow> bool \<times> HighLevelSecurityMechanism" where
  "DecodeHlsMechanism field mechanism =
     (let bs = view_bytes (fieldEncoded field) in
      if view_null (fieldEncoded field) \<or> view_size (fieldEncoded field) \<noteq> 9 \<or> bs ! 0 \<noteq> kMechanismNameTag
          \<or> bs ! 1 \<noteq> 0x07 \<or> bs ! 2 \<noteq> 0x60 \<or> bs ! 3 \<noteq> 0x85 \<or> bs ! 4 \<noteq> 0x74 \<or> bs ! 5 \<noteq> 0x05 \<or> bs ! 6 \<noteq> 0x08
          \<or> bs ! 7 \<noteq> 0x02
      then (False, mechanism)
      else HlsMechanismFromId (bs ! 8))"

definition server_DecodeAuthenticationValue :: "AcseRawField \<Rightarrow> u8 \<Rightarrow> bytes option" where
  "server_DecodeAuthenticationValue field expectedTag =
     (let bs = view_bytes (fieldEncoded field); sz = view_size (fieldEncoded field) in
      if fieldTag field \<noteq> expectedTag \<or> view_null (fieldEncoded field) \<or> sz < 4 \<or> bs ! 0 \<noteq> expectedTag
          \<or> bs ! 2 \<noteq> kCharstringAuthenticationValueTag then None
      else
        let valueSize = unat (bs ! 3) in
        if valueSize + 4 \<noteq> sz \<or> valueSize + 2 \<noteq> unat (bs ! 1) then None
        else Some (take valueSize (drop 4 bs)))"

definition server_DecodeOctetStringField :: "AcseRawField \<Rightarrow> u8 \<Rightarrow> bytes option" where
  "server_DecodeOctetStringField field expectedTag =
     (let bs = view_bytes (fieldEncoded field); sz = view_size (fieldEncoded field) in
      if fieldTag field \<noteq> expectedTag \<or> view_null (fieldEncoded field) \<or> sz < 4 \<or> bs ! 0 \<noteq> expectedTag
          \<or> bs ! 2 \<noteq> kOctetStringFieldTag then None
      else
        let valueSize = unat (bs ! 3) in
        if valueSize + 4 \<noteq> sz \<or> valueSize + 2 \<noteq> unat (bs ! 1) then None
        else Some (take valueSize (drop 4 bs)))"

definition DecodeCallingAuthenticationValue :: "AcseRawField \<Rightarrow> bytes option" where
  "DecodeCallingAuthenticationValue field =
     (let bs = view_bytes (fieldEncoded field); sz = view_size (fieldEncoded field) in
      if view_null (fieldEncoded field) \<or> sz < 4 then None
      else if bs ! 0 \<noteq> kCallingAuthenticationValueTag \<or> bs ! 2 \<noteq> kCharstringAuthenticationValueTag then None
      else
        let credentialSize = unat (bs ! 3) in
        if credentialSize + 4 \<noteq> sz \<or> credentialSize + 2 \<noteq> unat (bs ! 1) then None
        else Some (take credentialSize (drop 4 bs)))"

definition ValidateLowLevelSecurityAarq :: "AarqApdu \<Rightarrow> bytes \<Rightarrow> AssociationStatus" where
  "ValidateLowLevelSecurityAarq a expectedCredential =
     (case (FindSingleField a kSenderAcseRequirementsTag, FindSingleField a kMechanismNameTag,
            FindSingleField a kCallingAuthenticationValueTag) of
        (Some requirements, Some mechanism, Some credentialField) \<Rightarrow>
          if \<not> FieldEquals requirements [0x8a, 0x02, 0x07, 0x80]
              \<or> \<not> FieldEquals mechanism [0x8b, 0x07, 0x60, 0x85, 0x74, 0x05, 0x08, 0x02, 0x01]
            then UnsupportedAuthentication
          else (case DecodeCallingAuthenticationValue credentialField of
            None \<Rightarrow> UnsupportedAuthentication
          | Some credential \<Rightarrow> if credential = expectedCredential then Ok else UnsupportedAuthentication)
      | _ \<Rightarrow> UnsupportedAuthentication)"

text \<open>The mechanism and the challenge are members of the object, passed by reference.\<close>

definition ValidateHighLevelSecurityAarq ::
    "AarqApdu \<Rightarrow> 'e HighLevelSecurityServerStrategy \<Rightarrow> bytes \<Rightarrow> HighLevelSecurityMechanism \<Rightarrow> bytes \<Rightarrow> 'e
      \<Rightarrow> (AssociationStatus \<times> HighLevelSecurityMechanism \<times> bytes) \<times> 'e" where
  "ValidateHighLevelSecurityAarq a strategy callingApplicationTitle mechanism serverChallenge e =
     (case (FindSingleField a kSenderAcseRequirementsTag, FindSingleField a kMechanismNameTag,
            FindSingleField a kCallingAuthenticationValueTag) of
        (Some requirements, Some mechanismField, Some challengeField) \<Rightarrow>
          if \<not> FieldEquals requirements [0x8a, 0x02, 0x07, 0x80]
            then ((UnsupportedAuthentication, mechanism, serverChallenge), e)
          else
            let (known, mechanism') = DecodeHlsMechanism mechanismField mechanism in
            if \<not> known then ((UnsupportedAuthentication, mechanism', serverChallenge), e)
            else (case server_DecodeAuthenticationValue challengeField kCallingAuthenticationValueTag of
              None \<Rightarrow> ((UnsupportedAuthentication, mechanism', serverChallenge), e)
            | Some clientChallenge \<Rightarrow>
                if clientChallenge = [] then ((UnsupportedAuthentication, mechanism', serverChallenge), e)
                else
                  let (titleStatus, e1) = SetCallingApplicationTitle strategy callingApplicationTitle e in
                  if titleStatus \<noteq> Ok then ((titleStatus, mechanism', serverChallenge), e1)
                  else
                    let (validStatus, e2) = ValidateInitialChallenge strategy mechanism' clientChallenge e1 in
                    if validStatus \<noteq> Ok then ((validStatus, mechanism', serverChallenge), e2)
                    else
                      let ((status, challenge), e3) = BuildResponseChallenge strategy mechanism' e2 in
                      if status \<noteq> Ok \<or> challenge = []
                        then ((if status = Ok then UnsupportedAuthentication else status, mechanism', challenge), e3)
                      else if length challenge > kMaxShortBerAuthenticationValueSize
                        then ((InvalidArgument, mechanism', challenge), e3)
                      else ((Ok, mechanism', challenge), e3))
      | _ \<Rightarrow> ((UnsupportedAuthentication, mechanism, serverChallenge), e))"

subsection \<open>Fields of the response\<close>

definition MakeAssociationResultField :: "u32 \<Rightarrow> bytes" where
  "MakeAssociationResultField result = [0xa2, 0x03, 0x02, 0x01, ucast (result AND 0xff)]"

definition MakeResultSourceDiagnosticField :: "u32 \<Rightarrow> bytes" where
  "MakeResultSourceDiagnosticField d = [0xa3, 0x05, 0xa1, 0x03, 0x02, 0x01, ucast (d AND 0xff)]"

definition AddRawField :: "bytes \<Rightarrow> AareApdu \<Rightarrow> AareApdu" where
  "AddRawField encoded a = a\<lparr>aareFields := aareFields a @ [raw_field encoded]\<rparr>"

subsection \<open>The object\<close>

record 'e AssociationServer =
  server_options :: "'e AssociationServerOptions"
  server_state :: AssociationState
  server_result :: AssociationResult
  highLevelSecurityMechanism :: HighLevelSecurityMechanism

definition AssociationServer_init :: "'e AssociationServerOptions \<Rightarrow> 'e AssociationServer" where
  "AssociationServer_init options =
     \<lparr>server_options = options, server_state = Closed, server_result = EmptyAssociationResult,
      highLevelSecurityMechanism = UnknownMechanism\<rparr>"

definition AssociationServer_ValidateOptions :: "'e AssociationServerOptions \<Rightarrow> AssociationStatus" where
  "AssociationServer_ValidateOptions options =
     (if server_applicationContext options \<noteq> LogicalNameNoCiphering then UnsupportedApplicationContext
      else if server_authenticationMode options = HighLevelSecurity \<and> server_highLevelSecurity options = None
        then UnsupportedAuthentication
      else if server_authenticationMode options = LowLevelSecurity \<and> server_lowLevelSecurityCredential options = []
        then UnsupportedAuthentication
      else if server_respondingApplicationTitle options \<noteq> []
          \<and> length (server_respondingApplicationTitle options) > kMaxShortBerAuthenticationValueSize
        then InvalidArgument
      else if server_negotiatedDlmsVersionNumber options = 0 \<or> server_serverMaxReceivePduSize options = 0
        then InvalidArgument
      else Ok)"

text \<open>The title of the first field with the tag of calling titles; no field leaves it empty.\<close>

definition calling_title :: "AcseRawField list \<Rightarrow> bytes option" where
  "calling_title fs = (case List.find (\<lambda>f. fieldTag f = kCallingApTitleTag) fs of
     None \<Rightarrow> Some [] | Some f \<Rightarrow> server_DecodeOctetStringField f kCallingApTitleTag)"

definition authenticate ::
    "AarqApdu \<Rightarrow> 'e AssociationServer \<Rightarrow> 'e \<Rightarrow> AssociationStatus \<times> 'e AssociationServer \<times> 'e" where
  "authenticate a s e =
     (case server_authenticationMode (server_options s) of
        NoAuthentication \<Rightarrow> (Ok, s, e)
      | LowLevelSecurity \<Rightarrow>
          (ValidateLowLevelSecurityAarq a (server_lowLevelSecurityCredential (server_options s)), s, e)
      | HighLevelSecurity \<Rightarrow>
          (case server_highLevelSecurity (server_options s) of
            None \<Rightarrow> (UnsupportedAuthentication, s, e)
          | Some strategy \<Rightarrow>
              let ((status, mechanism, challenge), e') = ValidateHighLevelSecurityAarq a strategy
                    (result_callingApplicationTitle (server_result s)) (highLevelSecurityMechanism s)
                    (result_highLevelSecurityServerChallenge (server_result s)) e
              in (status, s\<lparr>highLevelSecurityMechanism := mechanism,
                    server_result := (server_result s)\<lparr>result_highLevelSecurityServerChallenge := challenge\<rparr>\<rparr>, e')))"

definition AssociationServer_DecodeAarq ::
    "bytes \<Rightarrow> 'e AssociationServer \<Rightarrow> 'e \<Rightarrow> AssociationStatus \<times> 'e AssociationServer \<times> 'e" where
  "AssociationServer_DecodeAarq inp s e =
     (if inp = [] then (DecodeFailed, s, e)
      else case DecodeAcseApdu (View inp) of
        Inl _ \<Rightarrow> (DecodeFailed, s, e)
      | Inr apdu \<Rightarrow>
          if acseKind apdu \<noteq> Aarq then (DecodeFailed, s, e)
          else if server_authenticationMode (server_options s) = NoAuthentication \<and> HasAuthenticationFields (aarq apdu)
            then (UnsupportedAuthentication, s, e)
          else (case calling_title (aarqFields (aarq apdu)) of
            None \<Rightarrow> (DecodeFailed, s\<lparr>server_result := (server_result s)\<lparr>result_callingApplicationTitle := []\<rparr>\<rparr>, e)
          | Some title \<Rightarrow>
              let (status, s', e') = authenticate (aarq apdu)
                    (s\<lparr>server_result := (server_result s)\<lparr>result_callingApplicationTitle := title\<rparr>\<rparr>) e;
                  request = aarqInitiateRequest (aarq apdu)
              in
              if status \<noteq> Ok then (status, s', e')
              else if proposedDlmsVersionNumber request = 0 \<or> clientMaxReceivePduSize request = 0
                then (NegotiationFailed, s', e')
              else (Ok, s', e')))"

definition response_fields :: "'e AssociationServer \<Rightarrow> bytes list" where
  "response_fields s =
     [MakeAssociationResultField 0, MakeResultSourceDiagnosticField 0x0e]
     @ (if server_respondingApplicationTitle (server_options s) = [] then []
        else [MakeOctetStringField kRespondingApTitleTag (server_respondingApplicationTitle (server_options s))])
     @ (if server_authenticationMode (server_options s) = HighLevelSecurity
        then [MakeSenderAcseRequirementsField, MakeHighLevelSecurityMechanismField (highLevelSecurityMechanism s),
          MakeAuthenticationValueField kRespondingAuthenticationValueTag (result_highLevelSecurityServerChallenge (server_result s))]
        else [])"

definition AssociationServer_response :: "'e AssociationServer \<Rightarrow> AareApdu" where
  "AssociationServer_response s = foldl (\<lambda>a encoded. AddRawField encoded a)
     \<lparr>aareFields = [], hasResult = True, aareResult = 0, hasDiagnostic = True, diagnostic = 0x0e,
      aareInitiateResponse = \<lparr>hasNegotiatedQualityOfService = False, negotiatedQualityOfService = 0,
        negotiatedDlmsVersionNumber = server_negotiatedDlmsVersionNumber (server_options s),
        negotiatedConformance = server_negotiatedConformance (server_options s),
        serverMaxReceivePduSize = server_serverMaxReceivePduSize (server_options s),
        vaaName = server_vaaName (server_options s)\<rparr>\<rparr>
     (response_fields s)"

definition AssociationServer_BuildAare :: "'e AssociationServer \<Rightarrow> AssociationStatus + bytes" where
  "AssociationServer_BuildAare s =
     (case EncodeAcseApdu (AcseApdu_default\<lparr>acseKind := Aare, aare := AssociationServer_response s\<rparr>) of
        Inl _ \<Rightarrow> Inl EncodeFailed
      | Inr output \<Rightarrow> Inr output)"

definition AssociationServer_DecodeRlrq :: "bytes \<Rightarrow> AssociationStatus" where
  "AssociationServer_DecodeRlrq inp =
     (if inp = [] then DecodeFailed
      else case DecodeAcseApdu (View inp) of
        Inl _ \<Rightarrow> DecodeFailed
      | Inr apdu \<Rightarrow> if acseKind apdu \<noteq> Rlrq then DecodeFailed else Ok)"

definition AssociationServer_BuildRlre :: "AssociationStatus + bytes" where
  "AssociationServer_BuildRlre =
     (case EncodeAcseApdu (AcseApdu_default\<lparr>acseKind := Rlre\<rparr>) of Inl _ \<Rightarrow> Inl EncodeFailed | Inr output \<Rightarrow> Inr output)"

fun AssociationServer_Open ::
    "'e ApduChannel \<Rightarrow> 'e AssociationServer \<times> 'e \<Rightarrow> AssociationStatus \<times> 'e AssociationServer \<times> 'e" where
  "AssociationServer_Open ch (s, e) =
     (if server_state s \<noteq> Closed then (Ok, s, e)
      else let (status, e') = channel_Open ch e in
        if \<not> IsProfileOk status then (ChannelOpenFailed, s, e')
        else (Ok, s\<lparr>server_result := EmptyAssociationResult, highLevelSecurityMechanism := UnknownMechanism,
               server_state := Open\<rparr>, e'))"

fun AssociationServer_Close ::
    "'e ApduChannel \<Rightarrow> 'e AssociationServer \<times> 'e \<Rightarrow> AssociationStatus \<times> 'e AssociationServer \<times> 'e" where
  "AssociationServer_Close ch (s, e) =
     (if server_state s = Closed then (Ok, s, e)
      else let (status, e') = channel_Close ch e in
        if status \<noteq> ProfileStatus.Ok then (ChannelCloseFailed, s, e')
        else (Ok, s\<lparr>server_result := EmptyAssociationResult, highLevelSecurityMechanism := UnknownMechanism,
               server_state := Closed\<rparr>, e'))"

definition accepted_result :: "'e AssociationServerOptions \<Rightarrow> AssociationResult \<Rightarrow> AssociationResult" where
  "accepted_result options r = r\<lparr>result_hasAareResult := True, result_aareResult := 0, result_hasAareDiagnostic := True,
     result_aareDiagnostic := 0x0e, result_negotiatedDlmsVersionNumber := server_negotiatedDlmsVersionNumber options,
     result_negotiatedConformance := server_negotiatedConformance options,
     result_serverMaxReceivePduSize := server_serverMaxReceivePduSize options, result_vaaName := server_vaaName options\<rparr>"

fun AssociationServer_Accept ::
    "'e ApduChannel \<Rightarrow> 'e AssociationServer \<times> 'e \<Rightarrow> AssociationStatus \<times> 'e AssociationServer \<times> 'e" where
  "AssociationServer_Accept ch (s, e) =
     (let optionStatus = AssociationServer_ValidateOptions (server_options s) in
      if server_state s = Closed then (InvalidState, s, e)
      else if server_state s = Associated then (AlreadyAssociated, s, e)
      else if optionStatus \<noteq> Ok then (optionStatus, s, e)
      else
        let fresh = s\<lparr>server_state := Open, server_result := EmptyAssociationResult\<rparr>;
            ((receiveStatus, request), e1) = channel_ReceiveApdu ch e
        in
        if receiveStatus \<noteq> ProfileStatus.Ok then (ReceiveFailed, fresh, e1)
        else
          let (decodeStatus, s1, e2) = AssociationServer_DecodeAarq request fresh e1 in
          if decodeStatus \<noteq> Ok then (decodeStatus, s1, e2)
          else (case AssociationServer_BuildAare s1 of
            Inl buildStatus \<Rightarrow> (buildStatus, s1, e2)
          | Inr response \<Rightarrow>
              let (sendStatus, e3) = channel_SendApdu ch (MakeByteView response) e2 in
              if sendStatus \<noteq> ProfileStatus.Ok then (SendFailed, s1, e3)
              else (Ok, s1\<lparr>server_result := accepted_result (server_options s1) (server_result s1), server_state := Associated\<rparr>, e3)))"

fun SendRlreAndClose ::
    "'e ApduChannel \<Rightarrow> 'e AssociationServer \<times> 'e \<Rightarrow> AssociationStatus \<times> 'e AssociationServer \<times> 'e" where
  "SendRlreAndClose ch (s, e) =
     (if server_state s \<noteq> Associated then (InvalidState, s, e)
      else case AssociationServer_BuildRlre of
        Inl buildStatus \<Rightarrow> (buildStatus, s, e)
      | Inr response \<Rightarrow>
          let (sendStatus, e1) = channel_SendApdu ch (MakeByteView response) e in
          if sendStatus \<noteq> ProfileStatus.Ok then (SendFailed, s, e1)
          else
            let (closeStatus, e2) = channel_Close ch e1 in
            if closeStatus \<noteq> ProfileStatus.Ok then (ChannelCloseFailed, s, e2)
            else (Ok, s\<lparr>server_result := EmptyAssociationResult, server_state := Closed\<rparr>, e2))"

fun AssociationServer_Release_request ::
    "'e ApduChannel \<Rightarrow> bytes \<Rightarrow> 'e AssociationServer \<times> 'e \<Rightarrow> AssociationStatus \<times> 'e AssociationServer \<times> 'e" where
  "AssociationServer_Release_request ch request (s, e) =
     (let decodeStatus = AssociationServer_DecodeRlrq request in
      if server_state s \<noteq> Associated then (InvalidState, s, e)
      else if decodeStatus \<noteq> Ok then (decodeStatus, s, e)
      else SendRlreAndClose ch (s, e))"

fun AssociationServer_Release ::
    "'e ApduChannel \<Rightarrow> 'e AssociationServer \<times> 'e \<Rightarrow> AssociationStatus \<times> 'e AssociationServer \<times> 'e" where
  "AssociationServer_Release ch (s, e) =
     (if server_state s \<noteq> Associated then (InvalidState, s, e)
      else
        let ((receiveStatus, request), e1) = channel_ReceiveApdu ch e in
        if receiveStatus \<noteq> ProfileStatus.Ok then (ReceiveFailed, s, e1)
        else AssociationServer_Release_request ch request (s, e1))"

declare AssociationServer_Open.simps [simp del] AssociationServer_Close.simps [simp del]
  AssociationServer_Accept.simps [simp del] SendRlreAndClose.simps [simp del]
  AssociationServer_Release_request.simps [simp del] AssociationServer_Release.simps [simp del]

definition AssociationServer_IsAssociated :: "'e AssociationServer \<Rightarrow> bool" where
  "AssociationServer_IsAssociated s \<longleftrightarrow> server_state s = Associated"

end
