(* ===== verification/Apdu_AcseLaws.thy ===== *)
theory Apdu_AcseLaws
  imports Apdu_Acse
begin

text \<open>
  The laws of the ACSE codecs: what the decoders accept is a sequence of BER items around an initiate
  message, such structures make the round trip through the encoders, and one case in which a
  release APDU does not.
\<close>

subsection \<open>Readers that depend only on what they consume\<close>

definition local_read :: "'a reading \<Rightarrow> bool" where
  "local_read m \<longleftrightarrow> (\<forall>pre bs a r'. m (reader_at pre bs) = (Inr a, r') \<longrightarrow>
     (\<exists>cs ds. bs = cs @ ds \<and> r' = reader_at (pre @ cs) ds \<and> reads m cs a))"

lemma local_readE:
  assumes "local_read m" "m (reader_at pre bs) = (Inr a, r')"
  obtains cs ds where "bs = cs @ ds" "r' = reader_at (pre @ cs) ds" "reads m cs a"
  using assms unfolding local_read_def by blast

lemma local_ReadU8: "local_read ReadU8"
  unfolding local_read_def
proof (intro allI impI)
  fix pre bs a r' assume "ReadU8 (reader_at pre bs) = (Inr a, r')"
  then show "\<exists>cs ds. bs = cs @ ds \<and> r' = reader_at (pre @ cs) ds \<and> reads ReadU8 cs a"
    by (cases bs) (auto simp: ReadU8_at ReadU8_at_Nil intro: exI [of _ "[a]"])
qed

lemma local_ReadBytes: "local_read (ReadBytes n)"
  unfolding local_read_def
proof (intro allI impI)
  fix pre bs a r' assume r: "ReadBytes n (reader_at pre bs) = (Inr a, r')"
  then have "n \<le> length bs" by (auto simp: ReadBytes_def split: if_splits)
  then have "bs = take n bs @ drop n bs" "length (take n bs) = n" by simp_all
  with r ReadBytes_at [of "take n bs" n pre "drop n bs"]
  show "\<exists>cs ds. bs = cs @ ds \<and> r' = reader_at (pre @ cs) ds \<and> reads (ReadBytes n) cs a"
    by (intro exI [of _ "take n bs"] exI [of _ "drop n bs"]) (auto simp: reads_ReadBytes)
qed

lemma local_then:
  assumes "local_read m" "\<And>a. local_read (k a)"
  shows "local_read (try_then m k)"
  unfolding local_read_def
proof (intro allI impI)
  fix pre bs b r' assume "try_then m k (reader_at pre bs) = (Inr b, r')"
  then obtain a s where m: "m (reader_at pre bs) = (Inr a, s)" and k: "k a s = (Inr b, r')" by (rule try_then_InrE)
  from m obtain cs ds where 1: "bs = cs @ ds" "s = reader_at (pre @ cs) ds" "reads m cs a"
    by (rule local_readE [OF assms(1)])
  from k 1(2) obtain es fs where 2: "ds = es @ fs" "r' = reader_at ((pre @ cs) @ es) fs" "reads (k a) es b"
    by (auto elim: local_readE [OF assms(2) [of a]])
  with 1 show "\<exists>cs ds. bs = cs @ ds \<and> r' = reader_at (pre @ cs) ds \<and> reads (try_then m k) cs b"
    by (intro exI [of _ "cs @ es"] exI [of _ fs]) (simp add: reads_then)
qed

lemma local_yield [simp]: "local_read (yield a)" "local_read (refuse e)"
proof -
  have "\<exists>cs ds. bs = cs @ ds \<and> reader_at pre bs = reader_at (pre @ cs) ds \<and> reads (yield a) cs a" for pre bs
    by (rule exI [of _ "[]"], rule exI [of _ bs]) simp
  then show "local_read (yield a)" by (auto simp: local_read_def)
qed (simp add: local_read_def)

lemma local_if: "local_read m \<Longrightarrow> local_read n \<Longrightarrow> local_read (if b then m else n)"
  by simp

lemma local_ReadBerLength_loop: "local_read (ReadBerLength_loop n acc)"
  by (induction n arbitrary: acc) (auto intro!: local_then local_ReadU8)

lemma local_ReadBerLength: "local_read ReadBerLength"
  unfolding ReadBerLength_def Let_def
  by (intro local_then local_if local_ReadU8 local_ReadBerLength_loop local_yield)

lemma local_ReadBerTlv: "local_read ReadBerTlv"
  unfolding local_read_def
proof (intro allI impI)
  fix pre bs t r' assume t: "ReadBerTlv (reader_at pre bs) = (Inr t, r')"
  then obtain tag s where "ReadU8 (reader_at pre bs) = (Inr tag, s)" and k:
    "(if tag AND 0x1f = 0x1f then refuse UnsupportedFeature
        else try_then ReadBerLength (\<lambda>len. try_then (ReadBytes len) (\<lambda>value r'.
          (Inr \<lparr>tlvTag = tag, tlvValue = value, tlvHeaderSize = readerPosition r' - length pre - len\<rparr>, r')))) s = (Inr t, r')"
    unfolding ReadBerTlv_def Let_def reader_at_simps by (rule try_then_InrE)
  then obtain ds where 1: "bs = tag # ds" "s = reader_at (pre @ [tag]) ds" by (cases bs) (auto simp: ReadU8_at ReadU8_at_Nil)
  from k obtain len u where tag: "tag AND 0x1f \<noteq> 0x1f" and l: "ReadBerLength s = (Inr len, u)" and
    v: "try_then (ReadBytes len) (\<lambda>value r'. (Inr \<lparr>tlvTag = tag, tlvValue = value,
      tlvHeaderSize = readerPosition r' - length pre - len\<rparr>, r')) u = (Inr t, r')"
    by (auto split: if_splits elim: try_then_InrE)
  from l 1(2) obtain ls es where 2: "ds = ls @ es" "u = reader_at ((pre @ [tag]) @ ls) es" "reads ReadBerLength ls len"
    by (auto elim: local_readE [OF local_ReadBerLength])
  from v obtain x where b: "ReadBytes len u = (Inr x, r')"
    and tt: "t = \<lparr>tlvTag = tag, tlvValue = x, tlvHeaderSize = readerPosition r' - length pre - len\<rparr>"
    by (auto elim!: try_then_InrE)
  from b 2(2) obtain vs fs where 3: "es = vs @ fs" "r' = reader_at (((pre @ [tag]) @ ls) @ vs) fs" "reads (ReadBytes len) vs x"
    by (auto elim: local_readE [OF local_ReadBytes])
  then have vs: "vs = x" "length x = len"
    using reads_at [OF 3(3), of "[]" "[]"] by (auto simp: ReadBytes_def reader_at_def split: if_splits)
  have "reads ReadBerTlv (tag # ls @ x) t"
    using tag reads_at [OF 2(3)] reads_at [OF 3(3)] vs tt 3(2)
    by (simp add: reads_def ReadBerTlv_def Let_def try_then_def ReadU8_at)
  with 1 2 3 vs show "\<exists>cs ds. bs = cs @ ds \<and> r' = reader_at (pre @ cs) ds \<and> reads ReadBerTlv cs t"
    by (intro exI [of _ "tag # ls @ x"] exI [of _ fs]) simp
qed

subsection \<open>Sequences of items\<close>

text \<open>A raw field holds the encoding of one item with its tag.\<close>

definition field_reads :: "AcseRawField \<Rightarrow> BerTlv \<Rightarrow> bool" where
  "field_reads f tlv \<longleftrightarrow> (\<exists>bs. fieldEncoded f = View bs \<and> reads ReadBerTlv bs tlv \<and> tlvTag tlv = fieldTag f)"

definition fields_bytes :: "AcseRawField list \<Rightarrow> bytes" where
  "fields_bytes fs = concat (map (\<lambda>f. view_bytes (fieldEncoded f)) fs)"

lemma reads_item_nonempty: "reads ReadBerTlv bs tlv \<Longrightarrow> bs \<noteq> []"
  using reads_at [of ReadBerTlv bs tlv "[]" "[]"] by (auto dest!: ReadBerTlv_shrinks)

lemma element_at: "element (reader_at pre (bs @ rest)) (reader_at (pre @ bs) rest) tag = \<lparr>fieldTag = tag, fieldEncoded = View bs\<rparr>"
  by (simp add: element_def) (simp add: reader_at_def)

lemma for_each_item_at:
  assumes "reads ReadBerTlv bs tlv"
  shows "for_each_item body (reader_at pre (bs @ rest)) a =
    (case body tlv \<lparr>fieldTag = tlvTag tlv, fieldEncoded = View bs\<rparr> a of
       Inl status \<Rightarrow> Inl status
     | Inr a' \<Rightarrow> for_each_item body (reader_at (pre @ bs) rest) a')"
  by (subst for_each_item.simps) (simp add: reads_at [OF assms] reads_item_nonempty [OF assms] element_at)

lemma for_each_item_Nil [simp]: "for_each_item body (reader_at pre []) a = Inr a"
  by (subst for_each_item.simps) simp

text \<open>The body of a loop over fields and the items they hold.\<close>

fun fold_body :: "(BerTlv \<Rightarrow> AcseRawField \<Rightarrow> 'a \<Rightarrow> ApduStatus + 'a) \<Rightarrow> (AcseRawField \<times> BerTlv) list \<Rightarrow> 'a \<Rightarrow> ApduStatus + 'a" where
  "fold_body body [] a = Inr a"
| "fold_body body ((f, tlv) # xs) a = (case body tlv f a of Inl status \<Rightarrow> Inl status | Inr a' \<Rightarrow> fold_body body xs a')"

lemma for_each_item_fields:
  assumes "\<forall>(f, tlv) \<in> set xs. field_reads f tlv"
  shows "for_each_item body (reader_at pre (fields_bytes (map fst xs) @ rest)) a =
    (case fold_body body xs a of
       Inl status \<Rightarrow> Inl status
     | Inr a' \<Rightarrow> for_each_item body (reader_at (pre @ fields_bytes (map fst xs)) rest) a')"
  using assms
proof (induction xs arbitrary: pre a)
  case (Cons x xs)
  obtain f tlv where x: "x = (f, tlv)" by fastforce
  with Cons.prems obtain bs where f: "fieldEncoded f = View bs" "reads ReadBerTlv bs tlv" "tlvTag tlv = fieldTag f"
    by (auto simp: field_reads_def)
  then have "\<lparr>fieldTag = tlvTag tlv, fieldEncoded = View bs\<rparr> = f" by simp
  note step = for_each_item_at [OF f(2), of body pre "fields_bytes (map fst xs) @ rest" a, unfolded this]
  have "fields_bytes (map fst (x # xs)) = bs @ fields_bytes (map fst xs)" by (simp add: fields_bytes_def x f(1))
  with step Cons x show ?case by (simp split: sum.split)
qed (simp add: fields_bytes_def)

text \<open>Every run of a loop is such a fold over items that fill the input.\<close>

lemma for_each_item_Inr:
  assumes "for_each_item body (reader_at pre bs) a = Inr a'"
  obtains xs where "\<forall>(f, tlv) \<in> set xs. field_reads f tlv" "bs = fields_bytes (map fst xs)" "fold_body body xs a = Inr a'"
proof -
  have "\<exists>xs. (\<forall>(f, tlv) \<in> set xs. field_reads f tlv) \<and> bs = fields_bytes (map fst xs) \<and> fold_body body xs a = Inr a'"
    using assms
  proof (induction "length bs" arbitrary: bs pre a rule: less_induct)
    case less
    show ?case
    proof (cases "bs = []")
      case True
      with less.prems show ?thesis by (intro exI [of _ "[]"]) (simp add: fields_bytes_def)
    next
      case False
      then obtain tlv r' where "ReadBerTlv (reader_at pre bs) = (Inr tlv, r')"
        using less.prems by (subst (asm) for_each_item.simps) (auto split: sum.splits prod.splits)
      then obtain cs ds where 1: "bs = cs @ ds" "reads ReadBerTlv cs tlv" by (rule local_readE [OF local_ReadBerTlv])
      let ?f = "\<lparr>fieldTag = tlvTag tlv, fieldEncoded = View cs\<rparr>"
      from less.prems for_each_item_at [OF 1(2), of body pre ds a] 1(1) obtain b where
        b: "body tlv ?f a = Inr b" "for_each_item body (reader_at (pre @ cs) ds) b = Inr a'" by (auto split: sum.splits)
      with less.hyps [of ds] 1 reads_item_nonempty [OF 1(2)] obtain xs where
        "\<forall>(f, tlv) \<in> set xs. field_reads f tlv" "ds = fields_bytes (map fst xs)" "fold_body body xs b = Inr a'" by force
      with b(1) 1 show ?thesis
        by (intro exI [of _ "(?f, tlv) # xs"]) (auto simp: fields_bytes_def field_reads_def)
    qed
  qed
  with that show thesis by blast
qed

subsection \<open>Writing an association APDU\<close>

definition user_information :: "bytes \<Rightarrow> bytes" where
  "user_information x = tlv_bytes kUserInformationTag (tlv_bytes kAcseOctetStringTag x)"

definition association_value :: "AcseRawField list \<Rightarrow> bytes \<Rightarrow> bytes" where
  "association_value fs x = fields_bytes fs @ user_information x"

text \<open>The intermediate buffers of the encoders.\<close>

definition association_fits :: "AcseRawField list \<Rightarrow> bytes \<Rightarrow> bool" where
  "association_fits fs x \<longleftrightarrow> length x \<le> 256 \<and> length (association_value fs x) \<le> 1024"

definition field_ok :: "AcseRawField \<Rightarrow> bool" where
  "field_ok f \<longleftrightarrow> fieldTag f \<noteq> kUserInformationTag \<and> (\<exists>tlv. field_reads f tlv)"

lemma field_ok_view: "field_ok f \<Longrightarrow> \<not> bad_view (fieldEncoded f) \<and> fieldTag f \<noteq> kUserInformationTag"
  by (auto simp: field_ok_def field_reads_def bad_view_def)

lemma writes_field: "\<not> bad_view (fieldEncoded f) \<Longrightarrow> writes (CopyRawField f) (view_bytes (fieldEncoded f))"
  using writes_WriteBytes [of "fieldEncoded f"] by (simp add: writes_def CopyRawField_def)

lemma writes_fields: "\<forall>f \<in> set fs. field_ok f \<Longrightarrow> writes (copy_fields fs) (fields_bytes fs)"
proof (induction fs)
  case (Cons f fs)
  then have "writes (try_then (CopyRawField f) (\<lambda>_. copy_fields fs)) (view_bytes (fieldEncoded f) @ fields_bytes fs)"
    using field_ok_view [of f] by (intro writes_then writes_field) simp_all
  with Cons field_ok_view [of f] show ?case by (simp add: fields_bytes_def)
qed (simp add: fields_bytes_def)

lemma tag_numbers: "kUserInformationTag AND 0x1f \<noteq> 0x1f" "kAcseOctetStringTag AND 0x1f \<noteq> 0x1f" "kReleaseReasonTag AND 0x1f \<noteq> 0x1f"
  "kAarqTag AND 0x1f \<noteq> 0x1f" "kAareTag AND 0x1f \<noteq> 0x1f" "kRlrqTag AND 0x1f \<noteq> 0x1f" "kRlreTag AND 0x1f \<noteq> 0x1f"
  by (simp_all add: acse_tags)

lemma view_View [simp]: "\<not> bad_view (View bs)"
  by (simp add: bad_view_def)

lemma length_tlv_bytes_small: "length v \<le> 0x10000 \<Longrightarrow> length (tlv_bytes tag v) \<le> length v + 5"
  using octet_count_le [of "length v" 3] by (auto simp: tlv_bytes_def length_length_bytes AxdrLengthEncodedSize_def)

lemma writes_user_information:
  assumes "length x \<le> 256"
  shows "writes (WriteUserInformation x) (user_information x)"
proof -
  have "length (tlv_bytes kAcseOctetStringTag x) \<le> 512" using length_tlv_bytes_small [of x kAcseOctetStringTag] assms by simp
  with writes_fresh [OF writes_tlv [OF tag_numbers(2), of "View x"], of 512]
  have "WriteUserInformation x = WriteBerTlv kUserInformationTag (View (tlv_bytes kAcseOctetStringTag x))"
    by (simp add: fun_eq_iff WriteUserInformation_def ApduWriter_init_def)
  then show ?thesis
    using writes_tlv [OF tag_numbers(1), of "View (tlv_bytes kAcseOctetStringTag x)"] by (simp add: user_information_def)
qed

lemma EncodeAssociation_writer:
  assumes "\<forall>f \<in> set fs. field_ok f" "length x \<le> 256"
  shows "if length (association_value fs x) \<le> 1024
    then EncodeAssociation tag fs x = WriteBerTlv tag (View (association_value fs x))
    else fst (EncodeAssociation tag fs x w) = Inl OutputBufferTooSmall"
proof -
  have w: "writes (try_then (copy_fields fs) (\<lambda>_. WriteUserInformation x)) (association_value fs x)"
    unfolding association_value_def by (intro writes_then writes_fields writes_user_information assms)
  show ?thesis
    using writes_fresh [OF w, of 1024] writes_fresh_full [OF w, of 1024]
    by (auto simp: fun_eq_iff EncodeAssociation_def ApduWriter_init_def split: prod.split sum.split)
qed

text \<open>Reading the whole item and the user information in it.\<close>

lemma ReadSingleTlv_bytes:
  assumes "tag AND 0x1f \<noteq> 0x1f" "length v < size_t_modulus"
  shows "ReadSingleTlv (View (tlv_bytes tag v)) tag = Inr \<lparr>tlvTag = tag, tlvValue = v, tlvHeaderSize = 1 + AxdrLengthEncodedSize (length v)\<rparr>"
  using ReadBerTlv_at [OF assms, of "[]" "[]"] by (simp add: ReadSingleTlv_def ApduReader_init_at)

lemma ReadUserInformation_bytes:
  assumes "length x < size_t_modulus"
  shows "ReadUserInformation kUserInformationTag (tlv_bytes kAcseOctetStringTag x) b = Inr x"
  using ReadBerTlv_at [OF tag_numbers(2) assms, of "[]" "[]"]
  by (simp add: ReadUserInformation_def ApduReader_init_at Let_def tlv_bytes_def length_length_bytes)

lemma reads_user_information:
  assumes "length x \<le> 256"
  shows "reads ReadBerTlv (user_information x) \<lparr>tlvTag = kUserInformationTag, tlvValue = tlv_bytes kAcseOctetStringTag x,
    tlvHeaderSize = 1 + AxdrLengthEncodedSize (length (tlv_bytes kAcseOctetStringTag x))\<rparr>"
  using ReadBerTlv_at [OF tag_numbers(1)] length_tlv_bytes_small [of x kAcseOctetStringTag] assms
  by (simp add: reads_def user_information_def size_t_modulus_def)

lemma decode_association:
  assumes xs: "\<forall>(f, tlv) \<in> set xs. field_reads f tlv" "fold_body body xs a = Inr b"
    and x: "length x \<le> 256"
    and last: "\<And>f child. tlvTag child = kUserInformationTag \<Longrightarrow>
      ReadUserInformation (tlvTag child) (tlvValue child) False = Inr x \<Longrightarrow> body child f b = Inr c"
  shows "for_each_item body (ApduReader_init (View (association_value (map fst xs) x))) a = Inr c"
proof -
  have "ReadUserInformation kUserInformationTag (tlv_bytes kAcseOctetStringTag x) False = Inr x"
    using x by (intro ReadUserInformation_bytes) (simp add: size_t_modulus_def)
  with for_each_item_fields [OF xs(1), of body "[]" "user_information x" a] xs(2)
    for_each_item_at [OF reads_user_information [OF x], of body "fields_bytes (map fst xs)" "[]" b] last
  show ?thesis by (simp add: ApduReader_init_at association_value_def)
qed

subsection \<open>AARQ and AARE\<close>

definition aarq_wf :: "AarqApdu \<Rightarrow> bool" where
  "aarq_wf a \<longleftrightarrow> (\<forall>f \<in> set (aarqFields a). field_ok f) \<and> initiate_request_wf (aarqInitiateRequest a)"

text \<open>The result and the diagnostic of a response are those of its fields.\<close>

definition aare_wf :: "AareApdu \<Rightarrow> bool" where
  "aare_wf a \<longleftrightarrow> initiate_response_wf (aareInitiateResponse a)
     \<and> (\<exists>xs. map fst xs = aareFields a \<and> (\<forall>(f, tlv) \<in> set xs. field_reads f tlv \<and> fieldTag f \<noteq> kUserInformationTag)
          \<and> fold_body DecodeAare_item xs (AareApdu_default, False)
              = Inr (a\<lparr>aareInitiateResponse := InitiateResponse_zero\<rparr>, False))"

lemma fold_aarq_fields:
  "\<forall>(f, tlv) \<in> set xs. field_reads f tlv \<and> fieldTag f \<noteq> kUserInformationTag \<Longrightarrow>
   fold_body DecodeAarq_item xs (a, h) = Inr (a\<lparr>aarqFields := aarqFields a @ map fst xs\<rparr>, h)"
proof (induction xs arbitrary: a)
  case (Cons x xs)
  then show ?case by (cases x) (auto simp: field_reads_def)
qed simp

lemma fold_aarq_Inr:
  assumes "fold_body DecodeAarq_item xs (a, h) = Inr (b, h')" "\<forall>(f, tlv) \<in> set xs. field_reads f tlv"
    and "\<forall>f \<in> set (aarqFields a). field_ok f" "h \<longrightarrow> initiate_request_wf (aarqInitiateRequest a)"
  shows "(\<forall>f \<in> set (aarqFields b). field_ok f) \<and> (h' \<longrightarrow> initiate_request_wf (aarqInitiateRequest b))"
  using assms
proof (induction xs arbitrary: a h)
  case (Cons x xs)
  obtain f tlv where x: "x = (f, tlv)" by fastforce
  with Cons.prems have f: "field_reads f tlv" "tlvTag tlv = fieldTag f" by (auto simp: field_reads_def)
  show ?case
  proof (cases "fieldTag f = kUserInformationTag")
    case True
    with Cons.prems x f obtain m where "fold_body DecodeAarq_item xs (a\<lparr>aarqInitiateRequest := m\<rparr>, True) = Inr (b, h')"
      "initiate_request_wf m"
      by (auto simp: DecodeInitiate_decode_with split: sum.splits dest: initiate_requestc.msg.decode_wf)
    then show ?thesis using Cons.prems by (intro Cons.IH [of "a\<lparr>aarqInitiateRequest := m\<rparr>" True]) auto
  next
    case False
    with f have "field_ok f" by (auto simp: field_ok_def)
    with False Cons.prems x f show ?thesis
      by (intro Cons.IH [of "a\<lparr>aarqFields := aarqFields a @ [f]\<rparr>" h]) (auto )
  qed
qed auto

text \<open>The initiate response does not influence the other parts of an AARE.\<close>

lemma read_result_response:
  "read_result t v (a\<lparr>aareInitiateResponse := m\<rparr>) = decoded (read_result t v a) (\<lambda>b. b\<lparr>aareInitiateResponse := m\<rparr>)"
  by (simp add: read_result_def split: sum.split)

lemma read_result_keeps:
  "read_result t v a = Inr b \<Longrightarrow> aareFields b = aareFields a \<and> aareInitiateResponse b = aareInitiateResponse a"
  "read_result kUserInformationTag v a = Inr a"
  by (auto simp: read_result_def acse_tags split: if_splits sum.splits)

lemma aare_updates: "(c :: AareApdu)\<lparr>aareInitiateResponse := z, aareFields := fs\<rparr> = c\<lparr>aareFields := fs, aareInitiateResponse := z\<rparr>"
  by (cases c) simp

lemma fold_aare_Inr:
  assumes "fold_body DecodeAare_item xs (a, h) = Inr (b, h')" "\<forall>(f, tlv) \<in> set xs. field_reads f tlv"
    and "h \<longrightarrow> initiate_response_wf (aareInitiateResponse a)"
  shows "fold_body DecodeAare_item (filter (\<lambda>x. fieldTag (fst x) \<noteq> kUserInformationTag) xs)
      (a\<lparr>aareInitiateResponse := z\<rparr>, False) = Inr (b\<lparr>aareInitiateResponse := z\<rparr>, False)
    \<and> aareFields b = aareFields a @ map fst (filter (\<lambda>x. fieldTag (fst x) \<noteq> kUserInformationTag) xs)
    \<and> (h' \<longrightarrow> initiate_response_wf (aareInitiateResponse b))"
  using assms
proof (induction xs arbitrary: a h)
  case (Cons x xs)
  obtain f tlv where x: "x = (f, tlv)" by fastforce
  with Cons.prems have f: "field_reads f tlv" "tlvTag tlv = fieldTag f" by (auto simp: field_reads_def)
  show ?case
  proof (cases "fieldTag f = kUserInformationTag")
    case True
    with Cons.prems x f obtain m where "fold_body DecodeAare_item xs (a\<lparr>aareInitiateResponse := m\<rparr>, True) = Inr (b, h')"
      "initiate_response_wf m"
      by (auto simp: read_result_keeps DecodeInitiate_decode_with split: sum.splits dest: initiate_responsec.msg.decode_wf)
    with Cons.prems True x Cons.IH [of "a\<lparr>aareInitiateResponse := m\<rparr>" True] show ?thesis by auto
  next
    case False
    with Cons.prems x f obtain c where c: "read_result (fieldTag f) (tlvValue tlv) a = Inr c"
      "fold_body DecodeAare_item xs (c\<lparr>aareFields := aareFields c @ [f]\<rparr>, h) = Inr (b, h')"
      by (auto split: sum.splits)
    note keeps = read_result_keeps(1) [OF c(1)]
    with c Cons.prems False x f Cons.IH [of "c\<lparr>aareFields := aareFields c @ [f]\<rparr>" h] show ?thesis
      by (auto simp: read_result_response aare_updates)
  qed
qed auto

lemma aarq_decode_wf:
  assumes "DecodeAarq v = Inr a"
  shows "aarq_wf a"
proof -
  from assms obtain bs where "for_each_item DecodeAarq_item (reader_at [] bs) (AarqApdu_default, False) = Inr (a, True)"
    by (auto simp: DecodeAarq_def ApduReader_init_at split: sum.splits if_splits)
  then obtain xs where "\<forall>(f, tlv) \<in> set xs. field_reads f tlv"
    "fold_body DecodeAarq_item xs (AarqApdu_default, False) = Inr (a, True)" by (rule for_each_item_Inr)
  from fold_aarq_Inr [OF this(2,1)] show ?thesis by (simp add: aarq_wf_def AarqApdu_default_def)
qed

lemma aare_decode_wf:
  assumes "DecodeAare v = Inr a"
  shows "aare_wf a"
proof -
  from assms obtain bs where "for_each_item DecodeAare_item (reader_at [] bs) (AareApdu_default, False) = Inr (a, True)"
    by (auto simp: DecodeAare_def ApduReader_init_at split: sum.splits if_splits)
  then obtain xs where xs: "\<forall>(f, tlv) \<in> set xs. field_reads f tlv"
    "fold_body DecodeAare_item xs (AareApdu_default, False) = Inr (a, True)" by (rule for_each_item_Inr)
  have "AareApdu_default\<lparr>aareInitiateResponse := InitiateResponse_zero\<rparr> = AareApdu_default" by (simp add: AareApdu_default_def)
  with fold_aare_Inr [OF xs(2,1), of InitiateResponse_zero] xs(1) show ?thesis
    unfolding aare_wf_def
    by (intro conjI exI [of _ "filter (\<lambda>x. fieldTag (fst x) \<noteq> kUserInformationTag) xs"])
       (auto simp: AareApdu_default_def split: prod.splits)
qed

subsection \<open>Encoding\<close>

definition aarq_bytes :: "AarqApdu \<Rightarrow> bytes" where
  "aarq_bytes a = tlv_bytes kAarqTag (association_value (aarqFields a) (initiate_request_bytes (aarqInitiateRequest a)))"

definition aare_bytes :: "AareApdu \<Rightarrow> bytes" where
  "aare_bytes a = tlv_bytes kAareTag (association_value (aareFields a) (initiate_response_bytes (aareInitiateResponse a)))"

lemma aarq_decode_bytes:
  assumes wf: "aarq_wf a" and fits: "association_fits (aarqFields a) (initiate_request_bytes (aarqInitiateRequest a))"
  shows "DecodeAarq (View (aarq_bytes a)) = Inr a"
proof -
  let ?x = "initiate_request_bytes (aarqInitiateRequest a)"
  have "\<forall>f \<in> set (aarqFields a). \<exists>tlv. field_reads f tlv \<and> fieldTag f \<noteq> kUserInformationTag"
    using wf by (auto simp: aarq_wf_def field_ok_def)
  then obtain g where g: "\<forall>f \<in> set (aarqFields a). field_reads f (g f) \<and> fieldTag f \<noteq> kUserInformationTag" by metis
  let ?xs = "map (\<lambda>f. (f, g f)) (aarqFields a)"
  have fst_xs: "map fst ?xs = aarqFields a" by (simp add: comp_def)
  have "for_each_item DecodeAarq_item (ApduReader_init (View (association_value (map fst ?xs) ?x))) (AarqApdu_default, False)
      = Inr (AarqApdu_default\<lparr>aarqFields := aarqFields a, aarqInitiateRequest := aarqInitiateRequest a\<rparr>, True)"
  proof (rule decode_association)
    show "\<forall>(f, tlv) \<in> set ?xs. field_reads f tlv" using g by auto
    show "fold_body DecodeAarq_item ?xs (AarqApdu_default, False) = Inr (AarqApdu_default\<lparr>aarqFields := aarqFields a\<rparr>, False)"
      using fold_aarq_fields [of ?xs AarqApdu_default False] g by (auto simp: AarqApdu_default_def comp_def)
    show "length ?x \<le> 256" using fits by (simp add: association_fits_def)
    show "DecodeAarq_item child f (AarqApdu_default\<lparr>aarqFields := aarqFields a\<rparr>, False) =
        Inr (AarqApdu_default\<lparr>aarqFields := aarqFields a, aarqInitiateRequest := aarqInitiateRequest a\<rparr>, True)"
      if "tlvTag child = kUserInformationTag" "ReadUserInformation (tlvTag child) (tlvValue child) False = Inr ?x" for f child
      using that wf initiate_requestc.msg.decode_enc [of "aarqInitiateRequest a"]
      by (simp add: aarq_wf_def DecodeInitiate_decode_with)
  qed
  note loop = this [unfolded fst_xs]
  have "AarqApdu_default\<lparr>aarqFields := aarqFields a, aarqInitiateRequest := aarqInitiateRequest a\<rparr> = a"
    by (cases a) (simp add: AarqApdu_default_def)
  with loop show ?thesis
    using ReadSingleTlv_bytes [OF tag_numbers(4), of "association_value (aarqFields a) ?x"] fits
    by (simp add: DecodeAarq_def aarq_bytes_def association_fits_def size_t_modulus_def)
qed

lemma aare_decode_bytes:
  assumes wf: "aare_wf a" and fits: "association_fits (aareFields a) (initiate_response_bytes (aareInitiateResponse a))"
  shows "DecodeAare (View (aare_bytes a)) = Inr a"
proof -
  let ?x = "initiate_response_bytes (aareInitiateResponse a)"
  from wf obtain xs where xs: "map fst xs = aareFields a"
    "\<forall>(f, tlv) \<in> set xs. field_reads f tlv \<and> fieldTag f \<noteq> kUserInformationTag"
    "fold_body DecodeAare_item xs (AareApdu_default, False) = Inr (a\<lparr>aareInitiateResponse := InitiateResponse_zero\<rparr>, False)"
    and r: "initiate_response_wf (aareInitiateResponse a)"
    by (auto simp: aare_wf_def)
  have "for_each_item DecodeAare_item (ApduReader_init (View (association_value (map fst xs) ?x))) (AareApdu_default, False)
      = Inr (a, True)"
  proof (rule decode_association [OF _ xs(3)])
    show "\<forall>(f, tlv) \<in> set xs. field_reads f tlv" using xs(2) by auto
    show "length ?x \<le> 256" using fits by (simp add: association_fits_def)
    show "DecodeAare_item child f (a\<lparr>aareInitiateResponse := InitiateResponse_zero\<rparr>, False) = Inr (a, True)"
      if "tlvTag child = kUserInformationTag" "ReadUserInformation (tlvTag child) (tlvValue child) False = Inr ?x" for f child
      using that r initiate_responsec.msg.decode_enc [of "aareInitiateResponse a"]
      by (simp add: read_result_keeps DecodeInitiate_decode_with)
  qed
  then show ?thesis
    using ReadSingleTlv_bytes [OF tag_numbers(5), of "association_value (aareFields a) ?x"] fits xs(1)
    by (simp add: DecodeAare_def aare_bytes_def association_fits_def size_t_modulus_def)
qed

lemma EncodeAarq_writer:
  assumes wf: "aarq_wf a"
  defines "x \<equiv> initiate_request_bytes (aarqInitiateRequest a)"
  shows "if association_fits (aarqFields a) x then EncodeAarq a = WriteBerTlv kAarqTag (View (association_value (aarqFields a) x))
    else fst (EncodeAarq a w) = Inl OutputBufferTooSmall"
proof -
  have w: "writes (EncodeInitiateRequest (aarqInitiateRequest a)) x"
    unfolding x_def using wf by (intro initiate_requestc.wr_writes) (simp add: aarq_wf_def)
  show ?thesis
  proof (cases "length x \<le> 256")
    case True
    with writes_fresh [OF w True] have "EncodeAarq a = EncodeAssociation kAarqTag (aarqFields a) x"
      by (simp add: fun_eq_iff EncodeAarq_def ApduWriter_init_def)
    with EncodeAssociation_writer [of "aarqFields a" x kAarqTag w] True wf show ?thesis
      by (auto simp: aarq_wf_def association_fits_def)
  next
    case False
    with writes_fresh_full [OF w, of 256] show ?thesis
      by (auto simp: EncodeAarq_def association_fits_def split: sum.split prod.split)
  qed
qed

lemma EncodeAare_writer:
  assumes wf: "aare_wf a"
  defines "x \<equiv> initiate_response_bytes (aareInitiateResponse a)"
  shows "if association_fits (aareFields a) x then EncodeAare a = WriteBerTlv kAareTag (View (association_value (aareFields a) x))
    else fst (EncodeAare a w) = Inl OutputBufferTooSmall"
proof -
  have w: "writes (EncodeInitiateResponse (aareInitiateResponse a)) x"
    unfolding x_def using wf by (intro initiate_responsec.wr_writes) (simp add: aare_wf_def)
  from wf obtain xs where xs: "map fst xs = aareFields a"
    "\<forall>(f, tlv) \<in> set xs. field_reads f tlv \<and> fieldTag f \<noteq> kUserInformationTag" by (auto simp: aare_wf_def)
  then have "\<forall>f \<in> set (aareFields a). field_ok f" unfolding xs(1) [symmetric] by (fastforce simp: field_ok_def)
  show ?thesis
  proof (cases "length x \<le> 256")
    case True
    with writes_fresh [OF w True] have "EncodeAare a = EncodeAssociation kAareTag (aareFields a) x"
      by (simp add: fun_eq_iff EncodeAare_def ApduWriter_init_def)
    with EncodeAssociation_writer [OF \<open>\<forall>f \<in> set (aareFields a). field_ok f\<close> True, of kAareTag w] True show ?thesis
      by (auto simp: association_fits_def)
  next
    case False
    with writes_fresh_full [OF w, of 256] show ?thesis
      by (auto simp: EncodeAare_def association_fits_def split: sum.split prod.split)
  qed
qed

subsection \<open>Releases\<close>

text \<open>
  A release whose fields carry neither a reason nor user information: the reason, when there is one,
  is written after the fields, and is a field itself in the decoded structure.
\<close>

definition plain_field :: "AcseRawField \<Rightarrow> bool" where
  "plain_field f \<longleftrightarrow> fieldTag f \<noteq> kUserInformationTag \<and> fieldTag f \<noteq> kReleaseReasonTag \<and> (\<exists>tlv. field_reads f tlv)"

definition reason_field :: "u32 \<Rightarrow> AcseRawField" where
  "reason_field v = \<lparr>fieldTag = kReleaseReasonTag, fieldEncoded = View (tlv_bytes kReleaseReasonTag [ucast (v AND 0xff)])\<rparr>"

definition reason_fields :: "'i ReleaseApdu \<Rightarrow> AcseRawField list" where
  "reason_fields a = (if hasReason a then [reason_field (reason a)] else [])"

definition release_value :: "'i ReleaseApdu \<Rightarrow> bytes" where
  "release_value a = fields_bytes (releaseFields a @ reason_fields a)"

definition release_wf :: "'i \<Rightarrow> 'i ReleaseApdu \<Rightarrow> bool" where
  "release_wf z a \<longleftrightarrow> (\<forall>f \<in> set (releaseFields a). plain_field f) \<and> releaseInitiate a = z
     \<and> (if hasReason a then - 128 \<le> sint (reason a) \<and> sint (reason a) \<le> 127 else reason a = 0)"

lemma writes_release_fields:
  "\<forall>f \<in> set fs. plain_field f \<Longrightarrow> writes (copy_release_fields b fs) (fields_bytes fs)"
proof (induction fs)
  case (Cons f fs)
  then have "\<not> bad_view (fieldEncoded f)" by (auto simp: plain_field_def field_reads_def bad_view_def)
  with writes_then [OF writes_field Cons.IH, of f] Cons.prems show ?case
    by (auto simp: plain_field_def fields_bytes_def)
qed (simp add: fields_bytes_def)

lemma writes_release_value:
  assumes "release_wf z a"
  shows "writes (try_then (copy_release_fields (hasReason a) (releaseFields a)) (\<lambda>_.
      if hasReason a then WriteReleaseReason (reason a) else yield ())) (release_value a)"
proof -
  have "writes (if hasReason a then WriteReleaseReason (reason a) else yield ()) (fields_bytes (reason_fields a))"
    using assms writes_tlv [OF tag_numbers(3), of "View [ucast (reason a AND 0xff)]"]
    by (auto simp: reason_fields_def reason_field_def fields_bytes_def WriteReleaseReason_def release_wf_def)
  with writes_then [OF writes_release_fields this] assms show ?thesis
    by (simp add: release_wf_def release_value_def fields_bytes_def)
qed

lemma EncodeRelease_writer:
  assumes "release_wf z a"
  shows "if length (release_value a) \<le> 256 then EncodeRelease tag a = WriteBerTlv tag (View (release_value a))
    else fst (EncodeRelease tag a w) = Inl OutputBufferTooSmall"
  using writes_fresh [OF writes_release_value [OF assms], of 256] writes_fresh_full [OF writes_release_value [OF assms], of 256]
  by (auto simp: fun_eq_iff EncodeRelease_def ApduWriter_init_def split: prod.split sum.split)

text \<open>The sign extension of a byte.\<close>

lemma sign_extended_byte:
  "(if b AND 0x80 \<noteq> 0 then ucast b OR push_bit 8 (- 1) else ucast b) = (scast (b :: u8) :: u32)"
proof (rule bit_word_eqI)
  fix n assume n: "n < LENGTH(32)"
  have "b AND 0x80 \<noteq> 0 \<longleftrightarrow> bit b 7"
    using and_exp_eq_0_iff_not_bit [of b 7] by simp
  then show "bit (if b AND 0x80 \<noteq> 0 then ucast b OR push_bit 8 (- 1) else ucast b :: u32) n = bit (scast b :: u32) n"
    using n by (cases "n < 7"; cases "n = 7") (auto simp: bit_simps min_def dest: bit_imp_le_length)
qed

lemma ReadPrimitiveIntegerValue_byte:
  assumes "- 128 \<le> sint v" "sint v \<le> 127"
  shows "ReadPrimitiveIntegerValue [ucast (v AND 0xff)] = Inr v"
proof -
  have low: "(ucast (v AND 0xff) :: u8) = ucast v"
  proof -
    have "v AND 0xff = take_bit 8 v" by (simp add: take_bit_eq_mask mask_eq_exp_minus_1)
    then show ?thesis by (simp add: bit_eq_iff) (auto simp: bit_simps)
  qed
  have "sint (ucast v :: u8) = signed_take_bit 7 (sint v)"
    by (rule bit_eqI) (auto simp: bit_simps min_def)
  also have "\<dots> = sint v" using assms by (simp add: signed_take_bit_int_eq_self)
  finally have "(scast (ucast v :: u8) :: u32) = v" by (simp add: scast_eq)
  then show ?thesis
    using sign_extended_byte [of "ucast v"] by (auto simp: ReadPrimitiveIntegerValue_def low Let_def split: if_splits)
qed

text \<open>One turn of the loop, and the loop over plain fields.\<close>

lemma DecodeRelease_loop_at:
  assumes "reads ReadBerTlv bs tlv" "tlvTag tlv \<noteq> kUserInformationTag"
  shows "\<exists>n. DecodeRelease_loop d vs (reader_at pre (bs @ rest)) a start =
    (case read_release_child d (tlvTag tlv) (tlvValue tlv) a of
       Inl status \<Rightarrow> Inl status
     | Inr b \<Rightarrow> DecodeRelease_loop d vs (reader_at (pre @ bs) rest)
         (b\<lparr>releaseFields := releaseFields b @ [\<lparr>fieldTag = tlvTag tlv, fieldEncoded = View bs\<rparr>]\<rparr>) n)"
  by (subst DecodeRelease_loop.simps)
     (auto simp: ReadReleaseElement_def try_then_def reads_at [OF assms(1)] reads_item_nonempty [OF assms(1)] element_at assms(2)
       split: sum.split)

lemma DecodeRelease_loop_Nil [simp]: "DecodeRelease_loop d vs (reader_at pre []) a start = Inr a"
  by (subst DecodeRelease_loop.simps) simp

lemma DecodeRelease_loop_fields:
  "\<forall>f \<in> set fs. plain_field f \<Longrightarrow>
   \<exists>n. DecodeRelease_loop d vs (reader_at pre (fields_bytes fs @ rest)) a start =
       DecodeRelease_loop d vs (reader_at (pre @ fields_bytes fs) rest) (a\<lparr>releaseFields := releaseFields a @ fs\<rparr>) n"
proof (induction fs arbitrary: pre a start)
  case (Cons f fs)
  then obtain bs tlv where f: "fieldEncoded f = View bs" "reads ReadBerTlv bs tlv" "tlvTag tlv = fieldTag f"
    and plain: "fieldTag f \<noteq> kUserInformationTag" "fieldTag f \<noteq> kReleaseReasonTag"
    by (auto simp: plain_field_def field_reads_def)
  then have f_eq: "\<lparr>fieldTag = tlvTag tlv, fieldEncoded = View bs\<rparr> = f" by simp
  have "read_release_child d (tlvTag tlv) (tlvValue tlv) a = Inr a" using plain f(3) by (simp add: read_release_child_def)
  with DecodeRelease_loop_at [OF f(2), of d vs pre "fields_bytes fs @ rest" a start] f(3) plain obtain n where
    "DecodeRelease_loop d vs (reader_at pre (bs @ fields_bytes fs @ rest)) a start =
     DecodeRelease_loop d vs (reader_at (pre @ bs) (fields_bytes fs @ rest)) (a\<lparr>releaseFields := releaseFields a @ [f]\<rparr>) n"
    unfolding f_eq by auto
  with Cons.IH [of "pre @ bs" "a\<lparr>releaseFields := releaseFields a @ [f]\<rparr>" n] Cons.prems f(1) show ?case
    by (auto simp: fields_bytes_def)
qed (auto simp: fields_bytes_def)

lemma DecodeRelease_loop_plain:
  assumes "release_wf z a"
  shows "DecodeRelease_loop d vs (ApduReader_init (View (release_value a))) (ReleaseApdu_default z) 0 =
    Inr (a\<lparr>releaseFields := releaseFields a @ reason_fields a\<rparr>)"
proof -
  let ?b = "(ReleaseApdu_default z)\<lparr>releaseFields := releaseFields a\<rparr>"
  from assms DecodeRelease_loop_fields [of "releaseFields a" d vs "[]" "fields_bytes (reason_fields a)" "ReleaseApdu_default z" 0]
  obtain n where "DecodeRelease_loop d vs (ApduReader_init (View (release_value a))) (ReleaseApdu_default z) 0 =
      DecodeRelease_loop d vs (reader_at (fields_bytes (releaseFields a)) (fields_bytes (reason_fields a))) ?b n"
    by (auto simp: release_wf_def release_value_def fields_bytes_def ApduReader_init_at ReleaseApdu_default_def)
  also have "\<dots> = Inr (a\<lparr>releaseFields := releaseFields a @ reason_fields a\<rparr>)"
  proof (cases "hasReason a")
    case True
    let ?v = "[ucast (reason a AND 0xff)] :: bytes"
    have "reads ReadBerTlv (tlv_bytes kReleaseReasonTag ?v)
        \<lparr>tlvTag = kReleaseReasonTag, tlvValue = ?v, tlvHeaderSize = 1 + AxdrLengthEncodedSize (length ?v)\<rparr>"
      using ReadBerTlv_at [OF tag_numbers(3), of ?v] by (simp add: reads_def size_t_modulus_def)
    from DecodeRelease_loop_at [OF this, of d vs "fields_bytes (releaseFields a)" "[]" ?b n] assms True show ?thesis
      by (cases a) (auto simp: reason_fields_def reason_field_def fields_bytes_def read_release_child_def release_wf_def
          ReadPrimitiveIntegerValue_byte ReleaseApdu_default_def kReleaseReasonTag_def kUserInformationTag_def)
  next
    case False
    with assms show ?thesis by (cases a) (simp add: reason_fields_def fields_bytes_def release_wf_def ReleaseApdu_default_def)
  qed
  finally show ?thesis .
qed

lemma DecodeRelease_bytes:
  assumes "release_wf z a" "tag AND 0x1f \<noteq> 0x1f" "length (release_value a) < size_t_modulus"
  shows "DecodeRelease d z (View (tlv_bytes tag (release_value a))) tag = Inr (a\<lparr>releaseFields := releaseFields a @ reason_fields a\<rparr>)"
  using ReadBerTlv_at [OF assms(2,3), of "[]" "[]"] DecodeRelease_loop_plain [OF assms(1)]
  by (simp add: DecodeRelease_def ReadReleaseTlv_def ApduReader_init_at)

subsection \<open>The tagged structure\<close>

definition aarq_apdu :: "AarqApdu \<Rightarrow> AcseApdu" where
  "aarq_apdu a = AcseApdu_default\<lparr>acseKind := Aarq, aarq := a\<rparr>"

definition aare_apdu :: "AareApdu \<Rightarrow> AcseApdu" where
  "aare_apdu a = AcseApdu_default\<lparr>acseKind := Aare, aare := a\<rparr>"

definition rlrq_apdu :: "RlrqApdu \<Rightarrow> AcseApdu" where
  "rlrq_apdu a = AcseApdu_default\<lparr>acseKind := Rlrq, rlrq := a\<rparr>"

definition rlre_apdu :: "RlreApdu \<Rightarrow> AcseApdu" where
  "rlre_apdu a = AcseApdu_default\<lparr>acseKind := Rlre, rlre := a\<rparr>"

lemmas apdu_defs = aarq_apdu_def aare_apdu_def rlrq_apdu_def rlre_apdu_def AcseApdu_default_def

lemma EncodeAcseApdu_tlv:
  assumes "EncodeAcseApdu_write m = WriteBerTlv tag (View v)" "tag AND 0x1f \<noteq> 0x1f" "length v \<le> 1024"
  shows "EncodeAcseApdu m = Inr (tlv_bytes tag v)"
  using writes_fresh [OF writes_tlv [OF assms(2), of "View v"], of 2048] length_tlv_bytes_small [of v tag] assms
  by (simp add: EncodeAcseApdu_def ApduWriter_init_def)

lemma EncodeAcseApdu_error:
  "fst (EncodeAcseApdu_write m (ApduWriter_init False 2048)) = Inl e \<Longrightarrow> EncodeAcseApdu m = Inl e"
  by (auto simp: EncodeAcseApdu_def split: prod.split sum.split)

lemma DecodeAcseApdu_bytes:
  "DecodeAcseApdu (View (tlv_bytes kAarqTag v)) = decoded (DecodeAarq (View (tlv_bytes kAarqTag v))) aarq_apdu"
  "DecodeAcseApdu (View (tlv_bytes kAareTag v)) = decoded (DecodeAare (View (tlv_bytes kAareTag v))) aare_apdu"
  "DecodeAcseApdu (View (tlv_bytes kRlrqTag v)) = decoded (DecodeRlrq (View (tlv_bytes kRlrqTag v))) rlrq_apdu"
  "DecodeAcseApdu (View (tlv_bytes kRlreTag v)) = decoded (DecodeRlre (View (tlv_bytes kRlreTag v))) rlre_apdu"
  by (simp_all add: DecodeAcseApdu_def tlv_bytes_def acse_tags apdu_defs Let_def split: sum.split)

lemma aarq_message:
  assumes "aarq_wf a"
  shows "if association_fits (aarqFields a) (initiate_request_bytes (aarqInitiateRequest a))
    then EncodeAcseApdu (aarq_apdu a) = Inr (aarq_bytes a) \<and> DecodeAcseApdu (View (aarq_bytes a)) = Inr (aarq_apdu a)
    else EncodeAcseApdu (aarq_apdu a) = Inl OutputBufferTooSmall"
proof -
  have "EncodeAcseApdu_write (aarq_apdu a) = EncodeAarq a" by (simp add: EncodeAcseApdu_write_def apdu_defs)
  with EncodeAarq_writer [OF assms] aarq_decode_bytes [OF assms] show ?thesis
    using EncodeAcseApdu_tlv [OF _ tag_numbers(4)]
    by (auto simp: association_fits_def aarq_bytes_def DecodeAcseApdu_bytes intro!: EncodeAcseApdu_error)
qed

lemma aare_message:
  assumes "aare_wf a"
  shows "if association_fits (aareFields a) (initiate_response_bytes (aareInitiateResponse a))
    then EncodeAcseApdu (aare_apdu a) = Inr (aare_bytes a) \<and> DecodeAcseApdu (View (aare_bytes a)) = Inr (aare_apdu a)
    else EncodeAcseApdu (aare_apdu a) = Inl OutputBufferTooSmall"
proof -
  have "EncodeAcseApdu_write (aare_apdu a) = EncodeAare a" by (simp add: EncodeAcseApdu_write_def apdu_defs)
  with EncodeAare_writer [OF assms] aare_decode_bytes [OF assms] show ?thesis
    using EncodeAcseApdu_tlv [OF _ tag_numbers(5)]
    by (auto simp: association_fits_def aare_bytes_def DecodeAcseApdu_bytes intro!: EncodeAcseApdu_error)
qed

lemma DecodeAcseApdu_wf:
  assumes "DecodeAcseApdu v = Inr m"
  shows "(acseKind m = Aarq \<longrightarrow> aarq_wf (aarq m)) \<and> (acseKind m = Aare \<longrightarrow> aare_wf (aare m))"
  using assms aarq_decode_wf aare_decode_wf
  by (auto simp: DecodeAcseApdu_def Let_def split: if_splits sum.splits)

lemma release_message:
  assumes "release_wf z a" "EncodeAcseApdu_write m = EncodeRelease tag a" "tag AND 0x1f \<noteq> 0x1f"
  shows "if length (release_value a) \<le> 256
    then EncodeAcseApdu m = Inr (tlv_bytes tag (release_value a))
      \<and> DecodeRelease d z (View (tlv_bytes tag (release_value a))) tag = Inr (a\<lparr>releaseFields := releaseFields a @ reason_fields a\<rparr>)
    else EncodeAcseApdu m = Inl OutputBufferTooSmall"
  using EncodeRelease_writer [OF assms(1), of tag] EncodeAcseApdu_tlv [OF _ assms(3), of m "release_value a"] assms(2)
    DecodeRelease_bytes [OF assms(1,3)]
  by (auto simp: size_t_modulus_def intro!: EncodeAcseApdu_error)

subsection \<open>Properties\<close>

text \<open>
  C15: Association messages. An AARQ or AARE whose raw fields are encoded items other than user
  information and whose initiate message is well formed is encoded to its wire image and decoded
  back, provided the initiate message fits 256 bytes and the whole value 1024; otherwise the
  encoder reports the buffer. Whatever the dispatching decoder accepts as an AARQ or AARE is such a
  message; the result and diagnostic of a decoded AARE are those of its raw fields.
\<close>

theorem acse_associations:
  "(aarq_wf q \<longrightarrow>
      (if association_fits (aarqFields q) (initiate_request_bytes (aarqInitiateRequest q))
       then EncodeAcseApdu (aarq_apdu q) = Inr (aarq_bytes q) \<and> DecodeAcseApdu (View (aarq_bytes q)) = Inr (aarq_apdu q)
       else EncodeAcseApdu (aarq_apdu q) = Inl OutputBufferTooSmall))
   \<and> (aare_wf r \<longrightarrow>
      (if association_fits (aareFields r) (initiate_response_bytes (aareInitiateResponse r))
       then EncodeAcseApdu (aare_apdu r) = Inr (aare_bytes r) \<and> DecodeAcseApdu (View (aare_bytes r)) = Inr (aare_apdu r)
       else EncodeAcseApdu (aare_apdu r) = Inl OutputBufferTooSmall))
   \<and> (DecodeAcseApdu v = Inr m \<longrightarrow> (acseKind m = Aarq \<longrightarrow> aarq_wf (aarq m)) \<and> (acseKind m = Aare \<longrightarrow> aare_wf (aare m)))"
  using aarq_message aare_message DecodeAcseApdu_wf by blast

text \<open>An association request with an application context name.\<close>

definition sample_aarq :: AarqApdu where
  "sample_aarq = \<lparr>aarqFields = [\<lparr>fieldTag = 0xa1, fieldEncoded = View (tlv_bytes 0xa1 [0x06, 0x01, 0x2a])\<rparr>],
     aarqInitiateRequest = MakeDefaultInitiateRequest\<rparr>"

lemma sample_aarq_wf: "aarq_wf sample_aarq"
proof -
  have "field_reads \<lparr>fieldTag = 0xa1, fieldEncoded = View (tlv_bytes 0xa1 [0x06, 0x01, 0x2a])\<rparr>
      \<lparr>tlvTag = 0xa1, tlvValue = [0x06, 0x01, 0x2a], tlvHeaderSize = 1 + AxdrLengthEncodedSize 3\<rparr>"
    using ReadBerTlv_at [of "0xa1" "[0x06, 0x01, 0x2a]"] by (simp add: field_reads_def reads_def size_t_modulus_def numeral_3_eq_3)
  moreover have "initiate_request_wf MakeDefaultInitiateRequest"
    by (simp add: initiate_request_wf_def key_wf_def MakeDefaultInitiateRequest_def)
  ultimately show ?thesis by (auto simp: aarq_wf_def sample_aarq_def field_ok_def acse_tags)
qed

theorem acse_associations_witness:
  "EncodeAcseApdu (aarq_apdu sample_aarq) =
     Inr [0x60, 0x17, 0xa1, 3, 0x06, 0x01, 0x2a, 0xbe, 0x10, 0x04, 0x0e,
          0x01, 0, 0, 0, 6, 0x5f, 0x1f, 0x04, 0x00, 0x00, 0x7e, 0x1f, 0x02, 0x00]
   \<and> DecodeAcseApdu (View (aarq_bytes sample_aarq)) = Inr (aarq_apdu sample_aarq)"
proof -
  have "initiate_request_bytes MakeDefaultInitiateRequest = [0x01, 0, 0, 0, 6, 0x5f, 0x1f, 0x04, 0x00, 0x00, 0x7e, 0x1f, 0x02, 0x00]"
    by (simp add: initiate_request_bytes_def MakeDefaultInitiateRequest_def integer8_bytes_def conformance_bytes_def be16_def)
  with acse_associations [of sample_aarq] sample_aarq_wf show ?thesis
    by (simp add: association_fits_def association_value_def sample_aarq_def fields_bytes_def user_information_def
        aarq_bytes_def tlv_bytes_def length_bytes_def acse_tags)
qed

text \<open>
  Release messages. An RLRQ or RLRE whose fields are encoded items other than the reason and
  user information, and whose reason, when present, is in the range of a signed byte, is encoded
  with the reason after its fields and decoded to the same reason; the decoded structure lists the
  reason among its fields, too. A value above 256 bytes is reported, a reason out of range is refused.
\<close>

theorem acse_releases:
  "(release_wf InitiateRequest_zero q \<longrightarrow>
      (if length (release_value q) \<le> 256
       then EncodeAcseApdu (rlrq_apdu q) = Inr (tlv_bytes kRlrqTag (release_value q))
         \<and> DecodeAcseApdu (View (tlv_bytes kRlrqTag (release_value q))) = Inr (rlrq_apdu (q\<lparr>releaseFields := releaseFields q @ reason_fields q\<rparr>))
       else EncodeAcseApdu (rlrq_apdu q) = Inl OutputBufferTooSmall))
   \<and> (release_wf InitiateResponse_zero r \<longrightarrow>
      (if length (release_value r) \<le> 256
       then EncodeAcseApdu (rlre_apdu r) = Inr (tlv_bytes kRlreTag (release_value r))
         \<and> DecodeAcseApdu (View (tlv_bytes kRlreTag (release_value r))) = Inr (rlre_apdu (r\<lparr>releaseFields := releaseFields r @ reason_fields r\<rparr>))
       else EncodeAcseApdu (rlre_apdu r) = Inl OutputBufferTooSmall))
   \<and> (hasReason q \<and> releaseFields q = [] \<and> (sint (reason q) < - 128 \<or> 127 < sint (reason q))
        \<longrightarrow> EncodeAcseApdu (rlrq_apdu q) = Inl UnsupportedFeature)"
proof (intro conjI impI)
  have "EncodeAcseApdu_write (rlrq_apdu q) = EncodeRelease kRlrqTag q"
    by (simp add: EncodeAcseApdu_write_def apdu_defs EncodeRlrq_def fun_eq_iff)
  then show "if length (release_value q) \<le> 256
       then EncodeAcseApdu (rlrq_apdu q) = Inr (tlv_bytes kRlrqTag (release_value q))
         \<and> DecodeAcseApdu (View (tlv_bytes kRlrqTag (release_value q))) = Inr (rlrq_apdu (q\<lparr>releaseFields := releaseFields q @ reason_fields q\<rparr>))
       else EncodeAcseApdu (rlrq_apdu q) = Inl OutputBufferTooSmall" if "release_wf InitiateRequest_zero q"
    using release_message [OF that _ tag_numbers(6), of "rlrq_apdu q" DecodeInitiateRequest]
    by (auto simp: DecodeAcseApdu_bytes DecodeRlrq_def)
  have "EncodeAcseApdu_write (rlre_apdu r) = EncodeRelease kRlreTag r"
    by (simp add: EncodeAcseApdu_write_def apdu_defs EncodeRlre_def fun_eq_iff)
  then show "if length (release_value r) \<le> 256
       then EncodeAcseApdu (rlre_apdu r) = Inr (tlv_bytes kRlreTag (release_value r))
         \<and> DecodeAcseApdu (View (tlv_bytes kRlreTag (release_value r))) = Inr (rlre_apdu (r\<lparr>releaseFields := releaseFields r @ reason_fields r\<rparr>))
       else EncodeAcseApdu (rlre_apdu r) = Inl OutputBufferTooSmall" if "release_wf InitiateResponse_zero r"
    using release_message [OF that _ tag_numbers(7), of "rlre_apdu r" DecodeInitiateResponse]
    by (auto simp: DecodeAcseApdu_bytes DecodeRlre_def)
qed (auto simp: EncodeAcseApdu_write_def EncodeRlrq_def EncodeRelease_def apdu_defs WriteReleaseReason_def try_then_def yield_def
    refuse_def intro!: EncodeAcseApdu_error)

theorem acse_releases_witness:
  "DecodeAcseApdu (View [0x62, 3, 0x80, 1, 0xff]) =
     Inr (rlrq_apdu \<lparr>releaseFields = [\<lparr>fieldTag = 0x80, fieldEncoded = View [0x80, 1, 0xff]\<rparr>], hasReason = True, reason = - 1,
       releaseInitiate = InitiateRequest_zero\<rparr>)"
  using acse_releases [of "\<lparr>releaseFields = [], hasReason = True, reason = - 1, releaseInitiate = InitiateRequest_zero\<rparr>"]
  by (simp add: release_wf_def release_value_def reason_fields_def reason_field_def fields_bytes_def tlv_bytes_def length_bytes_def acse_tags)

text \<open>
  A decoded release that carries a reason and user information cannot be sent on. The decoder
  keeps both as fields; the encoder leaves the reason field out and appends the reason after the
  user information, where the decoder takes it for part of the initiate message and refuses the APDU.
\<close>

theorem release_not_reencodable:
  "let bs = [0x62, 0x15, 0x80, 1, 0, 0xbe, 0x10, 0x04, 0x0e,
             0x01, 0, 0, 0, 6, 0x5f, 0x1f, 0x04, 0x00, 0x00, 0x7e, 0x1f, 0x02, 0x00];
       bs' = [0x62, 0x15, 0xbe, 0x10, 0x04, 0x0e,
             0x01, 0, 0, 0, 6, 0x5f, 0x1f, 0x04, 0x00, 0x00, 0x7e, 0x1f, 0x02, 0x00, 0x80, 1, 0];
       a = \<lparr>releaseFields = [\<lparr>fieldTag = 0x80, fieldEncoded = View [0x80, 1, 0]\<rparr>,
              \<lparr>fieldTag = 0xbe, fieldEncoded = View (take 18 (drop 5 bs))\<rparr>],
            hasReason = True, reason = 0, releaseInitiate = MakeDefaultInitiateRequest\<rparr>
   in DecodeAcseApdu (View bs) = Inr (rlrq_apdu a) \<and> EncodeAcseApdu (rlrq_apdu a) = Inr bs'
      \<and> DecodeAcseApdu (View bs') = Inl InvalidLength"
  by code_simp

end
