(* ===== verification/Association_Laws.thy ===== *)
theory Association_Laws
  imports Association_Client Association_Server Apdu_AcseLaws
begin

text \<open>
  The laws of both sides of an association: what every reachable object satisfies, which requests
  a server accepts, and the exchange of messages between a client and a server.
\<close>

subsection \<open>Reachable objects\<close>

text \<open>
  The methods of an object are called in any order, and the world may change in any way between
  two calls.
\<close>

inductive client_reachable :: "'e ApduChannel \<Rightarrow> 'e AssociationOptions \<Rightarrow> 'e AssociationClient \<Rightarrow> bool"
  for ch options where
  client_created: "client_reachable ch options (AssociationClient_init options)"
| client_opened: "client_reachable ch options c \<Longrightarrow> AssociationClient_Open ch (c, e) = (status, c', e') \<Longrightarrow> client_reachable ch options c'"
| client_closed: "client_reachable ch options c \<Longrightarrow> AssociationClient_Close ch (c, e) = (status, c', e') \<Longrightarrow> client_reachable ch options c'"
| client_established: "client_reachable ch options c \<Longrightarrow> AssociationClient_Establish ch (c, e) = (status, c', e') \<Longrightarrow> client_reachable ch options c'"
| client_released: "client_reachable ch options c \<Longrightarrow> AssociationClient_Release ch (c, e) = (status, c', e') \<Longrightarrow> client_reachable ch options c'"

inductive server_reachable :: "'e ApduChannel \<Rightarrow> 'e AssociationServerOptions \<Rightarrow> 'e AssociationServer \<Rightarrow> bool"
  for ch options where
  server_created: "server_reachable ch options (AssociationServer_init options)"
| server_opened: "server_reachable ch options s \<Longrightarrow> AssociationServer_Open ch (s, e) = (status, s', e') \<Longrightarrow> server_reachable ch options s'"
| server_closed: "server_reachable ch options s \<Longrightarrow> AssociationServer_Close ch (s, e) = (status, s', e') \<Longrightarrow> server_reachable ch options s'"
| server_accepted: "server_reachable ch options s \<Longrightarrow> AssociationServer_Accept ch (s, e) = (status, s', e') \<Longrightarrow> server_reachable ch options s'"
| server_released: "server_reachable ch options s \<Longrightarrow> AssociationServer_Release ch (s, e) = (status, s', e') \<Longrightarrow> server_reachable ch options s'"
| server_released_request:
    "server_reachable ch options s \<Longrightarrow> AssociationServer_Release_request ch request (s, e) = (status, s', e') \<Longrightarrow> server_reachable ch options s'"

text \<open>What an established association guarantees to its user.\<close>

definition client_result_ok :: "AuthenticationMode \<Rightarrow> AssociationResult \<Rightarrow> bool" where
  "client_result_ok mode r \<longleftrightarrow> (result_hasAareResult r \<longrightarrow> result_aareResult r = 0)
     \<and> result_negotiatedDlmsVersionNumber r \<noteq> 0 \<and> result_serverMaxReceivePduSize r \<noteq> 0
     \<and> (mode = HighLevelSecurity \<longrightarrow> result_highLevelSecurityServerChallenge r \<noteq> [])"

definition client_inv :: "'e AssociationOptions \<Rightarrow> 'e AssociationClient \<Rightarrow> bool" where
  "client_inv options c \<longleftrightarrow> client_options c = options \<and> client_state c \<noteq> Associating
     \<and> (client_state c = Closed \<longrightarrow> client_result c = EmptyAssociationResult)
     \<and> (client_state c = Associated \<longrightarrow> AssociationClient_ValidateOptions options = Ok
          \<and> client_result_ok (options_authenticationMode options) (client_result c))"

definition server_inv :: "'e AssociationServerOptions \<Rightarrow> 'e AssociationServer \<Rightarrow> bool" where
  "server_inv options s \<longleftrightarrow> server_options s = options \<and> server_state s \<noteq> Associating
     \<and> (server_state s = Closed \<longrightarrow> server_result s = EmptyAssociationResult)
     \<and> (server_state s = Associated \<longrightarrow> AssociationServer_ValidateOptions options = Ok
          \<and> accepted_result options (server_result s) = server_result s
          \<and> (server_authenticationMode options = HighLevelSecurity \<longrightarrow> HlsMechanismId (highLevelSecurityMechanism s) \<noteq> None
               \<and> result_highLevelSecurityServerChallenge (server_result s) \<noteq> []
               \<and> length (result_highLevelSecurityServerChallenge (server_result s)) \<le> 125))"

lemma DecodeAare_Ok:
  assumes "AssociationClient_DecodeAare options inp r = (Ok, r')"
  shows "client_result_ok (options_authenticationMode options) r'"
  using assms
  by (auto simp: AssociationClient_DecodeAare_def client_result_ok_def read_server_challenge_def Let_def
      split: if_splits sum.splits option.splits prod.splits)

lemma client_calls_inv:
  assumes "client_inv options c"
  shows "AssociationClient_Open ch (c, e) = (status, c', e') \<Longrightarrow> client_inv options c'"
    and "AssociationClient_Close ch (c, e) = (status, c', e') \<Longrightarrow> client_inv options c'"
    and "AssociationClient_Establish ch (c, e) = (status, c', e') \<Longrightarrow> client_inv options c'"
    and "AssociationClient_Release ch (c, e) = (status, c', e') \<Longrightarrow> client_inv options c'"
  using assms
  by (auto simp: client_inv_def AssociationClient_Open.simps AssociationClient_Close.simps AssociationClient_Establish.simps
      AssociationClient_Release.simps Let_def dest: DecodeAare_Ok split: if_splits sum.splits prod.splits)

lemma client_reachable_inv: "client_reachable ch options c \<Longrightarrow> client_inv options c"
proof (induction rule: client_reachable.induct)
  case client_created
  show ?case by (simp add: client_inv_def AssociationClient_init_def)
qed (rule client_calls_inv; assumption)+

text \<open>What the authentication of a request keeps and establishes.\<close>

definition authenticated :: "'e AssociationServer \<Rightarrow> bool" where
  "authenticated s \<longleftrightarrow> (server_authenticationMode (server_options s) = HighLevelSecurity \<longrightarrow>
     HlsMechanismId (highLevelSecurityMechanism s) \<noteq> None \<and> result_highLevelSecurityServerChallenge (server_result s) \<noteq> []
     \<and> length (result_highLevelSecurityServerChallenge (server_result s)) \<le> 125)"

lemma DecodeHlsMechanism_known: "DecodeHlsMechanism f m = (True, m') \<Longrightarrow> HlsMechanismId m' \<noteq> None"
  by (auto simp: DecodeHlsMechanism_def HlsMechanismFromId_def Let_def split: if_splits)

lemma ValidateHighLevelSecurityAarq_Ok:
  assumes "ValidateHighLevelSecurityAarq a strategy title m c e = ((Ok, m', c'), e')"
  shows "HlsMechanismId m' \<noteq> None" "c' \<noteq> []" "length c' \<le> 125"
  using assms
  by (auto simp: ValidateHighLevelSecurityAarq_def Let_def kMaxShortBerAuthenticationValueSize_def
      split: if_splits option.splits prod.splits dest: DecodeHlsMechanism_known)

lemma authenticate_keeps:
  assumes "authenticate a s e = (status, s', e')"
  shows "server_options s' = server_options s" "server_state s' = server_state s" "status = Ok \<Longrightarrow> authenticated s'"
  using assms
  by (auto simp: authenticate_def authenticated_def Let_def split: AuthenticationMode.splits option.splits prod.splits
      dest: ValidateHighLevelSecurityAarq_Ok)

lemma DecodeAarq_keeps:
  assumes "AssociationServer_DecodeAarq inp s e = (status, s', e')"
  shows "server_options s' = server_options s" "server_state s' = server_state s" "status = Ok \<Longrightarrow> authenticated s'"
  using assms
  by (auto simp: AssociationServer_DecodeAarq_def Let_def split: if_splits sum.splits option.splits prod.splits
      dest: authenticate_keeps)

lemma accepted_result_idem: "accepted_result o' (accepted_result o' r) = accepted_result o' r"
  "result_highLevelSecurityServerChallenge (accepted_result o' r) = result_highLevelSecurityServerChallenge r"
  by (simp_all add: accepted_result_def)

lemma Accept_inv:
  assumes "server_inv options s" "AssociationServer_Accept ch (s, e) = (status, s', e')"
  shows "server_inv options s'"
proof -
  let ?fresh = "s\<lparr>server_state := Open, server_result := EmptyAssociationResult\<rparr>"
  consider "s' = s" | "s' = ?fresh"
    | request e1 status' e2 where "AssociationServer_DecodeAarq request ?fresh e1 = (status', s', e2)"
    | request e1 s1 e2 where "AssociationServer_DecodeAarq request ?fresh e1 = (Ok, s1, e2)"
        "AssociationServer_ValidateOptions (server_options s) = Ok"
        "s' = s1\<lparr>server_result := accepted_result (server_options s1) (server_result s1), server_state := Associated\<rparr>"
    using assms(2) by (auto simp: AssociationServer_Accept.simps Let_def split: if_splits sum.splits prod.splits)
  then show ?thesis
  proof cases
    case 3
    with DecodeAarq_keeps(1,2) [OF this] assms(1) show ?thesis by (simp add: server_inv_def)
  next
    case 4
    with DecodeAarq_keeps [OF this(1)] assms(1) show ?thesis
      by (simp add: server_inv_def authenticated_def accepted_result_idem)
  qed (use assms(1) in \<open>simp_all add: server_inv_def\<close>)
qed

lemma server_calls_inv:
  assumes "server_inv options s"
  shows "AssociationServer_Open ch (s, e) = (status, s', e') \<Longrightarrow> server_inv options s'"
    and "AssociationServer_Close ch (s, e) = (status, s', e') \<Longrightarrow> server_inv options s'"
    and "AssociationServer_Release_request ch request (s, e) = (status, s', e') \<Longrightarrow> server_inv options s'"
    and "AssociationServer_Release ch (s, e) = (status, s', e') \<Longrightarrow> server_inv options s'"
  using assms
  by (auto simp: server_inv_def AssociationServer_Open.simps AssociationServer_Close.simps SendRlreAndClose.simps
      AssociationServer_Release.simps AssociationServer_Release_request.simps Let_def split: if_splits sum.splits prod.splits)

lemma server_reachable_inv: "server_reachable ch options s \<Longrightarrow> server_inv options s"
proof (induction rule: server_reachable.induct)
  case server_created
  show ?case by (simp add: server_inv_def AssociationServer_init_def)
qed (rule server_calls_inv Accept_inv; assumption)+

subsection \<open>Fields as items\<close>

lemma tlv_bytes_short: "length v < 128 \<Longrightarrow> tlv_bytes tag v = tag # of_nat (length v) # v"
  by (simp add: tlv_bytes_def length_bytes_def)

lemma field_items:
  "MakeSenderAcseRequirementsField = tlv_bytes 0x8a [0x07, 0x80]"
  "MakeLowLevelSecurityMechanismField = tlv_bytes 0x8b [0x60, 0x85, 0x74, 0x05, 0x08, 0x02, 0x01]"
  "MakeHighLevelSecurityMechanismField m =
     tlv_bytes 0x8b [0x60, 0x85, 0x74, 0x05, 0x08, 0x02, case HlsMechanismId m of None \<Rightarrow> 0 | Some i \<Rightarrow> i]"
  "length v \<le> 125 \<Longrightarrow> MakeAuthenticationValueField tag v = tlv_bytes tag (tlv_bytes 0x80 v)"
  "length v \<le> 125 \<Longrightarrow> MakeOctetStringField tag v = tlv_bytes tag (tlv_bytes 0x04 v)"
  "MakeAssociationResultField 0 = tlv_bytes 0xa2 [0x02, 0x01, 0]"
  "MakeResultSourceDiagnosticField 0x0e = tlv_bytes 0xa3 [0xa1, 0x03, 0x02, 0x01, 0x0e]"
  by (simp_all add: MakeSenderAcseRequirementsField_def MakeLowLevelSecurityMechanismField_def MakeHighLevelSecurityMechanismField_def
      MakeAuthenticationValueField_def MakeOctetStringField_def MakeAssociationResultField_def MakeResultSourceDiagnosticField_def
      tlv_bytes_short association_tags)

lemma raw_field_tlv: "raw_field (tlv_bytes tag v) = \<lparr>fieldTag = tag, fieldEncoded = View (tlv_bytes tag v)\<rparr>"
  by (simp add: raw_field_def MakeByteView_def tlv_bytes_def)

lemma field_tags:
  "fieldTag (raw_field (MakeOctetStringField t v)) = t" "fieldTag (raw_field (MakeAuthenticationValueField t v)) = t"
  "fieldTag (raw_field MakeSenderAcseRequirementsField) = 0x8a" "fieldTag (raw_field MakeLowLevelSecurityMechanismField) = 0x8b"
  "fieldTag (raw_field (MakeHighLevelSecurityMechanismField m)) = 0x8b"
  "fieldTag (raw_field (MakeAssociationResultField d)) = 0xa2" "fieldTag (raw_field (MakeResultSourceDiagnosticField d)) = 0xa3"
  by (simp_all add: raw_field_def MakeOctetStringField_def MakeAuthenticationValueField_def MakeSenderAcseRequirementsField_def
      MakeLowLevelSecurityMechanismField_def MakeHighLevelSecurityMechanismField_def MakeAssociationResultField_def
      MakeResultSourceDiagnosticField_def association_tags)

definition item :: "u8 \<Rightarrow> bytes \<Rightarrow> BerTlv" where
  "item tag v = \<lparr>tlvTag = tag, tlvValue = v, tlvHeaderSize = 1 + AxdrLengthEncodedSize (length v)\<rparr>"

lemma field_reads_tlv:
  assumes "tag AND 0x1f \<noteq> 0x1f" "length v < size_t_modulus"
  shows "field_reads (raw_field (tlv_bytes tag v)) (item tag v)"
  using ReadBerTlv_at [OF assms] by (simp add: field_reads_def raw_field_tlv reads_def item_def)

text \<open>What the decoders of both sides read from such fields.\<close>

lemma of_nat_size:
  assumes "length v \<le> 125"
  shows "unat (of_nat (length v) :: u8) = length v" "unat (of_nat (length v + 2) :: u8) = length v + 2"
    "unat (2 + of_nat (length v) :: u8) = length v + 2"
proof -
  show "unat (of_nat (length v) :: u8) = length v" "unat (of_nat (length v + 2) :: u8) = length v + 2"
    using assms by (simp_all only: unat_of_nat) simp_all
  then show "unat (2 + of_nat (length v) :: u8) = length v + 2" by (simp add: add.commute)
qed

lemma decoded_fields:
  assumes "length v \<le> 125"
  shows "client_DecodeAuthenticationValue (raw_field (MakeAuthenticationValueField tag v)) tag = Some v"
    "client_DecodeOctetStringField (raw_field (MakeOctetStringField tag v)) = Some v"
    "server_DecodeAuthenticationValue (raw_field (MakeAuthenticationValueField tag v)) tag = Some v"
    "server_DecodeOctetStringField (raw_field (MakeOctetStringField tag v)) tag = Some v"
    "DecodeCallingAuthenticationValue (raw_field (MakeAuthenticationValueField kCallingAuthenticationValueTag v)) = Some v"
  using of_nat_size [OF assms]
  by (simp_all add: client_DecodeAuthenticationValue_def client_DecodeOctetStringField_def server_DecodeAuthenticationValue_def
      server_DecodeOctetStringField_def DecodeCallingAuthenticationValue_def raw_field_def MakeByteView_def
      MakeAuthenticationValueField_def MakeOctetStringField_def Let_def)

subsection \<open>The messages of both sides\<close>

text \<open>A client that can send its request: \<open>mechanism\<close> and \<open>challenge\<close> are those of its strategy.\<close>

definition client_ready ::
    "'e AssociationOptions \<Rightarrow> HighLevelSecurityMechanism \<Rightarrow> bytes \<Rightarrow> bool" where
  "client_ready options mechanism challenge \<longleftrightarrow> AssociationClient_ValidateOptions options = Ok
     \<and> length (options_callingApplicationTitle options) \<le> 125 \<and> options_traceSink options = None
     \<and> length (options_proposedConformance options) = 3
     \<and> (options_hasProposedQualityOfService options \<or> options_proposedQualityOfService options = 0)
     \<and> (options_authenticationMode options = HighLevelSecurity \<longrightarrow>
          HlsMechanismId mechanism \<noteq> None \<and> challenge \<noteq> [] \<and> length challenge \<le> 125
          \<and> (\<exists>strategy. options_highLevelSecurity options = Some strategy
               \<and> (\<forall>e. Mechanism strategy e = mechanism \<and> BuildInitialChallenge strategy e = ((Ok, challenge), e))))"

definition authentication_fields :: "'e AssociationOptions \<Rightarrow> AuthenticationMode \<Rightarrow> HighLevelSecurityMechanism \<Rightarrow> bytes \<Rightarrow> bytes list" where
  "authentication_fields options mode mechanism challenge =
     (if options_authenticationMode options \<noteq> mode then []
      else if mode = LowLevelSecurity then
        [MakeSenderAcseRequirementsField, MakeLowLevelSecurityMechanismField,
         MakeAuthenticationValueField kCallingAuthenticationValueTag (options_lowLevelSecurityCredential options)]
      else [MakeSenderAcseRequirementsField, MakeHighLevelSecurityMechanismField mechanism,
         MakeAuthenticationValueField kCallingAuthenticationValueTag challenge])"

definition request_fields :: "'e AssociationOptions \<Rightarrow> HighLevelSecurityMechanism \<Rightarrow> bytes \<Rightarrow> bytes list" where
  "request_fields options mechanism challenge =
     authentication_fields options LowLevelSecurity mechanism challenge
     @ (if options_callingApplicationTitle options = [] then []
        else [MakeOctetStringField kCallingApTitleTag (options_callingApplicationTitle options)])
     @ authentication_fields options HighLevelSecurity mechanism challenge"

definition client_request :: "'e AssociationOptions \<Rightarrow> HighLevelSecurityMechanism \<Rightarrow> bytes \<Rightarrow> AarqApdu" where
  "client_request options mechanism challenge =
     \<lparr>aarqFields = map raw_field (request_fields options mechanism challenge), aarqInitiateRequest = proposed_request options\<rparr>"

text \<open>The fields of both messages are items of limited size.\<close>

definition small_item :: "bytes \<Rightarrow> bool" where
  "small_item bs \<longleftrightarrow> (\<exists>tag v. bs = tlv_bytes tag v \<and> tag \<in> {0x8a, 0x8b, 0xac, 0xa6, 0xaa, 0xa2, 0xa3, 0xa4} \<and> length v \<le> 130)"

lemma small_items:
  "small_item MakeSenderAcseRequirementsField" "small_item MakeLowLevelSecurityMechanismField"
  "small_item (MakeHighLevelSecurityMechanismField m)"
  "small_item (MakeAssociationResultField 0)" "small_item (MakeResultSourceDiagnosticField 0x0e)"
  "length v \<le> 125 \<Longrightarrow> tag \<in> {0xac, 0xaa} \<Longrightarrow> small_item (MakeAuthenticationValueField tag v)"
  "length v \<le> 125 \<Longrightarrow> tag \<in> {0xa6, 0xa4} \<Longrightarrow> small_item (MakeOctetStringField tag v)"
  unfolding small_item_def field_items
  by (rule exI, rule exI, rule conjI, rule field_items refl; auto simp: tlv_bytes_short)+

lemma small_item_field_ok:
  assumes "small_item bs"
  shows "field_ok (raw_field bs)" "length bs \<le> 135"
proof -
  obtain tag v where bs: "bs = tlv_bytes tag v" "tag \<in> {0x8a, 0x8b, 0xac, 0xa6, 0xaa, 0xa2, 0xa3, 0xa4}" "length v \<le> 130"
    using assms by (auto simp: small_item_def)
  have tag: "tag AND 0x1f \<noteq> 0x1f" "tag \<noteq> kUserInformationTag" using bs(2) by (auto simp: acse_tags)
  have "length v < size_t_modulus" using bs(3) by (simp add: size_t_modulus_def)
  from field_reads_tlv [OF tag(1) this] bs(1) tag(2) show "field_ok (raw_field bs)"
    by (auto simp: field_ok_def raw_field_tlv)
  show "length bs \<le> 135" using length_tlv_bytes_small [of v tag] bs by simp
qed

lemma fields_bytes_raw: "fields_bytes (map raw_field bss) = concat bss"
  by (induction bss) (auto simp: fields_bytes_def raw_field_def MakeByteView_def)

lemma concat_small: "\<forall>bs \<in> set bss. length bs \<le> k \<Longrightarrow> length (concat bss) \<le> k * length bss"
  by (induction bss) auto

lemma small_items_fit:
  assumes "\<forall>bs \<in> set bss. small_item bs" "length bss \<le> 6" "length x \<le> 32"
  shows "association_fits (map raw_field bss) x"
proof -
  have "length (concat bss) \<le> 135 * length bss" using assms(1) by (intro concat_small) (auto dest: small_item_field_ok(2))
  moreover have "length (user_information x) \<le> length x + 10"
    using length_tlv_bytes_small [of x kAcseOctetStringTag] assms(3)
      length_tlv_bytes_small [of "tlv_bytes kAcseOctetStringTag x" kUserInformationTag]
    by (simp add: user_information_def)
  ultimately show ?thesis using assms(2,3) by (simp add: association_fits_def association_value_def fields_bytes_raw)
qed

lemma initiate_bytes_small:
  "\<not> hasDedicatedKey q \<Longrightarrow> length (proposedConformance q) = 3 \<Longrightarrow> length (initiate_request_bytes q) \<le> 32"
  "length (negotiatedConformance r) = 3 \<Longrightarrow> length (initiate_response_bytes r) \<le> 32"
  by (simp_all add: initiate_request_bytes_def initiate_response_bytes_def integer8_bytes_def conformance_bytes_def be16_def)

lemma client_ready_credential:
  "client_ready options m c \<Longrightarrow> options_authenticationMode options = LowLevelSecurity \<Longrightarrow>
   length (options_lowLevelSecurityCredential options) \<le> 125"
  by (auto simp: client_ready_def AssociationClient_ValidateOptions_def kMaxShortBerAuthenticationValueSize_def split: if_splits)

lemma request_fields_small:
  assumes "client_ready options m c"
  shows "\<forall>bs \<in> set (request_fields options m c). small_item bs" "length (request_fields options m c) \<le> 6"
  using assms client_ready_credential [OF assms]
  by (auto simp: request_fields_def authentication_fields_def client_ready_def association_tags intro!: small_items)

lemma client_request_fits:
  assumes "client_ready options m c"
  defines "a \<equiv> client_request options m c"
  shows "aarq_wf a" "association_fits (aarqFields a) (initiate_request_bytes (aarqInitiateRequest a))"
proof -
  have q: "initiate_request_wf (proposed_request options)" "\<not> hasDedicatedKey (proposed_request options)"
      "length (proposedConformance (proposed_request options)) = 3"
    using assms(1) by (auto simp: initiate_request_wf_def key_wf_def proposed_request_def MakeDefaultInitiateRequest_def client_ready_def)
  note small = request_fields_small [OF assms(1)]
  show "aarq_wf a" using small q by (auto simp: aarq_wf_def a_def client_request_def intro: small_item_field_ok(1))
  show "association_fits (aarqFields a) (initiate_request_bytes (aarqInitiateRequest a))"
    using small_items_fit [OF small initiate_bytes_small(1) [OF q(2,3)]] by (simp add: a_def client_request_def)
qed

lemma BuildAarq_ready:
  assumes "client_ready options m c"
  shows "AssociationClient_BuildAarq options e = (Inr (aarq_bytes (client_request options m c)), e)"
    "DecodeAcseApdu (View (aarq_bytes (client_request options m c))) = Inr (aarq_apdu (client_request options m c))"
proof -
  let ?a = "client_request options m c"
  let ?apdu = "MakeAarqWithInitiateRequest (XdlmsApdu_initiate (proposed_request options))"
  have "?apdu\<lparr>aarq := ?a\<rparr> = aarq_apdu ?a"
    by (simp add: MakeAarqWithInitiateRequest_def aarq_apdu_def AcseApdu_default_def)
  moreover have "aarq ?apdu = \<lparr>aarqFields = [], aarqInitiateRequest = proposed_request options\<rparr>"
    by (simp add: MakeAarqWithInitiateRequest_def AarqApdu_default_def XdlmsApdu_initiate_def)
  moreover note aarq_message [OF client_request_fits(1) [OF assms]] client_request_fits(2) [OF assms] assms
  ultimately show "AssociationClient_BuildAarq options e = (Inr (aarq_bytes ?a), e)"
      "DecodeAcseApdu (View (aarq_bytes ?a)) = Inr (aarq_apdu ?a)"
    by (cases "options_authenticationMode options";
        auto simp: AssociationClient_BuildAarq_def AddLlsAuthenticationFields_def AddHlsAuthenticationFields_def AddRawFields_def
          client_request_def request_fields_def authentication_fields_def EmitAssociationTrace_def client_ready_def Let_def
          kMaxShortBerAuthenticationValueSize_def)+
qed

subsection \<open>The response\<close>

lemma ReadNestedInteger_values:
  "ReadNestedInteger [0x02, 0x01, 0] t = Inr 0"
  "ReadNestedInteger [0xa1, 0x03, 0x02, 0x01, 0x0e] kAcseServiceUserTag = Inr 0x0e"
proof -
  have i: "ReadBerTlv (ApduReader_init (View (tlv_bytes 0x02 [b]))) = (Inr (item 0x02 [b]), reader_at (tlv_bytes 0x02 [b]) [])" for b
    using ReadBerTlv_at [of "0x02" "[b]" "[]" "[]"] by (simp add: ApduReader_init_at item_def size_t_modulus_def)
  have o: "ReadBerTlv (ApduReader_init (View (tlv_bytes 0xa1 (tlv_bytes 0x02 [0x0e]))))
      = (Inr (item 0xa1 (tlv_bytes 0x02 [0x0e])), reader_at (tlv_bytes 0xa1 (tlv_bytes 0x02 [0x0e])) [])"
    using ReadBerTlv_at [of "0xa1" "tlv_bytes 0x02 [0x0e]" "[]" "[]"]
    by (simp add: ApduReader_init_at item_def size_t_modulus_def tlv_bytes_short)
  show "ReadNestedInteger [0x02, 0x01, 0] t = Inr 0"
    using i [of 0] by (simp add: ReadNestedInteger_def tlv_bytes_short item_def ReadIntegerValue_def acse_tags Let_def)
  show "ReadNestedInteger [0xa1, 0x03, 0x02, 0x01, 0x0e] kAcseServiceUserTag = Inr 0x0e"
    using i [of "0x0e"] o by (simp add: ReadNestedInteger_def tlv_bytes_short item_def ReadIntegerValue_def acse_tags Let_def)
qed

lemma fold_plain_fields:
  "\<forall>(f, tlv) \<in> set xs. field_reads f tlv \<and> fieldTag f \<notin> {kAssociationResultTag, kResultSourceDiagnosticTag, kUserInformationTag} \<Longrightarrow>
   fold_body DecodeAare_item xs (a, b) = Inr (a\<lparr>aareFields := aareFields a @ map fst xs\<rparr>, b)"
proof (induction xs arbitrary: a)
  case (Cons x xs)
  obtain f tlv where x: "x = (f, tlv)" by fastforce
  then have "read_result (tlvTag tlv) (tlvValue tlv) a = Inr a" "tlvTag tlv \<noteq> kUserInformationTag"
    using Cons.prems by (auto simp: read_result_def field_reads_def)
  with Cons x show ?case by simp
qed simp

lemma response_eq:
  "AssociationServer_response s =
     \<lparr>aareFields = map raw_field (response_fields s), hasResult = True, aareResult = 0, hasDiagnostic = True, diagnostic = 0x0e,
      aareInitiateResponse = \<lparr>hasNegotiatedQualityOfService = False, negotiatedQualityOfService = 0,
        negotiatedDlmsVersionNumber = server_negotiatedDlmsVersionNumber (server_options s),
        negotiatedConformance = server_negotiatedConformance (server_options s),
        serverMaxReceivePduSize = server_serverMaxReceivePduSize (server_options s),
        vaaName = server_vaaName (server_options s)\<rparr>\<rparr>"
proof -
  have "foldl (\<lambda>a encoded. AddRawField encoded a) b bss = b\<lparr>aareFields := aareFields b @ map raw_field bss\<rparr>" for b bss
    by (induction bss arbitrary: b) (simp_all add: AddRawField_def)
  then show ?thesis by (simp add: AssociationServer_response_def)
qed

definition server_ready :: "'e AssociationServer \<Rightarrow> bool" where
  "server_ready s \<longleftrightarrow> AssociationServer_ValidateOptions (server_options s) = Ok
     \<and> length (server_negotiatedConformance (server_options s)) = 3"

lemma response_fields_small:
  assumes "server_ready s" "authenticated s"
  shows "\<forall>bs \<in> set (response_fields s). small_item bs" "length (response_fields s) \<le> 6"
  using assms
  by (auto simp: response_fields_def server_ready_def authenticated_def AssociationServer_ValidateOptions_def association_tags
      kMaxShortBerAuthenticationValueSize_def split: if_splits intro!: small_items)

lemma response_wf:
  assumes "server_ready s" "authenticated s"
  shows "aare_wf (AssociationServer_response s)"
proof -
  let ?fs = "map raw_field (drop 2 (response_fields s))"
  let ?base = "AareApdu_default\<lparr>hasResult := True, aareResult := 0, hasDiagnostic := True, diagnostic := 0x0e\<rparr>"
  have fields: "response_fields s = [tlv_bytes 0xa2 [0x02, 0x01, 0], tlv_bytes 0xa3 [0xa1, 0x03, 0x02, 0x01, 0x0e]] @ drop 2 (response_fields s)"
    by (simp add: response_fields_def field_items)
  have tags: "\<forall>f \<in> set ?fs. fieldTag f \<notin> {kAssociationResultTag, kResultSourceDiagnosticTag, kUserInformationTag}"
    by (auto simp: response_fields_def field_tags acse_tags association_tags)
  have "\<forall>f \<in> set ?fs. \<exists>tlv. field_reads f tlv"
    using response_fields_small(1) [OF assms] small_item_field_ok(1) by (auto simp: field_ok_def dest!: in_set_dropD)
  then obtain g where g: "\<forall>f \<in> set ?fs. field_reads f (g f)" by metis
  let ?xs = "map (\<lambda>f. (f, g f)) ?fs"
  let ?ys = "(raw_field (tlv_bytes 0xa2 [0x02, 0x01, 0]), item 0xa2 [0x02, 0x01, 0])
    # (raw_field (tlv_bytes 0xa3 [0xa1, 0x03, 0x02, 0x01, 0x0e]), item 0xa3 [0xa1, 0x03, 0x02, 0x01, 0x0e]) # ?xs"
  have first: "field_reads (raw_field (tlv_bytes 0xa2 [0x02, 0x01, 0])) (item 0xa2 [0x02, 0x01, 0])"
    "field_reads (raw_field (tlv_bytes 0xa3 [0xa1, 0x03, 0x02, 0x01, 0x0e])) (item 0xa3 [0xa1, 0x03, 0x02, 0x01, 0x0e])"
    by (simp_all add: field_reads_tlv size_t_modulus_def)
  have "map fst ?ys = aareFields (AssociationServer_response s)"
    unfolding response_eq by (subst (2) fields) (simp add: comp_def)
  moreover have "\<forall>(f, tlv) \<in> set ?ys. field_reads f tlv \<and> fieldTag f \<noteq> kUserInformationTag"
    using first g tags by (auto simp: raw_field_tlv acse_tags)
  moreover have "fold_body DecodeAare_item ?ys (AareApdu_default, False)
      = Inr ((AssociationServer_response s)\<lparr>aareInitiateResponse := InitiateResponse_zero\<rparr>, False)"
  proof -
    let ?two = "?base\<lparr>aareFields := [raw_field (tlv_bytes 0xa2 [0x02, 0x01, 0]), raw_field (tlv_bytes 0xa3 [0xa1, 0x03, 0x02, 0x01, 0x0e])]\<rparr>"
    have "fold_body DecodeAare_item ?ys (AareApdu_default, False) = fold_body DecodeAare_item ?xs (?two, False)"
      using ReadNestedInteger_values by (simp add: item_def read_result_def acse_tags AareApdu_default_def)
    also have "\<dots> = Inr (?two\<lparr>aareFields := aareFields ?two @ map fst ?xs\<rparr>, False)"
      using g tags by (intro fold_plain_fields) auto
    also have "\<dots> = Inr ((AssociationServer_response s)\<lparr>aareInitiateResponse := InitiateResponse_zero\<rparr>, False)"
      unfolding response_eq by (subst (2) fields) (simp add: comp_def AareApdu_default_def)
    finally show ?thesis .
  qed
  moreover have "initiate_response_wf (aareInitiateResponse (AssociationServer_response s))"
    using assms(1) by (simp add: response_eq initiate_response_wf_def server_ready_def)
  ultimately show ?thesis unfolding aare_wf_def by blast
qed

lemma BuildAare_ready:
  assumes "server_ready s" "authenticated s"
  shows "AssociationServer_BuildAare s = Inr (aare_bytes (AssociationServer_response s))"
    "DecodeAcseApdu (View (aare_bytes (AssociationServer_response s))) = Inr (aare_apdu (AssociationServer_response s))"
proof -
  let ?a = "AssociationServer_response s"
  have "length (negotiatedConformance (aareInitiateResponse ?a)) = 3" using assms(1) by (simp add: response_eq server_ready_def)
  from small_items_fit [OF response_fields_small [OF assms] initiate_bytes_small(2) [OF this]]
  have "association_fits (aareFields ?a) (initiate_response_bytes (aareInitiateResponse ?a))" by (simp add: response_eq)
  with aare_message [OF response_wf [OF assms]]
  show "AssociationServer_BuildAare s = Inr (aare_bytes ?a)" "DecodeAcseApdu (View (aare_bytes ?a)) = Inr (aare_apdu ?a)"
    by (simp_all add: AssociationServer_BuildAare_def aare_apdu_def)
qed

lemma aare_bytes_nonempty [simp]: "aare_bytes a \<noteq> []" "aarq_bytes q \<noteq> []"
  by (simp_all add: aare_bytes_def aarq_bytes_def tlv_bytes_def)

text \<open>What the client learns from the response of a server in the same mode.\<close>

lemma DecodeAare_response:
  assumes "server_ready s" "authenticated s"
    "options_authenticationMode options = server_authenticationMode (server_options s)"
  shows "AssociationClient_DecodeAare options (aare_bytes (AssociationServer_response s)) EmptyAssociationResult =
    (Ok, (accepted_result (server_options s) EmptyAssociationResult)
       \<lparr>result_respondingApplicationTitle := server_respondingApplicationTitle (server_options s),
        result_highLevelSecurityServerChallenge :=
          (if options_authenticationMode options = HighLevelSecurity then result_highLevelSecurityServerChallenge (server_result s) else [])\<rparr>)"
proof -
  let ?title = "server_respondingApplicationTitle (server_options s)"
  have valid: "server_negotiatedDlmsVersionNumber (server_options s) \<noteq> 0" "server_serverMaxReceivePduSize (server_options s) \<noteq> 0"
    "length ?title \<le> 125"
    using assms(1) by (auto simp: server_ready_def AssociationServer_ValidateOptions_def kMaxShortBerAuthenticationValueSize_def split: if_splits)
  have title: "responding_title (map raw_field (response_fields s)) = ?title"
    using decoded_fields(2) [OF valid(3), of kRespondingApTitleTag]
    by (auto simp: response_fields_def field_tags association_tags)
  have challenge: "read_server_challenge (map raw_field (response_fields s)) = (Ok, result_highLevelSecurityServerChallenge (server_result s))"
    if "server_authenticationMode (server_options s) = HighLevelSecurity"
    using that assms(2) decoded_fields(1) [of "result_highLevelSecurityServerChallenge (server_result s)" kRespondingAuthenticationValueTag]
    by (auto simp: response_fields_def read_server_challenge_def field_tags association_tags authenticated_def)
  show ?thesis
    using valid(1,2) title challenge assms(3) BuildAare_ready(2) [OF assms(1,2)]
    by (simp add: AssociationClient_DecodeAare_def aare_apdu_def AcseApdu_default_def response_eq Let_def accepted_result_def
        EmptyAssociationResult_def)
qed

subsection \<open>The request at the server\<close>

text \<open>
  A server that accepts the request: the modes and, for low level security, the credentials agree;
  for high level security its strategy accepts title and challenge and answers with \<open>answer\<close>.
\<close>

definition accepts ::
    "'f AssociationServerOptions \<Rightarrow> 'e AssociationOptions \<Rightarrow> HighLevelSecurityMechanism \<Rightarrow> bytes \<Rightarrow> bytes \<Rightarrow> bool" where
  "accepts server options mechanism challenge answer \<longleftrightarrow>
     server_authenticationMode server = options_authenticationMode options
     \<and> (options_authenticationMode options = LowLevelSecurity \<longrightarrow>
          server_lowLevelSecurityCredential server = options_lowLevelSecurityCredential options)
     \<and> (options_authenticationMode options = HighLevelSecurity \<longrightarrow> answer \<noteq> [] \<and> length answer \<le> 125
          \<and> (\<exists>strategy. server_highLevelSecurity server = Some strategy
               \<and> (\<forall>e. SetCallingApplicationTitle strategy (options_callingApplicationTitle options) e = (Ok, e)
                    \<and> ValidateInitialChallenge strategy mechanism challenge e = (Ok, e)
                    \<and> BuildResponseChallenge strategy mechanism e = ((Ok, answer), e))))"

definition after_request :: "'e AssociationOptions \<Rightarrow> HighLevelSecurityMechanism \<Rightarrow> bytes \<Rightarrow> 'f AssociationServer \<Rightarrow> 'f AssociationServer" where
  "after_request options mechanism answer s =
     (let r = (server_result s)\<lparr>result_callingApplicationTitle := options_callingApplicationTitle options\<rparr> in
      if options_authenticationMode options = HighLevelSecurity
      then s\<lparr>highLevelSecurityMechanism := mechanism, server_result := r\<lparr>result_highLevelSecurityServerChallenge := answer\<rparr>\<rparr>
      else s\<lparr>server_result := r\<rparr>)"

lemma calling_title_request:
  assumes "length (options_callingApplicationTitle options) \<le> 125"
  shows "calling_title (map raw_field (request_fields options m c)) = Some (options_callingApplicationTitle options)"
  using decoded_fields(4) [OF assms, of kCallingApTitleTag]
  by (auto simp: calling_title_def request_fields_def authentication_fields_def field_tags association_tags)

lemma find_request_fields:
  assumes "options_authenticationMode options = mode" "mode \<noteq> NoAuthentication"
  shows "FindSingleField (client_request options m c) kSenderAcseRequirementsTag = Some (raw_field MakeSenderAcseRequirementsField)"
    "FindSingleField (client_request options m c) kMechanismNameTag = Some (raw_field
       (if mode = LowLevelSecurity then MakeLowLevelSecurityMechanismField else MakeHighLevelSecurityMechanismField m))"
    "FindSingleField (client_request options m c) kCallingAuthenticationValueTag = Some (raw_field
       (MakeAuthenticationValueField kCallingAuthenticationValueTag
         (if mode = LowLevelSecurity then options_lowLevelSecurityCredential options else c)))"
  using assms
  by (cases mode; simp add: FindSingleField_def client_request_def request_fields_def authentication_fields_def field_tags association_tags)+

lemma FieldEquals_raw: "bs \<noteq> [] \<Longrightarrow> FieldEquals (raw_field bs) cs \<longleftrightarrow> bs = cs"
  by (auto simp: FieldEquals_def raw_field_def MakeByteView_def bad_view_def)

lemma DecodeHlsMechanism_field:
  "HlsMechanismId m \<noteq> None \<Longrightarrow> DecodeHlsMechanism (raw_field (MakeHighLevelSecurityMechanismField m)) m' = (True, m)"
  by (cases m) (simp_all add: DecodeHlsMechanism_def raw_field_def MakeByteView_def MakeHighLevelSecurityMechanismField_def
      HlsMechanismFromId_def Let_def)

lemma authenticate_request:
  assumes ready: "client_ready options m c" and accept: "accepts (server_options s) options m c answer"
    and title: "result_callingApplicationTitle (server_result s) = options_callingApplicationTitle options"
  shows "authenticate (client_request options m c) s e = (Ok, after_request options m answer s, e)"
proof (cases "options_authenticationMode options")
  case NoAuthentication
  with accept title show ?thesis by (simp add: authenticate_def accepts_def after_request_def)
next
  case LowLevelSecurity
  note find = find_request_fields [OF this, of m c]
  have "ValidateLowLevelSecurityAarq (client_request options m c) (options_lowLevelSecurityCredential options) = Ok"
    using find decoded_fields(5) [OF client_ready_credential [OF ready LowLevelSecurity]]
    by (simp add: ValidateLowLevelSecurityAarq_def FieldEquals_raw MakeSenderAcseRequirementsField_def
        MakeLowLevelSecurityMechanismField_def association_tags)
  with LowLevelSecurity accept title show ?thesis by (simp add: authenticate_def accepts_def after_request_def)
next
  case HighLevelSecurity
  note find = find_request_fields [OF this, of m c]
  from ready HighLevelSecurity have c: "HlsMechanismId m \<noteq> None" "c \<noteq> []" "length c \<le> 125" by (auto simp: client_ready_def)
  from accept HighLevelSecurity obtain strategy where st: "server_highLevelSecurity (server_options s) = Some strategy"
    "\<forall>e. SetCallingApplicationTitle strategy (options_callingApplicationTitle options) e = (Ok, e)
      \<and> ValidateInitialChallenge strategy m c e = (Ok, e) \<and> BuildResponseChallenge strategy m e = ((Ok, answer), e)"
    "answer \<noteq> []" "length answer \<le> 125" by (auto simp: accepts_def)
  have "ValidateHighLevelSecurityAarq (client_request options m c) strategy (options_callingApplicationTitle options) m' c' e
      = ((Ok, m, answer), e)" for m' c'
    using find st c decoded_fields(3) [OF c(3), of kCallingAuthenticationValueTag] DecodeHlsMechanism_field [OF c(1)]
    by (simp add: ValidateHighLevelSecurityAarq_def FieldEquals_raw MakeSenderAcseRequirementsField_def
        kMaxShortBerAuthenticationValueSize_def association_tags)
  with HighLevelSecurity accept st title show ?thesis by (simp add: authenticate_def accepts_def after_request_def)
qed

lemma DecodeAarq_request:
  assumes ready: "client_ready options m c" and accept: "accepts (server_options s) options m c answer"
  shows "AssociationServer_DecodeAarq (aarq_bytes (client_request options m c)) s e = (Ok, after_request options m answer s, e)"
proof -
  let ?a = "client_request options m c"
  let ?t = "s\<lparr>server_result := (server_result s)\<lparr>result_callingApplicationTitle := options_callingApplicationTitle options\<rparr>\<rparr>"
  have plain: "\<not> HasAuthenticationFields ?a" if "options_authenticationMode options = NoAuthentication"
    using that by (simp add: HasAuthenticationFields_def client_request_def request_fields_def authentication_fields_def field_tags association_tags)
  have title: "calling_title (aarqFields ?a) = Some (options_callingApplicationTitle options)"
    using ready calling_title_request [of options m c] by (simp add: client_ready_def client_request_def)
  have "authenticate ?a ?t e = (Ok, after_request options m answer ?t, e)"
    using ready accept by (intro authenticate_request) simp_all
  moreover have "after_request options m answer ?t = after_request options m answer s" by (cases s) (simp add: after_request_def Let_def)
  moreover have "proposedDlmsVersionNumber (aarqInitiateRequest ?a) \<noteq> 0" "clientMaxReceivePduSize (aarqInitiateRequest ?a) \<noteq> 0"
    using ready by (auto simp: client_ready_def AssociationClient_ValidateOptions_def client_request_def proposed_request_def split: if_splits)
  ultimately show ?thesis
    using BuildAarq_ready(2) [OF ready] title plain accept
    by (simp add: AssociationServer_DecodeAarq_def aarq_apdu_def AcseApdu_default_def accepts_def)
qed

lemma after_request_keeps:
  "server_options (after_request options m answer s) = server_options s"
  "server_ready (after_request options m answer s) = server_ready s"
  "accepts (server_options s) options m c answer \<Longrightarrow> client_ready options m c \<Longrightarrow> authenticated (after_request options m answer s)"
  by (auto simp: after_request_def server_ready_def authenticated_def accepts_def client_ready_def Let_def)

subsection \<open>A client and a server\<close>

text \<open>
  The server works on a mailbox. Its channel reads the request that lies there and leaves the reply.
  The channel of the client puts a request into the mailbox and, to receive, lets the server
  handle it: an associated server is asked to release the association, any other to accept one.
\<close>

record mailbox =
  request_slot :: bytes
  reply_slot :: "bytes option"

definition mailbox_channel :: "mailbox ApduChannel" where
  "mailbox_channel =
     \<lparr>channel_Open = (\<lambda>e. (ProfileStatus.Ok, e)), channel_Close = (\<lambda>e. (ProfileStatus.Ok, e)),
      channel_SendApdu = (\<lambda>v e. (ProfileStatus.Ok, e\<lparr>reply_slot := Some (view_bytes v)\<rparr>)),
      channel_ReceiveApdu = (\<lambda>e. ((ProfileStatus.Ok, request_slot e), e)), channel_SetCorrelation = (\<lambda>i e. e)\<rparr>"

type_synonym peer = "mailbox AssociationServer \<times> mailbox"

definition serve :: "peer \<Rightarrow> AssociationStatus \<times> peer" where
  "serve p = (if AssociationServer_IsAssociated (fst p) then AssociationServer_Release mailbox_channel p
     else AssociationServer_Accept mailbox_channel p)"

definition peer_channel :: "peer ApduChannel" where
  "peer_channel =
     \<lparr>channel_Open = (\<lambda>p. (ProfileStatus.Ok, p)), channel_Close = (\<lambda>p. (ProfileStatus.Ok, p)),
      channel_SendApdu = (\<lambda>v (s, b). (ProfileStatus.Ok, s, \<lparr>request_slot = view_bytes v, reply_slot = None\<rparr>)),
      channel_ReceiveApdu = (\<lambda>p. let (status, s, b) = serve p in
        case reply_slot b of None \<Rightarrow> ((Timeout, []), s, b) | Some reply \<Rightarrow> ((ProfileStatus.Ok, reply), s, b)), channel_SetCorrelation = (\<lambda>i p. p)\<rparr>"

lemma view_bytes_MakeByteView [simp]: "view_bytes (MakeByteView bs) = bs"
  by (simp add: MakeByteView_def)

lemma after_request_ready:
  assumes "client_ready options m c" "accepts (server_options s) options m c answer" "server_ready s"
  defines "t \<equiv> after_request options m answer (s\<lparr>server_result := EmptyAssociationResult\<rparr>)"
  shows "server_ready t" "authenticated t" "server_options t = server_options s"
  using assms(1-3) by (auto simp: t_def after_request_keeps server_ready_def intro: after_request_keeps(3))

lemma Accept_request:
  assumes "client_ready options m c" "accepts (server_options s) options m c answer" "server_ready s" "server_state s = Open"
  defines "t \<equiv> after_request options m answer (s\<lparr>server_result := EmptyAssociationResult\<rparr>)"
  shows "AssociationServer_Accept mailbox_channel (s, \<lparr>request_slot = aarq_bytes (client_request options m c), reply_slot = None\<rparr>) =
    (Ok, t\<lparr>server_result := accepted_result (server_options s) (server_result t), server_state := Associated\<rparr>,
     \<lparr>request_slot = aarq_bytes (client_request options m c), reply_slot = Some (aare_bytes (AssociationServer_response t))\<rparr>)"
proof -
  let ?fresh = "s\<lparr>server_state := Open, server_result := EmptyAssociationResult\<rparr>"
  have fresh: "?fresh = s\<lparr>server_result := EmptyAssociationResult\<rparr>" using assms(4) by simp
  have "AssociationServer_DecodeAarq (aarq_bytes (client_request options m c)) ?fresh e = (Ok, t, e)" for e :: mailbox
    unfolding fresh t_def using assms(1,2) by (intro DecodeAarq_request) simp_all
  moreover have "server_ready t" "authenticated t" "server_options t = server_options s"
    unfolding t_def by (rule after_request_ready [OF assms(1-3)])+
  moreover note BuildAare_ready(1) [OF this(1,2)]
  ultimately show ?thesis
    using assms(3,4) by (simp add: AssociationServer_Accept.simps mailbox_channel_def server_ready_def Let_def)
qed

lemma release_messages:
  "AssociationClient_BuildRlrq = Inr [0x62, 0]" "AssociationServer_DecodeRlrq [0x62, 0] = Ok"
  "AssociationServer_BuildRlre = Inr [0x63, 0]" "AssociationClient_DecodeRlre [0x63, 0] = Ok"
  by code_simp+

definition exchanged_client_result :: "'e AssociationOptions \<Rightarrow> 'f AssociationServerOptions \<Rightarrow> bytes \<Rightarrow> AssociationResult" where
  "exchanged_client_result options server answer = (accepted_result server EmptyAssociationResult)
     \<lparr>result_respondingApplicationTitle := server_respondingApplicationTitle server,
      result_highLevelSecurityServerChallenge := (if options_authenticationMode options = HighLevelSecurity then answer else [])\<rparr>"

definition exchanged_server_result :: "'e AssociationOptions \<Rightarrow> 'f AssociationServerOptions \<Rightarrow> bytes \<Rightarrow> AssociationResult" where
  "exchanged_server_result options server answer = (accepted_result server EmptyAssociationResult)
     \<lparr>result_callingApplicationTitle := options_callingApplicationTitle options,
      result_highLevelSecurityServerChallenge := (if options_authenticationMode options = HighLevelSecurity then answer else [])\<rparr>"

lemma establish_exchange:
  assumes "client_ready (client_options cl) m c" "accepts (server_options s) (client_options cl) m c answer" "server_ready s"
    "client_state cl = Open" "server_state s = Open"
  shows "\<exists>s' b'. AssociationClient_Establish peer_channel (cl, s, b)
      = (Ok, cl\<lparr>client_state := Associated, client_result := exchanged_client_result (client_options cl) (server_options s) answer\<rparr>, s', b')
    \<and> server_state s' = Associated \<and> server_options s' = server_options s
    \<and> server_result s' = exchanged_server_result (client_options cl) (server_options s) answer"
proof -
  let ?opts = "client_options cl"
  let ?req = "aarq_bytes (client_request ?opts m c)"
  define t where "t = after_request ?opts m answer (s\<lparr>server_result := EmptyAssociationResult\<rparr>)"
  let ?s = "t\<lparr>server_result := accepted_result (server_options s) (server_result t), server_state := Associated\<rparr>"
  have t: "server_ready t" "authenticated t" "server_options t = server_options s"
    unfolding t_def by (rule after_request_ready [OF assms(1-3)])+
  have mode: "options_authenticationMode ?opts = server_authenticationMode (server_options t)"
    using assms(2) t(3) by (simp add: accepts_def)
  have hls: "options_authenticationMode ?opts = HighLevelSecurity \<Longrightarrow> result_highLevelSecurityServerChallenge (server_result t) = answer"
    by (simp add: t_def after_request_def Let_def)
  have "serve (s, \<lparr>request_slot = ?req, reply_slot = None\<rparr>) =
      (Ok, ?s, \<lparr>request_slot = ?req, reply_slot = Some (aare_bytes (AssociationServer_response t))\<rparr>)"
    using Accept_request [OF assms(1,2,3,5)] assms(5) by (simp add: serve_def AssociationServer_IsAssociated_def t_def)
  moreover have "AssociationClient_DecodeAare ?opts (aare_bytes (AssociationServer_response t)) EmptyAssociationResult
      = (Ok, exchanged_client_result ?opts (server_options s) answer)"
    using DecodeAare_response [OF t(1,2) mode] t(3) hls by (simp add: exchanged_client_result_def)
  moreover have "server_result ?s = exchanged_server_result ?opts (server_options s) answer"
    by (simp add: t_def after_request_def exchanged_server_result_def accepted_result_def EmptyAssociationResult_def Let_def)
  moreover have "AssociationClient_ValidateOptions ?opts = Ok" using assms(1) by (simp add: client_ready_def)
  ultimately show ?thesis
    using assms(4) t(3) BuildAarq_ready(1) [OF assms(1)]
    by (simp add: AssociationClient_Establish.simps peer_channel_def Let_def)
qed

lemma release_exchange:
  assumes "client_state cl = Associated" "server_state s = Associated"
  shows "\<exists>b'. AssociationClient_Release peer_channel (cl, s, b)
      = (Ok, cl\<lparr>client_state := Open, client_result := EmptyAssociationResult\<rparr>,
         s\<lparr>server_state := Closed, server_result := EmptyAssociationResult\<rparr>, b')"
  using assms
  by (simp add: AssociationClient_Release.simps release_messages peer_channel_def serve_def AssociationServer_IsAssociated_def
      AssociationServer_Release.simps AssociationServer_Release_request.simps SendRlreAndClose.simps mailbox_channel_def Let_def)

subsection \<open>What a server accepts\<close>

lemma FindSingleField_filter: "FindSingleField a tag = Some f \<longleftrightarrow> filter (\<lambda>f. fieldTag f = tag) (aarqFields a) = [f]"
proof -
  have found: "FindSingleField_loop tag fs (Some g) = (if \<exists>f \<in> set fs. fieldTag f = tag then None else Some g)" for fs g
    by (induction fs) auto
  have "FindSingleField_loop tag fs None = Some f \<longleftrightarrow> filter (\<lambda>f. fieldTag f = tag) fs = [f]" for fs
    by (induction fs) (auto simp: found filter_empty_conv)
  then show ?thesis by (simp add: FindSingleField_def)
qed

lemma authentication_value_bytes:
  assumes "DecodeCallingAuthenticationValue f = Some v \<or> server_DecodeAuthenticationValue f kCallingAuthenticationValueTag = Some v"
  shows "view_bytes (fieldEncoded f) = MakeAuthenticationValueField kCallingAuthenticationValueTag v"
proof -
  obtain bs where bs: "fieldEncoded f = View bs" "4 \<le> length bs" "bs ! 0 = kCallingAuthenticationValueTag"
      "bs ! 2 = kCharstringAuthenticationValueTag" "unat (bs ! 3) + 4 = length bs" "unat (bs ! 3) + 2 = unat (bs ! 1)"
      "v = take (unat (bs ! 3)) (drop 4 bs)"
    using assms
    by (cases "fieldEncoded f") (auto simp: DecodeCallingAuthenticationValue_def server_DecodeAuthenticationValue_def Let_def split: if_splits)
  then have "v = drop 4 bs" "length v = unat (bs ! 3)" by auto
  moreover have "bs = bs ! 0 # bs ! 1 # bs ! 2 # bs ! 3 # drop 4 bs"
    using bs(2) by (cases bs; cases "tl bs"; cases "tl (tl bs)"; cases "tl (tl (tl bs))") (auto simp: numeral_3_eq_3 numeral_2_eq_2)
  moreover have "of_nat (length v + 2) = bs ! 1" "of_nat (length v) = bs ! 3"
    using bs(6) \<open>length v = unat (bs ! 3)\<close> by (metis of_nat_unat ucast_id)+
  ultimately show ?thesis using bs(1,3,4) by (simp add: MakeAuthenticationValueField_def)
qed

definition proves_identity :: "'e AssociationServerOptions \<Rightarrow> AarqApdu \<Rightarrow> bool" where
  "proves_identity options a \<longleftrightarrow> (case server_authenticationMode options of
     NoAuthentication \<Rightarrow> \<not> HasAuthenticationFields a
   | LowLevelSecurity \<Rightarrow> map (\<lambda>f. view_bytes (fieldEncoded f)) (filter (\<lambda>f. fieldTag f = kCallingAuthenticationValueTag) (aarqFields a))
       = [MakeAuthenticationValueField kCallingAuthenticationValueTag (server_lowLevelSecurityCredential options)]
   | HighLevelSecurity \<Rightarrow> (\<exists>strategy mechanism challenge e e'. server_highLevelSecurity options = Some strategy
       \<and> map (\<lambda>f. view_bytes (fieldEncoded f)) (filter (\<lambda>f. fieldTag f = kCallingAuthenticationValueTag) (aarqFields a))
           = [MakeAuthenticationValueField kCallingAuthenticationValueTag challenge]
       \<and> challenge \<noteq> [] \<and> ValidateInitialChallenge strategy mechanism challenge e = (Ok, e')))"

lemma authenticate_proves:
  assumes "authenticate a s e = (Ok, s', e')"
    "server_authenticationMode (server_options s) = NoAuthentication \<Longrightarrow> \<not> HasAuthenticationFields a"
  shows "proves_identity (server_options s) a"
proof (cases "server_authenticationMode (server_options s)")
  case LowLevelSecurity
  with assms(1) have "ValidateLowLevelSecurityAarq a (server_lowLevelSecurityCredential (server_options s)) = Ok"
    by (auto simp: authenticate_def)
  then obtain f where "FindSingleField a kCallingAuthenticationValueTag = Some f"
      "DecodeCallingAuthenticationValue f = Some (server_lowLevelSecurityCredential (server_options s))"
    by (auto simp: ValidateLowLevelSecurityAarq_def split: option.splits if_splits)
  then show ?thesis
    using LowLevelSecurity authentication_value_bytes [of f] by (simp add: proves_identity_def FindSingleField_filter)
next
  case HighLevelSecurity
  with assms(1) obtain strategy m c m' c' e'' where st: "server_highLevelSecurity (server_options s) = Some strategy"
    "ValidateHighLevelSecurityAarq a strategy (result_callingApplicationTitle (server_result s)) m c e = ((Ok, m', c'), e'')"
    by (auto simp: authenticate_def Let_def split: option.splits prod.splits)
  then obtain f challenge mechanism e1 e2 where "FindSingleField a kCallingAuthenticationValueTag = Some f"
      "server_DecodeAuthenticationValue f kCallingAuthenticationValueTag = Some challenge" "challenge \<noteq> []"
      "ValidateInitialChallenge strategy mechanism challenge e1 = (Ok, e2)"
    unfolding ValidateHighLevelSecurityAarq_def
    by (auto simp: Let_def split: option.splits if_splits prod.splits)
  then show ?thesis
    using HighLevelSecurity st(1) authentication_value_bytes [of f challenge]
    by (auto simp: proves_identity_def FindSingleField_filter)
qed (use assms(2) in \<open>simp add: proves_identity_def\<close>)

lemma DecodeAarq_proves:
  assumes "AssociationServer_DecodeAarq inp s e = (Ok, s', e')"
  shows "\<exists>apdu. DecodeAcseApdu (View inp) = Inr apdu \<and> acseKind apdu = Aarq \<and> proves_identity (server_options s) (aarq apdu)"
  using assms
  by (auto simp: AssociationServer_DecodeAarq_def Let_def split: if_splits sum.splits option.splits prod.splits
      dest!: authenticate_proves)

lemma Accept_proves:
  assumes "AssociationServer_Accept ch (s, e) = (Ok, s', e')"
  shows "\<exists>request e1 apdu. channel_ReceiveApdu ch e = ((ProfileStatus.Ok, request), e1)
    \<and> DecodeAcseApdu (View request) = Inr apdu \<and> acseKind apdu = Aarq \<and> proves_identity (server_options s) (aarq apdu)"
proof -
  let ?fresh = "s\<lparr>server_state := Open, server_result := EmptyAssociationResult\<rparr>"
  from assms obtain request e1 s1 e2 where "channel_ReceiveApdu ch e = ((ProfileStatus.Ok, request), e1)"
      "AssociationServer_DecodeAarq request ?fresh e1 = (Ok, s1, e2)"
    by (auto simp: AssociationServer_Accept.simps Let_def split: if_splits sum.splits prod.splits)
  with DecodeAarq_proves [OF this(2)] show ?thesis by auto
qed

subsection \<open>Properties\<close>

text \<open>
  C10: The states of associations. However the methods of a client and of a server are called, with
  every behaviour of their channels, strategies and sinks: the objects keep their options and are
  never left in the state \<open>Associating\<close>; a closed object has an empty result; an associated client
  was not rejected, negotiated a version and a PDU size other than zero and, with high level security,
  holds a challenge of the server; an associated server reports what its options offer and, with high
  level security, knows the mechanism and its own challenge.
\<close>

theorem association_states:
  "(client_reachable ch options c \<longrightarrow> client_inv options c) \<and> (server_reachable ch' options' s \<longrightarrow> server_inv options' s)"
  using client_reachable_inv server_reachable_inv by blast

text \<open>
  C9: Only a client that proves its identity is accepted. When \<open>Accept\<close> succeeds, the APDU that was
  received is an AARQ which, without authentication, has no authentication field; with low level
  security, has exactly one authentication value, the credential of the server; with high level
  security, has exactly one authentication value, a challenge that the strategy validated.
\<close>

theorem server_authentication:
  assumes "AssociationServer_Accept ch (s, e) = (Ok, s', e')"
  shows "\<exists>request e1 apdu. channel_ReceiveApdu ch e = ((ProfileStatus.Ok, request), e1)
    \<and> DecodeAcseApdu (View request) = Inr apdu \<and> acseKind apdu = Aarq \<and> proves_identity (server_options s) (aarq apdu)"
  using assms by (rule Accept_proves)

text \<open>
  C8: Establishing and releasing an association. A client with valid options and a server that
  accepts them, in any of the three authentication modes, are associated after \<open>Establish\<close>; both
  report the parameters the server offers, each reports the title of the other, and with high level
  security both hold the server's challenge. \<open>Release\<close> then ends the association on both sides: the server
  has closed its channel, the client's is still open.
\<close>

theorem association_exchange:
  assumes "client_ready (client_options cl) mechanism challenge"
    "accepts (server_options s) (client_options cl) mechanism challenge answer" "server_ready s"
    "client_state cl = Open" "server_state s = Open"
  shows "\<exists>cl' s' b'. AssociationClient_Establish peer_channel (cl, s, b) = (Ok, cl', s', b')
    \<and> client_state cl' = Associated \<and> server_state s' = Associated
    \<and> client_result cl' = exchanged_client_result (client_options cl) (server_options s) answer
    \<and> server_result s' = exchanged_server_result (client_options cl) (server_options s) answer
    \<and> (\<exists>b''. AssociationClient_Release peer_channel (cl', s', b') =
         (Ok, cl'\<lparr>client_state := Open, client_result := EmptyAssociationResult\<rparr>,
          s'\<lparr>server_state := Closed, server_result := EmptyAssociationResult\<rparr>, b''))"
proof -
  from establish_exchange [OF assms, of b] obtain s' b' where
    "AssociationClient_Establish peer_channel (cl, s, b) = (Ok, cl\<lparr>client_state := Associated,
       client_result := exchanged_client_result (client_options cl) (server_options s) answer\<rparr>, s', b')"
    "server_state s' = Associated" "server_result s' = exchanged_server_result (client_options cl) (server_options s) answer" by blast
  then show ?thesis using release_exchange [of "cl\<lparr>client_state := Associated,
       client_result := exchanged_client_result (client_options cl) (server_options s) answer\<rparr>" s' b'] by auto
qed

text \<open>A client and a server that share the credential 1, 2, 3.\<close>

definition sample_client :: "peer AssociationClient" where
  "sample_client = (AssociationClient_init (DefaultAssociationOptions\<lparr>options_authenticationMode := LowLevelSecurity,
     options_lowLevelSecurityCredential := [1, 2, 3]\<rparr>))\<lparr>client_state := Open\<rparr>"

definition sample_server :: "mailbox AssociationServer" where
  "sample_server = (AssociationServer_init (DefaultAssociationServerOptions\<lparr>server_authenticationMode := LowLevelSecurity,
     server_lowLevelSecurityCredential := [1, 2, 3], server_respondingApplicationTitle := [9, 9]\<rparr>))\<lparr>server_state := Open\<rparr>"

lemmas sample_defs = sample_client_def sample_server_def AssociationClient_init_def AssociationServer_init_def
  DefaultAssociationOptions_def DefaultAssociationServerOptions_def MakeDefaultInitiateRequest_def

lemma sample_ready:
  "client_ready (client_options sample_client) UnknownMechanism []"
  "accepts (server_options sample_server) (client_options sample_client) UnknownMechanism [] []" "server_ready sample_server"
  "client_state sample_client = Open" "server_state sample_server = Open"
  by (simp_all add: client_ready_def accepts_def server_ready_def sample_defs AssociationClient_ValidateOptions_def
      AssociationServer_ValidateOptions_def kMaxShortBerAuthenticationValueSize_def)

theorem association_exchange_witness:
  "\<exists>cl' s' b'. AssociationClient_Establish peer_channel (sample_client, sample_server, \<lparr>request_slot = [], reply_slot = None\<rparr>) = (Ok, cl', s', b')
    \<and> client_state cl' = Associated \<and> result_respondingApplicationTitle (client_result cl') = [9, 9]"
proof -
  have "result_respondingApplicationTitle (exchanged_client_result (client_options sample_client) (server_options sample_server) []) = [9, 9]"
    by (simp add: exchanged_client_result_def sample_defs)
  with association_exchange [OF sample_ready, of "\<lparr>request_slot = [], reply_slot = None\<rparr>"] show ?thesis by auto
qed

theorem server_authentication_witness:
  "\<exists>request e1 apdu. channel_ReceiveApdu mailbox_channel
      \<lparr>request_slot = aarq_bytes (client_request (client_options sample_client) UnknownMechanism []), reply_slot = None\<rparr>
      = ((ProfileStatus.Ok, request), e1)
    \<and> DecodeAcseApdu (View request) = Inr apdu \<and> acseKind apdu = Aarq \<and> proves_identity (server_options sample_server) (aarq apdu)"
  by (rule server_authentication) (rule Accept_request [OF sample_ready(1,2,3,5)])

theorem association_states_witness:
  "client_inv DefaultAssociationOptions (AssociationClient_init DefaultAssociationOptions :: peer AssociationClient)
   \<and> server_inv DefaultAssociationServerOptions (AssociationServer_init DefaultAssociationServerOptions :: mailbox AssociationServer)"
  using association_states [of peer_channel DefaultAssociationOptions "AssociationClient_init DefaultAssociationOptions"
      mailbox_channel DefaultAssociationServerOptions "AssociationServer_init DefaultAssociationServerOptions"]
    client_reachable.client_created server_reachable.server_created by blast

end
