(* ===== verification/Xdlms_Types.thy ===== *)
theory Xdlms_Types
  imports Apdu_Xdlms Security_Types Profile_Channel
begin

text \<open>
  The types of the xDLMS services (\<open>xdlms_types.cpp\<close>, \<open>xdlms_status.hpp\<close>, \<open>xdlms_trace.cpp\<close>,
  \<open>xdlms_correlation.hpp\<close>) and the interfaces that client and server are given: security processing, a
  trace sink and the association state. As in the association layer,
  they are functions on a state \<open>'e\<close> for the world outside the object.
\<close>

datatype XdlmsStatus = Ok | InvalidArgument | InvalidState | NotAssociated | SendFailed | ReceiveFailed | EncodeFailed
  | DecodeFailed | InvokeIdMismatch | ServiceRejected | BlockTransferRequired | UnsupportedFeature | SecurityFailed
  | InternalError

subsection \<open>Descriptors, options and results\<close>

text \<open>A logical name is a list of six bytes; reading it out of range gives zero.\<close>

type_synonym CosemLogicalName = bytes

definition CosemLogicalName_init :: CosemLogicalName where
  "CosemLogicalName_init = [0, 0, 0, 0, 0, 0]"

definition CosemLogicalName_at :: "CosemLogicalName \<Rightarrow> nat \<Rightarrow> u8" where
  "CosemLogicalName_at name index = (if index < 6 then name ! index else 0)"

record AttributeDescriptor =
  attribute_classId :: u16
  attribute_instanceId :: CosemLogicalName
  attribute_attributeId :: u8

record MethodDescriptor =
  method_classId :: u16
  method_instanceId :: CosemLogicalName
  method_methodId :: u8

record SelectiveAccess =
  access_selector :: u8
  access_encodedParameters :: bytes

record ServiceOptions =
  confirmed :: bool
  highPriority :: bool
  allowBlockTransfer :: bool
  maxBlockTransferBytes :: nat
  maxGetBlockPayloadBytes :: nat
  maxSetBlockPayloadBytes :: nat
  maxActionBlockPayloadBytes :: nat

record GetResult =
  get_invokeId :: u8
  get_hasData :: bool
  get_data :: bytes
  get_hasAccessResult :: bool
  get_accessResult :: u8

record SetResult =
  set_invokeId :: u8
  set_accessResult :: u8

record ActionResult =
  action_invokeId :: u8
  action_actionResult :: u8
  action_hasData :: bool
  action_data :: bytes

definition DefaultServiceOptions :: ServiceOptions where
  "DefaultServiceOptions = \<lparr>confirmed = True, highPriority = False, allowBlockTransfer = True, maxBlockTransferBytes = 65536,
     maxGetBlockPayloadBytes = 1024, maxSetBlockPayloadBytes = 1024, maxActionBlockPayloadBytes = 1024\<rparr>"

definition EmptyCosemAttributeDescriptor :: AttributeDescriptor where
  "EmptyCosemAttributeDescriptor =
     \<lparr>attribute_classId = 0, attribute_instanceId = CosemLogicalName_init, attribute_attributeId = 0\<rparr>"

definition EmptyCosemMethodDescriptor :: MethodDescriptor where
  "EmptyCosemMethodDescriptor = \<lparr>method_classId = 0, method_instanceId = CosemLogicalName_init, method_methodId = 0\<rparr>"

definition EmptySelectiveAccessDescriptor :: SelectiveAccess where
  "EmptySelectiveAccessDescriptor = \<lparr>access_selector = 0, access_encodedParameters = []\<rparr>"

definition EmptyGetResult :: GetResult where
  "EmptyGetResult = \<lparr>get_invokeId = 0, get_hasData = False, get_data = [], get_hasAccessResult = False, get_accessResult = 0\<rparr>"

definition EmptySetResult :: SetResult where
  "EmptySetResult = \<lparr>set_invokeId = 0, set_accessResult = 0\<rparr>"

definition EmptyActionResult :: ActionResult where
  "EmptyActionResult = \<lparr>action_invokeId = 0, action_actionResult = 0, action_hasData = False, action_data = []\<rparr>"

definition ValidateDescriptor :: "AttributeDescriptor \<Rightarrow> XdlmsStatus" where
  "ValidateDescriptor descriptor =
     (if attribute_classId descriptor = 0 \<or> attribute_attributeId descriptor = 0 then InvalidArgument
      else if list_ex (\<lambda>i. CosemLogicalName_at (attribute_instanceId descriptor) i \<noteq> 0) [0 ..< 6] then Ok
      else InvalidArgument)"

definition ValidateSelectiveAccess :: "SelectiveAccess \<Rightarrow> XdlmsStatus" where
  "ValidateSelectiveAccess a =
     (if access_selector a = 0 \<or> access_encodedParameters a = [] then InvalidArgument else Ok)"

definition ValidateMethodDescriptor :: "MethodDescriptor \<Rightarrow> XdlmsStatus" where
  "ValidateMethodDescriptor descriptor =
     (if method_classId descriptor = 0 \<or> method_methodId descriptor = 0 then InvalidArgument
      else if list_ex (\<lambda>i. CosemLogicalName_at (method_instanceId descriptor) i \<noteq> 0) [0 ..< 6] then Ok
      else InvalidArgument)"

subsection \<open>Invoke identifiers\<close>

definition InvokeIdAllocator_init :: u8 where "InvokeIdAllocator_init = 1"

definition InvokeIdAllocator_Next :: "u8 \<Rightarrow> u8 \<times> u8" where
  "InvokeIdAllocator_Next n = (let m = (n + 1) AND 0x0f in (n, if m = 0 then 1 else m))"

definition ValidateInvokeId :: "u8 \<Rightarrow> XdlmsStatus" where
  "ValidateInvokeId invokeId = (if 1 \<le> invokeId \<and> invokeId \<le> 15 then Ok else InvalidArgument)"

definition MakeInvokeIdAndPriority :: "u8 \<Rightarrow> ServiceOptions \<Rightarrow> u8" where
  "MakeInvokeIdAndPriority invokeId options =
     (let v = invokeId AND 0x0f; v = (if confirmed options then v OR 0x80 else v) in
      if highPriority options then v OR 0x40 else v)"

definition ParseServiceOptions :: "u8 \<Rightarrow> ServiceOptions \<Rightarrow> ServiceOptions" where
  "ParseServiceOptions invokeIdAndPriority defaults =
     defaults\<lparr>confirmed := invokeIdAndPriority AND 0x80 \<noteq> 0, highPriority := invokeIdAndPriority AND 0x40 \<noteq> 0\<rparr>"

definition MakeConversationId :: "64 word \<Rightarrow> u8 \<Rightarrow> 64 word" where
  "MakeConversationId associationSeed invokeId = (associationSeed AND NOT 0x0f) OR (ucast invokeId AND 0x0f)"

subsection \<open>Traces\<close>

datatype XdlmsTraceKind = TraceGetRequest | TraceSetRequest | TraceActionRequest | TraceGetResponse | TraceSetResponse
  | TraceActionResponse | BlockTransferStep | RequestReceived | ResponseSent | TraceDecodeFailed | InvokeIdRejected
  | TraceSecurityFailed

datatype XdlmsTraceDirection = Outbound | Inbound

record XdlmsTraceEvent =
  event_kind :: XdlmsTraceKind
  event_direction :: XdlmsTraceDirection
  event_status :: XdlmsStatus
  event_invokeId :: u8
  event_options :: ServiceOptions
  event_classId :: u16
  event_attributeOrMethodId :: u8
  event_logicalName :: bytes
  event_hasBlockNumber :: bool
  event_blockNumber :: u32
  event_apduSize :: nat
  event_payloadSize :: nat
  event_conversationId :: "64 word"

definition EmptyXdlmsTraceEvent :: XdlmsTraceEvent where
  "EmptyXdlmsTraceEvent = \<lparr>event_kind = TraceGetRequest, event_direction = Outbound, event_status = Ok, event_invokeId = 0,
     event_options = DefaultServiceOptions, event_classId = 0, event_attributeOrMethodId = 0,
     event_logicalName = [0, 0, 0, 0, 0, 0], event_hasBlockNumber = False, event_blockNumber = 0, event_apduSize = 0,
     event_payloadSize = 0, event_conversationId = 0\<rparr>"

text \<open>A null sink does nothing.\<close>

type_synonym 'e trace_sink = "(XdlmsTraceEvent \<Rightarrow> 'e \<Rightarrow> 'e) option"

fun emit :: "'e trace_sink \<Rightarrow> XdlmsTraceEvent \<Rightarrow> 'e \<Rightarrow> 'e" where
  "emit None event e = e"
| "emit (Some sink) event e = sink event e"

subsection \<open>Interfaces\<close>

record 'e XdlmsSecurityProcessor =
  security_Protect :: "view \<Rightarrow> 'e \<Rightarrow> (SecurityStatus + bytes) \<times> 'e"
  security_Unprotect :: "view \<Rightarrow> 'e \<Rightarrow> (SecurityStatus + bytes) \<times> 'e"

record 'e XdlmsAssociationState =
  association_IsAssociated :: "'e \<Rightarrow> bool"
  association_ConversationSeed :: "'e \<Rightarrow> 64 word"

definition pointer_view :: "bytes \<Rightarrow> view" where
  "pointer_view bs = (if bs = [] then NullView 0 else View bs)"

text \<open>Every failure of an APDU codec is reported as one status of the service.\<close>

definition reported :: "XdlmsStatus \<Rightarrow> ApduStatus + 'a \<Rightarrow> XdlmsStatus + 'a" where
  "reported status x = (case x of Inl _ \<Rightarrow> Inl status | Inr a \<Rightarrow> Inr a)"

end
