(* ===== verification/Cosem_Model.thy ===== *)
theory Cosem_Model
  imports Xdlms_Types
begin

text \<open>
  The object model of a server: keys and descriptors (\<open>cosem_types.cpp\<close>), access rights
  (\<open>cosem_access.cpp\<close>), the registry of objects (\<open>object_registry.cpp\<close>) and the devices that hold
  registries (\<open>logical_device.cpp\<close>). The objects themselves are behind \<open>ICosemObject\<close>: functions on the
  world \<open>'e\<close> that holds their state. A \<open>std::map\<close> is the list of its entries in the order of the keys, a \<open>std::string\<close> the
  list of its bytes.
\<close>

datatype CosemStatus = Ok | InvalidArgument | DuplicateObject | ObjectNotFound | AttributeNotFound | MethodNotFound
  | AccessDenied | OutputBufferTooSmall | UnsupportedFeature | ObjectError | InternalError

subsection \<open>Keys\<close>

record CosemObjectKey =
  key_classId :: u16
  key_version :: u8
  key_logicalName :: bytes

record CosemObjectDescriptor =
  descriptor_key :: CosemObjectKey

record ObjectAttribute =
  attribute_object :: CosemObjectKey
  attribute_id :: u8

record ObjectMethod =
  method_object :: CosemObjectKey
  method_id :: u8

definition EmptyCosemObjectKey :: CosemObjectKey where
  "EmptyCosemObjectKey = \<lparr>key_classId = 0, key_version = 0, key_logicalName = CosemLogicalName_init\<rparr>"

definition EmptyCosemObjectDescriptor :: CosemObjectDescriptor where
  "EmptyCosemObjectDescriptor = \<lparr>descriptor_key = EmptyCosemObjectKey\<rparr>"

definition cosem_EmptyAttributeDescriptor :: ObjectAttribute where
  "cosem_EmptyAttributeDescriptor = \<lparr>attribute_object = EmptyCosemObjectKey, attribute_id = 0\<rparr>"

definition cosem_EmptyMethodDescriptor :: ObjectMethod where
  "cosem_EmptyMethodDescriptor = \<lparr>method_object = EmptyCosemObjectKey, method_id = 0\<rparr>"

definition LogicalName_IsEmpty :: "bytes \<Rightarrow> bool" where
  "LogicalName_IsEmpty name \<longleftrightarrow> list_all (\<lambda>i. name ! i = 0) [0 ..< 6]"

definition ValidateObjectKey :: "CosemObjectKey \<Rightarrow> CosemStatus" where
  "ValidateObjectKey key =
     (if key_classId key = 0 \<or> LogicalName_IsEmpty (key_logicalName key) then InvalidArgument else Ok)"

definition ValidateObjectDescriptor :: "CosemObjectDescriptor \<Rightarrow> CosemStatus" where
  "ValidateObjectDescriptor descriptor = ValidateObjectKey (descriptor_key descriptor)"

definition ValidateAttributeDescriptor :: "ObjectAttribute \<Rightarrow> CosemStatus" where
  "ValidateAttributeDescriptor descriptor =
     (if ValidateObjectKey (attribute_object descriptor) \<noteq> Ok then ValidateObjectKey (attribute_object descriptor)
      else if attribute_id descriptor = 0 then InvalidArgument else Ok)"

definition cosem_ValidateMethodDescriptor :: "ObjectMethod \<Rightarrow> CosemStatus" where
  "cosem_ValidateMethodDescriptor descriptor =
     (if ValidateObjectKey (method_object descriptor) \<noteq> Ok then ValidateObjectKey (method_object descriptor)
      else if method_id descriptor = 0 then InvalidArgument else Ok)"

text \<open>The two comparisons of names stop at the first difference.\<close>

definition logical_name_eq :: "bytes \<Rightarrow> bytes \<Rightarrow> bool" where
  "logical_name_eq lhs rhs \<longleftrightarrow> list_all (\<lambda>i. CosemLogicalName_at lhs i = CosemLogicalName_at rhs i) [0 ..< 6]"

fun logical_name_less_from :: "nat list \<Rightarrow> bytes \<Rightarrow> bytes \<Rightarrow> bool" where
  "logical_name_less_from [] lhs rhs = False"
| "logical_name_less_from (i # is) lhs rhs =
     (if CosemLogicalName_at lhs i < CosemLogicalName_at rhs i then True
      else if CosemLogicalName_at rhs i < CosemLogicalName_at lhs i then False
      else logical_name_less_from is lhs rhs)"

definition logical_name_less :: "bytes \<Rightarrow> bytes \<Rightarrow> bool" where
  "logical_name_less = logical_name_less_from [0 ..< 6]"

definition key_eq :: "CosemObjectKey \<Rightarrow> CosemObjectKey \<Rightarrow> bool" where
  "key_eq lhs rhs \<longleftrightarrow> key_classId lhs = key_classId rhs \<and> key_version lhs = key_version rhs
     \<and> logical_name_eq (key_logicalName lhs) (key_logicalName rhs)"

definition key_less :: "CosemObjectKey \<Rightarrow> CosemObjectKey \<Rightarrow> bool" where
  "key_less lhs rhs =
     (if key_classId lhs \<noteq> key_classId rhs then key_classId lhs < key_classId rhs
      else if key_version lhs \<noteq> key_version rhs then key_version lhs < key_version rhs
      else logical_name_less (key_logicalName lhs) (key_logicalName rhs))"

subsection \<open>Access rights\<close>

datatype AttributeAccessMode = NoAccess | ReadOnly | WriteOnly | ReadAndWrite | AuthenticatedReadOnly
  | AuthenticatedWriteOnly | AuthenticatedReadAndWrite

datatype MethodAccessMode = NoMethodAccess | Access | AuthenticatedAccess

record CosemAccessContext =
  authenticated :: bool

text \<open>The two maps of access rights, as lists of entries in the order of the identifiers.\<close>

record CosemAccessRights =
  attributeAccess :: "(u8 \<times> AttributeAccessMode) list"
  methodAccess :: "(u8 \<times> MethodAccessMode) list"

definition CosemAccessRights_init :: CosemAccessRights where
  "CosemAccessRights_init = \<lparr>attributeAccess = [], methodAccess = []\<rparr>"

fun map_assign :: "'k::linorder \<Rightarrow> 'v \<Rightarrow> ('k \<times> 'v) list \<Rightarrow> ('k \<times> 'v) list" where
  "map_assign k v [] = [(k, v)]"
| "map_assign k v ((k', v') # m) = (if k = k' then (k, v) # m else if k < k' then (k, v) # (k', v') # m else (k', v') # map_assign k v m)"

definition SetAttributeAccess :: "u8 \<Rightarrow> AttributeAccessMode \<Rightarrow> CosemAccessRights \<Rightarrow> CosemAccessRights" where
  "SetAttributeAccess identifier mode rights = rights\<lparr>attributeAccess := map_assign identifier mode (attributeAccess rights)\<rparr>"

definition SetMethodAccess :: "u8 \<Rightarrow> MethodAccessMode \<Rightarrow> CosemAccessRights \<Rightarrow> CosemAccessRights" where
  "SetMethodAccess identifier mode rights = rights\<lparr>methodAccess := map_assign identifier mode (methodAccess rights)\<rparr>"

definition AttributeAccess :: "u8 \<Rightarrow> CosemAccessRights \<Rightarrow> AttributeAccessMode" where
  "AttributeAccess identifier rights = (case map_of (attributeAccess rights) identifier of None \<Rightarrow> NoAccess | Some mode \<Rightarrow> mode)"

definition MethodAccess :: "u8 \<Rightarrow> CosemAccessRights \<Rightarrow> MethodAccessMode" where
  "MethodAccess identifier rights = (case map_of (methodAccess rights) identifier of None \<Rightarrow> NoMethodAccess | Some mode \<Rightarrow> mode)"

definition AttributeAccessEntries :: "CosemAccessRights \<Rightarrow> (u8 \<times> AttributeAccessMode) list" where
  "AttributeAccessEntries rights = attributeAccess rights"

definition MethodAccessEntries :: "CosemAccessRights \<Rightarrow> (u8 \<times> MethodAccessMode) list" where
  "MethodAccessEntries rights = methodAccess rights"

definition IsReadAllowed :: "AttributeAccessMode \<Rightarrow> CosemAccessContext \<Rightarrow> bool" where
  "IsReadAllowed mode context' = (case mode of ReadOnly \<Rightarrow> True | ReadAndWrite \<Rightarrow> True
     | AuthenticatedReadOnly \<Rightarrow> authenticated context' | AuthenticatedReadAndWrite \<Rightarrow> authenticated context' | _ \<Rightarrow> False)"

definition IsWriteAllowed :: "AttributeAccessMode \<Rightarrow> CosemAccessContext \<Rightarrow> bool" where
  "IsWriteAllowed mode context' = (case mode of WriteOnly \<Rightarrow> True | ReadAndWrite \<Rightarrow> True
     | AuthenticatedWriteOnly \<Rightarrow> authenticated context' | AuthenticatedReadAndWrite \<Rightarrow> authenticated context' | _ \<Rightarrow> False)"

definition IsMethodAllowed :: "MethodAccessMode \<Rightarrow> CosemAccessContext \<Rightarrow> bool" where
  "IsMethodAllowed mode context' = (case mode of Access \<Rightarrow> True | AuthenticatedAccess \<Rightarrow> authenticated context' | _ \<Rightarrow> False)"

definition CanReadAttribute :: "u8 \<Rightarrow> CosemAccessContext \<Rightarrow> CosemAccessRights \<Rightarrow> bool" where
  "CanReadAttribute identifier context' rights = IsReadAllowed (AttributeAccess identifier rights) context'"

definition CanWriteAttribute :: "u8 \<Rightarrow> CosemAccessContext \<Rightarrow> CosemAccessRights \<Rightarrow> bool" where
  "CanWriteAttribute identifier context' rights = IsWriteAllowed (AttributeAccess identifier rights) context'"

definition CanInvokeMethod :: "u8 \<Rightarrow> CosemAccessContext \<Rightarrow> CosemAccessRights \<Rightarrow> bool" where
  "CanInvokeMethod identifier context' rights = IsMethodAllowed (MethodAccess identifier rights) context'"

definition PublicAccessContext :: CosemAccessContext where
  "PublicAccessContext = \<lparr>authenticated = False\<rparr>"

definition AuthenticatedAccessContext :: CosemAccessContext where
  "AuthenticatedAccessContext = \<lparr>authenticated = True\<rparr>"

subsection \<open>Objects\<close>

text \<open>
  \<open>ICosemObject\<close>: the output of a read or an invocation is defined for every status. Reading does not change the
  object (the method is \<open>const\<close>).
\<close>

record 'e CosemObject =
  object_Descriptor :: "'e \<Rightarrow> CosemObjectDescriptor"
  object_AccessRights :: "'e \<Rightarrow> CosemAccessRights"
  object_ReadAttribute :: "u8 \<Rightarrow> 'e \<Rightarrow> CosemStatus \<times> bytes"
  object_WriteAttribute :: "u8 \<Rightarrow> bytes \<Rightarrow> 'e \<Rightarrow> CosemStatus \<times> 'e"
  object_InvokeMethod :: "u8 \<Rightarrow> bytes \<Rightarrow> 'e \<Rightarrow> (CosemStatus \<times> bytes) \<times> 'e"

subsection \<open>The registry\<close>

type_synonym 'e ObjectRegistry = "(CosemObjectKey \<times> 'e CosemObject) list"

fun registry_insert :: "CosemObjectKey \<Rightarrow> 'e CosemObject \<Rightarrow> 'e ObjectRegistry \<Rightarrow> 'e ObjectRegistry" where
  "registry_insert k x [] = [(k, x)]"
| "registry_insert k x ((k', x') # m) = (if key_less k k' then (k, x) # (k', x') # m else (k', x') # registry_insert k x m)"

text \<open>The lookup of the map: the entry whose key is neither smaller nor greater.\<close>

fun registry_find :: "CosemObjectKey \<Rightarrow> 'e ObjectRegistry \<Rightarrow> 'e CosemObject option" where
  "registry_find k [] = None"
| "registry_find k ((k', x') # m) = (if \<not> key_less k k' \<and> \<not> key_less k' k then Some x' else registry_find k m)"

definition Register :: "'e CosemObject option \<Rightarrow> 'e \<Rightarrow> 'e ObjectRegistry \<Rightarrow> CosemStatus \<times> 'e ObjectRegistry" where
  "Register object e objects = (case object of
     None \<Rightarrow> (InvalidArgument, objects)
   | Some x \<Rightarrow>
       let descriptor = object_Descriptor x e; status = ValidateObjectDescriptor descriptor in
       if status \<noteq> Ok then (status, objects)
       else if registry_find (descriptor_key descriptor) objects \<noteq> None then (DuplicateObject, objects)
       else (Ok, registry_insert (descriptor_key descriptor) x objects))"

definition Find :: "CosemObjectKey \<Rightarrow> 'e ObjectRegistry \<Rightarrow> 'e CosemObject option" where
  "Find key objects = (if ValidateObjectKey key \<noteq> Ok then None else registry_find key objects)"

definition Contains :: "CosemObjectKey \<Rightarrow> 'e ObjectRegistry \<Rightarrow> bool" where
  "Contains key objects \<longleftrightarrow> Find key objects \<noteq> None"

definition Descriptors :: "'e \<Rightarrow> 'e ObjectRegistry \<Rightarrow> CosemObjectDescriptor list" where
  "Descriptors e objects = map (\<lambda>(k, x). object_Descriptor x e) objects"

definition Registry_Size :: "'e ObjectRegistry \<Rightarrow> nat" where
  "Registry_Size objects = length objects"

definition Registry_ReadAttribute ::
    "ObjectAttribute \<Rightarrow> CosemAccessContext \<Rightarrow> 'e ObjectRegistry \<Rightarrow> 'e \<Rightarrow> CosemStatus \<times> bytes" where
  "Registry_ReadAttribute descriptor context' objects e =
     (let status = ValidateAttributeDescriptor descriptor in
      if status \<noteq> Ok then (status, [])
      else case Find (attribute_object descriptor) objects of
        None \<Rightarrow> (ObjectNotFound, [])
      | Some x \<Rightarrow>
          if \<not> CanReadAttribute (attribute_id descriptor) context' (object_AccessRights x e) then (AccessDenied, [])
          else let (readStatus, candidate) = object_ReadAttribute x (attribute_id descriptor) e in
            (readStatus, if readStatus = Ok then candidate else []))"

definition Registry_WriteAttribute ::
    "ObjectAttribute \<Rightarrow> CosemAccessContext \<Rightarrow> bytes \<Rightarrow> 'e ObjectRegistry \<Rightarrow> 'e \<Rightarrow> CosemStatus \<times> 'e" where
  "Registry_WriteAttribute descriptor context' input objects e =
     (let status = ValidateAttributeDescriptor descriptor in
      if status \<noteq> Ok then (status, e)
      else case registry_find (attribute_object descriptor) objects of
        None \<Rightarrow> (ObjectNotFound, e)
      | Some x \<Rightarrow>
          if \<not> CanWriteAttribute (attribute_id descriptor) context' (object_AccessRights x e) then (AccessDenied, e)
          else object_WriteAttribute x (attribute_id descriptor) input e)"

definition Registry_InvokeMethod ::
    "ObjectMethod \<Rightarrow> CosemAccessContext \<Rightarrow> bytes \<Rightarrow> 'e ObjectRegistry \<Rightarrow> 'e \<Rightarrow> (CosemStatus \<times> bytes) \<times> 'e" where
  "Registry_InvokeMethod descriptor context' input objects e =
     (let status = cosem_ValidateMethodDescriptor descriptor in
      if status \<noteq> Ok then ((status, []), e)
      else case registry_find (method_object descriptor) objects of
        None \<Rightarrow> ((ObjectNotFound, []), e)
      | Some x \<Rightarrow>
          if \<not> CanInvokeMethod (method_id descriptor) context' (object_AccessRights x e) then ((AccessDenied, []), e)
          else let ((invokeStatus, candidate), e') = object_InvokeMethod x (method_id descriptor) input e in
            ((invokeStatus, if invokeStatus = Ok then candidate else []), e'))"

subsection \<open>Devices\<close>

record 'e ILogicalDevice =
  device_ReadAttribute :: "ObjectAttribute \<Rightarrow> CosemAccessContext \<Rightarrow> 'e \<Rightarrow> CosemStatus \<times> bytes"
  device_WriteAttribute :: "ObjectAttribute \<Rightarrow> CosemAccessContext \<Rightarrow> bytes \<Rightarrow> 'e \<Rightarrow> CosemStatus \<times> 'e"
  device_InvokeMethod :: "ObjectMethod \<Rightarrow> CosemAccessContext \<Rightarrow> bytes \<Rightarrow> 'e \<Rightarrow> (CosemStatus \<times> bytes) \<times> 'e"

record 'e LogicalDevice =
  sap :: u16
  device_name :: bytes
  registry :: "'e ObjectRegistry"

record AssociationViewObject =
  view_descriptor :: CosemObjectDescriptor
  view_accessRights :: CosemAccessRights

record SapAssignment =
  assignment_sap :: u16
  logicalDeviceName :: bytes

record AssociationLnMetadata =
  metadata_descriptor :: CosemObjectDescriptor
  objectList :: "AssociationViewObject list"

definition LogicalDevice_init :: "u16 \<Rightarrow> bytes \<Rightarrow> 'e LogicalDevice" where
  "LogicalDevice_init n name = \<lparr>sap = n, device_name = name, registry = []\<rparr>"

definition RegisterObject :: "'e CosemObject option \<Rightarrow> 'e \<Rightarrow> 'e LogicalDevice \<Rightarrow> CosemStatus \<times> 'e LogicalDevice" where
  "RegisterObject object e d = (let (status, objects) = Register object e (registry d) in (status, d\<lparr>registry := objects\<rparr>))"

definition BuildAssociationView :: "'e \<Rightarrow> 'e LogicalDevice \<Rightarrow> AssociationViewObject list" where
  "BuildAssociationView e d = List.map_filter (\<lambda>descriptor.
     case Find (descriptor_key descriptor) (registry d) of None \<Rightarrow> None
     | Some x \<Rightarrow> Some \<lparr>view_descriptor = descriptor, view_accessRights = object_AccessRights x e\<rparr>) (Descriptors e (registry d))"

definition BuildSapAssignment :: "'e LogicalDevice \<Rightarrow> SapAssignment" where
  "BuildSapAssignment d = \<lparr>assignment_sap = sap d, logicalDeviceName = device_name d\<rparr>"

definition BuildAssociationLnMetadata :: "CosemObjectDescriptor \<Rightarrow> 'e \<Rightarrow> 'e LogicalDevice \<Rightarrow> AssociationLnMetadata" where
  "BuildAssociationLnMetadata associationObject e d =
     \<lparr>metadata_descriptor = associationObject, objectList = BuildAssociationView e d\<rparr>"

definition LogicalDevice_of :: "'e LogicalDevice \<Rightarrow> 'e ILogicalDevice" where
  "LogicalDevice_of d =
     \<lparr>device_ReadAttribute = (\<lambda>descriptor context'. Registry_ReadAttribute descriptor context' (registry d)),
      device_WriteAttribute = (\<lambda>descriptor context' input. Registry_WriteAttribute descriptor context' input (registry d)),
      device_InvokeMethod = (\<lambda>descriptor context' input. Registry_InvokeMethod descriptor context' input (registry d))\<rparr>"

type_synonym 'e PhysicalDevice = "'e LogicalDevice list"

definition FindLogicalDevice :: "u16 \<Rightarrow> 'e PhysicalDevice \<Rightarrow> 'e LogicalDevice option" where
  "FindLogicalDevice n devices = find (\<lambda>d. sap d = n) devices"

definition AddLogicalDevice :: "'e LogicalDevice option \<Rightarrow> 'e PhysicalDevice \<Rightarrow> CosemStatus \<times> 'e PhysicalDevice" where
  "AddLogicalDevice device devices = (case device of
     None \<Rightarrow> (InvalidArgument, devices)
   | Some d \<Rightarrow>
       if sap d = 0 then (InvalidArgument, devices)
       else if FindLogicalDevice (sap d) devices \<noteq> None then (DuplicateObject, devices)
       else (Ok, devices @ [d]))"

definition SapAssignments :: "'e PhysicalDevice \<Rightarrow> SapAssignment list" where
  "SapAssignments devices = map BuildSapAssignment devices"

definition PhysicalDevice_Size :: "'e PhysicalDevice \<Rightarrow> nat" where
  "PhysicalDevice_Size devices = length devices"

end
