(* ===== verification/Cosem_Laws.thy ===== *)
theory Cosem_Laws
  imports Cosem_Model
begin

text \<open>
  The keys are totally ordered, so that the registry is a map from keys to objects, and the contract of a
  logical device: who may read, write and invoke what.
\<close>

subsection \<open>The order of the keys\<close>

lemma logical_name_less_from_irrefl: "\<not> logical_name_less_from is a a"
  by (induction "is") auto

lemma logical_name_less_from_trans:
  "logical_name_less_from is a b \<Longrightarrow> logical_name_less_from is b c \<Longrightarrow> logical_name_less_from is a c"
  by (induction "is") (auto split: if_splits)

lemma logical_name_less_from_total:
  "\<not> logical_name_less_from is a b \<Longrightarrow> \<not> logical_name_less_from is b a \<Longrightarrow> \<forall>i \<in> set is. CosemLogicalName_at a i = CosemLogicalName_at b i"
  by (induction "is") (auto split: if_splits)

definition key_ok :: "CosemObjectKey \<Rightarrow> bool" where
  "key_ok k \<longleftrightarrow> length (key_logicalName k) = 6"

lemma key_less_irrefl [simp]: "\<not> key_less k k"
  by (simp add: key_less_def logical_name_less_def logical_name_less_from_irrefl)

lemma key_less_trans: "key_less a b \<Longrightarrow> key_less b c \<Longrightarrow> key_less a c"
  by (auto simp: key_less_def logical_name_less_def intro: logical_name_less_from_trans split: if_splits)

lemma key_less_total:
  assumes "key_ok a" "key_ok b" "\<not> key_less a b" "\<not> key_less b a"
  shows "a = b"
proof -
  have "\<forall>i \<in> set [0 ..< 6]. CosemLogicalName_at (key_logicalName a) i = CosemLogicalName_at (key_logicalName b) i"
    using assms(3,4) logical_name_less_from_total [of "[0 ..< 6]" "key_logicalName a" "key_logicalName b"]
    by (auto simp: key_less_def logical_name_less_def split: if_splits)
  then have "key_logicalName a = key_logicalName b"
    using assms(1,2) by (intro nth_equalityI) (auto simp: key_ok_def CosemLogicalName_at_def)
  then show ?thesis using assms(3,4) by (intro CosemObjectKey.equality) (auto simp: key_less_def split: if_splits)
qed

lemma key_eq_iff: "key_ok a \<Longrightarrow> key_ok b \<Longrightarrow> key_eq a b \<longleftrightarrow> a = b"
  by (auto simp: key_eq_def logical_name_eq_def list_all_iff key_ok_def CosemLogicalName_at_def
      intro!: CosemObjectKey.equality nth_equalityI)

subsection \<open>The registry as a map\<close>

definition registry_ok :: "'e ObjectRegistry \<Rightarrow> bool" where
  "registry_ok m \<longleftrightarrow> sorted_wrt key_less (map fst m) \<and> (\<forall>k \<in> fst ` set m. key_ok k \<and> ValidateObjectKey k = Ok)"

lemma registry_find_map_of: "\<forall>k \<in> fst ` set m. key_ok k \<Longrightarrow> key_ok k \<Longrightarrow> registry_find k m = map_of m k"
  by (induction k m rule: registry_find.induct) (auto dest: key_less_total)

lemma registry_insert_set: "set (registry_insert k x m) = insert (k, x) (set m)"
  by (induction k x m rule: registry_insert.induct) auto

lemma registry_insert_sorted:
  assumes "sorted_wrt key_less (map fst m)" "\<forall>k' \<in> fst ` set m. key_less k k' \<or> key_less k' k"
  shows "sorted_wrt key_less (map fst (registry_insert k x m))"
  using assms by (induction k x m rule: registry_insert.induct) (auto simp: registry_insert_set intro: key_less_trans)

lemma registry_insert_map_of: "k \<notin> fst ` set m \<Longrightarrow> map_of (registry_insert k x m) = (map_of m)(k \<mapsto> x)"
  by (induction k x m rule: registry_insert.induct) (auto simp: fun_eq_iff)

lemma registry_insert_ok:
  assumes "registry_ok m" "key_ok k" "ValidateObjectKey k = Ok" "registry_find k m = None"
  shows "registry_ok (registry_insert k x m)" "map_of (registry_insert k x m) = (map_of m)(k \<mapsto> x)"
proof -
  have new: "k \<notin> fst ` set m"
    using assms registry_find_map_of [of m k] by (auto simp: registry_ok_def map_of_eq_None_iff)
  then have "\<forall>k' \<in> fst ` set m. key_less k k' \<or> key_less k' k"
    using assms(1,2) key_less_total [of k] by (auto simp: registry_ok_def)
  with assms show "registry_ok (registry_insert k x m)"
    by (auto simp: registry_ok_def registry_insert_set registry_insert_sorted)
  show "map_of (registry_insert k x m) = (map_of m)(k \<mapsto> x)" by (rule registry_insert_map_of [OF new])
qed

lemma strictly_sorted_distinct: "sorted_wrt key_less ks \<Longrightarrow> distinct ks"
  by (induction ks) auto

lemma registry_keys_distinct: "registry_ok m \<Longrightarrow> distinct (map fst m)"
  by (simp add: registry_ok_def strictly_sorted_distinct)

text \<open>The registries a program can build from objects whose logical names have six bytes.\<close>

inductive registered :: "'e ObjectRegistry \<Rightarrow> bool" where
  registered_empty: "registered []"
| registered_object: "registered m \<Longrightarrow> key_ok (descriptor_key (object_Descriptor x e)) \<Longrightarrow> registered (snd (Register (Some x) e m))"
| registered_null: "registered m \<Longrightarrow> registered (snd (Register None e m))"

lemma Register_ok: "registry_ok m \<Longrightarrow> key_ok (descriptor_key (object_Descriptor x e)) \<Longrightarrow> registry_ok (snd (Register (Some x) e m))"
  by (auto simp: Register_def Let_def ValidateObjectDescriptor_def intro: registry_insert_ok)

lemma registered_ok: "registered m \<Longrightarrow> registry_ok m"
  by (induction rule: registered.induct) (auto simp: Register_ok, auto simp: registry_ok_def Register_def)

lemma Find_map_of: "registry_ok m \<Longrightarrow> key_ok k \<Longrightarrow> Find k m = map_of m k"
  using registry_find_map_of [of m k] by (auto simp: Find_def registry_ok_def map_of_eq_None_iff eq_commute [of None])

text \<open>
  C34: a registry is a finite map from keys to objects, kept in the order of the keys. It holds no key twice and no
  invalid one, its size is the number of keys, \<open>Find\<close> is the lookup; registering an object adds one entry under
  the object's key if the key is valid and new, and otherwise reports which of the two failed and changes nothing.
\<close>

theorem registry_refines_map:
  assumes "registered m" and "key_ok k" and "k = descriptor_key (object_Descriptor x e)"
  shows "sorted_wrt key_less (map fst m) \<and> Registry_Size m = card (dom (map_of m))
    \<and> Find k m = map_of m k \<and> Contains k m = (k \<in> dom (map_of m))
    \<and> (ValidateObjectKey k \<noteq> Ok \<longrightarrow> Register (Some x) e m = (InvalidArgument, m) \<and> k \<notin> dom (map_of m))
    \<and> (k \<in> dom (map_of m) \<longrightarrow> Register (Some x) e m = (DuplicateObject, m))
    \<and> (ValidateObjectKey k = Ok \<and> k \<notin> dom (map_of m)
        \<longrightarrow> (\<exists>m'. Register (Some x) e m = (Ok, m') \<and> registered m' \<and> map_of m' = (map_of m)(k \<mapsto> x)))"
proof -
  have ok: "registry_ok m" by (rule registered_ok [OF assms(1)])
  then have find: "registry_find k m = map_of m k"
    using registry_find_map_of [of m k] assms(2) by (simp add: registry_ok_def)
  have "registered (snd (Register (Some x) e m))" using assms by (auto intro: registered_object)
  moreover have "card (dom (map_of m)) = length m"
    using registry_keys_distinct [OF ok] distinct_card [of "map fst m"] by (simp add: dom_map_of_conv_image_fst)
  moreover have "ValidateObjectKey k \<noteq> Ok \<Longrightarrow> ValidateObjectKey k = InvalidArgument \<and> map_of m k = None"
    using ok by (auto simp: ValidateObjectKey_def registry_ok_def map_of_eq_None_iff split: if_splits)
  ultimately show ?thesis
    using ok find assms(2) registry_insert_ok(2) [OF ok assms(2), of x] Find_map_of [OF ok assms(2)]
    by (auto simp: Registry_Size_def Contains_def Register_def Let_def ValidateObjectDescriptor_def registry_ok_def
        assms(3) [symmetric] dom_def)
qed

text \<open>An object of one readable attribute.\<close>

definition example_key :: CosemObjectKey where
  "example_key = \<lparr>key_classId = 1, key_version = 0, key_logicalName = [0, 0, 1, 0, 0, 255]\<rparr>"

definition example_object :: "unit CosemObject" where
  "example_object = \<lparr>object_Descriptor = (\<lambda>e. \<lparr>descriptor_key = example_key\<rparr>),
     object_AccessRights = (\<lambda>e. \<lparr>attributeAccess = [(2, ReadOnly)], methodAccess = []\<rparr>),
     object_ReadAttribute = (\<lambda>i e. (Ok, [i])), object_WriteAttribute = (\<lambda>i input e. (AccessDenied, e)),
     object_InvokeMethod = (\<lambda>i input e. ((MethodNotFound, []), e))\<rparr>"

lemma example_object [simp]: "descriptor_key (object_Descriptor example_object e) = example_key" "key_ok example_key"
  "ValidateObjectKey example_key = Ok"
  by (simp_all add: example_object_def example_key_def key_ok_def ValidateObjectKey_def LogicalName_IsEmpty_def CosemLogicalName_at_def upt_conv_Cons)

lemma example_registered: "registered [(example_key, example_object)]"
proof -
  have "snd (Register (Some example_object) () []) = [(example_key, example_object)]"
    by (simp add: Register_def ValidateObjectDescriptor_def Let_def)
  then show ?thesis using registered_object [OF registered_empty, of example_object "()"] by simp
qed

theorem registry_refines_map_witness:
  "Register (Some example_object) () [(example_key, example_object)] = (DuplicateObject, [(example_key, example_object)])
   \<and> (\<exists>m'. Register (Some example_object) () [] = (Ok, m') \<and> map_of m' = [example_key \<mapsto> example_object])"
proof -
  have "Register (Some example_object) () [(example_key, example_object)] = (DuplicateObject, [(example_key, example_object)])"
    using registry_refines_map [OF example_registered, of example_key example_object "()"] by simp
  moreover have "\<exists>m'. Register (Some example_object) () [] = (Ok, m') \<and> map_of m' = [example_key \<mapsto> example_object]"
    using registry_refines_map [OF registered_empty, of example_key example_object "()"] by auto
  ultimately show ?thesis by blast
qed

end
