(* ===== verification/Xdlms_Server.thy ===== *)
theory Xdlms_Server
  imports Xdlms_Types
begin

text \<open>
  The server side of the xDLMS services, \<open>xdlms_server.cpp\<close>: the encoding of responses, the three
  services with their block transfers, the validating dispatcher, and the processor that unprotects a
  request, decodes it, runs the service and protects the response.
\<close>

subsection \<open>Indications and block states\<close>

record GetIndication =
  getInd_invokeId :: u8
  getInd_options :: ServiceOptions
  getInd_descriptor :: AttributeDescriptor

record SetIndication =
  setInd_invokeId :: u8
  setInd_options :: ServiceOptions
  setInd_descriptor :: AttributeDescriptor
  setInd_data :: bytes

record ActionIndication =
  actionInd_invokeId :: u8
  actionInd_options :: ServiceOptions
  actionInd_descriptor :: MethodDescriptor
  actionInd_hasParameter :: bool
  actionInd_parameter :: bytes

record ActionRequestBlockState =
  ab_active :: bool
  ab_invokeId :: u8
  ab_options :: ServiceOptions
  ab_descriptor :: MethodDescriptor
  ab_nextBlockNumber :: u32
  ab_data :: bytes

record GetResponseBlockState =
  gb_active :: bool
  gb_invokeId :: u8
  gb_options :: ServiceOptions
  gb_nextBlockNumber :: u32
  gb_offset :: nat
  gb_data :: bytes

record SetRequestBlockState =
  sb_active :: bool
  sb_invokeId :: u8
  sb_options :: ServiceOptions
  sb_descriptor :: AttributeDescriptor
  sb_nextBlockNumber :: u32
  sb_data :: bytes

definition EmptyGetIndication :: GetIndication where
  "EmptyGetIndication =
     \<lparr>getInd_invokeId = 0, getInd_options = DefaultServiceOptions, getInd_descriptor = EmptyCosemAttributeDescriptor\<rparr>"

definition EmptySetIndication :: SetIndication where
  "EmptySetIndication = \<lparr>setInd_invokeId = 0, setInd_options = DefaultServiceOptions,
     setInd_descriptor = EmptyCosemAttributeDescriptor, setInd_data = []\<rparr>"

definition EmptyActionIndication :: ActionIndication where
  "EmptyActionIndication = \<lparr>actionInd_invokeId = 0, actionInd_options = DefaultServiceOptions,
     actionInd_descriptor = EmptyCosemMethodDescriptor, actionInd_hasParameter = False, actionInd_parameter = []\<rparr>"

definition EmptyGetResponseBlockState :: GetResponseBlockState where
  "EmptyGetResponseBlockState = \<lparr>gb_active = False, gb_invokeId = 0, gb_options = DefaultServiceOptions,
     gb_nextBlockNumber = 1, gb_offset = 0, gb_data = []\<rparr>"

definition EmptyActionRequestBlockState :: ActionRequestBlockState where
  "EmptyActionRequestBlockState = \<lparr>ab_active = False, ab_invokeId = 0, ab_options = DefaultServiceOptions,
     ab_descriptor = EmptyCosemMethodDescriptor, ab_nextBlockNumber = 1, ab_data = []\<rparr>"

definition EmptySetRequestBlockState :: SetRequestBlockState where
  "EmptySetRequestBlockState = \<lparr>sb_active = False, sb_invokeId = 0, sb_options = DefaultServiceOptions,
     sb_descriptor = EmptyCosemAttributeDescriptor, sb_nextBlockNumber = 1, sb_data = []\<rparr>"

text \<open>A dispatcher leaves its result unspecified when it fails.\<close>

record 'e XdlmsServerDispatcher =
  DispatchGet :: "GetIndication \<Rightarrow> 'e \<Rightarrow> (XdlmsStatus + GetResult) \<times> 'e"
  DispatchSet :: "SetIndication \<Rightarrow> 'e \<Rightarrow> (XdlmsStatus + SetResult) \<times> 'e"
  DispatchAction :: "ActionIndication \<Rightarrow> 'e \<Rightarrow> (XdlmsStatus + ActionResult) \<times> 'e"

subsection \<open>Traces\<close>

definition EmitServerSimpleTrace ::
    "'e trace_sink \<Rightarrow> XdlmsTraceKind \<Rightarrow> XdlmsStatus \<Rightarrow> u8 \<Rightarrow> ServiceOptions \<Rightarrow> nat \<Rightarrow> 64 word \<Rightarrow> 'e \<Rightarrow> 'e" where
  "EmitServerSimpleTrace sink kind status invokeId options apduSize conversationId =
     emit sink (EmptyXdlmsTraceEvent\<lparr>event_kind := kind, event_direction := Inbound, event_status := status,
       event_invokeId := invokeId, event_options := options, event_apduSize := apduSize,
       event_conversationId := conversationId\<rparr>)"

text \<open>The event for an accepted block.\<close>

definition block_step ::
    "'e trace_sink \<Rightarrow> u8 \<Rightarrow> ServiceOptions \<Rightarrow> u32 \<Rightarrow> bytes \<Rightarrow> 64 word \<Rightarrow> 'e \<Rightarrow> 'e" where
  "block_step sink invokeId options blockNumber responseApdu conversationId =
     emit sink (EmptyXdlmsTraceEvent\<lparr>event_kind := BlockTransferStep, event_direction := Inbound, event_status := Ok,
       event_invokeId := invokeId, event_options := options, event_hasBlockNumber := True, event_blockNumber := blockNumber,
       event_apduSize := length responseApdu, event_conversationId := conversationId\<rparr>)"

subsection \<open>Encoding\<close>

definition ToXdlmsDescriptor :: "CosemAttributeDescriptor \<Rightarrow> AttributeDescriptor" where
  "ToXdlmsDescriptor d = \<lparr>attribute_classId = attributeClassId d, attribute_instanceId = attributeLogicalName d,
     attribute_attributeId = attributeId d\<rparr>"

definition ToXdlmsMethodDescriptor :: "CosemMethodDescriptor \<Rightarrow> MethodDescriptor" where
  "ToXdlmsMethodDescriptor d = \<lparr>method_classId = methodClassId d, method_instanceId = methodLogicalName d,
     method_methodId = methodId d\<rparr>"

definition DecodeEncodedData :: "bytes \<Rightarrow> XdlmsStatus + DlmsData" where
  "DecodeEncodedData encodedData =
     (if encodedData = [] then Inl EncodeFailed else reported EncodeFailed (DecodeDlmsData (View encodedData) 8))"

definition EncodeDataBytes :: "DlmsData \<Rightarrow> XdlmsStatus + bytes" where
  "EncodeDataBytes d =
     (case EncodeDlmsData d (ApduWriter_init False 65535) of
        (Inl status, writer) \<Rightarrow> Inl EncodeFailed
      | (Inr u, writer) \<Rightarrow> Inr (written writer))"

definition ValidateEncodedActionParameter :: "bytes \<Rightarrow> XdlmsStatus" where
  "ValidateEncodedActionParameter encodedData =
     (if encodedData = [] then DecodeFailed
      else case DecodeDlmsData (View encodedData) 8 of Inl _ \<Rightarrow> DecodeFailed | Inr _ \<Rightarrow> Ok)"

definition get_response_apdu :: "GetResponse \<Rightarrow> XdlmsApdu" where
  "get_response_apdu m = XdlmsApdu_default\<lparr>xdlmsKind := KindGetResponse, getResponseAny := m\<rparr>"

definition EncodeGetResponse_server :: "u8 \<Rightarrow> GetResult \<Rightarrow> XdlmsStatus + bytes" where
  "EncodeGetResponse_server invokeIdAndPriority result =
     (let send = (\<lambda>r. reported EncodeFailed (EncodeXdlmsApdu ((get_response_apdu
            (GetResponse_default\<lparr>getResponse_choice := kNormalChoice, getResponse_invokeIdAndPriority := invokeIdAndPriority,
               getResponse_result := r\<rparr>))
          \<lparr>getResponse := \<lparr>getResponseNormal_invokeIdAndPriority = invokeIdAndPriority, getResponseNormal_resultChoice = resultChoice r,
             getResponseNormal_data = resultData r, getResponseNormal_dataAccessError = dataAccessError r\<rparr>\<rparr>)))
      in
      if get_hasAccessResult result
        then send (GetDataResult_default\<lparr>resultChoice := 1, dataAccessError := get_accessResult result\<rparr>)
      else if get_hasData result then
        (case DecodeEncodedData (get_data result) of
           Inl status \<Rightarrow> Inl status
         | Inr d \<Rightarrow> send (GetDataResult_default\<lparr>resultChoice := 0, resultData := d\<rparr>))
      else Inl InternalError)"

definition EncodeGetDataBlockResponse :: "u8 \<Rightarrow> bool \<Rightarrow> u32 \<Rightarrow> view \<Rightarrow> XdlmsStatus + bytes" where
  "EncodeGetDataBlockResponse invokeIdAndPriority isLast blockNumber raw =
     reported EncodeFailed (EncodeXdlmsApdu (get_response_apdu
       (GetResponse_default\<lparr>getResponse_choice := kNextChoice, getResponse_invokeIdAndPriority := invokeIdAndPriority,
          getResponse_dataBlock := \<lparr>lastBlock = isLast, dataBlockNumber = blockNumber, rawData = raw\<rparr>\<rparr>)))"

definition SendNextGetResponseBlock :: "GetResponseBlockState \<Rightarrow> (XdlmsStatus + bytes) \<times> GetResponseBlockState" where
  "SendNextGetResponseBlock blocks =
     (if \<not> gb_active blocks \<or> maxGetBlockPayloadBytes (gb_options blocks) = 0 \<or> length (gb_data blocks) \<le> gb_offset blocks
        then (Inl InvalidArgument, EmptyGetResponseBlockState)
      else
        let remaining = length (gb_data blocks) - gb_offset blocks;
            blockSize = (if remaining < maxGetBlockPayloadBytes (gb_options blocks) then remaining
              else maxGetBlockPayloadBytes (gb_options blocks));
            isLast = (gb_offset blocks + blockSize = length (gb_data blocks))
        in
        case EncodeGetDataBlockResponse (MakeInvokeIdAndPriority (gb_invokeId blocks) (gb_options blocks)) isLast
            (gb_nextBlockNumber blocks) (View (take blockSize (drop (gb_offset blocks) (gb_data blocks)))) of
          Inl status \<Rightarrow> (Inl status, EmptyGetResponseBlockState)
        | Inr responseApdu \<Rightarrow>
            (Inr responseApdu,
             if isLast then EmptyGetResponseBlockState
             else blocks\<lparr>gb_offset := gb_offset blocks + blockSize, gb_nextBlockNumber := gb_nextBlockNumber blocks + 1\<rparr>))"

definition EncodeGetResponseOrStartBlocks ::
    "u8 \<Rightarrow> GetIndication \<Rightarrow> GetResult \<Rightarrow> GetResponseBlockState \<Rightarrow> (XdlmsStatus + bytes) \<times> GetResponseBlockState" where
  "EncodeGetResponseOrStartBlocks invokeIdAndPriority indication result blocks =
     (let options = getInd_options indication in
      if \<not> get_hasData result \<or> length (get_data result) \<le> maxGetBlockPayloadBytes options
        then (EncodeGetResponse_server invokeIdAndPriority result, blocks)
      else if length (get_data result) > maxBlockTransferBytes options then (Inl DecodeFailed, blocks)
      else if \<not> allowBlockTransfer options then (Inl BlockTransferRequired, blocks)
      else if maxGetBlockPayloadBytes options = 0 then (Inl InvalidArgument, blocks)
      else SendNextGetResponseBlock \<lparr>gb_active = True, gb_invokeId = getInd_invokeId indication, gb_options = options,
        gb_nextBlockNumber = 1, gb_offset = 0, gb_data = get_data result\<rparr>)"

definition set_response_apdu :: "SetResponse \<Rightarrow> XdlmsApdu" where
  "set_response_apdu m = XdlmsApdu_default\<lparr>xdlmsKind := KindSetResponse, setResponseAny := m\<rparr>"

definition EncodeSetResponse_server :: "u8 \<Rightarrow> SetResult \<Rightarrow> XdlmsStatus + bytes" where
  "EncodeSetResponse_server invokeIdAndPriority result =
     reported EncodeFailed (EncodeXdlmsApdu ((set_response_apdu
       (SetResponse_default\<lparr>setResponse_choice := kNormalChoice, setResponse_invokeIdAndPriority := invokeIdAndPriority,
          setResponse_result := set_accessResult result\<rparr>))
       \<lparr>setResponse := \<lparr>setResponseNormal_invokeIdAndPriority = invokeIdAndPriority,
          setResponseNormal_result = set_accessResult result\<rparr>\<rparr>))"

definition EncodeSetBlockAckResponse :: "u8 \<Rightarrow> u32 \<Rightarrow> XdlmsStatus + bytes" where
  "EncodeSetBlockAckResponse invokeIdAndPriority blockNumber =
     reported EncodeFailed (EncodeXdlmsApdu (set_response_apdu
       (SetResponse_default\<lparr>setResponse_choice := 2, setResponse_invokeIdAndPriority := invokeIdAndPriority,
          setResponse_blockNumber := blockNumber\<rparr>)))"

definition EncodeSetLastBlockResponse :: "u8 \<Rightarrow> u32 \<Rightarrow> SetResult \<Rightarrow> XdlmsStatus + bytes" where
  "EncodeSetLastBlockResponse invokeIdAndPriority blockNumber result =
     reported EncodeFailed (EncodeXdlmsApdu (set_response_apdu
       (SetResponse_default\<lparr>setResponse_choice := 3, setResponse_invokeIdAndPriority := invokeIdAndPriority,
          setResponse_blockNumber := blockNumber, setResponse_result := set_accessResult result\<rparr>)))"

definition action_response_apdu :: "ActionResponse \<Rightarrow> XdlmsApdu" where
  "action_response_apdu m = XdlmsApdu_default\<lparr>xdlmsKind := KindActionResponse, actionResponseAny := m\<rparr>"

definition EncodeActionResponse_server :: "u8 \<Rightarrow> ActionResult \<Rightarrow> XdlmsStatus + bytes" where
  "EncodeActionResponse_server invokeIdAndPriority result =
     (let send = (\<lambda>d. reported EncodeFailed (EncodeXdlmsApdu ((action_response_apdu
            (ActionResponse_default\<lparr>actionResponse_choice := kNormalChoice, actionResponse_invokeIdAndPriority := invokeIdAndPriority,
               actionResponse_normal := \<lparr>item_result = action_actionResult result, item_hasReturnParameter = action_hasData result,
                 item_returnParameter = d\<rparr>\<rparr>))
          \<lparr>actionResponse := \<lparr>actionResponseNormal_invokeIdAndPriority = invokeIdAndPriority,
             actionResponseNormal_result = action_actionResult result, actionResponseNormal_hasReturnParameter = action_hasData result,
             actionResponseNormal_returnParameter = d\<rparr>\<rparr>)))
      in
      if action_hasData result
      then (case DecodeEncodedData (action_data result) of Inl status \<Rightarrow> Inl status | Inr d \<Rightarrow> send d)
      else send DlmsData_default)"

definition EncodeActionNextPblockResponse :: "u8 \<Rightarrow> u32 \<Rightarrow> XdlmsStatus + bytes" where
  "EncodeActionNextPblockResponse invokeIdAndPriority blockNumber =
     reported EncodeFailed (EncodeXdlmsApdu (action_response_apdu
       (ActionResponse_default\<lparr>actionResponse_choice := 4, actionResponse_invokeIdAndPriority := invokeIdAndPriority,
          actionResponse_blockNumber := blockNumber\<rparr>)))"

subsection \<open>The GET service\<close>

fun ProcessGetRequest ::
    "XdlmsApdu \<Rightarrow> 'e XdlmsServerDispatcher \<Rightarrow> ServiceOptions \<Rightarrow> 'e trace_sink \<Rightarrow> 64 word \<Rightarrow> GetResponseBlockState \<times> 'e
      \<Rightarrow> (XdlmsStatus + bytes) \<times> GetResponseBlockState \<times> 'e" where
  "ProcessGetRequest request dispatcher processorOptions traceSink conversationId (getBlocks, e) =
     (let anyRequest = getRequestAny request; normal = getRequest request in
      if getRequest_choice anyRequest = kNextChoice then
        (let invokeId = getRequest_invokeIdAndPriority anyRequest AND 0x0f in
         if \<not> gb_active getBlocks then (Inl DecodeFailed, getBlocks, e)
         else if invokeId \<noteq> gb_invokeId getBlocks then
           (Inl InvokeIdMismatch, EmptyGetResponseBlockState,
            EmitServerSimpleTrace traceSink InvokeIdRejected InvokeIdMismatch invokeId (gb_options getBlocks) 0 conversationId e)
         else if getRequest_blockNumber anyRequest \<noteq> gb_nextBlockNumber getBlocks - 1 then
           (Inl DecodeFailed, EmptyGetResponseBlockState, e)
         else
           (case SendNextGetResponseBlock getBlocks of
              (Inl status, blocks) \<Rightarrow> (Inl status, blocks, e)
            | (Inr responseApdu, blocks) \<Rightarrow>
                (Inr responseApdu, blocks, block_step traceSink (gb_invokeId getBlocks) (gb_options getBlocks)
                   (gb_nextBlockNumber getBlocks) responseApdu conversationId e)))
      else if getRequest_choice anyRequest \<noteq> kNormalChoice then (Inl UnsupportedFeature, getBlocks, e)
      else if gb_active getBlocks then (Inl DecodeFailed, EmptyGetResponseBlockState, e)
      else if getNormal_hasSelectiveAccess normal then (Inl UnsupportedFeature, getBlocks, e)
      else
        let indication = \<lparr>getInd_invokeId = getNormal_invokeIdAndPriority normal AND 0x0f,
              getInd_options = ParseServiceOptions (getNormal_invokeIdAndPriority normal) processorOptions,
              getInd_descriptor = ToXdlmsDescriptor (getNormal_descriptor normal)\<rparr>
        in
        if \<not> confirmed (getInd_options indication) then (Inl UnsupportedFeature, getBlocks, e)
        else
          (case DispatchGet dispatcher indication e of
            (Inl status, e') \<Rightarrow> (Inl status, getBlocks, e')
          | (Inr result, e') \<Rightarrow>
              let (response, blocks) = EncodeGetResponseOrStartBlocks
                    (MakeInvokeIdAndPriority (getInd_invokeId indication) (getInd_options indication)) indication result getBlocks
              in (response, blocks, e')))"

subsection \<open>The SET service\<close>

text \<open>The end of a block transfer: the service runs on the collected data.\<close>

definition finish_set ::
    "'e XdlmsServerDispatcher \<Rightarrow> u32 \<Rightarrow> SetIndication \<Rightarrow> SetRequestBlockState \<times> 'e
      \<Rightarrow> (XdlmsStatus + bytes) \<times> SetRequestBlockState \<times> 'e" where
  "finish_set dispatcher blockNumber indication = (\<lambda>(blocks, e).
     case DispatchSet dispatcher indication e of
       (Inl status, e') \<Rightarrow> (Inl status, blocks, e')
     | (Inr result, e') \<Rightarrow>
         (EncodeSetLastBlockResponse (MakeInvokeIdAndPriority (setInd_invokeId indication) (setInd_options indication))
            blockNumber result, blocks, e'))"

text \<open>A block that is not the last is acknowledged.\<close>

definition acknowledge_set ::
    "SetRequest \<Rightarrow> u32 \<Rightarrow> 'e trace_sink \<Rightarrow> 64 word \<Rightarrow> SetRequestBlockState \<times> 'e
      \<Rightarrow> (XdlmsStatus + bytes) \<times> SetRequestBlockState \<times> 'e" where
  "acknowledge_set anyRequest blockNumber traceSink conversationId = (\<lambda>(blocks, e).
     case EncodeSetBlockAckResponse (setRequest_invokeIdAndPriority anyRequest) blockNumber of
       Inl status \<Rightarrow> (Inl status, blocks, e)
     | Inr responseApdu \<Rightarrow>
         (Inr responseApdu, blocks,
          block_step traceSink (sb_invokeId blocks) (sb_options blocks) blockNumber responseApdu conversationId e))"

definition first_set_block ::
    "SetRequest \<Rightarrow> 'e XdlmsServerDispatcher \<Rightarrow> ServiceOptions \<Rightarrow> 'e trace_sink \<Rightarrow> 64 word \<Rightarrow> SetRequestBlockState \<times> 'e
      \<Rightarrow> (XdlmsStatus + bytes) \<times> SetRequestBlockState \<times> 'e" where
  "first_set_block anyRequest dispatcher processorOptions traceSink conversationId = (\<lambda>(setBlocks, e).
     let invokeId = setRequest_invokeIdAndPriority anyRequest AND 0x0f;
         options = ParseServiceOptions (setRequest_invokeIdAndPriority anyRequest) processorOptions;
         block = setRequest_dataBlock anyRequest;
         descriptor = ToXdlmsDescriptor (selectedDescriptor (setRequest_normal anyRequest))
     in
     if sb_active setBlocks then (Inl DecodeFailed, EmptySetRequestBlockState, e)
     else if hasSelection (setRequest_normal anyRequest) then (Inl UnsupportedFeature, setBlocks, e)
     else if dataBlockNumber block \<noteq> 1 then (Inl DecodeFailed, setBlocks, e)
     else if \<not> confirmed options then (Inl UnsupportedFeature, setBlocks, e)
     else if view_size (rawData block) > maxBlockTransferBytes options then (Inl DecodeFailed, setBlocks, e)
     else if bad_view (rawData block) then (Inl DecodeFailed, setBlocks, e)
     else if \<not> lastBlock block then
       acknowledge_set anyRequest 1 traceSink conversationId
         (\<lparr>sb_active = True, sb_invokeId = invokeId, sb_options = options, sb_descriptor = descriptor,
           sb_nextBlockNumber = 2, sb_data = view_bytes (rawData block)\<rparr>, e)
     else finish_set dispatcher 1 \<lparr>setInd_invokeId = invokeId, setInd_options = options, setInd_descriptor = descriptor,
       setInd_data = view_bytes (rawData block)\<rparr> (setBlocks, e))"

definition next_set_block ::
    "SetRequest \<Rightarrow> 'e XdlmsServerDispatcher \<Rightarrow> 'e trace_sink \<Rightarrow> 64 word \<Rightarrow> SetRequestBlockState \<times> 'e
      \<Rightarrow> (XdlmsStatus + bytes) \<times> SetRequestBlockState \<times> 'e" where
  "next_set_block anyRequest dispatcher traceSink conversationId = (\<lambda>(setBlocks, e).
     let block = setRequest_dataBlock anyRequest; invokeId = setRequest_invokeIdAndPriority anyRequest AND 0x0f;
         maximum = maxBlockTransferBytes (sb_options setBlocks)
     in
     if \<not> sb_active setBlocks then (Inl DecodeFailed, setBlocks, e)
     else if invokeId \<noteq> sb_invokeId setBlocks then
       (Inl InvokeIdMismatch, EmptySetRequestBlockState,
        EmitServerSimpleTrace traceSink InvokeIdRejected InvokeIdMismatch invokeId (sb_options setBlocks) 0 conversationId e)
     else if dataBlockNumber block \<noteq> sb_nextBlockNumber setBlocks then (Inl DecodeFailed, EmptySetRequestBlockState, e)
     else if view_size (rawData block) > maximum \<or> length (sb_data setBlocks) > maximum - view_size (rawData block)
       then (Inl DecodeFailed, EmptySetRequestBlockState, e)
     else if bad_view (rawData block) then (Inl DecodeFailed, EmptySetRequestBlockState, e)
     else
       let collected = setBlocks\<lparr>sb_data := sb_data setBlocks @ view_bytes (rawData block)\<rparr> in
       if \<not> lastBlock block then
         acknowledge_set anyRequest (dataBlockNumber block) traceSink conversationId
           (collected\<lparr>sb_nextBlockNumber := sb_nextBlockNumber collected + 1\<rparr>, e)
       else finish_set dispatcher (dataBlockNumber block)
         \<lparr>setInd_invokeId = sb_invokeId collected, setInd_options = sb_options collected,
          setInd_descriptor = sb_descriptor collected, setInd_data = sb_data collected\<rparr> (EmptySetRequestBlockState, e))"

fun ProcessSetRequest ::
    "XdlmsApdu \<Rightarrow> 'e XdlmsServerDispatcher \<Rightarrow> ServiceOptions \<Rightarrow> 'e trace_sink \<Rightarrow> 64 word \<Rightarrow> SetRequestBlockState \<times> 'e
      \<Rightarrow> (XdlmsStatus + bytes) \<times> SetRequestBlockState \<times> 'e" where
  "ProcessSetRequest request dispatcher processorOptions traceSink conversationId (setBlocks, e) =
     (let anyRequest = setRequestAny request; normal = setRequest request in
      if setRequest_choice anyRequest = kWithFirstDataBlockChoice
        then first_set_block anyRequest dispatcher processorOptions traceSink conversationId (setBlocks, e)
      else if setRequest_choice anyRequest = kWithDataBlockChoice
        then next_set_block anyRequest dispatcher traceSink conversationId (setBlocks, e)
      else if setRequest_choice anyRequest \<noteq> kNormalChoice then (Inl UnsupportedFeature, setBlocks, e)
      else if setNormal_hasSelectiveAccess normal then (Inl UnsupportedFeature, setBlocks, e)
      else
        let invokeId = setNormal_invokeIdAndPriority normal AND 0x0f;
            options = ParseServiceOptions (setNormal_invokeIdAndPriority normal) processorOptions
        in
        if \<not> confirmed options then (Inl UnsupportedFeature, setBlocks, e)
        else (case EncodeDataBytes (setNormal_data normal) of
          Inl status \<Rightarrow> (Inl status, setBlocks, e)
        | Inr encoded \<Rightarrow>
            (case DispatchSet dispatcher \<lparr>setInd_invokeId = invokeId, setInd_options = options,
                setInd_descriptor = ToXdlmsDescriptor (setNormal_descriptor normal), setInd_data = encoded\<rparr> e of
              (Inl status, e') \<Rightarrow> (Inl status, setBlocks, e')
            | (Inr result, e') \<Rightarrow>
                (EncodeSetResponse_server (MakeInvokeIdAndPriority invokeId options) result, setBlocks, e'))))"

subsection \<open>The ACTION service\<close>

definition finish_action ::
    "'e XdlmsServerDispatcher \<Rightarrow> ActionIndication \<Rightarrow> ActionRequestBlockState \<times> 'e
      \<Rightarrow> (XdlmsStatus + bytes) \<times> ActionRequestBlockState \<times> 'e" where
  "finish_action dispatcher indication = (\<lambda>(blocks, e).
     case DispatchAction dispatcher indication e of
       (Inl status, e') \<Rightarrow> (Inl status, blocks, e')
     | (Inr result, e') \<Rightarrow>
         (EncodeActionResponse_server (MakeInvokeIdAndPriority (actionInd_invokeId indication) (actionInd_options indication))
            result, blocks, e'))"

definition acknowledge_action ::
    "ActionRequest \<Rightarrow> u32 \<Rightarrow> 'e trace_sink \<Rightarrow> 64 word \<Rightarrow> ActionRequestBlockState \<times> 'e
      \<Rightarrow> (XdlmsStatus + bytes) \<times> ActionRequestBlockState \<times> 'e" where
  "acknowledge_action anyRequest blockNumber traceSink conversationId = (\<lambda>(blocks, e).
     case EncodeActionNextPblockResponse (actionRequest_invokeIdAndPriority anyRequest) blockNumber of
       Inl status \<Rightarrow> (Inl status, blocks, e)
     | Inr responseApdu \<Rightarrow>
         (Inr responseApdu, blocks,
          block_step traceSink (ab_invokeId blocks) (ab_options blocks) blockNumber responseApdu conversationId e))"

definition first_action_block ::
    "ActionRequest \<Rightarrow> 'e XdlmsServerDispatcher \<Rightarrow> ServiceOptions \<Rightarrow> 'e trace_sink \<Rightarrow> 64 word \<Rightarrow> ActionRequestBlockState \<times> 'e
      \<Rightarrow> (XdlmsStatus + bytes) \<times> ActionRequestBlockState \<times> 'e" where
  "first_action_block anyRequest dispatcher processorOptions traceSink conversationId = (\<lambda>(actionBlocks, e).
     let invokeId = actionRequest_invokeIdAndPriority anyRequest AND 0x0f;
         options = ParseServiceOptions (actionRequest_invokeIdAndPriority anyRequest) processorOptions;
         block = actionRequest_dataBlock anyRequest; collected = view_bytes (rawData block);
         descriptor = ToXdlmsMethodDescriptor (parameterDescriptor (actionRequest_normal anyRequest))
     in
     if ab_active actionBlocks then (Inl DecodeFailed, EmptyActionRequestBlockState, e)
     else if dataBlockNumber block \<noteq> 1 then (Inl DecodeFailed, actionBlocks, e)
     else if \<not> confirmed options then (Inl UnsupportedFeature, actionBlocks, e)
     else if view_size (rawData block) > maxBlockTransferBytes options then (Inl DecodeFailed, actionBlocks, e)
     else if bad_view (rawData block) then (Inl DecodeFailed, actionBlocks, e)
     else if \<not> lastBlock block then
       acknowledge_action anyRequest 1 traceSink conversationId
         (\<lparr>ab_active = True, ab_invokeId = invokeId, ab_options = options, ab_descriptor = descriptor,
           ab_nextBlockNumber = 2, ab_data = collected\<rparr>, e)
     else if ValidateEncodedActionParameter collected \<noteq> Ok
       then (Inl (ValidateEncodedActionParameter collected), actionBlocks, e)
     else finish_action dispatcher \<lparr>actionInd_invokeId = invokeId, actionInd_options = options, actionInd_descriptor = descriptor,
       actionInd_hasParameter = True, actionInd_parameter = collected\<rparr> (actionBlocks, e))"

definition next_action_block ::
    "ActionRequest \<Rightarrow> 'e XdlmsServerDispatcher \<Rightarrow> 'e trace_sink \<Rightarrow> 64 word \<Rightarrow> ActionRequestBlockState \<times> 'e
      \<Rightarrow> (XdlmsStatus + bytes) \<times> ActionRequestBlockState \<times> 'e" where
  "next_action_block anyRequest dispatcher traceSink conversationId = (\<lambda>(actionBlocks, e).
     let block = actionRequest_dataBlock anyRequest; invokeId = actionRequest_invokeIdAndPriority anyRequest AND 0x0f;
         maximum = maxBlockTransferBytes (ab_options actionBlocks)
     in
     if \<not> ab_active actionBlocks then (Inl DecodeFailed, actionBlocks, e)
     else if invokeId \<noteq> ab_invokeId actionBlocks then
       (Inl InvokeIdMismatch, EmptyActionRequestBlockState,
        EmitServerSimpleTrace traceSink InvokeIdRejected InvokeIdMismatch invokeId (ab_options actionBlocks) 0 conversationId e)
     else if dataBlockNumber block \<noteq> ab_nextBlockNumber actionBlocks then (Inl DecodeFailed, EmptyActionRequestBlockState, e)
     else if view_size (rawData block) > maximum \<or> length (ab_data actionBlocks) > maximum - view_size (rawData block)
       then (Inl DecodeFailed, EmptyActionRequestBlockState, e)
     else if bad_view (rawData block) then (Inl DecodeFailed, EmptyActionRequestBlockState, e)
     else
       let collected = actionBlocks\<lparr>ab_data := ab_data actionBlocks @ view_bytes (rawData block)\<rparr> in
       if \<not> lastBlock block then
         acknowledge_action anyRequest (dataBlockNumber block) traceSink conversationId
           (collected\<lparr>ab_nextBlockNumber := ab_nextBlockNumber collected + 1\<rparr>, e)
       else if ValidateEncodedActionParameter (ab_data collected) \<noteq> Ok
         then (Inl (ValidateEncodedActionParameter (ab_data collected)), EmptyActionRequestBlockState, e)
       else finish_action dispatcher
         \<lparr>actionInd_invokeId = ab_invokeId collected, actionInd_options = ab_options collected,
          actionInd_descriptor = ab_descriptor collected, actionInd_hasParameter = True,
          actionInd_parameter = ab_data collected\<rparr> (EmptyActionRequestBlockState, e))"

fun ProcessActionRequest ::
    "XdlmsApdu \<Rightarrow> 'e XdlmsServerDispatcher \<Rightarrow> ServiceOptions \<Rightarrow> 'e trace_sink \<Rightarrow> 64 word \<Rightarrow> ActionRequestBlockState \<times> 'e
      \<Rightarrow> (XdlmsStatus + bytes) \<times> ActionRequestBlockState \<times> 'e" where
  "ProcessActionRequest request dispatcher processorOptions traceSink conversationId (actionBlocks, e) =
     (let anyRequest = actionRequestAny request; normal = actionRequest request in
      if actionRequest_choice anyRequest = kWithFirstPblockChoice
        then first_action_block anyRequest dispatcher processorOptions traceSink conversationId (actionBlocks, e)
      else if actionRequest_choice anyRequest = kWithPblockChoice
        then next_action_block anyRequest dispatcher traceSink conversationId (actionBlocks, e)
      else if actionRequest_choice anyRequest \<noteq> kNormalChoice then (Inl UnsupportedFeature, actionBlocks, e)
      else
        let invokeId = actionNormal_invokeIdAndPriority normal AND 0x0f;
            options = ParseServiceOptions (actionNormal_invokeIdAndPriority normal) processorOptions;
            parameter = (if actionNormal_hasInvocationParameter normal
              then EncodeDataBytes (actionNormal_invocationParameter normal) else Inr [])
        in
        if \<not> confirmed options then (Inl UnsupportedFeature, actionBlocks, e)
        else (case parameter of
          Inl status \<Rightarrow> (Inl status, actionBlocks, e)
        | Inr encoded \<Rightarrow>
            finish_action dispatcher \<lparr>actionInd_invokeId = invokeId, actionInd_options = options,
              actionInd_descriptor = ToXdlmsMethodDescriptor (actionNormal_descriptor normal),
              actionInd_hasParameter = actionNormal_hasInvocationParameter normal, actionInd_parameter = encoded\<rparr> (actionBlocks, e)))"

declare ProcessGetRequest.simps [simp del] ProcessSetRequest.simps [simp del] ProcessActionRequest.simps [simp del]

subsection \<open>The validating dispatcher\<close>

text \<open>A handler of the object model; a handler without SET or ACTION inherits the two default operations.\<close>

record 'e XdlmsServerHandler =
  HandleGet :: "GetIndication \<Rightarrow> 'e \<Rightarrow> (XdlmsStatus + GetResult) \<times> 'e"
  HandleSet :: "SetIndication \<Rightarrow> 'e \<Rightarrow> (XdlmsStatus + SetResult) \<times> 'e"
  HandleAction :: "ActionIndication \<Rightarrow> 'e \<Rightarrow> (XdlmsStatus + ActionResult) \<times> 'e"

definition HandleSet_default :: "SetIndication \<Rightarrow> 'e \<Rightarrow> (XdlmsStatus + SetResult) \<times> 'e" where
  "HandleSet_default indication e = (Inl UnsupportedFeature, e)"

definition HandleAction_default :: "ActionIndication \<Rightarrow> 'e \<Rightarrow> (XdlmsStatus + ActionResult) \<times> 'e" where
  "HandleAction_default indication e = (Inl UnsupportedFeature, e)"

definition XdlmsServerDispatcher_DispatchGet ::
    "'e XdlmsServerHandler \<Rightarrow> GetIndication \<Rightarrow> 'e \<Rightarrow> (XdlmsStatus + GetResult) \<times> 'e" where
  "XdlmsServerDispatcher_DispatchGet handler indication e =
     (let invokeStatus = ValidateInvokeId (getInd_invokeId indication);
          descriptorStatus = ValidateDescriptor (getInd_descriptor indication)
      in
      if invokeStatus \<noteq> Ok then (Inl invokeStatus, e)
      else if descriptorStatus \<noteq> Ok then (Inl descriptorStatus, e)
      else case HandleGet handler indication e of
        (Inl status, e') \<Rightarrow> (Inl status, e')
      | (Inr result, e') \<Rightarrow> (Inr (result\<lparr>get_invokeId := getInd_invokeId indication\<rparr>), e'))"

definition XdlmsServerDispatcher_DispatchSet ::
    "'e XdlmsServerHandler \<Rightarrow> SetIndication \<Rightarrow> 'e \<Rightarrow> (XdlmsStatus + SetResult) \<times> 'e" where
  "XdlmsServerDispatcher_DispatchSet handler indication e =
     (let invokeStatus = ValidateInvokeId (setInd_invokeId indication);
          descriptorStatus = ValidateDescriptor (setInd_descriptor indication)
      in
      if invokeStatus \<noteq> Ok then (Inl invokeStatus, e)
      else if descriptorStatus \<noteq> Ok then (Inl descriptorStatus, e)
      else if setInd_data indication = [] then (Inl InvalidArgument, e)
      else case HandleSet handler indication e of
        (Inl status, e') \<Rightarrow> (Inl status, e')
      | (Inr result, e') \<Rightarrow> (Inr (result\<lparr>set_invokeId := setInd_invokeId indication\<rparr>), e'))"

definition XdlmsServerDispatcher_DispatchAction ::
    "'e XdlmsServerHandler \<Rightarrow> ActionIndication \<Rightarrow> 'e \<Rightarrow> (XdlmsStatus + ActionResult) \<times> 'e" where
  "XdlmsServerDispatcher_DispatchAction handler indication e =
     (let invokeStatus = ValidateInvokeId (actionInd_invokeId indication);
          descriptorStatus = ValidateMethodDescriptor (actionInd_descriptor indication)
      in
      if invokeStatus \<noteq> Ok then (Inl invokeStatus, e)
      else if descriptorStatus \<noteq> Ok then (Inl descriptorStatus, e)
      else if actionInd_hasParameter indication \<and> actionInd_parameter indication = [] then (Inl InvalidArgument, e)
      else case HandleAction handler indication e of
        (Inl status, e') \<Rightarrow> (Inl status, e')
      | (Inr result, e') \<Rightarrow> (Inr (result\<lparr>action_invokeId := actionInd_invokeId indication\<rparr>), e'))"

definition XdlmsServerDispatcher_of :: "'e XdlmsServerHandler \<Rightarrow> 'e XdlmsServerDispatcher" where
  "XdlmsServerDispatcher_of handler = \<lparr>DispatchGet = XdlmsServerDispatcher_DispatchGet handler,
     DispatchSet = XdlmsServerDispatcher_DispatchSet handler, DispatchAction = XdlmsServerDispatcher_DispatchAction handler\<rparr>"

subsection \<open>The processor\<close>

text \<open>
  The collaborators of the processor: security, trace sink, the channel whose correlation is set, and
  the source of the conversation seed, each of them optional.
\<close>

record 'e XdlmsServerApduProcessor =
  dispatcher :: "'e XdlmsServerDispatcher"
  security :: "'e XdlmsSecurityProcessor option"
  processorOptions :: ServiceOptions
  getBlocks :: GetResponseBlockState
  setBlocks :: SetRequestBlockState
  actionBlocks :: ActionRequestBlockState
  traceSink :: "'e trace_sink"
  apduChannel :: "'e ApduChannel option"
  seedSource :: "'e XdlmsAssociationState option"

definition XdlmsServerApduProcessor_init ::
    "'e XdlmsServerDispatcher \<Rightarrow> 'e XdlmsSecurityProcessor option \<Rightarrow> ServiceOptions \<Rightarrow> 'e XdlmsServerApduProcessor" where
  "XdlmsServerApduProcessor_init d sec options =
     \<lparr>dispatcher = d, security = sec, processorOptions = options, getBlocks = EmptyGetResponseBlockState,
      setBlocks = EmptySetRequestBlockState, actionBlocks = EmptyActionRequestBlockState, traceSink = None,
      apduChannel = None, seedSource = None\<rparr>"

definition request_invoke_id :: "XdlmsApdu \<Rightarrow> u8" where
  "request_invoke_id request = (case xdlmsKind request of
     KindGetRequest \<Rightarrow> getNormal_invokeIdAndPriority (getRequest request) AND 0x0f
   | KindSetRequest \<Rightarrow> setNormal_invokeIdAndPriority (setRequest request) AND 0x0f
   | KindActionRequest \<Rightarrow> actionNormal_invokeIdAndPriority (actionRequest request) AND 0x0f
   | _ \<Rightarrow> 0)"

definition received_event :: "ServiceOptions \<Rightarrow> XdlmsApdu \<Rightarrow> nat \<Rightarrow> 64 word \<Rightarrow> XdlmsTraceEvent" where
  "received_event options request apduSize conversationId =
     (let event = EmptyXdlmsTraceEvent\<lparr>event_kind := RequestReceived, event_direction := Inbound, event_status := Ok,
            event_apduSize := apduSize, event_conversationId := conversationId\<rparr>;
          filled = (\<lambda>invoke classId identifier name. event\<lparr>event_invokeId := invoke AND 0x0f,
            event_options := ParseServiceOptions invoke options, event_classId := classId,
            event_attributeOrMethodId := identifier, event_logicalName := name\<rparr>)
      in case xdlmsKind request of
        KindGetRequest \<Rightarrow>
          let q = getRequest request; d = getNormal_descriptor q in
          filled (getNormal_invokeIdAndPriority q) (attributeClassId d) (attributeId d) (attributeLogicalName d)
      | KindSetRequest \<Rightarrow>
          let q = setRequest request; d = setNormal_descriptor q in
          filled (setNormal_invokeIdAndPriority q) (attributeClassId d) (attributeId d) (attributeLogicalName d)
      | KindActionRequest \<Rightarrow>
          let q = actionRequest request; d = actionNormal_descriptor q in
          filled (actionNormal_invokeIdAndPriority q) (methodClassId d) (methodId d) (methodLogicalName d)
      | _ \<Rightarrow> event)"

definition correlate :: "'e ApduChannel option \<Rightarrow> 64 word \<Rightarrow> 'e \<Rightarrow> 'e" where
  "correlate channel conversationId e = (case channel of None \<Rightarrow> e | Some ch \<Rightarrow> channel_SetCorrelation ch conversationId e)"

text \<open>The services, each with its own block state.\<close>

fun run_service ::
    "XdlmsApdu \<Rightarrow> 64 word \<Rightarrow> 'e XdlmsServerApduProcessor \<times> 'e \<Rightarrow> (XdlmsStatus + bytes) \<times> 'e XdlmsServerApduProcessor \<times> 'e" where
  "run_service request conversationId (p, e) = (case xdlmsKind request of
     KindGetRequest \<Rightarrow>
       let (response, blocks, e') = ProcessGetRequest request (dispatcher p) (processorOptions p) (traceSink p) conversationId (getBlocks p, e)
       in (response, p\<lparr>getBlocks := blocks\<rparr>, e')
   | KindSetRequest \<Rightarrow>
       let (response, blocks, e') = ProcessSetRequest request (dispatcher p) (processorOptions p) (traceSink p) conversationId (setBlocks p, e)
       in (response, p\<lparr>setBlocks := blocks\<rparr>, e')
   | KindActionRequest \<Rightarrow>
       let (response, blocks, e') = ProcessActionRequest request (dispatcher p) (processorOptions p) (traceSink p) conversationId (actionBlocks p, e)
       in (response, p\<lparr>actionBlocks := blocks\<rparr>, e')
   | _ \<Rightarrow> (Inl UnsupportedFeature, p, e))"

text \<open>Protection of the response, and the closing trace event.\<close>

fun send_response ::
    "64 word \<Rightarrow> bytes \<Rightarrow> 'e XdlmsServerApduProcessor \<times> 'e \<Rightarrow> (XdlmsStatus + bytes) \<times> 'e XdlmsServerApduProcessor \<times> 'e" where
  "send_response conversationId plainResponse (p, e) =
     (let protected = (case security p of None \<Rightarrow> (Inr plainResponse, e)
        | Some s \<Rightarrow> security_Protect s (pointer_view plainResponse) e)
      in case protected of
        (Inl _, e') \<Rightarrow>
          (Inl SecurityFailed, p, EmitServerSimpleTrace (traceSink p) TraceSecurityFailed SecurityFailed 0 (processorOptions p)
             (length plainResponse) conversationId e')
      | (Inr responseApdu, e') \<Rightarrow>
          (Inr responseApdu, p, EmitServerSimpleTrace (traceSink p) ResponseSent Ok 0 (processorOptions p)
             (length responseApdu) conversationId e'))"

fun ProcessRequest ::
    "bytes \<Rightarrow> 'e XdlmsServerApduProcessor \<times> 'e \<Rightarrow> (XdlmsStatus + bytes) \<times> 'e XdlmsServerApduProcessor \<times> 'e" where
  "ProcessRequest requestApdu (p, e) =
     (let unprotected = (case security p of None \<Rightarrow> (Inr requestApdu, e)
        | Some s \<Rightarrow> security_Unprotect s (pointer_view requestApdu) e)
      in case unprotected of
        (Inl _, e1) \<Rightarrow>
          (Inl SecurityFailed, p, EmitServerSimpleTrace (traceSink p) TraceSecurityFailed SecurityFailed 0 (processorOptions p)
             (length requestApdu) 0 e1)
      | (Inr plainRequest, e1) \<Rightarrow>
          (case DecodeXdlmsApdu (pointer_view plainRequest) of
            Inl _ \<Rightarrow>
              (Inl DecodeFailed, p, EmitServerSimpleTrace (traceSink p) TraceDecodeFailed DecodeFailed 0 (processorOptions p)
                 (length plainRequest) 0 e1)
          | Inr request \<Rightarrow>
              let conversationSeed = (case seedSource p of None \<Rightarrow> 0 | Some state \<Rightarrow> association_ConversationSeed state e1);
                  conversationId = MakeConversationId conversationSeed (request_invoke_id request);
                  e2 = correlate (apduChannel p) conversationId e1;
                  e3 = emit (traceSink p) (received_event (processorOptions p) request (length plainRequest) conversationId) e2
              in
              (case run_service request conversationId (p, e3) of
                (Inl status, pe) \<Rightarrow> (Inl status, pe)
              | (Inr plainResponse, pe) \<Rightarrow> send_response conversationId plainResponse pe)))"

declare ProcessRequest.simps [simp del]

end
