(* ===== verification/Server_Dispatch.thy ===== *)
theory Server_Dispatch
  imports Cosem_Model Xdlms_Server
begin

text \<open>
  The server between the xDLMS services and the object model: the context of the association
  (\<open>server_context.cpp\<close>), the dispatcher that checks a request and calls the logical device
  (\<open>service_dispatcher.cpp\<close>, \<open>dlms_server.cpp\<close>), the adapter that makes it a handler of the xDLMS server
  (\<open>xdlms_server_adapter.cpp\<close>) and the tracing decorator (\<open>tracing_xdlms_server_dispatcher.cpp\<close>).
  The context is held by reference: the dispatcher reads it in the world \<open>'e\<close> when it is called.
\<close>

datatype ServerStatus = Ok | InvalidArgument | NotAssociated | NoLogicalDevice | ObjectNotFound | AccessDenied
  | AttributeNotFound | MethodNotFound | ObjectError | UnsupportedFeature | EncodeRequired | InternalError

fun MapCosemStatus :: "CosemStatus \<Rightarrow> ServerStatus" where
  "MapCosemStatus CosemStatus.Ok = Ok"
| "MapCosemStatus CosemStatus.InvalidArgument = InvalidArgument"
| "MapCosemStatus CosemStatus.ObjectNotFound = ObjectNotFound"
| "MapCosemStatus CosemStatus.AccessDenied = AccessDenied"
| "MapCosemStatus CosemStatus.AttributeNotFound = AttributeNotFound"
| "MapCosemStatus CosemStatus.MethodNotFound = MethodNotFound"
| "MapCosemStatus CosemStatus.ObjectError = ObjectError"
| "MapCosemStatus CosemStatus.UnsupportedFeature = UnsupportedFeature"
| "MapCosemStatus CosemStatus.DuplicateObject = InternalError"
| "MapCosemStatus CosemStatus.OutputBufferTooSmall = InternalError"
| "MapCosemStatus CosemStatus.InternalError = InternalError"

subsection \<open>Requests and responses\<close>

record ServerAssociationContext =
  sac_associated :: bool
  sac_clientSap :: u16
  sac_serverSap :: u16
  sac_authenticated :: bool
  sac_ciphered :: bool

record ServerGetRequest =
  sgr_invokeId :: u8
  sgr_descriptor :: ObjectAttribute

record ServerSetRequest =
  ssr_invokeId :: u8
  ssr_descriptor :: ObjectAttribute
  ssr_data :: bytes

record ServerActionRequest =
  sar_invokeId :: u8
  sar_descriptor :: ObjectMethod
  sar_parameter :: bytes

record ServerGetResponse =
  sgp_invokeId :: u8
  sgp_status :: ServerStatus
  sgp_hasData :: bool
  sgp_data :: bytes

record ServerSetResponse =
  ssp_invokeId :: u8
  ssp_status :: ServerStatus

record ServerActionResponse =
  sap_invokeId :: u8
  sap_status :: ServerStatus
  sap_hasData :: bool
  sap_data :: bytes

definition EmptyServerGetRequest :: ServerGetRequest where
  "EmptyServerGetRequest = \<lparr>sgr_invokeId = 0, sgr_descriptor = cosem_EmptyAttributeDescriptor\<rparr>"

definition EmptyServerSetRequest :: ServerSetRequest where
  "EmptyServerSetRequest = \<lparr>ssr_invokeId = 0, ssr_descriptor = cosem_EmptyAttributeDescriptor, ssr_data = []\<rparr>"

definition EmptyServerActionRequest :: ServerActionRequest where
  "EmptyServerActionRequest = \<lparr>sar_invokeId = 0, sar_descriptor = cosem_EmptyMethodDescriptor, sar_parameter = []\<rparr>"

definition EmptyServerAssociationContext :: ServerAssociationContext where
  "EmptyServerAssociationContext = \<lparr>sac_associated = False, sac_clientSap = 0, sac_serverSap = 0,
     sac_authenticated = False, sac_ciphered = False\<rparr>"

definition MakeServerGetResponse :: "u8 \<Rightarrow> ServerStatus \<Rightarrow> ServerGetResponse" where
  "MakeServerGetResponse invokeId status = \<lparr>sgp_invokeId = invokeId, sgp_status = status, sgp_hasData = False, sgp_data = []\<rparr>"

definition MakeServerGetDataResponse :: "u8 \<Rightarrow> bytes \<Rightarrow> ServerGetResponse" where
  "MakeServerGetDataResponse invokeId bs = (MakeServerGetResponse invokeId Ok)\<lparr>sgp_hasData := True, sgp_data := bs\<rparr>"

definition MakeServerSetResponse :: "u8 \<Rightarrow> ServerStatus \<Rightarrow> ServerSetResponse" where
  "MakeServerSetResponse invokeId status = \<lparr>ssp_invokeId = invokeId, ssp_status = status\<rparr>"

definition MakeServerActionResponse :: "u8 \<Rightarrow> ServerStatus \<Rightarrow> ServerActionResponse" where
  "MakeServerActionResponse invokeId status = \<lparr>sap_invokeId = invokeId, sap_status = status, sap_hasData = False, sap_data = []\<rparr>"

definition MakeServerActionDataResponse :: "u8 \<Rightarrow> bytes \<Rightarrow> ServerActionResponse" where
  "MakeServerActionDataResponse invokeId bs = (MakeServerActionResponse invokeId Ok)\<lparr>sap_hasData := True, sap_data := bs\<rparr>"

subsection \<open>The context\<close>

record 'e ServerContext =
  server_association :: ServerAssociationContext
  server_accessContext :: CosemAccessContext
  server_logicalDevice :: "'e ILogicalDevice option"

definition ServerContext_init :: "'e ServerContext" where
  "ServerContext_init = \<lparr>server_association = EmptyServerAssociationContext, server_accessContext = PublicAccessContext, server_logicalDevice = None\<rparr>"

definition SetAssociated :: "bool \<Rightarrow> 'e ServerContext \<Rightarrow> 'e ServerContext" where
  "SetAssociated b c = c\<lparr>server_association := (server_association c)\<lparr>sac_associated := b\<rparr>\<rparr>"

definition IsAssociated :: "'e ServerContext \<Rightarrow> bool" where
  "IsAssociated c = sac_associated (server_association c)"

definition SetAssociationContext :: "ServerAssociationContext \<Rightarrow> 'e ServerContext \<Rightarrow> 'e ServerContext" where
  "SetAssociationContext a c = c\<lparr>server_association := a,
     server_accessContext := (if sac_authenticated a then AuthenticatedAccessContext else PublicAccessContext)\<rparr>"

definition ClearAssociationContext :: "'e ServerContext \<Rightarrow> 'e ServerContext" where
  "ClearAssociationContext c = c\<lparr>server_association := EmptyServerAssociationContext, server_accessContext := PublicAccessContext\<rparr>"

definition SetAccessContext :: "CosemAccessContext \<Rightarrow> 'e ServerContext \<Rightarrow> 'e ServerContext" where
  "SetAccessContext a c = c\<lparr>server_accessContext := a\<rparr>"

definition AttachLogicalDevice :: "'e ILogicalDevice option \<Rightarrow> 'e ServerContext \<Rightarrow> 'e ServerContext" where
  "AttachLogicalDevice device c = c\<lparr>server_logicalDevice := device\<rparr>"

subsection \<open>The dispatcher\<close>

definition Dispatcher_HandleGet :: "'e ServerContext \<Rightarrow> ServerGetRequest \<Rightarrow> 'e \<Rightarrow> ServerGetResponse" where
  "Dispatcher_HandleGet c request e =
     (let respond = MakeServerGetResponse (sgr_invokeId request);
          descriptorStatus = ValidateAttributeDescriptor (sgr_descriptor request)
      in
      if descriptorStatus \<noteq> CosemStatus.Ok then respond (MapCosemStatus descriptorStatus)
      else if \<not> IsAssociated c then respond NotAssociated
      else case server_logicalDevice c of
        None \<Rightarrow> respond NoLogicalDevice
      | Some device \<Rightarrow>
          let (readStatus, bs) = device_ReadAttribute device (sgr_descriptor request) (server_accessContext c) e in
          if readStatus \<noteq> CosemStatus.Ok then respond (MapCosemStatus readStatus)
          else MakeServerGetDataResponse (sgr_invokeId request) bs)"

definition Dispatcher_HandleSet :: "'e ServerContext \<Rightarrow> ServerSetRequest \<Rightarrow> 'e \<Rightarrow> ServerSetResponse \<times> 'e" where
  "Dispatcher_HandleSet c request e =
     (let respond = MakeServerSetResponse (ssr_invokeId request);
          descriptorStatus = ValidateAttributeDescriptor (ssr_descriptor request)
      in
      if descriptorStatus \<noteq> CosemStatus.Ok then (respond (MapCosemStatus descriptorStatus), e)
      else if \<not> IsAssociated c then (respond NotAssociated, e)
      else case server_logicalDevice c of
        None \<Rightarrow> (respond NoLogicalDevice, e)
      | Some device \<Rightarrow>
          let (writeStatus, e') = device_WriteAttribute device (ssr_descriptor request) (server_accessContext c) (ssr_data request) e in
          (respond (MapCosemStatus writeStatus), e'))"

definition Dispatcher_HandleAction :: "'e ServerContext \<Rightarrow> ServerActionRequest \<Rightarrow> 'e \<Rightarrow> ServerActionResponse \<times> 'e" where
  "Dispatcher_HandleAction c request e =
     (let respond = MakeServerActionResponse (sar_invokeId request);
          descriptorStatus = cosem_ValidateMethodDescriptor (sar_descriptor request)
      in
      if descriptorStatus \<noteq> CosemStatus.Ok then (respond (MapCosemStatus descriptorStatus), e)
      else if \<not> IsAssociated c then (respond NotAssociated, e)
      else case server_logicalDevice c of
        None \<Rightarrow> (respond NoLogicalDevice, e)
      | Some device \<Rightarrow>
          let ((invokeStatus, bs), e') =
            device_InvokeMethod device (sar_descriptor request) (server_accessContext c) (sar_parameter request) e in
          if invokeStatus \<noteq> CosemStatus.Ok then (respond (MapCosemStatus invokeStatus), e')
          else (MakeServerActionDataResponse (sar_invokeId request) bs, e'))"

text \<open>\<open>IServerService\<close>, and the server that implements it with the dispatcher.\<close>

record 'e ServerService =
  service_HandleGet :: "ServerGetRequest \<Rightarrow> 'e \<Rightarrow> ServerGetResponse \<times> 'e"
  service_HandleSet :: "ServerSetRequest \<Rightarrow> 'e \<Rightarrow> ServerSetResponse \<times> 'e"
  service_HandleAction :: "ServerActionRequest \<Rightarrow> 'e \<Rightarrow> ServerActionResponse \<times> 'e"

definition DlmsServer_of :: "('e \<Rightarrow> 'e ServerContext) \<Rightarrow> 'e ServerService" where
  "DlmsServer_of c = \<lparr>service_HandleGet = (\<lambda>request e. (Dispatcher_HandleGet (c e) request e, e)),
     service_HandleSet = (\<lambda>request e. Dispatcher_HandleSet (c e) request e),
     service_HandleAction = (\<lambda>request e. Dispatcher_HandleAction (c e) request e)\<rparr>"

subsection \<open>The adapter\<close>

definition ToCosemLogicalName :: "CosemLogicalName \<Rightarrow> bytes" where
  "ToCosemLogicalName name = map (CosemLogicalName_at name) [0, 1, 2, 3, 4, 5]"

definition ToServerDescriptor :: "AttributeDescriptor \<Rightarrow> ObjectAttribute" where
  "ToServerDescriptor descriptor = cosem_EmptyAttributeDescriptor
     \<lparr>attribute_object := \<lparr>key_classId = attribute_classId descriptor, key_version = 0,
        key_logicalName = ToCosemLogicalName (attribute_instanceId descriptor)\<rparr>,
      attribute_id := attribute_attributeId descriptor\<rparr>"

definition ToServerMethodDescriptor :: "MethodDescriptor \<Rightarrow> ObjectMethod" where
  "ToServerMethodDescriptor descriptor = cosem_EmptyMethodDescriptor
     \<lparr>method_object := \<lparr>key_classId = method_classId descriptor, key_version = 0,
        key_logicalName = ToCosemLogicalName (method_instanceId descriptor)\<rparr>,
      method_id := method_methodId descriptor\<rparr>"

definition IsDataAccessResultStatus :: "ServerStatus \<Rightarrow> bool" where
  "IsDataAccessResultStatus status \<longleftrightarrow>
     status = ObjectNotFound \<or> status = AccessDenied \<or> status = AttributeNotFound \<or> status = ObjectError"

definition IsActionResultStatus :: "ServerStatus \<Rightarrow> bool" where
  "IsActionResultStatus status \<longleftrightarrow>
     status = ObjectNotFound \<or> status = AccessDenied \<or> status = MethodNotFound \<or> status = ObjectError"

definition MapServerStatusToDataAccessResult :: "ServerStatus \<Rightarrow> u8" where
  "MapServerStatusToDataAccessResult status = (case status of AccessDenied \<Rightarrow> 3 | ObjectNotFound \<Rightarrow> 4 | AttributeNotFound \<Rightarrow> 4 | _ \<Rightarrow> 250)"

definition MapServerStatusToActionResult :: "ServerStatus \<Rightarrow> u8" where
  "MapServerStatusToActionResult status = (case status of AccessDenied \<Rightarrow> 3 | ObjectNotFound \<Rightarrow> 4 | MethodNotFound \<Rightarrow> 4 | _ \<Rightarrow> 250)"

definition MapServerStatusToXdlmsStatus :: "ServerStatus \<Rightarrow> XdlmsStatus" where
  "MapServerStatusToXdlmsStatus status = (case status of
     Ok \<Rightarrow> XdlmsStatus.Ok | InvalidArgument \<Rightarrow> XdlmsStatus.InvalidArgument | NotAssociated \<Rightarrow> XdlmsStatus.NotAssociated
   | NoLogicalDevice \<Rightarrow> XdlmsStatus.InvalidState | UnsupportedFeature \<Rightarrow> XdlmsStatus.UnsupportedFeature
   | _ \<Rightarrow> XdlmsStatus.InternalError)"

definition Adapter_HandleGet :: "'e ServerService \<Rightarrow> GetIndication \<Rightarrow> 'e \<Rightarrow> (XdlmsStatus + GetResult) \<times> 'e" where
  "Adapter_HandleGet server indication e =
     (let request = EmptyServerGetRequest\<lparr>sgr_invokeId := getInd_invokeId indication,
            sgr_descriptor := ToServerDescriptor (getInd_descriptor indication)\<rparr>;
          (response, e') = service_HandleGet server request e
      in
      if sgp_status response = Ok then
        if \<not> sgp_hasData response then (Inl XdlmsStatus.InternalError, e')
        else (Inr (EmptyGetResult\<lparr>get_invokeId := sgp_invokeId response, get_hasData := True, get_data := sgp_data response\<rparr>), e')
      else if IsDataAccessResultStatus (sgp_status response) then
        (Inr (EmptyGetResult\<lparr>get_invokeId := sgp_invokeId response, get_hasAccessResult := True,
           get_accessResult := MapServerStatusToDataAccessResult (sgp_status response)\<rparr>), e')
      else (Inl (MapServerStatusToXdlmsStatus (sgp_status response)), e'))"

definition Adapter_HandleSet :: "'e ServerService \<Rightarrow> SetIndication \<Rightarrow> 'e \<Rightarrow> (XdlmsStatus + SetResult) \<times> 'e" where
  "Adapter_HandleSet server indication e =
     (let request = EmptyServerSetRequest\<lparr>ssr_invokeId := setInd_invokeId indication,
            ssr_descriptor := ToServerDescriptor (setInd_descriptor indication), ssr_data := setInd_data indication\<rparr>;
          (response, e') = service_HandleSet server request e
      in
      if ssp_status response = Ok then
        (Inr (EmptySetResult\<lparr>set_invokeId := ssp_invokeId response, set_accessResult := 0\<rparr>), e')
      else if IsDataAccessResultStatus (ssp_status response) then
        (Inr (EmptySetResult\<lparr>set_invokeId := ssp_invokeId response,
           set_accessResult := MapServerStatusToDataAccessResult (ssp_status response)\<rparr>), e')
      else (Inl (MapServerStatusToXdlmsStatus (ssp_status response)), e'))"

definition Adapter_HandleAction :: "'e ServerService \<Rightarrow> ActionIndication \<Rightarrow> 'e \<Rightarrow> (XdlmsStatus + ActionResult) \<times> 'e" where
  "Adapter_HandleAction server indication e =
     (let request = EmptyServerActionRequest\<lparr>sar_invokeId := actionInd_invokeId indication,
            sar_descriptor := ToServerMethodDescriptor (actionInd_descriptor indication),
            sar_parameter := actionInd_parameter indication\<rparr>;
          (response, e') = service_HandleAction server request e
      in
      if sap_status response = Ok then
        (Inr (EmptyActionResult\<lparr>action_invokeId := sap_invokeId response, action_actionResult := 0,
           action_hasData := sap_hasData response, action_data := sap_data response\<rparr>), e')
      else if IsActionResultStatus (sap_status response) then
        (Inr (EmptyActionResult\<lparr>action_invokeId := sap_invokeId response,
           action_actionResult := MapServerStatusToActionResult (sap_status response)\<rparr>), e')
      else (Inl (MapServerStatusToXdlmsStatus (sap_status response)), e'))"

definition XdlmsServerAdapter_of :: "'e ServerService \<Rightarrow> 'e XdlmsServerHandler" where
  "XdlmsServerAdapter_of server = \<lparr>HandleGet = Adapter_HandleGet server, HandleSet = Adapter_HandleSet server,
     HandleAction = Adapter_HandleAction server\<rparr>"

subsection \<open>The tracing decorator\<close>

datatype ServerDispatchTraceKind = GetDispatched | SetDispatched | ActionDispatched

record ServerDispatchTraceEvent =
  dispatch_kind :: ServerDispatchTraceKind
  dispatch_status :: XdlmsStatus
  dispatch_invokeId :: u8
  dispatch_classId :: u16
  dispatch_attributeOrMethodId :: int
  dispatch_logicalName :: bytes
  dispatch_requestPayloadSize :: nat
  dispatch_responsePayloadSize :: nat
  dispatch_conversationId :: "64 word"

type_synonym 'e dispatch_sink = "(ServerDispatchTraceEvent \<Rightarrow> 'e \<Rightarrow> 'e) option"

definition FillLogicalName :: "CosemLogicalName \<Rightarrow> bytes" where
  "FillLogicalName name = map (CosemLogicalName_at name) [0 ..< 6]"

definition status_of :: "XdlmsStatus + 'a \<Rightarrow> XdlmsStatus" where
  "status_of x = (case x of Inl status \<Rightarrow> status | Inr _ \<Rightarrow> XdlmsStatus.Ok)"

text \<open>
  The channel is only asked for its conversation. A dispatcher that fails has cleared its result, so that the
  payload size is zero then.
\<close>

definition conversation_of :: "('e \<Rightarrow> 64 word) option \<Rightarrow> 'e \<Rightarrow> 64 word" where
  "conversation_of channel e = (case channel of None \<Rightarrow> 0 | Some CurrentConversationId \<Rightarrow> CurrentConversationId e)"

definition Tracing_DispatchGet ::
    "'e XdlmsServerDispatcher \<Rightarrow> 'e dispatch_sink \<Rightarrow> ('e \<Rightarrow> 64 word) option \<Rightarrow> GetIndication \<Rightarrow> 'e \<Rightarrow> (XdlmsStatus + GetResult) \<times> 'e" where
  "Tracing_DispatchGet inner sink channel indication e =
     (let (result, e') = DispatchGet inner indication e; d = getInd_descriptor indication in
      case sink of None \<Rightarrow> (result, e')
      | Some OnServerDispatchTrace \<Rightarrow> (result, OnServerDispatchTrace
          \<lparr>dispatch_kind = GetDispatched, dispatch_status = status_of result, dispatch_invokeId = getInd_invokeId indication,
           dispatch_classId = attribute_classId d, dispatch_attributeOrMethodId = sint (attribute_attributeId d),
           dispatch_logicalName = FillLogicalName (attribute_instanceId d), dispatch_requestPayloadSize = 0,
           dispatch_responsePayloadSize = (case result of Inl _ \<Rightarrow> 0 | Inr r \<Rightarrow> if get_hasData r then length (get_data r) else 0),
           dispatch_conversationId = conversation_of channel e'\<rparr> e'))"

definition Tracing_DispatchSet ::
    "'e XdlmsServerDispatcher \<Rightarrow> 'e dispatch_sink \<Rightarrow> ('e \<Rightarrow> 64 word) option \<Rightarrow> SetIndication \<Rightarrow> 'e \<Rightarrow> (XdlmsStatus + SetResult) \<times> 'e" where
  "Tracing_DispatchSet inner sink channel indication e =
     (let (result, e') = DispatchSet inner indication e; d = setInd_descriptor indication in
      case sink of None \<Rightarrow> (result, e')
      | Some OnServerDispatchTrace \<Rightarrow> (result, OnServerDispatchTrace
          \<lparr>dispatch_kind = SetDispatched, dispatch_status = status_of result, dispatch_invokeId = setInd_invokeId indication,
           dispatch_classId = attribute_classId d, dispatch_attributeOrMethodId = sint (attribute_attributeId d),
           dispatch_logicalName = FillLogicalName (attribute_instanceId d),
           dispatch_requestPayloadSize = length (setInd_data indication), dispatch_responsePayloadSize = 0,
           dispatch_conversationId = conversation_of channel e'\<rparr> e'))"

definition Tracing_DispatchAction ::
    "'e XdlmsServerDispatcher \<Rightarrow> 'e dispatch_sink \<Rightarrow> ('e \<Rightarrow> 64 word) option \<Rightarrow> ActionIndication \<Rightarrow> 'e \<Rightarrow> (XdlmsStatus + ActionResult) \<times> 'e" where
  "Tracing_DispatchAction inner sink channel indication e =
     (let (result, e') = DispatchAction inner indication e; d = actionInd_descriptor indication in
      case sink of None \<Rightarrow> (result, e')
      | Some OnServerDispatchTrace \<Rightarrow> (result, OnServerDispatchTrace
          \<lparr>dispatch_kind = ActionDispatched, dispatch_status = status_of result, dispatch_invokeId = actionInd_invokeId indication,
           dispatch_classId = method_classId d, dispatch_attributeOrMethodId = sint (method_methodId d),
           dispatch_logicalName = FillLogicalName (method_instanceId d),
           dispatch_requestPayloadSize = length (actionInd_parameter indication),
           dispatch_responsePayloadSize = (case result of Inl _ \<Rightarrow> 0 | Inr r \<Rightarrow> if action_hasData r then length (action_data r) else 0),
           dispatch_conversationId = conversation_of channel e'\<rparr> e'))"

definition TracingXdlmsServerDispatcher_of ::
    "'e XdlmsServerDispatcher \<Rightarrow> 'e dispatch_sink \<Rightarrow> ('e \<Rightarrow> 64 word) option \<Rightarrow> 'e XdlmsServerDispatcher" where
  "TracingXdlmsServerDispatcher_of inner sink channel = \<lparr>DispatchGet = Tracing_DispatchGet inner sink channel,
     DispatchSet = Tracing_DispatchSet inner sink channel, DispatchAction = Tracing_DispatchAction inner sink channel\<rparr>"

end
