(* ===== verification/Xdlms_Laws.thy ===== *)
theory Xdlms_Laws
  imports Xdlms_Server
begin

text \<open>
  What the server's processor promises: its responses are well-formed messages of the service that was
  asked for, with the invoke identifier of the request, and the state it keeps between requests is
  bounded and belongs to one transfer.
\<close>

subsection \<open>Responses as messages\<close>

text \<open>What a service hands out: a message that fits the writer, or \<open>EncodeFailed\<close>.\<close>

definition sent_message :: "xdlms_message \<Rightarrow> XdlmsStatus + bytes" where
  "sent_message m = (if length (message_bytes m) \<le> 2048 then Inr (message_bytes m) else Inl EncodeFailed)"

lemma reported_agreeing:
  "message_wf m \<Longrightarrow> EncodeXdlmsApdu_write a = EncodeXdlmsApdu_write (apdu_of m) \<Longrightarrow> reported EncodeFailed (EncodeXdlmsApdu a) = sent_message m"
  by (simp add: EncodeXdlmsApdu_agreeing reported_def sent_message_def)

lemmas known_choices = IsGetRequestChoice_def IsGetResponseChoice_def IsSetRequestChoice_def IsSetResponseChoice_def
  IsActionRequestChoice_def IsActionResponseChoice_def get_consts set_consts action_consts

definition get_block_message :: "u8 \<Rightarrow> bool \<Rightarrow> u32 \<Rightarrow> bytes \<Rightarrow> GetResponse" where
  "get_block_message i isLast n bs = GetResponse_default\<lparr>getResponse_choice := kNextChoice, getResponse_invokeIdAndPriority := i,
     getResponse_dataBlock := \<lparr>lastBlock = isLast, dataBlockNumber = n, rawData = View bs\<rparr>\<rparr>"

definition get_result_message :: "u8 \<Rightarrow> GetDataResult \<Rightarrow> GetResponse" where
  "get_result_message i r = GetResponse_default\<lparr>getResponse_choice := kNormalChoice, getResponse_invokeIdAndPriority := i,
     getResponse_result := r\<rparr>"

definition set_response_message :: "u8 \<Rightarrow> u8 \<Rightarrow> u8 \<Rightarrow> u32 \<Rightarrow> SetResponse" where
  "set_response_message choice i r n = SetResponse_default\<lparr>setResponse_choice := choice, setResponse_invokeIdAndPriority := i,
     setResponse_result := r, setResponse_blockNumber := n\<rparr>"

definition action_result_message :: "u8 \<Rightarrow> ActionResponseItem \<Rightarrow> ActionResponse" where
  "action_result_message i x = ActionResponse_default\<lparr>actionResponse_choice := kNormalChoice,
     actionResponse_invokeIdAndPriority := i, actionResponse_normal := x\<rparr>"

definition action_next_message :: "u8 \<Rightarrow> u32 \<Rightarrow> ActionResponse" where
  "action_next_message i n = ActionResponse_default\<lparr>actionResponse_choice := 4, actionResponse_invokeIdAndPriority := i,
     actionResponse_blockNumber := n\<rparr>"

lemmas response_messages = get_block_message_def get_result_message_def set_response_message_def action_result_message_def
  action_next_message_def

lemma response_message_wf [simp]:
  "get_response_wf d (get_block_message i l n bs) \<longleftrightarrow> length bs < size_t_modulus"
  "get_response_wf d (get_result_message i r) \<longleftrightarrow> result_wf d r"
  "set_response_wf (set_response_message 1 i x 0)" "set_response_wf (set_response_message 2 i 0 n)"
  "set_response_wf (set_response_message 3 i x n)"
  "action_response_wf d (action_result_message i it) \<longleftrightarrow> response_item_wf d it"
  "action_response_wf d (action_next_message i n)"
  by (auto simp: response_messages get_response_wf_def set_response_wf_def action_response_wf_def GetResponse_default_def
      SetResponse_default_def ActionResponse_default_def known_choices block_wf_def raw_wf_def Let_def)

text \<open>A structure is sent as the message of its kind.\<close>

lemma sent_structures:
  "xdlmsKind a = KindGetRequest \<Longrightarrow> get_request_wf 8 (getRequestAny a) \<Longrightarrow> reported EncodeFailed (EncodeXdlmsApdu a) = sent_message (GetRequestM (getRequestAny a))"
  "xdlmsKind a = KindGetResponse \<Longrightarrow> get_response_wf 8 (getResponseAny a) \<Longrightarrow> reported EncodeFailed (EncodeXdlmsApdu a) = sent_message (GetResponseM (getResponseAny a))"
  "xdlmsKind a = KindSetRequest \<Longrightarrow> set_request_wf 8 (setRequestAny a) \<Longrightarrow> reported EncodeFailed (EncodeXdlmsApdu a) = sent_message (SetRequestM (setRequestAny a))"
  "xdlmsKind a = KindSetResponse \<Longrightarrow> set_response_wf (setResponseAny a) \<Longrightarrow> reported EncodeFailed (EncodeXdlmsApdu a) = sent_message (SetResponseM (setResponseAny a))"
  "xdlmsKind a = KindActionRequest \<Longrightarrow> action_request_wf 8 (actionRequestAny a) \<Longrightarrow> reported EncodeFailed (EncodeXdlmsApdu a) = sent_message (ActionRequestM (actionRequestAny a))"
  "xdlmsKind a = KindActionResponse \<Longrightarrow> action_response_wf 8 (actionResponseAny a) \<Longrightarrow> reported EncodeFailed (EncodeXdlmsApdu a) = sent_message (ActionResponseM (actionResponseAny a))"
  by (rule reported_agreeing; simp add: EncodeXdlmsApdu_write_def choices_known)+

lemma EncodeGetDataBlockResponse_sent:
  "length bs < size_t_modulus \<Longrightarrow> EncodeGetDataBlockResponse i l n (View bs) = sent_message (GetResponseM (get_block_message i l n bs))"
  using response_message_wf(1) [of 8 i l n bs]
  by (simp add: EncodeGetDataBlockResponse_def sent_structures get_response_apdu_def get_block_message_def)

lemma DecodeEncodedData_represented: "DecodeEncodedData bs = Inr d \<Longrightarrow> represented 8 d"
  using datac.msg.decode_wf [of 8 "View bs" d]
  by (auto simp: DecodeEncodedData_def reported_def DecodeDlmsData_decode_with split: if_splits sum.splits)

text \<open>
  Data on its way through a structure: bytes that decode as data arrive as the encoding of this data. That
  is the same bytes if they were such an encoding; a boolean, for example, may be any byte, and arrives as 0 or 1.
\<close>

definition recoded :: "bytes \<Rightarrow> bytes option" where
  "recoded bs = (case DecodeEncodedData bs of Inl _ \<Rightarrow> None | Inr x \<Rightarrow> Some (data_bytes x))"

lemma recoded_decoded: "DecodeEncodedData bs = Inr x \<Longrightarrow> recoded bs = Some (data_bytes x)"
  by (simp add: recoded_def)

lemma DecodeEncodedData_data: "represented 8 x \<Longrightarrow> DecodeEncodedData (data_bytes x) = Inr x"
  using datac.msg.decode_enc [of 8 x] by (cases x) (simp add: DecodeEncodedData_def reported_def DecodeDlmsData_decode_with)

lemma recoded_data [simp]: "represented 8 x \<Longrightarrow> recoded (data_bytes x) = Some (data_bytes x)"
  by (simp add: recoded_def DecodeEncodedData_data)

lemma recoded_represented:
  "recoded bs = Some v \<Longrightarrow> \<exists>x. DecodeEncodedData bs = Inr x \<and> represented 8 x \<and> v = data_bytes x"
  by (auto simp: recoded_def DecodeEncodedData_represented split: sum.splits)

lemma EncodeGetResponse_server_sent:
  "EncodeGetResponse_server i result =
    (if get_hasAccessResult result
     then sent_message (GetResponseM (get_result_message i (GetDataResult_default\<lparr>resultChoice := 1, dataAccessError := get_accessResult result\<rparr>)))
     else if get_hasData result then (case DecodeEncodedData (get_data result) of Inl status \<Rightarrow> Inl status
       | Inr d \<Rightarrow> sent_message (GetResponseM (get_result_message i (GetDataResult_default\<lparr>resultChoice := 0, resultData := d\<rparr>))))
     else Inl InternalError)"
proof -
  have send: "reported EncodeFailed (EncodeXdlmsApdu (get_response_apdu (get_result_message i r)\<lparr>getResponse := n\<rparr>))
      = sent_message (GetResponseM (get_result_message i r))" if "result_wf 8 r" for r n
    using that by (simp add: sent_structures get_response_apdu_def)
  show ?thesis
    by (auto simp: EncodeGetResponse_server_def Let_def send [unfolded get_result_message_def] get_result_message_def
        result_wf_def GetDataResult_default_def DecodeEncodedData_represented split: sum.split)
qed

lemma set_responses_sent:
  "EncodeSetResponse_server i result = sent_message (SetResponseM (set_response_message 1 i (set_accessResult result) 0))"
  "EncodeSetBlockAckResponse i n = sent_message (SetResponseM (set_response_message 2 i 0 n))"
  "EncodeSetLastBlockResponse i n result = sent_message (SetResponseM (set_response_message 3 i (set_accessResult result) n))"
proof -
  have eq: "SetResponse_default\<lparr>setResponse_choice := kNormalChoice, setResponse_invokeIdAndPriority := i, setResponse_result := r\<rparr>
      = set_response_message 1 i r 0"
    "SetResponse_default\<lparr>setResponse_choice := c, setResponse_invokeIdAndPriority := i, setResponse_blockNumber := n\<rparr>
      = set_response_message c i 0 n"
    "set_response_message c i 0 n\<lparr>setResponse_result := r\<rparr> = set_response_message c i r n" for r c
    by (simp_all add: set_response_message_def SetResponse_default_def get_consts)
  show "EncodeSetResponse_server i result = sent_message (SetResponseM (set_response_message 1 i (set_accessResult result) 0))"
    "EncodeSetBlockAckResponse i n = sent_message (SetResponseM (set_response_message 2 i 0 n))"
    "EncodeSetLastBlockResponse i n result = sent_message (SetResponseM (set_response_message 3 i (set_accessResult result) n))"
    by (simp_all add: EncodeSetResponse_server_def EncodeSetBlockAckResponse_def EncodeSetLastBlockResponse_def eq
        sent_structures set_response_apdu_def)
qed

lemma EncodeActionNextPblockResponse_sent:
  "EncodeActionNextPblockResponse i n = sent_message (ActionResponseM (action_next_message i n))"
  using response_message_wf(7) [of 8 i n]
  by (simp add: EncodeActionNextPblockResponse_def sent_structures action_response_apdu_def action_next_message_def)

lemma EncodeActionResponse_server_sent:
  "EncodeActionResponse_server i result =
    (case (if action_hasData result then DecodeEncodedData (action_data result) else Inr DlmsData_default) of Inl status \<Rightarrow> Inl status
     | Inr d \<Rightarrow> sent_message (ActionResponseM (action_result_message i \<lparr>item_result = action_actionResult result,
         item_hasReturnParameter = action_hasData result, item_returnParameter = d\<rparr>)))"
proof -
  have "reported EncodeFailed (EncodeXdlmsApdu (action_response_apdu (action_result_message i x)\<lparr>actionResponse := n\<rparr>))
      = sent_message (ActionResponseM (action_result_message i x))" if "response_item_wf 8 x" for x n
    using that by (simp add: sent_structures action_response_apdu_def)
  then show ?thesis
    by (auto simp: EncodeActionResponse_server_def Let_def action_result_message_def response_item_wf_def optional_wf_def
        DecodeEncodedData_represented split: sum.split)
qed

subsection \<open>The state between requests\<close>

text \<open>An active transfer runs with the processor's options, except for the two flags of the request.\<close>

definition transfer_options :: "ServiceOptions \<Rightarrow> ServiceOptions \<Rightarrow> bool" where
  "transfer_options po options \<longleftrightarrow> options = po\<lparr>confirmed := True, highPriority := highPriority options\<rparr>"

definition get_blocks_ok :: "ServiceOptions \<Rightarrow> GetResponseBlockState \<Rightarrow> bool" where
  "get_blocks_ok po b \<longleftrightarrow>
     (if gb_active b
      then transfer_options po (gb_options b) \<and> gb_invokeId b AND 0x0f = gb_invokeId b
        \<and> gb_offset b < length (gb_data b) \<and> length (gb_data b) \<le> maxBlockTransferBytes po
        \<and> (\<exists>k. gb_offset b = k * maxGetBlockPayloadBytes po \<and> gb_nextBlockNumber b = of_nat k + 1)
      else b = EmptyGetResponseBlockState)"

definition set_blocks_ok :: "ServiceOptions \<Rightarrow> SetRequestBlockState \<Rightarrow> bool" where
  "set_blocks_ok po b \<longleftrightarrow>
     (if sb_active b
      then transfer_options po (sb_options b) \<and> sb_invokeId b AND 0x0f = sb_invokeId b
        \<and> length (sb_data b) \<le> maxBlockTransferBytes po
      else b = EmptySetRequestBlockState)"

definition action_blocks_ok :: "ServiceOptions \<Rightarrow> ActionRequestBlockState \<Rightarrow> bool" where
  "action_blocks_ok po b \<longleftrightarrow>
     (if ab_active b
      then transfer_options po (ab_options b) \<and> ab_invokeId b AND 0x0f = ab_invokeId b
        \<and> length (ab_data b) \<le> maxBlockTransferBytes po
      else b = EmptyActionRequestBlockState)"

lemma blocks_ok_empty [simp]:
  "get_blocks_ok po EmptyGetResponseBlockState" "set_blocks_ok po EmptySetRequestBlockState"
  "action_blocks_ok po EmptyActionRequestBlockState"
  by (simp_all add: get_blocks_ok_def set_blocks_ok_def action_blocks_ok_def EmptyGetResponseBlockState_def
      EmptySetRequestBlockState_def EmptyActionRequestBlockState_def)

lemma blocks_ok_collected:
  "set_blocks_ok po \<lparr>sb_active = True, sb_invokeId = i, sb_options = options, sb_descriptor = d, sb_nextBlockNumber = n, sb_data = bs\<rparr>
     \<longleftrightarrow> transfer_options po options \<and> i AND 0x0f = i \<and> length bs \<le> maxBlockTransferBytes po"
  "sb_active b \<Longrightarrow> set_blocks_ok po b \<Longrightarrow> set_blocks_ok po (b\<lparr>sb_data := bs, sb_nextBlockNumber := n\<rparr>)
     \<longleftrightarrow> length bs \<le> maxBlockTransferBytes po"
  "action_blocks_ok po \<lparr>ab_active = True, ab_invokeId = i, ab_options = options, ab_descriptor = e, ab_nextBlockNumber = n, ab_data = bs\<rparr>
     \<longleftrightarrow> transfer_options po options \<and> i AND 0x0f = i \<and> length bs \<le> maxBlockTransferBytes po"
  "ab_active a \<Longrightarrow> action_blocks_ok po a \<Longrightarrow> action_blocks_ok po (a\<lparr>ab_data := bs, ab_nextBlockNumber := n\<rparr>)
     \<longleftrightarrow> length bs \<le> maxBlockTransferBytes po"
  by (auto simp: set_blocks_ok_def action_blocks_ok_def)

lemma blocks_ok_active:
  "set_blocks_ok po b \<Longrightarrow> sb_active b \<Longrightarrow> transfer_options po (sb_options b) \<and> sb_invokeId b AND 0x0f = sb_invokeId b"
  "action_blocks_ok po a \<Longrightarrow> ab_active a \<Longrightarrow> transfer_options po (ab_options a) \<and> ab_invokeId a AND 0x0f = ab_invokeId a"
  by (auto simp: set_blocks_ok_def action_blocks_ok_def)

lemma low_nibble [simp]:
  "MakeInvokeIdAndPriority i options AND 0x0f = i AND 0x0f" "(i AND 0x0f) AND 0x0f = (i AND 0x0f :: u8)"
  by (simp_all add: MakeInvokeIdAndPriority_def Let_def bit.conj_disj_distrib2 and.assoc)

lemma parsed_options:
  "confirmed (ParseServiceOptions i po) \<Longrightarrow> transfer_options po (ParseServiceOptions i po)"
  "maxBlockTransferBytes (ParseServiceOptions i po) = maxBlockTransferBytes po"
  "maxGetBlockPayloadBytes (ParseServiceOptions i po) = maxGetBlockPayloadBytes po"
  "allowBlockTransfer (ParseServiceOptions i po) = allowBlockTransfer po"
  by (simp_all add: ParseServiceOptions_def transfer_options_def)

lemma transfer_options_simps:
  assumes "transfer_options po options"
  shows "maxBlockTransferBytes options = maxBlockTransferBytes po" "maxGetBlockPayloadBytes options = maxGetBlockPayloadBytes po"
  using arg_cong [OF assms [unfolded transfer_options_def], of maxBlockTransferBytes]
    arg_cong [OF assms [unfolded transfer_options_def], of maxGetBlockPayloadBytes] by simp_all

text \<open>The next block of an active transfer: as much as the payload limit allows, marked last when nothing is left.\<close>

lemma SendNextGetResponseBlock_active:
  assumes "gb_active b" "maxGetBlockPayloadBytes (gb_options b) = n" "0 < n" "gb_offset b < length (gb_data b)" "n < size_t_modulus"
    and "isLast \<longleftrightarrow> length (gb_data b) \<le> gb_offset b + n"
  shows "SendNextGetResponseBlock b =
    (case sent_message (GetResponseM (get_block_message (MakeInvokeIdAndPriority (gb_invokeId b) (gb_options b)) isLast
        (gb_nextBlockNumber b) (take n (drop (gb_offset b) (gb_data b))))) of
       Inl status \<Rightarrow> (Inl status, EmptyGetResponseBlockState)
     | Inr r \<Rightarrow> (Inr r, if isLast then EmptyGetResponseBlockState
         else b\<lparr>gb_offset := gb_offset b + n, gb_nextBlockNumber := gb_nextBlockNumber b + 1\<rparr>))"
proof -
  define remaining where "remaining = length (gb_data b) - gb_offset b"
  define m where "m = (if remaining < n then remaining else n)"
  have last: "gb_offset b + m = length (gb_data b) \<longleftrightarrow> isLast" and "\<not> isLast \<Longrightarrow> m = n"
    using assms by (auto simp: m_def remaining_def)
  have raw: "take m (drop (gb_offset b) (gb_data b)) = take n (drop (gb_offset b) (gb_data b))"
    by (auto simp: m_def remaining_def)
  have sent: "EncodeGetDataBlockResponse i l k (View (take n xs)) = sent_message (GetResponseM (get_block_message i l k (take n xs)))" for i l k xs
    using assms(5) by (intro EncodeGetDataBlockResponse_sent) simp
  have "SendNextGetResponseBlock b =
    (case EncodeGetDataBlockResponse (MakeInvokeIdAndPriority (gb_invokeId b) (gb_options b)) isLast
        (gb_nextBlockNumber b) (View (take n (drop (gb_offset b) (gb_data b)))) of
       Inl status \<Rightarrow> (Inl status, EmptyGetResponseBlockState)
     | Inr r \<Rightarrow> (Inr r, if isLast then EmptyGetResponseBlockState
         else b\<lparr>gb_offset := gb_offset b + m, gb_nextBlockNumber := gb_nextBlockNumber b + 1\<rparr>))"
    using assms(1-4) unfolding SendNextGetResponseBlock_def Let_def last [symmetric] raw [symmetric] m_def remaining_def by (simp cong: sum.case_cong)
  then show ?thesis using \<open>\<not> isLast \<Longrightarrow> m = n\<close> by (simp add: sent cong: if_cong sum.case_cong)
qed

definition get_block_of :: "GetResponseBlockState \<Rightarrow> bytes \<Rightarrow> bool" where
  "get_block_of b bs \<longleftrightarrow> (\<exists>l n raw. length raw < size_t_modulus \<and> Inr bs = sent_message (GetResponseM
     (get_block_message (MakeInvokeIdAndPriority (gb_invokeId b) (gb_options b)) l n raw)))"

lemma SendNextGetResponseBlock_ok:
  assumes "SendNextGetResponseBlock b = (response, b')" "get_blocks_ok po b" "gb_active b" "maxGetBlockPayloadBytes po < size_t_modulus"
  shows "get_blocks_ok po b' \<and> (\<forall>bs. response = Inr bs \<longrightarrow> get_block_of b bs)"
proof (cases "maxGetBlockPayloadBytes po = 0")
  case True
  then have "maxGetBlockPayloadBytes (gb_options b) = 0"
    using assms(2,3) transfer_options_simps(2) [of po "gb_options b"] by (simp add: get_blocks_ok_def)
  then show ?thesis using assms(1) by (auto simp: SendNextGetResponseBlock_def)
next
  case False
  let ?n = "maxGetBlockPayloadBytes po" and ?last = "length (gb_data b) \<le> gb_offset b + maxGetBlockPayloadBytes po"
  let ?m = "get_block_message (MakeInvokeIdAndPriority (gb_invokeId b) (gb_options b)) ?last (gb_nextBlockNumber b)
      (take ?n (drop (gb_offset b) (gb_data b)))"
  note b = assms(2,3) [unfolded get_blocks_ok_def]
  from b obtain k where k: "gb_offset b = k * ?n" "gb_nextBlockNumber b = of_nat k + 1" by auto
  have advance: "get_blocks_ok po (b\<lparr>gb_offset := gb_offset b + ?n, gb_nextBlockNumber := gb_nextBlockNumber b + 1\<rparr>)"
    if "\<not> ?last" using that b k by (auto simp: get_blocks_ok_def intro!: exI [of _ "Suc k"])
  have next_block: "SendNextGetResponseBlock b = (case sent_message (GetResponseM ?m) of
       Inl status \<Rightarrow> (Inl status, EmptyGetResponseBlockState)
     | Inr r \<Rightarrow> (Inr r, if ?last then EmptyGetResponseBlockState
         else b\<lparr>gb_offset := gb_offset b + ?n, gb_nextBlockNumber := gb_nextBlockNumber b + 1\<rparr>))"
    using b False assms(4) by (intro SendNextGetResponseBlock_active) (simp_all add: transfer_options_simps)
  show ?thesis
  proof (cases "sent_message (GetResponseM ?m)")
    case (Inl status)
    with next_block assms(1) show ?thesis by simp
  next
    case (Inr r)
    have "length (take ?n (drop (gb_offset b) (gb_data b))) < size_t_modulus" using assms(4) by simp
    with Inr have "get_block_of b r" unfolding get_block_of_def by metis
    with next_block assms(1) Inr advance show ?thesis by (auto split: if_splits)
  qed
qed

subsection \<open>Answers\<close>

text \<open>A response that answers a request is of the same service and has its invoke identifier.\<close>

fun answers :: "xdlms_message \<Rightarrow> xdlms_message \<Rightarrow> bool" where
  "answers (GetRequestM q) (GetResponseM r) \<longleftrightarrow>
     getResponse_invokeIdAndPriority r AND 0x0f = getRequest_invokeIdAndPriority q AND 0x0f"
| "answers (SetRequestM q) (SetResponseM r) \<longleftrightarrow>
     setResponse_invokeIdAndPriority r AND 0x0f = setRequest_invokeIdAndPriority q AND 0x0f"
| "answers (ActionRequestM q) (ActionResponseM r) \<longleftrightarrow>
     actionResponse_invokeIdAndPriority r AND 0x0f = actionRequest_invokeIdAndPriority q AND 0x0f"
| "answers _ _ \<longleftrightarrow> False"

definition answered :: "xdlms_message \<Rightarrow> XdlmsStatus + bytes \<Rightarrow> bool" where
  "answered q response \<longleftrightarrow>
     (\<forall>bs. response = Inr bs \<longrightarrow> (\<exists>r. message_wf r \<and> answers q r \<and> bs = message_bytes r \<and> length bs \<le> 2048))"

lemma answered_Inl [simp]: "answered q (Inl status)"
  by (simp add: answered_def)

lemma answered_failed: "Inl status = response \<Longrightarrow> answered q response"
  by (auto simp: answered_def)

lemma answered_sent: "message_wf r \<Longrightarrow> answers q r \<Longrightarrow> answered q (sent_message r)"
  by (auto simp: answered_def sent_message_def)

lemma response_ids [simp]:
  "getResponse_invokeIdAndPriority (get_block_message i l n bs) = i" "getResponse_invokeIdAndPriority (get_result_message i r) = i"
  "setResponse_invokeIdAndPriority (set_response_message c i x k) = i"
  "actionResponse_invokeIdAndPriority (action_result_message i it) = i" "actionResponse_invokeIdAndPriority (action_next_message i k) = i"
  by (simp_all add: response_messages)

lemma answered_get_block:
  assumes "get_block_of b bs" "gb_invokeId b AND 0x0f = getRequest_invokeIdAndPriority q AND 0x0f"
  shows "answered (GetRequestM q) (Inr bs)"
  using assms answered_sent [of "GetResponseM (get_block_message i l n raw)" "GetRequestM q" for i l n raw]
  by (auto simp: get_block_of_def)

lemma answered_get_response:
  assumes "i AND 0x0f = getRequest_invokeIdAndPriority q AND 0x0f"
  shows "answered (GetRequestM q) (EncodeGetResponse_server i result)"
  using assms
  by (auto simp: EncodeGetResponse_server_sent GetDataResult_default_def result_wf_def DecodeEncodedData_represented
      intro!: answered_sent split: sum.split)

lemma answered_action_response:
  assumes "i AND 0x0f = actionRequest_invokeIdAndPriority q AND 0x0f"
  shows "answered (ActionRequestM q) (EncodeActionResponse_server i result)"
  using assms
  by (auto simp: EncodeActionResponse_server_sent response_item_wf_def optional_wf_def DecodeEncodedData_represented
      intro!: answered_sent split: sum.split)

lemma EncodeGetResponseOrStartBlocks_ok:
  assumes "EncodeGetResponseOrStartBlocks i indication result b = (response, b')"
    and "get_blocks_ok po b" "transfer_options po (getInd_options indication)" "maxGetBlockPayloadBytes po < size_t_modulus"
    and "i AND 0x0f = getRequest_invokeIdAndPriority q AND 0x0f" "getInd_invokeId indication = i AND 0x0f"
  shows "get_blocks_ok po b' \<and> answered (GetRequestM q) response"
proof -
  let ?start = "\<lparr>gb_active = True, gb_invokeId = getInd_invokeId indication, gb_options = getInd_options indication,
    gb_nextBlockNumber = 1, gb_offset = 0, gb_data = get_data result\<rparr>"
  have start: "get_blocks_ok po b' \<and> answered (GetRequestM q) response"
    if s: "SendNextGetResponseBlock ?start = (response, b')" and "0 < length (get_data result)" "length (get_data result) \<le> maxBlockTransferBytes po"
  proof -
    have "get_blocks_ok po ?start" using assms(3,6) that(2,3) by (auto simp: get_blocks_ok_def)
    from SendNextGetResponseBlock_ok [OF s this _ assms(4)] answered_get_block [of ?start _ q] assms(5,6)
    show ?thesis by (cases response) (auto simp: get_block_of_def)
  qed
  show ?thesis
    using assms(1,2) start answered_get_response [OF assms(5)] transfer_options_simps [OF assms(3)]
    by (auto simp: EncodeGetResponseOrStartBlocks_def Let_def simp del: length_greater_0_conv split: if_splits)
qed


subsection \<open>The services\<close>

lemma normal_requests:
  "getRequest_choice q = 1 \<Longrightarrow> getRequest (fill_get_request q x) = \<lparr>getNormal_invokeIdAndPriority = getRequest_invokeIdAndPriority q,
     getNormal_descriptor = selectedDescriptor (getRequest_normal q), getNormal_hasSelectiveAccess = hasSelection (getRequest_normal q),
     getNormal_selectiveAccess = selection (getRequest_normal q)\<rparr>"
  "setRequest_choice s = 1 \<Longrightarrow> setRequest (fill_set_request s x) = \<lparr>setNormal_invokeIdAndPriority = setRequest_invokeIdAndPriority s,
     setNormal_descriptor = selectedDescriptor (setRequest_normal s), setNormal_hasSelectiveAccess = hasSelection (setRequest_normal s),
     setNormal_selectiveAccess = selection (setRequest_normal s), setNormal_data = setRequest_data s\<rparr>"
  "actionRequest_choice a = 1 \<Longrightarrow> actionRequest (fill_action_request a x) = \<lparr>actionNormal_invokeIdAndPriority = actionRequest_invokeIdAndPriority a,
     actionNormal_descriptor = parameterDescriptor (actionRequest_normal a),
     actionNormal_hasInvocationParameter = hasInvocationParameter (actionRequest_normal a),
     actionNormal_invocationParameter = invocationParameter (actionRequest_normal a)\<rparr>"
  by (simp_all add: fill_get_request_def fill_set_request_def fill_action_request_def get_consts)

lemma ProcessGetRequest_ok:
  assumes "ProcessGetRequest (apdu_of (GetRequestM q)) d po sink cid (b, e) = (response, b', e')"
    and "get_blocks_ok po b" "maxGetBlockPayloadBytes po < size_t_modulus"
  shows "get_blocks_ok po b' \<and> answered (GetRequestM q) response"
proof -
  have follow: "get_blocks_ok po b' \<and> answered (GetRequestM q) response"
    if "SendNextGetResponseBlock b = (response, b')" "gb_active b" "getRequest_invokeIdAndPriority q AND 0x0f = gb_invokeId b"
    using SendNextGetResponseBlock_ok [OF that(1) assms(2) that(2) assms(3)] answered_get_block [of b _ q] that(3)
      assms(2) that(2) by (cases response) (auto simp: get_blocks_ok_def)
  have start: "get_blocks_ok po b' \<and> answered (GetRequestM q) response"
    if "EncodeGetResponseOrStartBlocks (MakeInvokeIdAndPriority (i AND 0x0f) options) \<lparr>getInd_invokeId = i AND 0x0f, getInd_options = options,
         getInd_descriptor = c\<rparr> result b = (response, b')" "i = getRequest_invokeIdAndPriority q"
      "options = ParseServiceOptions i po" "confirmed options" for i options c result
    using EncodeGetResponseOrStartBlocks_ok [OF that(1) assms(2) _ assms(3), of q] that(2-4) parsed_options(1) [of i po] by simp
  show ?thesis
    using assms(1,2) follow start
    by (auto simp: ProcessGetRequest.simps Let_def normal_requests get_consts
        split: if_splits sum.splits prod.splits)
qed


lemma ProcessSetRequest_ok:
  assumes "ProcessSetRequest (apdu_of (SetRequestM q)) d po sink cid (b, e) = (response, b', e')" and "set_blocks_ok po b"
  shows "set_blocks_ok po b' \<and> answered (SetRequestM q) response"
proof -
  have ack: "set_blocks_ok po b' \<and> answered (SetRequestM q) response"
    if "acknowledge_set q n sink cid (b1, e) = (response, b', e')" "set_blocks_ok po b1" for n b1
    using that by (auto simp: acknowledge_set_def set_responses_sent intro!: answered_sent split: sum.splits)
  have finish: "set_blocks_ok po b' \<and> answered (SetRequestM q) response"
    if "finish_set d n ind (b1, e) = (response, b', e')" "set_blocks_ok po b1" "setInd_invokeId ind AND 0x0f = setRequest_invokeIdAndPriority q AND 0x0f" for n b1 ind
    using that by (auto simp: finish_set_def set_responses_sent intro!: answered_sent split: sum.splits prod.splits)
  let ?i = "setRequest_invokeIdAndPriority q"
  have first: ?thesis if "first_set_block q d po sink cid (b, e) = (response, b', e')"
    using that assms(2) parsed_options(1) [of ?i po]
    by (auto simp: first_set_block_def Let_def blocks_ok_collected parsed_options(2) view_size_bytes dest!: ack finish split: if_splits)
  have later: ?thesis if "next_set_block q d sink cid (b, e) = (response, b', e')"
    using that assms(2) blocks_ok_active(1) [OF assms(2)]
    by (auto simp: next_set_block_def Let_def blocks_ok_collected transfer_options_simps view_size_bytes dest!: ack finish split: if_splits)
  show ?thesis
    using assms first later
    by (auto simp: ProcessSetRequest.simps Let_def normal_requests get_consts set_consts set_responses_sent
        split: if_splits sum.splits prod.splits intro!: answered_sent intro: answered_failed)
qed


lemma ProcessActionRequest_ok:
  assumes "ProcessActionRequest (apdu_of (ActionRequestM q)) d po sink cid (b, e) = (response, b', e')" and "action_blocks_ok po b"
  shows "action_blocks_ok po b' \<and> answered (ActionRequestM q) response"
proof -
  have ack: "action_blocks_ok po b' \<and> answered (ActionRequestM q) response"
    if "acknowledge_action q n sink cid (b1, e) = (response, b', e')" "action_blocks_ok po b1" for n b1
    using that by (auto simp: acknowledge_action_def EncodeActionNextPblockResponse_sent intro!: answered_sent split: sum.splits)
  have finish: "action_blocks_ok po b' \<and> answered (ActionRequestM q) response"
    if "finish_action d ind (b1, e) = (response, b', e')" "action_blocks_ok po b1"
      "actionInd_invokeId ind AND 0x0f = actionRequest_invokeIdAndPriority q AND 0x0f" for b1 ind
    using that by (auto simp: finish_action_def intro!: answered_action_response split: sum.splits prod.splits)
  let ?i = "actionRequest_invokeIdAndPriority q"
  have first: ?thesis if "first_action_block q d po sink cid (b, e) = (response, b', e')"
    using that assms(2) parsed_options(1) [of ?i po]
    by (auto simp: first_action_block_def Let_def blocks_ok_collected parsed_options(2) view_size_bytes dest!: ack finish split: if_splits)
  have later: ?thesis if "next_action_block q d sink cid (b, e) = (response, b', e')"
    using that assms(2) blocks_ok_active(2) [OF assms(2)]
    by (auto simp: next_action_block_def Let_def blocks_ok_collected transfer_options_simps view_size_bytes dest!: ack finish split: if_splits)
  show ?thesis
    using assms first later
    by (auto simp: ProcessActionRequest.simps Let_def normal_requests get_consts action_consts dest!: finish
        split: if_splits sum.splits intro: answered_failed)
qed

subsection \<open>The processor\<close>

definition processor_ok :: "'e XdlmsServerApduProcessor \<Rightarrow> bool" where
  "processor_ok p \<longleftrightarrow> get_blocks_ok (processorOptions p) (getBlocks p) \<and> set_blocks_ok (processorOptions p) (setBlocks p)
     \<and> action_blocks_ok (processorOptions p) (actionBlocks p)"

lemma run_service_ok:
  assumes "run_service (apdu_of q) cid (p, e) = (response, p', e')"
    and "processor_ok p" "maxGetBlockPayloadBytes (processorOptions p) < size_t_modulus"
  shows "processor_ok p' \<and> answered q response"
  using assms ProcessGetRequest_ok [of _ "dispatcher p" "processorOptions p" "traceSink p" cid "getBlocks p" e]
    ProcessSetRequest_ok [of _ "dispatcher p" "processorOptions p" "traceSink p" cid "setBlocks p" e]
    ProcessActionRequest_ok [of _ "dispatcher p" "processorOptions p" "traceSink p" cid "actionBlocks p" e]
  by (cases q) (auto simp: processor_ok_def split: prod.splits)


lemma run_service_keeps:
  "run_service q cid (p, e) = (response, p', e') \<Longrightarrow>
     dispatcher p' = dispatcher p \<and> security p' = security p \<and> processorOptions p' = processorOptions p"
  by (auto split: XdlmsApduKind.splits prod.splits)

lemma send_response_state: "send_response cid bs (p, e) = (response, p', e') \<Longrightarrow> p' = p"
  by (auto simp: Let_def split: sum.splits option.splits prod.splits)

text \<open>
  One request: it is refused before a service runs and changes nothing, or the plain request is a
  well-formed message and the service runs on it.
\<close>

lemma ProcessRequest_cases:
  assumes "ProcessRequest bs (p, e) = (response, p', e')"
  obtains status where "response = Inl status" "p' = p"
  | q v e1 cid plain e2 where "message_wf q" "DecodeXdlmsApdu v = Inr (apdu_of q)" "security p = None \<longrightarrow> v = pointer_view bs"
      "run_service (apdu_of q) cid (p, e1) = (plain, p', e2)"
      "plain = response \<or> (\<exists>answer. plain = Inr answer \<and> (security p' = None \<longrightarrow> response = Inr answer))"
proof -
  note run = assms [unfolded ProcessRequest.simps Let_def]
  define unprotected where "unprotected = (case security p of None \<Rightarrow> (Inr bs, e) | Some s \<Rightarrow> security_Unprotect s (pointer_view bs) e)"
  show thesis
  proof (cases "fst unprotected")
    case (Inl status)
    with run show thesis by (intro that(1)) (auto simp: unprotected_def [symmetric] split: prod.splits)
  next
    case (Inr plainRequest)
    show thesis
    proof (cases "DecodeXdlmsApdu (pointer_view plainRequest)")
      case Inl': (Inl status)
      with run Inr show thesis by (intro that(1)) (auto simp: unprotected_def [symmetric] split: prod.splits)
    next
      case decoded: (Inr request)
      then obtain q where q: "message_wf q" "request = apdu_of q"
        using DecodeXdlmsApdu_represents by (auto simp: represents_message_def)
      from run Inr decoded obtain cid e1 where served: "(case run_service request cid (p, e1) of (Inl status, pe) \<Rightarrow> (Inl status, pe)
          | (Inr plainResponse, pe) \<Rightarrow> send_response cid plainResponse pe) = (response, p', e')"
        by (auto simp: unprotected_def [symmetric] split: prod.splits)
      obtain plain p1 e2 where step: "run_service request cid (p, e1) = (plain, p1, e2)" by (cases "run_service request cid (p, e1)") auto
      from served step have "p1 = p'" "plain = response \<or> (\<exists>answer. plain = Inr answer \<and> (security p' = None \<longrightarrow> response = Inr answer))"
        by (auto simp: Let_def dest: send_response_state split: sum.splits option.splits prod.splits)
      moreover have "security p = None \<longrightarrow> pointer_view plainRequest = pointer_view bs" using Inr by (auto simp: unprotected_def)
      ultimately show thesis using q decoded step
        by (intro that(2) [of q "pointer_view plainRequest" cid e1 plain e2]) simp_all
    qed
  qed
qed


text \<open>The processors that serve, in any world and with any requests, from the one that was constructed.\<close>

inductive serving :: "'e XdlmsServerApduProcessor \<Rightarrow> 'e XdlmsServerApduProcessor \<Rightarrow> bool" for p0 where
  start: "serving p0 p0"
| request: "serving p0 p \<Longrightarrow> ProcessRequest bs (p, e) = (response, p', e') \<Longrightarrow> serving p0 p'"

lemma ProcessRequest_ok:
  assumes "ProcessRequest bs (p, e) = (response, p', e')" "processor_ok p" "maxGetBlockPayloadBytes (processorOptions p) < size_t_modulus"
  shows "processor_ok p' \<and> dispatcher p' = dispatcher p \<and> security p' = security p \<and> processorOptions p' = processorOptions p"
  using assms(1)
proof (cases rule: ProcessRequest_cases)
  case (2 q v e1 cid plain e2)
  with run_service_ok [OF 2(4) assms(2,3)] run_service_keeps [OF 2(4)] show ?thesis by simp
qed (use assms in simp)

lemma serving_ok:
  assumes "serving p0 p" "processor_ok p0" "maxGetBlockPayloadBytes (processorOptions p0) < size_t_modulus"
  shows "processor_ok p \<and> dispatcher p = dispatcher p0 \<and> security p = security p0 \<and> processorOptions p = processorOptions p0"
  using assms
proof induction
  case (request p bs e response p' e')
  with ProcessRequest_ok [OF request.hyps(2)] show ?case by auto
qed simp

lemma processor_ok_init: "processor_ok (XdlmsServerApduProcessor_init d sec options)"
  by (simp add: processor_ok_def XdlmsServerApduProcessor_init_def)


subsection \<open>Plain requests\<close>

text \<open>A processor without security, trace sink and correlated channel.\<close>

definition quiet :: "'e XdlmsServerApduProcessor \<Rightarrow> bool" where
  "quiet p \<longleftrightarrow> security p = None \<and> traceSink p = None \<and> apduChannel p = None"

lemma untraced [simp]:
  "EmitServerSimpleTrace None k st i options n cid e = e" "block_step None i options bn bs cid e = e"
  by (simp_all add: EmitServerSimpleTrace_def block_step_def)

lemma pointer_view_message [simp]: "pointer_view (message_bytes m) = View (message_bytes m)"
  by (simp add: pointer_view_def message_nonempty)

lemma run_service_quiet:
  "run_service q cid (p, e) = (response, p', e') \<Longrightarrow> quiet p \<Longrightarrow> quiet p'"
  by (auto simp: quiet_def split: XdlmsApduKind.splits prod.splits)

lemma ProcessRequest_quiet:
  assumes "message_wf q" "quiet p"
  obtains cid where "ProcessRequest (message_bytes q) (p, e) = run_service (apdu_of q) cid (p, e)"
proof -
  note p = assms(2) [unfolded quiet_def]
  define cid where "cid = MakeConversationId (case seedSource p of None \<Rightarrow> 0 | Some state \<Rightarrow> association_ConversationSeed state e)
    (request_invoke_id (apdu_of q))"
  obtain response p' e' where run: "run_service (apdu_of q) cid (p, e) = (response, p', e')"
    by (cases "run_service (apdu_of q) cid (p, e)") auto
  have "quiet p'" using run_service_quiet [OF run assms(2)] .
  then have "ProcessRequest (message_bytes q) (p, e) = run_service (apdu_of q) cid (p, e)"
    using p run unfolding ProcessRequest.simps Let_def
    by (auto simp: DecodeXdlmsApdu_message [OF assms(1)] correlate_def cid_def [symmetric] Let_def quiet_def
        simp del: apdu_of.simps run_service.simps split: sum.split)
  then show thesis by (rule that)
qed

subsection \<open>Properties\<close>

text \<open>
  C6: What the server keeps between requests stays bounded and consistent. In every processor that serves,
  from its construction on and whatever requests it gets, each of the three block transfers is idle with
  its initial state, or runs with the configured limits, an invoke identifier of four bits and at most
  \<open>maxBlockTransferBytes\<close> bytes of data, and the next block of a GET starts at a multiple of the block
  size that belongs to its number, before the end of the data. Dispatcher, security and options never change.
\<close>

theorem server_block_states:
  assumes "serving (XdlmsServerApduProcessor_init d sec options) p" "maxGetBlockPayloadBytes options < size_t_modulus"
  shows "get_blocks_ok options (getBlocks p) \<and> set_blocks_ok options (setBlocks p) \<and> action_blocks_ok options (actionBlocks p)
    \<and> dispatcher p = d \<and> security p = sec \<and> processorOptions p = options"
  using serving_ok [OF assms(1) processor_ok_init] assms(2)
  by (auto simp: XdlmsServerApduProcessor_init_def processor_ok_def)


text \<open>
  C7: The server answers what was asked. In every processor that serves without security, a response to a request
  is at most 2048 bytes long, the request was a well-formed GET, SET or ACTION request, and
  the response is a well-formed response of the same service with the request's invoke identifier; it
  decodes to it.
\<close>

theorem server_answers:
  assumes "serving (XdlmsServerApduProcessor_init d None options) p" "maxGetBlockPayloadBytes options < size_t_modulus"
    and "ProcessRequest bs (p, e) = (Inr answer, p', e')"
  shows "length answer \<le> 2048 \<and> (\<exists>q r. message_wf q \<and> DecodeXdlmsApdu (pointer_view bs) = Inr (apdu_of q)
    \<and> message_wf r \<and> DecodeXdlmsApdu (View answer) = Inr (apdu_of r) \<and> answers q r)"
proof -
  have p: "processor_ok p" "security p = None" "processorOptions p = options"
    using serving_ok [OF assms(1) processor_ok_init] assms(2) by (simp_all add: XdlmsServerApduProcessor_init_def)
  from assms(3) show ?thesis
  proof (cases rule: ProcessRequest_cases)
    case (2 q v e1 cid plain e2)
    have "security p' = None" using run_service_keeps [OF 2(4)] p(2) by simp
    with 2(5) have "plain = Inr answer" by auto
    with run_service_ok [OF 2(4) p(1)] p(3) assms(2) obtain r
      where "message_wf r" "answers q r" "answer = message_bytes r" "length answer \<le> 2048" by (auto simp: answered_def)
    with 2(1-3) p(2) DecodeXdlmsApdu_message show ?thesis by blast
  qed simp
qed

end
