(* ===== verification/Xdlms_Client.thy ===== *)
theory Xdlms_Client
  imports Xdlms_Types
begin

text \<open>
  The client side of the xDLMS services, \<open>xdlms_client.cpp\<close>. A service runs on the object, whose only
  state is the allocator of invoke identifiers, and the world. A response decides whether a block
  transfer goes on, so a service may never return: the loops give an option, \<open>None\<close> for a run
  without end.

  The views in a decoded APDU are values here. In the source they point into the buffer the APDU was
  decoded from; \<open>DecodeActionBlockPayload\<close> decodes from a buffer that is gone when its result is used.
\<close>

subsection \<open>Traces\<close>

record 'e XdlmsTraceContext =
  ctx_sink :: "'e trace_sink"
  ctx_conversationId :: "64 word"
  ctx_requestKind :: XdlmsTraceKind
  ctx_responseKind :: XdlmsTraceKind
  ctx_invokeId :: u8
  ctx_options :: ServiceOptions
  ctx_classId :: u16
  ctx_attributeOrMethodId :: u8
  ctx_logicalName :: bytes
  ctx_hasBlockNumber :: bool
  ctx_blockNumber :: u32

definition MakeTraceContext ::
    "'e trace_sink \<Rightarrow> 64 word \<Rightarrow> XdlmsTraceKind \<Rightarrow> XdlmsTraceKind \<Rightarrow> u8 \<Rightarrow> ServiceOptions \<Rightarrow> 'e XdlmsTraceContext" where
  "MakeTraceContext sink conversationId requestKind responseKind invokeId options =
     \<lparr>ctx_sink = sink, ctx_conversationId = conversationId, ctx_requestKind = requestKind, ctx_responseKind = responseKind,
      ctx_invokeId = invokeId, ctx_options = options, ctx_classId = 0, ctx_attributeOrMethodId = 0,
      ctx_logicalName = [0, 0, 0, 0, 0, 0], ctx_hasBlockNumber = False, ctx_blockNumber = 0\<rparr>"

definition FillDescriptor :: "AttributeDescriptor \<Rightarrow> 'e XdlmsTraceContext \<Rightarrow> 'e XdlmsTraceContext" where
  "FillDescriptor descriptor ctx = ctx\<lparr>ctx_classId := attribute_classId descriptor,
     ctx_attributeOrMethodId := attribute_attributeId descriptor, ctx_logicalName := attribute_instanceId descriptor\<rparr>"

definition FillMethodDescriptor :: "MethodDescriptor \<Rightarrow> 'e XdlmsTraceContext \<Rightarrow> 'e XdlmsTraceContext" where
  "FillMethodDescriptor descriptor ctx = ctx\<lparr>ctx_classId := method_classId descriptor,
     ctx_attributeOrMethodId := method_methodId descriptor, ctx_logicalName := method_instanceId descriptor\<rparr>"

definition EmitTrace ::
    "'e XdlmsTraceContext \<Rightarrow> XdlmsTraceKind \<Rightarrow> XdlmsTraceDirection \<Rightarrow> XdlmsStatus \<Rightarrow> nat \<Rightarrow> nat \<Rightarrow> 'e \<Rightarrow> 'e" where
  "EmitTrace ctx kind direction status apduSize payloadSize =
     emit (ctx_sink ctx) (EmptyXdlmsTraceEvent\<lparr>event_kind := kind, event_direction := direction, event_status := status,
       event_invokeId := ctx_invokeId ctx, event_options := ctx_options ctx, event_classId := ctx_classId ctx,
       event_attributeOrMethodId := ctx_attributeOrMethodId ctx, event_logicalName := ctx_logicalName ctx,
       event_hasBlockNumber := ctx_hasBlockNumber ctx, event_blockNumber := ctx_blockNumber ctx, event_apduSize := apduSize,
       event_payloadSize := payloadSize, event_conversationId := ctx_conversationId ctx\<rparr>)"

definition invoke_rejected :: "'e XdlmsTraceContext \<Rightarrow> 'e \<Rightarrow> 'e" where
  "invoke_rejected ctx = EmitTrace ctx InvokeIdRejected Inbound InvokeIdMismatch 0 0"

definition at_block :: "u32 \<Rightarrow> 'e XdlmsTraceContext \<Rightarrow> 'e XdlmsTraceContext" where
  "at_block n ctx = ctx\<lparr>ctx_hasBlockNumber := True, ctx_blockNumber := n\<rparr>"

subsection \<open>Requests\<close>

definition ToApduDescriptor :: "AttributeDescriptor \<Rightarrow> CosemAttributeDescriptor" where
  "ToApduDescriptor d = \<lparr>attributeClassId = attribute_classId d,
     attributeLogicalName = map (CosemLogicalName_at (attribute_instanceId d)) [0 ..< 6], attributeId = attribute_attributeId d\<rparr>"

definition ToApduMethodDescriptor :: "MethodDescriptor \<Rightarrow> CosemMethodDescriptor" where
  "ToApduMethodDescriptor d = \<lparr>methodClassId = method_classId d,
     methodLogicalName = map (CosemLogicalName_at (method_instanceId d)) [0 ..< 6], methodId = method_methodId d\<rparr>"

definition ToApduLogicalName :: "CosemLogicalName \<Rightarrow> bytes" where
  "ToApduLogicalName name = map (CosemLogicalName_at name) [0 ..< 6]"

definition client_DecodeEncodedData :: "bytes \<Rightarrow> XdlmsStatus + DlmsData" where
  "client_DecodeEncodedData encodedData =
     (if encodedData = [] then Inl InvalidArgument else reported EncodeFailed (DecodeDlmsData (View encodedData) 8))"

definition CopyEncodedData :: "DlmsData \<Rightarrow> XdlmsStatus + bytes" where
  "CopyEncodedData d =
     (case EncodeDlmsData d (ApduWriter_init False 2048) of
        (Inl status, writer) \<Rightarrow> Inl DecodeFailed
      | (Inr u, writer) \<Rightarrow> Inr (written writer))"

definition MakeGetRequestNext :: "u8 \<Rightarrow> u32 \<Rightarrow> XdlmsApdu" where
  "MakeGetRequestNext invokeIdAndPriority blockNumber = XdlmsApdu_default\<lparr>xdlmsKind := KindGetRequest,
     getRequestAny := GetRequest_default\<lparr>getRequest_choice := kNextChoice, getRequest_invokeIdAndPriority := invokeIdAndPriority,
       getRequest_blockNumber := blockNumber\<rparr>\<rparr>"

definition client_MakeGetRequestNormal :: "u8 \<Rightarrow> AttributeDescriptor \<Rightarrow> SelectiveAccess option \<Rightarrow> XdlmsStatus + XdlmsApdu" where
  "client_MakeGetRequestNormal invokeIdAndPriority descriptor selectiveAccess =
     (let request = MakeGetRequestNormal invokeIdAndPriority (attribute_classId descriptor)
            (ToApduLogicalName (attribute_instanceId descriptor)) (attribute_attributeId descriptor)
      in case selectiveAccess of
        None \<Rightarrow> Inr request
      | Some a \<Rightarrow>
          (case client_DecodeEncodedData (access_encodedParameters a) of
             Inl status \<Rightarrow> Inl status
           | Inr d \<Rightarrow>
               let access = \<lparr>selector = access_selector a, parameters = d\<rparr>; anyRequest = getRequestAny request in
               Inr (request\<lparr>getRequest := (getRequest request)\<lparr>getNormal_hasSelectiveAccess := True,
                   getNormal_selectiveAccess := access\<rparr>,
                 getRequestAny := anyRequest\<lparr>getRequest_normal := (getRequest_normal anyRequest)\<lparr>hasSelection := True,
                   selection := access\<rparr>\<rparr>\<rparr>)))"

definition MakeActionRequestNextPblock :: "u8 \<Rightarrow> u32 \<Rightarrow> XdlmsApdu" where
  "MakeActionRequestNextPblock invokeIdAndPriority blockNumber = XdlmsApdu_default\<lparr>xdlmsKind := KindActionRequest,
     actionRequestAny := ActionRequest_default\<lparr>actionRequest_choice := kNextPblockChoice,
       actionRequest_invokeIdAndPriority := invokeIdAndPriority, actionRequest_blockNumber := blockNumber\<rparr>\<rparr>"

definition MakeActionRequestBlock :: "u8 \<Rightarrow> u8 \<Rightarrow> MethodDescriptor \<Rightarrow> u32 \<Rightarrow> bool \<Rightarrow> view \<Rightarrow> XdlmsApdu" where
  "MakeActionRequestBlock choice invokeIdAndPriority descriptor blockNumber isLast raw = XdlmsApdu_default\<lparr>xdlmsKind := KindActionRequest,
     actionRequestAny := ActionRequest_default\<lparr>actionRequest_choice := choice, actionRequest_invokeIdAndPriority := invokeIdAndPriority,
       actionRequest_normal := WithParameter_default\<lparr>parameterDescriptor := ToApduMethodDescriptor descriptor\<rparr>,
       actionRequest_dataBlock := \<lparr>lastBlock = isLast, dataBlockNumber = blockNumber, rawData = raw\<rparr>\<rparr>\<rparr>"

definition MakeSetRequestBlock :: "u8 \<Rightarrow> u8 \<Rightarrow> AttributeDescriptor \<Rightarrow> u32 \<Rightarrow> bool \<Rightarrow> view \<Rightarrow> XdlmsApdu" where
  "MakeSetRequestBlock choice invokeIdAndPriority descriptor blockNumber isLast raw = XdlmsApdu_default\<lparr>xdlmsKind := KindSetRequest,
     setRequestAny := SetRequest_default\<lparr>setRequest_choice := choice, setRequest_invokeIdAndPriority := invokeIdAndPriority,
       setRequest_normal := WithSelection_default\<lparr>selectedDescriptor := ToApduDescriptor descriptor, hasSelection := False\<rparr>,
       setRequest_dataBlock := \<lparr>lastBlock = isLast, dataBlockNumber = blockNumber, rawData = raw\<rparr>\<rparr>\<rparr>"

subsection \<open>One exchange\<close>

text \<open>\<open>protect\<close> and \<open>unprotect\<close> leave the bytes alone when there is no security processor.\<close>

definition protect_with :: "'e XdlmsSecurityProcessor option \<Rightarrow> bytes \<Rightarrow> 'e \<Rightarrow> (SecurityStatus + bytes) \<times> 'e" where
  "protect_with sec bs e = (case sec of None \<Rightarrow> (Inr bs, e) | Some s \<Rightarrow> security_Protect s (pointer_view bs) e)"

definition unprotect_with :: "'e XdlmsSecurityProcessor option \<Rightarrow> bytes \<Rightarrow> 'e \<Rightarrow> (SecurityStatus + bytes) \<times> 'e" where
  "unprotect_with sec bs e = (case sec of None \<Rightarrow> (Inr bs, e) | Some s \<Rightarrow> security_Unprotect s (pointer_view bs) e)"

definition SendAndReceive ::
    "'e ApduChannel \<Rightarrow> 'e XdlmsSecurityProcessor option \<Rightarrow> XdlmsApdu \<Rightarrow> 'e XdlmsTraceContext \<Rightarrow> 'e \<Rightarrow> (XdlmsStatus + XdlmsApdu) \<times> 'e" where
  "SendAndReceive channel sec request trace e =
     (case EncodeXdlmsApdu request of
        Inl _ \<Rightarrow> (Inl EncodeFailed, EmitTrace trace TraceDecodeFailed Outbound EncodeFailed 0 0 e)
      | Inr encodedRequest \<Rightarrow>
      (case protect_with sec encodedRequest e of
        (Inl _, e1) \<Rightarrow>
          (Inl SecurityFailed, EmitTrace trace TraceSecurityFailed Outbound SecurityFailed (length encodedRequest) 0 e1)
      | (Inr outboundRequest, e1) \<Rightarrow>
          let e2 = EmitTrace trace (ctx_requestKind trace) Outbound Ok (length outboundRequest) (length encodedRequest) e1;
              (sendStatus, e3) = channel_SendApdu channel (pointer_view outboundRequest) e2
          in
          if sendStatus \<noteq> ProfileStatus.Ok then (Inl SendFailed, e3)
          else
            let ((receiveStatus, encodedResponse), e4) = channel_ReceiveApdu channel e3 in
            if receiveStatus \<noteq> ProfileStatus.Ok then (Inl ReceiveFailed, e4)
            else (case unprotect_with sec encodedResponse e4 of
              (Inl _, e5) \<Rightarrow>
                (Inl SecurityFailed, EmitTrace trace TraceSecurityFailed Inbound SecurityFailed (length encodedResponse) 0 e5)
            | (Inr inboundResponse, e5) \<Rightarrow>
                (case DecodeXdlmsApdu (pointer_view inboundResponse) of
                  Inl _ \<Rightarrow> (Inl DecodeFailed, EmitTrace trace TraceDecodeFailed Inbound DecodeFailed
                     (length encodedResponse) (length inboundResponse) e5)
                | Inr response \<Rightarrow> (Inr response, EmitTrace trace (ctx_responseKind trace) Inbound Ok
                     (length encodedResponse) (length inboundResponse) e5)))))"

definition ReceiveGetResponse ::
    "'e ApduChannel \<Rightarrow> 'e XdlmsSecurityProcessor option \<Rightarrow> XdlmsApdu \<Rightarrow> 'e XdlmsTraceContext \<Rightarrow> 'e \<Rightarrow> (XdlmsStatus + XdlmsApdu) \<times> 'e" where
  "ReceiveGetResponse channel sec request trace e =
     (case SendAndReceive channel sec request trace e of
        (Inl status, e') \<Rightarrow> (Inl status, e')
      | (Inr response, e') \<Rightarrow> (if xdlmsKind response = KindGetResponse then Inr response else Inl DecodeFailed, e'))"

definition ReceiveActionResponse ::
    "'e ApduChannel \<Rightarrow> 'e XdlmsSecurityProcessor option \<Rightarrow> XdlmsApdu \<Rightarrow> 'e XdlmsTraceContext \<Rightarrow> 'e \<Rightarrow> (XdlmsStatus + XdlmsApdu) \<times> 'e" where
  "ReceiveActionResponse channel sec request trace e =
     (case SendAndReceive channel sec request trace e of
        (Inl status, e') \<Rightarrow> (Inl status, e')
      | (Inr response, e') \<Rightarrow> (if xdlmsKind response = KindActionResponse then Inr response else Inl DecodeFailed, e'))"

subsection \<open>Reassembly\<close>

record BlockTransferManager =
  maxBytes :: nat
  nextBlockNumber :: u32
  blockData :: bytes

definition BlockTransferManager_init :: "nat \<Rightarrow> BlockTransferManager" where
  "BlockTransferManager_init n = \<lparr>maxBytes = n, nextBlockNumber = 1, blockData = []\<rparr>"

definition AppendBlock :: "DataBlockG \<Rightarrow> BlockTransferManager \<Rightarrow> XdlmsStatus + BlockTransferManager" where
  "AppendBlock block m =
     (if dataBlockNumber block \<noteq> nextBlockNumber m then Inl DecodeFailed
      else if view_size (rawData block) > maxBytes m \<or> length (blockData m) > maxBytes m - view_size (rawData block)
        then Inl DecodeFailed
      else if bad_view (rawData block) then Inl DecodeFailed
      else Inr (m\<lparr>blockData := blockData m @ view_bytes (rawData block), nextBlockNumber := nextBlockNumber m + 1\<rparr>))"

subsection \<open>The object\<close>

record 'e XdlmsClient =
  client_channel :: "'e ApduChannel"
  client_association :: "'e XdlmsAssociationState"
  client_security :: "'e XdlmsSecurityProcessor option"
  client_invokeIds :: u8
  client_traceSink :: "'e trace_sink"

definition XdlmsClient_init ::
    "'e ApduChannel \<Rightarrow> 'e XdlmsAssociationState \<Rightarrow> 'e XdlmsSecurityProcessor option \<Rightarrow> 'e XdlmsClient" where
  "XdlmsClient_init channel association sec =
     \<lparr>client_channel = channel, client_association = association, client_security = sec,
      client_invokeIds = InvokeIdAllocator_init, client_traceSink = None\<rparr>"

definition XdlmsClient_SetTraceSink :: "'e trace_sink \<Rightarrow> 'e XdlmsClient \<Rightarrow> 'e XdlmsClient" where
  "XdlmsClient_SetTraceSink sink c = c\<lparr>client_traceSink := sink\<rparr>"

text \<open>The start of every service: an invoke identifier, the trace context, and the correlation of the channel.\<close>

definition begin_service ::
    "XdlmsTraceKind \<Rightarrow> XdlmsTraceKind \<Rightarrow> ServiceOptions \<Rightarrow> ('e XdlmsTraceContext \<Rightarrow> 'e XdlmsTraceContext) \<Rightarrow> 'e XdlmsClient \<Rightarrow> 'e
      \<Rightarrow> u8 \<times> u8 \<times> 'e XdlmsTraceContext \<times> 'e XdlmsClient \<times> 'e" where
  "begin_service requestKind responseKind options describe c e =
     (let (invokeId, following) = InvokeIdAllocator_Next (client_invokeIds c);
          conversationId = MakeConversationId (association_ConversationSeed (client_association c) e) invokeId
      in (invokeId, MakeInvokeIdAndPriority invokeId options,
          describe (MakeTraceContext (client_traceSink c) conversationId requestKind responseKind invokeId options),
          c\<lparr>client_invokeIds := following\<rparr>, channel_SetCorrelation (client_channel c) conversationId e))"

subsection \<open>GET\<close>

definition get_block_step ::
    "'e XdlmsClient \<Rightarrow> 'e XdlmsTraceContext \<Rightarrow> u8 \<Rightarrow> u8 \<Rightarrow> GetResponse \<times> BlockTransferManager \<times> 'e
      \<Rightarrow> ((XdlmsStatus \<times> GetResult) \<times> 'e) + (GetResponse \<times> BlockTransferManager \<times> 'e)" where
  "get_block_step c trace invokeId invokeIdAndPriority = (\<lambda>(response, blocks, e).
     let block = getResponse_dataBlock response in
     if getResponse_invokeIdAndPriority response AND 0x0f \<noteq> invokeId
       then Inl ((InvokeIdMismatch, EmptyGetResult), invoke_rejected trace e)
     else case AppendBlock block blocks of
       Inl status \<Rightarrow> Inl ((status, EmptyGetResult), e)
     | Inr blocks' \<Rightarrow>
         let e1 = EmitTrace (at_block (dataBlockNumber block) trace) BlockTransferStep Inbound Ok 0 (view_size (rawData block)) e in
         if lastBlock block then
           Inl ((Ok, EmptyGetResult\<lparr>get_invokeId := invokeId, get_data := blockData blocks', get_hasData := True\<rparr>), e1)
         else (case ReceiveGetResponse (client_channel c) (client_security c)
               (MakeGetRequestNext invokeIdAndPriority (dataBlockNumber block)) trace e1 of
             (Inl status, e2) \<Rightarrow> Inl ((status, EmptyGetResult), e2)
           | (Inr response', e2) \<Rightarrow>
               if getResponse_choice (getResponseAny response') \<noteq> kNextChoice then Inl ((DecodeFailed, EmptyGetResult), e2)
               else Inr (getResponseAny response', blocks', e2)))"

definition finish_get :: "'e XdlmsTraceContext \<Rightarrow> u8 \<Rightarrow> GetResponseNormal \<Rightarrow> 'e \<Rightarrow> (XdlmsStatus \<times> GetResult) \<times> 'e" where
  "finish_get trace invokeId response e =
     (let result = EmptyGetResult\<lparr>get_invokeId := invokeId\<rparr> in
      if getResponseNormal_invokeIdAndPriority response AND 0x0f \<noteq> invokeId
        then ((InvokeIdMismatch, EmptyGetResult), invoke_rejected trace e)
      else if getResponseNormal_resultChoice response = 1 then
        ((ServiceRejected, result\<lparr>get_hasAccessResult := True, get_accessResult := getResponseNormal_dataAccessError response\<rparr>), e)
      else case CopyEncodedData (getResponseNormal_data response) of
        Inl status \<Rightarrow> ((status, result), e)
      | Inr encoded \<Rightarrow> ((Ok, result\<lparr>get_data := encoded, get_hasData := True\<rparr>), e))"

definition receive_get ::
    "'e XdlmsClient \<Rightarrow> 'e XdlmsTraceContext \<Rightarrow> u8 \<Rightarrow> u8 \<Rightarrow> ServiceOptions \<Rightarrow> XdlmsApdu \<Rightarrow> 'e \<Rightarrow> ((XdlmsStatus \<times> GetResult) \<times> 'e) option" where
  "receive_get c trace invokeId invokeIdAndPriority options request e =
     (case ReceiveGetResponse (client_channel c) (client_security c) request trace e of
        (Inl status, e1) \<Rightarrow> Some ((status, EmptyGetResult), e1)
      | (Inr response, e1) \<Rightarrow>
          let anyResponse = getResponseAny response in
          if getResponse_choice anyResponse = kNormalChoice then Some (finish_get trace invokeId (getResponse response) e1)
          else if getResponse_choice anyResponse \<noteq> kNextChoice then Some ((UnsupportedFeature, EmptyGetResult), e1)
          else if \<not> allowBlockTransfer options then Some ((BlockTransferRequired, EmptyGetResult), e1)
          else loop_until (get_block_step c trace invokeId invokeIdAndPriority)
                 (anyResponse, BlockTransferManager_init (maxBlockTransferBytes options), e1))"

fun XdlmsClient_Get ::
    "AttributeDescriptor \<Rightarrow> SelectiveAccess option \<Rightarrow> ServiceOptions \<Rightarrow> 'e XdlmsClient \<times> 'e
      \<Rightarrow> ((XdlmsStatus \<times> GetResult) \<times> 'e XdlmsClient \<times> 'e) option" where
  "XdlmsClient_Get descriptor selectiveAccess options (c, e) =
     (let descriptorStatus = ValidateDescriptor descriptor;
          accessStatus = (case selectiveAccess of None \<Rightarrow> Ok | Some a \<Rightarrow> ValidateSelectiveAccess a)
      in
      if descriptorStatus \<noteq> Ok then Some ((descriptorStatus, EmptyGetResult), c, e)
      else if accessStatus \<noteq> Ok then Some ((accessStatus, EmptyGetResult), c, e)
      else if \<not> association_IsAssociated (client_association c) e then Some ((NotAssociated, EmptyGetResult), c, e)
      else
        let (invokeId, invokeIdAndPriority, trace, c', e1) =
              begin_service TraceGetRequest TraceGetResponse options (FillDescriptor descriptor) c e
        in
        (case client_MakeGetRequestNormal invokeIdAndPriority descriptor selectiveAccess of
          Inl status \<Rightarrow> Some ((status, EmptyGetResult), c', e1)
        | Inr request \<Rightarrow>
            map_option (\<lambda>(r, e2). (r, c', e2)) (receive_get c trace invokeId invokeIdAndPriority options request e1)))"

subsection \<open>SET\<close>

definition ValidateSetBlockResponse :: "XdlmsApdu \<Rightarrow> u8 \<Rightarrow> u32 \<Rightarrow> bool \<Rightarrow> XdlmsStatus \<times> SetResult" where
  "ValidateSetBlockResponse response invokeId expectedBlockNumber finalBlock =
     (let r = setResponseAny response in
      if xdlmsKind response \<noteq> KindSetResponse then (DecodeFailed, EmptySetResult)
      else if setResponse_invokeIdAndPriority r AND 0x0f \<noteq> invokeId then (InvokeIdMismatch, EmptySetResult)
      else if setResponse_blockNumber r \<noteq> expectedBlockNumber then (DecodeFailed, EmptySetResult)
      else if \<not> finalBlock then (if setResponse_choice r = 2 then Ok else DecodeFailed, EmptySetResult)
      else if setResponse_choice r \<noteq> 3 then (DecodeFailed, EmptySetResult)
      else (if setResponse_result r = 0 then Ok else ServiceRejected,
            \<lparr>set_invokeId = invokeId, set_accessResult = setResponse_result r\<rparr>))"

definition set_block_step ::
    "'e XdlmsClient \<Rightarrow> 'e XdlmsTraceContext \<Rightarrow> u8 \<Rightarrow> u8 \<Rightarrow> ServiceOptions \<Rightarrow> AttributeDescriptor \<Rightarrow> bytes \<Rightarrow> nat \<times> u32 \<times> 'e
      \<Rightarrow> ((XdlmsStatus \<times> SetResult) \<times> 'e) + (nat \<times> u32 \<times> 'e)" where
  "set_block_step c trace invokeId invokeIdAndPriority options descriptor encodedData = (\<lambda>(offset, blockNumber, e).
     if length encodedData \<le> offset then Inl ((InternalError, EmptySetResult), e)
     else
       let remaining = length encodedData - offset;
           blockSize = (if remaining < maxSetBlockPayloadBytes options then remaining else maxSetBlockPayloadBytes options);
           finalBlock = (offset + blockSize = length encodedData);
           choice = (if blockNumber = 1 then kWithFirstDataBlockChoice else kWithDataBlockChoice);
           request = MakeSetRequestBlock choice invokeIdAndPriority descriptor blockNumber finalBlock
             (View (take blockSize (drop offset encodedData)));
           blockTrace = at_block blockNumber trace
       in
       case SendAndReceive (client_channel c) (client_security c) request blockTrace e of
         (Inl status, e1) \<Rightarrow> Inl ((status, EmptySetResult), e1)
       | (Inr response, e1) \<Rightarrow>
           let e2 = EmitTrace blockTrace BlockTransferStep Outbound Ok 0 blockSize e1;
               (status, result) = ValidateSetBlockResponse response invokeId blockNumber finalBlock;
               e3 = (if status = InvokeIdMismatch then invoke_rejected trace e2 else e2)
           in
           if status \<noteq> Ok then Inl ((status, result), e3)
           else if finalBlock then Inl ((Ok, result), e3)
           else Inr (offset + blockSize, blockNumber + 1, e3))"

definition set_request_apdu :: "u8 \<Rightarrow> AttributeDescriptor \<Rightarrow> DlmsData \<Rightarrow> XdlmsApdu" where
  "set_request_apdu invokeIdAndPriority descriptor d = XdlmsApdu_default\<lparr>xdlmsKind := KindSetRequest,
     setRequestAny := SetRequest_default\<lparr>setRequest_choice := kNormalChoice, setRequest_invokeIdAndPriority := invokeIdAndPriority,
       setRequest_normal := WithSelection_default\<lparr>selectedDescriptor := ToApduDescriptor descriptor, hasSelection := False\<rparr>,
       setRequest_data := d\<rparr>\<rparr>"

definition finish_normal_set :: "'e XdlmsTraceContext \<Rightarrow> u8 \<Rightarrow> XdlmsApdu \<Rightarrow> 'e \<Rightarrow> (XdlmsStatus \<times> SetResult) \<times> 'e" where
  "finish_normal_set trace invokeId response e =
     (let r = setResponseAny response in
      if xdlmsKind response \<noteq> KindSetResponse then ((DecodeFailed, EmptySetResult), e)
      else if setResponse_choice r \<noteq> kNormalChoice then
        ((if setResponse_choice r = 2 \<or> setResponse_choice r = 3 then BlockTransferRequired else UnsupportedFeature, EmptySetResult), e)
      else if setResponse_invokeIdAndPriority r AND 0x0f \<noteq> invokeId
        then ((InvokeIdMismatch, EmptySetResult), invoke_rejected trace e)
      else ((if setResponse_result r = 0 then Ok else ServiceRejected,
             \<lparr>set_invokeId = invokeId, set_accessResult = setResponse_result r\<rparr>), e))"

fun XdlmsClient_Set ::
    "AttributeDescriptor \<Rightarrow> bytes \<Rightarrow> ServiceOptions \<Rightarrow> 'e XdlmsClient \<times> 'e \<Rightarrow> ((XdlmsStatus \<times> SetResult) \<times> 'e XdlmsClient \<times> 'e) option" where
  "XdlmsClient_Set descriptor encodedData options (c, e) =
     (let descriptorStatus = ValidateDescriptor descriptor;
          begin = begin_service TraceSetRequest TraceSetResponse options (FillDescriptor descriptor) c e
      in
      if descriptorStatus \<noteq> Ok then Some ((descriptorStatus, EmptySetResult), c, e)
      else if length encodedData \<le> maxSetBlockPayloadBytes options then
        (case client_DecodeEncodedData encodedData of
          Inl status \<Rightarrow> Some ((status, EmptySetResult), c, e)
        | Inr d \<Rightarrow>
            if \<not> association_IsAssociated (client_association c) e then Some ((NotAssociated, EmptySetResult), c, e)
            else
              let (invokeId, invokeIdAndPriority, trace, c', e1) = begin in
              (case SendAndReceive (client_channel c) (client_security c) (set_request_apdu invokeIdAndPriority descriptor d) trace e1 of
                (Inl status, e2) \<Rightarrow> Some ((status, EmptySetResult), c', e2)
              | (Inr response, e2) \<Rightarrow> let (r, e3) = finish_normal_set trace invokeId response e2 in Some (r, c', e3)))
      else if encodedData = [] \<or> maxSetBlockPayloadBytes options = 0 then Some ((InvalidArgument, EmptySetResult), c, e)
      else if \<not> allowBlockTransfer options then Some ((BlockTransferRequired, EmptySetResult), c, e)
      else if \<not> association_IsAssociated (client_association c) e then Some ((NotAssociated, EmptySetResult), c, e)
      else
        let (invokeId, invokeIdAndPriority, trace, c', e1) = begin in
        map_option (\<lambda>(r, e2). (r, c', e2))
          (loop_until (set_block_step c trace invokeId invokeIdAndPriority options descriptor encodedData) (0, 1, e1)))"

subsection \<open>ACTION\<close>

definition ValidateActionNextPblockResponse :: "XdlmsApdu \<Rightarrow> u8 \<Rightarrow> u32 \<Rightarrow> XdlmsStatus" where
  "ValidateActionNextPblockResponse response invokeId expectedBlockNumber =
     (let r = actionResponseAny response in
      if xdlmsKind response \<noteq> KindActionResponse then DecodeFailed
      else if actionResponse_invokeIdAndPriority r AND 0x0f \<noteq> invokeId then InvokeIdMismatch
      else if actionResponse_choice r \<noteq> 4 then DecodeFailed
      else if actionResponse_blockNumber r = expectedBlockNumber then Ok else DecodeFailed)"

definition CopyActionResponse :: "ActionResponse \<Rightarrow> u8 \<Rightarrow> XdlmsStatus \<times> ActionResult" where
  "CopyActionResponse response invokeId =
     (let item = actionResponse_normal response;
          result = EmptyActionResult\<lparr>action_invokeId := invokeId, action_actionResult := item_result item\<rparr>;
          status = (if item_result item = 0 then Ok else ServiceRejected)
      in
      if actionResponse_invokeIdAndPriority response AND 0x0f \<noteq> invokeId then (InvokeIdMismatch, EmptyActionResult)
      else if \<not> item_hasReturnParameter item then (status, result)
      else case CopyEncodedData (item_returnParameter item) of
        Inl failed \<Rightarrow> (failed, result)
      | Inr encoded \<Rightarrow> (status, result\<lparr>action_data := encoded, action_hasData := True\<rparr>))"

definition DecodeActionBlockPayload :: "u8 \<Rightarrow> bytes \<Rightarrow> XdlmsStatus + XdlmsApdu" where
  "DecodeActionBlockPayload invokeIdAndPriority payload =
     reported DecodeFailed (DecodeXdlmsApdu (View ([0xc7, 0x01, invokeIdAndPriority] @ payload)))"

definition action_block_step ::
    "'e XdlmsClient \<Rightarrow> 'e XdlmsTraceContext \<Rightarrow> u8 \<Rightarrow> u8 \<Rightarrow> ActionResponse \<times> BlockTransferManager \<times> 'e
      \<Rightarrow> ((XdlmsStatus \<times> ActionResult) \<times> 'e) + (ActionResponse \<times> BlockTransferManager \<times> 'e)" where
  "action_block_step c trace invokeId invokeIdAndPriority = (\<lambda>(response, blocks, e).
     let block = actionResponse_dataBlock response in
     if actionResponse_invokeIdAndPriority response AND 0x0f \<noteq> invokeId
       then Inl ((InvokeIdMismatch, EmptyActionResult), invoke_rejected trace e)
     else case AppendBlock block blocks of
       Inl status \<Rightarrow> Inl ((status, EmptyActionResult), e)
     | Inr blocks' \<Rightarrow>
         let e1 = EmitTrace (at_block (dataBlockNumber block) trace) BlockTransferStep Inbound Ok 0 (view_size (rawData block)) e in
         if lastBlock block then
           (case DecodeActionBlockPayload invokeIdAndPriority (blockData blocks') of
             Inl status \<Rightarrow> Inl ((status, EmptyActionResult), e1)
           | Inr response \<Rightarrow> Inl (CopyActionResponse (actionResponseAny response) invokeId, e1))
         else (case ReceiveActionResponse (client_channel c) (client_security c)
               (MakeActionRequestNextPblock invokeIdAndPriority (dataBlockNumber block)) trace e1 of
             (Inl status, e2) \<Rightarrow> Inl ((status, EmptyActionResult), e2)
           | (Inr response', e2) \<Rightarrow>
               if actionResponse_choice (actionResponseAny response') \<noteq> 2 then Inl ((DecodeFailed, EmptyActionResult), e2)
               else Inr (actionResponseAny response', blocks', e2)))"

definition CopyFinalActionResponse ::
    "'e XdlmsClient \<Rightarrow> 'e XdlmsTraceContext \<Rightarrow> u8 \<Rightarrow> u8 \<Rightarrow> ServiceOptions \<Rightarrow> ActionResponse \<Rightarrow> 'e
      \<Rightarrow> ((XdlmsStatus \<times> ActionResult) \<times> 'e) option" where
  "CopyFinalActionResponse c trace invokeId invokeIdAndPriority options response e =
     (if actionResponse_choice response = kNormalChoice then Some (CopyActionResponse response invokeId, e)
      else if actionResponse_choice response \<noteq> 2 then Some ((UnsupportedFeature, EmptyActionResult), e)
      else if \<not> allowBlockTransfer options then Some ((BlockTransferRequired, EmptyActionResult), e)
      else loop_until (action_block_step c trace invokeId invokeIdAndPriority)
             (response, BlockTransferManager_init (maxBlockTransferBytes options), e))"

text \<open>The loop that sends the parameter ends with the response to the last block.\<close>

definition action_send_step ::
    "'e XdlmsClient \<Rightarrow> 'e XdlmsTraceContext \<Rightarrow> u8 \<Rightarrow> u8 \<Rightarrow> ServiceOptions \<Rightarrow> MethodDescriptor \<Rightarrow> bytes \<Rightarrow> nat \<times> u32 \<times> 'e
      \<Rightarrow> ((XdlmsStatus + ActionResponse) \<times> 'e) + (nat \<times> u32 \<times> 'e)" where
  "action_send_step c trace invokeId invokeIdAndPriority options descriptor encodedParameter = (\<lambda>(offset, blockNumber, e).
     let remaining = length encodedParameter - offset;
         blockSize = (if remaining < maxActionBlockPayloadBytes options then remaining else maxActionBlockPayloadBytes options);
         finalBlock = (offset + blockSize = length encodedParameter);
         choice = (if blockNumber = 1 then kWithFirstPblockChoice else kWithPblockChoice);
         requestBlock = MakeActionRequestBlock choice invokeIdAndPriority descriptor blockNumber finalBlock
           (View (take blockSize (drop offset encodedParameter)));
         blockTrace = at_block blockNumber trace
     in
     case ReceiveActionResponse (client_channel c) (client_security c) requestBlock blockTrace e of
       (Inl status, e1) \<Rightarrow> Inl (Inl status, e1)
     | (Inr response, e1) \<Rightarrow>
         let e2 = EmitTrace blockTrace BlockTransferStep Outbound Ok 0 blockSize e1;
             status = ValidateActionNextPblockResponse response invokeId blockNumber;
             e3 = (if status = InvokeIdMismatch then invoke_rejected trace e2 else e2)
         in
         if finalBlock then Inl (Inr (actionResponseAny response), e2)
         else if status \<noteq> Ok then Inl (Inl status, e3)
         else Inr (offset + blockSize, blockNumber + 1, e3))"

definition action_request_apdu :: "u8 \<Rightarrow> MethodDescriptor \<Rightarrow> bool \<Rightarrow> DlmsData \<Rightarrow> XdlmsApdu" where
  "action_request_apdu invokeIdAndPriority descriptor hasParameter d = XdlmsApdu_default\<lparr>xdlmsKind := KindActionRequest,
     actionRequestAny := ActionRequest_default\<lparr>actionRequest_choice := kNormalChoice,
       actionRequest_invokeIdAndPriority := invokeIdAndPriority,
       actionRequest_normal := \<lparr>parameterDescriptor = ToApduMethodDescriptor descriptor, hasInvocationParameter = hasParameter,
         invocationParameter = d\<rparr>\<rparr>\<rparr>"

definition run_action ::
    "'e XdlmsClient \<Rightarrow> 'e XdlmsTraceContext \<Rightarrow> u8 \<Rightarrow> u8 \<Rightarrow> ServiceOptions \<Rightarrow> MethodDescriptor \<Rightarrow> bool \<Rightarrow> bytes \<Rightarrow> bool \<Rightarrow> DlmsData \<Rightarrow> 'e
      \<Rightarrow> ((XdlmsStatus \<times> ActionResult) \<times> 'e) option" where
  "run_action c trace invokeId invokeIdAndPriority options descriptor hasParameter encodedParameter useBlocks d e =
     (let sent = (if useBlocks
            then loop_until (action_send_step c trace invokeId invokeIdAndPriority options descriptor encodedParameter) (0, 1, e)
            else Some (case ReceiveActionResponse (client_channel c) (client_security c)
                (action_request_apdu invokeIdAndPriority descriptor hasParameter d) trace e of
              (Inl status, e1) \<Rightarrow> (Inl status, e1)
            | (Inr response, e1) \<Rightarrow> (Inr (actionResponseAny response), e1)))
      in case sent of
        None \<Rightarrow> None
      | Some (Inl status, e1) \<Rightarrow> Some ((status, EmptyActionResult), e1)
      | Some (Inr response, e1) \<Rightarrow> CopyFinalActionResponse c trace invokeId invokeIdAndPriority options response e1)"

fun XdlmsClient_Action ::
    "MethodDescriptor \<Rightarrow> bool \<Rightarrow> bytes \<Rightarrow> ServiceOptions \<Rightarrow> 'e XdlmsClient \<times> 'e
      \<Rightarrow> ((XdlmsStatus \<times> ActionResult) \<times> 'e XdlmsClient \<times> 'e) option" where
  "XdlmsClient_Action descriptor hasParameter encodedParameter options (c, e) =
     (let descriptorStatus = ValidateMethodDescriptor descriptor;
          useBlocks = (hasParameter \<and> length encodedParameter > maxActionBlockPayloadBytes options);
          parameter = (if hasParameter \<and> \<not> useBlocks then client_DecodeEncodedData encodedParameter else Inr DlmsData_default)
      in
      if descriptorStatus \<noteq> Ok then Some ((descriptorStatus, EmptyActionResult), c, e)
      else (case parameter of
        Inl status \<Rightarrow> Some ((status, EmptyActionResult), c, e)
      | Inr d \<Rightarrow>
          if useBlocks \<and> maxActionBlockPayloadBytes options = 0 then Some ((InvalidArgument, EmptyActionResult), c, e)
          else if useBlocks \<and> \<not> allowBlockTransfer options then Some ((BlockTransferRequired, EmptyActionResult), c, e)
          else if \<not> association_IsAssociated (client_association c) e then Some ((NotAssociated, EmptyActionResult), c, e)
          else
            let (invokeId, invokeIdAndPriority, trace, c', e1) =
                  begin_service TraceActionRequest TraceActionResponse options (FillMethodDescriptor descriptor) c e
            in
            map_option (\<lambda>(r, e2). (r, c', e2))
              (run_action c trace invokeId invokeIdAndPriority options descriptor hasParameter encodedParameter useBlocks d e1)))"

declare XdlmsClient_Get.simps [simp del] XdlmsClient_Set.simps [simp del] XdlmsClient_Action.simps [simp del]

end
