(* ===== verification/Xdlms_Exchange.thy ===== *)
theory Xdlms_Exchange
  imports Xdlms_Laws Xdlms_Client
begin

text \<open>
  Client and server together. A channel delivers to a processor when what is sent is processed and
  the answer is what is received next. Over such a channel the services of the client end, and their
  results are those of the server's dispatcher: the block transfers of both sides fit together.
\<close>

subsection \<open>One exchange\<close>

text \<open>
  \<open>server e\<close> is the processor at the other end of the channel, with its world. Requests that the
  processor refuses need not be answered, nor requests that are larger than the encoder's buffer. The condition
  holds again after each exchange: \<open>good\<close> is an invariant of the channel.
\<close>

definition exchanges :: "'e ApduChannel \<Rightarrow> ('e \<Rightarrow> 'w XdlmsServerApduProcessor \<times> 'w) \<Rightarrow> ('e \<Rightarrow> bool) \<Rightarrow> bool" where
  "exchanges channel server good \<longleftrightarrow>
     (\<forall>bs e answer s. good e \<longrightarrow> bs \<noteq> [] \<longrightarrow> length bs \<le> 2048 \<longrightarrow> ProcessRequest bs (server e) = (Inr answer, s) \<longrightarrow>
        (\<exists>e1 e2. channel_SendApdu channel (View bs) e = (ProfileStatus.Ok, e1)
           \<and> channel_ReceiveApdu channel e1 = ((ProfileStatus.Ok, answer), e2) \<and> server e2 = s \<and> good e2))
     \<and> (\<forall>cid e. good e \<longrightarrow> server (channel_SetCorrelation channel cid e) = server e \<and> good (channel_SetCorrelation channel cid e))"

definition delivers :: "'e ApduChannel \<Rightarrow> ('e \<Rightarrow> 'w XdlmsServerApduProcessor \<times> 'w) \<Rightarrow> 'e \<Rightarrow> bool" where
  "delivers channel server e \<longleftrightarrow> (\<exists>good. good e \<and> exchanges channel server good)"

lemma delivers_exchange:
  assumes "delivers channel server e" "bs \<noteq> []" "length bs \<le> 2048" "ProcessRequest bs (server e) = (Inr answer, s)"
  shows "\<exists>e1 e2. channel_SendApdu channel (View bs) e = (ProfileStatus.Ok, e1)
     \<and> channel_ReceiveApdu channel e1 = ((ProfileStatus.Ok, answer), e2) \<and> server e2 = s \<and> delivers channel server e2"
proof -
  from assms(1) obtain good where g: "good e" and x: "exchanges channel server good" by (auto simp: delivers_def)
  have "\<exists>e1 e2. channel_SendApdu channel (View bs) e = (ProfileStatus.Ok, e1)
     \<and> channel_ReceiveApdu channel e1 = ((ProfileStatus.Ok, answer), e2) \<and> server e2 = s \<and> good e2"
    by (rule x [unfolded exchanges_def, THEN conjunct1, rule_format, OF g assms(2-4)])
  with x show ?thesis unfolding delivers_def by blast
qed

lemma delivers_correlated:
  "delivers channel server e \<Longrightarrow> server (channel_SetCorrelation channel cid e) = server e
     \<and> delivers channel server (channel_SetCorrelation channel cid e)"
proof -
  assume "delivers channel server e"
  then obtain good where g: "good e" and x: "exchanges channel server good" by (auto simp: delivers_def)
  from x [unfolded exchanges_def, THEN conjunct2, rule_format, OF g, of cid] x show ?thesis unfolding delivers_def by blast
qed

lemma untraced_client [simp]: "ctx_sink trace = None \<Longrightarrow> EmitTrace trace k dir st n m e = e"
  by (simp add: EmitTrace_def)

lemma at_block_sink [simp]: "ctx_sink (at_block n trace) = ctx_sink trace"
  by (simp add: at_block_def)

lemma reported_Inr: "reported status x = Inr a \<longleftrightarrow> x = Inr a"
  by (auto simp: reported_def split: sum.splits)

lemma SendAndReceive_delivered:
  assumes "delivers channel server e" "ctx_sink trace = None"
    and "reported EncodeFailed (EncodeXdlmsApdu request) = Inr (message_bytes m)"
    and "ProcessRequest (message_bytes m) (server e) = (Inr (message_bytes r), s)" "message_wf r"
    and "length (message_bytes m) \<le> 2048"
  obtains e' where "SendAndReceive channel None request trace e = (Inr (apdu_of r), e')" "server e' = s" "delivers channel server e'"
proof -
  obtain e1 e2 where "channel_SendApdu channel (View (message_bytes m)) e = (ProfileStatus.Ok, e1)"
    "channel_ReceiveApdu channel e1 = ((ProfileStatus.Ok, message_bytes r), e2)" "server e2 = s" "delivers channel server e2"
    using delivers_exchange [OF assms(1) message_nonempty assms(6,4)] by blast
  then show thesis
    using assms(2,3,5) that [of e2]
    by (simp add: SendAndReceive_def protect_with_def unprotect_with_def Let_def reported_Inr DecodeXdlmsApdu_message del: apdu_of.simps)
qed

subsection \<open>Requests\<close>

definition get_request_message :: "u8 \<Rightarrow> AttributeDescriptor \<Rightarrow> GetRequest" where
  "get_request_message i d = GetRequest_default\<lparr>getRequest_choice := kNormalChoice, getRequest_invokeIdAndPriority := i,
     getRequest_normal := WithSelection_default\<lparr>selectedDescriptor := ToApduDescriptor d, hasSelection := False\<rparr>\<rparr>"

definition get_next_message :: "u8 \<Rightarrow> u32 \<Rightarrow> GetRequest" where
  "get_next_message i n = GetRequest_default\<lparr>getRequest_choice := kNextChoice, getRequest_invokeIdAndPriority := i,
     getRequest_blockNumber := n\<rparr>"

lemma request_wf [simp]: "get_request_wf 8 (get_request_message i d)" "get_request_wf 8 (get_next_message i n)"
  by (simp_all add: get_request_wf_def get_request_message_def get_next_message_def GetRequest_default_def get_consts
      selected_wf_def WithSelection_default_def selection_wf_def attribute_wf_def ToApduDescriptor_def)

lemma request_lengths:
  "length (message_bytes (GetRequestM (get_request_message i d))) = 13"
  "length (message_bytes (GetRequestM (get_next_message i n))) = 7"
  by (simp_all add: get_request_bytes_def get_request_message_def get_next_message_def get_consts selected_bytes_def selection_bytes_def
      attribute_bytes_def ToApduDescriptor_def WithSelection_default_def)

lemma request_small:
  "length (message_bytes (GetRequestM (get_request_message i d))) \<le> 2048"
  "length (message_bytes (GetRequestM (get_next_message i n))) \<le> 2048"
  by (simp_all only: request_lengths)

lemma sent_message_fits: "length (message_bytes m) \<le> 2048 \<Longrightarrow> sent_message m = Inr (message_bytes m)"
  by (simp add: sent_message_def)

lemma request_sent:
  "client_MakeGetRequestNormal i d None = Inr q \<Longrightarrow>
     reported EncodeFailed (EncodeXdlmsApdu q) = Inr (message_bytes (GetRequestM (get_request_message i d)))"
  "reported EncodeFailed (EncodeXdlmsApdu (MakeGetRequestNext i n)) = Inr (message_bytes (GetRequestM (get_next_message i n)))"
proof -
  have sent: "reported EncodeFailed (EncodeXdlmsApdu a) = Inr (message_bytes (GetRequestM m))"
    if "xdlmsKind a = KindGetRequest" "getRequestAny a = m" "get_request_wf 8 m" "length (message_bytes (GetRequestM m)) \<le> 2048" for a m
    using that by (simp add: sent_structures sent_message_fits)
  show "reported EncodeFailed (EncodeXdlmsApdu q) = Inr (message_bytes (GetRequestM (get_request_message i d)))"
    if "client_MakeGetRequestNormal i d None = Inr q"
    using that request_wf request_lengths
    by (intro sent) (auto simp: client_MakeGetRequestNormal_def MakeGetRequestNormal_def Let_def get_request_message_def
        ToApduDescriptor_def ToApduLogicalName_def)
  show "reported EncodeFailed (EncodeXdlmsApdu (MakeGetRequestNext i n)) = Inr (message_bytes (GetRequestM (get_next_message i n)))"
    using request_wf request_lengths by (intro sent) (auto simp: MakeGetRequestNext_def get_next_message_def)
qed

subsection \<open>GET in blocks\<close>

text \<open>The state of the server and of the client after \<open>k\<close> blocks of \<open>n\<close> bytes.\<close>

definition get_transfer :: "u8 \<Rightarrow> ServiceOptions \<Rightarrow> bytes \<Rightarrow> nat \<Rightarrow> GetResponseBlockState" where
  "get_transfer i options bs k = \<lparr>gb_active = True, gb_invokeId = i, gb_options = options, gb_nextBlockNumber = of_nat k + 1,
     gb_offset = k * maxGetBlockPayloadBytes options, gb_data = bs\<rparr>"

definition collected :: "nat \<Rightarrow> nat \<Rightarrow> bytes \<Rightarrow> nat \<Rightarrow> BlockTransferManager" where
  "collected limit n bs k = \<lparr>maxBytes = limit, nextBlockNumber = of_nat k + 1, blockData = take (k * n) bs\<rparr>"

definition block_message :: "u8 \<Rightarrow> nat \<Rightarrow> bytes \<Rightarrow> nat \<Rightarrow> GetResponse" where
  "block_message i n bs k = get_block_message i (length bs \<le> Suc k * n) (of_nat k + 1) (take n (drop (k * n) bs))"

lemma encoded_size_small: "n \<le> 2037 \<Longrightarrow> AxdrLengthEncodedSize n \<le> 3"
  using octet_count_le [of n 2] by (auto simp: AxdrLengthEncodedSize_def)

lemma block_message_fits:
  assumes "n \<le> 2037"
  shows "message_wf (GetResponseM (block_message i n bs k))" "length (message_bytes (GetResponseM (block_message i n bs k))) \<le> 2048"
proof -
  let ?raw = "take n (drop (k * n) bs)"
  have "length ?raw \<le> 2037" using assms by simp
  moreover from this have "AxdrLengthEncodedSize (length ?raw) \<le> 3" by (rule encoded_size_small)
  ultimately show "length (message_bytes (GetResponseM (block_message i n bs k))) \<le> 2048"
    by (simp add: block_message_def get_block_message_def get_response_bytes_def get_consts block_bytes_def raw_bytes_def
        octet_string_bytes_def length_length_bytes del: length_take length_drop)
  show "message_wf (GetResponseM (block_message i n bs k))"
    using assms by (simp add: block_message_def size_t_modulus_def)
qed

lemma SendNextGetResponseBlock_transfer:
  assumes "n = maxGetBlockPayloadBytes options" "0 < n" "n \<le> 2037" "k * n < length bs"
  shows "SendNextGetResponseBlock (get_transfer i options bs k) =
    (Inr (message_bytes (GetResponseM (block_message (MakeInvokeIdAndPriority i options) n bs k))),
     if length bs \<le> Suc k * n then EmptyGetResponseBlockState else get_transfer i options bs (Suc k))"
proof -
  have "n < size_t_modulus" using assms(3) by (simp add: size_t_modulus_def)
  then show ?thesis
    using assms sent_message_fits [OF block_message_fits(2) [OF assms(3), of "MakeInvokeIdAndPriority i options" bs k]]
    by (subst SendNextGetResponseBlock_active [of _ n "length bs \<le> Suc k * n"])
      (auto simp: get_transfer_def block_message_def algebra_simps)
qed

lemma AppendBlock_collected:
  assumes "k * n < length bs" "length bs \<le> limit"
  shows "AppendBlock (getResponse_dataBlock (block_message i n bs k)) (collected limit n bs k) = Inr (collected limit n bs (Suc k))"
proof -
  have "take (Suc k * n) bs = take (k * n) bs @ take n (drop (k * n) bs)"
    by (simp add: take_add add.commute [of n])
  then show ?thesis using assms
    by (auto simp: AppendBlock_def block_message_def get_block_message_def collected_def bad_view_def)
qed


text \<open>The server's part of one step: the request for the block after the first \<open>k\<close> ones.\<close>

lemma ProcessRequest_next_block:
  assumes "quiet p" "getBlocks p = get_transfer (i AND 0x0f) options bs k" "k * n < length bs"
    and n: "n = maxGetBlockPayloadBytes options" "0 < n" "n \<le> 2037"
  shows "ProcessRequest (message_bytes (GetRequestM (get_next_message i (of_nat k)))) (p, w) =
    (Inr (message_bytes (GetResponseM (block_message (MakeInvokeIdAndPriority (i AND 0x0f) options) n bs k))),
     p\<lparr>getBlocks := if length bs \<le> Suc k * n then EmptyGetResponseBlockState else get_transfer (i AND 0x0f) options bs (Suc k)\<rparr>, w)"
proof -
  obtain cid where run: "ProcessRequest (message_bytes (GetRequestM (get_next_message i (of_nat k)))) (p, w)
      = run_service (apdu_of (GetRequestM (get_next_message i (of_nat k)))) cid (p, w)"
    using ProcessRequest_quiet [OF _ assms(1), of "GetRequestM (get_next_message i (of_nat k))"] by auto
  have transfer: "gb_active (get_transfer (i AND 0x0f) options bs k)" "gb_invokeId (get_transfer (i AND 0x0f) options bs k) = i AND 0x0f"
    "gb_nextBlockNumber (get_transfer (i AND 0x0f) options bs k) = of_nat k + 1"
    by (simp_all add: get_transfer_def)
  show ?thesis
    unfolding run using assms(1,2) SendNextGetResponseBlock_transfer [OF n assms(3), of "i AND 0x0f"]
    by (simp add: ProcessGetRequest.simps Let_def get_next_message_def quiet_def get_consts transfer)
qed

text \<open>The client's loop, entered with the response that carries block \<open>k\<close>.\<close>

lemma get_blocks_loop:
  assumes "client_channel c = channel" "client_security c = None" "ctx_sink trace = None"
    and "i AND 0x0f = i" "length bs \<le> limit" "iv = MakeInvokeIdAndPriority i copts"
    and n: "n = maxGetBlockPayloadBytes options" "0 < n" "n \<le> 2037" and "quiet p" "getBlocks p = EmptyGetResponseBlockState"
    and "k * n < length bs" "server e = (if length bs \<le> Suc k * n then p else p\<lparr>getBlocks := get_transfer i options bs (Suc k)\<rparr>, w)"
    and "delivers channel server e"
  shows "\<exists>e'. loop_until (get_block_step c trace i iv)
      (block_message (MakeInvokeIdAndPriority i options) n bs k, collected limit n bs k, e)
    = Some ((XdlmsStatus.Ok, EmptyGetResult\<lparr>get_invokeId := i, get_data := bs, get_hasData := True\<rparr>), e') \<and> server e' = (p, w)"
  using assms(12-14)
proof (induction "length bs - k * n" arbitrary: k e rule: less_induct)
  case less
  let ?r = "block_message (MakeInvokeIdAndPriority i options) n bs"
  note append = AppendBlock_collected [OF less.prems(1) assms(5), of "MakeInvokeIdAndPriority i options"]
  have fields: "getResponse_invokeIdAndPriority (?r k) AND 0x0f = i" "lastBlock (getResponse_dataBlock (?r k)) \<longleftrightarrow> length bs \<le> Suc k * n"
    "dataBlockNumber (getResponse_dataBlock (?r k)) = of_nat (Suc k)"
    using assms(4) by (simp_all add: block_message_def get_block_message_def)
  show ?case
  proof (cases "length bs \<le> Suc k * n")
    case True
    with less.prems(2) fields append assms(3) show ?thesis
      by (subst loop_until.simps) (simp add: get_block_step_def Let_def collected_def)
  next
    case False
    let ?p = "p\<lparr>getBlocks := get_transfer i options bs (Suc k)\<rparr>"
    have more: "Suc k * n < length bs" using False by simp
    have "quiet ?p" using assms(10) by (simp add: quiet_def)
    moreover have "iv AND 0x0f = i" using assms(4,6) by simp
    ultimately have "ProcessRequest (message_bytes (GetRequestM (get_next_message iv (of_nat (Suc k))))) (server e) =
        (Inr (message_bytes (GetResponseM (?r (Suc k)))),
         if length bs \<le> Suc (Suc k) * n then p else p\<lparr>getBlocks := get_transfer i options bs (Suc (Suc k))\<rparr>, w)"
      using ProcessRequest_next_block [of ?p iv options bs "Suc k" n w] more less.prems(2) False n assms(11) by simp
    from SendAndReceive_delivered [OF less.prems(3) assms(3) request_sent(2) this block_message_fits(1) [OF n(3)] request_small(2)]
    obtain e' where e': "SendAndReceive channel None (MakeGetRequestNext iv (of_nat (Suc k))) trace e
          = (Inr (apdu_of (GetResponseM (?r (Suc k)))), e')"
        "server e' = (if length bs \<le> Suc (Suc k) * n then p else p\<lparr>getBlocks := get_transfer i options bs (Suc (Suc k))\<rparr>, w)"
        "delivers channel server e'" by blast
    have "getResponse_choice (?r (Suc k)) = kNextChoice" by (simp add: block_message_def get_block_message_def)
    with e'(1) fields append assms(1-3) False
    have step: "get_block_step c trace i iv (?r k, collected limit n bs k, e) = Inr (?r (Suc k), collected limit n bs (Suc k), e')"
      by (simp add: get_block_step_def Let_def ReceiveGetResponse_def)
    have "length bs - Suc k * n < length bs - k * n" using more n(2) by simp
    from less.hyps [OF this more e'(2,3)] step show ?thesis by (subst loop_until.simps) simp
  qed
qed


subsection \<open>The whole GET\<close>

text \<open>The indication that the dispatcher gets for a request of the client.\<close>

definition get_indication :: "u8 \<Rightarrow> ServiceOptions \<Rightarrow> ServiceOptions \<Rightarrow> AttributeDescriptor \<Rightarrow> GetIndication" where
  "get_indication i copts po d = \<lparr>getInd_invokeId = i, getInd_options = po\<lparr>confirmed := confirmed copts, highPriority := highPriority copts\<rparr>,
     getInd_descriptor = d\<rparr>"

lemma logical_name_copied: "length l = 6 \<Longrightarrow> map (CosemLogicalName_at l) [0 ..< 6] = l"
  by (auto simp: CosemLogicalName_at_def intro!: nth_equalityI)

lemma ToXdlmsDescriptor_ToApduDescriptor: "length (attribute_instanceId d) = 6 \<Longrightarrow> ToXdlmsDescriptor (ToApduDescriptor d) = d"
  by (simp add: ToXdlmsDescriptor_def ToApduDescriptor_def logical_name_copied)

lemma parse_made_options:
  "ParseServiceOptions (MakeInvokeIdAndPriority i copts) po = po\<lparr>confirmed := confirmed copts, highPriority := highPriority copts\<rparr>"
proof -
  have "MakeInvokeIdAndPriority i copts AND 0x80 \<noteq> 0 \<longleftrightarrow> confirmed copts" "MakeInvokeIdAndPriority i copts AND 0x40 \<noteq> 0 \<longleftrightarrow> highPriority copts"
    by (simp_all add: MakeInvokeIdAndPriority_def Let_def bit.conj_disj_distrib2 and.assoc)
  then show ?thesis by (simp add: ParseServiceOptions_def)
qed

lemma ProcessRequest_get:
  assumes "quiet p" "getBlocks p = EmptyGetResponseBlockState" "confirmed copts" "i AND 0x0f = i" "length (attribute_instanceId d) = 6"
    and "DispatchGet (dispatcher p) (get_indication i copts (processorOptions p) d) w = (Inr result, w')"
  shows "ProcessRequest (message_bytes (GetRequestM (get_request_message (MakeInvokeIdAndPriority i copts) d))) (p, w) =
    (let (response, blocks) = EncodeGetResponseOrStartBlocks
         (MakeInvokeIdAndPriority i ((processorOptions p)\<lparr>confirmed := True, highPriority := highPriority copts\<rparr>))
         (get_indication i copts (processorOptions p) d) result EmptyGetResponseBlockState
     in (response, p\<lparr>getBlocks := blocks\<rparr>, w'))"
proof -
  let ?q = "get_request_message (MakeInvokeIdAndPriority i copts) d"
  obtain cid where run: "ProcessRequest (message_bytes (GetRequestM ?q)) (p, w) = run_service (apdu_of (GetRequestM ?q)) cid (p, w)"
    using ProcessRequest_quiet [OF _ assms(1), of "GetRequestM ?q"] by auto
  have normal: "getRequest_choice ?q = 1" "getRequest_invokeIdAndPriority ?q = MakeInvokeIdAndPriority i copts"
    "getRequest_normal ?q = WithSelection_default\<lparr>selectedDescriptor := ToApduDescriptor d, hasSelection := False\<rparr>"
    by (simp_all add: get_request_message_def get_consts)
  have idle: "\<not> gb_active EmptyGetResponseBlockState" by (simp add: EmptyGetResponseBlockState_def)
  show ?thesis
    unfolding run using assms idle
    by (simp add: ProcessGetRequest.simps normal normal_requests get_consts parse_made_options
        ToXdlmsDescriptor_ToApduDescriptor get_indication_def Let_def split: prod.split)
qed


text \<open>What is taken for granted about a client and its peer: they are connected, nothing is traced or protected, and the server is idle.\<close>

definition connected ::
    "('e \<Rightarrow> 'w XdlmsServerApduProcessor \<times> 'w) \<Rightarrow> 'e XdlmsClient \<Rightarrow> 'e \<Rightarrow> 'w XdlmsServerApduProcessor \<Rightarrow> 'w \<Rightarrow> bool" where
  "connected server c e p w \<longleftrightarrow> delivers (client_channel c) server e \<and> association_IsAssociated (client_association c) e
     \<and> client_security c = None \<and> client_traceSink c = None \<and> client_invokeIds c AND 0x0f = client_invokeIds c
     \<and> server e = (p, w) \<and> quiet p \<and> getBlocks p = EmptyGetResponseBlockState \<and> setBlocks p = EmptySetRequestBlockState"

lemma begin_service_connected:
  assumes "connected server c e p w" "\<And>ctx. ctx_sink (describe ctx) = ctx_sink ctx"
  shows "\<exists>trace e1. begin_service rk sk options describe c e = (client_invokeIds c, MakeInvokeIdAndPriority (client_invokeIds c) options,
      trace, c\<lparr>client_invokeIds := snd (InvokeIdAllocator_Next (client_invokeIds c))\<rparr>, e1) \<and> ctx_sink trace = None \<and> server e1 = (p, w) \<and> delivers (client_channel c) server e1"
  using assms delivers_correlated by (fastforce simp: begin_service_def connected_def InvokeIdAllocator_Next_def Let_def MakeTraceContext_def)

text \<open>The data of a result that fits in one response.\<close>

lemma get_normal_answer:
  assumes "DecodeEncodedData (get_data result) = Inr x" "length (data_bytes x) \<le> 2044" "get_hasData result" "\<not> get_hasAccessResult result"
  shows "EncodeGetResponse_server i result = Inr (message_bytes (GetResponseM (get_result_message i
      (GetDataResult_default\<lparr>resultChoice := 0, resultData := x\<rparr>))))"
    and "message_wf (GetResponseM (get_result_message i (GetDataResult_default\<lparr>resultChoice := 0, resultData := x\<rparr>)))"
    and "i AND 0x0f = k \<Longrightarrow> ctx_sink trace = None \<Longrightarrow> finish_get trace k (getResponse (apdu_of (GetResponseM (get_result_message i
      (GetDataResult_default\<lparr>resultChoice := 0, resultData := x\<rparr>))))) e
      = ((XdlmsStatus.Ok, EmptyGetResult\<lparr>get_invokeId := k, get_data := data_bytes x, get_hasData := True\<rparr>), e)"
proof -
  have x: "represented 8 x" by (rule DecodeEncodedData_represented [OF assms(1)])
  show "EncodeGetResponse_server i result = Inr (message_bytes (GetResponseM (get_result_message i
      (GetDataResult_default\<lparr>resultChoice := 0, resultData := x\<rparr>))))"
    using assms by (simp add: EncodeGetResponse_server_sent sent_message_def get_response_bytes_def
        get_result_message_def get_consts result_bytes_def)
  show "message_wf (GetResponseM (get_result_message i (GetDataResult_default\<lparr>resultChoice := 0, resultData := x\<rparr>)))"
    using x by (simp add: result_wf_def GetDataResult_default_def)
  have "CopyEncodedData x = Inr (data_bytes x)"
    using writes_fresh [OF datac.wr_writes [OF x], of 2048] assms(2) by (simp add: CopyEncodedData_def ApduWriter_init_def)
  then show "i AND 0x0f = k \<Longrightarrow> ctx_sink trace = None \<Longrightarrow> finish_get trace k (getResponse (apdu_of (GetResponseM (get_result_message i
      (GetDataResult_default\<lparr>resultChoice := 0, resultData := x\<rparr>))))) e
      = ((XdlmsStatus.Ok, EmptyGetResult\<lparr>get_invokeId := k, get_data := data_bytes x, get_hasData := True\<rparr>), e)"
    by (simp add: finish_get_def Let_def fill_get_response_def get_result_message_def get_consts)
qed


text \<open>What a value must satisfy to be transferred: it is the encoding of data and fits in one response, or blocks may be used.\<close>

definition transferable :: "ServiceOptions \<Rightarrow> ServiceOptions \<Rightarrow> bytes \<Rightarrow> bool" where
  "transferable copts po bs \<longleftrightarrow>
     (if length bs \<le> maxGetBlockPayloadBytes po then length bs \<le> 2044 \<and> (\<exists>x. represented 8 x \<and> bs = data_bytes x)
      else 0 < maxGetBlockPayloadBytes po \<and> maxGetBlockPayloadBytes po \<le> 2037 \<and> allowBlockTransfer copts \<and> allowBlockTransfer po
        \<and> length bs \<le> maxBlockTransferBytes po \<and> length bs \<le> maxBlockTransferBytes copts)"

text \<open>
  What arrives of a value: in one response it is decoded and encoded again on its way, and then has to fit; in blocks it
  arrives as it is.
\<close>

definition fetched :: "ServiceOptions \<Rightarrow> ServiceOptions \<Rightarrow> bytes \<Rightarrow> bytes \<Rightarrow> bool" where
  "fetched copts po bs v \<longleftrightarrow>
     (if length bs \<le> maxGetBlockPayloadBytes po then recoded bs = Some v \<and> length v \<le> 2044
      else v = bs \<and> 0 < maxGetBlockPayloadBytes po \<and> maxGetBlockPayloadBytes po \<le> 2037 \<and> allowBlockTransfer copts \<and> allowBlockTransfer po
        \<and> length bs \<le> maxBlockTransferBytes po \<and> length bs \<le> maxBlockTransferBytes copts)"

lemma transferable_fetched: "transferable copts po bs \<Longrightarrow> fetched copts po bs bs"
  by (auto simp: transferable_def fetched_def split: if_splits)

lemma receive_get_exchange:
  assumes "connected server c e p w" "length (attribute_instanceId d) = 6" "confirmed copts" "i = client_invokeIds c"
    and "DispatchGet (dispatcher p) (get_indication i copts (processorOptions p) d) w = (Inr result, w')"
    and "get_hasData result" "\<not> get_hasAccessResult result" "fetched copts (processorOptions p) (get_data result) v"
    and "ctx_sink trace = None" "server e1 = (p, w)" "iv = MakeInvokeIdAndPriority i copts"
    and "client_MakeGetRequestNormal iv d None = Inr request" "delivers (client_channel c) server e1"
  shows "\<exists>e'. receive_get c trace i iv copts request e1
    = Some ((XdlmsStatus.Ok, EmptyGetResult\<lparr>get_invokeId := i, get_data := v, get_hasData := True\<rparr>), e')
      \<and> server e' = (p, w')"
proof -
  define po where "po = (processorOptions p)\<lparr>confirmed := True, highPriority := highPriority copts\<rparr>"
  define n where "n = maxGetBlockPayloadBytes po"
  let ?siv = "MakeInvokeIdAndPriority i po" and ?data = "get_data result"
  note c = assms(1) [unfolded connected_def]
  have i: "i AND 0x0f = i" using c assms(4) by simp
  have ind: "getInd_options (get_indication i copts (processorOptions p) d) = po" "getInd_invokeId (get_indication i copts (processorOptions p) d) = i"
    using assms(3) by (simp_all add: get_indication_def po_def)
  have idle: "p\<lparr>getBlocks := EmptyGetResponseBlockState\<rparr> = p" using c by simp
  have first: "ProcessRequest (message_bytes (GetRequestM (get_request_message iv d))) (server e1) =
    (let (response, blocks) = EncodeGetResponseOrStartBlocks ?siv
         (get_indication i copts (processorOptions p) d) result EmptyGetResponseBlockState
     in (response, p\<lparr>getBlocks := blocks\<rparr>, w'))"
    using ProcessRequest_get [of p copts i d w result w'] c i assms(2-5,10,11) by (simp add: po_def)
  note exchange = SendAndReceive_delivered [OF assms(13,9) request_sent(1) [OF assms(12)]]
  show ?thesis
  proof (cases "length ?data \<le> n")
    case True
    with assms(8) obtain x where x: "DecodeEncodedData ?data = Inr x" "v = data_bytes x" "length (data_bytes x) \<le> 2044"
      by (auto simp: fetched_def n_def po_def dest: recoded_represented)
    let ?m = "get_result_message ?siv (GetDataResult_default\<lparr>resultChoice := 0, resultData := x\<rparr>)"
    note answer = get_normal_answer [OF x(1,3) assms(6,7), of ?siv]
    have "ProcessRequest (message_bytes (GetRequestM (get_request_message iv d))) (server e1) = (Inr (message_bytes (GetResponseM ?m)), p, w')"
      unfolding first using True answer(1) idle by (simp add: EncodeGetResponseOrStartBlocks_def Let_def ind n_def)
    from exchange [OF this answer(2) request_small(1)] obtain e' where
      e': "SendAndReceive (client_channel c) None request trace e1 = (Inr (apdu_of (GetResponseM ?m)), e')" "server e' = (p, w')" by blast
    have "getResponse_choice ?m = kNormalChoice" by (simp add: get_result_message_def)
    with e' c answer(3) [of i trace e'] i assms(9) x(2) show ?thesis
      by (simp add: receive_get_def ReceiveGetResponse_def Let_def)
  next
    case False
    with assms(8) have n: "n = maxGetBlockPayloadBytes po" "0 < n" "n \<le> 2037" and t: "allowBlockTransfer copts" "allowBlockTransfer po"
      "length ?data \<le> maxBlockTransferBytes po" "length ?data \<le> maxBlockTransferBytes copts" "v = ?data"
      by (auto simp: fetched_def n_def po_def)
    have k: "0 * n < length ?data" using False by auto
    have "ProcessRequest (message_bytes (GetRequestM (get_request_message iv d))) (server e1)
      = (Inr (message_bytes (GetResponseM (block_message ?siv n ?data 0))), p\<lparr>getBlocks := get_transfer i po ?data 1\<rparr>, w')"
      unfolding first using False t n(2) assms(6) SendNextGetResponseBlock_transfer [OF n k, of i]
      by (simp add: EncodeGetResponseOrStartBlocks_def Let_def ind n(1) get_transfer_def)
    from exchange [OF this block_message_fits(1) [OF n(3)] request_small(1)] obtain e' where
      e': "SendAndReceive (client_channel c) None request trace e1 = (Inr (apdu_of (GetResponseM (block_message ?siv n ?data 0))), e')"
        "server e' = (p\<lparr>getBlocks := get_transfer i po ?data 1\<rparr>, w')" "delivers (client_channel c) server e'" by blast
    have "\<exists>e2. loop_until (get_block_step c trace i iv) (block_message ?siv n ?data 0, collected (maxBlockTransferBytes copts) n ?data 0, e')
      = Some ((XdlmsStatus.Ok, EmptyGetResult\<lparr>get_invokeId := i, get_data := ?data, get_hasData := True\<rparr>), e2) \<and> server e2 = (p, w')"
      using c i t False e'(2,3) assms(9,11) by (intro get_blocks_loop [OF refl _ _ _ _ _ n _ _ k]) auto
    moreover have "collected (maxBlockTransferBytes copts) n ?data 0 = BlockTransferManager_init (maxBlockTransferBytes copts)"
      by (simp add: collected_def BlockTransferManager_init_def)
    moreover have "getResponse_choice (block_message ?siv n ?data 0) = 2" by (simp add: block_message_def get_block_message_def get_consts)
    ultimately show ?thesis using e'(1) c t by (simp add: receive_get_def ReceiveGetResponse_def Let_def get_consts)
  qed
qed

text \<open>The client's \<open>Get\<close> over a connection is what it does once the request is made.\<close>

lemma XdlmsClient_Get_receives:
  assumes "connected server c e p w" "ValidateDescriptor d = XdlmsStatus.Ok" "i = client_invokeIds c"
    and "\<And>trace e1 request. ctx_sink trace = None \<Longrightarrow> server e1 = (p, w) \<Longrightarrow> delivers (client_channel c) server e1 \<Longrightarrow>
      client_MakeGetRequestNormal (MakeInvokeIdAndPriority i copts) d None = Inr request \<Longrightarrow>
      \<exists>e'. receive_get c trace i (MakeInvokeIdAndPriority i copts) copts request e1 = Some (outcome, e') \<and> server e' = s"
  shows "\<exists>e'. XdlmsClient_Get d None copts (c, e)
    = Some (outcome, c\<lparr>client_invokeIds := snd (InvokeIdAllocator_Next i)\<rparr>, e') \<and> server e' = s"
proof -
  obtain trace e1 where begun: "begin_service TraceGetRequest TraceGetResponse copts (FillDescriptor d) c e =
      (i, MakeInvokeIdAndPriority i copts, trace, c\<lparr>client_invokeIds := snd (InvokeIdAllocator_Next i)\<rparr>, e1)"
      "ctx_sink trace = None" "server e1 = (p, w)" "delivers (client_channel c) server e1"
    using begin_service_connected [OF assms(1), of "FillDescriptor d" TraceGetRequest TraceGetResponse copts] assms(3)
    by (auto simp: FillDescriptor_def)
  obtain request where "client_MakeGetRequestNormal (MakeInvokeIdAndPriority i copts) d None = Inr request"
    by (simp add: client_MakeGetRequestNormal_def Let_def)
  with assms(4) [OF begun(2-4) this] begun(1) assms(1,2) show ?thesis
    by (cases outcome) (auto simp: XdlmsClient_Get.simps connected_def Let_def)
qed

text \<open>
  Requests that are not answered: the dispatcher reports a status that is no access result, or the value cannot be sent.
\<close>

definition unsendable :: "ServiceOptions \<Rightarrow> bytes \<Rightarrow> bool" where
  "unsendable po bs \<longleftrightarrow>
     (if length bs \<le> maxGetBlockPayloadBytes po then (case recoded bs of None \<Rightarrow> True | Some v \<Rightarrow> 2044 < length v)
      else maxBlockTransferBytes po < length bs \<or> \<not> allowBlockTransfer po \<or> maxGetBlockPayloadBytes po = 0
        \<or> 2037 < maxGetBlockPayloadBytes po \<and> maxGetBlockPayloadBytes po < size_t_modulus)"

lemma unsendable_data:
  assumes "length (get_data result) \<le> maxGetBlockPayloadBytes po" "unsendable po (get_data result)"
    "get_hasData result" "\<not> get_hasAccessResult result"
  shows "\<exists>status. EncodeGetResponse_server i result = Inl status"
  using assms
  by (auto simp: unsendable_def recoded_def EncodeGetResponse_server_sent sent_message_def get_response_bytes_def get_result_message_def
      get_consts result_bytes_def GetDataResult_default_def split: sum.splits)

lemma encoded_size_large: "256 \<le> n \<Longrightarrow> 3 \<le> AxdrLengthEncodedSize n"
  by (subst AxdrLengthEncodedSize_def, subst octet_count.simps, subst octet_count.simps) (auto simp: div_eq_0_iff)

lemma unsendable_block:
  assumes "2037 < n" "n < size_t_modulus" "n < length bs" "n = maxGetBlockPayloadBytes options"
  shows "\<exists>status. SendNextGetResponseBlock (get_transfer i options bs 0) = (Inl status, EmptyGetResponseBlockState)"
proof -
  let ?m = "get_block_message (MakeInvokeIdAndPriority i options) False 1 (take n bs)"
  have "length (take n bs) = n" using assms(3) by simp
  then have "2048 < length (message_bytes (GetResponseM ?m))"
    using encoded_size_large [of n] assms(1)
    by (simp add: get_block_message_def get_response_bytes_def get_consts block_bytes_def raw_bytes_def
        octet_string_bytes_def length_length_bytes del: length_take)
  then have "sent_message (GetResponseM ?m) = Inl EncodeFailed" by (simp add: sent_message_def)
  moreover have "bs \<noteq> []" using assms(3) by auto
  ultimately show ?thesis
    using assms by (subst SendNextGetResponseBlock_active [of _ n False]) (simp_all add: get_transfer_def)
qed

lemma get_unanswered:
  assumes "quiet p" "getBlocks p = EmptyGetResponseBlockState" "confirmed copts" "i AND 0x0f = i" "length (attribute_instanceId d) = 6"
  defines "request \<equiv> message_bytes (GetRequestM (get_request_message (MakeInvokeIdAndPriority i copts) d))"
  shows "DispatchGet (dispatcher p) (get_indication i copts (processorOptions p) d) w = (Inl status, w') \<Longrightarrow>
      ProcessRequest request (p, w) = (Inl status, p, w')"
    and "DispatchGet (dispatcher p) (get_indication i copts (processorOptions p) d) w = (Inr result, w') \<Longrightarrow>
      get_hasData result \<Longrightarrow> \<not> get_hasAccessResult result \<Longrightarrow> unsendable (processorOptions p) (get_data result) \<Longrightarrow>
      \<exists>status. ProcessRequest request (p, w) = (Inl status, p, w')"
proof -
  have idle: "p\<lparr>getBlocks := EmptyGetResponseBlockState\<rparr> = p" using assms(2) by simp
  let ?q = "get_request_message (MakeInvokeIdAndPriority i copts) d"
  show "ProcessRequest request (p, w) = (Inl status, p, w')"
    if dispatch: "DispatchGet (dispatcher p) (get_indication i copts (processorOptions p) d) w = (Inl status, w')"
  proof -
    obtain cid where run: "ProcessRequest request (p, w) = run_service (apdu_of (GetRequestM ?q)) cid (p, w)"
      unfolding request_def using ProcessRequest_quiet [OF _ assms(1), of "GetRequestM ?q"] by auto
    have normal: "getRequest_choice ?q = 1" "getRequest_invokeIdAndPriority ?q = MakeInvokeIdAndPriority i copts"
      "getRequest_normal ?q = WithSelection_default\<lparr>selectedDescriptor := ToApduDescriptor d, hasSelection := False\<rparr>"
      by (simp_all add: get_request_message_def get_consts)
    have "\<not> gb_active EmptyGetResponseBlockState" by (simp add: EmptyGetResponseBlockState_def)
    then show ?thesis
      unfolding run using assms(2-5) dispatch idle
      by (simp add: ProcessGetRequest.simps normal normal_requests get_consts parse_made_options
          ToXdlmsDescriptor_ToApduDescriptor get_indication_def Let_def)
  qed
  show "\<exists>status. ProcessRequest request (p, w) = (Inl status, p, w')"
    if dispatch: "DispatchGet (dispatcher p) (get_indication i copts (processorOptions p) d) w = (Inr result, w')"
      and result: "get_hasData result" "\<not> get_hasAccessResult result" "unsendable (processorOptions p) (get_data result)"
  proof -
    define po where "po = (processorOptions p)\<lparr>confirmed := True, highPriority := highPriority copts\<rparr>"
    have ind: "getInd_options (get_indication i copts (processorOptions p) d) = po" "getInd_invokeId (get_indication i copts (processorOptions p) d) = i"
      using assms(3) by (simp_all add: get_indication_def po_def)
    have limits: "maxGetBlockPayloadBytes po = maxGetBlockPayloadBytes (processorOptions p)" "allowBlockTransfer po = allowBlockTransfer (processorOptions p)"
      "maxBlockTransferBytes po = maxBlockTransferBytes (processorOptions p)" by (simp_all add: po_def)
    let ?k = "MakeInvokeIdAndPriority i ((processorOptions p)\<lparr>confirmed := True, highPriority := highPriority copts\<rparr>)"
    have "\<exists>status. EncodeGetResponseOrStartBlocks ?k (get_indication i copts (processorOptions p) d) result EmptyGetResponseBlockState
        = (Inl status, EmptyGetResponseBlockState)"
    proof (cases "length (get_data result) \<le> maxGetBlockPayloadBytes po")
      case True
      with unsendable_data [of result "processorOptions p" ?k] result limits ind show ?thesis
        by (auto simp: EncodeGetResponseOrStartBlocks_def Let_def)
    next
      case False
      with unsendable_block [of "maxGetBlockPayloadBytes po" "get_data result" po i] result limits show ?thesis
        by (auto simp: EncodeGetResponseOrStartBlocks_def Let_def ind unsendable_def get_transfer_def)
    qed
    then obtain status where "EncodeGetResponseOrStartBlocks ?k (get_indication i copts (processorOptions p) d) result EmptyGetResponseBlockState
        = (Inl status, EmptyGetResponseBlockState)" ..
    then have "ProcessRequest request (p, w) = (Inl status, p, w')"
      using ProcessRequest_get [OF assms(1-5) dispatch] idle by (simp add: request_def)
    then show ?thesis ..
  qed
qed

text \<open>The answer of a dispatcher that reports an access result.\<close>

lemma get_refused_answer:
  assumes "get_hasAccessResult result"
  defines "m \<equiv> \<lambda>i. get_result_message i (GetDataResult_default\<lparr>resultChoice := 1, dataAccessError := get_accessResult result\<rparr>)"
  shows "EncodeGetResponse_server i result = Inr (message_bytes (GetResponseM (m i)))" "message_wf (GetResponseM (m i))"
    and "i AND 0x0f = k \<Longrightarrow> finish_get trace k (getResponse (apdu_of (GetResponseM (m i)))) e
      = ((ServiceRejected, EmptyGetResult\<lparr>get_invokeId := k, get_hasAccessResult := True, get_accessResult := get_accessResult result\<rparr>), e)"
proof -
  show "EncodeGetResponse_server i result = Inr (message_bytes (GetResponseM (m i)))"
    using assms(1) by (simp add: EncodeGetResponse_server_sent sent_message_def get_response_bytes_def get_result_message_def get_consts
        result_bytes_def m_def)
  show "message_wf (GetResponseM (m i))" by (simp add: m_def result_wf_def GetDataResult_default_def)
  show "i AND 0x0f = k \<Longrightarrow> finish_get trace k (getResponse (apdu_of (GetResponseM (m i)))) e
      = ((ServiceRejected, EmptyGetResult\<lparr>get_invokeId := k, get_hasAccessResult := True, get_accessResult := get_accessResult result\<rparr>), e)"
    by (simp add: m_def finish_get_def fill_get_response_def get_result_message_def get_consts Let_def)
qed

lemma receive_get_refused:
  assumes "connected server c e p w" "length (attribute_instanceId d) = 6" "confirmed copts" "i = client_invokeIds c"
    and "DispatchGet (dispatcher p) (get_indication i copts (processorOptions p) d) w = (Inr result, w')"
    and "get_hasAccessResult result" "\<not> get_hasData result"
    and "ctx_sink trace = None" "server e1 = (p, w)" "iv = MakeInvokeIdAndPriority i copts"
    and "client_MakeGetRequestNormal iv d None = Inr request" "delivers (client_channel c) server e1"
  shows "\<exists>e'. receive_get c trace i iv copts request e1
    = Some ((ServiceRejected, EmptyGetResult\<lparr>get_invokeId := i, get_hasAccessResult := True, get_accessResult := get_accessResult result\<rparr>), e')
      \<and> server e' = (p, w')"
proof -
  note c = assms(1) [unfolded connected_def]
  let ?siv = "MakeInvokeIdAndPriority i ((processorOptions p)\<lparr>confirmed := True, highPriority := highPriority copts\<rparr>)"
  let ?m = "get_result_message ?siv (GetDataResult_default\<lparr>resultChoice := 1, dataAccessError := get_accessResult result\<rparr>)"
  have i: "i AND 0x0f = i" using c assms(4) by simp
  have idle: "p\<lparr>getBlocks := EmptyGetResponseBlockState\<rparr> = p" using c by simp
  have "ProcessRequest (message_bytes (GetRequestM (get_request_message iv d))) (server e1) = (Inr (message_bytes (GetResponseM ?m)), p, w')"
    using ProcessRequest_get [of p copts i d w result w'] c i assms(2-5,7,9,10) get_refused_answer(1) [OF assms(6)] idle
    by (simp add: EncodeGetResponseOrStartBlocks_def Let_def)
  from SendAndReceive_delivered [OF assms(12,8) request_sent(1) [OF assms(11)] this get_refused_answer(2) [OF assms(6)] request_small(1)]
  obtain e' where
    e': "SendAndReceive (client_channel c) None request trace e1 = (Inr (apdu_of (GetResponseM ?m)), e')" "server e' = (p, w')" by blast
  have "getResponse_choice ?m = kNormalChoice" by (simp add: get_result_message_def)
  with e' c i get_refused_answer(3) [OF assms(6), of ?siv i trace e'] show ?thesis
    by (simp add: receive_get_def ReceiveGetResponse_def Let_def)
qed

text \<open>
  C4: A GET arrives. Whatever value the server's dispatcher returns for the attribute, the client's \<open>Get\<close>
  ends and returns exactly this value with the invoke identifier it used: in one response, or in as many
  blocks as the server's block size asks for. The dispatcher has run once, and the server is idle again.
  (The channel delivers, neither side has security or a trace sink, and the value is within the
  limits of both sides.)
\<close>

theorem get_exchange:
  assumes "connected server c e p w" "ValidateDescriptor d = XdlmsStatus.Ok" "length (attribute_instanceId d) = 6" "confirmed copts"
    and "DispatchGet (dispatcher p) (get_indication (client_invokeIds c) copts (processorOptions p) d) w = (Inr result, w')"
    and "get_hasData result" "\<not> get_hasAccessResult result" "transferable copts (processorOptions p) (get_data result)"
  shows "\<exists>e'. XdlmsClient_Get d None copts (c, e)
    = Some ((XdlmsStatus.Ok, EmptyGetResult\<lparr>get_invokeId := client_invokeIds c, get_data := get_data result, get_hasData := True\<rparr>),
            c\<lparr>client_invokeIds := snd (InvokeIdAllocator_Next (client_invokeIds c))\<rparr>, e')
      \<and> server e' = (p, w')"
  by (rule XdlmsClient_Get_receives [OF assms(1,2) refl])
    (rule receive_get_exchange [OF assms(1,3,4) refl assms(5-7) transferable_fetched [OF assms(8)] _ _ refl])

text \<open>A channel that calls the processor, and a server with one attribute.\<close>

definition direct_channel :: "('w XdlmsServerApduProcessor \<times> 'w \<times> bytes option) ApduChannel" where
  "direct_channel = \<lparr>channel_Open = (\<lambda>e. (ProfileStatus.Ok, e)), channel_Close = (\<lambda>e. (ProfileStatus.Ok, e)),
     channel_SendApdu = (\<lambda>v (p, w, pending). case ProcessRequest (view_bytes v) (p, w) of
        (Inl status, p', w') \<Rightarrow> (ProfileStatus.Ok, (p', w', None)) | (Inr answer, p', w') \<Rightarrow> (ProfileStatus.Ok, (p', w', Some answer))),
     channel_ReceiveApdu = (\<lambda>(p, w, pending). (case pending of None \<Rightarrow> (Timeout, []) | Some answer \<Rightarrow> (ProfileStatus.Ok, answer), (p, w, None))),
     channel_SetCorrelation = (\<lambda>cid e. e)\<rparr>"

definition direct_server :: "'w XdlmsServerApduProcessor \<times> 'w \<times> bytes option \<Rightarrow> 'w XdlmsServerApduProcessor \<times> 'w" where
  "direct_server = (\<lambda>(p, w, pending). (p, w))"

lemma direct_delivers: "delivers direct_channel direct_server e"
  unfolding delivers_def by (rule exI [of _ "\<lambda>_. True"]) (auto simp: exchanges_def direct_channel_def direct_server_def)

definition example_client :: "('w XdlmsServerApduProcessor \<times> 'w \<times> bytes option) XdlmsClient" where
  "example_client = XdlmsClient_init direct_channel \<lparr>association_IsAssociated = (\<lambda>e. True), association_ConversationSeed = (\<lambda>e. 0)\<rparr> None"

definition example_handler :: "nat XdlmsServerHandler" where
  "example_handler = \<lparr>HandleGet = (\<lambda>i e. (Inr (EmptyGetResult\<lparr>get_hasData := True, get_data := [0x09, 3, 7, 8, 9]\<rparr>), Suc e)),
     HandleSet = (\<lambda>i e. (Inr EmptySetResult, e + length (setInd_data i))), HandleAction = HandleAction_default\<rparr>"

definition example_options :: ServiceOptions where
  "example_options = DefaultServiceOptions\<lparr>maxGetBlockPayloadBytes := 2, maxSetBlockPayloadBytes := 2\<rparr>"

definition example_processor :: "nat XdlmsServerApduProcessor" where
  "example_processor = XdlmsServerApduProcessor_init (XdlmsServerDispatcher_of example_handler) None example_options"

definition example_attribute :: AttributeDescriptor where
  "example_attribute = \<lparr>attribute_classId = 1, attribute_instanceId = [0, 0, 1, 0, 0, 255], attribute_attributeId = 2\<rparr>"

lemma example_valid: "ValidateDescriptor example_attribute = XdlmsStatus.Ok" "length (attribute_instanceId example_attribute) = 6"
  by (simp_all add: ValidateDescriptor_def example_attribute_def CosemLogicalName_at_def upt_conv_Cons)

lemma example_connected: "connected direct_server example_client (example_processor, 0, None) example_processor 0"
  by (simp add: connected_def example_client_def XdlmsClient_init_def direct_delivers direct_server_def [THEN fun_cong] InvokeIdAllocator_init_def
      example_processor_def XdlmsServerApduProcessor_init_def quiet_def)

theorem get_exchange_witness:
  "\<exists>e'. XdlmsClient_Get example_attribute None DefaultServiceOptions (example_client, example_processor, 0, None)
     = Some ((XdlmsStatus.Ok, EmptyGetResult\<lparr>get_invokeId := 1, get_data := [0x09, 3, 7, 8, 9], get_hasData := True\<rparr>),
             example_client\<lparr>client_invokeIds := 2\<rparr>, e') \<and> direct_server e' = (example_processor, 1)"
proof -
  have id: "client_invokeIds example_client = 1" "snd (InvokeIdAllocator_Next 1) = 2"
    by (simp_all add: example_client_def XdlmsClient_init_def InvokeIdAllocator_init_def InvokeIdAllocator_Next_def)
  have dispatched: "DispatchGet (dispatcher example_processor) (get_indication (client_invokeIds example_client) DefaultServiceOptions
      (processorOptions example_processor) example_attribute) 0
    = (Inr (EmptyGetResult\<lparr>get_invokeId := 1, get_hasData := True, get_data := [0x09, 3, 7, 8, 9]\<rparr>), 1)"
    by (simp add: example_processor_def XdlmsServerApduProcessor_init_def XdlmsServerDispatcher_of_def
        XdlmsServerDispatcher_DispatchGet_def example_handler_def get_indication_def id ValidateInvokeId_def example_valid EmptyGetResult_def)
  have fits: "transferable DefaultServiceOptions (processorOptions example_processor) [0x09, 3, 7, 8, 9]"
    by (simp add: transferable_def example_processor_def XdlmsServerApduProcessor_init_def example_options_def DefaultServiceOptions_def)
  show ?thesis
    using get_exchange [OF example_connected example_valid _ dispatched] fits
    by (simp add: id DefaultServiceOptions_def EmptyGetResult_def)
qed

text \<open>The example server is asked for its attribute and sends the first of three blocks.\<close>

definition example_request :: GetRequest where
  "example_request = get_request_message (MakeInvokeIdAndPriority 1 DefaultServiceOptions) example_attribute"

definition example_block :: GetResponse where
  "example_block = get_block_message 0x81 False 1 [0x09, 3]"

lemma example_exchange: "\<exists>p'. ProcessRequest (message_bytes (GetRequestM example_request)) (example_processor, 0)
    = (Inr (message_bytes (GetResponseM example_block)), p', 1)"
proof -
  have dispatched: "DispatchGet (dispatcher example_processor) (get_indication 1 DefaultServiceOptions (processorOptions example_processor) example_attribute) 0
    = (Inr (EmptyGetResult\<lparr>get_invokeId := 1, get_hasData := True, get_data := [0x09, 3, 7, 8, 9]\<rparr>), 1)"
    by (simp add: example_processor_def XdlmsServerApduProcessor_init_def XdlmsServerDispatcher_of_def
        XdlmsServerDispatcher_DispatchGet_def example_handler_def get_indication_def ValidateInvokeId_def example_valid EmptyGetResult_def)
  have ready: "quiet example_processor" "getBlocks example_processor = EmptyGetResponseBlockState" "processorOptions example_processor = example_options"
    by (simp_all add: quiet_def example_processor_def XdlmsServerApduProcessor_init_def)
  have fits: "sent_message (GetResponseM (get_block_message 0x81 False 1 [0x09, 3])) = Inr (message_bytes (GetResponseM (get_block_message 0x81 False 1 [0x09, 3])))"
    using block_message_fits(2) [of 2 "0x81" "[0x09, 3, 7, 8, 9]" 0] by (intro sent_message_fits) (simp add: block_message_def)
  show ?thesis
    using ProcessRequest_get [OF ready(1,2) _ _ example_valid(2) dispatched] fits
    by (simp add: example_request_def example_block_def ready(3) EncodeGetResponseOrStartBlocks_def Let_def get_indication_def example_options_def DefaultServiceOptions_def
        SendNextGetResponseBlock_def EncodeGetDataBlockResponse_sent size_t_modulus_def MakeInvokeIdAndPriority_def EmptyGetResult_def)
qed

lemma example_serving: "serving (XdlmsServerApduProcessor_init (XdlmsServerDispatcher_of example_handler) None example_options) example_processor"
  using serving.start [of example_processor] by (simp add: example_processor_def)

lemma example_limit: "maxGetBlockPayloadBytes example_options < size_t_modulus"
  by (simp add: example_options_def size_t_modulus_def)

theorem server_answers_witness:
  "\<exists>q r. DecodeXdlmsApdu (View (message_bytes (GetRequestM example_request))) = Inr (apdu_of q)
     \<and> DecodeXdlmsApdu (View (message_bytes (GetResponseM example_block))) = Inr (apdu_of r) \<and> answers q r"
proof -
  from example_exchange obtain p' where "ProcessRequest (message_bytes (GetRequestM example_request)) (example_processor, 0)
    = (Inr (message_bytes (GetResponseM example_block)), p', 1)" ..
  from server_answers [OF example_serving example_limit this] show ?thesis by (simp only: pointer_view_message) blast
qed

theorem server_block_states_witness:
  "\<exists>p'. ProcessRequest (message_bytes (GetRequestM example_request)) (example_processor, 0) = (Inr (message_bytes (GetResponseM example_block)), p', 1)
     \<and> get_blocks_ok example_options (getBlocks p') \<and> set_blocks_ok example_options (setBlocks p')"
proof -
  from example_exchange obtain p' where p': "ProcessRequest (message_bytes (GetRequestM example_request)) (example_processor, 0)
    = (Inr (message_bytes (GetResponseM example_block)), p', 1)" ..
  from server_block_states [OF serving.request [OF example_serving p'] example_limit] p' show ?thesis by blast
qed

end
