(* ===== verification/Xdlms_SetExchange.thy ===== *)
theory Xdlms_SetExchange
  imports Xdlms_Exchange
begin

text \<open>
  SET between client and server, in one request or in blocks, and the termination of the client's loops. A value that
  goes in one request is decoded and encoded again on its way (\<open>carried\<close>); blocks carry the bytes as they are.
\<close>

subsection \<open>Requests\<close>

definition set_selected :: "AttributeDescriptor \<Rightarrow> CosemAttributeDescriptorWithSelection" where
  "set_selected d = WithSelection_default\<lparr>selectedDescriptor := ToApduDescriptor d, hasSelection := False\<rparr>"

definition set_normal_message :: "u8 \<Rightarrow> AttributeDescriptor \<Rightarrow> DlmsData \<Rightarrow> SetRequest" where
  "set_normal_message i d x = SetRequest_default\<lparr>setRequest_choice := kNormalChoice, setRequest_invokeIdAndPriority := i,
     setRequest_normal := set_selected d, setRequest_data := x\<rparr>"

text \<open>Block \<open>k\<close> of the data; only the first one carries the descriptor.\<close>

definition set_block_message :: "u8 \<Rightarrow> AttributeDescriptor \<Rightarrow> nat \<Rightarrow> bytes \<Rightarrow> nat \<Rightarrow> SetRequest" where
  "set_block_message i d n bs k = SetRequest_default\<lparr>setRequest_choice := if k = 0 then kWithFirstDataBlockChoice else kWithDataBlockChoice,
     setRequest_invokeIdAndPriority := i, setRequest_normal := if k = 0 then set_selected d else WithSelection_default,
     setRequest_dataBlock := \<lparr>lastBlock = length bs \<le> Suc k * n, dataBlockNumber = of_nat k + 1, rawData = View (take n (drop (k * n) bs))\<rparr>\<rparr>"

lemma set_selected_wf [simp]: "selected_wf 8 (set_selected d)" "length (selected_bytes (set_selected d)) = 10"
  by (simp_all add: set_selected_def selected_wf_def WithSelection_default_def selection_wf_def attribute_wf_def ToApduDescriptor_def
      selected_bytes_def selection_bytes_def attribute_bytes_def)

lemma set_normal_fits:
  assumes "represented 8 x" "length (data_bytes x) \<le> 2035"
  shows "message_wf (SetRequestM (set_normal_message i d x))" "length (message_bytes (SetRequestM (set_normal_message i d x))) \<le> 2048"
  using assms by (simp_all add: set_normal_message_def set_request_wf_def set_request_bytes_def SetRequest_default_def set_consts)

lemma set_block_fits:
  assumes "n \<le> 2027"
  shows "message_wf (SetRequestM (set_block_message i d n bs k))" "length (message_bytes (SetRequestM (set_block_message i d n bs k))) \<le> 2048"
proof -
  define raw where "raw = take n (drop (k * n) bs)"
  have "length raw \<le> 2027" using assms by (simp add: raw_def)
  moreover from this have "AxdrLengthEncodedSize (length raw) \<le> 3" by (intro encoded_size_small) simp
  ultimately show "length (message_bytes (SetRequestM (set_block_message i d n bs k))) \<le> 2048"
    unfolding set_block_message_def raw_def [symmetric]
    by (simp add: set_request_bytes_def set_consts block_bytes_def raw_bytes_def octet_string_bytes_def length_length_bytes)
  show "message_wf (SetRequestM (set_block_message i d n bs k))"
    using assms by (simp add: set_block_message_def set_request_wf_def SetRequest_default_def set_consts block_wf_def raw_wf_def size_t_modulus_def
        min_less_iff_disj)
qed

text \<open>
  The client numbers its blocks with 32 bits and recognises the first one by its number, so
  the data must have less than \<open>2 ^ 32\<close> blocks. The descriptor is filled in for every block, but
  sent only with the first.
\<close>

lemma set_requests_sent:
  "represented 8 x \<Longrightarrow> length (data_bytes x) \<le> 2035 \<Longrightarrow>
     reported EncodeFailed (EncodeXdlmsApdu (set_request_apdu i d x)) = Inr (message_bytes (SetRequestM (set_normal_message i d x)))"
  "n \<le> 2027 \<Longrightarrow> k < 2 ^ 32 \<Longrightarrow>
     reported EncodeFailed (EncodeXdlmsApdu (MakeSetRequestBlock (if of_nat k + 1 = (1 :: u32) then kWithFirstDataBlockChoice else kWithDataBlockChoice)
       i d (of_nat k + 1) (length bs \<le> Suc k * n) (View (take n (drop (k * n) bs))))) = Inr (message_bytes (SetRequestM (set_block_message i d n bs k)))"
proof -
  show "reported EncodeFailed (EncodeXdlmsApdu (set_request_apdu i d x)) = Inr (message_bytes (SetRequestM (set_normal_message i d x)))"
    if "represented 8 x" "length (data_bytes x) \<le> 2035"
    using set_normal_fits [OF that, of i d] sent_structures(3) [of "set_request_apdu i d x"]
    by (simp add: sent_message_fits set_request_apdu_def set_normal_message_def set_selected_def)
  show "reported EncodeFailed (EncodeXdlmsApdu (MakeSetRequestBlock (if of_nat k + 1 = (1 :: u32) then kWithFirstDataBlockChoice else kWithDataBlockChoice)
       i d (of_nat k + 1) (length bs \<le> Suc k * n) (View (take n (drop (k * n) bs))))) = Inr (message_bytes (SetRequestM (set_block_message i d n bs k)))"
    if "n \<le> 2027" "k < 2 ^ 32"
  proof -
    have zero: "of_nat k = (0 :: u32) \<longleftrightarrow> k = 0"
      using that(2) by (auto simp: word_of_nat_eq_0_iff dest: dvd_imp_le)
    show ?thesis
      using set_block_fits [OF that(1), of i d bs k] zero
      by (subst reported_agreeing [of "SetRequestM (set_block_message i d n bs k)"])
        (auto simp: sent_message_fits EncodeXdlmsApdu_write_def MakeSetRequestBlock_def set_block_message_def set_selected_def
          known_choices EncodeSetRequest_def)
  qed
qed

subsection \<open>The server's part\<close>

definition set_indication :: "u8 \<Rightarrow> ServiceOptions \<Rightarrow> AttributeDescriptor \<Rightarrow> bytes \<Rightarrow> SetIndication" where
  "set_indication i options d bs = \<lparr>setInd_invokeId = i, setInd_options = options, setInd_descriptor = d, setInd_data = bs\<rparr>"

definition request_options :: "ServiceOptions \<Rightarrow> ServiceOptions \<Rightarrow> ServiceOptions" where
  "request_options copts po = po\<lparr>confirmed := confirmed copts, highPriority := highPriority copts\<rparr>"

definition set_transfer :: "u8 \<Rightarrow> ServiceOptions \<Rightarrow> AttributeDescriptor \<Rightarrow> nat \<Rightarrow> bytes \<Rightarrow> nat \<Rightarrow> SetRequestBlockState" where
  "set_transfer i options d n bs k = (if k = 0 then EmptySetRequestBlockState else
     \<lparr>sb_active = True, sb_invokeId = i, sb_options = options, sb_descriptor = d, sb_nextBlockNumber = of_nat k + 1,
      sb_data = take (k * n) bs\<rparr>)"

lemma set_response_fits [simp]: "length (set_response_bytes (set_response_message 1 i r 0)) \<le> 2048"
  "length (set_response_bytes (set_response_message 2 i 0 n)) \<le> 2048" "length (set_response_bytes (set_response_message 3 i r n)) \<le> 2048"
  by (simp_all add: set_response_bytes_def set_response_message_def set_consts)

lemma set_replies [simp]:
  "EncodeSetResponse_server i result = Inr (message_bytes (SetResponseM (set_response_message 1 i (set_accessResult result) 0)))"
  "EncodeSetBlockAckResponse i n = Inr (message_bytes (SetResponseM (set_response_message 2 i 0 n)))"
  "EncodeSetLastBlockResponse i n result = Inr (message_bytes (SetResponseM (set_response_message 3 i (set_accessResult result) n)))"
  by (simp_all add: set_responses_sent sent_message_def)

lemma ProcessRequest_set:
  assumes "message_wf (SetRequestM q)" "quiet p"
  obtains cid where "ProcessRequest (message_bytes (SetRequestM q)) (p, w) =
    (let (response, blocks, w') = ProcessSetRequest (apdu_of (SetRequestM q)) (dispatcher p) (processorOptions p) None cid (setBlocks p, w)
     in (response, p\<lparr>setBlocks := blocks\<rparr>, w'))"
proof -
  obtain cid where "ProcessRequest (message_bytes (SetRequestM q)) (p, w) = run_service (apdu_of (SetRequestM q)) cid (p, w)"
    using ProcessRequest_quiet [OF assms] by blast
  then show thesis using assms(2) by (intro that [of cid]) (simp add: quiet_def)
qed

lemma take_chunk: "take (Suc k * n) bs = take (k * n) bs @ take n (drop (k * n) bs)"
  by (simp add: take_add add.commute [of n])

lemma ProcessRequest_set_block:
  assumes "quiet p" "setBlocks p = set_transfer i (request_options copts (processorOptions p)) d n bs k" "confirmed copts"
    and "iv = MakeInvokeIdAndPriority i copts" "i AND 0x0f = i" "length (attribute_instanceId d) = 6" "n \<le> 2027"
    and "k * n < length bs" "length bs \<le> maxBlockTransferBytes (processorOptions p)"
  shows "\<not> length bs \<le> Suc k * n \<Longrightarrow> ProcessRequest (message_bytes (SetRequestM (set_block_message iv d n bs k))) (p, w) =
      (Inr (message_bytes (SetResponseM (set_response_message 2 iv 0 (of_nat k + 1)))),
       p\<lparr>setBlocks := set_transfer i (request_options copts (processorOptions p)) d n bs (Suc k)\<rparr>, w)"
    and "length bs \<le> Suc k * n \<Longrightarrow>
      DispatchSet (dispatcher p) (set_indication i (request_options copts (processorOptions p)) d bs) w = (Inr result, w') \<Longrightarrow>
      ProcessRequest (message_bytes (SetRequestM (set_block_message iv d n bs k))) (p, w) =
      (Inr (message_bytes (SetResponseM (set_response_message 3 (MakeInvokeIdAndPriority i (request_options copts (processorOptions p)))
         (set_accessResult result) (of_nat k + 1)))), p\<lparr>setBlocks := EmptySetRequestBlockState\<rparr>, w')"
    and "length bs \<le> Suc k * n \<Longrightarrow>
      DispatchSet (dispatcher p) (set_indication i (request_options copts (processorOptions p)) d bs) w = (Inl status, w') \<Longrightarrow>
      ProcessRequest (message_bytes (SetRequestM (set_block_message iv d n bs k))) (p, w) =
      (Inl status, p\<lparr>setBlocks := EmptySetRequestBlockState\<rparr>, w')"
proof -
  let ?q = "set_block_message iv d n bs k"
  obtain cid where run: "ProcessRequest (message_bytes (SetRequestM ?q)) (p, w) =
    (let (response, blocks, w') = ProcessSetRequest (apdu_of (SetRequestM ?q)) (dispatcher p) (processorOptions p) None cid (setBlocks p, w)
     in (response, p\<lparr>setBlocks := blocks\<rparr>, w'))"
    using ProcessRequest_set [OF set_block_fits(1) assms(1)] assms(7) by blast
  have idle: "\<not> sb_active EmptySetRequestBlockState" by (simp add: EmptySetRequestBlockState_def)
  have options: "ParseServiceOptions iv (processorOptions p) = request_options copts (processorOptions p)"
    "maxBlockTransferBytes (request_options copts (processorOptions p)) = maxBlockTransferBytes (processorOptions p)"
    "confirmed (request_options copts (processorOptions p))" "iv AND 0x0f = i"
    using assms(3,4,5) by (simp_all add: parse_made_options request_options_def)
  have raw: "length (take n (drop (k * n) bs)) \<le> length bs - k * n" "length (take (k * n) bs) = k * n" using assms(8) by simp_all
  have chunks: "take n bs = bs" if "length bs \<le> n" using that by simp
  note facts = ProcessSetRequest.simps Let_def set_block_message_def set_consts set_transfer_def options assms(2) idle
    first_set_block_def next_set_block_def bad_view_def set_selected_def WithSelection_default_def
    ToXdlmsDescriptor_ToApduDescriptor assms(6) acknowledge_set_def finish_set_def set_indication_def
  show "ProcessRequest (message_bytes (SetRequestM ?q)) (p, w) =
      (Inr (message_bytes (SetResponseM (set_response_message 2 iv 0 (of_nat k + 1)))),
       p\<lparr>setBlocks := set_transfer i (request_options copts (processorOptions p)) d n bs (Suc k)\<rparr>, w)"
    if "\<not> length bs \<le> Suc k * n"
    unfolding run using that assms(8,9) take_chunk [of k n bs] by (cases k) (simp_all add: facts)
  show "ProcessRequest (message_bytes (SetRequestM ?q)) (p, w) =
      (Inr (message_bytes (SetResponseM (set_response_message 3 (MakeInvokeIdAndPriority i (request_options copts (processorOptions p)))
         (set_accessResult result) (of_nat k + 1)))), p\<lparr>setBlocks := EmptySetRequestBlockState\<rparr>, w')"
    if "length bs \<le> Suc k * n" "DispatchSet (dispatcher p) (set_indication i (request_options copts (processorOptions p)) d bs) w = (Inr result, w')"
    unfolding run using that assms(8,9) take_chunk [of k n bs] by (cases k) (simp_all add: facts, linarith)
  show "ProcessRequest (message_bytes (SetRequestM ?q)) (p, w) = (Inl status, p\<lparr>setBlocks := EmptySetRequestBlockState\<rparr>, w')"
    if "length bs \<le> Suc k * n" "DispatchSet (dispatcher p) (set_indication i (request_options copts (processorOptions p)) d bs) w = (Inl status, w')"
    unfolding run using that assms(2,8,9) take_chunk [of k n bs] by (cases k) (simp_all add: facts, linarith)
qed


subsection \<open>The client's loop\<close>

definition set_outcome :: "u8 \<Rightarrow> SetResult \<Rightarrow> XdlmsStatus \<times> SetResult" where
  "set_outcome i result = (if set_accessResult result = 0 then XdlmsStatus.Ok else ServiceRejected, result\<lparr>set_invokeId := i\<rparr>)"

lemma ValidateSetBlockResponse_replies:
  "iv AND 0x0f = i \<Longrightarrow> ValidateSetBlockResponse (apdu_of (SetResponseM (set_response_message 2 iv 0 n))) i n False = (XdlmsStatus.Ok, EmptySetResult)"
  "iv AND 0x0f = i \<Longrightarrow> ValidateSetBlockResponse (apdu_of (SetResponseM (set_response_message 3 iv (set_accessResult result) n))) i n True
     = set_outcome i result"
  by (simp_all add: ValidateSetBlockResponse_def set_response_message_def set_outcome_def)

lemma set_block_step_answer:
  assumes "offset < length bs" "ctx_sink trace = None"
    and m: "m = (if length bs - offset < maxSetBlockPayloadBytes copts then length bs - offset else maxSetBlockPayloadBytes copts)"
    and "SendAndReceive (client_channel c) (client_security c)
        (MakeSetRequestBlock (if bn = 1 then kWithFirstDataBlockChoice else kWithDataBlockChoice) iv d bn (offset + m = length bs)
          (View (take m (drop offset bs)))) (at_block bn trace) e = (Inr response, e')"
    and "ValidateSetBlockResponse response i bn (offset + m = length bs) = (status, r)"
  shows "set_block_step c trace i iv copts d bs (offset, bn, e) =
      (if status \<noteq> XdlmsStatus.Ok \<or> offset + m = length bs then Inl ((status, r), e') else Inr (offset + m, bn + 1, e'))"
proof -
  have "\<not> length bs \<le> offset" using assms(1) by simp
  then show ?thesis
    unfolding set_block_step_def Let_def prod.case m [symmetric] assms(4,5) if_not_P sum.case
    using assms(2) by (auto simp: invoke_rejected_def)
qed

lemma set_blocks_loop:
  assumes "client_channel c = channel" "client_security c = None" "ctx_sink trace = None"
    and "quiet p" "setBlocks p = EmptySetRequestBlockState" "confirmed copts" "iv = MakeInvokeIdAndPriority i copts" "i AND 0x0f = i"
    and "length (attribute_instanceId d) = 6" "n = maxSetBlockPayloadBytes copts" "0 < n" "n \<le> 2027"
    and "length bs \<le> maxBlockTransferBytes (processorOptions p)" "length bs < 2 ^ 32"
    and "DispatchSet (dispatcher p) (set_indication i (request_options copts (processorOptions p)) d bs) w = (Inr result, w')"
    and "k * n < length bs"
    and "server e = (p\<lparr>setBlocks := set_transfer i (request_options copts (processorOptions p)) d n bs k\<rparr>, w)" and "delivers channel server e"
  shows "\<exists>e'. loop_until (set_block_step c trace i iv copts d bs) (k * n, of_nat k + 1, e) = Some (set_outcome i result, e') \<and> server e' = (p, w')"
  using assms(16-18)
proof (induction "length bs - k * n" arbitrary: k e rule: less_induct)
  case less
  let ?po = "request_options copts (processorOptions p)"
  let ?p = "p\<lparr>setBlocks := set_transfer i ?po d n bs k\<rparr>" and ?last = "length bs \<le> Suc k * n"
  let ?request = "MakeSetRequestBlock (if of_nat k + 1 = (1 :: u32) then kWithFirstDataBlockChoice else kWithDataBlockChoice)
       iv d (of_nat k + 1) ?last (View (take n (drop (k * n) bs)))"
  have "k \<le> k * n" using assms(11) by simp
  then have small: "k < 2 ^ 32" using less.prems(1) assms(14) by linarith
  have p: "quiet ?p" "setBlocks ?p = set_transfer i (request_options copts (processorOptions ?p)) d n bs k"
    "length bs \<le> maxBlockTransferBytes (processorOptions ?p)"
    using assms(4,13) by (simp_all add: quiet_def)
  note served = ProcessRequest_set_block [OF p(1,2) assms(6-9) assms(12) less.prems(1) p(3), of w]
  note exchange = SendAndReceive_delivered [OF less.prems(3) _ set_requests_sent(2) [OF assms(12) small], where trace = "at_block (of_nat k + 1) trace"]
  define remaining where "remaining = length bs - k * n"
  define m where "m = (if remaining < n then remaining else n)"
  have m: "k * n + m = length bs \<longleftrightarrow> ?last" "\<not> ?last \<Longrightarrow> m = n" "take m (drop (k * n) bs) = take n (drop (k * n) bs)"
    using less.prems(1) by (auto simp: m_def remaining_def)
  have step: "set_block_step c trace i iv copts d bs (k * n, of_nat k + 1, e) =
      (if status \<noteq> XdlmsStatus.Ok \<or> ?last then Inl ((status, r), e') else Inr (k * n + m, of_nat k + 1 + 1, e'))"
    if "SendAndReceive channel None ?request (at_block (of_nat k + 1) trace) e = (Inr response, e')"
      "ValidateSetBlockResponse response i (of_nat k + 1) ?last = (status, r)" for response e' status r
    using set_block_step_answer [OF less.prems(1) assms(3), of m copts c "of_nat k + 1" iv d e response e' i status r]
      that less.prems(1) assms(1,2,10) unfolding m(1,3) by (simp add: m_def remaining_def)
  show ?case
  proof (cases ?last)
    case True
    from served(2) [OF True, of result w'] assms(5,15) less.prems(2) have
      "ProcessRequest (message_bytes (SetRequestM (set_block_message iv d n bs k))) (server e) =
        (Inr (message_bytes (SetResponseM (set_response_message 3 (MakeInvokeIdAndPriority i ?po) (set_accessResult result) (of_nat k + 1)))), p, w')"
      by simp
    from exchange [OF _ this _ set_block_fits(2) [OF assms(12)]] assms(3) obtain e' where
      e': "SendAndReceive channel None ?request (at_block (of_nat k + 1) trace) e =
          (Inr (apdu_of (SetResponseM (set_response_message 3 (MakeInvokeIdAndPriority i ?po) (set_accessResult result) (of_nat k + 1)))), e')"
        "server e' = (p, w')" by auto
    with step [OF e'(1)] ValidateSetBlockResponse_replies(2) [of "MakeInvokeIdAndPriority i ?po" i result "of_nat k + 1"] True assms(8) show ?thesis
      by (subst loop_until.simps) (simp add: set_outcome_def del: apdu_of.simps)
  next
    case False
    from served(1) [OF False] less.prems(2) have
      "ProcessRequest (message_bytes (SetRequestM (set_block_message iv d n bs k))) (server e) =
        (Inr (message_bytes (SetResponseM (set_response_message 2 iv 0 (of_nat k + 1)))), p\<lparr>setBlocks := set_transfer i ?po d n bs (Suc k)\<rparr>, w)"
      by simp
    from exchange [OF _ this _ set_block_fits(2) [OF assms(12)]] assms(3) obtain e' where
      e': "SendAndReceive channel None ?request (at_block (of_nat k + 1) trace) e =
          (Inr (apdu_of (SetResponseM (set_response_message 2 iv 0 (of_nat k + 1)))), e')"
        "server e' = (p\<lparr>setBlocks := set_transfer i ?po d n bs (Suc k)\<rparr>, w)" "delivers channel server e'" by auto
    have step': "set_block_step c trace i iv copts d bs (k * n, of_nat k + 1, e) = Inr (Suc k * n, of_nat (Suc k) + 1, e')"
      using step [OF e'(1)] ValidateSetBlockResponse_replies(1) [of iv i "of_nat k + 1"] False m(2) assms(7,8) by (simp add: add.commute del: apdu_of.simps)
    have more: "Suc k * n < length bs" and less': "length bs - Suc k * n < length bs - k * n" using False less.prems(1) assms(11) by auto
    from less.hyps [OF less' more e'(2,3)] step' show ?thesis by (subst loop_until.simps) simp
  qed
qed


subsection \<open>The whole SET\<close>

text \<open>
  The bytes that the server's dispatcher is given for the bytes the client is given: in one request they are decoded and
  encoded again on their way, and then have to fit; in blocks they arrive as they are.
\<close>

definition carried :: "ServiceOptions \<Rightarrow> ServiceOptions \<Rightarrow> bytes \<Rightarrow> bytes \<Rightarrow> bool" where
  "carried copts po bs v \<longleftrightarrow>
     (if length bs \<le> maxSetBlockPayloadBytes copts then recoded bs = Some v \<and> length v \<le> 2035
      else v = bs \<and> 0 < maxSetBlockPayloadBytes copts \<and> maxSetBlockPayloadBytes copts \<le> 2027 \<and> allowBlockTransfer copts
        \<and> length bs \<le> maxBlockTransferBytes po \<and> length bs < 2 ^ 32)"

lemma carried_nonempty: "carried copts po bs v \<Longrightarrow> v \<noteq> []"
proof -
  have "data_bytes x \<noteq> []" "[] \<noteq> data_bytes x" for x by (cases x, simp)+
  then show "carried copts po bs v \<Longrightarrow> v \<noteq> []" by (auto simp: carried_def split: if_splits dest: recoded_represented)
qed

lemma client_DecodeEncodedData_server: "client_DecodeEncodedData bs = Inr x \<longleftrightarrow> DecodeEncodedData bs = Inr x"
  by (auto simp: client_DecodeEncodedData_def DecodeEncodedData_def)

lemma ProcessRequest_normal_set:
  assumes "quiet p" "confirmed copts" "i AND 0x0f = i" "length (attribute_instanceId d) = 6" "represented 8 x" "length (data_bytes x) \<le> 2035"
  defines "indication \<equiv> set_indication i (request_options copts (processorOptions p)) d (data_bytes x)"
  shows "DispatchSet (dispatcher p) indication w = (Inr result, w') \<Longrightarrow>
      ProcessRequest (message_bytes (SetRequestM (set_normal_message (MakeInvokeIdAndPriority i copts) d x))) (p, w) =
      (Inr (message_bytes (SetResponseM (set_response_message 1 (MakeInvokeIdAndPriority i (request_options copts (processorOptions p)))
         (set_accessResult result) 0))), p, w')"
    and "DispatchSet (dispatcher p) indication w = (Inl status, w') \<Longrightarrow>
      ProcessRequest (message_bytes (SetRequestM (set_normal_message (MakeInvokeIdAndPriority i copts) d x))) (p, w) = (Inl status, p, w')"
proof -
  let ?q = "set_normal_message (MakeInvokeIdAndPriority i copts) d x"
  obtain cid where run: "ProcessRequest (message_bytes (SetRequestM ?q)) (p, w) =
    (let (response, blocks, w') = ProcessSetRequest (apdu_of (SetRequestM ?q)) (dispatcher p) (processorOptions p) None cid (setBlocks p, w)
     in (response, p\<lparr>setBlocks := blocks\<rparr>, w'))"
    using ProcessRequest_set [OF set_normal_fits(1) [OF assms(5,6)] assms(1)] by blast
  have encoded: "EncodeDataBytes x = Inr (data_bytes x)"
    using writes_fresh [OF datac.wr_writes [OF assms(5)], of 65535] assms(6) by (simp add: EncodeDataBytes_def ApduWriter_init_def)
  have normal: "setRequest_choice ?q = 1" "setRequest_invokeIdAndPriority ?q = MakeInvokeIdAndPriority i copts"
    "setRequest_normal ?q = set_selected d" "setRequest_data ?q = x" "\<not> hasSelection (set_selected d)" "selectedDescriptor (set_selected d) = ToApduDescriptor d"
    by (simp_all add: set_normal_message_def get_consts set_selected_def)
  have options: "ParseServiceOptions (MakeInvokeIdAndPriority i copts) (processorOptions p) = request_options copts (processorOptions p)"
    "confirmed (request_options copts (processorOptions p))"
    using assms(2) by (simp_all add: parse_made_options request_options_def)
  show "DispatchSet (dispatcher p) indication w = (Inr result, w') \<Longrightarrow>
      ProcessRequest (message_bytes (SetRequestM ?q)) (p, w) =
      (Inr (message_bytes (SetResponseM (set_response_message 1 (MakeInvokeIdAndPriority i (request_options copts (processorOptions p)))
         (set_accessResult result) 0))), p, w')"
    unfolding run using assms(3,4)
    by (simp add: ProcessSetRequest.simps Let_def set_consts normal normal_requests encoded options ToXdlmsDescriptor_ToApduDescriptor
        set_indication_def indication_def)
  show "DispatchSet (dispatcher p) indication w = (Inl status, w') \<Longrightarrow>
      ProcessRequest (message_bytes (SetRequestM ?q)) (p, w) = (Inl status, p, w')"
    unfolding run using assms(3,4)
    by (simp add: ProcessSetRequest.simps Let_def set_consts normal normal_requests encoded options ToXdlmsDescriptor_ToApduDescriptor
        set_indication_def indication_def)
qed

text \<open>
  The last request of the client's \<open>Set\<close>, which makes the server's dispatcher run, and the processor that receives it: in one
  request the idle one, in blocks the one that has collected all blocks before.
\<close>

definition last_set_request ::
    "u8 \<Rightarrow> ServiceOptions \<Rightarrow> AttributeDescriptor \<Rightarrow> bytes \<Rightarrow> 'w XdlmsServerApduProcessor \<Rightarrow> SetRequest \<times> 'w XdlmsServerApduProcessor" where
  "last_set_request i copts d bs p =
     (let iv = MakeInvokeIdAndPriority i copts; n = maxSetBlockPayloadBytes copts; k = (length bs - 1) div n in
      if length bs \<le> n
      then (set_normal_message iv d (case DecodeEncodedData bs of Inr x \<Rightarrow> x | Inl _ \<Rightarrow> DlmsData_default), p)
      else (set_block_message iv d n bs k, p\<lparr>setBlocks := set_transfer i (request_options copts (processorOptions p)) d n bs k\<rparr>))"

lemma set_unanswered:
  assumes "quiet p" "setBlocks p = EmptySetRequestBlockState" "confirmed copts" "i AND 0x0f = i" "length (attribute_instanceId d) = 6"
    and "carried copts (processorOptions p) bs v"
    and "DispatchSet (dispatcher p) (set_indication i (request_options copts (processorOptions p)) d v) w = (Inl status, w')"
    and "last_set_request i copts d bs p = (q, p1)"
  shows "ProcessRequest (message_bytes (SetRequestM q)) (p1, w) = (Inl status, p, w')"
proof (cases "length bs \<le> maxSetBlockPayloadBytes copts")
  case True
  with assms(6) obtain x where x: "DecodeEncodedData bs = Inr x" "represented 8 x" "v = data_bytes x" "length (data_bytes x) \<le> 2035"
    by (auto simp: carried_def dest: recoded_represented)
  with True assms(8) have "q = set_normal_message (MakeInvokeIdAndPriority i copts) d x" "p1 = p"
    by (auto simp: last_set_request_def Let_def)
  with ProcessRequest_normal_set(2) [OF assms(1,3-5) x(2,4)] assms(7) x(3) show ?thesis by simp
next
  case False
  define n where "n = maxSetBlockPayloadBytes copts"
  define k where "k = (length bs - 1) div n"
  let ?po = "request_options copts (processorOptions p)"
  let ?p = "p\<lparr>setBlocks := set_transfer i ?po d n bs k\<rparr>"
  have q: "q = set_block_message (MakeInvokeIdAndPriority i copts) d n bs k" "p1 = ?p"
    using False assms(8) by (auto simp: last_set_request_def Let_def n_def k_def)
  have n: "v = bs" "0 < n" "n \<le> 2027" "length bs \<le> maxBlockTransferBytes (processorOptions p)" "0 < length bs"
    using False assms(6) by (auto simp: carried_def n_def)
  have "n * k \<le> length bs - 1" by (simp add: k_def)
  moreover have "length bs - 1 < n * Suc k" using dividend_less_times_div [OF n(2), of "length bs - 1"] by (simp add: k_def)
  ultimately have k: "k * n < length bs" "length bs \<le> Suc k * n" using n(5) by (simp_all add: mult.commute [of k] less_eq_Suc_le)
  have p: "quiet ?p" "setBlocks ?p = set_transfer i (request_options copts (processorOptions ?p)) d n bs k"
    "length bs \<le> maxBlockTransferBytes (processorOptions ?p)" "?p\<lparr>setBlocks := EmptySetRequestBlockState\<rparr> = p"
    using assms(1,2) n(4) by (simp_all add: quiet_def)
  from ProcessRequest_set_block(3) [OF p(1,2) assms(3) refl assms(4,5) n(3) k(1) p(3) k(2), of w status w'] assms(7) n(1) p(4)
  show ?thesis unfolding q by simp
qed

lemma set_normal_exchange:
  assumes "connected server c e p w" "length (attribute_instanceId d) = 6" "confirmed copts" "i = client_invokeIds c"
    and "DispatchSet (dispatcher p) (set_indication i (request_options copts (processorOptions p)) d (data_bytes x)) w = (Inr result, w')"
    and "represented 8 x" "length (data_bytes x) \<le> 2035" "ctx_sink trace = None" "server e1 = (p, w)"
    and "delivers (client_channel c) server e1"
  shows "\<exists>response e2. SendAndReceive (client_channel c) None (set_request_apdu (MakeInvokeIdAndPriority i copts) d x) trace e1 = (Inr response, e2)
    \<and> finish_normal_set trace i response e2 = (set_outcome i result, e2) \<and> server e2 = (p, w')"
proof -
  note c = assms(1) [unfolded connected_def]
  have i: "i AND 0x0f = i" using c assms(4) by simp
  let ?r = "set_response_message 1 (MakeInvokeIdAndPriority i (request_options copts (processorOptions p))) (set_accessResult result) 0"
  have "ProcessRequest (message_bytes (SetRequestM (set_normal_message (MakeInvokeIdAndPriority i copts) d x))) (server e1)
      = (Inr (message_bytes (SetResponseM ?r)), p, w')"
    using ProcessRequest_normal_set(1) [OF _ assms(3) i assms(2,6,7), of p w result w'] assms(5) c assms(9) by simp
  from SendAndReceive_delivered [OF assms(10,8) set_requests_sent(1) [OF assms(6,7)] this _ set_normal_fits(2) [OF assms(6,7)]]
  obtain e2 where "SendAndReceive (client_channel c) None (set_request_apdu (MakeInvokeIdAndPriority i copts) d x) trace e1
      = (Inr (apdu_of (SetResponseM ?r)), e2)" "server e2 = (p, w')" by auto
  moreover have "finish_normal_set trace i (apdu_of (SetResponseM ?r)) e2 = (set_outcome i result, e2)"
    using i by (simp add: finish_normal_set_def Let_def set_response_message_def set_consts set_outcome_def)
  ultimately show ?thesis by blast
qed

lemma set_served:
  assumes "connected server c e p w" "ValidateDescriptor d = XdlmsStatus.Ok" "length (attribute_instanceId d) = 6" "confirmed copts"
    and "DispatchSet (dispatcher p) (set_indication (client_invokeIds c) (request_options copts (processorOptions p)) d v) w = (Inr result, w')"
    and "carried copts (processorOptions p) bs v"
  shows "\<exists>e'. XdlmsClient_Set d bs copts (c, e)
    = Some (set_outcome (client_invokeIds c) result, c\<lparr>client_invokeIds := snd (InvokeIdAllocator_Next (client_invokeIds c))\<rparr>, e')
      \<and> server e' = (p, w')"
proof -
  let ?i = "client_invokeIds c"
  note c = assms(1) [unfolded connected_def]
  obtain trace e1 where begun: "begin_service TraceSetRequest TraceSetResponse copts (FillDescriptor d) c e =
      (?i, MakeInvokeIdAndPriority ?i copts, trace, c\<lparr>client_invokeIds := snd (InvokeIdAllocator_Next ?i)\<rparr>, e1)"
      "ctx_sink trace = None" "server e1 = (p, w)" "delivers (client_channel c) server e1"
    using begin_service_connected [OF assms(1), of "FillDescriptor d" TraceSetRequest TraceSetResponse copts]
    by (auto simp: FillDescriptor_def)
  show ?thesis
  proof (cases "length bs \<le> maxSetBlockPayloadBytes copts")
    case True
    with assms(6) obtain x where x: "represented 8 x" "length (data_bytes x) \<le> 2035" "v = data_bytes x" "DecodeEncodedData bs = Inr x"
      by (auto simp: carried_def dest: recoded_represented)
    then have "client_DecodeEncodedData bs = Inr x" by (simp add: client_DecodeEncodedData_server)
    with set_normal_exchange [OF assms(1,3,4) refl assms(5) [unfolded x(3)] x(1,2) begun(2-4)] begun(1) c assms(2) True
    show ?thesis by (auto simp: XdlmsClient_Set.simps Let_def)
  next
    case False
    with assms(6) have n: "0 < maxSetBlockPayloadBytes copts" "maxSetBlockPayloadBytes copts \<le> 2027" "allowBlockTransfer copts"
      "length bs \<le> maxBlockTransferBytes (processorOptions p)" "length bs < 2 ^ 32" "v = bs" and "bs \<noteq> []"
      by (auto simp: carried_def)
    have "\<exists>e'. loop_until (set_block_step c trace ?i (MakeInvokeIdAndPriority ?i copts) copts d bs) (0 * maxSetBlockPayloadBytes copts, of_nat 0 + 1, e1)
        = Some (set_outcome ?i result, e') \<and> server e' = (p, w')"
      using c begun(3,4) \<open>bs \<noteq> []\<close>
      by (intro set_blocks_loop [OF refl _ begun(2) _ _ assms(4) refl _ assms(3) refl n(1,2,4,5) assms(5) [unfolded n(6)]]) (auto simp: set_transfer_def)
    with begun(1) c assms(2) False n \<open>bs \<noteq> []\<close> show ?thesis
      by (cases "set_outcome ?i result") (auto simp: XdlmsClient_Set.simps Let_def)
  qed
qed

text \<open>
  C5: A SET arrives. When client and server are connected (the channel delivers, the client is associated, neither side
  has security, a trace sink or a correlated channel, no transfer is under way) and the value is within their limits,
  the client's \<open>Set\<close> ends and the server's dispatcher runs exactly once, on the client's descriptor. It is
  given, if the value goes in one request, the encoding of the data that the value decodes to (at most 2035 bytes; the same bytes if
  the value was such an encoding, but a boolean 255 arrives as 1), and if it goes in blocks (of at
  most 2027 bytes, allowed by the client, and together within the limit of the server) exactly the bytes of the value.
  The client returns the access result of the dispatcher, \<open>Ok\<close> when it is zero and \<open>ServiceRejected\<close>
  otherwise, and the server is idle again. If the dispatcher fails without an access result, the request that made it run
  is not answered: the processor reports the status of the dispatcher.
\<close>

theorem set_exchange:
  assumes "connected server c e p w" "ValidateDescriptor d = XdlmsStatus.Ok" "length (attribute_instanceId d) = 6" "confirmed copts"
    and "DispatchSet (dispatcher p) (set_indication (client_invokeIds c) (request_options copts (processorOptions p)) d v) w = (outcome, w')"
    and "carried copts (processorOptions p) bs v"
  shows "case outcome of
      Inr result \<Rightarrow> (\<exists>e'. XdlmsClient_Set d bs copts (c, e)
        = Some (set_outcome (client_invokeIds c) result, c\<lparr>client_invokeIds := snd (InvokeIdAllocator_Next (client_invokeIds c))\<rparr>, e')
          \<and> server e' = (p, w'))
    | Inl status \<Rightarrow> (let (q, p1) = last_set_request (client_invokeIds c) copts d bs p
        in ProcessRequest (message_bytes (SetRequestM q)) (p1, w) = (Inl status, p, w'))"
proof (cases outcome)
  case (Inl status)
  have "ProcessRequest (message_bytes (SetRequestM q)) (p1, w) = (Inl status, p, w')"
    if "last_set_request (client_invokeIds c) copts d bs p = (q, p1)" for q p1
    using assms(1) assms(5) [unfolded Inl] that by (intro set_unanswered [OF _ _ assms(4) _ assms(3,6)]) (simp_all add: connected_def)
  with Inl show ?thesis by (simp split: prod.split)
next
  case (Inr result)
  with set_served [OF assms(1-4) _ assms(6)] assms(5) show ?thesis by simp
qed

text \<open>The instances: five bytes in blocks of two, and a boolean that is encoded again.\<close>

theorem set_exchange_witness:
  "(\<exists>e'. XdlmsClient_Set example_attribute [0x09, 3, 7, 8, 9] example_options (example_client, example_processor, 0, None)
     = Some ((XdlmsStatus.Ok, \<lparr>set_invokeId = 1, set_accessResult = 0\<rparr>), example_client\<lparr>client_invokeIds := 2\<rparr>, e')
       \<and> direct_server e' = (example_processor, 5))
   \<and> carried example_options example_options [0x03, 0xff] [0x03, 0x01]
   \<and> (\<exists>e'. XdlmsClient_Set example_attribute [0x03, 0xff] example_options (example_client, example_processor, 0, None)
     = Some ((XdlmsStatus.Ok, \<lparr>set_invokeId = 1, set_accessResult = 0\<rparr>), example_client\<lparr>client_invokeIds := 2\<rparr>, e')
       \<and> direct_server e' = (example_processor, 2))"
proof -
  have id: "client_invokeIds example_client = 1" "snd (InvokeIdAllocator_Next 1) = 2"
    by (simp_all add: example_client_def XdlmsClient_init_def InvokeIdAllocator_init_def InvokeIdAllocator_Next_def)
  have dispatched: "DispatchSet (dispatcher example_processor) (set_indication (client_invokeIds example_client)
      (request_options example_options (processorOptions example_processor)) example_attribute bs) 0
    = (Inr \<lparr>set_invokeId = 1, set_accessResult = 0\<rparr>, length bs)" if "bs \<noteq> []" for bs
    using that by (simp add: example_processor_def XdlmsServerApduProcessor_init_def XdlmsServerDispatcher_of_def
        XdlmsServerDispatcher_DispatchSet_def example_handler_def set_indication_def id ValidateInvokeId_def example_valid EmptySetResult_def)
  have options: "processorOptions example_processor = example_options" "confirmed example_options"
    by (simp_all add: example_processor_def XdlmsServerApduProcessor_init_def example_options_def DefaultServiceOptions_def)
  have "DecodeDlmsData (View [0x03, 0xff]) (Suc d) = Inr (DlmsData kBooleanTag True 0 0 (NullView 0) [])" for d
    by (simp add: DecodeDlmsData_def DecodeDlmsDataFromReader_def ApduReader_init_at try_then_def ReadU8_at
        data_tags ReadAxdrBoolean_def)
  from this [of 7] have fits: "carried example_options example_options [0x09, 3, 7, 8, 9] [0x09, 3, 7, 8, 9]"
    "carried example_options example_options [0x03, 0xff] [0x03, 0x01]"
    by (simp_all add: carried_def example_options_def DefaultServiceOptions_def recoded_def DecodeEncodedData_def reported_def data_tags)
  show ?thesis
    using set_exchange [OF example_connected example_valid options(2) dispatched, of "[0x09, 3, 7, 8, 9]" "[0x09, 3, 7, 8, 9]"]
      set_exchange [OF example_connected example_valid options(2) dispatched, of "[0x03, 0x01]" "[0x03, 0xff]"] fits
    by (simp add: id set_outcome_def options(1) flip: numeral_2_eq_2)
qed

subsection \<open>Termination\<close>

text \<open>
  C25: The client's \<open>Set\<close> returns for every channel, association, security processor and trace sink: whatever the
  peer answers, each step of the block transfer sends at least one more byte of the data or ends the loop.
\<close>

theorem set_returns: "\<exists>r. XdlmsClient_Set d bs options (c, e) = Some r"
proof -
  have "\<exists>r. loop_until (set_block_step c' trace i iv options d bs) (0, 1, e') = Some r" if "0 < maxSetBlockPayloadBytes options" for c' trace i iv e'
    using that
    by (intro loop_until_ends [where I = "\<lambda>_. True" and m = "\<lambda>(offset, n, e). length bs - offset"])
      (auto simp: set_block_step_def Let_def split: if_splits sum.splits prod.splits)
  then show ?thesis
    by (fastforce simp: XdlmsClient_Set.simps Let_def split: sum.split prod.split)
qed







text \<open>A channel that answers everything with the same ciphered APDU, and one that answers with empty blocks for ever.\<close>

definition answering_channel :: "('e \<Rightarrow> bytes \<times> 'e) \<Rightarrow> 'e ApduChannel" where
  "answering_channel answer = \<lparr>channel_Open = (\<lambda>e. (ProfileStatus.Ok, e)), channel_Close = (\<lambda>e. (ProfileStatus.Ok, e)),
     channel_SendApdu = (\<lambda>v e. (ProfileStatus.Ok, e)),
     channel_ReceiveApdu = (\<lambda>e. let (bs, e') = answer e in ((ProfileStatus.Ok, bs), e')), channel_SetCorrelation = (\<lambda>cid e. e)\<rparr>"

definition answered_client :: "('e \<Rightarrow> bytes \<times> 'e) \<Rightarrow> 'e XdlmsClient" where
  "answered_client answer =
     XdlmsClient_init (answering_channel answer) \<lparr>association_IsAssociated = (\<lambda>e. True), association_ConversationSeed = (\<lambda>e. 0)\<rparr> None"

lemma answered_client_simps [simp]:
  "client_channel (answered_client answer) = answering_channel answer" "client_security (answered_client answer) = None"
  "client_traceSink (answered_client answer) = None" "client_invokeIds (answered_client answer) = 1"
  "association_IsAssociated (client_association (answered_client answer)) e"
  by (simp_all add: answered_client_def XdlmsClient_init_def InvokeIdAllocator_init_def)


text \<open>A loop all of whose steps go on has no result.\<close>

definition empty_block :: "u32 \<Rightarrow> GetResponse" where
  "empty_block n = get_block_message 0x81 False n []"

definition starved :: "GetResponse \<times> BlockTransferManager \<times> u32 \<Rightarrow> bool" where
  "starved = (\<lambda>(response, m, n). response = empty_block (nextBlockNumber m) \<and> blockData m = [] \<and> n = nextBlockNumber m + 1)"

text \<open>
  C27: Without progress the GET need not end: a peer that answers every request with the next empty block keeps
  the client's \<open>Get\<close> running for ever. The limit on the collected bytes does not help, and the
  block number wraps around.
\<close>

theorem get_can_run_forever:
  "XdlmsClient_Get example_attribute None DefaultServiceOptions
     (answered_client (\<lambda>n. (message_bytes (GetResponseM (empty_block n)), n + 1)), 1) = None"
proof -
  let ?c = "answered_client (\<lambda>n. (message_bytes (GetResponseM (empty_block n)), n + 1))"
  have received: "ReceiveGetResponse (client_channel ?c) None q trace n = (Inr (apdu_of (GetResponseM (empty_block n))), n + 1)"
    if "reported EncodeFailed (EncodeXdlmsApdu q) = Inr bs" "ctx_sink trace = None" for q bs trace n
    using that DecodeXdlmsApdu_message [of "GetResponseM (empty_block n)"]
    by (simp add: ReceiveGetResponse_def SendAndReceive_def reported_Inr protect_with_def unprotect_with_def answering_channel_def Let_def
        empty_block_def size_t_modulus_def pointer_view_message [of "GetResponseM x" for x, simplified])
  have "loop_until (get_block_step ?c trace 1 0x81) (empty_block 1, BlockTransferManager_init limit, 2) = None"
    if quiet_trace: "ctx_sink trace = None" for trace limit
  proof (rule loop_until_never [where I = starved])
    show "\<exists>s'. get_block_step ?c trace 1 0x81 s = Inr s' \<and> starved s'" if starved: "starved s" for s
      using starved received [OF request_sent(2) [of "0x81"] quiet_trace] quiet_trace
      by (auto simp: starved_def get_block_step_def Let_def AppendBlock_def empty_block_def get_block_message_def bad_view_def)
    show "starved (empty_block 1, BlockTransferManager_init limit, 2)"
      by (simp add: starved_def BlockTransferManager_init_def)
  qed
  moreover obtain q where q: "client_MakeGetRequestNormal 0x81 example_attribute None = Inr q" by (simp add: client_MakeGetRequestNormal_def Let_def)
  ultimately show ?thesis
    using received [OF request_sent(1) [OF q]]
    by (simp add: XdlmsClient_Get.simps example_valid begin_service_def InvokeIdAllocator_Next_def Let_def receive_get_def MakeInvokeIdAndPriority_def
        DefaultServiceOptions_def FillDescriptor_def MakeTraceContext_def answering_channel_def empty_block_def get_block_message_def get_consts)
qed

end
