(* ===== verification/Server_Laws.thy ===== *)
theory Server_Laws
  imports Cosem_Laws Server_Dispatch Xdlms_SetExchange
begin

text \<open>
  The server seen from outside: which reads, writes and invocations a request can cause (access control), which bytes
  its responses carry, along its whole history (\<open>released\<close>, \<open>response_carries\<close>), and what a client at the
  other end of a channel gets to see of an object.
\<close>

subsection \<open>Guarded devices\<close>

text \<open>
  The changes that an association may make to the objects: one write or one invocation that the rights of the object
  permit at that moment. Requests name no version of a class, and the adapter puts in 0.
\<close>

inductive object_change :: "(CosemObjectKey \<Rightarrow> 'e CosemObject option) \<Rightarrow> 'e ServerContext \<Rightarrow> 'e \<Rightarrow> 'e \<Rightarrow> bool" for object_of c e where
  written: "IsAssociated c \<Longrightarrow> key_version k = 0 \<Longrightarrow> object_of k = Some x \<Longrightarrow> CanWriteAttribute i (server_accessContext c) (object_AccessRights x e) \<Longrightarrow>
     object_WriteAttribute x i input e = (s, e') \<Longrightarrow> object_change object_of c e e'"
| invoked: "IsAssociated c \<Longrightarrow> key_version k = 0 \<Longrightarrow> object_of k = Some x \<Longrightarrow> CanInvokeMethod i (server_accessContext c) (object_AccessRights x e) \<Longrightarrow>
     object_InvokeMethod x i input e = (s, e') \<Longrightarrow> object_change object_of c e e'"

text \<open>
  What a logical device promises: it passes on what an object does, for the objects it has, and only as far as
  the access rights of the object go.
\<close>

definition guarded_read :: "'e CosemObject option \<Rightarrow> u8 \<Rightarrow> CosemAccessContext \<Rightarrow> 'e \<Rightarrow> CosemStatus \<times> bytes" where
  "guarded_read object i a e = (case object of None \<Rightarrow> (CosemStatus.ObjectNotFound, [])
   | Some x \<Rightarrow> if \<not> CanReadAttribute i a (object_AccessRights x e) then (CosemStatus.AccessDenied, [])
       else if fst (object_ReadAttribute x i e) = CosemStatus.Ok then object_ReadAttribute x i e
       else (fst (object_ReadAttribute x i e), []))"

definition guarded_write :: "'e CosemObject option \<Rightarrow> u8 \<Rightarrow> CosemAccessContext \<Rightarrow> bytes \<Rightarrow> 'e \<Rightarrow> CosemStatus \<times> 'e" where
  "guarded_write object i a input e = (case object of None \<Rightarrow> (CosemStatus.ObjectNotFound, e)
   | Some x \<Rightarrow> if \<not> CanWriteAttribute i a (object_AccessRights x e) then (CosemStatus.AccessDenied, e)
       else object_WriteAttribute x i input e)"

definition guarded_invoke :: "'e CosemObject option \<Rightarrow> u8 \<Rightarrow> CosemAccessContext \<Rightarrow> bytes \<Rightarrow> 'e \<Rightarrow> (CosemStatus \<times> bytes) \<times> 'e" where
  "guarded_invoke object i a input e = (case object of None \<Rightarrow> ((CosemStatus.ObjectNotFound, []), e)
   | Some x \<Rightarrow> if \<not> CanInvokeMethod i a (object_AccessRights x e) then ((CosemStatus.AccessDenied, []), e)
       else case object_InvokeMethod x i input e of ((s, bs), e') \<Rightarrow> ((s, if s = CosemStatus.Ok then bs else []), e'))"

locale guarded_device =
  fixes device :: "'e ILogicalDevice" and object_of :: "CosemObjectKey \<Rightarrow> 'e CosemObject option"
  assumes reads: "ValidateAttributeDescriptor d = CosemStatus.Ok \<Longrightarrow>
      device_ReadAttribute device d a e = guarded_read (object_of (attribute_object d)) (attribute_id d) a e"
    and writes: "ValidateAttributeDescriptor d = CosemStatus.Ok \<Longrightarrow>
      device_WriteAttribute device d a input e = guarded_write (object_of (attribute_object d)) (attribute_id d) a input e"
    and invokes: "cosem_ValidateMethodDescriptor m = CosemStatus.Ok \<Longrightarrow>
      device_InvokeMethod device m a input e = guarded_invoke (object_of (method_object m)) (method_id m) a input e"
begin

lemma HandleSet_guarded:
  assumes "Dispatcher_HandleSet c r e = (response, e')" "server_logicalDevice c = Some device" "e' \<noteq> e"
    and "key_version (attribute_object (ssr_descriptor r)) = 0"
  shows "object_change object_of c e e'"
  using assms by (auto simp: Dispatcher_HandleSet_def writes guarded_write_def Let_def intro: written split: if_splits prod.splits option.splits)

lemma HandleAction_guarded:
  assumes "Dispatcher_HandleAction c r e = (response, e')" "server_logicalDevice c = Some device" "e' \<noteq> e"
    and "key_version (method_object (sar_descriptor r)) = 0"
  shows "object_change object_of c e e'"
  using assms by (auto simp: Dispatcher_HandleAction_def invokes guarded_invoke_def Let_def intro: invoked split: if_splits prod.splits option.splits)

end

text \<open>A logical device keeps the promise for the objects of its registry.\<close>

definition device_object :: "'e LogicalDevice \<Rightarrow> CosemObjectKey \<Rightarrow> 'e CosemObject option" where
  "device_object d k = registry_find k (registry d)"

interpretation logical_device: guarded_device "LogicalDevice_of d" "device_object d" for d :: "'e LogicalDevice"
proof
  fix a :: ObjectAttribute and c e input
  assume "ValidateAttributeDescriptor a = CosemStatus.Ok"
  then show "device_ReadAttribute (LogicalDevice_of d) a c e = guarded_read (device_object d (attribute_object a)) (attribute_id a) c e"
    and "device_WriteAttribute (LogicalDevice_of d) a c input e = guarded_write (device_object d (attribute_object a)) (attribute_id a) c input e"
    by (auto simp: LogicalDevice_of_def Registry_ReadAttribute_def Registry_WriteAttribute_def guarded_read_def guarded_write_def
        device_object_def Find_def ValidateAttributeDescriptor_def Let_def split: option.splits if_splits prod.splits)
next
  fix m :: ObjectMethod and c e input
  assume "cosem_ValidateMethodDescriptor m = CosemStatus.Ok"
  then show "device_InvokeMethod (LogicalDevice_of d) m c input e = guarded_invoke (device_object d (method_object m)) (method_id m) c input e"
    by (simp add: LogicalDevice_of_def Registry_InvokeMethod_def guarded_invoke_def device_object_def Let_def split: option.split prod.split)
qed

subsection \<open>What a request can change\<close>

text \<open>Without a sink the world after a service is the one the dispatcher left, if it ran at all.\<close>

inductive dispatched :: "'e XdlmsServerDispatcher \<Rightarrow> 'e \<Rightarrow> 'e \<Rightarrow> bool" for D e where
  dispatched_none: "dispatched D e e"
| dispatched_get: "dispatched D e (snd (DispatchGet D i e))"
| dispatched_set: "dispatched D e (snd (DispatchSet D j e))"
| dispatched_action: "dispatched D e (snd (DispatchAction D k e))"

lemma dispatched_results:
  "DispatchGet D i e = (r, e') \<Longrightarrow> dispatched D e e'" "DispatchSet D j e = (r', e') \<Longrightarrow> dispatched D e e'"
  "DispatchAction D k e = (r'', e') \<Longrightarrow> dispatched D e e'"
  using dispatched.intros [of D e] by (metis snd_conv)+

lemma ProcessGetRequest_dispatched: "dispatched D e (snd (snd (ProcessGetRequest q D po None cid (b, e))))"
  by (auto simp: ProcessGetRequest.simps Let_def intro: dispatched_none dispatched_results split: prod.split sum.split)

lemma set_blocks_dispatched:
  "dispatched D e (snd (snd (finish_set D n i (b, e))))" "snd (snd (acknowledge_set r n None cid (b, e))) = e"
  by (auto simp: acknowledge_set_def finish_set_def intro: dispatched_results split: prod.split sum.split)

lemma ProcessSetRequest_dispatched: "dispatched D e (snd (snd (ProcessSetRequest q D po None cid (b, e))))"
proof -
  have "dispatched D e (snd (snd (first_set_block r D po None cid (b, e))))" for r
    by (simp add: first_set_block_def Let_def dispatched_none set_blocks_dispatched)
  moreover have "dispatched D e (snd (snd (next_set_block r D None cid (b, e))))" for r
    by (simp add: next_set_block_def Let_def dispatched_none set_blocks_dispatched)
  ultimately show ?thesis
    by (auto simp: ProcessSetRequest.simps Let_def intro: dispatched_none dispatched_results split: prod.split sum.split)
qed

lemma action_blocks_dispatched:
  "dispatched D e (snd (snd (finish_action D i (b, e))))" "snd (snd (acknowledge_action r n None cid (b, e))) = e"
  by (auto simp: acknowledge_action_def finish_action_def intro: dispatched_results split: prod.split sum.split)

lemma ProcessActionRequest_dispatched: "dispatched D e (snd (snd (ProcessActionRequest q D po None cid (b, e))))"
proof -
  have "dispatched D e (snd (snd (first_action_block r D po None cid (b, e))))" for r
    by (simp add: first_action_block_def Let_def dispatched_none action_blocks_dispatched)
  moreover have "dispatched D e (snd (snd (next_action_block r D None cid (b, e))))" for r
    by (simp add: next_action_block_def Let_def dispatched_none action_blocks_dispatched)
  ultimately show ?thesis
    by (auto simp: ProcessActionRequest.simps Let_def action_blocks_dispatched intro: dispatched_none split: sum.split)
qed

lemma run_service_dispatched: "traceSink p = None \<Longrightarrow> dispatched (dispatcher p) e (snd (snd (run_service q cid (p, e))))"
  using ProcessGetRequest_dispatched [of "dispatcher p" e q "processorOptions p" cid "getBlocks p"]
    ProcessSetRequest_dispatched [of "dispatcher p" e q "processorOptions p" cid "setBlocks p"]
    ProcessActionRequest_dispatched [of "dispatcher p" e q "processorOptions p" cid "actionBlocks p"]
  by (auto simp: dispatched_none split: XdlmsApduKind.split prod.split)

lemma ProcessRequest_dispatched:
  assumes "ProcessRequest bs (p, e) = (response, p', e')" "quiet p"
  shows "dispatched (dispatcher p) e e'"
proof (cases "DecodeXdlmsApdu (pointer_view bs)")
  case (Inl status)
  with assms show ?thesis by (simp add: ProcessRequest.simps quiet_def dispatched_none)
next
  case (Inr request)
  note p = assms(2) [unfolded quiet_def]
  define cid where "cid = MakeConversationId (case seedSource p of None \<Rightarrow> 0 | Some state \<Rightarrow> association_ConversationSeed state e)
    (request_invoke_id request)"
  obtain plain p1 e1 where run: "run_service request cid (p, e) = (plain, p1, e1)"
    by (cases "run_service request cid (p, e)") auto
  then have "quiet p1" "dispatched (dispatcher p) e e1"
    using run_service_quiet [OF run assms(2)] run_service_dispatched [of p e request cid] p by simp_all
  moreover from assms(1) p Inr run have "(case plain of Inl status \<Rightarrow> (Inl status, p1, e1)
      | Inr plainResponse \<Rightarrow> send_response cid plainResponse (p1, e1)) = (response, p', e')"
    unfolding cid_def by (simp add: ProcessRequest.simps Let_def correlate_def del: run_service.simps send_response.simps)
  ultimately show ?thesis by (auto simp: quiet_def Let_def split: sum.splits)
qed

subsection \<open>What a response can carry\<close>

text \<open>
  The value bytes in a response: a piece of the data of a source, sent as a block, or all of it, decoded and encoded
  again. Of a message \<open>carries_only\<close> says that all value bytes in it satisfy a predicate; messages that the server
  never sends do not satisfy it.
\<close>

definition piece_of :: "bytes \<Rightarrow> bytes \<Rightarrow> bool" where
  "piece_of src v \<longleftrightarrow> recoded src = Some v \<or> (\<exists>from n. v = take n (drop from src))"

fun carries_only :: "(bytes \<Rightarrow> bool) \<Rightarrow> xdlms_message \<Rightarrow> bool" where
  "carries_only P (GetResponseM r) \<longleftrightarrow>
     (if getResponse_choice r = kNormalChoice
      then resultChoice (getResponse_result r) = 1 \<or> P (data_bytes (resultData (getResponse_result r)))
      else getResponse_choice r = kNextChoice \<and> P (view_bytes (rawData (getResponse_dataBlock r))))"
| "carries_only P (SetResponseM r) \<longleftrightarrow> True"
| "carries_only P (ActionResponseM r) \<longleftrightarrow>
     (if actionResponse_choice r = kNormalChoice
      then \<not> item_hasReturnParameter (actionResponse_normal r) \<or> P (data_bytes (item_returnParameter (actionResponse_normal r)))
      else actionResponse_choice r = 4)"
| "carries_only P _ \<longleftrightarrow> False"

definition response_carries :: "(bytes \<Rightarrow> bool) \<Rightarrow> XdlmsStatus + bytes \<Rightarrow> bool" where
  "response_carries P response \<longleftrightarrow> (\<forall>a. response = Inr a \<longrightarrow> (\<exists>m. message_wf m \<and> a = message_bytes m \<and> carries_only P m))"

lemma response_carries_Inl [simp]: "response_carries P (Inl status)"
  by (simp add: response_carries_def)

lemma response_carries_failed: "Inl status = response \<Longrightarrow> response_carries P response"
  by auto

lemma response_carries_sent: "message_wf m \<Longrightarrow> carries_only P m \<Longrightarrow> response_carries P (sent_message m)"
  by (auto simp: response_carries_def sent_message_def)

declare carries_only.simps [simp del]

lemma carries_messages [simp]:
  "carries_only P (GetResponseM (get_block_message i l n raw)) \<longleftrightarrow> P raw"
  "carries_only P (GetResponseM (get_result_message i r)) \<longleftrightarrow> resultChoice r = 1 \<or> P (data_bytes (resultData r))"
  "carries_only P (ActionResponseM (action_result_message i it)) \<longleftrightarrow>
     \<not> item_hasReturnParameter it \<or> P (data_bytes (item_returnParameter it))"
  "carries_only P (ActionResponseM (action_next_message i n))" "carries_only P (SetResponseM s)"
  by (simp_all add: carries_only.simps response_messages get_consts action_consts)

lemma response_carries_set: "set_response_wf r \<Longrightarrow> response_carries P (Inr (set_response_bytes r))"
  using response_carries_sent [of "SetResponseM r" P] unfolding response_carries_def
  by (intro allI impI exI [of _ "SetResponseM r"]) simp

lemma EncodeGetResponse_carries:
  assumes "get_hasData result \<Longrightarrow> P (get_data result)" "\<And>src v. P src \<Longrightarrow> piece_of src v \<Longrightarrow> Q v"
  shows "response_carries Q (EncodeGetResponse_server i result)"
  using assms recoded_decoded
  by (auto simp: EncodeGetResponse_server_sent GetDataResult_default_def result_wf_def DecodeEncodedData_represented piece_of_def
      intro!: response_carries_sent split: sum.split)

lemma EncodeActionResponse_carries:
  assumes "action_hasData result \<Longrightarrow> P (action_data result)" "\<And>src v. P src \<Longrightarrow> piece_of src v \<Longrightarrow> Q v"
  shows "response_carries Q (EncodeActionResponse_server i result)"
  using assms recoded_decoded
  by (auto simp: EncodeActionResponse_server_sent response_item_wf_def optional_wf_def DecodeEncodedData_represented piece_of_def
      intro!: response_carries_sent split: sum.split)

text \<open>The data that an unfinished transfer keeps for later blocks.\<close>

definition kept_data :: "GetResponseBlockState \<Rightarrow> bytes set" where
  "kept_data b = (if gb_active b then {gb_data b} else {})"

lemma SendNext_carries:
  assumes "SendNextGetResponseBlock b = (response, b')" "get_blocks_ok po b" "gb_active b" "maxGetBlockPayloadBytes po < size_t_modulus"
    and "P (gb_data b)" "\<And>src v. P src \<Longrightarrow> piece_of src v \<Longrightarrow> Q v"
  shows "response_carries Q response \<and> kept_data b' \<subseteq> {gb_data b}"
proof (cases "maxGetBlockPayloadBytes po = 0")
  case True
  then have "maxGetBlockPayloadBytes (gb_options b) = 0"
    using assms(2,3) transfer_options_simps(2) [of po "gb_options b"] by (simp add: get_blocks_ok_def)
  then show ?thesis using assms(1) by (auto simp: SendNextGetResponseBlock_def kept_data_def EmptyGetResponseBlockState_def)
next
  case False
  let ?n = "maxGetBlockPayloadBytes po" and ?last = "length (gb_data b) \<le> gb_offset b + maxGetBlockPayloadBytes po"
  let ?raw = "take ?n (drop (gb_offset b) (gb_data b))"
  let ?m = "get_block_message (MakeInvokeIdAndPriority (gb_invokeId b) (gb_options b)) ?last (gb_nextBlockNumber b) ?raw"
  have "SendNextGetResponseBlock b = (case sent_message (GetResponseM ?m) of
       Inl status \<Rightarrow> (Inl status, EmptyGetResponseBlockState)
     | Inr r \<Rightarrow> (Inr r, if ?last then EmptyGetResponseBlockState
         else b\<lparr>gb_offset := gb_offset b + ?n, gb_nextBlockNumber := gb_nextBlockNumber b + 1\<rparr>))"
    using assms(2,3) [unfolded get_blocks_ok_def] False assms(4)
    by (intro SendNextGetResponseBlock_active) (simp_all add: transfer_options_simps)
  moreover have "piece_of (gb_data b) ?raw" by (auto simp: piece_of_def)
  then have "Q ?raw" using assms(5,6) by blast
  then have "response_carries Q (sent_message (GetResponseM ?m))"
    using assms(4) by (intro response_carries_sent) simp_all
  ultimately show ?thesis
    using assms(1) by (auto simp: kept_data_def EmptyGetResponseBlockState_def split: sum.splits if_splits)
qed

text \<open>What the dispatcher hands out in a world.\<close>

definition handed_out :: "'e XdlmsServerDispatcher \<Rightarrow> 'e \<Rightarrow> bytes \<Rightarrow> bool" where
  "handed_out D e src \<longleftrightarrow> (\<exists>i r. fst (DispatchGet D i e) = Inr r \<and> get_hasData r \<and> get_data r = src)
     \<or> (\<exists>i r. fst (DispatchAction D i e) = Inr r \<and> action_hasData r \<and> action_data r = src)"

lemma OrStartBlocks_carries:
  assumes "EncodeGetResponseOrStartBlocks i indication result b = (response, b')" "get_blocks_ok po b"
    and "transfer_options po (getInd_options indication)" "maxGetBlockPayloadBytes po < size_t_modulus" "getInd_invokeId indication AND 0x0f = getInd_invokeId indication"
    and "get_hasData result \<Longrightarrow> P (get_data result)" "\<And>src v. P src \<Longrightarrow> piece_of src v \<Longrightarrow> Q v"
  shows "response_carries Q response \<and> (\<forall>src\<in>kept_data b'. src \<in> kept_data b \<or> P src)"
proof -
  let ?start = "\<lparr>gb_active = True, gb_invokeId = getInd_invokeId indication, gb_options = getInd_options indication,
    gb_nextBlockNumber = 1, gb_offset = 0, gb_data = get_data result\<rparr>"
  have start: "response_carries Q response \<and> (\<forall>src\<in>kept_data b'. src \<in> kept_data b \<or> P src)"
    if s: "SendNextGetResponseBlock ?start = (response, b')" and "0 < length (get_data result)"
      "length (get_data result) \<le> maxBlockTransferBytes po" "get_hasData result"
  proof -
    have "get_blocks_ok po ?start" using assms(3,5) that(2,3) by (auto simp: get_blocks_ok_def)
    from SendNext_carries [OF s this _ assms(4), of P Q] assms(6,7) that(4) show ?thesis by auto
  qed
  show ?thesis
    using assms(1,2) start EncodeGetResponse_carries [of result P Q i] assms(6,7) transfer_options_simps [OF assms(3)]
    by (auto simp: EncodeGetResponseOrStartBlocks_def Let_def simp del: length_greater_0_conv split: if_splits)
qed

lemma ProcessGetRequest_carries:
  assumes "ProcessGetRequest (apdu_of (GetRequestM q)) D po None cid (b, e) = (response, b', e')"
    and "get_blocks_ok po b" "maxGetBlockPayloadBytes po < size_t_modulus"
    and "\<And>src. src \<in> kept_data b \<or> handed_out D e src \<Longrightarrow> P src" "\<And>src v. P src \<Longrightarrow> piece_of src v \<Longrightarrow> Q v"
  shows "response_carries Q response \<and> (\<forall>src\<in>kept_data b'. P src)"
proof -
  let ?goal = "response_carries Q response \<and> (\<forall>src\<in>kept_data b'. P src)"
  have keep: "\<forall>src\<in>kept_data b. P src" "\<forall>src\<in>kept_data EmptyGetResponseBlockState. P src" using assms(4)
    by (auto simp: kept_data_def EmptyGetResponseBlockState_def)
  have follow: ?goal if "SendNextGetResponseBlock b = (response, b')" "gb_active b"
    using SendNext_carries [OF that(1) assms(2) that(2) assms(3), of P Q] assms(4,5) that(2) by (auto simp: kept_data_def)
  have start: ?goal
    if "EncodeGetResponseOrStartBlocks k \<lparr>getInd_invokeId = i AND 0x0f, getInd_options = options,
         getInd_descriptor = c\<rparr> result b = (response, b')"
      "options = ParseServiceOptions i po" "confirmed options" "DispatchGet D j e = (Inr result, e1)" for i j k options c result e1
  proof -
    have "P (get_data result)" if "get_hasData result"
      using assms(4) \<open>DispatchGet D j e = (Inr result, e1)\<close> that unfolding handed_out_def by (metis fst_conv)
    then have "response_carries Q response \<and> (\<forall>src\<in>kept_data b'. src \<in> kept_data b \<or> P src)"
      using that(2,3) parsed_options(1) [of i po] assms(5)
      by (intro OrStartBlocks_carries [where P = P and Q = Q, OF that(1) assms(2) _ assms(3)]) auto
    with keep(1) show ?thesis by blast
  qed
  show ?thesis
    using assms(1,2) follow start keep
    by (auto simp: ProcessGetRequest.simps Let_def normal_requests get_consts
        split: if_splits sum.splits prod.splits)
qed


lemma ProcessSetRequest_carries:
  assumes "ProcessSetRequest (apdu_of (SetRequestM q)) D po None cid (b, e) = (response, b', e')"
  shows "response_carries Q response"
proof -
  have ack: "response_carries Q response" if "acknowledge_set q n None cid (b1, e) = (response, b', e')" for n b1
    using that by (auto simp: acknowledge_set_def response_carries_set split: sum.splits)
  have finish: "response_carries Q response" if "finish_set D n ind (b1, e) = (response, b', e')" for n b1 ind
    using that by (auto simp: finish_set_def response_carries_set split: sum.splits prod.splits)
  have first: ?thesis if "first_set_block q D po None cid (b, e) = (response, b', e')"
    using that by (auto simp: first_set_block_def Let_def dest!: ack finish split: if_splits)
  have later: ?thesis if "next_set_block q D None cid (b, e) = (response, b', e')"
    using that by (auto simp: next_set_block_def Let_def dest!: ack finish split: if_splits)
  show ?thesis
    using assms first later
    by (auto simp: ProcessSetRequest.simps Let_def normal_requests get_consts set_consts response_carries_set
        split: if_splits sum.splits prod.splits intro: response_carries_failed)
qed

lemma ProcessActionRequest_carries:
  assumes "ProcessActionRequest (apdu_of (ActionRequestM q)) D po None cid (b, e) = (response, b', e')"
    and "\<And>src. handed_out D e src \<Longrightarrow> P src" "\<And>src v. P src \<Longrightarrow> piece_of src v \<Longrightarrow> Q v"
  shows "response_carries Q response"
proof -
  have ack: "response_carries Q response" if "acknowledge_action q n None cid (b1, e) = (response, b', e')" for n b1
    using that by (auto simp: acknowledge_action_def EncodeActionNextPblockResponse_sent intro!: response_carries_sent split: sum.splits)
  have finish: "response_carries Q response" if run: "finish_action D ind (b1, e) = (response, b', e')" for b1 ind
  proof (cases "DispatchAction D ind e")
    case (Pair r e1)
    have "P (action_data result)" if "r = Inr result" "action_hasData result" for result
      using assms(2) Pair that unfolding handed_out_def by (metis fst_conv)
    with run Pair EncodeActionResponse_carries [of _ P Q] assms(3) show ?thesis
      by (auto simp: finish_action_def split: sum.splits)
  qed
  have first: ?thesis if "first_action_block q D po None cid (b, e) = (response, b', e')"
    using that by (auto simp: first_action_block_def Let_def dest!: ack finish split: if_splits)
  have later: ?thesis if "next_action_block q D None cid (b, e) = (response, b', e')"
    using that by (auto simp: next_action_block_def Let_def dest!: ack finish split: if_splits)
  show ?thesis
    using assms(1) first later
    by (auto simp: ProcessActionRequest.simps Let_def normal_requests get_consts action_consts dest!: finish
        split: if_splits sum.splits intro: response_carries_failed)
qed

lemma ProcessRequest_carries:
  assumes "ProcessRequest bs (p, e) = (response, p', e')" "quiet p" "processor_ok p"
    and "maxGetBlockPayloadBytes (processorOptions p) < size_t_modulus"
    and "\<And>src. src \<in> kept_data (getBlocks p) \<or> handed_out (dispatcher p) e src \<Longrightarrow> P src"
    and "\<And>src v. P src \<Longrightarrow> piece_of src v \<Longrightarrow> Q v"
  shows "response_carries Q response \<and> (\<forall>src\<in>kept_data (getBlocks p'). P src)"
proof (cases "DecodeXdlmsApdu (pointer_view bs)")
  case (Inl status)
  with assms(1,2,5) show ?thesis by (auto simp: ProcessRequest.simps quiet_def)
next
  case (Inr request)
  then obtain q where q: "message_wf q" "request = apdu_of q"
    using DecodeXdlmsApdu_represents by (auto simp: represents_message_def)
  define cid where "cid = MakeConversationId (case seedSource p of None \<Rightarrow> 0 | Some state \<Rightarrow> association_ConversationSeed state e)
    (request_invoke_id request)"
  obtain plain p1 e1 where run: "run_service request cid (p, e) = (plain, p1, e1)"
    by (cases "run_service request cid (p, e)") auto
  from assms(1) Inr run have "(case plain of Inl status \<Rightarrow> (Inl status, p1, e1)
      | Inr plainResponse \<Rightarrow> send_response cid plainResponse (p1, e1)) = (response, p', e')"
    using assms(2) unfolding cid_def quiet_def by (simp add: ProcessRequest.simps Let_def correlate_def del: run_service.simps send_response.simps)
  moreover have "quiet p1" by (rule run_service_quiet [OF run assms(2)])
  ultimately have served: "run_service (apdu_of q) cid (p, e) = (response, p', e')"
    using run q(2) by (auto simp: quiet_def Let_def split: sum.splits)
  have P: "\<And>src. handed_out (dispatcher p) e src \<Longrightarrow> P src" "\<forall>src\<in>kept_data (getBlocks p). P src" using assms(5) by auto
  have "get_blocks_ok (processorOptions p) (getBlocks p)" "traceSink p = None" using assms(2,3) by (simp_all add: processor_ok_def quiet_def)
  with served P ProcessGetRequest_carries [of _ "dispatcher p" "processorOptions p" cid "getBlocks p" e, OF _ _ assms(4), where P = P and Q = Q]
    ProcessSetRequest_carries [of _ "dispatcher p" "processorOptions p" cid "setBlocks p" e, where Q = Q]
    ProcessActionRequest_carries [of _ "dispatcher p" "processorOptions p" cid "actionBlocks p" e, where P = P and Q = Q] assms(5,6)
  show ?thesis
    by (cases q) (auto split: prod.splits)
qed


subsection \<open>The server over a device\<close>

text \<open>The dispatcher of a server with the context \<open>c\<close>, which may change with the world.\<close>

definition cosem_server :: "('e \<Rightarrow> 'e ServerContext) \<Rightarrow> 'e XdlmsServerDispatcher" where
  "cosem_server c = XdlmsServerDispatcher_of (XdlmsServerAdapter_of (DlmsServer_of c))"

lemmas cosem_server_defs = cosem_server_def XdlmsServerDispatcher_of_def XdlmsServerAdapter_of_def DlmsServer_of_def
  XdlmsServerDispatcher_DispatchGet_def XdlmsServerDispatcher_DispatchSet_def XdlmsServerDispatcher_DispatchAction_def

lemma DispatchGet_world: "snd (DispatchGet (cosem_server c) i e) = e"
  by (simp add: cosem_server_defs Adapter_HandleGet_def Let_def split: sum.split prod.split)

lemma DispatchSet_world:
  "snd (DispatchSet (cosem_server c) j e) = e \<or> (\<exists>r. key_version (attribute_object (ssr_descriptor r)) = 0
    \<and> snd (DispatchSet (cosem_server c) j e) = snd (Dispatcher_HandleSet (c e) r e))"
proof -
  let ?r = "EmptyServerSetRequest\<lparr>ssr_invokeId := setInd_invokeId j, ssr_descriptor := ToServerDescriptor (setInd_descriptor j),
    ssr_data := setInd_data j\<rparr>"
  have "snd (DispatchSet (cosem_server c) j e) = e \<or> snd (DispatchSet (cosem_server c) j e) = snd (Dispatcher_HandleSet (c e) ?r e)"
    by (auto simp: cosem_server_defs Adapter_HandleSet_def Let_def split: sum.split prod.split)
  moreover have "key_version (attribute_object (ssr_descriptor ?r)) = 0" by (simp add: ToServerDescriptor_def)
  ultimately show ?thesis by blast
qed

lemma DispatchAction_world:
  "snd (DispatchAction (cosem_server c) k e) = e
    \<or> (\<exists>r. key_version (method_object (sar_descriptor r)) = 0
        \<and> snd (DispatchAction (cosem_server c) k e) = snd (Dispatcher_HandleAction (c e) r e))"
proof -
  let ?r = "EmptyServerActionRequest\<lparr>sar_invokeId := actionInd_invokeId k, sar_descriptor := ToServerMethodDescriptor (actionInd_descriptor k),
    sar_parameter := actionInd_parameter k\<rparr>"
  have "snd (DispatchAction (cosem_server c) k e) = e \<or> snd (DispatchAction (cosem_server c) k e) = snd (Dispatcher_HandleAction (c e) ?r e)"
    by (auto simp: cosem_server_defs Adapter_HandleAction_def Let_def split: sum.split prod.split)
  moreover have "key_version (method_object (sar_descriptor ?r)) = 0" by (simp add: ToServerMethodDescriptor_def)
  ultimately show ?thesis by blast
qed

lemma MapCosemStatus_Ok: "MapCosemStatus s = ServerStatus.Ok \<longleftrightarrow> s = CosemStatus.Ok"
  by (cases s) simp_all

text \<open>The descriptor of a request, and the object that it names.\<close>

lemma ToServerDescriptor_valid:
  "ValidateDescriptor d = XdlmsStatus.Ok \<Longrightarrow> ValidateAttributeDescriptor (ToServerDescriptor d) = CosemStatus.Ok"
  by (auto simp: ValidateDescriptor_def ValidateAttributeDescriptor_def ToServerDescriptor_def ValidateObjectKey_def LogicalName_IsEmpty_def
      ToCosemLogicalName_def CosemLogicalName_at_def upt_conv_Cons eval_nat_numeral split: if_splits)

lemma ToServerMethodDescriptor_valid:
  "ValidateMethodDescriptor d = XdlmsStatus.Ok \<Longrightarrow> cosem_ValidateMethodDescriptor (ToServerMethodDescriptor d) = CosemStatus.Ok"
  by (auto simp: ValidateMethodDescriptor_def cosem_ValidateMethodDescriptor_def ToServerMethodDescriptor_def ValidateObjectKey_def
      LogicalName_IsEmpty_def ToCosemLogicalName_def CosemLogicalName_at_def upt_conv_Cons eval_nat_numeral split: if_splits)

context guarded_device begin

lemma dispatched_guarded:
  assumes "dispatched (cosem_server c) e e'" "server_logicalDevice (c e) = Some device"
  shows "e' = e \<or> object_change object_of (c e) e e'"
  using assms(1)
proof cases
  case (dispatched_set j)
  with DispatchSet_world [of c j e] assms(2) HandleSet_guarded show ?thesis by (metis surjective_pairing)
next
  case (dispatched_action k)
  with DispatchAction_world [of c k e] assms(2) HandleAction_guarded show ?thesis by (metis surjective_pairing)
qed (simp_all add: DispatchGet_world)

lemma DispatchGet_data:
  assumes "server_logicalDevice (c e) = Some device" "DispatchGet (cosem_server c) i e = (Inr r, e')" "get_hasData r"
  shows "IsAssociated (c e) \<and> e' = e \<and> (\<exists>x. object_of (attribute_object (ToServerDescriptor (getInd_descriptor i))) = Some x
    \<and> CanReadAttribute (attribute_attributeId (getInd_descriptor i)) (server_accessContext (c e)) (object_AccessRights x e)
    \<and> object_ReadAttribute x (attribute_attributeId (getInd_descriptor i)) e = (CosemStatus.Ok, get_data r))"
proof -
  let ?d = "ToServerDescriptor (getInd_descriptor i)"
  have "attribute_id ?d = attribute_attributeId (getInd_descriptor i)" by (simp add: ToServerDescriptor_def)
  with assms reads [of ?d "server_accessContext (c e)" e] show ?thesis
    by (auto simp: cosem_server_defs Adapter_HandleGet_def Dispatcher_HandleGet_def EmptyServerGetRequest_def MakeServerGetDataResponse_def
        MakeServerGetResponse_def EmptyGetResult_def MapCosemStatus_Ok guarded_read_def Let_def split: if_splits prod.splits option.splits)
qed

end

text \<open>
  Data that objects may give away in a world: the value of a read that the rights of the object permit, or the output
  of an invocation that they permit.
\<close>

inductive released :: "(CosemObjectKey \<Rightarrow> 'e CosemObject option) \<Rightarrow> 'e ServerContext \<Rightarrow> 'e \<Rightarrow> bytes \<Rightarrow> bool" for object_of c e where
  read: "IsAssociated c \<Longrightarrow> key_version k = 0 \<Longrightarrow> object_of k = Some x \<Longrightarrow> CanReadAttribute i (server_accessContext c) (object_AccessRights x e) \<Longrightarrow>
     object_ReadAttribute x i e = (CosemStatus.Ok, bs) \<Longrightarrow> released object_of c e bs"
| returned: "IsAssociated c \<Longrightarrow> key_version k = 0 \<Longrightarrow> object_of k = Some x \<Longrightarrow> CanInvokeMethod i (server_accessContext c) (object_AccessRights x e) \<Longrightarrow>
     object_InvokeMethod x i input e = ((CosemStatus.Ok, bs), e') \<Longrightarrow> released object_of c e bs"

context guarded_device begin

lemma DispatchAction_data:
  assumes "server_logicalDevice (c e) = Some device" "DispatchAction (cosem_server c) i e = (Inr r, e')" "action_hasData r"
  shows "IsAssociated (c e) \<and> (\<exists>x. object_of (method_object (ToServerMethodDescriptor (actionInd_descriptor i))) = Some x
    \<and> CanInvokeMethod (method_methodId (actionInd_descriptor i)) (server_accessContext (c e)) (object_AccessRights x e)
    \<and> object_InvokeMethod x (method_methodId (actionInd_descriptor i)) (actionInd_parameter i) e = ((CosemStatus.Ok, action_data r), e'))"
proof -
  let ?d = "ToServerMethodDescriptor (actionInd_descriptor i)"
  have "method_id ?d = method_methodId (actionInd_descriptor i)" by (simp add: ToServerMethodDescriptor_def)
  with assms invokes [of ?d "server_accessContext (c e)" "actionInd_parameter i" e] show ?thesis
    by (auto simp: cosem_server_defs Adapter_HandleAction_def Dispatcher_HandleAction_def EmptyServerActionRequest_def
        MakeServerActionDataResponse_def MakeServerActionResponse_def EmptyActionResult_def MapCosemStatus_Ok guarded_invoke_def Let_def
        split: if_splits prod.splits option.splits)
qed

lemma handed_out_released:
  assumes "handed_out (cosem_server c) e src" "server_logicalDevice (c e) = Some device"
  shows "released object_of (c e) e src"
  using assms(1) unfolding handed_out_def
proof (elim disjE exE conjE)
  fix i r
  assume "fst (DispatchGet (cosem_server c) i e) = Inr r" "get_hasData r" "get_data r = src"
  moreover from this(1) have "DispatchGet (cosem_server c) i e = (Inr r, snd (DispatchGet (cosem_server c) i e))" by (simp add: prod_eq_iff)
  moreover have "key_version (attribute_object (ToServerDescriptor (getInd_descriptor i))) = 0" by (simp add: ToServerDescriptor_def)
  ultimately show ?thesis using DispatchGet_data [of c e i r, OF assms(2)] by (blast intro: released.read)
next
  fix i r
  assume "fst (DispatchAction (cosem_server c) i e) = Inr r" "action_hasData r" "action_data r = src"
  moreover from this(1) have "DispatchAction (cosem_server c) i e = (Inr r, snd (DispatchAction (cosem_server c) i e))" by (simp add: prod_eq_iff)
  moreover have "key_version (method_object (ToServerMethodDescriptor (actionInd_descriptor i))) = 0" by (simp add: ToServerMethodDescriptor_def)
  ultimately show ?thesis using DispatchAction_data [of c e i r, OF assms(2)] by (blast intro: released.returned)
qed

end

subsection \<open>A server's history\<close>

text \<open>The worlds in which a processor has served its requests, the last one first; between them the objects may change.\<close>

inductive served_in :: "'e XdlmsServerApduProcessor \<Rightarrow> 'e list \<Rightarrow> 'e XdlmsServerApduProcessor \<Rightarrow> bool" for p0 where
  start: "served_in p0 [] p0"
| request: "served_in p0 es p \<Longrightarrow> ProcessRequest bs (p, e) = (response, p', e') \<Longrightarrow> served_in p0 (e # es) p'"

lemma served_in_serving: "served_in p0 es p \<Longrightarrow> serving p0 p"
  by (induction rule: served_in.induct) (auto intro: serving.intros)

lemma ProcessRequest_stays_quiet: "ProcessRequest bs (p, e) = (response, p', e') \<Longrightarrow> quiet p \<Longrightarrow> quiet p'"
  by (erule ProcessRequest_cases) (simp, rule run_service_quiet)

lemma served_in_quiet: "served_in p0 es p \<Longrightarrow> quiet p0 \<Longrightarrow> quiet p"
  by (induction rule: served_in.induct) (auto intro: ProcessRequest_stays_quiet)

text \<open>A server as it is constructed, with the source of conversation seeds it may be given.\<close>

definition fresh_server ::
    "('e \<Rightarrow> 'e ServerContext) \<Rightarrow> ServiceOptions \<Rightarrow> 'e XdlmsAssociationState option \<Rightarrow> 'e XdlmsServerApduProcessor" where
  "fresh_server c options seeds = (XdlmsServerApduProcessor_init (cosem_server c) None options)\<lparr>seedSource := seeds\<rparr>"

lemma fresh_server_facts [simp]:
  "quiet (fresh_server c options seeds)" "dispatcher (fresh_server c options seeds) = cosem_server c"
  "processorOptions (fresh_server c options seeds) = options" "kept_data (getBlocks (fresh_server c options seeds)) = {}"
  by (simp_all add: fresh_server_def XdlmsServerApduProcessor_init_def quiet_def kept_data_def EmptyGetResponseBlockState_def)

lemma fresh_server_ok [simp]: "processor_ok (fresh_server c options seeds)"
  using processor_ok_init [of "cosem_server c" None options] by (simp add: fresh_server_def processor_ok_def)

lemma served_in_fresh:
  assumes "served_in (fresh_server c options seeds) es p" "maxGetBlockPayloadBytes options < size_t_modulus"
  shows "quiet p \<and> processor_ok p \<and> dispatcher p = cosem_server c \<and> processorOptions p = options"
  using served_in_quiet [OF assms(1)] serving_ok [OF served_in_serving [OF assms(1)]] assms(2) by simp

context guarded_device begin

lemma served_in_kept:
  assumes "served_in (fresh_server c options seeds) es p" "maxGetBlockPayloadBytes options < size_t_modulus"
    and "\<forall>e. server_logicalDevice (c e) = Some device"
  shows "\<forall>src\<in>kept_data (getBlocks p). \<exists>e\<in>set es. released object_of (c e) e src"
  using assms(1)
proof induction
  case (request es p bs e response p' e')
  note p = served_in_fresh [OF request.hyps(1) assms(2)]
  have "\<exists>e1\<in>set (e # es). released object_of (c e1) e1 src" if "src \<in> kept_data (getBlocks p) \<or> handed_out (dispatcher p) e src" for src
    using that request.IH handed_out_released [of c e src] assms(3) p by auto
  from ProcessRequest_carries [where Q = "\<lambda>v. True" and P = "\<lambda>src. \<exists>e1\<in>set (e # es). released object_of (c e1) e1 src",
      OF request.hyps(2) _ _ _ this] p assms(2)
  show ?case by blast
qed simp

lemma served_in_carries:
  assumes "served_in (fresh_server c options seeds) es p" "maxGetBlockPayloadBytes options < size_t_modulus"
    and "\<forall>e. server_logicalDevice (c e) = Some device" "ProcessRequest bs (p, e) = (response, p', e')"
  shows "response_carries (\<lambda>v. \<exists>e1\<in>set (e # es). \<exists>src. released object_of (c e1) e1 src \<and> piece_of src v) response"
proof -
  note p = served_in_fresh [OF assms(1,2)]
  have "\<exists>e1\<in>set (e # es). released object_of (c e1) e1 src" if "src \<in> kept_data (getBlocks p) \<or> handed_out (dispatcher p) e src" for src
    using that served_in_kept [OF assms(1-3)] handed_out_released [of c e src] assms(3) p by auto
  from ProcessRequest_carries [where Q = "\<lambda>v. \<exists>e1\<in>set (e # es). \<exists>src. released object_of (c e1) e1 src \<and> piece_of src v"
      and P = "\<lambda>src. \<exists>e1\<in>set (e # es). released object_of (c e1) e1 src", OF assms(4) _ _ _ this] p assms(2)
  show ?thesis by blast
qed

end

text \<open>The statuses that a peer sees as access results, and the codes it sees.\<close>

definition access_result :: "CosemStatus \<Rightarrow> u8 option" where
  "access_result s = (case s of CosemStatus.Ok \<Rightarrow> Some 0 | CosemStatus.AccessDenied \<Rightarrow> Some 3 | CosemStatus.ObjectNotFound \<Rightarrow> Some 4
     | CosemStatus.AttributeNotFound \<Rightarrow> Some 4 | CosemStatus.ObjectError \<Rightarrow> Some 250 | _ \<Rightarrow> None)"

definition read_result :: "u8 \<Rightarrow> CosemStatus \<times> bytes \<Rightarrow> GetResult" where
  "read_result i r = (if fst r = CosemStatus.Ok then EmptyGetResult\<lparr>get_invokeId := i, get_hasData := True, get_data := snd r\<rparr>
     else EmptyGetResult\<lparr>get_invokeId := i, get_hasAccessResult := True, get_accessResult := the (access_result (fst r))\<rparr>)"

context guarded_device begin

lemma DispatchGet_reads:
  assumes "server_logicalDevice (c e) = Some device" "IsAssociated (c e)" "ValidateInvokeId (getInd_invokeId i) = XdlmsStatus.Ok"
    and "ValidateDescriptor (getInd_descriptor i) = XdlmsStatus.Ok"
    and "r = guarded_read (object_of (attribute_object (ToServerDescriptor (getInd_descriptor i))))
       (attribute_attributeId (getInd_descriptor i)) (server_accessContext (c e)) e"
    and "access_result (fst r) \<noteq> None"
  shows "DispatchGet (cosem_server c) i e = (Inr (read_result (getInd_invokeId i) r), e)"
proof -
  let ?d = "ToServerDescriptor (getInd_descriptor i)"
  have valid: "ValidateAttributeDescriptor ?d = CosemStatus.Ok" by (rule ToServerDescriptor_valid [OF assms(4)])
  have "attribute_id ?d = attribute_attributeId (getInd_descriptor i)" by (simp add: ToServerDescriptor_def)
  then have "device_ReadAttribute device ?d (server_accessContext (c e)) e = (fst r, snd r)"
    using reads [OF valid] assms(5) by simp
  with assms(1-4,6) valid show ?thesis
    by (cases "fst r") (simp_all add: cosem_server_defs Adapter_HandleGet_def Dispatcher_HandleGet_def EmptyServerGetRequest_def
        MakeServerGetDataResponse_def MakeServerGetResponse_def EmptyGetResult_def read_result_def access_result_def
        IsDataAccessResultStatus_def MapServerStatusToDataAccessResult_def Let_def)
qed

lemma DispatchSet_writes:
  assumes "server_logicalDevice (c e) = Some device" "IsAssociated (c e)" "ValidateInvokeId (setInd_invokeId i) = XdlmsStatus.Ok"
    and "ValidateDescriptor (setInd_descriptor i) = XdlmsStatus.Ok" "setInd_data i \<noteq> []"
    and "(s, e') = guarded_write (object_of (attribute_object (ToServerDescriptor (setInd_descriptor i))))
       (attribute_attributeId (setInd_descriptor i)) (server_accessContext (c e)) (setInd_data i) e"
    and "access_result s = Some code"
  shows "DispatchSet (cosem_server c) i e = (Inr \<lparr>set_invokeId = setInd_invokeId i, set_accessResult = code\<rparr>, e')"
proof -
  let ?d = "ToServerDescriptor (setInd_descriptor i)"
  have valid: "ValidateAttributeDescriptor ?d = CosemStatus.Ok" by (rule ToServerDescriptor_valid [OF assms(4)])
  have "attribute_id ?d = attribute_attributeId (setInd_descriptor i)" by (simp add: ToServerDescriptor_def)
  then have "device_WriteAttribute device ?d (server_accessContext (c e)) (setInd_data i) e = (s, e')"
    using writes [OF valid] assms(6) by simp
  with assms(1-5,7) valid show ?thesis
    by (cases s) (simp_all add: cosem_server_defs Adapter_HandleSet_def Dispatcher_HandleSet_def EmptyServerSetRequest_def
        MakeServerSetResponse_def EmptySetResult_def access_result_def
        IsDataAccessResultStatus_def MapServerStatusToDataAccessResult_def Let_def)
qed

lemma DispatchGet_fails:
  assumes "server_logicalDevice (c e) = Some device" "IsAssociated (c e)" "ValidateInvokeId (getInd_invokeId i) = XdlmsStatus.Ok"
    and "ValidateDescriptor (getInd_descriptor i) = XdlmsStatus.Ok"
    and "r = guarded_read (object_of (attribute_object (ToServerDescriptor (getInd_descriptor i))))
       (attribute_attributeId (getInd_descriptor i)) (server_accessContext (c e)) e"
    and "access_result (fst r) = None"
  shows "DispatchGet (cosem_server c) i e = (Inl (MapServerStatusToXdlmsStatus (MapCosemStatus (fst r))), e)"
proof -
  let ?d = "ToServerDescriptor (getInd_descriptor i)"
  have valid: "ValidateAttributeDescriptor ?d = CosemStatus.Ok" by (rule ToServerDescriptor_valid [OF assms(4)])
  have "attribute_id ?d = attribute_attributeId (getInd_descriptor i)" by (simp add: ToServerDescriptor_def)
  then have "device_ReadAttribute device ?d (server_accessContext (c e)) e = (fst r, snd r)"
    using reads [OF valid] assms(5) by simp
  with assms(1-4,6) valid show ?thesis
    by (cases "fst r") (simp_all add: cosem_server_defs Adapter_HandleGet_def Dispatcher_HandleGet_def EmptyServerGetRequest_def
        MakeServerGetDataResponse_def MakeServerGetResponse_def access_result_def IsDataAccessResultStatus_def Let_def)
qed

lemma DispatchSet_fails:
  assumes "server_logicalDevice (c e) = Some device" "IsAssociated (c e)" "ValidateInvokeId (setInd_invokeId i) = XdlmsStatus.Ok"
    and "ValidateDescriptor (setInd_descriptor i) = XdlmsStatus.Ok" "setInd_data i \<noteq> []"
    and "(s, e') = guarded_write (object_of (attribute_object (ToServerDescriptor (setInd_descriptor i))))
       (attribute_attributeId (setInd_descriptor i)) (server_accessContext (c e)) (setInd_data i) e"
    and "access_result s = None"
  shows "DispatchSet (cosem_server c) i e = (Inl (MapServerStatusToXdlmsStatus (MapCosemStatus s)), e')"
proof -
  let ?d = "ToServerDescriptor (setInd_descriptor i)"
  have valid: "ValidateAttributeDescriptor ?d = CosemStatus.Ok" by (rule ToServerDescriptor_valid [OF assms(4)])
  have "attribute_id ?d = attribute_attributeId (setInd_descriptor i)" by (simp add: ToServerDescriptor_def)
  then have "device_WriteAttribute device ?d (server_accessContext (c e)) (setInd_data i) e = (s, e')"
    using writes [OF valid] assms(6) by simp
  with assms(1-5,7) valid show ?thesis
    by (cases s) (simp_all add: cosem_server_defs Adapter_HandleSet_def Dispatcher_HandleSet_def EmptyServerSetRequest_def
        MakeServerSetResponse_def access_result_def IsDataAccessResultStatus_def Let_def)
qed

lemma DispatchAction_invokes:
  assumes "server_logicalDevice (c e) = Some device" "IsAssociated (c e)" "ValidateInvokeId (actionInd_invokeId i) = XdlmsStatus.Ok"
    and "ValidateMethodDescriptor (actionInd_descriptor i) = XdlmsStatus.Ok" "actionInd_parameter i \<noteq> []"
    and "((CosemStatus.Ok, bs), e') = guarded_invoke (object_of (method_object (ToServerMethodDescriptor (actionInd_descriptor i))))
       (method_methodId (actionInd_descriptor i)) (server_accessContext (c e)) (actionInd_parameter i) e"
  shows "DispatchAction (cosem_server c) i e
    = (Inr (EmptyActionResult\<lparr>action_invokeId := actionInd_invokeId i, action_hasData := True, action_data := bs\<rparr>), e')"
proof -
  let ?d = "ToServerMethodDescriptor (actionInd_descriptor i)"
  have valid: "cosem_ValidateMethodDescriptor ?d = CosemStatus.Ok" by (rule ToServerMethodDescriptor_valid [OF assms(4)])
  have "method_id ?d = method_methodId (actionInd_descriptor i)" by (simp add: ToServerMethodDescriptor_def)
  then have "device_InvokeMethod device ?d (server_accessContext (c e)) (actionInd_parameter i) e = ((CosemStatus.Ok, bs), e')"
    using invokes [OF valid] assms(6) by simp
  with assms(1-5) valid show ?thesis
    by (simp add: cosem_server_defs Adapter_HandleAction_def Dispatcher_HandleAction_def EmptyServerActionRequest_def
        MakeServerActionDataResponse_def MakeServerActionResponse_def EmptyActionResult_def Let_def)
qed

end

end
