(* ===== verification/Cosem_Coding.thy ===== *)
theory Cosem_Coding
  imports Cosem_Model "HOL-Library.Monad_Syntax"
begin

text \<open>
  The A-XDR coding inside the objects, the first part of \<open>simple_objects.cpp\<close>: readers of single values,
  access rights, the object list of an association and the descriptors of profiles. A reader consumes a prefix of the
  input: the list it is given is the input from \<open>offset\<close> on, and the list it returns the input from the new offset
  on. (No caller goes on after a reader that failed.)
\<close>

subsection \<open>Readers\<close>

type_synonym 'a reader = "bytes \<Rightarrow> ('a \<times> bytes) option"

definition IsAxdrEnum :: "bytes \<Rightarrow> u8 option" where
  "IsAxdrEnum input = (if length input \<noteq> 2 \<or> input ! 0 \<noteq> 0x16 then None else Some (input ! 1))"

definition ReadAxdrLength :: "nat reader" where
  "ReadAxdrLength input = (case input of
     [] \<Rightarrow> None
   | first # rest \<Rightarrow>
       if first AND 0x80 = 0 then Some (unat first, rest)
       else let lengthBytes = unat (first AND 0x7f) in
         if lengthBytes = 0 \<or> lengthBytes > 8 \<or> length rest < lengthBytes then None
         else Some (be_value (take lengthBytes rest), drop lengthBytes rest))"

definition ReadByte :: "u8 reader" where
  "ReadByte input = (case input of [] \<Rightarrow> None | value # rest \<Rightarrow> Some (value, rest))"

definition ReadExpectedTag :: "u8 \<Rightarrow> bytes \<Rightarrow> bytes option" where
  "ReadExpectedTag expectedTag input = do { (tag, input) \<leftarrow> ReadByte input; if tag = expectedTag then Some input else None }"

definition ReadFixedBytes :: "nat \<Rightarrow> bytes reader" where
  "ReadFixedBytes n input = (if length input < n then None else Some (take n input, drop n input))"

definition ReadLongUnsignedValue :: "u16 reader" where
  "ReadLongUnsignedValue input = do {
     input \<leftarrow> ReadExpectedTag 0x12 input;
     if length input < 2 then None
     else Some (be16_at (input ! 0) (input ! 1), drop 2 input) }"

definition ReadLongValue :: "u16 reader" where
  "ReadLongValue input = do {
     input \<leftarrow> ReadExpectedTag 0x10 input;
     if length input < 2 then None
     else Some (be16_at (input ! 0) (input ! 1), drop 2 input) }"

definition ReadIntegerValue :: "u8 reader" where
  "ReadIntegerValue input = do { input \<leftarrow> ReadExpectedTag 0x0f input; ReadByte input }"

definition ReadBooleanValue :: "bool reader" where
  "ReadBooleanValue input = do { input \<leftarrow> ReadExpectedTag 0x03 input; (raw, input) \<leftarrow> ReadByte input; Some (raw \<noteq> 0, input) }"

definition ReadUnsignedValue :: "u8 reader" where
  "ReadUnsignedValue input = do { input \<leftarrow> ReadExpectedTag 0x11 input; ReadByte input }"

definition ReadEnumValue :: "u8 reader" where
  "ReadEnumValue input = do { input \<leftarrow> ReadExpectedTag 0x16 input; ReadByte input }"

definition ReadDoubleLongUnsignedValue :: "u32 reader" where
  "ReadDoubleLongUnsignedValue input = do {
     input \<leftarrow> ReadExpectedTag 0x06 input;
     if length input < 4 then None
     else Some (be32_at (input ! 0) (input ! 1) (input ! 2) (input ! 3), drop 4 input) }"

text \<open>A tag, a length that must be the given one, and as many bytes.\<close>

definition read_octets :: "nat \<Rightarrow> bytes reader" where
  "read_octets n input = do {
     input \<leftarrow> ReadExpectedTag 0x09 input;
     (len, input) \<leftarrow> ReadAxdrLength input;
     if len \<noteq> n then None else ReadFixedBytes len input }"

definition ReadLogicalNameValue :: "bytes reader" where
  "ReadLogicalNameValue input = read_octets 6 input"

definition DecodeExactOctetString :: "bytes \<Rightarrow> nat \<Rightarrow> bytes option" where
  "DecodeExactOctetString input expectedSize = do {
     (value, input) \<leftarrow> read_octets expectedSize input; if input \<noteq> [] then None else Some value }"

text \<open>The header of an array or a structure; the count of a structure is fixed.\<close>

definition read_header :: "u8 \<Rightarrow> nat reader" where
  "read_header tag input = do { input \<leftarrow> ReadExpectedTag tag input; ReadAxdrLength input }"

definition read_structure :: "nat \<Rightarrow> bytes \<Rightarrow> bytes option" where
  "read_structure fieldCount input = do { (count, input) \<leftarrow> read_header 0x02 input; if count \<noteq> fieldCount then None else Some input }"

fun read_many :: "'a reader \<Rightarrow> nat \<Rightarrow> ('a list) reader" where
  "read_many rd 0 input = Some ([], input)"
| "read_many rd (Suc count) input = do {
     (x, input) \<leftarrow> rd input;
     (xs, input) \<leftarrow> read_many rd count input;
     Some (x # xs, input) }"

text \<open>
  A vector whose elements are reserved before they are read: \<open>reserve\<close> throws when the count is more than a vector
  can have, \<open>max_size\<close>, and no function between here and the peer catches it.
\<close>

datatype 'a decoded = Rejected | Thrown | Decoded 'a

definition read_reserved :: "nat \<Rightarrow> 'a reader \<Rightarrow> nat \<Rightarrow> bytes \<Rightarrow> ('a list \<times> bytes) decoded" where
  "read_reserved max_size rd count input =
     (if max_size < count then Thrown else case read_many rd count input of None \<Rightarrow> Rejected | Some r \<Rightarrow> Decoded r)"

subsection \<open>Skipping data\<close>

definition skip :: "nat \<Rightarrow> bytes \<Rightarrow> bytes option" where
  "skip n input = (if n \<le> length input then Some (drop n input) else None)"

definition skip_octets :: "bytes \<Rightarrow> bytes option" where
  "skip_octets input = do { (len, input) \<leftarrow> ReadAxdrLength input; skip len input }"

fun SkipDlmsDataItems :: "(bytes \<Rightarrow> bytes option) \<Rightarrow> nat \<Rightarrow> bytes \<Rightarrow> bytes option" where
  "SkipDlmsDataItems sk 0 input = Some input"
| "SkipDlmsDataItems sk (Suc count) input = do { input \<leftarrow> sk input; SkipDlmsDataItems sk count input }"

text \<open>The first argument is the number of levels that are left: \<open>17 - depth\<close>.\<close>

primrec SkipDlmsData :: "nat \<Rightarrow> bytes \<Rightarrow> bytes option" where
  "SkipDlmsData 0 input = None"
| "SkipDlmsData (Suc levels) input = do {
     (tag, input) \<leftarrow> ReadByte input;
     if tag = 0x00 then Some input
     else if tag = 0x01 \<or> tag = 0x02 then do { (count, input) \<leftarrow> ReadAxdrLength input; SkipDlmsDataItems (SkipDlmsData levels) count input }
     else if tag = 0x03 \<or> tag = 0x0f \<or> tag = 0x11 \<or> tag = 0x16 then skip 1 input
     else if tag = 0x10 \<or> tag = 0x12 then skip 2 input
     else if tag = 0x05 \<or> tag = 0x06 then skip 4 input
     else if tag = 0x14 \<or> tag = 0x15 then skip 8 input
     else if tag = 0x19 then skip 12 input
     else if tag = 0x1a then skip 5 input
     else if tag = 0x1b then skip 4 input
     else if tag = 0x09 then skip_octets input
     else None }"

definition SkipProfileGenericRangeValue :: "bytes \<Rightarrow> bytes option" where
  "SkipProfileGenericRangeValue input = do {
     (tag, input) \<leftarrow> ReadByte input;
     if tag = 0x05 \<or> tag = 0x06 \<or> tag = 0x17 then skip 4 input
     else if tag = 0x09 \<or> tag = 0x0a \<or> tag = 0x0c then skip_octets input
     else if tag = 0x0f \<or> tag = 0x11 then skip 1 input
     else if tag = 0x10 \<or> tag = 0x12 then skip 2 input
     else if tag = 0x14 \<or> tag = 0x15 \<or> tag = 0x18 then skip 8 input
     else if tag = 0x19 then skip 12 input
     else if tag = 0x1a then skip 5 input
     else if tag = 0x1b then skip 4 input
     else None }"

subsection \<open>Writers\<close>

text \<open>Each writer returns what it appends to its output.\<close>

definition EncodeLogicalName :: "bytes \<Rightarrow> bytes" where
  "EncodeLogicalName logicalName = [0x09, 6] @ map (CosemLogicalName_at logicalName) [0 ..< 6]"

definition AppendLength :: "nat \<Rightarrow> bytes" where
  "AppendLength len = (if len < 0x80 then [of_nat len]
     else let octets = length_octets len [] in (0x80 OR of_nat (length octets)) # octets)"

definition AppendArrayHeader :: "nat \<Rightarrow> bytes" where "AppendArrayHeader count = 0x01 # AppendLength count"

definition AppendStructureHeader :: "nat \<Rightarrow> bytes" where "AppendStructureHeader count = 0x02 # AppendLength count"

definition AppendLongUnsigned :: "u16 \<Rightarrow> bytes" where
  "AppendLongUnsigned value = 0x12 # be16 value"

definition AppendDoubleLongUnsigned :: "u32 \<Rightarrow> bytes" where
  "AppendDoubleLongUnsigned value = 0x06 # be32 value"

definition AppendLong :: "u16 \<Rightarrow> bytes" where
  "AppendLong value = 0x10 # be16 value"

definition AppendUnsigned :: "u8 \<Rightarrow> bytes" where "AppendUnsigned value = [0x11, value]"

definition AppendBoolean :: "bool \<Rightarrow> bytes" where "AppendBoolean value = [0x03, if value then 1 else 0]"

definition AppendInteger :: "u8 \<Rightarrow> bytes" where "AppendInteger value = [0x0f, value]"

definition AppendEnum :: "u8 \<Rightarrow> bytes" where "AppendEnum value = [0x16, value]"

definition AppendOctetString :: "bytes \<Rightarrow> bytes" where "AppendOctetString bs = 0x09 # AppendLength (length bs) @ bs"

definition AppendVisibleString :: "bytes \<Rightarrow> bytes" where "AppendVisibleString bs = 0x0a # AppendLength (length bs) @ bs"

definition AppendLogicalName :: "bytes \<Rightarrow> bytes" where
  "AppendLogicalName logicalName = AppendOctetString (map (CosemLogicalName_at logicalName) [0 ..< 6])"

subsection \<open>Access rights and the object list\<close>

definition MapAttributeAccessMode :: "u8 \<Rightarrow> AttributeAccessMode option" where
  "MapAttributeAccessMode value = (if value = 0 then Some NoAccess else if value = 1 then Some ReadOnly
     else if value = 2 then Some WriteOnly else if value = 3 then Some ReadAndWrite
     else if value = 4 then Some AuthenticatedReadOnly else if value = 5 then Some AuthenticatedWriteOnly
     else if value = 6 then Some AuthenticatedReadAndWrite else None)"

definition MapMethodAccessMode :: "u8 \<Rightarrow> MethodAccessMode option" where
  "MapMethodAccessMode value = (if value = 0 then Some NoMethodAccess else if value = 1 then Some Access
     else if value = 2 then Some AuthenticatedAccess else None)"

text \<open>The values of the two enumerations.\<close>

fun attribute_mode_value :: "AttributeAccessMode \<Rightarrow> u8" where
  "attribute_mode_value NoAccess = 0"
| "attribute_mode_value ReadOnly = 1"
| "attribute_mode_value WriteOnly = 2"
| "attribute_mode_value ReadAndWrite = 3"
| "attribute_mode_value AuthenticatedReadOnly = 4"
| "attribute_mode_value AuthenticatedWriteOnly = 5"
| "attribute_mode_value AuthenticatedReadAndWrite = 6"

fun method_mode_value :: "MethodAccessMode \<Rightarrow> u8" where
  "method_mode_value NoMethodAccess = 0"
| "method_mode_value Access = 1"
| "method_mode_value AuthenticatedAccess = 2"

definition SkipAssociationAccessSelectors :: "bytes \<Rightarrow> bytes option" where
  "SkipAssociationAccessSelectors input = (case input of
     [] \<Rightarrow> None
   | tag # rest \<Rightarrow>
       if tag = 0x00 then Some rest
       else do {
         (count, input) \<leftarrow> read_header 0x01 input;
         (selectors, input) \<leftarrow> read_many ReadIntegerValue count input;
         Some input })"

definition attribute_access_entry :: "(u8 \<times> AttributeAccessMode) reader" where
  "attribute_access_entry input = do {
     input \<leftarrow> read_structure 3 input;
     (attributeId, input) \<leftarrow> ReadIntegerValue input;
     (modeValue, input) \<leftarrow> ReadEnumValue input;
     mode \<leftarrow> MapAttributeAccessMode modeValue;
     input \<leftarrow> SkipAssociationAccessSelectors input;
     Some ((attributeId, mode), input) }"

definition method_access_entry :: "(u8 \<times> MethodAccessMode) reader" where
  "method_access_entry input = do {
     input \<leftarrow> read_structure 2 input;
     (methodId, input) \<leftarrow> ReadIntegerValue input;
     (modeValue, input) \<leftarrow> ReadEnumValue input;
     mode \<leftarrow> MapMethodAccessMode modeValue;
     Some ((methodId, mode), input) }"

definition DecodeAttributeAccessAt :: "CosemAccessRights \<Rightarrow> CosemAccessRights reader" where
  "DecodeAttributeAccessAt rights input = do {
     (count, input) \<leftarrow> read_header 0x01 input;
     (entries, input) \<leftarrow> read_many attribute_access_entry count input;
     Some (foldl (\<lambda>r (identifier, mode). SetAttributeAccess identifier mode r) rights entries, input) }"

definition DecodeMethodAccessAt :: "CosemAccessRights \<Rightarrow> CosemAccessRights reader" where
  "DecodeMethodAccessAt rights input = do {
     (count, input) \<leftarrow> read_header 0x01 input;
     (entries, input) \<leftarrow> read_many method_access_entry count input;
     Some (foldl (\<lambda>r (identifier, mode). SetMethodAccess identifier mode r) rights entries, input) }"

definition DecodeAccessRightsAt :: "CosemAccessRights reader" where
  "DecodeAccessRightsAt input = do {
     input \<leftarrow> read_structure 2 input;
     (rights, input) \<leftarrow> DecodeAttributeAccessAt CosemAccessRights_init input;
     DecodeMethodAccessAt rights input }"

definition DecodeObjectListElementAt :: "AssociationViewObject reader" where
  "DecodeObjectListElementAt input = do {
     input \<leftarrow> read_structure 4 input;
     (classId, input) \<leftarrow> ReadLongUnsignedValue input;
     (version, input) \<leftarrow> ReadUnsignedValue input;
     (logicalName, input) \<leftarrow> ReadLogicalNameValue input;
     (rights, input) \<leftarrow> DecodeAccessRightsAt input;
     Some (\<lparr>view_descriptor = \<lparr>descriptor_key = \<lparr>key_classId = classId, key_version = version, key_logicalName = logicalName\<rparr>\<rparr>,
            view_accessRights = rights\<rparr>, input) }"

definition AppendAttributeAccess :: "CosemAccessRights \<Rightarrow> bytes" where
  "AppendAttributeAccess rights = AppendArrayHeader (length (AttributeAccessEntries rights))
     @ concat (map (\<lambda>(identifier, mode). AppendStructureHeader 3 @ AppendInteger identifier @ AppendEnum (attribute_mode_value mode) @ [0x00])
         (AttributeAccessEntries rights))"

definition AppendMethodAccess :: "CosemAccessRights \<Rightarrow> bytes" where
  "AppendMethodAccess rights = AppendArrayHeader (length (MethodAccessEntries rights))
     @ concat (map (\<lambda>(identifier, mode). AppendStructureHeader 2 @ AppendInteger identifier @ AppendEnum (method_mode_value mode))
         (MethodAccessEntries rights))"

definition AppendAccessRights :: "CosemAccessRights \<Rightarrow> bytes" where
  "AppendAccessRights rights = AppendStructureHeader 2 @ AppendAttributeAccess rights @ AppendMethodAccess rights"

definition AppendObjectListElement :: "AssociationViewObject \<Rightarrow> bytes" where
  "AppendObjectListElement object = (let key = descriptor_key (view_descriptor object) in
     AppendStructureHeader 4 @ AppendLongUnsigned (key_classId key) @ AppendUnsigned (key_version key)
       @ AppendLogicalName (key_logicalName key) @ AppendAccessRights (view_accessRights object))"

definition EncodeAssociationAccessRights :: "CosemAccessRights \<Rightarrow> bytes" where
  "EncodeAssociationAccessRights rights = AppendAccessRights rights"

definition DecodeAssociationAccessRights :: "bytes \<Rightarrow> CosemStatus + CosemAccessRights" where
  "DecodeAssociationAccessRights input = (case DecodeAccessRightsAt input of
     Some (rights, []) \<Rightarrow> Inr rights
   | _ \<Rightarrow> Inl InvalidArgument)"

definition EncodeAssociationObjectList :: "AssociationViewObject list \<Rightarrow> bytes" where
  "EncodeAssociationObjectList objects = AppendArrayHeader (length objects) @ concat (map AppendObjectListElement objects)"

text \<open>A vector that is the whole input.\<close>

definition whole_vector :: "('a list \<times> bytes) decoded \<Rightarrow> ('a list) decoded" where
  "whole_vector r = (case r of Decoded (xs, []) \<Rightarrow> Decoded xs | Thrown \<Rightarrow> Thrown | _ \<Rightarrow> Rejected)"

definition DecodeAssociationObjectList :: "nat \<Rightarrow> bytes \<Rightarrow> (AssociationViewObject list) decoded" where
  "DecodeAssociationObjectList max_size input = (case read_header 0x01 input of
     None \<Rightarrow> Rejected
   | Some (count, input) \<Rightarrow> whole_vector (read_reserved max_size DecodeObjectListElementAt count input))"

end
