(* ===== verification/Cosem_Time.thy ===== *)
theory Cosem_Time
  imports Apdu_IO
begin

text \<open>
  Dates and times of COSEM objects: \<open>date.cpp\<close>, \<open>time.cpp\<close> and \<open>date_time.cpp\<close>. Every field has a wildcard
  value. A setter returns whether it accepted the value, and the object.
\<close>

definition IsValidMonth :: "u8 \<Rightarrow> bool" where
  "IsValidMonth value = (if value = 0xff then True else if value = 0xfd \<or> value = 0xfe then True else 1 \<le> value \<and> value \<le> 12)"

definition IsValidDayOfMonth :: "u8 \<Rightarrow> bool" where
  "IsValidDayOfMonth value = (if value = 0xff \<or> value = 0xfe \<or> value = 0xfd then True
     else if 0xe0 \<le> value then False else 1 \<le> value \<and> value \<le> 31)"

definition IsValidDayOfWeek :: "u8 \<Rightarrow> bool" where
  "IsValidDayOfWeek value = (if value = 0xff then True else 1 \<le> value \<and> value \<le> 7)"

definition IsValidHourByte :: "u8 \<Rightarrow> bool" where "IsValidHourByte value \<longleftrightarrow> value = 0xff \<or> value \<le> 23"

definition IsValidMinuteByte :: "u8 \<Rightarrow> bool" where "IsValidMinuteByte value \<longleftrightarrow> value = 0xff \<or> value \<le> 59"

definition IsValidSecondByte :: "u8 \<Rightarrow> bool" where "IsValidSecondByte value \<longleftrightarrow> value = 0xff \<or> value \<le> 59"

definition IsValidHundredthsByte :: "u8 \<Rightarrow> bool" where "IsValidHundredthsByte value \<longleftrightarrow> value = 0xff \<or> value \<le> 99"

text \<open>A deviation is a signed number of minutes in 16 bits.\<close>

definition IsValidDeviation :: "u16 \<Rightarrow> bool" where
  "IsValidDeviation value = (if value = 0x8000 then True else - 720 \<le> sint value \<and> sint value \<le> 720)"

subsection \<open>Dates\<close>

record Date =
  date_year :: u16
  date_month :: u8
  date_dayOfMonth :: u8
  date_dayOfWeek :: u8

definition Date_init :: Date where
  "Date_init = \<lparr>date_year = 0xffff, date_month = 0xff, date_dayOfMonth = 0xff, date_dayOfWeek = 0xff\<rparr>"

definition Date_TryFromBytes :: "bytes \<Rightarrow> Date option" where
  "Date_TryFromBytes bs =
     (if length bs \<noteq> 5 then None
      else let year = be16_at (bs ! 0) (bs ! 1); month = bs ! 2; dayOfMonth = bs ! 3; dayOfWeek = bs ! 4 in
        if \<not> IsValidMonth month then None
        else if \<not> IsValidDayOfMonth dayOfMonth then None
        else if \<not> IsValidDayOfWeek dayOfWeek then None
        else Some \<lparr>date_year = year, date_month = month, date_dayOfMonth = dayOfMonth, date_dayOfWeek = dayOfWeek\<rparr>)"

definition Date_ToBytes :: "Date \<Rightarrow> bytes" where
  "Date_ToBytes d = [ucast (drop_bit 8 (date_year d) AND 0xff), ucast (date_year d AND 0xff), date_month d, date_dayOfMonth d, date_dayOfWeek d]"

definition Date_SetYear :: "u16 \<Rightarrow> Date \<Rightarrow> bool \<times> Date" where
  "Date_SetYear value d = (True, d\<lparr>date_year := value\<rparr>)"

definition Date_SetMonth :: "u8 \<Rightarrow> Date \<Rightarrow> bool \<times> Date" where
  "Date_SetMonth value d = (if \<not> IsValidMonth value then (False, d) else (True, d\<lparr>date_month := value\<rparr>))"

definition Date_SetDayOfMonth :: "u8 \<Rightarrow> Date \<Rightarrow> bool \<times> Date" where
  "Date_SetDayOfMonth value d = (if \<not> IsValidDayOfMonth value then (False, d) else (True, d\<lparr>date_dayOfMonth := value\<rparr>))"

definition Date_SetDayOfWeek :: "u8 \<Rightarrow> Date \<Rightarrow> bool \<times> Date" where
  "Date_SetDayOfWeek value d = (if \<not> IsValidDayOfWeek value then (False, d) else (True, d\<lparr>date_dayOfWeek := value\<rparr>))"

subsection \<open>Times\<close>

record Time =
  time_hour :: u8
  time_minute :: u8
  time_second :: u8
  time_hundredths :: u8

definition Time_init :: Time where
  "Time_init = \<lparr>time_hour = 0xff, time_minute = 0xff, time_second = 0xff, time_hundredths = 0xff\<rparr>"

definition Time_TryFromBytes :: "bytes \<Rightarrow> Time option" where
  "Time_TryFromBytes bs =
     (if length bs \<noteq> 4 then None
      else let hour = bs ! 0; minute = bs ! 1; second = bs ! 2; hundredths = bs ! 3 in
        if \<not> IsValidHourByte hour then None
        else if \<not> IsValidMinuteByte minute then None
        else if \<not> IsValidSecondByte second then None
        else if \<not> IsValidHundredthsByte hundredths then None
        else Some \<lparr>time_hour = hour, time_minute = minute, time_second = second, time_hundredths = hundredths\<rparr>)"

definition Time_ToBytes :: "Time \<Rightarrow> bytes" where
  "Time_ToBytes t = [time_hour t, time_minute t, time_second t, time_hundredths t]"

definition Time_SetHour :: "u8 \<Rightarrow> Time \<Rightarrow> bool \<times> Time" where
  "Time_SetHour value t = (if \<not> IsValidHourByte value then (False, t) else (True, t\<lparr>time_hour := value\<rparr>))"

definition Time_SetMinute :: "u8 \<Rightarrow> Time \<Rightarrow> bool \<times> Time" where
  "Time_SetMinute value t = (if \<not> IsValidMinuteByte value then (False, t) else (True, t\<lparr>time_minute := value\<rparr>))"

definition Time_SetSecond :: "u8 \<Rightarrow> Time \<Rightarrow> bool \<times> Time" where
  "Time_SetSecond value t = (if \<not> IsValidSecondByte value then (False, t) else (True, t\<lparr>time_second := value\<rparr>))"

definition Time_SetHundredths :: "u8 \<Rightarrow> Time \<Rightarrow> bool \<times> Time" where
  "Time_SetHundredths value t = (if \<not> IsValidHundredthsByte value then (False, t) else (True, t\<lparr>time_hundredths := value\<rparr>))"

subsection \<open>Dates with times\<close>

record DateTime =
  dt_year :: u16
  dt_month :: u8
  dt_dayOfMonth :: u8
  dt_dayOfWeek :: u8
  dt_hour :: u8
  dt_minute :: u8
  dt_second :: u8
  dt_hundredths :: u8
  dt_deviation :: u16
  dt_clockStatus :: u8

definition DateTime_init :: DateTime where
  "DateTime_init = \<lparr>dt_year = 0xffff, dt_month = 0xff, dt_dayOfMonth = 0xff, dt_dayOfWeek = 0xff, dt_hour = 0xff, dt_minute = 0xff,
     dt_second = 0xff, dt_hundredths = 0xff, dt_deviation = 0x8000, dt_clockStatus = 0xff\<rparr>"

definition DateTime_TryFromBytes :: "bytes \<Rightarrow> DateTime option" where
  "DateTime_TryFromBytes bs =
     (if length bs \<noteq> 12 then None
      else let year = be16_at (bs ! 0) (bs ! 1); month = bs ! 2; dayOfMonth = bs ! 3; dayOfWeek = bs ! 4; hour = bs ! 5;
          minute = bs ! 6; second = bs ! 7; hundredths = bs ! 8; deviation = be16_at (bs ! 9) (bs ! 10); clockStatus = bs ! 11 in
        if \<not> IsValidMonth month then None
        else if \<not> IsValidDayOfMonth dayOfMonth then None
        else if \<not> IsValidDayOfWeek dayOfWeek then None
        else if \<not> IsValidHourByte hour then None
        else if \<not> IsValidMinuteByte minute then None
        else if \<not> IsValidSecondByte second then None
        else if \<not> IsValidHundredthsByte hundredths then None
        else if \<not> IsValidDeviation deviation then None
        else Some \<lparr>dt_year = year, dt_month = month, dt_dayOfMonth = dayOfMonth, dt_dayOfWeek = dayOfWeek, dt_hour = hour,
          dt_minute = minute, dt_second = second, dt_hundredths = hundredths, dt_deviation = deviation, dt_clockStatus = clockStatus\<rparr>)"

definition DateTime_ToBytes :: "DateTime \<Rightarrow> bytes" where
  "DateTime_ToBytes d = [ucast (drop_bit 8 (dt_year d) AND 0xff), ucast (dt_year d AND 0xff), dt_month d, dt_dayOfMonth d, dt_dayOfWeek d,
     dt_hour d, dt_minute d, dt_second d, dt_hundredths d,
     ucast (drop_bit 8 (dt_deviation d) AND 0xff), ucast (dt_deviation d AND 0xff), dt_clockStatus d]"

definition DateTime_SetYear :: "u16 \<Rightarrow> DateTime \<Rightarrow> bool \<times> DateTime" where
  "DateTime_SetYear value d = (True, d\<lparr>dt_year := value\<rparr>)"

definition DateTime_SetMonth :: "u8 \<Rightarrow> DateTime \<Rightarrow> bool \<times> DateTime" where
  "DateTime_SetMonth value d = (if \<not> IsValidMonth value then (False, d) else (True, d\<lparr>dt_month := value\<rparr>))"

definition DateTime_SetDayOfMonth :: "u8 \<Rightarrow> DateTime \<Rightarrow> bool \<times> DateTime" where
  "DateTime_SetDayOfMonth value d = (if \<not> IsValidDayOfMonth value then (False, d) else (True, d\<lparr>dt_dayOfMonth := value\<rparr>))"

definition DateTime_SetDayOfWeek :: "u8 \<Rightarrow> DateTime \<Rightarrow> bool \<times> DateTime" where
  "DateTime_SetDayOfWeek value d = (if \<not> IsValidDayOfWeek value then (False, d) else (True, d\<lparr>dt_dayOfWeek := value\<rparr>))"

definition DateTime_SetHour :: "u8 \<Rightarrow> DateTime \<Rightarrow> bool \<times> DateTime" where
  "DateTime_SetHour value d = (if \<not> IsValidHourByte value then (False, d) else (True, d\<lparr>dt_hour := value\<rparr>))"

definition DateTime_SetMinute :: "u8 \<Rightarrow> DateTime \<Rightarrow> bool \<times> DateTime" where
  "DateTime_SetMinute value d = (if \<not> IsValidMinuteByte value then (False, d) else (True, d\<lparr>dt_minute := value\<rparr>))"

definition DateTime_SetSecond :: "u8 \<Rightarrow> DateTime \<Rightarrow> bool \<times> DateTime" where
  "DateTime_SetSecond value d = (if \<not> IsValidSecondByte value then (False, d) else (True, d\<lparr>dt_second := value\<rparr>))"

definition DateTime_SetHundredths :: "u8 \<Rightarrow> DateTime \<Rightarrow> bool \<times> DateTime" where
  "DateTime_SetHundredths value d = (if \<not> IsValidHundredthsByte value then (False, d) else (True, d\<lparr>dt_hundredths := value\<rparr>))"

definition DateTime_SetDeviation :: "u16 \<Rightarrow> DateTime \<Rightarrow> bool \<times> DateTime" where
  "DateTime_SetDeviation value d = (if \<not> IsValidDeviation value then (False, d) else (True, d\<lparr>dt_deviation := value\<rparr>))"

definition DateTime_SetClockStatus :: "u8 \<Rightarrow> DateTime \<Rightarrow> DateTime" where
  "DateTime_SetClockStatus value d = d\<lparr>dt_clockStatus := value\<rparr>"

subsection \<open>Properties\<close>

text \<open>The fields as their types describe them: a range of numbers, and the wildcards.\<close>

definition valid_date :: "Date \<Rightarrow> bool" where
  "valid_date d \<longleftrightarrow> unat (date_month d) \<in> {1..12} \<union> {253, 254, 255} \<and> unat (date_dayOfMonth d) \<in> {1..31} \<union> {253, 254, 255}
     \<and> unat (date_dayOfWeek d) \<in> {1..7} \<union> {255}"

definition valid_time :: "Time \<Rightarrow> bool" where
  "valid_time t \<longleftrightarrow> unat (time_hour t) \<in> {0..23} \<union> {255} \<and> unat (time_minute t) \<in> {0..59} \<union> {255}
     \<and> unat (time_second t) \<in> {0..59} \<union> {255} \<and> unat (time_hundredths t) \<in> {0..99} \<union> {255}"

definition valid_date_time :: "DateTime \<Rightarrow> bool" where
  "valid_date_time d \<longleftrightarrow> unat (dt_month d) \<in> {1..12} \<union> {253, 254, 255} \<and> unat (dt_dayOfMonth d) \<in> {1..31} \<union> {253, 254, 255}
     \<and> unat (dt_dayOfWeek d) \<in> {1..7} \<union> {255} \<and> unat (dt_hour d) \<in> {0..23} \<union> {255} \<and> unat (dt_minute d) \<in> {0..59} \<union> {255}
     \<and> unat (dt_second d) \<in> {0..59} \<union> {255} \<and> unat (dt_hundredths d) \<in> {0..99} \<union> {255}
     \<and> sint (dt_deviation d) \<in> {- 720..720} \<union> {- 32768}"

lemmas valid_fields = IsValidMonth_def IsValidDayOfMonth_def IsValidDayOfWeek_def IsValidHourByte_def IsValidMinuteByte_def
  IsValidSecondByte_def IsValidHundredthsByte_def IsValidDeviation_def

lemma fields_in_range:
  "IsValidMonth v \<longleftrightarrow> unat v \<in> {1..12} \<union> {253, 254, 255}" "IsValidDayOfMonth v \<longleftrightarrow> unat v \<in> {1..31} \<union> {253, 254, 255}"
  "IsValidDayOfWeek v \<longleftrightarrow> unat v \<in> {1..7} \<union> {255}" "IsValidHourByte v \<longleftrightarrow> unat v \<in> {0..23} \<union> {255}"
  "IsValidMinuteByte v \<longleftrightarrow> unat v \<in> {0..59} \<union> {255}" "IsValidSecondByte v \<longleftrightarrow> unat v \<in> {0..59} \<union> {255}"
  "IsValidHundredthsByte v \<longleftrightarrow> unat v \<in> {0..99} \<union> {255}"
  by (auto simp: valid_fields word_le_nat_alt word_unat_eq_iff)

lemma deviation_in_range: "IsValidDeviation v \<longleftrightarrow> sint v \<in> {- 720..720} \<union> {- 32768}"
proof -
  have "v = 0x8000 \<longleftrightarrow> sint v = - 32768"
    using signed_word_eqI [of v "0x8000"] by auto
  then show ?thesis by (auto simp: IsValidDeviation_def)
qed

lemma valid_date_code:
  "valid_date d \<longleftrightarrow> IsValidMonth (date_month d) \<and> IsValidDayOfMonth (date_dayOfMonth d) \<and> IsValidDayOfWeek (date_dayOfWeek d)"
  by (simp only: valid_date_def fields_in_range)

lemma valid_time_code:
  "valid_time t \<longleftrightarrow> IsValidHourByte (time_hour t) \<and> IsValidMinuteByte (time_minute t) \<and> IsValidSecondByte (time_second t)
     \<and> IsValidHundredthsByte (time_hundredths t)"
  by (simp only: valid_time_def fields_in_range)

lemma valid_date_time_code:
  "valid_date_time d \<longleftrightarrow> IsValidMonth (dt_month d) \<and> IsValidDayOfMonth (dt_dayOfMonth d) \<and> IsValidDayOfWeek (dt_dayOfWeek d)
     \<and> IsValidHourByte (dt_hour d) \<and> IsValidMinuteByte (dt_minute d) \<and> IsValidSecondByte (dt_second d)
     \<and> IsValidHundredthsByte (dt_hundredths d) \<and> IsValidDeviation (dt_deviation d)"
  by (simp only: valid_date_time_def fields_in_range deviation_in_range)

text \<open>The values that a program can make of each type: the default one, decoded ones, and what setters return.\<close>

inductive made_date :: "Date \<Rightarrow> bool" where
  "made_date Date_init"
| "Date_TryFromBytes bs = Some d \<Longrightarrow> made_date d"
| "made_date d \<Longrightarrow> setter \<in> {Date_SetMonth v, Date_SetDayOfMonth v, Date_SetDayOfWeek v, Date_SetYear y} \<Longrightarrow> made_date (snd (setter d))"

inductive made_time :: "Time \<Rightarrow> bool" where
  "made_time Time_init"
| "Time_TryFromBytes bs = Some t \<Longrightarrow> made_time t"
| "made_time t \<Longrightarrow> setter \<in> {Time_SetHour v, Time_SetMinute v, Time_SetSecond v, Time_SetHundredths v} \<Longrightarrow> made_time (snd (setter t))"

inductive made_date_time :: "DateTime \<Rightarrow> bool" where
  "made_date_time DateTime_init"
| "DateTime_TryFromBytes bs = Some d \<Longrightarrow> made_date_time d"
| "made_date_time d \<Longrightarrow> setter \<in> {DateTime_SetMonth v, DateTime_SetDayOfMonth v, DateTime_SetDayOfWeek v, DateTime_SetHour v,
     DateTime_SetMinute v, DateTime_SetSecond v, DateTime_SetHundredths v, DateTime_SetYear y, DateTime_SetDeviation y}
     \<Longrightarrow> made_date_time (snd (setter d))"
| "made_date_time d \<Longrightarrow> made_date_time (DateTime_SetClockStatus v d)"

lemma made_date_valid: "made_date d \<Longrightarrow> valid_date d"
proof (induction rule: made_date.induct)
  case (2 bs d)
  then show ?case by (auto simp: Date_TryFromBytes_def valid_date_code Let_def split: if_splits)
next
  case (3 d setter v y)
  then show ?case
    by (auto simp: valid_date_code Date_SetMonth_def Date_SetDayOfMonth_def Date_SetDayOfWeek_def Date_SetYear_def)
qed (simp add: valid_date_code valid_fields Date_init_def)

lemma made_time_valid: "made_time t \<Longrightarrow> valid_time t"
proof (induction rule: made_time.induct)
  case (2 bs d)
  then show ?case by (auto simp: Time_TryFromBytes_def valid_time_code Let_def split: if_splits)
next
  case (3 d setter v)
  then show ?case
    by (auto simp: valid_time_code Time_SetHour_def Time_SetMinute_def Time_SetSecond_def Time_SetHundredths_def)
qed (simp add: valid_time_code valid_fields Time_init_def)

lemma made_date_time_valid: "made_date_time d \<Longrightarrow> valid_date_time d"
proof (induction rule: made_date_time.induct)
  case (2 bs d)
  then show ?case by (auto simp: DateTime_TryFromBytes_def valid_date_time_code Let_def split: if_splits)
next
  case (3 d setter v y)
  then show ?case
    by (auto simp: valid_date_time_code DateTime_SetMonth_def DateTime_SetDayOfMonth_def DateTime_SetDayOfWeek_def DateTime_SetHour_def
        DateTime_SetMinute_def DateTime_SetSecond_def DateTime_SetHundredths_def DateTime_SetYear_def DateTime_SetDeviation_def)
next
  case (4 d v)
  then show ?case by (simp add: valid_date_time_code DateTime_SetClockStatus_def)
qed (simp add: valid_date_time_code valid_fields DateTime_init_def)

lemma be16_fields: "be16_at a b = y \<longleftrightarrow> a = ucast (drop_bit 8 y AND 0xff) \<and> b = ucast (y AND 0xff)"
  using be16_be16_at [of a b] be16_at_be16 [of y] by (auto simp: be16_def)

lemma Date_bytes: "Date_TryFromBytes bs = Some d \<longleftrightarrow> valid_date d \<and> bs = Date_ToBytes d"
proof (cases "length bs = 5")
  case True
  then obtain b0 b1 b2 b3 b4 where "bs = [b0, b1, b2, b3, b4]" by (auto simp: numeral_eq_Suc length_Suc_conv)
  then show ?thesis by (cases d) (auto simp: Date_TryFromBytes_def Date_ToBytes_def valid_date_code be16_fields Let_def)
qed (auto simp: Date_TryFromBytes_def Date_ToBytes_def)

lemma Time_bytes: "Time_TryFromBytes bs = Some t \<longleftrightarrow> valid_time t \<and> bs = Time_ToBytes t"
proof (cases "length bs = 4")
  case True
  then obtain b0 b1 b2 b3 where "bs = [b0, b1, b2, b3]" by (auto simp: numeral_eq_Suc length_Suc_conv)
  then show ?thesis by (cases t) (auto simp: Time_TryFromBytes_def Time_ToBytes_def valid_time_code Let_def)
qed (auto simp: Time_TryFromBytes_def Time_ToBytes_def)

lemma DateTime_bytes: "DateTime_TryFromBytes bs = Some x \<longleftrightarrow> valid_date_time x \<and> bs = DateTime_ToBytes x"
proof (cases "length bs = 12")
  case True
  then obtain b0 b1 b2 b3 b4 b5 b6 b7 b8 b9 b10 b11 where "bs = [b0, b1, b2, b3, b4, b5, b6, b7, b8, b9, b10, b11]"
    by (auto simp: numeral_eq_Suc length_Suc_conv)
  then show ?thesis
    by (cases x) (auto simp: DateTime_TryFromBytes_def DateTime_ToBytes_def valid_date_time_code be16_fields Let_def)
qed (auto simp: DateTime_TryFromBytes_def DateTime_ToBytes_def)

text \<open>
  C36: Every date, time and date-time that a program can make, from the default value, from bytes or with the setters,
  has only fields that its type allows; bytes decode to such a value exactly if they are its encoding, so that what
  does not decode has a field out of range or another length.
\<close>

theorem dates_and_times:
  "(made_date d \<longrightarrow> valid_date d) \<and> (made_time t \<longrightarrow> valid_time t) \<and> (made_date_time x \<longrightarrow> valid_date_time x)
    \<and> (Date_TryFromBytes bs = Some d \<longleftrightarrow> valid_date d \<and> bs = Date_ToBytes d)
    \<and> (Time_TryFromBytes bs = Some t \<longleftrightarrow> valid_time t \<and> bs = Time_ToBytes t)
    \<and> (DateTime_TryFromBytes bs = Some x \<longleftrightarrow> valid_date_time x \<and> bs = DateTime_ToBytes x)"
  by (simp add: made_date_valid made_time_valid made_date_time_valid Date_bytes Time_bytes DateTime_bytes)

theorem dates_and_times_witness:
  "valid_date (snd (Date_SetMonth 0xfd Date_init)) \<and> valid_time Time_init \<and> valid_date_time (snd (DateTime_SetDeviation (- 60) DateTime_init))
    \<and> Date_TryFromBytes [0x07, 0xea, 0xfd, 0xff, 0xff] = Some \<lparr>date_year = 0x7ea, date_month = 0xfd, date_dayOfMonth = 0xff, date_dayOfWeek = 0xff\<rparr>"
proof -
  have "made_date (snd (Date_SetMonth 0xfd Date_init))" by (blast intro: made_date.intros)
  moreover have "made_time Time_init" by (rule made_time.intros(1))
  moreover have "made_date_time (snd (DateTime_SetDeviation (- 60) DateTime_init))"
    by (blast intro: made_date_time.intros)
  moreover have "be16_at 0x07 0xea = 0x7ea" by (simp add: be16_at_def)
  then have "Date_TryFromBytes [0x07, 0xea, 0xfd, 0xff, 0xff]
      = Some \<lparr>date_year = 0x7ea, date_month = 0xfd, date_dayOfMonth = 0xff, date_dayOfWeek = 0xff\<rparr>"
    by (simp add: Date_TryFromBytes_def IsValidMonth_def IsValidDayOfMonth_def IsValidDayOfWeek_def Let_def)
  ultimately show ?thesis
    using dates_and_times [of "snd (Date_SetMonth 0xfd Date_init)" Time_init "snd (DateTime_SetDeviation (- 60) DateTime_init)" "[]"]
    by blast
qed

end
