(* ===== verification/Cosem_Objects.thy ===== *)
theory Cosem_Objects
  imports Cosem_Coding Cosem_Time
begin

text \<open>
  Classes of COSEM objects, from \<open>simple_objects.cpp\<close>: data, registers, disconnect control, clock, profiles,
  associations and the assignment of access points. The world of an object is here its own state; \<open>embed\<close>
  places an object in a larger world.
\<close>

definition NormalizeVersion :: "u8 \<Rightarrow> u8 \<Rightarrow> u8" where
  "NormalizeVersion version maxSupportedVersion = (if version > maxSupportedVersion then maxSupportedVersion else version)"

definition MakeDescriptor :: "u16 \<Rightarrow> u8 \<Rightarrow> bytes \<Rightarrow> CosemObjectDescriptor" where
  "MakeDescriptor classId version logicalName =
     \<lparr>descriptor_key = \<lparr>key_classId = classId, key_version = version, key_logicalName = logicalName\<rparr>\<rparr>"

definition IsAccessWritable :: "AttributeAccessMode \<Rightarrow> bool" where
  "IsAccessWritable mode \<longleftrightarrow> mode = WriteOnly \<or> mode = ReadAndWrite \<or> mode = AuthenticatedWriteOnly \<or> mode = AuthenticatedReadAndWrite"

definition embed :: "('e \<Rightarrow> 's) \<Rightarrow> ('s \<Rightarrow> 'e \<Rightarrow> 'e) \<Rightarrow> 's CosemObject \<Rightarrow> 'e CosemObject" where
  "embed get put x =
     \<lparr>object_Descriptor = (\<lambda>e. object_Descriptor x (get e)), object_AccessRights = (\<lambda>e. object_AccessRights x (get e)),
      object_ReadAttribute = (\<lambda>i e. object_ReadAttribute x i (get e)),
      object_WriteAttribute = (\<lambda>i input e. case object_WriteAttribute x i input (get e) of (s, o') \<Rightarrow> (s, put o' e)),
      object_InvokeMethod = (\<lambda>i input e. case object_InvokeMethod x i input (get e) of (r, o') \<Rightarrow> (r, put o' e))\<rparr>"

text \<open>The rights of a constructor that sets one attribute after another.\<close>

definition attribute_rights :: "(u8 \<times> AttributeAccessMode) list \<Rightarrow> CosemAccessRights" where
  "attribute_rights entries = foldl (\<lambda>r (i, mode). SetAttributeAccess i mode r) CosemAccessRights_init entries"

definition method_rights :: "(u8 \<times> MethodAccessMode) list \<Rightarrow> CosemAccessRights \<Rightarrow> CosemAccessRights" where
  "method_rights entries rights = foldl (\<lambda>r (i, mode). SetMethodAccess i mode r) rights entries"

text \<open>The whole of the input has to be the value.\<close>

definition exactly :: "'a reader \<Rightarrow> bytes \<Rightarrow> 'a option" where
  "exactly rd input = (case rd input of Some (x, []) \<Rightarrow> Some x | _ \<Rightarrow> None)"

subsection \<open>Typed values\<close>

record ScalerUnit =
  scaler :: u8
  unit_code :: u8

definition AppendScalerUnit :: "ScalerUnit \<Rightarrow> bytes" where
  "AppendScalerUnit su = AppendStructureHeader 2 @ AppendInteger (scaler su) @ AppendEnum (unit_code su)"

definition DecodeScalerUnit :: "ScalerUnit reader" where
  "DecodeScalerUnit input = do {
     input \<leftarrow> ReadExpectedTag 0x02 input;
     (fieldCount, input) \<leftarrow> ReadAxdrLength input;
     if fieldCount \<noteq> 2 then None else do {
       (scalerRaw, input) \<leftarrow> ReadIntegerValue input;
       (unitRaw, input) \<leftarrow> ReadEnumValue input;
       Some (\<lparr>scaler = scalerRaw, unit_code = unitRaw\<rparr>, input) } }"

definition AppendDateTimeOctetString :: "DateTime \<Rightarrow> bytes" where
  "AppendDateTimeOctetString value = AppendOctetString (DateTime_ToBytes value)"

definition DecodeDateTimeOctetString :: "bytes \<Rightarrow> DateTime option" where
  "DecodeDateTimeOctetString input = do { (bs, rest) \<leftarrow> read_octets 12 input; if rest \<noteq> [] then None else DateTime_TryFromBytes bs }"

subsection \<open>Data\<close>

record CosemDataObject =
  data_descriptor :: CosemObjectDescriptor
  data_value :: bytes
  data_rights :: CosemAccessRights

definition CosemDataObject_init :: "bytes \<Rightarrow> bytes \<Rightarrow> AttributeAccessMode \<Rightarrow> u8 \<Rightarrow> CosemDataObject" where
  "CosemDataObject_init logicalName value valueAccess version =
     \<lparr>data_descriptor = MakeDescriptor 1 (NormalizeVersion version 0) logicalName, data_value = value,
      data_rights = attribute_rights [(1, ReadOnly), (2, valueAccess)]\<rparr>"

definition Data_ReadAttribute :: "u8 \<Rightarrow> CosemDataObject \<Rightarrow> CosemStatus \<times> bytes" where
  "Data_ReadAttribute identifier x =
     (if identifier = 1 then (Ok, EncodeLogicalName (key_logicalName (descriptor_key (data_descriptor x))))
      else if identifier = 2 then (Ok, data_value x)
      else (AttributeNotFound, []))"

definition Data_WriteAttribute :: "u8 \<Rightarrow> bytes \<Rightarrow> CosemDataObject \<Rightarrow> CosemStatus \<times> CosemDataObject" where
  "Data_WriteAttribute identifier input x =
     (if identifier = 1 then (AccessDenied, x)
      else if identifier = 2 then (Ok, x\<lparr>data_value := input\<rparr>)
      else (AttributeNotFound, x))"

definition Data_InvokeMethod :: "u8 \<Rightarrow> bytes \<Rightarrow> CosemDataObject \<Rightarrow> (CosemStatus \<times> bytes) \<times> CosemDataObject" where
  "Data_InvokeMethod identifier input x = ((MethodNotFound, []), x)"

definition Data_class :: "CosemDataObject CosemObject" where
  "Data_class = \<lparr>object_Descriptor = data_descriptor, object_AccessRights = data_rights, object_ReadAttribute = Data_ReadAttribute,
     object_WriteAttribute = Data_WriteAttribute, object_InvokeMethod = Data_InvokeMethod\<rparr>"

definition MakeLogicalDeviceNameObject :: "bytes \<Rightarrow> CosemDataObject" where
  "MakeLogicalDeviceNameObject name = CosemDataObject_init [0, 0, 42, 0, 0, 255] (AppendOctetString name) ReadOnly 0"

definition MakeInvocationCounterObject :: "u32 \<Rightarrow> CosemDataObject" where
  "MakeInvocationCounterObject invocationCounter =
     CosemDataObject_init [0, 0, 43, 1, 0, 255] (AppendDoubleLongUnsigned invocationCounter) ReadOnly 0"

subsection \<open>Register\<close>

record CosemRegisterObject =
  register_descriptor :: CosemObjectDescriptor
  register_value :: bytes
  register_scalerUnit :: ScalerUnit
  register_rights :: CosemAccessRights

definition IsValidValue :: "bytes \<Rightarrow> bool" where
  "IsValidValue value \<longleftrightarrow> value \<noteq> []"

definition CosemRegisterObject_init :: "bytes \<Rightarrow> bytes \<Rightarrow> ScalerUnit \<Rightarrow> AttributeAccessMode \<Rightarrow> u8 \<Rightarrow> CosemRegisterObject" where
  "CosemRegisterObject_init logicalName value scalerUnit valueAccess version =
     \<lparr>register_descriptor = MakeDescriptor 3 (NormalizeVersion version 0) logicalName,
      register_value = (if IsValidValue value then value else []), register_scalerUnit = scalerUnit,
      register_rights = attribute_rights [(1, ReadOnly), (2, valueAccess), (3, ReadOnly)]\<rparr>"

definition Register_ReadAttribute :: "u8 \<Rightarrow> CosemRegisterObject \<Rightarrow> CosemStatus \<times> bytes" where
  "Register_ReadAttribute identifier x =
     (if identifier = 1 then (Ok, EncodeLogicalName (key_logicalName (descriptor_key (register_descriptor x))))
      else if identifier = 2 then (Ok, register_value x)
      else if identifier = 3 then (Ok, AppendScalerUnit (register_scalerUnit x))
      else (AttributeNotFound, []))"

definition Register_WriteAttribute :: "u8 \<Rightarrow> bytes \<Rightarrow> CosemRegisterObject \<Rightarrow> CosemStatus \<times> CosemRegisterObject" where
  "Register_WriteAttribute identifier input x =
     (if identifier = 1 \<or> identifier = 3 then (AccessDenied, x)
      else if identifier = 2 then (if \<not> IsValidValue input then (InvalidArgument, x) else (Ok, x\<lparr>register_value := input\<rparr>))
      else (AttributeNotFound, x))"

definition Register_InvokeMethod :: "u8 \<Rightarrow> bytes \<Rightarrow> CosemRegisterObject \<Rightarrow> (CosemStatus \<times> bytes) \<times> CosemRegisterObject" where
  "Register_InvokeMethod identifier input x = (if identifier = 1 then ((UnsupportedFeature, []), x) else ((MethodNotFound, []), x))"

definition Register_SetValue :: "bytes \<Rightarrow> CosemRegisterObject \<Rightarrow> bool \<times> CosemRegisterObject" where
  "Register_SetValue value x = (if \<not> IsValidValue value then (False, x) else (True, x\<lparr>register_value := value\<rparr>))"

definition Register_class :: "CosemRegisterObject CosemObject" where
  "Register_class = \<lparr>object_Descriptor = register_descriptor, object_AccessRights = register_rights,
     object_ReadAttribute = Register_ReadAttribute, object_WriteAttribute = Register_WriteAttribute,
     object_InvokeMethod = Register_InvokeMethod\<rparr>"

subsection \<open>Extended register\<close>

record CosemExtendedRegisterObject =
  extended_descriptor :: CosemObjectDescriptor
  extended_value :: bytes
  extended_scalerUnit :: ScalerUnit
  extended_status :: bytes
  extended_captureTime :: DateTime
  extended_rights :: CosemAccessRights

definition CosemExtendedRegisterObject_init ::
    "bytes \<Rightarrow> bytes \<Rightarrow> ScalerUnit \<Rightarrow> bytes \<Rightarrow> DateTime \<Rightarrow> AttributeAccessMode \<Rightarrow> u8 \<Rightarrow> CosemExtendedRegisterObject" where
  "CosemExtendedRegisterObject_init logicalName value scalerUnit status captureTime valueAccess version =
     \<lparr>extended_descriptor = MakeDescriptor 4 (NormalizeVersion version 0) logicalName,
      extended_value = (if IsValidValue value then value else []), extended_scalerUnit = scalerUnit, extended_status = status,
      extended_captureTime = captureTime,
      extended_rights = attribute_rights [(1, ReadOnly), (2, valueAccess), (3, ReadOnly), (4, ReadOnly), (5, ReadOnly)]\<rparr>"

definition ExtendedRegister_ReadAttribute :: "u8 \<Rightarrow> CosemExtendedRegisterObject \<Rightarrow> CosemStatus \<times> bytes" where
  "ExtendedRegister_ReadAttribute identifier x =
     (if identifier = 1 then (Ok, EncodeLogicalName (key_logicalName (descriptor_key (extended_descriptor x))))
      else if identifier = 2 then (Ok, extended_value x)
      else if identifier = 3 then (Ok, AppendScalerUnit (extended_scalerUnit x))
      else if identifier = 4 then (Ok, extended_status x)
      else if identifier = 5 then (Ok, AppendDateTimeOctetString (extended_captureTime x))
      else (AttributeNotFound, []))"

definition ExtendedRegister_WriteAttribute :: "u8 \<Rightarrow> bytes \<Rightarrow> CosemExtendedRegisterObject \<Rightarrow> CosemStatus \<times> CosemExtendedRegisterObject" where
  "ExtendedRegister_WriteAttribute identifier input x =
     (if identifier = 1 \<or> identifier = 3 \<or> identifier = 4 \<or> identifier = 5 then (AccessDenied, x)
      else if identifier = 2 then (if \<not> IsValidValue input then (InvalidArgument, x) else (Ok, x\<lparr>extended_value := input\<rparr>))
      else (AttributeNotFound, x))"

definition ExtendedRegister_InvokeMethod :: "u8 \<Rightarrow> bytes \<Rightarrow> CosemExtendedRegisterObject \<Rightarrow> (CosemStatus \<times> bytes) \<times> CosemExtendedRegisterObject" where
  "ExtendedRegister_InvokeMethod identifier input x = (if identifier = 1 then ((UnsupportedFeature, []), x) else ((MethodNotFound, []), x))"

definition ExtendedRegister_SetValue :: "bytes \<Rightarrow> CosemExtendedRegisterObject \<Rightarrow> bool \<times> CosemExtendedRegisterObject" where
  "ExtendedRegister_SetValue value x = (if \<not> IsValidValue value then (False, x) else (True, x\<lparr>extended_value := value\<rparr>))"

definition ExtendedRegister_class :: "CosemExtendedRegisterObject CosemObject" where
  "ExtendedRegister_class = \<lparr>object_Descriptor = extended_descriptor, object_AccessRights = extended_rights,
     object_ReadAttribute = ExtendedRegister_ReadAttribute, object_WriteAttribute = ExtendedRegister_WriteAttribute,
     object_InvokeMethod = ExtendedRegister_InvokeMethod\<rparr>"

subsection \<open>Demand register\<close>

record CosemDemandRegisterObject =
  demand_descriptor :: CosemObjectDescriptor
  demand_currentAverageValue :: bytes
  demand_lastAverageValue :: bytes
  demand_scalerUnit :: ScalerUnit
  demand_status :: bytes
  demand_captureTime :: DateTime
  demand_startTimeCurrent :: DateTime
  demand_period :: u32
  demand_numberOfPeriods :: u16
  demand_rights :: CosemAccessRights

definition CosemDemandRegisterObject_init ::
    "bytes \<Rightarrow> bytes \<Rightarrow> bytes \<Rightarrow> ScalerUnit \<Rightarrow> bytes \<Rightarrow> DateTime \<Rightarrow> DateTime \<Rightarrow> u32 \<Rightarrow> u16 \<Rightarrow> u8 \<Rightarrow> CosemDemandRegisterObject" where
  "CosemDemandRegisterObject_init logicalName current final scalerUnit status captureTime startTime period numberOfPeriods version =
     \<lparr>demand_descriptor = MakeDescriptor 5 (NormalizeVersion version 0) logicalName,
      demand_currentAverageValue = (if IsValidValue current then current else []),
      demand_lastAverageValue = (if IsValidValue final then final else []), demand_scalerUnit = scalerUnit,
      demand_status = status, demand_captureTime = captureTime, demand_startTimeCurrent = startTime, demand_period = period,
      demand_numberOfPeriods = numberOfPeriods,
      demand_rights = attribute_rights (map (\<lambda>i. (i, ReadOnly)) [1, 2, 3, 4, 5, 6, 7, 8, 9])\<rparr>"

definition DemandRegister_ReadAttribute :: "u8 \<Rightarrow> CosemDemandRegisterObject \<Rightarrow> CosemStatus \<times> bytes" where
  "DemandRegister_ReadAttribute identifier x =
     (if identifier = 1 then (Ok, EncodeLogicalName (key_logicalName (descriptor_key (demand_descriptor x))))
      else if identifier = 2 then (Ok, demand_currentAverageValue x)
      else if identifier = 3 then (Ok, demand_lastAverageValue x)
      else if identifier = 4 then (Ok, AppendScalerUnit (demand_scalerUnit x))
      else if identifier = 5 then (Ok, demand_status x)
      else if identifier = 6 then (Ok, AppendDateTimeOctetString (demand_captureTime x))
      else if identifier = 7 then (Ok, AppendDateTimeOctetString (demand_startTimeCurrent x))
      else if identifier = 8 then (Ok, AppendDoubleLongUnsigned (demand_period x))
      else if identifier = 9 then (Ok, AppendLongUnsigned (demand_numberOfPeriods x))
      else (AttributeNotFound, []))"

definition DemandRegister_WriteAttribute :: "u8 \<Rightarrow> bytes \<Rightarrow> CosemDemandRegisterObject \<Rightarrow> CosemStatus \<times> CosemDemandRegisterObject" where
  "DemandRegister_WriteAttribute identifier input x =
     (if identifier \<in> {1, 2, 3, 4, 5, 6, 7, 8, 9} then (AccessDenied, x) else (AttributeNotFound, x))"

definition DemandRegister_InvokeMethod :: "u8 \<Rightarrow> bytes \<Rightarrow> CosemDemandRegisterObject \<Rightarrow> (CosemStatus \<times> bytes) \<times> CosemDemandRegisterObject" where
  "DemandRegister_InvokeMethod identifier input x =
     (if identifier = 1 \<or> identifier = 2 then ((UnsupportedFeature, []), x) else ((MethodNotFound, []), x))"

definition SetCurrentAverageValue :: "bytes \<Rightarrow> CosemDemandRegisterObject \<Rightarrow> bool \<times> CosemDemandRegisterObject" where
  "SetCurrentAverageValue value x = (if \<not> IsValidValue value then (False, x) else (True, x\<lparr>demand_currentAverageValue := value\<rparr>))"

definition SetLastAverageValue :: "bytes \<Rightarrow> CosemDemandRegisterObject \<Rightarrow> bool \<times> CosemDemandRegisterObject" where
  "SetLastAverageValue value x = (if \<not> IsValidValue value then (False, x) else (True, x\<lparr>demand_lastAverageValue := value\<rparr>))"

definition DemandRegister_class :: "CosemDemandRegisterObject CosemObject" where
  "DemandRegister_class = \<lparr>object_Descriptor = demand_descriptor, object_AccessRights = demand_rights,
     object_ReadAttribute = DemandRegister_ReadAttribute, object_WriteAttribute = DemandRegister_WriteAttribute,
     object_InvokeMethod = DemandRegister_InvokeMethod\<rparr>"

subsection \<open>Disconnect control\<close>

datatype ControlState = Disconnected | Connected | ReadyForReconnection

datatype ControlMode = Mode0 | Mode1 | Mode2 | Mode3 | Mode4 | Mode5 | Mode6

fun control_state_value :: "ControlState \<Rightarrow> u8" where
  "control_state_value Disconnected = 0"
| "control_state_value Connected = 1"
| "control_state_value ReadyForReconnection = 2"

fun control_mode_value :: "ControlMode \<Rightarrow> u8" where
  "control_mode_value Mode0 = 0"
| "control_mode_value Mode1 = 1"
| "control_mode_value Mode2 = 2"
| "control_mode_value Mode3 = 3"
| "control_mode_value Mode4 = 4"
| "control_mode_value Mode5 = 5"
| "control_mode_value Mode6 = 6"

definition control_mode_of :: "u8 \<Rightarrow> ControlMode" where
  "control_mode_of raw = (if raw = 0 then Mode0 else if raw = 1 then Mode1 else if raw = 2 then Mode2 else if raw = 3 then Mode3
     else if raw = 4 then Mode4 else if raw = 5 then Mode5 else Mode6)"

record CosemDisconnectControlObject =
  disconnect_descriptor :: CosemObjectDescriptor
  disconnect_outputState :: bool
  disconnect_controlState :: ControlState
  disconnect_controlMode :: ControlMode
  disconnect_rights :: CosemAccessRights

definition IsValidControlMode :: "u8 \<Rightarrow> bool" where "IsValidControlMode raw \<longleftrightarrow> raw \<le> 6"

definition CosemDisconnectControlObject_init ::
    "bytes \<Rightarrow> bool \<Rightarrow> ControlState \<Rightarrow> ControlMode \<Rightarrow> AttributeAccessMode \<Rightarrow> u8 \<Rightarrow> CosemDisconnectControlObject" where
  "CosemDisconnectControlObject_init logicalName outputState controlState controlMode controlModeAccess version =
     \<lparr>disconnect_descriptor = MakeDescriptor 70 (NormalizeVersion version 0) logicalName, disconnect_outputState = outputState,
      disconnect_controlState = controlState, disconnect_controlMode = controlMode,
      disconnect_rights = attribute_rights [(1, ReadOnly), (2, ReadOnly), (3, ReadOnly), (4, controlModeAccess)]\<rparr>"

definition DisconnectControl_ReadAttribute :: "u8 \<Rightarrow> CosemDisconnectControlObject \<Rightarrow> CosemStatus \<times> bytes" where
  "DisconnectControl_ReadAttribute identifier x =
     (if identifier = 1 then (Ok, EncodeLogicalName (key_logicalName (descriptor_key (disconnect_descriptor x))))
      else if identifier = 2 then (Ok, AppendBoolean (disconnect_outputState x))
      else if identifier = 3 then (Ok, AppendEnum (control_state_value (disconnect_controlState x)))
      else if identifier = 4 then (Ok, AppendEnum (control_mode_value (disconnect_controlMode x)))
      else (AttributeNotFound, []))"

definition DisconnectControl_WriteAttribute :: "u8 \<Rightarrow> bytes \<Rightarrow> CosemDisconnectControlObject \<Rightarrow> CosemStatus \<times> CosemDisconnectControlObject" where
  "DisconnectControl_WriteAttribute identifier input x =
     (if identifier = 4 then
        (if \<not> IsAccessWritable (AttributeAccess identifier (disconnect_rights x)) then (AccessDenied, x)
         else case exactly ReadEnumValue input of
           None \<Rightarrow> (InvalidArgument, x)
         | Some raw \<Rightarrow> if \<not> IsValidControlMode raw then (InvalidArgument, x)
             else (Ok, x\<lparr>disconnect_controlMode := control_mode_of raw\<rparr>))
      else if identifier = 1 \<or> identifier = 2 \<or> identifier = 3 then (AccessDenied, x)
      else (AttributeNotFound, x))"

definition DisconnectControl_InvokeMethod ::
    "u8 \<Rightarrow> bytes \<Rightarrow> CosemDisconnectControlObject \<Rightarrow> (CosemStatus \<times> bytes) \<times> CosemDisconnectControlObject" where
  "DisconnectControl_InvokeMethod identifier input x =
     (let mode = control_mode_value (disconnect_controlMode x) in
      if identifier = 1 then
        (if mode = 0 then ((UnsupportedFeature, []), x)
         else ((Ok, []), x\<lparr>disconnect_controlState := Disconnected, disconnect_outputState := False\<rparr>))
      else if identifier = 2 then
        (if mode = 0 then ((UnsupportedFeature, []), x)
         else if mode = 2 \<or> mode = 4 then ((Ok, []), x\<lparr>disconnect_controlState := Connected, disconnect_outputState := True\<rparr>)
         else ((Ok, []), x\<lparr>disconnect_controlState := ReadyForReconnection, disconnect_outputState := False\<rparr>))
      else ((MethodNotFound, []), x))"

definition DisconnectControl_class :: "CosemDisconnectControlObject CosemObject" where
  "DisconnectControl_class = \<lparr>object_Descriptor = disconnect_descriptor, object_AccessRights = disconnect_rights,
     object_ReadAttribute = DisconnectControl_ReadAttribute, object_WriteAttribute = DisconnectControl_WriteAttribute,
     object_InvokeMethod = DisconnectControl_InvokeMethod\<rparr>"

subsection \<open>Clock\<close>

datatype CosemClockBase = NotDefined | InternalCrystal | MainsFrequency50Hz | MainsFrequency60Hz | Gps | RadioControlled

fun clock_base_value :: "CosemClockBase \<Rightarrow> u8" where
  "clock_base_value NotDefined = 0"
| "clock_base_value InternalCrystal = 1"
| "clock_base_value MainsFrequency50Hz = 2"
| "clock_base_value MainsFrequency60Hz = 3"
| "clock_base_value Gps = 4"
| "clock_base_value RadioControlled = 5"

definition clock_base_of :: "u8 \<Rightarrow> CosemClockBase" where
  "clock_base_of raw = (if raw = 0 then NotDefined else if raw = 1 then InternalCrystal else if raw = 2 then MainsFrequency50Hz
     else if raw = 3 then MainsFrequency60Hz else if raw = 4 then Gps else RadioControlled)"

record CosemClockObject =
  clock_descriptor :: CosemObjectDescriptor
  clock_time :: DateTime
  clock_timeZone :: u16
  clock_status :: u8
  clock_daylightSavingsBegin :: DateTime
  clock_daylightSavingsEnd :: DateTime
  clock_daylightSavingsDeviation :: u8
  clock_daylightSavingsEnabled :: bool
  clock_base :: CosemClockBase
  clock_rights :: CosemAccessRights

definition CosemClockObject_init ::
    "bytes \<Rightarrow> DateTime \<Rightarrow> u16 \<Rightarrow> u8 \<Rightarrow> DateTime \<Rightarrow> DateTime \<Rightarrow> u8 \<Rightarrow> bool \<Rightarrow> CosemClockBase \<Rightarrow> u8 \<Rightarrow> CosemClockObject" where
  "CosemClockObject_init logicalName time timeZone status dstBegin dstEnd deviation enabled clockBase version =
     \<lparr>clock_descriptor = MakeDescriptor 8 (NormalizeVersion version 0) logicalName, clock_time = time, clock_timeZone = timeZone,
      clock_status = status, clock_daylightSavingsBegin = dstBegin, clock_daylightSavingsEnd = dstEnd,
      clock_daylightSavingsDeviation = deviation, clock_daylightSavingsEnabled = enabled, clock_base = clockBase,
      clock_rights = method_rights (map (\<lambda>i. (i, Access)) [1, 2, 3, 4, 5, 6])
        (attribute_rights [(1, ReadOnly), (2, ReadAndWrite), (3, ReadAndWrite), (4, ReadOnly), (5, ReadAndWrite), (6, ReadAndWrite),
           (7, ReadAndWrite), (8, ReadAndWrite), (9, ReadAndWrite)])\<rparr>"

definition Clock_ReadAttribute :: "u8 \<Rightarrow> CosemClockObject \<Rightarrow> CosemStatus \<times> bytes" where
  "Clock_ReadAttribute identifier x =
     (if identifier = 1 then (Ok, EncodeLogicalName (key_logicalName (descriptor_key (clock_descriptor x))))
      else if identifier = 2 then (Ok, AppendDateTimeOctetString (clock_time x))
      else if identifier = 3 then (Ok, AppendLong (clock_timeZone x))
      else if identifier = 4 then (Ok, AppendUnsigned (clock_status x))
      else if identifier = 5 then (Ok, AppendDateTimeOctetString (clock_daylightSavingsBegin x))
      else if identifier = 6 then (Ok, AppendDateTimeOctetString (clock_daylightSavingsEnd x))
      else if identifier = 7 then (Ok, AppendInteger (clock_daylightSavingsDeviation x))
      else if identifier = 8 then (Ok, AppendBoolean (clock_daylightSavingsEnabled x))
      else if identifier = 9 then (Ok, AppendEnum (clock_base_value (clock_base x)))
      else (AttributeNotFound, []))"

text \<open>An attribute is set to the value that the input encodes, if it encodes one.\<close>

definition set_decoded :: "'a option \<Rightarrow> ('a \<Rightarrow> 's) \<Rightarrow> 's \<Rightarrow> CosemStatus \<times> 's" where
  "set_decoded candidate update x = (case candidate of None \<Rightarrow> (InvalidArgument, x) | Some v \<Rightarrow> (Ok, update v))"

definition Clock_WriteAttribute :: "u8 \<Rightarrow> bytes \<Rightarrow> CosemClockObject \<Rightarrow> CosemStatus \<times> CosemClockObject" where
  "Clock_WriteAttribute identifier input x =
     (if identifier = 1 \<or> identifier = 4 then (AccessDenied, x)
      else if identifier = 2 then set_decoded (DecodeDateTimeOctetString input) (\<lambda>v. x\<lparr>clock_time := v\<rparr>) x
      else if identifier = 3 then set_decoded (exactly ReadLongValue input) (\<lambda>v. x\<lparr>clock_timeZone := v\<rparr>) x
      else if identifier = 5 then set_decoded (DecodeDateTimeOctetString input) (\<lambda>v. x\<lparr>clock_daylightSavingsBegin := v\<rparr>) x
      else if identifier = 6 then set_decoded (DecodeDateTimeOctetString input) (\<lambda>v. x\<lparr>clock_daylightSavingsEnd := v\<rparr>) x
      else if identifier = 7 then set_decoded (exactly ReadIntegerValue input) (\<lambda>v. x\<lparr>clock_daylightSavingsDeviation := v\<rparr>) x
      else if identifier = 8 then set_decoded (exactly ReadBooleanValue input) (\<lambda>v. x\<lparr>clock_daylightSavingsEnabled := v\<rparr>) x
      else if identifier = 9 then
        set_decoded (do { v \<leftarrow> exactly ReadEnumValue input; if v > 5 then None else Some v }) (\<lambda>v. x\<lparr>clock_base := clock_base_of v\<rparr>) x
      else (AttributeNotFound, x))"

definition Clock_InvokeMethod :: "u8 \<Rightarrow> bytes \<Rightarrow> CosemClockObject \<Rightarrow> (CosemStatus \<times> bytes) \<times> CosemClockObject" where
  "Clock_InvokeMethod identifier input x =
     (if 1 \<le> identifier \<and> identifier \<le> 6 then ((UnsupportedFeature, []), x) else ((MethodNotFound, []), x))"

definition Clock_class :: "CosemClockObject CosemObject" where
  "Clock_class = \<lparr>object_Descriptor = clock_descriptor, object_AccessRights = clock_rights, object_ReadAttribute = Clock_ReadAttribute,
     object_WriteAttribute = Clock_WriteAttribute, object_InvokeMethod = Clock_InvokeMethod\<rparr>"

subsection \<open>Profile generic\<close>

record CosemCaptureObject =
  capture_object :: CosemObjectKey
  capture_attributeId :: u8
  capture_dataIndex :: u16

definition MakeEmptyProfileGenericSortObject :: CosemCaptureObject where
  "MakeEmptyProfileGenericSortObject = \<lparr>capture_object = \<lparr>key_classId = 0, key_version = 0, key_logicalName = [0, 0, 0, 0, 0, 0]\<rparr>,
     capture_attributeId = 0, capture_dataIndex = 0\<rparr>"

datatype ProfileSortMethod = Fifo | Lifo | Largest | Smallest | NearestToZero | FarthestFromZero

fun sort_method_value :: "ProfileSortMethod \<Rightarrow> u8" where
  "sort_method_value Fifo = 1"
| "sort_method_value Lifo = 2"
| "sort_method_value Largest = 3"
| "sort_method_value Smallest = 4"
| "sort_method_value NearestToZero = 5"
| "sort_method_value FarthestFromZero = 6"

definition AppendCaptureObject :: "CosemCaptureObject \<Rightarrow> bytes" where
  "AppendCaptureObject object = AppendStructureHeader 4 @ AppendLongUnsigned (key_classId (capture_object object))
     @ AppendLogicalName (key_logicalName (capture_object object)) @ AppendInteger (capture_attributeId object)
     @ AppendLongUnsigned (capture_dataIndex object)"

definition AppendProfileBuffer :: "bytes list \<Rightarrow> bytes" where
  "AppendProfileBuffer rows = AppendArrayHeader (length rows) @ concat rows"

definition AppendProfileCaptureObjects :: "CosemCaptureObject list \<Rightarrow> bytes" where
  "AppendProfileCaptureObjects objects = AppendArrayHeader (length objects) @ concat (map AppendCaptureObject objects)"

definition DecodeCaptureObjectAt :: "CosemCaptureObject reader" where
  "DecodeCaptureObjectAt input = do {
     input \<leftarrow> read_structure 4 input;
     (classId, input) \<leftarrow> ReadLongUnsignedValue input;
     (logicalName, input) \<leftarrow> ReadLogicalNameValue input;
     (identifier, input) \<leftarrow> ReadIntegerValue input;
     (dataIndex, input) \<leftarrow> ReadLongUnsignedValue input;
     Some (\<lparr>capture_object = \<lparr>key_classId = classId, key_version = 0, key_logicalName = logicalName\<rparr>,
            capture_attributeId = identifier, capture_dataIndex = dataIndex\<rparr>, input) }"

definition DecodeCaptureObjectsAt :: "nat \<Rightarrow> bytes \<Rightarrow> (CosemCaptureObject list \<times> bytes) decoded" where
  "DecodeCaptureObjectsAt max_size input = (case read_header 0x01 input of
     None \<Rightarrow> Rejected
   | Some (count, input) \<Rightarrow> read_reserved max_size DecodeCaptureObjectAt count input)"

definition DecodeProfileGenericCaptureObject :: "bytes \<Rightarrow> CosemStatus + CosemCaptureObject" where
  "DecodeProfileGenericCaptureObject input = (case exactly DecodeCaptureObjectAt input of None \<Rightarrow> Inl InvalidArgument | Some x \<Rightarrow> Inr x)"

definition DecodeProfileGenericCaptureObjects :: "nat \<Rightarrow> bytes \<Rightarrow> (CosemCaptureObject list) decoded" where
  "DecodeProfileGenericCaptureObjects max_size input = whole_vector (DecodeCaptureObjectsAt max_size input)"

text \<open>A row of the buffer: a structure, with everything in it.\<close>

definition profile_row :: "bytes reader" where
  "profile_row input = (if input = [] \<or> hd input \<noteq> 0x02 then None
     else do { rest \<leftarrow> SkipDlmsData 17 input; Some (take (length input - length rest) input, rest) })"

definition DecodeProfileGenericBuffer :: "nat \<Rightarrow> bytes \<Rightarrow> (bytes list) decoded" where
  "DecodeProfileGenericBuffer max_size input = (case read_header 0x01 input of
     None \<Rightarrow> Rejected
   | Some (count, input) \<Rightarrow> whole_vector (read_reserved max_size profile_row count input))"

record RangeDescriptor =
  restrictingObject :: CosemCaptureObject
  fromValue :: bytes
  toValue :: bytes
  selectedValues :: "CosemCaptureObject list"

definition EncodeProfileGenericRangeDescriptor :: "RangeDescriptor \<Rightarrow> bytes" where
  "EncodeProfileGenericRangeDescriptor descriptor = AppendStructureHeader 4 @ AppendCaptureObject (restrictingObject descriptor)
     @ fromValue descriptor @ toValue descriptor @ AppendProfileCaptureObjects (selectedValues descriptor)"

definition range_value :: "bytes reader" where
  "range_value input = do { rest \<leftarrow> SkipProfileGenericRangeValue input; Some (take (length input - length rest) input, rest) }"

definition DecodeProfileGenericRangeDescriptor :: "nat \<Rightarrow> bytes \<Rightarrow> RangeDescriptor decoded" where
  "DecodeProfileGenericRangeDescriptor max_size input = (case (do {
       input \<leftarrow> read_structure 4 input;
       (object, input) \<leftarrow> DecodeCaptureObjectAt input;
       (fromV, input) \<leftarrow> range_value input;
       (toV, input) \<leftarrow> range_value input;
       Some (object, fromV, toV, input) }) of
     None \<Rightarrow> Rejected
   | Some (object, fromV, toV, input) \<Rightarrow>
       (case whole_vector (DecodeCaptureObjectsAt max_size input) of
          Rejected \<Rightarrow> Rejected
        | Thrown \<Rightarrow> Thrown
        | Decoded objects \<Rightarrow>
            Decoded \<lparr>restrictingObject = object, fromValue = fromV, toValue = toV, selectedValues = objects\<rparr>))"

record EntryDescriptor =
  fromEntry :: u32
  toEntry :: u32
  fromSelectedValue :: u16
  toSelectedValue :: u16

definition EncodeProfileGenericEntryDescriptor :: "EntryDescriptor \<Rightarrow> bytes" where
  "EncodeProfileGenericEntryDescriptor d = AppendStructureHeader 4 @ AppendDoubleLongUnsigned (fromEntry d)
     @ AppendDoubleLongUnsigned (toEntry d) @ AppendLongUnsigned (fromSelectedValue d) @ AppendLongUnsigned (toSelectedValue d)"

definition DecodeProfileGenericEntryDescriptor :: "bytes \<Rightarrow> CosemStatus + EntryDescriptor" where
  "DecodeProfileGenericEntryDescriptor input = (case (do {
       input \<leftarrow> read_structure 4 input;
       (a, input) \<leftarrow> ReadDoubleLongUnsignedValue input;
       (b, input) \<leftarrow> ReadDoubleLongUnsignedValue input;
       (c, input) \<leftarrow> ReadLongUnsignedValue input;
       (d, input) \<leftarrow> ReadLongUnsignedValue input;
       if input \<noteq> [] then None
       else Some \<lparr>fromEntry = a, toEntry = b, fromSelectedValue = c, toSelectedValue = d\<rparr> }) of
     None \<Rightarrow> Inl InvalidArgument
   | Some d \<Rightarrow> Inr d)"

record CosemProfileGenericObject =
  profile_descriptor :: CosemObjectDescriptor
  profile_bufferRows :: "bytes list"
  profile_captureObjects :: "CosemCaptureObject list"
  profile_capturePeriod :: u32
  profile_profileEntries :: u32
  profile_sortMethod :: ProfileSortMethod
  profile_sortObject :: CosemCaptureObject
  profile_rights :: CosemAccessRights

definition CosemProfileGenericObject_init ::
    "bytes \<Rightarrow> bytes list \<Rightarrow> CosemCaptureObject list \<Rightarrow> u32 \<Rightarrow> u32 \<Rightarrow> ProfileSortMethod \<Rightarrow> CosemCaptureObject \<Rightarrow> u8 \<Rightarrow> CosemProfileGenericObject" where
  "CosemProfileGenericObject_init logicalName rows objects capturePeriod profileEntries sortMethod sortObject version =
     \<lparr>profile_descriptor = MakeDescriptor 7 (NormalizeVersion version 1) logicalName, profile_bufferRows = rows,
      profile_captureObjects = objects, profile_capturePeriod = capturePeriod, profile_profileEntries = profileEntries,
      profile_sortMethod = sortMethod, profile_sortObject = sortObject,
      profile_rights = method_rights (map (\<lambda>i. (i, Access)) [1, 2, 3, 4]) (attribute_rights (map (\<lambda>i. (i, ReadOnly)) [1, 2, 3, 4, 5, 6, 7, 8]))\<rparr>"

definition ProfileGeneric_ReadAttribute :: "u8 \<Rightarrow> CosemProfileGenericObject \<Rightarrow> CosemStatus \<times> bytes" where
  "ProfileGeneric_ReadAttribute identifier x =
     (if identifier = 1 then (Ok, EncodeLogicalName (key_logicalName (descriptor_key (profile_descriptor x))))
      else if identifier = 2 then (Ok, AppendProfileBuffer (profile_bufferRows x))
      else if identifier = 3 then (Ok, AppendProfileCaptureObjects (profile_captureObjects x))
      else if identifier = 4 then (Ok, AppendDoubleLongUnsigned (profile_capturePeriod x))
      else if identifier = 5 then (Ok, AppendEnum (sort_method_value (profile_sortMethod x)))
      else if identifier = 6 then (Ok, AppendCaptureObject (profile_sortObject x))
      else if identifier = 7 then (Ok, AppendDoubleLongUnsigned (of_nat (length (profile_bufferRows x))))
      else if identifier = 8 then (Ok, AppendDoubleLongUnsigned (profile_profileEntries x))
      else (AttributeNotFound, []))"

definition ProfileGeneric_WriteAttribute :: "u8 \<Rightarrow> bytes \<Rightarrow> CosemProfileGenericObject \<Rightarrow> CosemStatus \<times> CosemProfileGenericObject" where
  "ProfileGeneric_WriteAttribute identifier input x =
     (if 1 \<le> identifier \<and> identifier \<le> 8 then (AccessDenied, x) else (AttributeNotFound, x))"

definition ProfileGeneric_InvokeMethod ::
    "u8 \<Rightarrow> bytes \<Rightarrow> CosemProfileGenericObject \<Rightarrow> (CosemStatus \<times> bytes) \<times> CosemProfileGenericObject" where
  "ProfileGeneric_InvokeMethod identifier input x =
     (if identifier = 1 then ((Ok, []), x\<lparr>profile_bufferRows := []\<rparr>)
      else if identifier = 2 \<or> identifier = 3 \<or> identifier = 4 then ((UnsupportedFeature, []), x)
      else ((MethodNotFound, []), x))"

definition ProfileGeneric_class :: "CosemProfileGenericObject CosemObject" where
  "ProfileGeneric_class = \<lparr>object_Descriptor = profile_descriptor, object_AccessRights = profile_rights,
     object_ReadAttribute = ProfileGeneric_ReadAttribute, object_WriteAttribute = ProfileGeneric_WriteAttribute,
     object_InvokeMethod = ProfileGeneric_InvokeMethod\<rparr>"

end
