(* ===== verification/Cosem_Association.thy ===== *)
theory Cosem_Association
  imports Cosem_Objects Security_KeyWrap
begin

text \<open>
  The classes that manage associations and security, from \<open>simple_objects.cpp\<close>: association LN, the assignment of
  access points, and the security setup with its key store, counters and certificates (\<open>certificate_store.cpp\<close>).
  The stores are behind interfaces: functions on a world \<open>'e\<close>.
\<close>

subsection \<open>Association LN\<close>

datatype CosemAssociationStatus = NonAssociated | AssociationPending | Associated

fun association_status_value :: "CosemAssociationStatus \<Rightarrow> u8" where
  "association_status_value NonAssociated = 0"
| "association_status_value AssociationPending = 1"
| "association_status_value Associated = 2"

record CosemAssociationUser =
  userId :: u8
  userName :: bytes

record CosemAssociationLnConfig =
  config_version :: u8
  config_associationStatus :: CosemAssociationStatus
  config_hasSecuritySetupReference :: bool
  config_securitySetupReference :: bytes
  config_users :: "CosemAssociationUser list"
  config_currentUser :: CosemAssociationUser

record CosemAssociationLnObject =
  ln_descriptor :: CosemObjectDescriptor
  ln_objectList :: "AssociationViewObject list"
  ln_associationStatus :: CosemAssociationStatus
  ln_hasSecuritySetupReference :: bool
  ln_securitySetupReference :: bytes
  ln_users :: "CosemAssociationUser list"
  ln_currentUser :: CosemAssociationUser
  ln_rights :: CosemAccessRights

definition NormalizeAssociationLnVersion :: "u8 \<Rightarrow> u8" where
  "NormalizeAssociationLnVersion version = (if version > 3 then 3 else version)"

definition DefaultAssociationUser :: CosemAssociationUser where
  "DefaultAssociationUser = \<lparr>userId = 0, userName = []\<rparr>"

definition AppendAssociationUser :: "CosemAssociationUser \<Rightarrow> bytes" where
  "AppendAssociationUser user = AppendStructureHeader 2 @ AppendUnsigned (userId user) @ AppendVisibleString (userName user)"

definition AppendAssociationUserList :: "CosemAssociationUser list \<Rightarrow> bytes" where
  "AppendAssociationUserList users = AppendArrayHeader (length users) @ concat (map AppendAssociationUser users)"

definition CosemAssociationLnObject_init ::
    "bytes \<Rightarrow> AssociationViewObject list \<Rightarrow> CosemAssociationLnConfig \<Rightarrow> CosemAssociationLnObject" where
  "CosemAssociationLnObject_init logicalName objects config =
     (let version = NormalizeAssociationLnVersion (config_version config);
          hasReference = config_hasSecuritySetupReference config;
          rights = method_rights [(1, Access), (2, Access), (3, Access), (4, Access)]
            (attribute_rights [(1, ReadOnly), (2, ReadOnly), (8, ReadOnly)]);
          rights = (if version \<ge> 1 \<and> hasReference then SetAttributeAccess 9 ReadOnly rights else rights);
          rights = (if version \<ge> 3 then method_rights [(5, Access), (6, Access)]
             (SetAttributeAccess 11 ReadOnly (SetAttributeAccess 10 ReadOnly rights)) else rights)
      in
      \<lparr>ln_descriptor = MakeDescriptor 15 version logicalName, ln_objectList = objects,
       ln_associationStatus = config_associationStatus config,
       ln_hasSecuritySetupReference = (if version = 0 \<and> hasReference then False else hasReference),
       ln_securitySetupReference =
         (if version = 0 \<and> hasReference then CosemLogicalName_init else config_securitySetupReference config),
       ln_users = (if version < 3 then [] else config_users config),
       ln_currentUser = (if version < 3 then DefaultAssociationUser else config_currentUser config), ln_rights = rights\<rparr>)"

definition AssociationLn_ReadAttribute :: "u8 \<Rightarrow> CosemAssociationLnObject \<Rightarrow> CosemStatus \<times> bytes" where
  "AssociationLn_ReadAttribute identifier x =
     (let version = key_version (descriptor_key (ln_descriptor x)) in
      if identifier = 1 then (Ok, EncodeLogicalName (key_logicalName (descriptor_key (ln_descriptor x))))
      else if identifier = 2 then (Ok, EncodeAssociationObjectList (ln_objectList x))
      else if identifier = 8 then (Ok, AppendEnum (association_status_value (ln_associationStatus x)))
      else if identifier = 9 \<and> version \<ge> 1 \<and> ln_hasSecuritySetupReference x then (Ok, EncodeLogicalName (ln_securitySetupReference x))
      else if identifier = 10 \<and> version \<ge> 3 then (Ok, AppendAssociationUserList (ln_users x))
      else if identifier = 11 \<and> version \<ge> 3 then (Ok, AppendAssociationUser (ln_currentUser x))
      else (AttributeNotFound, []))"

definition AssociationLn_WriteAttribute :: "u8 \<Rightarrow> bytes \<Rightarrow> CosemAssociationLnObject \<Rightarrow> CosemStatus \<times> CosemAssociationLnObject" where
  "AssociationLn_WriteAttribute identifier input x = (AccessDenied, x)"

definition AssociationLn_InvokeMethod ::
    "u8 \<Rightarrow> bytes \<Rightarrow> CosemAssociationLnObject \<Rightarrow> (CosemStatus \<times> bytes) \<times> CosemAssociationLnObject" where
  "AssociationLn_InvokeMethod identifier input x =
     (if 1 \<le> identifier \<and> identifier \<le> 4 then ((UnsupportedFeature, []), x)
      else if key_version (descriptor_key (ln_descriptor x)) \<ge> 3 \<and> 5 \<le> identifier \<and> identifier \<le> 6 then ((UnsupportedFeature, []), x)
      else ((MethodNotFound, []), x))"

definition AssociationLn_class :: "CosemAssociationLnObject CosemObject" where
  "AssociationLn_class = \<lparr>object_Descriptor = ln_descriptor, object_AccessRights = ln_rights,
     object_ReadAttribute = AssociationLn_ReadAttribute, object_WriteAttribute = AssociationLn_WriteAttribute,
     object_InvokeMethod = AssociationLn_InvokeMethod\<rparr>"

subsection \<open>SAP assignment\<close>

record CosemSapAssignmentObject =
  sap_descriptor :: CosemObjectDescriptor
  sap_assignments :: "SapAssignment list"
  sap_rights :: CosemAccessRights

definition CosemSapAssignmentObject_init :: "bytes \<Rightarrow> SapAssignment list \<Rightarrow> AttributeAccessMode \<Rightarrow> u8 \<Rightarrow> CosemSapAssignmentObject" where
  "CosemSapAssignmentObject_init logicalName assignments listAccess version =
     \<lparr>sap_descriptor = MakeDescriptor 17 (NormalizeVersion version 0) logicalName, sap_assignments = assignments,
      sap_rights = attribute_rights [(1, ReadOnly), (2, listAccess)]\<rparr>"

definition AppendSapAssignment :: "SapAssignment \<Rightarrow> bytes" where
  "AppendSapAssignment a = AppendStructureHeader 2 @ AppendLongUnsigned (assignment_sap a) @ AppendOctetString (logicalDeviceName a)"

definition Sap_ReadAttribute :: "u8 \<Rightarrow> CosemSapAssignmentObject \<Rightarrow> CosemStatus \<times> bytes" where
  "Sap_ReadAttribute identifier x =
     (if identifier = 1 then (Ok, EncodeLogicalName (key_logicalName (descriptor_key (sap_descriptor x))))
      else if identifier = 2 then
        (Ok, AppendArrayHeader (length (sap_assignments x)) @ concat (map AppendSapAssignment (sap_assignments x)))
      else (AttributeNotFound, []))"

text \<open>
  One element of the list, at an offset of the input. The check \<open>offset + ldnLen > input.size()\<close> is done with the
  width of \<open>size_t\<close>; a name that is longer than a string can be makes \<open>assign\<close> throw, whatever the input holds.
\<close>

definition decode_assignment :: "nat \<Rightarrow> bytes \<Rightarrow> nat \<Rightarrow> (SapAssignment \<times> nat) decoded" where
  "decode_assignment max_string input offset =
     (case (do {
        rest \<leftarrow> read_structure 2 (drop offset input);
        (n, rest) \<leftarrow> ReadLongUnsignedValue rest;
        rest \<leftarrow> ReadExpectedTag 0x09 rest;
        (ldnLen, rest) \<leftarrow> ReadAxdrLength rest;
        Some (n, ldnLen, length input - length rest) }) of
      None \<Rightarrow> Rejected
    | Some (n, ldnLen, position) \<Rightarrow>
        if (position + ldnLen) mod size_t_modulus > length input then Rejected
        else if ldnLen > max_string then Thrown
        else Decoded (\<lparr>assignment_sap = n, logicalDeviceName = take ldnLen (drop position input)\<rparr>, position + ldnLen))"

fun decode_assignments :: "nat \<Rightarrow> bytes \<Rightarrow> nat \<Rightarrow> nat \<Rightarrow> (SapAssignment list \<times> nat) decoded" where
  "decode_assignments max_string input 0 offset = Decoded ([], offset)"
| "decode_assignments max_string input (Suc count) offset = (case decode_assignment max_string input offset of
     Rejected \<Rightarrow> Rejected
   | Thrown \<Rightarrow> Thrown
   | Decoded (a, offset) \<Rightarrow> (case decode_assignments max_string input count offset of
       Decoded (as, offset) \<Rightarrow> Decoded (a # as, offset) | r \<Rightarrow> r))"

definition decode_assignment_list :: "nat \<Rightarrow> nat \<Rightarrow> bytes \<Rightarrow> (SapAssignment list) decoded" where
  "decode_assignment_list max_vector max_string input = (case read_header 0x01 input of
     None \<Rightarrow> Rejected
   | Some (count, rest) \<Rightarrow>
       if count > max_vector then Thrown
       else (case decode_assignments max_string input count (length input - length rest) of
         Decoded (as, offset) \<Rightarrow> if offset \<noteq> length input then Rejected else Decoded as
       | Rejected \<Rightarrow> Rejected | Thrown \<Rightarrow> Thrown))"

text \<open>What a write does: it reports a status, or it throws.\<close>

definition Sap_WriteAttribute :: "nat \<Rightarrow> nat \<Rightarrow> u8 \<Rightarrow> bytes \<Rightarrow> CosemSapAssignmentObject \<Rightarrow> (CosemStatus \<times> CosemSapAssignmentObject) decoded" where
  "Sap_WriteAttribute max_vector max_string identifier input x =
     (if identifier = 1 then Decoded (AccessDenied, x)
      else if identifier \<noteq> 2 then Decoded (AttributeNotFound, x)
      else if \<not> IsAccessWritable (AttributeAccess identifier (sap_rights x)) then Decoded (AccessDenied, x)
      else case decode_assignment_list max_vector max_string input of
        Rejected \<Rightarrow> Decoded (InvalidArgument, x)
      | Thrown \<Rightarrow> Thrown
      | Decoded as \<Rightarrow> Decoded (Ok, x\<lparr>sap_assignments := as\<rparr>))"

definition Sap_InvokeMethod :: "u8 \<Rightarrow> bytes \<Rightarrow> CosemSapAssignmentObject \<Rightarrow> (CosemStatus \<times> bytes) \<times> CosemSapAssignmentObject" where
  "Sap_InvokeMethod identifier input x = (if identifier = 1 then ((UnsupportedFeature, []), x) else ((MethodNotFound, []), x))"

subsection \<open>Certificates\<close>

record CertificateInfoEntry =
  cert_entity :: u8
  cert_type :: u8
  cert_systemTitle :: bytes
  cert_serialNumber :: bytes
  cert_issuer :: bytes
  cert_subject :: bytes
  cert_subjectAltName :: bytes
  cert_rawCertificate :: bytes

definition CertificateInfoEntry_init :: CertificateInfoEntry where
  "CertificateInfoEntry_init = \<lparr>cert_entity = 3, cert_type = 3, cert_systemTitle = replicate 8 0, cert_serialNumber = [], cert_issuer = [],
     cert_subject = [], cert_subjectAltName = [], cert_rawCertificate = []\<rparr>"

text \<open>\<open>ICosemCertificateStore\<close>, and the store in memory as functions on its list of entries.\<close>

record 'e CertificateStore =
  store_List :: "'e \<Rightarrow> CosemStatus \<times> CertificateInfoEntry list"
  store_Import :: "CertificateInfoEntry \<Rightarrow> 'e \<Rightarrow> CosemStatus \<times> 'e"
  store_ExportByEntity :: "u8 \<Rightarrow> u8 \<Rightarrow> bytes \<Rightarrow> 'e \<Rightarrow> CosemStatus \<times> bytes"
  store_ExportBySerial :: "bytes \<Rightarrow> bytes \<Rightarrow> 'e \<Rightarrow> CosemStatus \<times> bytes"
  store_RemoveByEntity :: "u8 \<Rightarrow> u8 \<Rightarrow> bytes \<Rightarrow> 'e \<Rightarrow> CosemStatus \<times> 'e"
  store_RemoveBySerial :: "bytes \<Rightarrow> bytes \<Rightarrow> 'e \<Rightarrow> CosemStatus \<times> 'e"

definition same_slot :: "u8 \<Rightarrow> u8 \<Rightarrow> bytes \<Rightarrow> CertificateInfoEntry \<Rightarrow> bool" where
  "same_slot entity kind systemTitle c \<longleftrightarrow> cert_entity c = entity \<and> cert_type c = kind \<and> cert_systemTitle c = systemTitle"

definition same_serial :: "bytes \<Rightarrow> bytes \<Rightarrow> CertificateInfoEntry \<Rightarrow> bool" where
  "same_serial serialNumber issuer c \<longleftrightarrow> cert_serialNumber c = serialNumber \<and> cert_issuer c = issuer"

fun InMemory_Import :: "CertificateInfoEntry \<Rightarrow> CertificateInfoEntry list \<Rightarrow> CosemStatus \<times> CertificateInfoEntry list" where
  "InMemory_Import entry [] = (Ok, [entry])"
| "InMemory_Import entry (c # cs) =
     (if same_slot (cert_entity entry) (cert_type entry) (cert_systemTitle entry) c then (Ok, entry # cs)
      else let (s, cs') = InMemory_Import entry cs in (s, c # cs'))"

definition InMemory_ExportByEntity :: "u8 \<Rightarrow> u8 \<Rightarrow> bytes \<Rightarrow> CertificateInfoEntry list \<Rightarrow> CosemStatus \<times> bytes" where
  "InMemory_ExportByEntity entity kind systemTitle cs = (case find (same_slot entity kind systemTitle) cs of
     None \<Rightarrow> (ObjectError, []) | Some c \<Rightarrow> (Ok, cert_rawCertificate c))"

definition InMemory_ExportBySerial :: "bytes \<Rightarrow> bytes \<Rightarrow> CertificateInfoEntry list \<Rightarrow> CosemStatus \<times> bytes" where
  "InMemory_ExportBySerial serialNumber issuer cs = (case find (same_serial serialNumber issuer) cs of
     None \<Rightarrow> (ObjectError, []) | Some c \<Rightarrow> (Ok, cert_rawCertificate c))"

fun InMemory_RemoveByEntity :: "u8 \<Rightarrow> u8 \<Rightarrow> bytes \<Rightarrow> CertificateInfoEntry list \<Rightarrow> CosemStatus \<times> CertificateInfoEntry list" where
  "InMemory_RemoveByEntity entity kind systemTitle [] = (ObjectError, [])"
| "InMemory_RemoveByEntity entity kind systemTitle (c # cs) =
     (if same_slot entity kind systemTitle c then (Ok, cs)
      else let (s, cs') = InMemory_RemoveByEntity entity kind systemTitle cs in (s, c # cs'))"

fun InMemory_RemoveBySerial :: "bytes \<Rightarrow> bytes \<Rightarrow> CertificateInfoEntry list \<Rightarrow> CosemStatus \<times> CertificateInfoEntry list" where
  "InMemory_RemoveBySerial serialNumber issuer [] = (ObjectError, [])"
| "InMemory_RemoveBySerial serialNumber issuer (c # cs) =
     (if same_serial serialNumber issuer c then (Ok, cs)
      else let (s, cs') = InMemory_RemoveBySerial serialNumber issuer cs in (s, c # cs'))"

definition InMemoryCosemCertificateStore :: "(CertificateInfoEntry list) CertificateStore" where
  "InMemoryCosemCertificateStore = \<lparr>store_List = (\<lambda>cs. (Ok, cs)), store_Import = InMemory_Import,
     store_ExportByEntity = InMemory_ExportByEntity, store_ExportBySerial = InMemory_ExportBySerial,
     store_RemoveByEntity = InMemory_RemoveByEntity, store_RemoveBySerial = InMemory_RemoveBySerial\<rparr>"

subsection \<open>Security setup\<close>

record 'e MutableKeyStore =
  store_GetKey :: "SecurityKeyRole \<Rightarrow> 'e \<Rightarrow> SecurityStatus + SecurityKey"
  store_SetKey :: "SecurityKey \<Rightarrow> 'e \<Rightarrow> SecurityStatus \<times> 'e"

text \<open>The object, with the stores it points to; a null pointer is \<open>None\<close>.\<close>

record 'e CosemSecuritySetupObject =
  setup_descriptor :: CosemObjectDescriptor
  setup_securityPolicy :: u8
  setup_securitySuite :: u8
  setup_clientSystemTitle :: bytes
  setup_serverSystemTitle :: bytes
  setup_keyStore :: "'e MutableKeyStore option"
  setup_counterResetPolicy :: "(SecurityKeyRole \<Rightarrow> 'e \<Rightarrow> SecurityStatus \<times> 'e) option"
  setup_certificateStore :: "'e CertificateStore option"
  setup_rights :: CosemAccessRights

definition StrengthensOrKeepsPolicy :: "u8 \<Rightarrow> u8 \<Rightarrow> bool" where
  "StrengthensOrKeepsPolicy currentPolicy requestedPolicy \<longleftrightarrow> currentPolicy AND requestedPolicy = currentPolicy"

definition MapSecuritySetupKeyId :: "u8 \<Rightarrow> SecurityKeyRole option" where
  "MapSecuritySetupKeyId keyId = (if keyId = 0 then Some GlobalUnicastEncryption else if keyId = 1 then Some GlobalBroadcastEncryption
     else if keyId = 2 then Some Authentication else if keyId = 3 then Some KeyEncryption else None)"

definition MapSecurityStatus :: "SecurityStatus \<Rightarrow> CosemStatus" where
  "MapSecurityStatus status = (case status of
     SecurityStatus.Ok \<Rightarrow> Ok | SecurityStatus.InvalidArgument \<Rightarrow> InvalidArgument | InvalidKeyLength \<Rightarrow> InvalidArgument
   | MissingKey \<Rightarrow> AccessDenied | AuthenticationFailed \<Rightarrow> AccessDenied | SecurityStatus.UnsupportedFeature \<Rightarrow> UnsupportedFeature
   | _ \<Rightarrow> ObjectError)"

definition CosemSecuritySetupObject_init ::
    "bytes \<Rightarrow> u8 \<Rightarrow> u8 \<Rightarrow> bytes \<Rightarrow> bytes \<Rightarrow> 'e MutableKeyStore option \<Rightarrow> (SecurityKeyRole \<Rightarrow> 'e \<Rightarrow> SecurityStatus \<times> 'e) option
      \<Rightarrow> 'e CertificateStore option \<Rightarrow> u8 \<Rightarrow> 'e CosemSecuritySetupObject" where
  "CosemSecuritySetupObject_init logicalName securityPolicy securitySuite clientTitle serverTitle keys counters certificates version =
     (let descriptor = MakeDescriptor 64 (NormalizeVersion version 1) logicalName; v = key_version (descriptor_key descriptor);
          rights = attribute_rights [(1, ReadOnly), (2, ReadOnly), (3, ReadOnly), (4, ReadOnly), (5, ReadOnly)];
          rights = (if v \<ge> 1 then SetAttributeAccess 6 ReadOnly rights else rights)
      in
      \<lparr>setup_descriptor = descriptor, setup_securityPolicy = securityPolicy, setup_securitySuite = securitySuite,
       setup_clientSystemTitle = clientTitle, setup_serverSystemTitle = serverTitle, setup_keyStore = keys,
       setup_counterResetPolicy = counters, setup_certificateStore = certificates,
       setup_rights = method_rights (map (\<lambda>i. (i, Access)) (if v = 0 then [1, 2] else [1, 2, 3, 4, 5, 6, 7, 8])) rights\<rparr>)"

definition AppendCertificate :: "CertificateInfoEntry \<Rightarrow> bytes" where
  "AppendCertificate c = AppendStructureHeader 6 @ AppendEnum (cert_entity c) @ AppendEnum (cert_type c)
     @ AppendOctetString (cert_serialNumber c) @ AppendOctetString (cert_issuer c) @ AppendOctetString (cert_subject c)
     @ AppendOctetString (cert_subjectAltName c)"

definition SecuritySetup_ReadAttribute :: "u8 \<Rightarrow> 'e CosemSecuritySetupObject \<times> 'e \<Rightarrow> CosemStatus \<times> bytes" where
  "SecuritySetup_ReadAttribute identifier = (\<lambda>(x, e).
     if identifier = 1 then (Ok, EncodeLogicalName (key_logicalName (descriptor_key (setup_descriptor x))))
     else if identifier = 2 then (Ok, AppendEnum (setup_securityPolicy x))
     else if identifier = 3 then (Ok, AppendEnum (setup_securitySuite x))
     else if identifier = 4 then (Ok, AppendOctetString (setup_clientSystemTitle x))
     else if identifier = 5 then (Ok, AppendOctetString (setup_serverSystemTitle x))
     else if identifier = 6 \<and> key_version (descriptor_key (setup_descriptor x)) \<ge> 1 then
       (let (listStatus, entries) = (case setup_certificateStore x of None \<Rightarrow> (Ok, []) | Some certificates \<Rightarrow> store_List certificates e) in
        if listStatus \<noteq> Ok then (listStatus, [])
        else (Ok, AppendArrayHeader (length entries) @ concat (map AppendCertificate entries)))
     else (AttributeNotFound, []))"

definition SecuritySetup_WriteAttribute ::
    "u8 \<Rightarrow> bytes \<Rightarrow> 'e CosemSecuritySetupObject \<times> 'e \<Rightarrow> CosemStatus \<times> 'e CosemSecuritySetupObject \<times> 'e" where
  "SecuritySetup_WriteAttribute identifier input = (\<lambda>(x, e).
     if identifier = 1 \<or> identifier = 2 \<or> identifier = 3 \<or> identifier = 4 \<or> identifier = 5
       \<or> (key_version (descriptor_key (setup_descriptor x)) \<ge> 1 \<and> identifier = 6) then (AccessDenied, x, e)
     else (AttributeNotFound, x, e))"

text \<open>One transferred key: its role, and its value wrapped with the key encryption key.\<close>

definition read_wrapped_key :: "(SecurityKeyRole \<times> bytes) reader" where
  "read_wrapped_key input =
     (if length input < 6 then None
      else do {
        input \<leftarrow> ReadExpectedTag 0x02 input;
        (fieldCount, input) \<leftarrow> ReadAxdrLength input;
        if fieldCount \<noteq> 2 \<or> length input < 2 then None
        else do {
          input \<leftarrow> ReadExpectedTag 0x16 input;
          (keyId, input) \<leftarrow> ReadByte input;
          role \<leftarrow> MapSecuritySetupKeyId keyId;
          input \<leftarrow> ReadExpectedTag 0x09 input;
          (wrappedSize, input) \<leftarrow> ReadAxdrLength input;
          if wrappedSize \<noteq> 24 \<or> length input < wrappedSize then None
          else Some ((role, take 24 input), drop 24 input) } })"

definition transferred_key :: "SecurityKeyRole \<Rightarrow> bytes \<Rightarrow> SecurityKey" where
  "transferred_key role plain = (EmptySecurityKey role)\<lparr>keySize := length plain, keyBytes := plain @ drop (length plain) (replicate 32 0)\<rparr>"

fun read_transferred_keys :: "block_cipher \<Rightarrow> SecurityKey \<Rightarrow> nat \<Rightarrow> bytes \<Rightarrow> CosemStatus + SecurityKey list \<times> bytes" where
  "read_transferred_keys aes kek 0 input = Inr ([], input)"
| "read_transferred_keys aes kek (Suc count) input = (case read_wrapped_key input of
     None \<Rightarrow> Inl InvalidArgument
   | Some ((role, wrapped), input) \<Rightarrow> (case Unwrap aes kek (View wrapped) of
       Inl status \<Rightarrow> Inl (MapSecurityStatus status)
     | Inr plain \<Rightarrow>
         if length plain \<noteq> 16 then Inl InvalidArgument
         else (case read_transferred_keys aes kek count input of
           Inl status \<Rightarrow> Inl status
         | Inr (keys, input) \<Rightarrow> Inr (transferred_key role plain # keys, input))))"

text \<open>Operations of a store on one key after another, until one fails.\<close>

fun each_key :: "('k \<Rightarrow> 'e \<Rightarrow> SecurityStatus \<times> 'e) \<Rightarrow> 'k list \<Rightarrow> 'e \<Rightarrow> CosemStatus \<times> 'e" where
  "each_key operation [] e = (Ok, e)"
| "each_key operation (k # ks) e = (let (status, e') = operation k e in
     if MapSecurityStatus status \<noteq> Ok then (MapSecurityStatus status, e') else each_key operation ks e')"

definition transfer_keys ::
    "block_cipher \<Rightarrow> bytes \<Rightarrow> 'e CosemSecuritySetupObject \<Rightarrow> 'e \<Rightarrow> CosemStatus \<times> 'e" where
  "transfer_keys aes input x e = (case setup_keyStore x of
     None \<Rightarrow> (UnsupportedFeature, e)
   | Some keys \<Rightarrow>
       if setup_securitySuite x \<noteq> 0 then (UnsupportedFeature, e)
       else (case store_GetKey keys KeyEncryption e of
         Inl status \<Rightarrow> (MapSecurityStatus status, e)
       | Inr kek \<Rightarrow>
           (case (if length input < 2 then None else read_header 0x01 input) of
             None \<Rightarrow> (InvalidArgument, e)
           | Some (count, rest) \<Rightarrow> (case read_transferred_keys aes kek count rest of
               Inl status \<Rightarrow> (status, e)
             | Inr (transferredKeys, rest) \<Rightarrow>
                 if rest \<noteq> [] then (InvalidArgument, e)
                 else
                   let (status, e1) = (case setup_counterResetPolicy x of
                         None \<Rightarrow> (Ok, e) | Some reset \<Rightarrow> each_key reset (map keyRole transferredKeys) e) in
                   if status \<noteq> Ok then (status, e1)
                   else each_key (store_SetKey keys) transferredKeys e1))))"

definition octet_string :: "bytes reader" where
  "octet_string input = do { input \<leftarrow> ReadExpectedTag 0x09 input; (len, input) \<leftarrow> ReadAxdrLength input; ReadFixedBytes len input }"

text \<open>Method 6 imports, 7 exports and 8 removes a certificate.\<close>

definition read_by_entity :: "bytes \<Rightarrow> (u8 \<times> u8 \<times> bytes) option" where
  "read_by_entity input = do {
     (entity, input) \<leftarrow> ReadEnumValue input;
     (kind, input) \<leftarrow> ReadEnumValue input;
     (systemTitle, input) \<leftarrow> read_octets 8 input;
     if input \<noteq> [] then None else Some (entity, kind, systemTitle) }"

definition read_by_serial :: "bytes \<Rightarrow> (bytes \<times> bytes) option" where
  "read_by_serial input = do {
     (serialNumber, input) \<leftarrow> octet_string input;
     (issuer, input) \<leftarrow> octet_string input;
     if input \<noteq> [] then None else Some (serialNumber, issuer) }"

definition exported :: "CosemStatus \<times> bytes \<Rightarrow> CosemStatus \<times> bytes" where
  "exported r = (if fst r \<noteq> Ok then (fst r, []) else (Ok, AppendOctetString (snd r)))"

definition certificate_method :: "'e CertificateStore \<Rightarrow> u8 \<Rightarrow> bytes \<Rightarrow> 'e \<Rightarrow> (CosemStatus \<times> bytes) \<times> 'e" where
  "certificate_method certificates identifier input e =
     (if identifier = 6 then
        (case exactly octet_string input of
           None \<Rightarrow> ((InvalidArgument, []), e)
         | Some raw \<Rightarrow> (case store_Import certificates (CertificateInfoEntry_init\<lparr>cert_rawCertificate := raw\<rparr>) e of (status, e') \<Rightarrow> ((status, []), e')))
      else (case (do {
             input \<leftarrow> read_structure 2 input;
             (kind, input) \<leftarrow> ReadEnumValue input;
             (selectorFields, input) \<leftarrow> read_header 0x02 input;
             Some (kind, selectorFields, input) }) of
        None \<Rightarrow> ((InvalidArgument, []), e)
      | Some (kind, selectorFields, input) \<Rightarrow>
          if kind = 0 then
            (case (if selectorFields \<noteq> 3 then None else read_by_entity input) of
               None \<Rightarrow> ((InvalidArgument, []), e)
             | Some (entity, certType, systemTitle) \<Rightarrow>
                 if identifier = 7 then (exported (store_ExportByEntity certificates entity certType systemTitle e), e)
                 else (case store_RemoveByEntity certificates entity certType systemTitle e of (status, e') \<Rightarrow> ((status, []), e')))
          else if kind = 1 then
            (case (if selectorFields \<noteq> 2 then None else read_by_serial input) of
               None \<Rightarrow> ((InvalidArgument, []), e)
             | Some (serialNumber, issuer) \<Rightarrow>
                 if identifier = 7 then (exported (store_ExportBySerial certificates serialNumber issuer e), e)
                 else (case store_RemoveBySerial certificates serialNumber issuer e of (status, e') \<Rightarrow> ((status, []), e')))
          else ((InvalidArgument, []), e)))"

definition SecuritySetup_InvokeMethod ::
    "block_cipher \<Rightarrow> u8 \<Rightarrow> bytes \<Rightarrow> 'e CosemSecuritySetupObject \<times> 'e \<Rightarrow> (CosemStatus \<times> bytes) \<times> 'e CosemSecuritySetupObject \<times> 'e" where
  "SecuritySetup_InvokeMethod aes identifier input = (\<lambda>(x, e).
     let version = key_version (descriptor_key (setup_descriptor x)) in
     if identifier = 1 then
       (case IsAxdrEnum input of
          None \<Rightarrow> ((InvalidArgument, []), x, e)
        | Some requestedPolicy \<Rightarrow>
            if \<not> StrengthensOrKeepsPolicy (setup_securityPolicy x) requestedPolicy then ((AccessDenied, []), x, e)
            else ((Ok, []), x\<lparr>setup_securityPolicy := requestedPolicy\<rparr>, e))
     else if identifier = 2 then (case transfer_keys aes input x e of (status, e') \<Rightarrow> ((status, []), x, e'))
     else if version \<ge> 1 \<and> 6 \<le> identifier \<and> identifier \<le> 8 then
       (case setup_certificateStore x of
          None \<Rightarrow> ((UnsupportedFeature, []), x, e)
        | Some certificates \<Rightarrow> (case certificate_method certificates identifier input e of (r, e') \<Rightarrow> (r, x, e')))
     else if version \<ge> 1 \<and> 2 < identifier \<and> identifier \<le> 8 then ((UnsupportedFeature, []), x, e)
     else ((MethodNotFound, []), x, e))"

definition SecuritySetup_class :: "block_cipher \<Rightarrow> ('e CosemSecuritySetupObject \<times> 'e) CosemObject" where
  "SecuritySetup_class aes = \<lparr>object_Descriptor = (\<lambda>(x, e). setup_descriptor x), object_AccessRights = (\<lambda>(x, e). setup_rights x),
     object_ReadAttribute = SecuritySetup_ReadAttribute, object_WriteAttribute = SecuritySetup_WriteAttribute,
     object_InvokeMethod = SecuritySetup_InvokeMethod aes\<rparr>"

end
