(* ===== verification/Cosem_CodingLaws.thy ===== *)
theory Cosem_CodingLaws
  imports Cosem_Coding Cosem_Laws
begin

text \<open>
  Every reader reads back what its writer appends, whatever follows; a list of values with its header is read back
  with the same count. The object list of an association survives the wire with all access rights.
\<close>

named_theorems read_back

subsection \<open>Lengths\<close>

lemma ReadAxdrLength_back [read_back]:
  assumes "n < size_t_modulus"
  shows "ReadAxdrLength (AppendLength n @ rest) = Some (n, rest)"
proof (cases "n < 0x80")
  case True
  then show ?thesis using short_form [OF True] by (simp add: ReadAxdrLength_def AppendLength_def)
next
  case False
  have len: "length (length_octets n []) = octet_count n" by (simp add: length_length_octets)
  have "0 < octet_count n" "octet_count n \<le> 8" using False octet_count_pos octet_count_8 [OF assms] by auto
  from long_form [OF this] this False len show ?thesis
    by (simp add: ReadAxdrLength_def AppendLength_def Let_def be_value_length_octets)
qed

lemma AppendLength_small [simp]: "n < 0x80 \<Longrightarrow> AppendLength n = [of_nat n]"
  by (simp add: AppendLength_def)

subsection \<open>Values\<close>

lemma read_tag [simp]: "ReadExpectedTag t (t' # rest) = (if t' = t then Some rest else None)" "ReadExpectedTag t [] = None"
  by (simp_all add: ReadExpectedTag_def ReadByte_def)

lemma read_header_back [read_back]: "n < size_t_modulus \<Longrightarrow> read_header t (t # AppendLength n @ rest) = Some (n, rest)"
  by (simp add: read_header_def ReadAxdrLength_back)

lemma array_header_back [read_back]: "n < size_t_modulus \<Longrightarrow> read_header 0x01 (AppendArrayHeader n @ rest) = Some (n, rest)"
  by (simp add: AppendArrayHeader_def read_header_back)

lemma read_structure_back [read_back]: "n < size_t_modulus \<Longrightarrow> read_structure n (AppendStructureHeader n @ rest) = Some rest"
  by (simp add: read_structure_def AppendStructureHeader_def read_header_back)

lemma values_back [read_back]:
  "ReadLongUnsignedValue (AppendLongUnsigned w @ rest) = Some (w, rest)" "ReadLongValue (AppendLong w @ rest) = Some (w, rest)"
  "ReadDoubleLongUnsignedValue (AppendDoubleLongUnsigned v @ rest) = Some (v, rest)"
  "ReadUnsignedValue (AppendUnsigned b @ rest) = Some (b, rest)" "ReadIntegerValue (AppendInteger b @ rest) = Some (b, rest)"
  "ReadEnumValue (AppendEnum b @ rest) = Some (b, rest)" "ReadBooleanValue (AppendBoolean p @ rest) = Some (p, rest)"
  using be16_at_be16 [of w] be32_at_be32 [of v]
  by (simp_all add: ReadLongUnsignedValue_def AppendLongUnsigned_def ReadLongValue_def AppendLong_def ReadDoubleLongUnsignedValue_def
      AppendDoubleLongUnsigned_def ReadUnsignedValue_def AppendUnsigned_def ReadIntegerValue_def AppendInteger_def
      ReadEnumValue_def AppendEnum_def ReadBooleanValue_def AppendBoolean_def ReadByte_def be16_def be32_def)

lemma octets_back: "length bs = n \<Longrightarrow> n < size_t_modulus \<Longrightarrow> read_octets n (AppendOctetString bs @ rest) = Some (bs, rest)"
  by (simp add: read_octets_def AppendOctetString_def ReadAxdrLength_back ReadFixedBytes_def)

lemma logical_name_list: "length name = 6 \<Longrightarrow> map (CosemLogicalName_at name) [0 ..< 6] = name"
  by (auto simp: CosemLogicalName_at_def intro!: nth_equalityI)

lemma logical_name_back [read_back]: "length name = 6 \<Longrightarrow> ReadLogicalNameValue (AppendLogicalName name @ rest) = Some (name, rest)"
  by (simp add: ReadLogicalNameValue_def AppendLogicalName_def logical_name_list octets_back size_t_modulus_def)

lemma EncodeLogicalName_octets: "length name = 6 \<Longrightarrow> EncodeLogicalName name = AppendLogicalName name"
  by (simp add: EncodeLogicalName_def AppendLogicalName_def AppendOctetString_def)

lemma modes_back [simp]: "MapAttributeAccessMode (attribute_mode_value a) = Some a" "MapMethodAccessMode (method_mode_value m) = Some m"
  by (cases a; simp add: MapAttributeAccessMode_def) (cases m; simp add: MapMethodAccessMode_def)

subsection \<open>Lists\<close>

text \<open>A reader that reads back what its writer wrote.\<close>

locale coded =
  fixes enc :: "'a \<Rightarrow> bytes" and rd :: "'a reader" and fit :: "'a \<Rightarrow> bool"
  assumes reads_back: "fit x \<Longrightarrow> rd (enc x @ rest) = Some (x, rest)"
begin

lemma many_back: "list_all fit xs \<Longrightarrow> read_many rd (length xs) (concat (map enc xs) @ rest) = Some (xs, rest)"
  by (induction xs) (simp_all add: reads_back)

lemma reserved_back:
  "list_all fit xs \<Longrightarrow> length xs \<le> max_size \<Longrightarrow>
    read_reserved max_size rd (length xs) (concat (map enc xs) @ rest) = Decoded (xs, rest)"
  by (simp add: read_reserved_def many_back)

end

interpretation attribute_entry: coded "\<lambda>(identifier, mode). AppendStructureHeader 3 @ AppendInteger identifier
    @ AppendEnum (attribute_mode_value mode) @ [0x00]" attribute_access_entry "\<lambda>_. True"
  by unfold_locales (auto simp: attribute_access_entry_def read_back size_t_modulus_def SkipAssociationAccessSelectors_def)

interpretation method_entry: coded "\<lambda>(identifier, mode). AppendStructureHeader 2 @ AppendInteger identifier
    @ AppendEnum (method_mode_value mode)" method_access_entry "\<lambda>_. True"
  by unfold_locales (auto simp: method_access_entry_def read_back size_t_modulus_def)

subsection \<open>Access rights\<close>

text \<open>The rights that the two setters build: no identifier twice, in increasing order.\<close>

definition rights_ok :: "CosemAccessRights \<Rightarrow> bool" where
  "rights_ok r \<longleftrightarrow> sorted_wrt (<) (map fst (attributeAccess r)) \<and> sorted_wrt (<) (map fst (methodAccess r))"

lemma map_assign_keys: "fst ` set (map_assign k v m) = insert k (fst ` set m)"
  by (induction k v m rule: map_assign.induct) auto

lemma map_assign_sorted: "sorted_wrt (<) (map fst m) \<Longrightarrow> sorted_wrt (<) (map fst (map_assign k v m))"
proof (induction k v m rule: map_assign.induct)
  case (2 k v k' v' m)
  have "fst ` set (map_assign k v m) = insert k (fst ` set m)" by (rule map_assign_keys)
  with 2 show ?case by (auto simp: set_map [symmetric] simp del: set_map)
qed simp

lemma map_assign_map_of: "sorted_wrt (<) (map fst m) \<Longrightarrow> map_of (map_assign k v m) = (map_of m)(k \<mapsto> v)"
proof (induction k v m rule: map_assign.induct)
  case (2 k v k' v' m)
  then show ?case by (auto simp: fun_eq_iff)
qed simp

lemma rights_ok_init [simp]: "rights_ok CosemAccessRights_init"
  by (simp add: rights_ok_def CosemAccessRights_init_def)

lemma SetAttributeAccess_ok [simp]: "rights_ok r \<Longrightarrow> rights_ok (SetAttributeAccess i mode r)"
  and SetMethodAccess_ok [simp]: "rights_ok r \<Longrightarrow> rights_ok (SetMethodAccess i mode' r)"
  by (simp_all add: rights_ok_def SetAttributeAccess_def SetMethodAccess_def map_assign_sorted)

lemma AttributeAccess_set: "rights_ok r \<Longrightarrow> AttributeAccess j (SetAttributeAccess i mode r) = (if j = i then mode else AttributeAccess j r)"
  and MethodAccess_set: "rights_ok r \<Longrightarrow> MethodAccess j (SetMethodAccess i mode' r) = (if j = i then mode' else MethodAccess j r)"
  by (simp_all add: rights_ok_def AttributeAccess_def MethodAccess_def SetAttributeAccess_def SetMethodAccess_def map_assign_map_of)

text \<open>Entries that come in order are appended one after the other.\<close>

lemma map_assign_greater: "\<forall>k' \<in> fst ` set m. k' < k \<Longrightarrow> map_assign k v m = m @ [(k, v)]"
  by (induction k v m rule: map_assign.induct) auto

lemma assign_sorted_list:
  "sorted_wrt (<) (map fst (m @ es)) \<Longrightarrow> foldl (\<lambda>m (k, v). map_assign k v m) m es = m @ es"
proof (induction es arbitrary: m)
  case (Cons e es)
  obtain k v where e: "e = (k, v)" by (cases e)
  with Cons.prems have "map_assign k v m = m @ [(k, v)]" by (intro map_assign_greater) (auto simp: sorted_wrt_append)
  with Cons.IH [of "m @ [(k, v)]"] Cons.prems e show ?case by simp
qed simp

lemma SetAttributeAccess_list:
  "foldl (\<lambda>r (i, mode). SetAttributeAccess i mode r) r es = r\<lparr>attributeAccess := foldl (\<lambda>m (k, v). map_assign k v m) (attributeAccess r) es\<rparr>"
  by (induction es arbitrary: r) (auto simp: SetAttributeAccess_def)

lemma SetMethodAccess_list:
  "foldl (\<lambda>r (i, mode). SetMethodAccess i mode r) r es = r\<lparr>methodAccess := foldl (\<lambda>m (k, v). map_assign k v m) (methodAccess r) es\<rparr>"
  by (induction es arbitrary: r) (auto simp: SetMethodAccess_def)

definition rights_fit :: "CosemAccessRights \<Rightarrow> bool" where
  "rights_fit r \<longleftrightarrow> rights_ok r \<and> length (attributeAccess r) < size_t_modulus \<and> length (methodAccess r) < size_t_modulus"

lemma access_rights_back [read_back]:
  assumes "rights_fit r"
  shows "DecodeAccessRightsAt (AppendAccessRights r @ rest) = Some (r, rest)"
proof -
  have "foldl (\<lambda>m (k, v). map_assign k v m) [] (attributeAccess r) = attributeAccess r"
    "foldl (\<lambda>m (k, v). map_assign k v m) [] (methodAccess r) = methodAccess r"
    using assms by (auto simp: rights_fit_def rights_ok_def intro: assign_sorted_list [of "[]", simplified])
  with assms show ?thesis
    by (simp add: DecodeAccessRightsAt_def AppendAccessRights_def DecodeAttributeAccessAt_def DecodeMethodAccessAt_def
        AppendAttributeAccess_def AppendMethodAccess_def AttributeAccessEntries_def MethodAccessEntries_def read_back
        attribute_entry.many_back method_entry.many_back rights_fit_def size_t_modulus_def list_all_iff
        SetAttributeAccess_list SetMethodAccess_list CosemAccessRights_init_def)
qed

subsection \<open>The object list\<close>

definition view_fit :: "AssociationViewObject \<Rightarrow> bool" where
  "view_fit v \<longleftrightarrow> key_ok (descriptor_key (view_descriptor v)) \<and> rights_fit (view_accessRights v)"

interpretation object_list: coded AppendObjectListElement DecodeObjectListElementAt view_fit
proof
  fix x rest
  assume "view_fit x"
  then show "DecodeObjectListElementAt (AppendObjectListElement x @ rest) = Some (x, rest)"
    by (simp add: DecodeObjectListElementAt_def AppendObjectListElement_def Let_def read_back view_fit_def key_ok_def size_t_modulus_def)
qed

text \<open>
  C35: The object list of an association survives the wire. What a client decodes from the list that a logical
  device publishes is every object of its registry once, in the order of the keys, with the object's descriptor and
  all its access rights.
\<close>

theorem published_object_list:
  assumes "registered (registry d)" "\<forall>(k, x) \<in> set (registry d). descriptor_key (object_Descriptor x e) = k \<and> rights_fit (object_AccessRights x e)"
    and "Registry_Size (registry d) \<le> max_size" "Registry_Size (registry d) < size_t_modulus"
  shows "DecodeAssociationObjectList max_size (EncodeAssociationObjectList (BuildAssociationView e d))
    = Decoded (map (\<lambda>(k, x). \<lparr>view_descriptor = object_Descriptor x e, view_accessRights = object_AccessRights x e\<rparr>) (registry d))"
proof -
  let ?m = "registry d" and ?view = "\<lambda>(k, x). \<lparr>view_descriptor = object_Descriptor x e, view_accessRights = object_AccessRights x e\<rparr>"
  have ok: "registry_ok ?m" by (rule registered_ok [OF assms(1)])
  have found: "Find (descriptor_key (object_Descriptor x e)) ?m = Some x" if "(k, x) \<in> set ?m" for k x
  proof -
    have "k \<in> fst ` set ?m" using that by force
    then have "key_ok k" using ok by (auto simp: registry_ok_def)
    then have "Find k ?m = map_of ?m k" by (rule Find_map_of [OF ok])
    also have "\<dots> = Some x" by (rule map_of_is_SomeI [OF registry_keys_distinct [OF ok] that])
    finally show ?thesis using that assms(2) by auto
  qed
  have "List.map_filter f (map g xs) = map h xs" if "\<And>y. y \<in> set xs \<Longrightarrow> f (g y) = Some (h y)"
    for f :: "CosemObjectDescriptor \<Rightarrow> AssociationViewObject option" and g h and xs :: "(CosemObjectKey \<times> 'a CosemObject) list"
    using that by (induction xs) (simp_all add: map_filter_simps)
  then have view: "BuildAssociationView e d = map ?view ?m"
    unfolding BuildAssociationView_def Descriptors_def using found by (auto split: option.split)
  have "\<forall>(k, x) \<in> set ?m. key_ok k" using ok by (force simp: registry_ok_def)
  with assms(2) have "list_all view_fit (map ?view ?m)" by (fastforce simp: list_all_iff view_fit_def)
  from object_list.reserved_back [OF this, of max_size "[]"] assms(3,4) show ?thesis
    by (simp add: DecodeAssociationObjectList_def EncodeAssociationObjectList_def view read_back whole_vector_def Registry_Size_def)
qed

theorem published_object_list_witness:
  "let d = \<lparr>sap = 1, device_name = [], registry = [(example_key, example_object)]\<rparr> in
   DecodeAssociationObjectList (2 ^ 60) (EncodeAssociationObjectList (BuildAssociationView () d))
     = Decoded [\<lparr>view_descriptor = \<lparr>descriptor_key = example_key\<rparr>,
         view_accessRights = \<lparr>attributeAccess = [(2, ReadOnly)], methodAccess = []\<rparr>\<rparr>]"
proof -
  let ?d = "\<lparr>sap = 1, device_name = [], registry = [(example_key, example_object)]\<rparr>"
  have "rights_fit (object_AccessRights example_object ())"
    by (simp add: example_object_def rights_fit_def rights_ok_def size_t_modulus_def)
  then show ?thesis
    using published_object_list [of ?d "()" "2 ^ 60"] example_registered
    by (simp add: Registry_Size_def size_t_modulus_def Let_def) (simp add: example_object_def)
qed

text \<open>
  The count of a list is trusted before a single element is read: ten bytes that announce more elements than a
  vector can have make the decoder throw instead of reporting a status.
\<close>

theorem object_list_count_throws:
  "max_size < 2 ^ 64 - 1 \<Longrightarrow> DecodeAssociationObjectList max_size [0x01, 0x88, 0xff, 0xff, 0xff, 0xff, 0xff, 0xff, 0xff, 0xff] = Thrown"
  by (simp add: DecodeAssociationObjectList_def read_header_def ReadAxdrLength_def be_value_def read_reserved_def whole_vector_def)

theorem object_list_count_throws_witness:
  "DecodeAssociationObjectList (2 ^ 60) [0x01, 0x88, 0xff, 0xff, 0xff, 0xff, 0xff, 0xff, 0xff, 0xff] = Thrown"
  by (rule object_list_count_throws) simp

end
