(* ===== verification/Cosem_ObjectLaws.thy ===== *)
theory Cosem_ObjectLaws
  imports Cosem_Association Cosem_CodingLaws
begin

text \<open>
  The contract of a COSEM class, proved for every class: an object keeps its name and its rights whatever is done to
  it, and an operation that fails leaves it as it was. Then the behaviour of single classes: the clock, the
  disconnect control, and the security setup with its keys.
\<close>

subsection \<open>The contract of a class\<close>

text \<open>The states an object can reach by writes and invocations, accepted or not.\<close>

inductive object_run :: "'s CosemObject \<Rightarrow> 's \<Rightarrow> 's \<Rightarrow> bool" for cls x where
  run_start: "object_run cls x x"
| run_write: "object_run cls x y \<Longrightarrow> object_run cls x (snd (object_WriteAttribute cls i input y))"
| run_invoke: "object_run cls x y \<Longrightarrow> object_run cls x (snd (object_InvokeMethod cls i input y))"

locale cosem_class =
  fixes cls :: "'s CosemObject" and own :: "'s \<Rightarrow> 'o"
  assumes name: "object_ReadAttribute cls 1 x = (Ok, EncodeLogicalName (key_logicalName (descriptor_key (object_Descriptor cls x))))"
    and name_fixed: "object_WriteAttribute cls 1 input x = (AccessDenied, x)"
    and failed_read: "object_ReadAttribute cls i x = (s, bs) \<Longrightarrow> s \<noteq> Ok \<Longrightarrow> bs = []"
    and failed_write: "object_WriteAttribute cls i input x = (s, x') \<Longrightarrow> s \<noteq> Ok \<Longrightarrow> x' = x"
    and failed_invoke: "object_InvokeMethod cls i input x = ((s, bs), x') \<Longrightarrow> s \<noteq> Ok \<Longrightarrow> own x' = own x \<and> bs = []"
    and write_keeps: "object_WriteAttribute cls i input x = (s, x') \<Longrightarrow>
      object_Descriptor cls x' = object_Descriptor cls x \<and> object_AccessRights cls x' = object_AccessRights cls x"
    and invoke_keeps: "object_InvokeMethod cls i input x = (r, x') \<Longrightarrow>
      object_Descriptor cls x' = object_Descriptor cls x \<and> object_AccessRights cls x' = object_AccessRights cls x"
begin

lemma run_keeps:
  "object_run cls x y \<Longrightarrow> object_Descriptor cls y = object_Descriptor cls x \<and> object_AccessRights cls y = object_AccessRights cls x"
proof (induction rule: object_run.induct)
  case (run_write y i input)
  then show ?case using write_keeps [of i input y] by (metis surjective_pairing)
next
  case (run_invoke y i input)
  then show ?case using invoke_keeps [of i input y] by (metis surjective_pairing)
qed simp

lemma run_name: "object_run cls x y \<Longrightarrow> object_ReadAttribute cls 1 y = object_ReadAttribute cls 1 x"
  using run_keeps [of x y] by (simp add: name)

text \<open>What the rights of an object do not allow is refused for ever.\<close>

lemma run_denied:
  "\<not> CanInvokeMethod i a (object_AccessRights cls x) \<Longrightarrow> object_run cls x y \<Longrightarrow> \<not> CanInvokeMethod i a (object_AccessRights cls y)"
  using run_keeps [of x y] by simp

end

lemmas Data_defs = Data_class_def Data_ReadAttribute_def Data_WriteAttribute_def Data_InvokeMethod_def

interpretation Data: cosem_class Data_class id
  by unfold_locales (auto simp: Data_defs split: if_splits)

lemmas Register_defs = Register_class_def Register_ReadAttribute_def Register_WriteAttribute_def Register_InvokeMethod_def

interpretation Register: cosem_class Register_class id
  by unfold_locales (auto simp: Register_defs split: if_splits)

lemmas ExtendedRegister_defs = ExtendedRegister_class_def ExtendedRegister_ReadAttribute_def ExtendedRegister_WriteAttribute_def
  ExtendedRegister_InvokeMethod_def

interpretation ExtendedRegister: cosem_class ExtendedRegister_class id
  by unfold_locales (auto simp: ExtendedRegister_defs split: if_splits)

lemmas DemandRegister_defs = DemandRegister_class_def DemandRegister_ReadAttribute_def DemandRegister_WriteAttribute_def
  DemandRegister_InvokeMethod_def

interpretation DemandRegister: cosem_class DemandRegister_class id
  by unfold_locales (auto simp: DemandRegister_defs split: if_splits)

lemmas DisconnectControl_defs = DisconnectControl_class_def DisconnectControl_ReadAttribute_def DisconnectControl_WriteAttribute_def
  DisconnectControl_InvokeMethod_def

interpretation DisconnectControl: cosem_class DisconnectControl_class id
  by unfold_locales (auto simp: DisconnectControl_defs Let_def split: if_splits option.splits)

lemmas Clock_defs = Clock_class_def Clock_ReadAttribute_def Clock_WriteAttribute_def Clock_InvokeMethod_def set_decoded_def

interpretation Clock: cosem_class Clock_class id
  by unfold_locales (auto simp: Clock_defs split: if_splits option.splits)

lemmas ProfileGeneric_defs = ProfileGeneric_class_def ProfileGeneric_ReadAttribute_def ProfileGeneric_WriteAttribute_def
  ProfileGeneric_InvokeMethod_def

interpretation ProfileGeneric: cosem_class ProfileGeneric_class id
  by unfold_locales (auto simp: ProfileGeneric_defs split: if_splits)

lemmas AssociationLn_defs = AssociationLn_class_def AssociationLn_ReadAttribute_def AssociationLn_WriteAttribute_def
  AssociationLn_InvokeMethod_def

interpretation AssociationLn: cosem_class AssociationLn_class id
  by unfold_locales (auto simp: AssociationLn_defs Let_def split: if_splits)

lemmas SecuritySetup_defs = SecuritySetup_class_def SecuritySetup_ReadAttribute_def SecuritySetup_WriteAttribute_def
  SecuritySetup_InvokeMethod_def

text \<open>
  The output of a certificate method is empty unless the store reports success. (The stores behind the object may
  change when a method fails: it is the object itself that does not.)
\<close>

lemma certificate_method_failed: "certificate_method c i input e = ((s, bs), e') \<Longrightarrow> s \<noteq> Ok \<Longrightarrow> bs = []"
  by (auto simp: certificate_method_def exported_def split: if_splits option.splits prod.splits)

interpretation SecuritySetup: cosem_class "SecuritySetup_class aes" fst for aes
  by unfold_locales (auto simp: SecuritySetup_defs Let_def dest: certificate_method_failed split: if_splits option.splits prod.splits)

text \<open>The contract as a statement about a class.\<close>

definition keeps_contract :: "'s CosemObject \<Rightarrow> ('s \<Rightarrow> 'o) \<Rightarrow> bool" where
  "keeps_contract cls own \<longleftrightarrow>
     (\<forall>x y. object_run cls x y \<longrightarrow> object_Descriptor cls y = object_Descriptor cls x \<and> object_AccessRights cls y = object_AccessRights cls x
        \<and> object_ReadAttribute cls 1 y = (Ok, EncodeLogicalName (key_logicalName (descriptor_key (object_Descriptor cls x)))))
     \<and> (\<forall>i input x. fst (object_WriteAttribute cls i input x) = Ok \<or> snd (object_WriteAttribute cls i input x) = x)
     \<and> (\<forall>i input x. fst (fst (object_InvokeMethod cls i input x)) = Ok
        \<or> own (snd (object_InvokeMethod cls i input x)) = own x \<and> snd (fst (object_InvokeMethod cls i input x)) = [])
     \<and> (\<forall>i x. fst (object_ReadAttribute cls i x) = Ok \<or> snd (object_ReadAttribute cls i x) = [])"

context cosem_class begin

lemma contract: "keeps_contract cls own"
proof -
  have "fst (object_WriteAttribute cls i input x) = Ok \<or> snd (object_WriteAttribute cls i input x) = x" for i input x
    using failed_write [of i input x] by (cases "object_WriteAttribute cls i input x") auto
  moreover have "fst (fst (object_InvokeMethod cls i input x)) = Ok
      \<or> own (snd (object_InvokeMethod cls i input x)) = own x \<and> snd (fst (object_InvokeMethod cls i input x)) = []" for i input x
    using failed_invoke [of i input x] by (cases "object_InvokeMethod cls i input x") auto
  moreover have "fst (object_ReadAttribute cls i x) = Ok \<or> snd (object_ReadAttribute cls i x) = []" for i x
    using failed_read [of i x] by (cases "object_ReadAttribute cls i x") auto
  ultimately show ?thesis using run_keeps name by (auto simp: keeps_contract_def)
qed

end

text \<open>
  C33: Whatever a peer does to an object of the nine classes, by any number of writes and invocations that are accepted
  or not, the object keeps the descriptor under which it is registered, its access rights and its logical name. An operation
  that reports a failure leaves the object as it was and returns no output. (A security setup also uses stores of its
  own: of these, nothing is said here.)
\<close>

theorem classes_keep_contract:
  "keeps_contract Data_class id \<and> keeps_contract Register_class id \<and> keeps_contract ExtendedRegister_class id
    \<and> keeps_contract DemandRegister_class id \<and> keeps_contract DisconnectControl_class id \<and> keeps_contract Clock_class id
    \<and> keeps_contract ProfileGeneric_class id \<and> keeps_contract AssociationLn_class id \<and> keeps_contract (SecuritySetup_class aes) fst"
  by (intro conjI Data.contract Register.contract ExtendedRegister.contract DemandRegister.contract DisconnectControl.contract
      Clock.contract ProfileGeneric.contract AssociationLn.contract SecuritySetup.contract)

subsection \<open>The clock\<close>

definition clock_ok :: "CosemClockObject \<Rightarrow> bool" where
  "clock_ok x \<longleftrightarrow> valid_date_time (clock_time x) \<and> valid_date_time (clock_daylightSavingsBegin x) \<and> valid_date_time (clock_daylightSavingsEnd x)"

lemma length_DateTime_ToBytes [simp]: "length (DateTime_ToBytes d) = 12"
  by (simp add: DateTime_ToBytes_def)

lemma DateTime_back: "valid_date_time d \<Longrightarrow> DecodeDateTimeOctetString (AppendDateTimeOctetString d) = Some d"
  using octets_back [of "DateTime_ToBytes d" 12 "[]"] DateTime_bytes [of "DateTime_ToBytes d" d]
  by (simp add: DecodeDateTimeOctetString_def AppendDateTimeOctetString_def size_t_modulus_def)

lemma DateTime_decoded: "DecodeDateTimeOctetString input = Some d \<Longrightarrow> valid_date_time d"
  by (auto simp: DecodeDateTimeOctetString_def DateTime_bytes split: Option.bind_splits if_splits prod.splits)

lemma values_exactly:
  "exactly ReadLongValue (AppendLong w) = Some w" "exactly ReadIntegerValue (AppendInteger b) = Some b"
  "exactly ReadBooleanValue (AppendBoolean p) = Some p" "exactly ReadEnumValue (AppendEnum b) = Some b"
  by (simp_all add: exactly_def values_back [where rest = "[]", simplified])

lemma clock_base_back [simp]: "clock_base_of (clock_base_value b) = b" "\<not> 5 < clock_base_value b"
  by (cases b; simp add: clock_base_of_def)+

text \<open>
  C37: The clock of a meter holds valid dates whatever is written to it. A write changes the one attribute it names and
  what is read there afterwards is, written back, the same value: reading an attribute and writing the result changes
  nothing, for each of the seven attributes that may be written.
\<close>

theorem clock_attributes:
  assumes "clock_ok x"
  shows "(\<forall>i input. clock_ok (snd (Clock_WriteAttribute i input x)))
    \<and> (\<forall>i j input. j \<noteq> i \<longrightarrow> Clock_ReadAttribute j (snd (Clock_WriteAttribute i input x)) = Clock_ReadAttribute j x)
    \<and> (\<forall>i \<in> {2, 3, 5, 6, 7, 8, 9}. Clock_WriteAttribute i (snd (Clock_ReadAttribute i x)) x = (Ok, x))"
proof (intro conjI allI impI ballI)
  fix i :: u8 and input
  show "clock_ok (snd (Clock_WriteAttribute i input x))"
    using assms by (auto simp: clock_ok_def Clock_WriteAttribute_def set_decoded_def dest: DateTime_decoded split: option.split)
next
  fix i j :: u8 and input
  assume "j \<noteq> i"
  then show "Clock_ReadAttribute j (snd (Clock_WriteAttribute i input x)) = Clock_ReadAttribute j x"
    by (auto simp: Clock_ReadAttribute_def Clock_WriteAttribute_def set_decoded_def split: option.split)
next
  fix i :: u8
  assume "i \<in> {2, 3, 5, 6, 7, 8, 9}"
  with assms show "Clock_WriteAttribute i (snd (Clock_ReadAttribute i x)) x = (Ok, x)"
    by (auto simp: Clock_WriteAttribute_def Clock_ReadAttribute_def set_decoded_def DateTime_back values_exactly clock_ok_def)
qed

theorem clock_attributes_witness:
  "clock_ok (snd (Clock_WriteAttribute 2 [0x09, 1] (CosemClockObject_init [0, 0, 1, 0, 0, 255] DateTime_init 60 0 DateTime_init DateTime_init 60 True Gps 0)))"
proof -
  have "clock_ok (CosemClockObject_init [0, 0, 1, 0, 0, 255] DateTime_init 60 0 DateTime_init DateTime_init 60 True Gps 0)"
    using made_date_time_valid [OF made_date_time.intros(1)] by (simp add: clock_ok_def CosemClockObject_init_def)
  from clock_attributes [OF this] show ?thesis by blast
qed

subsection \<open>Disconnect control\<close>

text \<open>
  The disconnect control cannot be operated by a peer. Its constructor gives no access right to any method, and no
  operation ever does: over a registry, \<open>remote_disconnect\<close> and \<open>remote_reconnect\<close> are refused with \<open>AccessDenied\<close> in
  every state of the object, for authenticated peers too.
\<close>

theorem disconnect_control_refuses:
  assumes "object_run DisconnectControl_class (CosemDisconnectControlObject_init name outputState controlState controlMode access version) x"
    and "registry_find (method_object m) objects = Some DisconnectControl_class" "cosem_ValidateMethodDescriptor m = Ok"
  shows "Registry_InvokeMethod m a input objects x = ((AccessDenied, []), x)"
proof -
  let ?x0 = "CosemDisconnectControlObject_init name outputState controlState controlMode access version"
  have "\<not> CanInvokeMethod (method_id m) a (object_AccessRights DisconnectControl_class ?x0)"
    by (simp add: CanInvokeMethod_def MethodAccess_def DisconnectControl_class_def CosemDisconnectControlObject_init_def
        attribute_rights_def SetAttributeAccess_def CosemAccessRights_init_def IsMethodAllowed_def)
  from DisconnectControl.run_denied [OF this assms(1)] assms(2,3) show ?thesis
    by (simp add: Registry_InvokeMethod_def Let_def)
qed

definition example_disconnect :: CosemDisconnectControlObject where
  "example_disconnect = CosemDisconnectControlObject_init [0, 0, 96, 3, 10, 255] True Connected Mode1 ReadOnly 0"

definition example_disconnect_key :: CosemObjectKey where
  "example_disconnect_key = \<lparr>key_classId = 70, key_version = 0, key_logicalName = [0, 0, 96, 3, 10, 255]\<rparr>"

theorem disconnect_control_refuses_witness:
  "Registry_InvokeMethod \<lparr>method_object = example_disconnect_key, method_id = 1\<rparr> AuthenticatedAccessContext [0x0f, 0]
     [(example_disconnect_key, DisconnectControl_class)] example_disconnect = ((AccessDenied, []), example_disconnect)
   \<and> fst (DisconnectControl_InvokeMethod 1 [0x0f, 0] example_disconnect) = (Ok, [])"
proof -
  have "cosem_ValidateMethodDescriptor \<lparr>method_object = example_disconnect_key, method_id = 1\<rparr> = Ok"
    by (simp add: cosem_ValidateMethodDescriptor_def ValidateObjectKey_def example_disconnect_key_def LogicalName_IsEmpty_def upt_conv_Cons)
  with disconnect_control_refuses [OF object_run.run_start, where m = "\<lparr>method_object = example_disconnect_key, method_id = 1\<rparr>"
      and objects = "[(example_disconnect_key, DisconnectControl_class)]"]
  show ?thesis
    by (simp add: example_disconnect_def DisconnectControl_InvokeMethod_def CosemDisconnectControlObject_init_def)
qed

subsection \<open>Security setup\<close>

text \<open>
  C31: A peer can only strengthen the security of a meter. In every state that a security setup reaches, each bit of the
  policy it started with is still set, and the security suite and the two system titles are what they were.
\<close>

theorem security_only_strengthens:
  assumes "object_run (SecuritySetup_class aes) (x, e) (y, e')"
  shows "setup_securityPolicy x AND setup_securityPolicy y = setup_securityPolicy x \<and> setup_securitySuite y = setup_securitySuite x
    \<and> setup_clientSystemTitle y = setup_clientSystemTitle x \<and> setup_serverSystemTitle y = setup_serverSystemTitle x"
proof -
  have "setup_securityPolicy x AND setup_securityPolicy (fst s) = setup_securityPolicy x \<and> setup_securitySuite (fst s) = setup_securitySuite x
      \<and> setup_clientSystemTitle (fst s) = setup_clientSystemTitle x \<and> setup_serverSystemTitle (fst s) = setup_serverSystemTitle x"
    if "object_run (SecuritySetup_class aes) (x, e) s" for s
    using that
  proof (induction rule: object_run.induct)
    case (run_write s i input)
    then show ?case by (cases s) (simp add: SecuritySetup_defs)
  next
    case (run_invoke s i input)
    have mono: "p AND r = p" if "p AND q = p" "q AND r = q" for p q r :: u8 using that by (metis and.assoc)
    obtain z d where s: "s = (z, d)" by (cases s)
    have "setup_securityPolicy z AND setup_securityPolicy (fst (snd (SecuritySetup_InvokeMethod aes i input s))) = setup_securityPolicy z"
      by (auto simp: s SecuritySetup_InvokeMethod_def StrengthensOrKeepsPolicy_def Let_def split: option.split prod.split)
    with run_invoke s mono [of "setup_securityPolicy x" "setup_securityPolicy z"] show ?case
      by (auto simp: SecuritySetup_defs Let_def split: option.splits prod.splits if_splits)
  qed simp
  from this [OF assms] show ?thesis by simp
qed

theorem security_only_strengthens_witness:
  "let x = CosemSecuritySetupObject_init [0, 0, 43, 0, 0, 255] 1 0 (replicate 8 1) (replicate 8 2) None None None 0;
       y = fst (snd (SecuritySetup_InvokeMethod (\<lambda>e k b. None) 1 [0x16, 3] (x, ()))) in
     setup_securityPolicy y = 3 \<and> setup_securityPolicy x AND setup_securityPolicy y = 1"
proof -
  define x :: "unit CosemSecuritySetupObject" where
    "x = CosemSecuritySetupObject_init [0, 0, 43, 0, 0, 255] 1 0 (replicate 8 1) (replicate 8 2) None None None 0"
  let ?y = "snd (SecuritySetup_InvokeMethod (\<lambda>e k b. None) 1 [0x16, 3] (x, ()))"
  have ops: "object_InvokeMethod (SecuritySetup_class aes) = SecuritySetup_InvokeMethod aes" for aes
    by (simp add: SecuritySetup_class_def)
  have "object_run (SecuritySetup_class (\<lambda>e k b. None)) (x, ()) (snd (object_InvokeMethod (SecuritySetup_class (\<lambda>e k b. None)) 1 [0x16, 3] (x, ())))"
    by (intro run_invoke run_start)
  then have "object_run (SecuritySetup_class (\<lambda>e k b. None)) (x, ()) (fst ?y, snd ?y)" by (simp only: ops prod.collapse)
  from security_only_strengthens [OF this] show ?thesis
    unfolding x_def [symmetric]
    by (simp add: SecuritySetup_InvokeMethod_def IsAxdrEnum_def StrengthensOrKeepsPolicy_def Let_def)
      (simp add: x_def CosemSecuritySetupObject_init_def Let_def)
qed

subsection \<open>Transfer of keys\<close>

text \<open>The keys of a request: each of 16 bytes, wrapped with the key encryption key, and nothing follows the last.\<close>

definition wrapped_keys :: "block_cipher \<Rightarrow> SecurityKey \<Rightarrow> bytes \<Rightarrow> SecurityKey list \<Rightarrow> bool" where
  "wrapped_keys aes kek input ks \<longleftrightarrow>
     (\<exists>rest entries. read_header 0x01 input = Some (length ks, rest) \<and> read_many read_wrapped_key (length ks) rest = Some (entries, [])
        \<and> list_all2 (\<lambda>(role, w) k. \<exists>p. length p = 16 \<and> Wrap aes kek (View p) = Inr w \<and> k = transferred_key role p) entries ks)"

lemma read_transferred_keys_wrapped:
  assumes "documented_aes aes" "suite0_key kek"
  shows "read_transferred_keys aes kek count input = Inr (ks, rest) \<Longrightarrow>
    \<exists>entries. length ks = count \<and> read_many read_wrapped_key count input = Some (entries, rest)
      \<and> list_all2 (\<lambda>(role, w) k. \<exists>p. length p = 16 \<and> Wrap aes kek (View p) = Inr w \<and> k = transferred_key role p) entries ks"
proof (induction count arbitrary: input ks)
  case (Suc count)
  then obtain role w more p ks' where one: "read_wrapped_key input = Some ((role, w), more)" "Unwrap aes kek (View w) = Inr p" "length p = 16"
      "read_transferred_keys aes kek count more = Inr (ks', rest)" "ks = transferred_key role p # ks'"
    by (auto split: option.splits sum.splits prod.splits if_splits)
  from Suc.IH [OF one(4)] obtain entries where "length ks' = count" "read_many read_wrapped_key count more = Some (entries, rest)"
    "list_all2 (\<lambda>(role, w) k. \<exists>p. length p = 16 \<and> Wrap aes kek (View p) = Inr w \<and> k = transferred_key role p) entries ks'" by blast
  moreover have "Wrap aes kek (View p) = Inr w" using wrap_unwrap [OF assms, of p w] one(2) by blast
  ultimately show ?case using one by (intro exI [of _ "(role, w) # entries"]) auto
qed simp

lemma run_steps_failed: "(\<And>i x. step i x \<noteq> Inl e) \<Longrightarrow> run_steps step is x \<noteq> Inl e"
  by (induction "is" arbitrary: x) (auto split: sum.split)

lemma Unwrap_failed: "Unwrap aes kek v \<noteq> Inl SecurityStatus.Ok"
proof -
  have "unwrap_step aes kek p x \<noteq> Inl SecurityStatus.Ok" for p x
    by (auto simp: unwrap_step_def AesEcbCryptBlock_def split: prod.splits option.splits sum.splits if_splits)
  then have "run_steps (unwrap_step aes kek) is x \<noteq> Inl SecurityStatus.Ok" for "is" x by (rule run_steps_failed)
  then show ?thesis by (auto simp: Unwrap_def Let_def split: sum.splits prod.splits)
qed

lemma read_transferred_keys_failed: "read_transferred_keys aes kek count input = Inl status \<Longrightarrow> status \<noteq> Ok"
proof (induction count arbitrary: input)
  case (Suc count)
  have "Unwrap aes kek v \<noteq> Inl SecurityStatus.Ok" for v
    using Unwrap_failed [of aes kek v] by auto
  with Suc show ?case
    by (auto simp: MapSecurityStatus_def split: option.splits sum.splits prod.splits if_splits SecurityStatus.splits)
qed simp

lemma read_header_length: "read_header t input = Some r \<Longrightarrow> 2 \<le> length input"
  by (cases input; cases "tl input") (auto simp: read_header_def ReadAxdrLength_def split: if_splits)

text \<open>What is done with the keys: counters first, then the keys one after the other, until something fails.\<close>

definition rotate_keys :: "'e CosemSecuritySetupObject \<Rightarrow> 'e MutableKeyStore \<Rightarrow> SecurityKey list \<Rightarrow> 'e \<Rightarrow> CosemStatus \<times> 'e" where
  "rotate_keys x keys ks e = (let (status, e1) = (case setup_counterResetPolicy x of
       None \<Rightarrow> (Ok, e) | Some reset \<Rightarrow> each_key reset (map keyRole ks) e)
     in if status \<noteq> Ok then (status, e1) else each_key (store_SetKey keys) ks e1)"

text \<open>
  C32: Transfer of global keys. Unless every key of the request is one of 16 bytes wrapped with the key encryption key of the
  meter, and the request ends there, nothing happens: no counter is reset and no key is set. If the request is
  complete, all counters are reset before the first key is set, in the order of the request.
\<close>

theorem key_transfer_complete:
  assumes "documented_aes aes" "suite0_key kek" "setup_keyStore x = Some keys" "store_GetKey keys KeyEncryption e = Inr kek"
    and "transfer_keys aes input x e = (s, e')"
  shows "(\<exists>ks. wrapped_keys aes kek input ks \<and> setup_securitySuite x = 0 \<and> (s, e') = rotate_keys x keys ks e) \<or> (s \<noteq> Ok \<and> e' = e)"
proof (cases "setup_securitySuite x = 0 \<and> read_header 0x01 input \<noteq> None")
  case True
  then obtain count rest where header: "read_header 0x01 input = Some (count, rest)" by auto
  have run: "(case read_transferred_keys aes kek count rest of Inl status \<Rightarrow> (status, e)
      | Inr (ks, rest) \<Rightarrow> if rest \<noteq> [] then (InvalidArgument, e) else rotate_keys x keys ks e) = (s, e')"
    using assms(3-5) True header read_header_length [OF header]
    by (cases "read_transferred_keys aes kek count rest") (auto simp: transfer_keys_def rotate_keys_def)
  show ?thesis
  proof (cases "read_transferred_keys aes kek count rest")
    case (Inl status)
    with run read_transferred_keys_failed [OF Inl] show ?thesis by simp
  next
    case (Inr r)
    with run True read_transferred_keys_wrapped [OF assms(1,2), of count rest "fst r" "snd r"] header show ?thesis
      by (fastforce simp: wrapped_keys_def split: if_splits prod.splits)
  qed
next
  case False
  then consider "setup_securitySuite x \<noteq> 0" | "read_header 0x01 input = None" by blast
  then show ?thesis using assms(3-5) by cases (auto simp: transfer_keys_def split: if_splits)
qed

text \<open>A store that keeps the keys it is given, and its fixed key encryption key.\<close>

definition example_kek :: SecurityKey where
  "example_kek = \<lparr>keyRole = KeyEncryption, keyBytes = replicate 32 1, keySize = 16\<rparr>"

definition example_store :: "(SecurityKey list) MutableKeyStore" where
  "example_store = \<lparr>store_GetKey = (\<lambda>role e. Inr example_kek), store_SetKey = (\<lambda>k e. (SecurityStatus.Ok, e @ [k]))\<rparr>"

definition example_setup :: "(SecurityKey list) CosemSecuritySetupObject" where
  "example_setup = CosemSecuritySetupObject_init [0, 0, 43, 0, 0, 255] 0 0 (replicate 8 1) (replicate 8 2) (Some example_store) None None 0"

theorem key_transfer_complete_witness:
  "\<exists>w. let input = [0x01, 1, 0x02, 2, 0x16, 0, 0x09, 24] @ w; k = transferred_key GlobalUnicastEncryption (replicate 16 9) in
     transfer_keys (\<lambda>e k b. Some (rev b)) input example_setup [] = (Ok, [k])
     \<and> (\<exists>ks. wrapped_keys (\<lambda>e k b. Some (rev b)) example_kek input ks \<and> (Ok, [k]) = rotate_keys example_setup example_store ks [])"
proof -
  let ?aes = "\<lambda>e k b. Some (rev b)" and ?p = "replicate 16 9 :: bytes"
  have hyps: "documented_aes ?aes" "suite0_key example_kek"
    by (simp_all add: documented_aes_def suite0_key_def example_kek_def)
  obtain w where w: "Wrap ?aes example_kek (View ?p) = Inr w" "length w = 24"
    using wrap_unwrap [OF hyps, of ?p] by auto
  then have unwrapped: "Unwrap ?aes example_kek (View w) = Inr ?p" using wrap_unwrap [OF hyps] by blast
  let ?input = "[0x01, 1, 0x02, 2, 0x16, 0, 0x09, 24] @ w"
  have one: "read_wrapped_key ([0x02, 2, 0x16, 0, 0x09, 24] @ w) = Some ((GlobalUnicastEncryption, w), [])"
    using w(2) by (simp add: read_wrapped_key_def ReadAxdrLength_def ReadByte_def MapSecuritySetupKeyId_def)
  have header: "read_header 0x01 ?input = Some (1, [0x02, 2, 0x16, 0, 0x09, 24] @ w)"
    by (simp add: read_header_def ReadAxdrLength_def)
  have known: "setup_keyStore example_setup = Some example_store" "store_GetKey example_store KeyEncryption [] = Inr example_kek"
    "setup_securitySuite example_setup = 0" "setup_counterResetPolicy example_setup = None"
    by (simp_all add: example_setup_def example_store_def CosemSecuritySetupObject_init_def Let_def)
  have run: "transfer_keys ?aes ?input example_setup [] = (Ok, [transferred_key GlobalUnicastEncryption ?p])"
    unfolding transfer_keys_def using header known one unwrapped
    by (simp add: example_store_def MapSecurityStatus_def)
  from key_transfer_complete [OF hyps known(1,2) run] run show ?thesis by (auto simp: Let_def)
qed

end
