(* ===== verification/Server_Exchange.thy ===== *)
theory Server_Exchange
  imports Server_Laws Cosem_ObjectLaws
begin

text \<open>
  A client and the objects of a server: the whole way from the client's call over the channel, the APDU processor, the
  dispatcher and the logical device to the object and back, with the cases in which the server does not answer.
\<close>

subsection \<open>Access control\<close>

text \<open>
  C28: Access control of a server without security processor, trace sink and correlated channel. In whatever state its
  history has left it, and whatever bytes arrive: the objects are as before, or exactly one write or one
  invocation has happened; it happened in an association, on an object of the device (of class version 0), and the rights of this
  object permitted it in the access context of the server. The dispatcher returns data for a GET only if the rights permit this read.
  And the response, if there is one, is a well-formed message that carries no other value bytes than those of a permitted read
  or the output of a permitted invocation, at this request or an earlier one: all of it, decoded and encoded
  again, or a piece of it as a block.
\<close>

theorem access_control:
  assumes "served_in (fresh_server c options seeds) es p" "maxGetBlockPayloadBytes options < size_t_modulus"
    and "\<forall>e. server_logicalDevice (c e) = Some (LogicalDevice_of d)"
    and "ProcessRequest bs (p, e) = (response, p', e')"
  shows "(e' = e \<or> object_change (device_object d) (c e) e e')
    \<and> (\<forall>i r. fst (DispatchGet (dispatcher p) i e) = Inr r \<and> get_hasData r \<longrightarrow> IsAssociated (c e)
        \<and> (\<exists>k x. key_version k = 0 \<and> device_object d k = Some x
            \<and> CanReadAttribute (attribute_attributeId (getInd_descriptor i)) (server_accessContext (c e)) (object_AccessRights x e)
            \<and> object_ReadAttribute x (attribute_attributeId (getInd_descriptor i)) e = (CosemStatus.Ok, get_data r)))
    \<and> response_carries (\<lambda>v. \<exists>e1\<in>set (e # es). \<exists>src. released (device_object d) (c e1) e1 src \<and> piece_of src v) response"
proof (intro conjI allI impI)
  note p = served_in_fresh [OF assms(1,2)]
  have here: "server_logicalDevice (c e) = Some (LogicalDevice_of d)" using assms(3) by simp
  show "e' = e \<or> object_change (device_object d) (c e) e e'"
    using logical_device.dispatched_guarded [where c = c and e = e and d = d, OF _ here] ProcessRequest_dispatched [OF assms(4)] p by simp
  show "response_carries (\<lambda>v. \<exists>e1\<in>set (e # es). \<exists>src. released (device_object d) (c e1) e1 src \<and> piece_of src v) response"
    by (rule logical_device.served_in_carries [OF assms])
  fix i r
  assume read: "fst (DispatchGet (dispatcher p) i e) = Inr r \<and> get_hasData r"
  then have "DispatchGet (cosem_server c) i e = (Inr r, snd (DispatchGet (cosem_server c) i e))" using p by (simp add: prod_eq_iff)
  from logical_device.DispatchGet_data [where c = c and e = e and d = d, OF here this] read
  show "IsAssociated (c e)" and "\<exists>k x. key_version k = 0 \<and> device_object d k = Some x
      \<and> CanReadAttribute (attribute_attributeId (getInd_descriptor i)) (server_accessContext (c e)) (object_AccessRights x e)
      \<and> object_ReadAttribute x (attribute_attributeId (getInd_descriptor i)) e = (CosemStatus.Ok, get_data r)"
    by (auto intro!: exI [of _ "attribute_object (ToServerDescriptor (getInd_descriptor i))"] simp: ToServerDescriptor_def)
qed

subsection \<open>Reading and writing over a channel\<close>

lemma server_key:
  "length (attribute_instanceId d) = 6 \<Longrightarrow> attribute_object (ToServerDescriptor d)
     = \<lparr>key_classId = attribute_classId d, key_version = 0, key_logicalName = attribute_instanceId d\<rparr>"
  using logical_name_copied [of "attribute_instanceId d"] by (simp add: ToServerDescriptor_def ToCosemLogicalName_def upt_conv_Cons eval_nat_numeral)

definition remote_key :: "AttributeDescriptor \<Rightarrow> CosemObjectKey" where
  "remote_key d = \<lparr>key_classId = attribute_classId d, key_version = 0, key_logicalName = attribute_instanceId d\<rparr>"

lemma read_result_kinds:
  "get_hasData (read_result i r) \<longleftrightarrow> fst r = CosemStatus.Ok" "get_hasAccessResult (read_result i r) \<longleftrightarrow> fst r \<noteq> CosemStatus.Ok"
  "fst r = CosemStatus.Ok \<Longrightarrow> get_data (read_result i r) = snd r"
  by (simp_all add: read_result_def EmptyGetResult_def)

text \<open>
  C29: A remote read. A client that is connected to a server (neither with security, trace sink or correlated channel, no
  transfer under way) in an association asks for an attribute, and the guarded read of the object with this class,
  this name of six bytes and version 0 decides. If it gives a value and the value can be fetched, the client's \<open>Get\<close>
  returns it: in one response the encoding of the data that the value decodes to (of at most 2044 bytes), and in
  blocks, which both sides must allow within their limits, the value itself. If it is refused with an access result, \<open>Get\<close>
  returns a rejection with its code (3 if the rights do not permit the read, 4 if there is no such object or
  attribute, 250 if the object failed). If it is refused otherwise (\<open>InvalidArgument\<close>, \<open>UnsupportedFeature\<close>), or if the value cannot be sent
  (it is no encoding of data, as that of an empty register, or above the limits of the server), the server does not answer
  the request. In no case do the objects of the server change.
\<close>

theorem remote_read:
  assumes "connected server c (e :: 'e) p w" "ValidateDescriptor d = XdlmsStatus.Ok" "length (attribute_instanceId d) = 6" "confirmed copts"
    and "ValidateInvokeId (client_invokeIds c) = XdlmsStatus.Ok"
    and "dispatcher p = cosem_server sc" "IsAssociated (sc w)" "server_logicalDevice (sc w) = Some (LogicalDevice_of dev)"
    and "r = guarded_read (device_object dev (remote_key d)) (attribute_attributeId d) (server_accessContext (sc w)) w"
  shows "(fst r = CosemStatus.Ok \<and> fetched copts (processorOptions p) (snd r) v \<longrightarrow>
      (\<exists>e'. XdlmsClient_Get d None copts (c, e) = Some ((XdlmsStatus.Ok, read_result (client_invokeIds c) (CosemStatus.Ok, v)),
         c\<lparr>client_invokeIds := snd (InvokeIdAllocator_Next (client_invokeIds c))\<rparr>, e') \<and> server e' = (p, w)))
    \<and> (fst r \<noteq> CosemStatus.Ok \<and> access_result (fst r) \<noteq> None \<longrightarrow>
      (\<exists>e'. XdlmsClient_Get d None copts (c, e) = Some ((ServiceRejected, read_result (client_invokeIds c) r),
         c\<lparr>client_invokeIds := snd (InvokeIdAllocator_Next (client_invokeIds c))\<rparr>, e') \<and> server e' = (p, w)))
    \<and> (access_result (fst r) = None \<or> fst r = CosemStatus.Ok \<and> unsendable (processorOptions p) (snd r) \<longrightarrow>
      (\<exists>status. ProcessRequest (message_bytes (GetRequestM (get_request_message (MakeInvokeIdAndPriority (client_invokeIds c) copts) d))) (p, w)
         = (Inl status, p, w)))"
proof (intro conjI impI)
  let ?i = "client_invokeIds c"
  let ?ind = "get_indication ?i copts (processorOptions p) d"
  have ind: "getInd_invokeId ?ind = ?i" "getInd_descriptor ?ind = d" by (simp_all add: get_indication_def)
  have r: "r = guarded_read (device_object dev (attribute_object (ToServerDescriptor (getInd_descriptor ?ind))))
      (attribute_attributeId (getInd_descriptor ?ind)) (server_accessContext (sc w)) w"
    using assms(3,9) by (simp add: ind server_key remote_key_def)
  have valid: "ValidateInvokeId (getInd_invokeId ?ind) = XdlmsStatus.Ok" "ValidateDescriptor (getInd_descriptor ?ind) = XdlmsStatus.Ok"
    using assms(2,5) by (simp_all add: ind)
  have dispatch: "DispatchGet (dispatcher p) ?ind w = (Inr (read_result ?i r), w)" if "access_result (fst r) \<noteq> None"
    using logical_device.DispatchGet_reads [where c = sc and e = w and d = dev and i = ?ind, OF assms(8,7) valid r that] by (simp add: assms(6) ind)
  show "\<exists>e'. XdlmsClient_Get d None copts (c, e) = Some ((XdlmsStatus.Ok, read_result ?i (CosemStatus.Ok, v)),
      c\<lparr>client_invokeIds := snd (InvokeIdAllocator_Next ?i)\<rparr>, e') \<and> server e' = (p, w)"
    if read: "fst r = CosemStatus.Ok \<and> fetched copts (processorOptions p) (snd r) v"
  proof (rule XdlmsClient_Get_receives [OF assms(1,2) refl])
    fix trace :: "'e XdlmsTraceContext" and e1 request
    assume made: "ctx_sink trace = None" "server e1 = (p, w)" "delivers (client_channel c) server e1"
      "client_MakeGetRequestNormal (MakeInvokeIdAndPriority ?i copts) d None = Inr request"
    have "access_result (fst r) \<noteq> None" using read by (simp add: access_result_def)
    from receive_get_exchange [OF assms(1,3,4) refl dispatch [OF this] _ _ _ made(1,2) refl made(4,3), of v] read
    show "\<exists>e'. receive_get c trace ?i (MakeInvokeIdAndPriority ?i copts) copts request e1
      = Some ((XdlmsStatus.Ok, read_result ?i (CosemStatus.Ok, v)), e') \<and> server e' = (p, w)"
      by (simp add: read_result_kinds) (simp add: read_result_def EmptyGetResult_def)
  qed
  show "\<exists>e'. XdlmsClient_Get d None copts (c, e) = Some ((ServiceRejected, read_result ?i r),
      c\<lparr>client_invokeIds := snd (InvokeIdAllocator_Next ?i)\<rparr>, e') \<and> server e' = (p, w)"
    if refused: "fst r \<noteq> CosemStatus.Ok \<and> access_result (fst r) \<noteq> None"
  proof (rule XdlmsClient_Get_receives [OF assms(1,2) refl])
    fix trace :: "'e XdlmsTraceContext" and e1 request
    assume made: "ctx_sink trace = None" "server e1 = (p, w)" "delivers (client_channel c) server e1"
      "client_MakeGetRequestNormal (MakeInvokeIdAndPriority ?i copts) d None = Inr request"
    from receive_get_refused [OF assms(1,3,4) refl dispatch _ _ made(1,2) refl made(4,3)] refused
    show "\<exists>e'. receive_get c trace ?i (MakeInvokeIdAndPriority ?i copts) copts request e1
      = Some ((ServiceRejected, read_result ?i r), e') \<and> server e' = (p, w)"
      by (simp add: read_result_kinds) (simp add: read_result_def EmptyGetResult_def)
  qed
  have idle: "quiet p" "getBlocks p = EmptyGetResponseBlockState" "?i AND 0x0f = ?i"
    using assms(1) by (simp_all add: connected_def)
  note unanswered = get_unanswered [OF idle(1,2) assms(4) idle(3) assms(3)]
  show "\<exists>status. ProcessRequest (message_bytes (GetRequestM (get_request_message (MakeInvokeIdAndPriority ?i copts) d))) (p, w)
      = (Inl status, p, w)"
    if "access_result (fst r) = None \<or> fst r = CosemStatus.Ok \<and> unsendable (processorOptions p) (snd r)"
  proof (cases "access_result (fst r) = None")
    case True
    from logical_device.DispatchGet_fails [where c = sc and e = w and d = dev and i = ?ind, OF assms(8,7) valid r True] unanswered(1) [of w _ w] show ?thesis by (simp add: assms(6))
  next
    case False
    with that have "fst r = CosemStatus.Ok" "unsendable (processorOptions p) (snd r)" by simp_all
    with unanswered(2) [OF dispatch [OF False]] show ?thesis by (simp add: read_result_kinds)
  qed
qed

text \<open>
  C30: A remote write. A client that is connected to a server as in C29 gives a value within the limits to \<open>Set\<close>. The
  guarded write of the object of this class, this name and version 0 happens once: with exactly these bytes if the value goes in blocks, and
  in one request with the encoding of the data that the value decodes to, which is the same unless the value was
  no such encoding. If the write ends with an access result (0 if it succeeded, 3, 4 or 250), the
  client returns it; otherwise (\<open>InvalidArgument\<close>, as for every value of the wrong type, or \<open>UnsupportedFeature\<close>) the server does not answer the
  request that made it run. Either way the objects of the server are as the write left them, and the server is idle.
\<close>

theorem remote_write:
  assumes "connected server c e p w" "ValidateDescriptor d = XdlmsStatus.Ok" "length (attribute_instanceId d) = 6" "confirmed copts"
    and "ValidateInvokeId (client_invokeIds c) = XdlmsStatus.Ok" "carried copts (processorOptions p) bs v"
    and "dispatcher p = cosem_server sc" "IsAssociated (sc w)" "server_logicalDevice (sc w) = Some (LogicalDevice_of dev)"
    and "(s, w') = guarded_write (device_object dev (remote_key d)) (attribute_attributeId d) (server_accessContext (sc w)) v w"
  shows "case access_result s of
      Some code \<Rightarrow> (\<exists>e'. XdlmsClient_Set d bs copts (c, e)
        = Some ((if s = CosemStatus.Ok then XdlmsStatus.Ok else ServiceRejected, \<lparr>set_invokeId = client_invokeIds c, set_accessResult = code\<rparr>),
            c\<lparr>client_invokeIds := snd (InvokeIdAllocator_Next (client_invokeIds c))\<rparr>, e') \<and> server e' = (p, w'))
    | None \<Rightarrow> (\<forall>q p1. last_set_request (client_invokeIds c) copts d bs p = (q, p1) \<longrightarrow>
        ProcessRequest (message_bytes (SetRequestM q)) (p1, w) = (Inl (MapServerStatusToXdlmsStatus (MapCosemStatus s)), p, w'))"
proof -
  let ?i = "client_invokeIds c"
  let ?ind = "set_indication ?i (request_options copts (processorOptions p)) d v"
  have ind: "setInd_invokeId ?ind = ?i" "setInd_descriptor ?ind = d" "setInd_data ?ind = v" by (simp_all add: set_indication_def)
  have written: "(s, w') = guarded_write (device_object dev (attribute_object (ToServerDescriptor (setInd_descriptor ?ind))))
      (attribute_attributeId (setInd_descriptor ?ind)) (server_accessContext (sc w)) (setInd_data ?ind) w"
    using assms(3,10) by (simp add: ind server_key remote_key_def)
  have valid: "ValidateInvokeId (setInd_invokeId ?ind) = XdlmsStatus.Ok" "ValidateDescriptor (setInd_descriptor ?ind) = XdlmsStatus.Ok"
    "setInd_data ?ind \<noteq> []"
    using assms(2,5) carried_nonempty [OF assms(6)] by (simp_all add: ind)
  note valid = valid written
  show ?thesis
  proof (cases "access_result s")
    case (Some code)
    have "DispatchSet (dispatcher p) ?ind w = (Inr \<lparr>set_invokeId = ?i, set_accessResult = code\<rparr>, w')"
      using logical_device.DispatchSet_writes [where c = sc and e = w and d = dev and i = ?ind, OF assms(9,8) valid Some] by (simp add: assms(7) ind)
    moreover have "code = 0 \<longleftrightarrow> s = CosemStatus.Ok" using Some by (cases s) (auto simp: access_result_def)
    ultimately show ?thesis
      using set_served [OF assms(1-4) _ assms(6)] Some by (fastforce simp: set_outcome_def)
  next
    case None
    have "DispatchSet (dispatcher p) ?ind w = (Inl (MapServerStatusToXdlmsStatus (MapCosemStatus s)), w')"
      using logical_device.DispatchSet_fails [where c = sc and e = w and d = dev and i = ?ind, OF assms(9,8) valid None] by (simp add: assms(7))
    from set_unanswered [OF _ _ assms(4) _ assms(3,6) this] assms(1) None show ?thesis
      by (simp add: connected_def)
  qed
qed

subsection \<open>A meter\<close>

text \<open>A server with one object that anybody may read and write, and its client on a direct channel.\<close>

definition meter :: CosemDataObject where
  "meter = CosemDataObject_init [0, 0, 1, 0, 0, 255] [0x09, 3, 7, 8, 9] ReadAndWrite 0"

definition one_object :: "CosemObjectKey \<Rightarrow> 'e CosemObject \<Rightarrow> 'e LogicalDevice" where
  "one_object k x = \<lparr>sap = 1, device_name = [], registry = [(k, x)]\<rparr>"

definition associated_with :: "'e LogicalDevice \<Rightarrow> 'e \<Rightarrow> 'e ServerContext" where
  "associated_with d e = AttachLogicalDevice (Some (LogicalDevice_of d)) (SetAssociated True ServerContext_init)"

definition serving_processor :: "'e LogicalDevice \<Rightarrow> 'e XdlmsServerApduProcessor" where
  "serving_processor d = XdlmsServerApduProcessor_init (cosem_server (associated_with d)) None example_options"

lemma associated_with [simp]: "IsAssociated (associated_with d e)" "server_logicalDevice (associated_with d e) = Some (LogicalDevice_of d)"
  "server_accessContext (associated_with d e) = PublicAccessContext"
  by (simp_all add: associated_with_def AttachLogicalDevice_def SetAssociated_def ServerContext_init_def IsAssociated_def)

lemma serving_processor [simp]: "quiet (serving_processor d)" "dispatcher (serving_processor d) = cosem_server (associated_with d)"
  "processorOptions (serving_processor d) = example_options" "actionBlocks (serving_processor d) = EmptyActionRequestBlockState"
  "getBlocks (serving_processor d) = EmptyGetResponseBlockState" "setBlocks (serving_processor d) = EmptySetRequestBlockState"
  by (simp_all add: serving_processor_def XdlmsServerApduProcessor_init_def quiet_def)

lemma serving_connected: "connected direct_server example_client (serving_processor d, w, None) (serving_processor d) w"
  by (simp add: connected_def example_client_def XdlmsClient_init_def direct_delivers direct_server_def [THEN fun_cong] InvokeIdAllocator_init_def)

lemma one_object [simp]: "device_object (one_object k x) k = Some x"
  by (simp add: device_object_def one_object_def)

lemma client_ids: "client_invokeIds example_client = 1" "snd (InvokeIdAllocator_Next 1) = 2"
  by (simp_all add: example_client_def XdlmsClient_init_def InvokeIdAllocator_init_def InvokeIdAllocator_Next_def)

definition meter_device :: "CosemDataObject LogicalDevice" where
  "meter_device = one_object (remote_key example_attribute) Data_class"

lemma meter_rights: "CanReadAttribute 2 PublicAccessContext (data_rights meter)" "CanWriteAttribute 2 PublicAccessContext (data_rights meter)"
  by (simp_all add: meter_def CosemDataObject_init_def attribute_rights_def SetAttributeAccess_def CosemAccessRights_init_def
      CanReadAttribute_def CanWriteAttribute_def AttributeAccess_def IsReadAllowed_def IsWriteAllowed_def)

lemma meter_guarded:
  "guarded_read (device_object meter_device (remote_key example_attribute)) 2 PublicAccessContext meter = (CosemStatus.Ok, [0x09, 3, 7, 8, 9])"
  "guarded_write (device_object meter_device (remote_key example_attribute)) 2 PublicAccessContext bs meter
     = (CosemStatus.Ok, meter\<lparr>data_value := bs\<rparr>)"
  using meter_rights by (simp_all add: guarded_read_def guarded_write_def meter_device_def Data_class_def Data_ReadAttribute_def
      Data_WriteAttribute_def) (simp add: meter_def CosemDataObject_init_def)

text \<open>The instances: the meter's value in blocks of two bytes, and a meter without a value, which does not answer.\<close>

theorem remote_read_witness:
  "(\<exists>e'. XdlmsClient_Get example_attribute None DefaultServiceOptions (example_client, serving_processor meter_device, meter, None)
    = Some ((XdlmsStatus.Ok, read_result 1 (CosemStatus.Ok, [0x09, 3, 7, 8, 9])), example_client\<lparr>client_invokeIds := 2\<rparr>, e')
      \<and> direct_server e' = (serving_processor meter_device, meter))
   \<and> (\<exists>status. ProcessRequest (message_bytes (GetRequestM example_request)) (serving_processor meter_device, meter\<lparr>data_value := []\<rparr>)
      = (Inl status, serving_processor meter_device, meter\<lparr>data_value := []\<rparr>))"
proof -
  have id: "attribute_attributeId example_attribute = 2" by (simp add: example_attribute_def)
  have fits: "fetched DefaultServiceOptions example_options [0x09, 3, 7, 8, 9] [0x09, 3, 7, 8, 9]" "unsendable example_options []"
    "confirmed DefaultServiceOptions"
    by (simp_all add: fetched_def unsendable_def recoded_def DecodeEncodedData_def example_options_def DefaultServiceOptions_def)
  have empty: "guarded_read (device_object meter_device (remote_key example_attribute)) 2 PublicAccessContext (meter\<lparr>data_value := []\<rparr>)
      = (CosemStatus.Ok, [])"
    using meter_rights by (simp add: guarded_read_def meter_device_def Data_class_def Data_ReadAttribute_def)
  note read = remote_read [OF serving_connected [of meter_device] example_valid _ _ _ _ _ refl,
      where copts = DefaultServiceOptions and sc = "associated_with meter_device" and dev = meter_device]
  from read [where w = meter and v = "[0x09, 3, 7, 8, 9]"] read [where w = "meter\<lparr>data_value := []\<rparr>" and v = "[]"]
    meter_guarded(1) empty fits show ?thesis
    by (simp add: client_ids id ValidateInvokeId_def access_result_def example_request_def)
qed

theorem remote_write_witness:
  "\<exists>e'. XdlmsClient_Set example_attribute [0x09, 4, 1, 2, 3, 4] example_options (example_client, serving_processor meter_device, meter, None)
    = Some ((XdlmsStatus.Ok, \<lparr>set_invokeId = 1, set_accessResult = 0\<rparr>), example_client\<lparr>client_invokeIds := 2\<rparr>, e')
      \<and> direct_server e' = (serving_processor meter_device, meter\<lparr>data_value := [0x09, 4, 1, 2, 3, 4]\<rparr>)"
proof -
  have id: "attribute_attributeId example_attribute = 2" by (simp add: example_attribute_def)
  have "carried example_options example_options [0x09, 4, 1, 2, 3, 4] [0x09, 4, 1, 2, 3, 4]" "confirmed example_options"
    by (simp_all add: carried_def example_options_def DefaultServiceOptions_def)
  with remote_write [OF serving_connected [of meter_device meter] example_valid, where copts = example_options
      and bs = "[0x09, 4, 1, 2, 3, 4]" and v = "[0x09, 4, 1, 2, 3, 4]" and sc = "associated_with meter_device" and dev = meter_device
      and s = CosemStatus.Ok] meter_guarded(2) [symmetric] show ?thesis
    by (simp add: client_ids id ValidateInvokeId_def access_result_def)
qed

lemma serving_fresh: "serving_processor d = fresh_server (associated_with d) example_options None"
  by (simp add: serving_processor_def fresh_server_def XdlmsServerApduProcessor_init_def)

lemma meter_exchange: "\<exists>p'. ProcessRequest (message_bytes (GetRequestM example_request)) (serving_processor meter_device, meter)
    = (Inr (message_bytes (GetResponseM example_block)), p', meter)"
proof -
  let ?i = "get_indication 1 DefaultServiceOptions example_options example_attribute"
  have ind: "getInd_invokeId ?i = 1" "getInd_descriptor ?i = example_attribute" "attribute_attributeId example_attribute = 2"
    by (simp_all add: get_indication_def example_attribute_def)
  have dispatched: "DispatchGet (dispatcher (serving_processor meter_device)) (get_indication 1 DefaultServiceOptions
      (processorOptions (serving_processor meter_device)) example_attribute) meter
    = (Inr (read_result 1 (CosemStatus.Ok, [0x09, 3, 7, 8, 9])), meter)"
    using logical_device.DispatchGet_reads [where c = "associated_with meter_device" and e = meter and d = meter_device and i = ?i,
        OF _ _ _ _ refl] meter_guarded(1) example_valid server_key [OF example_valid(2)]
    by (simp add: ind ValidateInvokeId_def remote_key_def access_result_def)
  have fits: "sent_message (GetResponseM (get_block_message 0x81 False 1 [0x09, 3])) = Inr (message_bytes (GetResponseM (get_block_message 0x81 False 1 [0x09, 3])))"
    using block_message_fits(2) [of 2 "0x81" "[0x09, 3, 7, 8, 9]" 0] by (intro sent_message_fits) (simp add: block_message_def)
  show ?thesis
    using ProcessRequest_get [OF serving_processor(1,5) _ _ example_valid(2) dispatched] fits
    by (simp add: example_request_def example_block_def EncodeGetResponseOrStartBlocks_def Let_def get_indication_def example_options_def DefaultServiceOptions_def
        SendNextGetResponseBlock_def EncodeGetDataBlockResponse_sent size_t_modulus_def MakeInvokeIdAndPriority_def EmptyGetResult_def read_result_def)
qed

text \<open>The instance is the first request of the meter, which it answers with a block of its value.\<close>

theorem access_control_witness:
  "\<exists>p' m. ProcessRequest (message_bytes (GetRequestM example_request)) (serving_processor meter_device, meter)
      = (Inr (message_bytes (GetResponseM example_block)), p', meter)
    \<and> message_wf m \<and> message_bytes m = message_bytes (GetResponseM example_block)
    \<and> carries_only (\<lambda>v. \<exists>src. released (device_object meter_device) (associated_with meter_device meter) meter src \<and> piece_of src v) m"
proof -
  obtain p' where run: "ProcessRequest (message_bytes (GetRequestM example_request)) (serving_processor meter_device, meter)
      = (Inr (message_bytes (GetResponseM example_block)), p', meter)" using meter_exchange by blast
  from access_control [OF served_in.start example_limit _ run [unfolded serving_fresh], of meter_device] run show ?thesis
    by (auto simp: response_carries_def)
qed

subsection \<open>What cannot be reached or answered\<close>

lemma other_version_not_found:
  "\<forall>k' \<in> fst ` set m. key_version k' \<noteq> key_version k \<Longrightarrow> registry_find k m = None"
  by (induction k m rule: registry_find.induct) (auto simp: key_less_def split: if_splits)

text \<open>
  C39: Objects of a version other than 0 cannot be reached. Requests name no version, and the adapter always looks for
  version 0: a device whose objects all have other versions answers every GET with \<open>object-undefined\<close> (4), and no
  request whatever changes anything.
\<close>

theorem versioned_objects_unreachable:
  assumes "quiet p" "dispatcher p = cosem_server c" "server_logicalDevice (c e) = Some (LogicalDevice_of d)" "IsAssociated (c e)"
    and "\<forall>k \<in> fst ` set (registry d). key_version k \<noteq> 0"
    and "ValidateInvokeId (getInd_invokeId i) = XdlmsStatus.Ok" "ValidateDescriptor (getInd_descriptor i) = XdlmsStatus.Ok"
  shows "DispatchGet (dispatcher p) i e = (Inr (EmptyGetResult\<lparr>get_invokeId := getInd_invokeId i, get_hasAccessResult := True,
      get_accessResult := 4\<rparr>), e) \<and> snd (snd (ProcessRequest bs (p, e))) = e"
proof
  have absent: "key_version k = 0 \<Longrightarrow> device_object d k = None" for k
    using other_version_not_found [of "registry d" k] assms(5) by (simp add: device_object_def)
  have "key_version (attribute_object (ToServerDescriptor (getInd_descriptor i))) = 0" by (simp add: ToServerDescriptor_def)
  then have "guarded_read (device_object d (attribute_object (ToServerDescriptor (getInd_descriptor i)))) a ctx e
      = (CosemStatus.ObjectNotFound, [])" for a ctx
    using absent by (simp add: guarded_read_def)
  then show "DispatchGet (dispatcher p) i e = (Inr (EmptyGetResult\<lparr>get_invokeId := getInd_invokeId i, get_hasAccessResult := True,
      get_accessResult := 4\<rparr>), e)"
    using logical_device.DispatchGet_reads [where c = c and e = e and d = d and i = i, OF assms(3,4,6,7) refl] assms(2)
    by (simp add: access_result_def read_result_def)
  have "dispatched (dispatcher p) e (snd (snd (ProcessRequest bs (p, e))))"
    using ProcessRequest_dispatched [OF _ assms(1), of bs e] by (metis prod.collapse)
  then have "snd (snd (ProcessRequest bs (p, e))) = e \<or> object_change (device_object d) (c e) e (snd (snd (ProcessRequest bs (p, e))))"
    using logical_device.dispatched_guarded [where c = c and e = e and d = d, OF _ assms(3)] assms(2) by simp
  then show "snd (snd (ProcessRequest bs (p, e))) = e" by (auto simp: absent elim: object_change.cases)
qed

text \<open>A profile of version 1, as its constructor makes it by default, and the request for its buffer.\<close>

definition profile :: "u8 \<Rightarrow> CosemProfileGenericObject" where
  "profile v = CosemProfileGenericObject_init [1, 0, 99, 1, 0, 255] [[0x12, 0, 7]] [] 900 100 Fifo MakeEmptyProfileGenericSortObject v"

definition profile_device :: "u8 \<Rightarrow> CosemProfileGenericObject LogicalDevice" where
  "profile_device v = one_object (descriptor_key (profile_descriptor (profile v))) ProfileGeneric_class"

theorem versioned_objects_unreachable_witness:
  "fst (Register (Some ProfileGeneric_class) (profile 1) []) = CosemStatus.Ok
   \<and> (let d = \<lparr>attribute_classId = 7, attribute_instanceId = [1, 0, 99, 1, 0, 255], attribute_attributeId = 2\<rparr>;
          i = get_indication 1 DefaultServiceOptions example_options d
     in DispatchGet (dispatcher (serving_processor (profile_device 1))) i (profile 1)
       = (Inr (EmptyGetResult\<lparr>get_invokeId := 1, get_hasAccessResult := True, get_accessResult := 4\<rparr>), profile 1))"
proof -
  let ?d = "\<lparr>attribute_classId = 7, attribute_instanceId = [1, 0, 99, 1, 0, 255], attribute_attributeId = 2\<rparr> :: AttributeDescriptor"
  let ?i = "get_indication 1 DefaultServiceOptions example_options ?d"
  have "ValidateInvokeId (getInd_invokeId ?i) = XdlmsStatus.Ok" "ValidateDescriptor (getInd_descriptor ?i) = XdlmsStatus.Ok" "getInd_invokeId ?i = 1"
    by (simp_all add: get_indication_def ValidateInvokeId_def ValidateDescriptor_def CosemLogicalName_at_def upt_conv_Cons)
  moreover have "\<forall>k \<in> fst ` set (registry (profile_device 1)). key_version k \<noteq> 0"
    by (simp add: profile_device_def one_object_def profile_def CosemProfileGenericObject_init_def MakeDescriptor_def NormalizeVersion_def)
  ultimately have "DispatchGet (dispatcher (serving_processor (profile_device 1))) ?i (profile 1)
      = (Inr (EmptyGetResult\<lparr>get_invokeId := 1, get_hasAccessResult := True, get_accessResult := 4\<rparr>), profile 1)"
    using versioned_objects_unreachable [of "serving_processor (profile_device 1)" "associated_with (profile_device 1)" "profile 1"
        "profile_device 1" ?i "[]"] by simp
  moreover have "fst (Register (Some ProfileGeneric_class) (profile 1) []) = CosemStatus.Ok"
    by (simp add: Register_def ProfileGeneric_class_def profile_def CosemProfileGenericObject_init_def MakeDescriptor_def ValidateObjectDescriptor_def
        ValidateObjectKey_def LogicalName_IsEmpty_def CosemLogicalName_at_def upt_conv_Cons Let_def)
  ultimately show ?thesis by (simp add: Let_def)
qed

text \<open>
  C40: A method without output is executed and not answered. When the object's method succeeds and returns no data, as
  the reset of a profile and the methods of a disconnect control do, the response cannot be encoded: the processor reports
  \<open>EncodeFailed\<close>, no response is sent, and the effect of the method stays.
\<close>

theorem method_without_output_unanswered:
  assumes "quiet p" "dispatcher p = cosem_server c" "server_logicalDevice (c e) = Some (LogicalDevice_of d)" "IsAssociated (c e)"
    and "action_request_wf 8 q" "actionRequest_choice q = 1" "actionRequest_invokeIdAndPriority q AND 0x80 \<noteq> 0"
    and "i = actionRequest_invokeIdAndPriority q AND 0x0f" "ValidateInvokeId i = XdlmsStatus.Ok"
    and "m = ToXdlmsMethodDescriptor (parameterDescriptor (actionRequest_normal q))" "ValidateMethodDescriptor m = XdlmsStatus.Ok"
    and "hasInvocationParameter (actionRequest_normal q)" "EncodeDataBytes (invocationParameter (actionRequest_normal q)) = Inr input" "input \<noteq> []"
    and "guarded_invoke (device_object d (method_object (ToServerMethodDescriptor m))) (method_methodId m) (server_accessContext (c e)) input e
      = ((CosemStatus.Ok, []), e')"
  shows "ProcessRequest (message_bytes (ActionRequestM q)) (p, e) = (Inl EncodeFailed, p, e')"
proof -
  define ind where "ind = \<lparr>actionInd_invokeId = i, actionInd_options = ParseServiceOptions (actionRequest_invokeIdAndPriority q) (processorOptions p),
    actionInd_descriptor = m, actionInd_hasParameter = True, actionInd_parameter = input\<rparr>"
  have "DispatchAction (dispatcher p) ind e
      = (Inr (EmptyActionResult\<lparr>action_invokeId := i, action_hasData := True, action_data := []\<rparr>), e')"
    using logical_device.DispatchAction_invokes [where c = c and e = e and d = d and i = ind and e' = e' and bs = "[]", OF assms(3,4)]
      assms(2,9,11,14,15) by (simp add: ind_def)
  moreover obtain cid where "ProcessRequest (message_bytes (ActionRequestM q)) (p, e) = run_service (apdu_of (ActionRequestM q)) cid (p, e)"
    using ProcessRequest_quiet [OF _ assms(1), of "ActionRequestM q" e] assms(5) by auto
  moreover have "confirmed (ParseServiceOptions (actionRequest_invokeIdAndPriority q) (processorOptions p))"
    using assms(7) by (simp add: ParseServiceOptions_def)
  ultimately show ?thesis
    using assms(6,8,10,12,13)
    by (simp add: ProcessActionRequest.simps normal_requests get_consts action_consts finish_action_def ind_def Let_def
        EncodeActionResponse_server_def DecodeEncodedData_def)
qed

text \<open>The request to reset the profile, with null data as the parameter.\<close>

definition reset_request :: ActionRequest where
  "reset_request = ActionRequest_default\<lparr>actionRequest_choice := 1, actionRequest_invokeIdAndPriority := 0x81,
     actionRequest_normal := \<lparr>parameterDescriptor = \<lparr>methodClassId = 7, methodLogicalName = [1, 0, 99, 1, 0, 255], methodId = 1\<rparr>,
       hasInvocationParameter = True, invocationParameter = DlmsData_default\<rparr>\<rparr>"

theorem method_without_output_unanswered_witness:
  "ProcessRequest (message_bytes (ActionRequestM reset_request)) (serving_processor (profile_device 0), profile 0)
     = (Inl EncodeFailed, serving_processor (profile_device 0), (profile 0)\<lparr>profile_bufferRows := []\<rparr>)"
proof -
  let ?d = "profile_device 0" and ?m = "\<lparr>method_classId = 7, method_instanceId = [1, 0, 99, 1, 0, 255], method_methodId = 1\<rparr> :: MethodDescriptor"
  have null: "represented 8 DlmsData_default" "data_bytes DlmsData_default = [0]" 
    using represented_other(1) [of 7] by (simp_all add: DlmsData_default_def data_tags)
  then have encoded: "EncodeDataBytes DlmsData_default = Inr [0]"
    using writes_fresh [OF datac.wr_writes [OF null(1)], of 65535] by (simp add: EncodeDataBytes_def ApduWriter_init_def)
  have fields: "action_request_wf 8 reset_request" "actionRequest_choice reset_request = 1" "actionRequest_invokeIdAndPriority reset_request = 0x81"
    "parameterDescriptor (actionRequest_normal reset_request) = \<lparr>methodClassId = 7, methodLogicalName = [1, 0, 99, 1, 0, 255], methodId = 1\<rparr>"
    "hasInvocationParameter (actionRequest_normal reset_request)" "invocationParameter (actionRequest_normal reset_request) = DlmsData_default"
    using null by (simp_all add: reset_request_def ActionRequest_default_def action_request_wf_def action_consts parameter_wf_def
        optional_wf_def method_wf_def Let_def)
  have "method_object (ToServerMethodDescriptor ?m) = descriptor_key (profile_descriptor (profile 0))" "method_methodId ?m = 1"
    by (simp_all add: ToServerMethodDescriptor_def ToCosemLogicalName_def CosemLogicalName_at_def profile_def CosemProfileGenericObject_init_def
        MakeDescriptor_def NormalizeVersion_def)
  moreover have "CanInvokeMethod 1 PublicAccessContext (profile_rights (profile 0))"
    by (simp add: profile_def CosemProfileGenericObject_init_def method_rights_def attribute_rights_def SetMethodAccess_def SetAttributeAccess_def
        CosemAccessRights_init_def CanInvokeMethod_def MethodAccess_def IsMethodAllowed_def)
  ultimately have "guarded_invoke (device_object ?d (method_object (ToServerMethodDescriptor ?m))) (method_methodId ?m)
      (server_accessContext (associated_with ?d (profile 0))) [0] (profile 0) = ((CosemStatus.Ok, []), (profile 0)\<lparr>profile_bufferRows := []\<rparr>)"
    by (simp add: guarded_invoke_def profile_device_def ProfileGeneric_class_def ProfileGeneric_InvokeMethod_def)
  moreover have "ValidateMethodDescriptor ?m = XdlmsStatus.Ok"
    by (simp add: ValidateMethodDescriptor_def CosemLogicalName_at_def upt_conv_Cons)
  ultimately show ?thesis
    using method_without_output_unanswered [of "serving_processor ?d" "associated_with ?d" "profile 0" ?d reset_request 1 ?m "[0]"] fields encoded
    by (simp add: ToXdlmsMethodDescriptor_def ValidateInvokeId_def)
qed

end
