(* ===== verification/Cosem_Scripts.thy ===== *)
theory Cosem_Scripts
  imports Cosem_Association
begin

text \<open>
  Register activation, register monitors and script tables. Their lists are nested vectors that are reserved before they
  are read, so that decoding reports success, rejects, or throws.
\<close>

subsection \<open>Readers that may throw\<close>

type_synonym 'a vector_reader = "bytes \<Rightarrow> ('a \<times> bytes) decoded"

fun decoded_then :: "'a decoded \<Rightarrow> ('a \<Rightarrow> 'b decoded) \<Rightarrow> 'b decoded" where
  "decoded_then Rejected f = Rejected"
| "decoded_then Thrown f = Thrown"
| "decoded_then (Decoded x) f = f x"

definition read_once :: "'a reader \<Rightarrow> 'a vector_reader" where
  "read_once rd input = (case rd input of None \<Rightarrow> Rejected | Some r \<Rightarrow> Decoded r)"

fun read_each :: "'a vector_reader \<Rightarrow> nat \<Rightarrow> ('a list) vector_reader" where
  "read_each rd 0 input = Decoded ([], input)"
| "read_each rd (Suc count) input = decoded_then (rd input) (\<lambda>(x, input).
     decoded_then (read_each rd count input) (\<lambda>(xs, input). Decoded (x # xs, input)))"

definition read_vector :: "nat \<Rightarrow> 'a vector_reader \<Rightarrow> ('a list) vector_reader" where
  "read_vector max_size rd input = decoded_then (read_once (read_header 0x01) input) (\<lambda>(count, input).
     if max_size < count then Thrown else read_each rd count input)"

definition whole_value :: "('a \<times> bytes) decoded \<Rightarrow> 'a decoded" where
  "whole_value r = decoded_then r (\<lambda>(x, rest). if rest \<noteq> [] then Rejected else Decoded x)"

text \<open>The bytes of one data item.\<close>

definition raw_item :: "bytes reader" where
  "raw_item input = do {
     rest \<leftarrow> SkipDlmsData 17 input;
     if length input \<le> length rest then None else Some (take (length input - length rest) input, rest) }"

definition store_decoded :: "'o \<Rightarrow> 'a decoded \<Rightarrow> ('a \<Rightarrow> (CosemStatus \<times> 'o) decoded) \<Rightarrow> (CosemStatus \<times> 'o) decoded" where
  "store_decoded x r f = (case r of Rejected \<Rightarrow> Decoded (InvalidArgument, x) | Thrown \<Rightarrow> Thrown | Decoded a \<Rightarrow> f a)"

subsection \<open>Register activation\<close>

record ObjectDefinition =
  definition_classId :: u16
  definition_logicalName :: bytes

record RegisterMask =
  maskName :: bytes
  indexList :: "u16 list"

record CosemRegisterActivationObject =
  activation_descriptor :: CosemObjectDescriptor
  activation_registerAssignment :: "ObjectDefinition list"
  activation_maskList :: "RegisterMask list"
  activation_activeMask :: bytes
  activation_rights :: CosemAccessRights

definition CosemRegisterActivationObject_init ::
    "bytes \<Rightarrow> ObjectDefinition list \<Rightarrow> RegisterMask list \<Rightarrow> bytes \<Rightarrow> u8 \<Rightarrow> CosemRegisterActivationObject" where
  "CosemRegisterActivationObject_init logicalName registerAssignment maskList activeMask version =
     \<lparr>activation_descriptor = MakeDescriptor 6 (NormalizeVersion version 0) logicalName,
      activation_registerAssignment = registerAssignment, activation_maskList = maskList, activation_activeMask = activeMask,
      activation_rights = attribute_rights [(1, ReadOnly), (2, ReadOnly), (3, ReadOnly), (4, ReadOnly)]\<rparr>"

definition AppendRegisterAssignment :: "ObjectDefinition list \<Rightarrow> bytes" where
  "AppendRegisterAssignment items = AppendArrayHeader (length items)
     @ concat (map (\<lambda>d. AppendStructureHeader 2 @ AppendLongUnsigned (definition_classId d) @ AppendLogicalName (definition_logicalName d)) items)"

definition AppendMaskList :: "RegisterMask list \<Rightarrow> bytes" where
  "AppendMaskList items = AppendArrayHeader (length items)
     @ concat (map (\<lambda>m. AppendStructureHeader 2 @ AppendOctetString (maskName m)
         @ AppendArrayHeader (length (indexList m)) @ concat (map AppendLongUnsigned (indexList m))) items)"

definition AppendActiveMask :: "bytes \<Rightarrow> bytes" where
  "AppendActiveMask name = AppendOctetString name"

definition RegisterActivation_ReadAttribute :: "u8 \<Rightarrow> CosemRegisterActivationObject \<Rightarrow> CosemStatus \<times> bytes" where
  "RegisterActivation_ReadAttribute identifier x =
     (if identifier = 1 then (Ok, EncodeLogicalName (key_logicalName (descriptor_key (activation_descriptor x))))
      else if identifier = 2 then (Ok, AppendRegisterAssignment (activation_registerAssignment x))
      else if identifier = 3 then (Ok, AppendMaskList (activation_maskList x))
      else if identifier = 4 then (Ok, AppendActiveMask (activation_activeMask x))
      else (AttributeNotFound, []))"

definition RegisterActivation_WriteAttribute ::
    "u8 \<Rightarrow> bytes \<Rightarrow> CosemRegisterActivationObject \<Rightarrow> CosemStatus \<times> CosemRegisterActivationObject" where
  "RegisterActivation_WriteAttribute identifier input x =
     (if 1 \<le> identifier \<and> identifier \<le> 4 then (AccessDenied, x) else (AttributeNotFound, x))"

definition RegisterActivation_InvokeMethod ::
    "u8 \<Rightarrow> bytes \<Rightarrow> CosemRegisterActivationObject \<Rightarrow> (CosemStatus \<times> bytes) \<times> CosemRegisterActivationObject" where
  "RegisterActivation_InvokeMethod identifier input x =
     (if 1 \<le> identifier \<and> identifier \<le> 3 then ((UnsupportedFeature, []), x) else ((MethodNotFound, []), x))"

definition RegisterActivation_class :: "CosemRegisterActivationObject CosemObject" where
  "RegisterActivation_class = \<lparr>object_Descriptor = activation_descriptor, object_AccessRights = activation_rights,
     object_ReadAttribute = RegisterActivation_ReadAttribute, object_WriteAttribute = RegisterActivation_WriteAttribute,
     object_InvokeMethod = RegisterActivation_InvokeMethod\<rparr>"

subsection \<open>Register monitor\<close>

record Script =
  script_logicalName :: bytes
  script_selector :: u16

record ActionSet =
  actionUp :: Script
  actionDown :: Script

text \<open>The index of an attribute is a signed byte.\<close>

record MonitoredValue =
  monitored_classId :: u16
  monitored_logicalName :: bytes
  monitored_attributeIndex :: u8

definition MonitoredValue_init :: MonitoredValue where
  "MonitoredValue_init = \<lparr>monitored_classId = 0, monitored_logicalName = [0, 0, 0, 0, 0, 0], monitored_attributeIndex = 1\<rparr>"

definition MakeMonitoredValue :: "u16 \<Rightarrow> bytes \<Rightarrow> u8 \<Rightarrow> MonitoredValue" where
  "MakeMonitoredValue classId logicalName attributeIndex = \<lparr>monitored_classId = classId, monitored_logicalName = logicalName,
     monitored_attributeIndex = (if 1 \<le> sint attributeIndex then attributeIndex else 1)\<rparr>"

definition SetAttributeIndex :: "u8 \<Rightarrow> MonitoredValue \<Rightarrow> bool \<times> MonitoredValue" where
  "SetAttributeIndex value v = (if sint value < 1 then (False, v) else (True, v\<lparr>monitored_attributeIndex := value\<rparr>))"

definition MonitoredValue_IsValid :: "MonitoredValue \<Rightarrow> bool" where
  "MonitoredValue_IsValid v \<longleftrightarrow> 1 \<le> sint (monitored_attributeIndex v)"

definition AppendActionItem :: "Script \<Rightarrow> bytes" where
  "AppendActionItem s = AppendStructureHeader 2 @ AppendLogicalName (script_logicalName s) @ AppendLongUnsigned (script_selector s)"

definition DecodeActionItem :: "Script reader" where
  "DecodeActionItem input = do {
     input \<leftarrow> read_structure 2 input;
     (ln, input) \<leftarrow> ReadLogicalNameValue input;
     (selector, input) \<leftarrow> ReadLongUnsignedValue input;
     Some (\<lparr>script_logicalName = ln, script_selector = selector\<rparr>, input) }"

definition AppendActionSet :: "ActionSet \<Rightarrow> bytes" where
  "AppendActionSet s = AppendStructureHeader 2 @ AppendActionItem (actionUp s) @ AppendActionItem (actionDown s)"

definition DecodeActionSet :: "ActionSet reader" where
  "DecodeActionSet input = do {
     input \<leftarrow> read_structure 2 input;
     (up, input) \<leftarrow> DecodeActionItem input;
     (down, input) \<leftarrow> DecodeActionItem input;
     Some (\<lparr>actionUp = up, actionDown = down\<rparr>, input) }"

definition AppendActions :: "ActionSet list \<Rightarrow> bytes" where
  "AppendActions actions = AppendArrayHeader (length actions) @ concat (map AppendActionSet actions)"

definition DecodeActions :: "nat \<Rightarrow> (ActionSet list) vector_reader" where
  "DecodeActions max_actions = read_vector max_actions (read_once DecodeActionSet)"

definition AppendMonitoredValue :: "MonitoredValue \<Rightarrow> bytes" where
  "AppendMonitoredValue v = AppendStructureHeader 3 @ AppendLongUnsigned (monitored_classId v) @ AppendLogicalName (monitored_logicalName v)
     @ AppendInteger (monitored_attributeIndex v)"

definition DecodeMonitoredValue :: "MonitoredValue reader" where
  "DecodeMonitoredValue input = do {
     input \<leftarrow> read_structure 3 input;
     (classId, input) \<leftarrow> ReadLongUnsignedValue input;
     (ln, input) \<leftarrow> ReadLogicalNameValue input;
     (attrIndex, input) \<leftarrow> ReadIntegerValue input;
     if sint attrIndex < 1 then None else Some (MakeMonitoredValue classId ln attrIndex, input) }"

definition AppendThresholds :: "bytes list \<Rightarrow> bytes" where
  "AppendThresholds thresholds = AppendArrayHeader (length thresholds) @ concat thresholds"

definition DecodeThresholds :: "nat \<Rightarrow> (bytes list) vector_reader" where
  "DecodeThresholds max_thresholds = read_vector max_thresholds (read_once raw_item)"

record CosemRegisterMonitorObject =
  monitor_descriptor :: CosemObjectDescriptor
  monitor_thresholds :: "bytes list"
  monitor_monitoredValue :: MonitoredValue
  monitor_actions :: "ActionSet list"
  monitor_rights :: CosemAccessRights

definition IsValidThresholds :: "bytes list \<Rightarrow> bool" where
  "IsValidThresholds thresholds \<longleftrightarrow> list_all (\<lambda>t. t \<noteq> []) thresholds"

definition ThresholdsMatchActions :: "bytes list \<Rightarrow> ActionSet list \<Rightarrow> bool" where
  "ThresholdsMatchActions thresholds actions \<longleftrightarrow> length thresholds = length actions"

definition CosemRegisterMonitorObject_init ::
    "bytes \<Rightarrow> bytes list \<Rightarrow> MonitoredValue \<Rightarrow> ActionSet list \<Rightarrow> AttributeAccessMode \<Rightarrow> u8 \<Rightarrow> CosemRegisterMonitorObject" where
  "CosemRegisterMonitorObject_init logicalName thresholds monitoredValue actions thresholdsAccess version =
     (let ok = IsValidThresholds thresholds \<and> ThresholdsMatchActions thresholds actions in
      \<lparr>monitor_descriptor = MakeDescriptor 21 (NormalizeVersion version 0) logicalName,
       monitor_thresholds = (if ok then thresholds else []),
       monitor_monitoredValue = (if MonitoredValue_IsValid monitoredValue then monitoredValue else MonitoredValue_init),
       monitor_actions = (if ok then actions else []),
       monitor_rights = attribute_rights [(1, ReadOnly), (2, thresholdsAccess), (3, ReadOnly), (4, ReadOnly)]\<rparr>)"

definition RegisterMonitor_ReadAttribute :: "u8 \<Rightarrow> CosemRegisterMonitorObject \<Rightarrow> CosemStatus \<times> bytes" where
  "RegisterMonitor_ReadAttribute identifier x =
     (if identifier = 1 then (Ok, EncodeLogicalName (key_logicalName (descriptor_key (monitor_descriptor x))))
      else if identifier = 2 then (Ok, AppendThresholds (monitor_thresholds x))
      else if identifier = 3 then (Ok, AppendMonitoredValue (monitor_monitoredValue x))
      else if identifier = 4 then (Ok, AppendActions (monitor_actions x))
      else (AttributeNotFound, []))"

definition SetThresholds :: "bytes list \<Rightarrow> CosemRegisterMonitorObject \<Rightarrow> bool \<times> CosemRegisterMonitorObject" where
  "SetThresholds thresholds x =
     (if \<not> IsValidThresholds thresholds \<or> \<not> ThresholdsMatchActions thresholds (monitor_actions x) then (False, x)
      else (True, x\<lparr>monitor_thresholds := thresholds\<rparr>))"

definition SetMonitoredValue :: "MonitoredValue \<Rightarrow> CosemRegisterMonitorObject \<Rightarrow> bool \<times> CosemRegisterMonitorObject" where
  "SetMonitoredValue monitoredValue x =
     (if \<not> MonitoredValue_IsValid monitoredValue then (False, x) else (True, x\<lparr>monitor_monitoredValue := monitoredValue\<rparr>))"

definition SetActions :: "ActionSet list \<Rightarrow> CosemRegisterMonitorObject \<Rightarrow> bool \<times> CosemRegisterMonitorObject" where
  "SetActions actions x =
     (if \<not> ThresholdsMatchActions (monitor_thresholds x) actions then (False, x) else (True, x\<lparr>monitor_actions := actions\<rparr>))"

definition RegisterMonitor_WriteAttribute ::
    "nat \<Rightarrow> u8 \<Rightarrow> bytes \<Rightarrow> CosemRegisterMonitorObject \<Rightarrow> (CosemStatus \<times> CosemRegisterMonitorObject) decoded" where
  "RegisterMonitor_WriteAttribute max_thresholds identifier input x =
     (if identifier = 2 then
        if \<not> IsAccessWritable (AttributeAccess 2 (monitor_rights x)) then Decoded (AccessDenied, x)
        else store_decoded x (whole_value (DecodeThresholds max_thresholds input)) (\<lambda>thresholds.
          if \<not> IsValidThresholds thresholds \<or> \<not> ThresholdsMatchActions thresholds (monitor_actions x) then Decoded (InvalidArgument, x)
          else Decoded (Ok, x\<lparr>monitor_thresholds := thresholds\<rparr>))
      else if identifier = 1 \<or> identifier = 3 \<or> identifier = 4 then Decoded (AccessDenied, x)
      else Decoded (AttributeNotFound, x))"

definition RegisterMonitor_InvokeMethod ::
    "u8 \<Rightarrow> bytes \<Rightarrow> CosemRegisterMonitorObject \<Rightarrow> (CosemStatus \<times> bytes) \<times> CosemRegisterMonitorObject" where
  "RegisterMonitor_InvokeMethod identifier input x = ((MethodNotFound, []), x)"

subsection \<open>Script table\<close>

datatype ScriptServiceId = Dummy | WriteAttribute | ExecuteMethod

fun service_id_value :: "ScriptServiceId \<Rightarrow> u8" where
  "service_id_value Dummy = 0"
| "service_id_value WriteAttribute = 1"
| "service_id_value ExecuteMethod = 2"

record ActionSpecification =
  action_serviceId :: ScriptServiceId
  action_classId :: u16
  action_logicalName :: bytes
  action_index :: u8
  action_parameter :: bytes

definition IsZeroLogicalName :: "bytes \<Rightarrow> bool" where
  "IsZeroLogicalName name \<longleftrightarrow> name = [0, 0, 0, 0, 0, 0]"

definition ActionSpecification_IsDummy :: "ActionSpecification \<Rightarrow> bool" where
  "ActionSpecification_IsDummy a \<longleftrightarrow> action_serviceId a = Dummy \<and> action_classId a = 0 \<and> IsZeroLogicalName (action_logicalName a)
     \<and> action_index a = 0 \<and> action_parameter a = []"

definition ActionSpecification_IsValid :: "ActionSpecification \<Rightarrow> bool" where
  "ActionSpecification_IsValid a \<longleftrightarrow> (case action_serviceId a of
     Dummy \<Rightarrow> action_classId a = 0 \<and> IsZeroLogicalName (action_logicalName a) \<and> action_index a = 0 \<and> action_parameter a = []
   | _ \<Rightarrow> 1 \<le> sint (action_index a))"

record ScriptEntry =
  entry_identifier :: u16
  entry_actions :: "ActionSpecification list"

definition MakeScriptEntry :: "u16 \<Rightarrow> ActionSpecification list \<Rightarrow> ScriptEntry" where
  "MakeScriptEntry identifier actions =
     \<lparr>entry_identifier = identifier, entry_actions = (if list_all ActionSpecification_IsValid actions then actions else [])\<rparr>"

definition ScriptEntry_SetActions :: "ActionSpecification list \<Rightarrow> ScriptEntry \<Rightarrow> bool \<times> ScriptEntry" where
  "ScriptEntry_SetActions value entry =
     (if list_all ActionSpecification_IsValid value then (True, entry\<lparr>entry_actions := value\<rparr>) else (False, entry))"

definition ScriptEntry_IsValid :: "ScriptEntry \<Rightarrow> bool" where
  "ScriptEntry_IsValid entry \<longleftrightarrow> list_all ActionSpecification_IsValid (entry_actions entry)"

definition AppendActionSpecification :: "ActionSpecification \<Rightarrow> bytes" where
  "AppendActionSpecification a = AppendStructureHeader 5 @ AppendEnum (service_id_value (action_serviceId a))
     @ AppendLongUnsigned (action_classId a) @ AppendLogicalName (action_logicalName a) @ AppendInteger (action_index a)
     @ (if action_parameter a = [] then [0x00] else action_parameter a)"

definition service_id_of :: "u8 \<Rightarrow> ScriptServiceId option" where
  "service_id_of raw = (if raw = 0 then Some Dummy else if raw = 1 then Some WriteAttribute else if raw = 2 then Some ExecuteMethod else None)"

definition DecodeActionSpecification :: "ActionSpecification reader" where
  "DecodeActionSpecification input = do {
     input \<leftarrow> read_structure 5 input;
     (serviceIdRaw, input) \<leftarrow> ReadEnumValue input;
     serviceId \<leftarrow> service_id_of serviceIdRaw;
     (classId, input) \<leftarrow> ReadLongUnsignedValue input;
     (logicalName, input) \<leftarrow> read_octets 6 input;
     (index, input) \<leftarrow> ReadIntegerValue input;
     if input = [] then None else do {
       rest \<leftarrow> SkipDlmsData 17 input;
       let a = \<lparr>action_serviceId = serviceId, action_classId = classId, action_logicalName = logicalName, action_index = index,
                action_parameter = (if hd input \<noteq> 0x00 then take (length input - length rest) input else [])\<rparr>
       in if \<not> ActionSpecification_IsValid a then None else Some (a, rest) } }"

definition AppendScript_entry :: "ScriptEntry \<Rightarrow> bytes" where
  "AppendScript_entry entry = AppendStructureHeader 2 @ AppendLongUnsigned (entry_identifier entry)
     @ AppendArrayHeader (length (entry_actions entry)) @ concat (map AppendActionSpecification (entry_actions entry))"

definition AppendScripts :: "ScriptEntry list \<Rightarrow> bytes" where
  "AppendScripts scripts = AppendArrayHeader (length scripts) @ concat (map AppendScript_entry scripts)"

definition decode_script :: "nat \<Rightarrow> ScriptEntry vector_reader" where
  "decode_script max_actions input =
     decoded_then (read_once (\<lambda>input. do { input \<leftarrow> read_structure 2 input; ReadLongUnsignedValue input }) input) (\<lambda>(identifier, input).
     decoded_then (read_vector max_actions (read_once DecodeActionSpecification) input) (\<lambda>(actions, input).
       let entry = MakeScriptEntry identifier actions in
       if length (entry_actions entry) \<noteq> length actions then Rejected else Decoded (entry, input)))"

definition DecodeScripts :: "nat \<Rightarrow> nat \<Rightarrow> bytes \<Rightarrow> (ScriptEntry list) decoded" where
  "DecodeScripts max_scripts max_actions input =
     decoded_then (whole_value (read_vector max_scripts (decode_script max_actions) input)) (\<lambda>scripts.
       if \<not> distinct (map entry_identifier scripts) then Rejected else Decoded scripts)"

record CosemScriptTableObject =
  table_descriptor :: CosemObjectDescriptor
  table_scripts :: "ScriptEntry list"
  table_rights :: CosemAccessRights

definition IsValidScripts :: "ScriptEntry list \<Rightarrow> bool" where
  "IsValidScripts scripts \<longleftrightarrow> list_all ScriptEntry_IsValid scripts \<and> distinct (map entry_identifier scripts)"

definition CosemScriptTableObject_init :: "bytes \<Rightarrow> ScriptEntry list \<Rightarrow> AttributeAccessMode \<Rightarrow> u8 \<Rightarrow> CosemScriptTableObject" where
  "CosemScriptTableObject_init logicalName scripts scriptsAccess version =
     \<lparr>table_descriptor = MakeDescriptor 9 (NormalizeVersion version 0) logicalName,
      table_scripts = (if IsValidScripts scripts then scripts else []),
      table_rights = attribute_rights [(1, ReadOnly), (2, scriptsAccess)]\<rparr>"

definition ScriptTable_ReadAttribute :: "u8 \<Rightarrow> CosemScriptTableObject \<Rightarrow> CosemStatus \<times> bytes" where
  "ScriptTable_ReadAttribute identifier x =
     (if identifier = 1 then (Ok, EncodeLogicalName (key_logicalName (descriptor_key (table_descriptor x))))
      else if identifier = 2 then (Ok, AppendScripts (table_scripts x))
      else (AttributeNotFound, []))"

definition ScriptTable_WriteAttribute ::
    "nat \<Rightarrow> nat \<Rightarrow> u8 \<Rightarrow> bytes \<Rightarrow> CosemScriptTableObject \<Rightarrow> (CosemStatus \<times> CosemScriptTableObject) decoded" where
  "ScriptTable_WriteAttribute max_scripts max_actions identifier input x =
     (if identifier = 2 then
        if IsAccessWritable (AttributeAccess 2 (table_rights x)) then
          store_decoded x (DecodeScripts max_scripts max_actions input) (\<lambda>scripts.
            if \<not> IsValidScripts scripts then Decoded (InvalidArgument, x) else Decoded (Ok, x\<lparr>table_scripts := scripts\<rparr>))
        else Decoded (AccessDenied, x)
      else if identifier = 1 then Decoded (AccessDenied, x)
      else Decoded (AttributeNotFound, x))"

definition ScriptTable_InvokeMethod :: "u8 \<Rightarrow> bytes \<Rightarrow> CosemScriptTableObject \<Rightarrow> (CosemStatus \<times> bytes) \<times> CosemScriptTableObject" where
  "ScriptTable_InvokeMethod identifier input x = (if identifier = 1 then ((UnsupportedFeature, []), x) else ((MethodNotFound, []), x))"

definition SetScripts :: "ScriptEntry list \<Rightarrow> CosemScriptTableObject \<Rightarrow> bool \<times> CosemScriptTableObject" where
  "SetScripts scripts x = (if \<not> IsValidScripts scripts then (False, x) else (True, x\<lparr>table_scripts := scripts\<rparr>))"

end
