(* ===== verification/Cosem_Calendar.thy ===== *)
theory Cosem_Calendar
  imports Cosem_Scripts
begin

text \<open>
  The activity calendar: seasons that name weeks, weeks that name days, and days with their actions, in an active and a
  passive set of tables.
\<close>

subsection \<open>Days\<close>

text \<open>Every element is less than the next one.\<close>

fun ascending :: "('a \<Rightarrow> 'a \<Rightarrow> bool) \<Rightarrow> 'a list \<Rightarrow> bool" where
  "ascending below (x # y # xs) = (below x y \<and> ascending below (y # xs))"
| "ascending below xs = True"

record DayProfileAction =
  day_startTime :: Time
  day_scriptLogicalName :: bytes
  day_scriptSelector :: u16

definition DayProfileAction_init :: DayProfileAction where
  "DayProfileAction_init = \<lparr>day_startTime = Time_init, day_scriptLogicalName = [0, 0, 0, 0, 0, 0], day_scriptSelector = 0\<rparr>"

text \<open>A time with an unspecified field is a wildcard.\<close>

definition wildcard_time :: "Time \<Rightarrow> bool" where
  "wildcard_time t \<longleftrightarrow> time_hour t = 0xff \<or> time_minute t = 0xff \<or> time_second t = 0xff \<or> time_hundredths t = 0xff"

definition SetStartTime :: "Time \<Rightarrow> DayProfileAction \<Rightarrow> bool \<times> DayProfileAction" where
  "SetStartTime value a = (if wildcard_time value then (False, a) else (True, a\<lparr>day_startTime := value\<rparr>))"

definition DayProfileAction_IsValid :: "DayProfileAction \<Rightarrow> bool" where
  "DayProfileAction_IsValid a \<longleftrightarrow> \<not> wildcard_time (day_startTime a)"

definition TimeStrictlyLess :: "Time \<Rightarrow> Time \<Rightarrow> bool" where
  "TimeStrictlyLess a b =
     (if time_hour a \<noteq> time_hour b then time_hour a < time_hour b
      else if time_minute a \<noteq> time_minute b then time_minute a < time_minute b
      else if time_second a \<noteq> time_second b then time_second a < time_second b
      else time_hundredths a < time_hundredths b)"

record DayProfile =
  dayId :: u8
  daySchedule :: "DayProfileAction list"

definition IsValidSchedule :: "DayProfileAction list \<Rightarrow> bool" where
  "IsValidSchedule schedule \<longleftrightarrow> list_all DayProfileAction_IsValid schedule \<and> ascending TimeStrictlyLess (map day_startTime schedule)"

definition MakeDayProfile :: "u8 \<Rightarrow> DayProfileAction list \<Rightarrow> DayProfile" where
  "MakeDayProfile identifier schedule = \<lparr>dayId = identifier, daySchedule = (if IsValidSchedule schedule then schedule else [])\<rparr>"

definition SetDaySchedule :: "DayProfileAction list \<Rightarrow> DayProfile \<Rightarrow> bool \<times> DayProfile" where
  "SetDaySchedule value p = (if \<not> IsValidSchedule value then (False, p) else (True, p\<lparr>daySchedule := value\<rparr>))"

definition DayProfile_IsValid :: "DayProfile \<Rightarrow> bool" where
  "DayProfile_IsValid p \<longleftrightarrow> IsValidSchedule (daySchedule p)"

definition AppendDayProfileAction :: "DayProfileAction \<Rightarrow> bytes" where
  "AppendDayProfileAction a = AppendStructureHeader 3 @ AppendOctetString (Time_ToBytes (day_startTime a))
     @ AppendOctetString (day_scriptLogicalName a) @ AppendLongUnsigned (day_scriptSelector a)"

definition DecodeDayProfileAction :: "DayProfileAction reader" where
  "DecodeDayProfileAction input = do {
     input \<leftarrow> read_structure 3 input;
     (timeData, input) \<leftarrow> read_octets 4 input;
     startTime \<leftarrow> Time_TryFromBytes timeData;
     (scriptName, input) \<leftarrow> ReadLogicalNameValue input;
     (selector, input) \<leftarrow> ReadLongUnsignedValue input;
     let (ok, a) = SetStartTime startTime DayProfileAction_init; a = a\<lparr>day_scriptLogicalName := scriptName, day_scriptSelector := selector\<rparr>
     in if \<not> ok \<or> \<not> DayProfileAction_IsValid a then None else Some (a, input) }"

definition AppendDayProfile :: "DayProfile \<Rightarrow> bytes" where
  "AppendDayProfile p = AppendStructureHeader 2 @ AppendUnsigned (dayId p)
     @ AppendArrayHeader (length (daySchedule p)) @ concat (map AppendDayProfileAction (daySchedule p))"

definition DecodeDayProfile :: "nat \<Rightarrow> DayProfile vector_reader" where
  "DecodeDayProfile max_actions input =
     decoded_then (read_once (\<lambda>input. do { input \<leftarrow> read_structure 2 input; ReadUnsignedValue input }) input) (\<lambda>(identifier, input).
     decoded_then (read_vector max_actions (read_once DecodeDayProfileAction) input) (\<lambda>(schedule, input).
       case SetDaySchedule schedule \<lparr>dayId = identifier, daySchedule = []\<rparr> of (ok, p) \<Rightarrow>
         if \<not> ok then Rejected else Decoded (p, input)))"

definition AppendDayProfileTable :: "DayProfile list \<Rightarrow> bytes" where
  "AppendDayProfileTable table = AppendArrayHeader (length table) @ concat (map AppendDayProfile table)"

definition DecodeDayProfileTablePayload :: "nat \<Rightarrow> nat \<Rightarrow> bytes \<Rightarrow> (DayProfile list) decoded" where
  "DecodeDayProfileTablePayload max_days max_actions input = whole_value (read_vector max_days (DecodeDayProfile max_actions) input)"

subsection \<open>Weeks\<close>

record WeekProfile =
  week_name :: bytes
  monday :: u8
  tuesday :: u8
  wednesday :: u8
  thursday :: u8
  friday :: u8
  saturday :: u8
  sunday :: u8

definition AppendWeekProfile :: "WeekProfile \<Rightarrow> bytes" where
  "AppendWeekProfile p = AppendStructureHeader 8 @ AppendOctetString (week_name p) @ AppendUnsigned (monday p) @ AppendUnsigned (tuesday p)
     @ AppendUnsigned (wednesday p) @ AppendUnsigned (thursday p) @ AppendUnsigned (friday p) @ AppendUnsigned (saturday p)
     @ AppendUnsigned (sunday p)"

definition ReadBufferOctetString :: "bytes reader" where
  "ReadBufferOctetString input = do { input \<leftarrow> ReadExpectedTag 0x09 input; (len, input) \<leftarrow> ReadAxdrLength input; ReadFixedBytes len input }"

definition DecodeWeekProfile :: "WeekProfile reader" where
  "DecodeWeekProfile input = do {
     input \<leftarrow> read_structure 8 input;
     (name, input) \<leftarrow> ReadBufferOctetString input;
     (d0, input) \<leftarrow> ReadUnsignedValue input;
     (d1, input) \<leftarrow> ReadUnsignedValue input;
     (d2, input) \<leftarrow> ReadUnsignedValue input;
     (d3, input) \<leftarrow> ReadUnsignedValue input;
     (d4, input) \<leftarrow> ReadUnsignedValue input;
     (d5, input) \<leftarrow> ReadUnsignedValue input;
     (d6, input) \<leftarrow> ReadUnsignedValue input;
     Some (\<lparr>week_name = name, monday = d0, tuesday = d1, wednesday = d2, thursday = d3, friday = d4, saturday = d5, sunday = d6\<rparr>, input) }"

definition AppendWeekProfileTable :: "WeekProfile list \<Rightarrow> bytes" where
  "AppendWeekProfileTable table = AppendArrayHeader (length table) @ concat (map AppendWeekProfile table)"

definition DecodeWeekProfileTablePayload :: "nat \<Rightarrow> bytes \<Rightarrow> (WeekProfile list) decoded" where
  "DecodeWeekProfileTablePayload max_weeks input = whole_value (read_vector max_weeks (read_once DecodeWeekProfile) input)"

subsection \<open>Seasons\<close>

record SeasonProfile =
  season_name :: bytes
  season_start :: DateTime
  season_weekName :: bytes

definition AppendSeasonProfile :: "SeasonProfile \<Rightarrow> bytes" where
  "AppendSeasonProfile p = AppendStructureHeader 3 @ AppendOctetString (season_name p)
     @ AppendOctetString (DateTime_ToBytes (season_start p)) @ AppendOctetString (season_weekName p)"

definition DecodeSeasonProfile :: "SeasonProfile reader" where
  "DecodeSeasonProfile input = do {
     input \<leftarrow> read_structure 3 input;
     (name, input) \<leftarrow> ReadBufferOctetString input;
     (dtData, input) \<leftarrow> read_octets 12 input;
     start \<leftarrow> DateTime_TryFromBytes dtData;
     (weekName, input) \<leftarrow> ReadBufferOctetString input;
     Some (\<lparr>season_name = name, season_start = start, season_weekName = weekName\<rparr>, input) }"

definition AppendSeasonProfileTable :: "SeasonProfile list \<Rightarrow> bytes" where
  "AppendSeasonProfileTable table = AppendArrayHeader (length table) @ concat (map AppendSeasonProfile table)"

definition DecodeSeasonProfilePayload :: "nat \<Rightarrow> bytes \<Rightarrow> (SeasonProfile list) decoded" where
  "DecodeSeasonProfilePayload max_seasons input = whole_value (read_vector max_seasons (read_once DecodeSeasonProfile) input)"

subsection \<open>Consistency of the tables\<close>

text \<open>Byte by byte; the arrays have the same length.\<close>

fun bytes_less :: "bytes \<Rightarrow> bytes \<Rightarrow> bool" where
  "bytes_less (p # ps) (c # cs) = (if p < c then True else if p > c then False else bytes_less ps cs)"
| "bytes_less ps cs = False"

definition IsValidSeasonProfile :: "SeasonProfile list \<Rightarrow> bool" where
  "IsValidSeasonProfile value \<longleftrightarrow> distinct (map season_name value)
     \<and> ascending (\<lambda>prev cur. bytes_less (DateTime_ToBytes prev) (DateTime_ToBytes cur)) (map season_start value)"

definition IsValidWeekProfileTable :: "WeekProfile list \<Rightarrow> bool" where
  "IsValidWeekProfileTable value \<longleftrightarrow> distinct (map week_name value)"

definition IsValidDayProfileTable :: "DayProfile list \<Rightarrow> bool" where
  "IsValidDayProfileTable value \<longleftrightarrow> list_all DayProfile_IsValid value \<and> distinct (map dayId value)"

definition WeekProfileTableSatisfies :: "WeekProfile list \<Rightarrow> DayProfile list \<Rightarrow> bool" where
  "WeekProfileTableSatisfies weekTable dayTable \<longleftrightarrow>
     list_all (\<lambda>w. list_all (\<lambda>i. list_ex (\<lambda>d. dayId d = i) dayTable)
       [monday w, tuesday w, wednesday w, thursday w, friday w, saturday w, sunday w]) weekTable"

definition SeasonProfileSatisfies :: "SeasonProfile list \<Rightarrow> WeekProfile list \<Rightarrow> bool" where
  "SeasonProfileSatisfies seasonProfile weekTable \<longleftrightarrow>
     list_all (\<lambda>s. list_ex (\<lambda>w. season_weekName s = week_name w) weekTable) seasonProfile"

subsection \<open>The object\<close>

record CosemActivityCalendarObject =
  calendar_descriptor :: CosemObjectDescriptor
  calendarNameActive :: bytes
  seasonProfileActive :: "SeasonProfile list"
  weekProfileTableActive :: "WeekProfile list"
  dayProfileTableActive :: "DayProfile list"
  calendarNamePassive :: bytes
  seasonProfilePassive :: "SeasonProfile list"
  weekProfileTablePassive :: "WeekProfile list"
  dayProfileTablePassive :: "DayProfile list"
  activatePassiveCalendarTime :: DateTime
  calendar_rights :: CosemAccessRights

text \<open>The constructor drops what is not valid, a table at a time.\<close>

definition CosemActivityCalendarObject_init ::
    "bytes \<Rightarrow> bytes \<Rightarrow> SeasonProfile list \<Rightarrow> WeekProfile list \<Rightarrow> DayProfile list
      \<Rightarrow> bytes \<Rightarrow> SeasonProfile list \<Rightarrow> WeekProfile list \<Rightarrow> DayProfile list \<Rightarrow> DateTime \<Rightarrow> AttributeAccessMode \<Rightarrow> u8
      \<Rightarrow> CosemActivityCalendarObject" where
  "CosemActivityCalendarObject_init logicalName nameActive seasonsActive weeksActive daysActive
       namePassive seasonsPassive weeksPassive daysPassive time passiveAccess version =
     (let daysActive = (if IsValidDayProfileTable daysActive then daysActive else []);
          weeksActive = (if IsValidWeekProfileTable weeksActive \<and> WeekProfileTableSatisfies weeksActive daysActive then weeksActive else []);
          seasonsActive = (if IsValidSeasonProfile seasonsActive \<and> SeasonProfileSatisfies seasonsActive weeksActive then seasonsActive else []);
          daysPassive = (if IsValidDayProfileTable daysPassive then daysPassive else []);
          weeksPassive = (if IsValidWeekProfileTable weeksPassive \<and> WeekProfileTableSatisfies weeksPassive daysPassive then weeksPassive else []);
          seasonsPassive = (if IsValidSeasonProfile seasonsPassive \<and> SeasonProfileSatisfies seasonsPassive weeksPassive
            then seasonsPassive else [])
      in \<lparr>calendar_descriptor = MakeDescriptor 20 (NormalizeVersion version 0) logicalName, calendarNameActive = nameActive,
          seasonProfileActive = seasonsActive, weekProfileTableActive = weeksActive, dayProfileTableActive = daysActive,
          calendarNamePassive = namePassive, seasonProfilePassive = seasonsPassive, weekProfileTablePassive = weeksPassive,
          dayProfileTablePassive = daysPassive, activatePassiveCalendarTime = time,
          calendar_rights = attribute_rights (map (\<lambda>i. (i, ReadOnly)) [1, 2, 3, 4, 5] @ map (\<lambda>i. (i, passiveAccess)) [6, 7, 8, 9, 10])\<rparr>)"

definition Calendar_ReadAttribute :: "u8 \<Rightarrow> CosemActivityCalendarObject \<Rightarrow> CosemStatus \<times> bytes" where
  "Calendar_ReadAttribute identifier x =
     (if identifier = 1 then (Ok, EncodeLogicalName (key_logicalName (descriptor_key (calendar_descriptor x))))
      else if identifier = 2 then (Ok, calendarNameActive x)
      else if identifier = 3 then (Ok, AppendSeasonProfileTable (seasonProfileActive x))
      else if identifier = 4 then (Ok, AppendWeekProfileTable (weekProfileTableActive x))
      else if identifier = 5 then (Ok, AppendDayProfileTable (dayProfileTableActive x))
      else if identifier = 6 then (Ok, calendarNamePassive x)
      else if identifier = 7 then (Ok, AppendSeasonProfileTable (seasonProfilePassive x))
      else if identifier = 8 then (Ok, AppendWeekProfileTable (weekProfileTablePassive x))
      else if identifier = 9 then (Ok, AppendDayProfileTable (dayProfileTablePassive x))
      else if identifier = 10 then (Ok, AppendDateTimeOctetString (activatePassiveCalendarTime x))
      else (AttributeNotFound, []))"

definition SetCalendarNamePassive :: "bytes \<Rightarrow> CosemActivityCalendarObject \<Rightarrow> CosemActivityCalendarObject" where
  "SetCalendarNamePassive value x = x\<lparr>calendarNamePassive := value\<rparr>"

definition SetSeasonProfilePassive :: "SeasonProfile list \<Rightarrow> CosemActivityCalendarObject \<Rightarrow> bool \<times> CosemActivityCalendarObject" where
  "SetSeasonProfilePassive value x =
     (if \<not> IsValidSeasonProfile value \<or> \<not> SeasonProfileSatisfies value (weekProfileTablePassive x) then (False, x)
      else (True, x\<lparr>seasonProfilePassive := value\<rparr>))"

definition SetWeekProfileTablePassive :: "WeekProfile list \<Rightarrow> CosemActivityCalendarObject \<Rightarrow> bool \<times> CosemActivityCalendarObject" where
  "SetWeekProfileTablePassive value x =
     (if \<not> IsValidWeekProfileTable value \<or> \<not> WeekProfileTableSatisfies value (dayProfileTablePassive x) then (False, x)
      else if \<not> SeasonProfileSatisfies (seasonProfilePassive x) value then (False, x)
      else (True, x\<lparr>weekProfileTablePassive := value\<rparr>))"

definition SetDayProfileTablePassive :: "DayProfile list \<Rightarrow> CosemActivityCalendarObject \<Rightarrow> bool \<times> CosemActivityCalendarObject" where
  "SetDayProfileTablePassive value x =
     (if \<not> IsValidDayProfileTable value then (False, x)
      else if \<not> WeekProfileTableSatisfies (weekProfileTablePassive x) value then (False, x)
      else (True, x\<lparr>dayProfileTablePassive := value\<rparr>))"

definition SetActivatePassiveCalendarTime :: "DateTime \<Rightarrow> CosemActivityCalendarObject \<Rightarrow> CosemActivityCalendarObject" where
  "SetActivatePassiveCalendarTime value x = x\<lparr>activatePassiveCalendarTime := value\<rparr>"

text \<open>A setter that refuses its value.\<close>

definition set_or_refuse :: "bool \<times> 'o \<Rightarrow> (CosemStatus \<times> 'o) decoded" where
  "set_or_refuse r = (case r of (ok, x) \<Rightarrow> Decoded (if ok then Ok else InvalidArgument, x))"

definition Calendar_WriteAttribute ::
    "nat \<Rightarrow> nat \<Rightarrow> nat \<Rightarrow> nat \<Rightarrow> u8 \<Rightarrow> bytes \<Rightarrow> CosemActivityCalendarObject
      \<Rightarrow> (CosemStatus \<times> CosemActivityCalendarObject) decoded" where
  "Calendar_WriteAttribute max_seasons max_weeks max_days max_actions identifier input x =
     (if 6 \<le> identifier \<and> identifier \<le> 10 then
        if \<not> IsAccessWritable (AttributeAccess identifier (calendar_rights x)) then Decoded (AccessDenied, x)
        else if identifier = 6 then Decoded (Ok, SetCalendarNamePassive input x)
        else if identifier = 7 then
          store_decoded x (DecodeSeasonProfilePayload max_seasons input) (\<lambda>v. set_or_refuse (SetSeasonProfilePassive v x))
        else if identifier = 8 then
          store_decoded x (DecodeWeekProfileTablePayload max_weeks input) (\<lambda>v. set_or_refuse (SetWeekProfileTablePassive v x))
        else if identifier = 9 then
          store_decoded x (DecodeDayProfileTablePayload max_days max_actions input) (\<lambda>v. set_or_refuse (SetDayProfileTablePassive v x))
        else (case DecodeDateTimeOctetString input of
            None \<Rightarrow> Decoded (InvalidArgument, x)
          | Some v \<Rightarrow> Decoded (Ok, SetActivatePassiveCalendarTime v x))
      else if 1 \<le> identifier \<and> identifier \<le> 5 then Decoded (AccessDenied, x)
      else Decoded (AttributeNotFound, x))"

definition Calendar_InvokeMethod ::
    "u8 \<Rightarrow> bytes \<Rightarrow> CosemActivityCalendarObject \<Rightarrow> (CosemStatus \<times> bytes) \<times> CosemActivityCalendarObject" where
  "Calendar_InvokeMethod identifier input x = (if identifier = 1 then ((UnsupportedFeature, []), x) else ((MethodNotFound, []), x))"

end
