(* ===== verification/Cosem_CalendarLaws.thy ===== *)
theory Cosem_CalendarLaws
  imports Cosem_Calendar Cosem_ObjectLaws
begin

text \<open>
  The tables of an activity calendar stay consistent whatever is written to them, and what is read of them can be
  written back. A register monitor keeps as many thresholds as actions, a script table has no identifier twice.
\<close>

subsection \<open>Vectors\<close>

locale coded_vector =
  fixes enc :: "'a \<Rightarrow> bytes" and rd :: "'a vector_reader" and fit :: "'a \<Rightarrow> bool"
  assumes vector_reads_back: "fit x \<Longrightarrow> rd (enc x @ rest) = Decoded (x, rest)"
begin

lemma each_back: "list_all fit xs \<Longrightarrow> read_each rd (length xs) (concat (map enc xs) @ rest) = Decoded (xs, rest)"
  by (induction xs) (simp_all add: vector_reads_back)

lemma vector_back:
  "list_all fit xs \<Longrightarrow> length xs \<le> max_size \<Longrightarrow> length xs < size_t_modulus \<Longrightarrow>
    read_vector max_size rd (AppendArrayHeader (length xs) @ concat (map enc xs) @ rest) = Decoded (xs, rest)"
  by (simp add: read_vector_def read_once_def read_back each_back)

end

sublocale coded \<subseteq> once: coded_vector enc "read_once rd" fit
  by unfold_locales (simp add: read_once_def reads_back)

lemma small_sizes [simp]: "2 < size_t_modulus" "3 < size_t_modulus" "4 < size_t_modulus" "6 < size_t_modulus" "8 < size_t_modulus"
  "12 < size_t_modulus"
  by (simp_all add: size_t_modulus_def)

lemma times_back [simp]: "valid_time t \<Longrightarrow> Time_TryFromBytes (Time_ToBytes t) = Some t"
  "valid_date_time d \<Longrightarrow> DateTime_TryFromBytes (DateTime_ToBytes d) = Some d"
  by (simp_all add: Time_bytes DateTime_bytes)

lemma buffer_back: "length bs < size_t_modulus \<Longrightarrow> ReadBufferOctetString (AppendOctetString bs @ rest) = Some (bs, rest)"
  by (simp add: ReadBufferOctetString_def AppendOctetString_def ReadAxdrLength_back ReadFixedBytes_def)

subsection \<open>Days, weeks and seasons on the wire\<close>

definition action_fit :: "DayProfileAction \<Rightarrow> bool" where
  "action_fit a \<longleftrightarrow> valid_time (day_startTime a) \<and> DayProfileAction_IsValid a \<and> length (day_scriptLogicalName a) = 6"

lemma length_Time_ToBytes [simp]: "length (Time_ToBytes t) = 4"
  by (simp add: Time_ToBytes_def)

interpretation day_action: coded AppendDayProfileAction DecodeDayProfileAction action_fit
proof
  fix a rest
  assume "action_fit a"
  then show "DecodeDayProfileAction (AppendDayProfileAction a @ rest) = Some (a, rest)"
    by (simp add: DecodeDayProfileAction_def AppendDayProfileAction_def action_fit_def read_back octets_back ReadLogicalNameValue_def
        SetStartTime_def DayProfileAction_IsValid_def DayProfileAction_init_def Let_def)
qed

definition day_fit :: "nat \<Rightarrow> DayProfile \<Rightarrow> bool" where
  "day_fit max_actions p \<longleftrightarrow> list_all action_fit (daySchedule p) \<and> DayProfile_IsValid p
     \<and> length (daySchedule p) \<le> max_actions \<and> length (daySchedule p) < size_t_modulus"

interpretation day: coded_vector AppendDayProfile "DecodeDayProfile max_actions" "day_fit max_actions" for max_actions
proof
  fix p rest
  assume "day_fit max_actions p"
  then show "DecodeDayProfile max_actions (AppendDayProfile p @ rest) = Decoded (p, rest)"
    using day_action.once.vector_back [of "daySchedule p" max_actions rest]
    by (simp add: DecodeDayProfile_def AppendDayProfile_def day_fit_def read_once_def read_back size_t_modulus_def SetDaySchedule_def
        DayProfile_IsValid_def)
qed

definition week_fit :: "WeekProfile \<Rightarrow> bool" where
  "week_fit w \<longleftrightarrow> length (week_name w) < size_t_modulus"

interpretation week: coded AppendWeekProfile DecodeWeekProfile week_fit
  by unfold_locales (simp add: DecodeWeekProfile_def AppendWeekProfile_def week_fit_def read_back buffer_back)

definition season_fit :: "SeasonProfile \<Rightarrow> bool" where
  "season_fit s \<longleftrightarrow> length (season_name s) < size_t_modulus \<and> length (season_weekName s) < size_t_modulus \<and> valid_date_time (season_start s)"

interpretation season: coded AppendSeasonProfile DecodeSeasonProfile season_fit
proof
  fix s rest
  assume "season_fit s"
  then show "DecodeSeasonProfile (AppendSeasonProfile s @ rest) = Some (s, rest)"
    by (simp add: DecodeSeasonProfile_def AppendSeasonProfile_def season_fit_def read_back buffer_back octets_back)
qed

subsection \<open>Consistency\<close>

definition tables_ok :: "SeasonProfile list \<Rightarrow> WeekProfile list \<Rightarrow> DayProfile list \<Rightarrow> bool" where
  "tables_ok seasons weeks days \<longleftrightarrow> IsValidSeasonProfile seasons \<and> IsValidWeekProfileTable weeks \<and> IsValidDayProfileTable days
     \<and> SeasonProfileSatisfies seasons weeks \<and> WeekProfileTableSatisfies weeks days"

definition calendar_ok :: "CosemActivityCalendarObject \<Rightarrow> bool" where
  "calendar_ok x \<longleftrightarrow> tables_ok (seasonProfileActive x) (weekProfileTableActive x) (dayProfileTableActive x)
     \<and> tables_ok (seasonProfilePassive x) (weekProfileTablePassive x) (dayProfileTablePassive x)"

text \<open>The calendars a program and its peers can make.\<close>

inductive calendar_run :: "CosemActivityCalendarObject \<Rightarrow> bool" where
  calendar_made: "calendar_run (CosemActivityCalendarObject_init n na sa wa da np sp wp dp t access version)"
| calendar_named: "calendar_run x \<Longrightarrow> calendar_run (SetCalendarNamePassive name x)"
| calendar_timed: "calendar_run x \<Longrightarrow> calendar_run (SetActivatePassiveCalendarTime t x)"
| calendar_seasons: "calendar_run x \<Longrightarrow> calendar_run (snd (SetSeasonProfilePassive seasons x))"
| calendar_weeks: "calendar_run x \<Longrightarrow> calendar_run (snd (SetWeekProfileTablePassive weeks x))"
| calendar_days: "calendar_run x \<Longrightarrow> calendar_run (snd (SetDayProfileTablePassive days x))"
| calendar_written: "calendar_run x \<Longrightarrow> Calendar_WriteAttribute ms mw md ma i input x = Decoded (s, y) \<Longrightarrow> calendar_run y"

lemma empty_tables [simp]: "IsValidSeasonProfile []" "IsValidWeekProfileTable []" "IsValidDayProfileTable []"
  "SeasonProfileSatisfies [] weeks" "WeekProfileTableSatisfies [] days"
  by (simp_all add: IsValidSeasonProfile_def IsValidWeekProfileTable_def IsValidDayProfileTable_def SeasonProfileSatisfies_def
      WeekProfileTableSatisfies_def)

lemma setters_ok:
  "calendar_ok x \<Longrightarrow> calendar_ok (SetCalendarNamePassive name x)" "calendar_ok x \<Longrightarrow> calendar_ok (SetActivatePassiveCalendarTime t x)"
  "calendar_ok x \<Longrightarrow> calendar_ok (snd (SetSeasonProfilePassive seasons x))"
  "calendar_ok x \<Longrightarrow> calendar_ok (snd (SetWeekProfileTablePassive weeks x))"
  "calendar_ok x \<Longrightarrow> calendar_ok (snd (SetDayProfileTablePassive days x))"
  by (simp_all add: calendar_ok_def tables_ok_def SetCalendarNamePassive_def SetActivatePassiveCalendarTime_def
      SetSeasonProfilePassive_def SetWeekProfileTablePassive_def SetDayProfileTablePassive_def)

lemma Calendar_WriteAttribute_ok:
  assumes "calendar_ok x" "Calendar_WriteAttribute ms mw md ma i input x = Decoded (s, y)"
  shows "calendar_ok y"
proof -
  have store: "calendar_ok y"
    if "store_decoded x r (\<lambda>v. set_or_refuse (f v x)) = Decoded (s, y)" "\<And>v. calendar_ok (snd (f v x))"
    for r :: "'a list decoded" and f :: "'a list \<Rightarrow> CosemActivityCalendarObject \<Rightarrow> bool \<times> CosemActivityCalendarObject"
    using that assms(1) by (cases r) (auto simp: store_decoded_def set_or_refuse_def split: prod.splits, metis snd_conv)
  show ?thesis
    using assms(2,1) setters_ok [OF assms(1)]
    by (auto simp: Calendar_WriteAttribute_def split: if_splits option.splits)
      (auto simp: store_decoded_def set_or_refuse_def split: decoded.splits prod.splits, (metis snd_conv)+)
qed

lemma calendar_run_ok: "calendar_run x \<Longrightarrow> calendar_ok x"
proof (induction rule: calendar_run.induct)
  case (calendar_made n na sa wa da np sp wp dp t access version)
  then show ?case by (simp add: calendar_ok_def tables_ok_def CosemActivityCalendarObject_init_def Let_def)
qed (auto intro: setters_ok Calendar_WriteAttribute_ok)

lemma ascending_successively: "ascending R xs = successively R xs"
  by (induction R xs rule: ascending.induct) auto

lemma TimeStrictlyLess_transp: "transp TimeStrictlyLess"
  by (rule transpI) (auto simp: TimeStrictlyLess_def split: if_splits)

lemma bytes_less_trans: "bytes_less a b \<Longrightarrow> bytes_less b c \<Longrightarrow> bytes_less a c"
proof (induction a b arbitrary: c rule: bytes_less.induct)
  case (1 p ps q qs)
  then show ?case by (cases c) (auto split: if_splits)
qed auto

text \<open>Seasons in the order of their start, weeks and days that exist once, schedules in the order of time.\<close>

definition starts_before :: "DateTime \<Rightarrow> DateTime \<Rightarrow> bool" where
  "starts_before d d' \<longleftrightarrow> bytes_less (DateTime_ToBytes d) (DateTime_ToBytes d')"

definition consistent :: "SeasonProfile list \<Rightarrow> WeekProfile list \<Rightarrow> DayProfile list \<Rightarrow> bool" where
  "consistent seasons weeks days \<longleftrightarrow> sorted_wrt starts_before (map season_start seasons) \<and> distinct (map season_name seasons)
     \<and> (\<forall>s \<in> set seasons. \<exists>!w. w \<in> set weeks \<and> week_name w = season_weekName s)
     \<and> (\<forall>w \<in> set weeks. \<forall>i \<in> {monday w, tuesday w, wednesday w, thursday w, friday w, saturday w, sunday w}.
          \<exists>!d. d \<in> set days \<and> dayId d = i)
     \<and> (\<forall>d \<in> set days. sorted_wrt TimeStrictlyLess (map day_startTime (daySchedule d))
          \<and> (\<forall>a \<in> set (daySchedule d). \<not> wildcard_time (day_startTime a)))"

lemma unique_by_name: "distinct (map f xs) \<Longrightarrow> x \<in> set xs \<Longrightarrow> \<exists>!y. y \<in> set xs \<and> f y = f x"
  by (auto simp: distinct_map dest: inj_onD)

lemma tables_ok_consistent:
  assumes "tables_ok seasons weeks days"
  shows "consistent seasons weeks days"
proof -
  have starts: "starts_before = (\<lambda>d d'. bytes_less (DateTime_ToBytes d) (DateTime_ToBytes d'))" by (simp add: fun_eq_iff starts_before_def)
  have "transp starts_before" by (rule transpI) (auto simp: starts_before_def intro: bytes_less_trans)
  then have "sorted_wrt starts_before (map season_start seasons)"
    using assms by (simp add: tables_ok_def IsValidSeasonProfile_def starts [symmetric] ascending_successively successively_conv_sorted_wrt)
  moreover have "\<exists>!w. w \<in> set weeks \<and> week_name w = season_weekName s" if "s \<in> set seasons" for s
  proof -
    from assms that obtain w where "w \<in> set weeks" "week_name w = season_weekName s"
      by (auto simp: tables_ok_def SeasonProfileSatisfies_def list_all_iff list_ex_iff)
    with assms unique_by_name [of week_name weeks w] show ?thesis by (simp add: tables_ok_def IsValidWeekProfileTable_def)
  qed
  moreover have "\<exists>!d. d \<in> set days \<and> dayId d = i"
    if "w \<in> set weeks" "i \<in> {monday w, tuesday w, wednesday w, thursday w, friday w, saturday w, sunday w}" for w i
  proof -
    have "\<forall>j \<in> set [monday w, tuesday w, wednesday w, thursday w, friday w, saturday w, sunday w]. \<exists>d \<in> set days. dayId d = j"
      using assms that(1) by (simp add: tables_ok_def WeekProfileTableSatisfies_def list_all_iff list_ex_iff)
    with that(2) obtain d where "d \<in> set days" "dayId d = i" by auto
    with assms unique_by_name [of dayId days d] show ?thesis by (simp add: tables_ok_def IsValidDayProfileTable_def)
  qed
  moreover have "\<forall>d \<in> set days. sorted_wrt TimeStrictlyLess (map day_startTime (daySchedule d))
      \<and> (\<forall>a \<in> set (daySchedule d). \<not> wildcard_time (day_startTime a))"
    using assms TimeStrictlyLess_transp by (auto simp: tables_ok_def IsValidDayProfileTable_def DayProfile_IsValid_def IsValidSchedule_def
        list_all_iff ascending_successively successively_conv_sorted_wrt DayProfileAction_IsValid_def)
  ultimately show ?thesis using assms by (simp add: consistent_def tables_ok_def IsValidSeasonProfile_def)
qed

text \<open>
  C38: The tables of an activity calendar are consistent, active and passive, whatever the constructor was given, whatever
  the setters were called with and whatever peers wrote in whatever order: seasons start one after the other, each names
  exactly one week of the week table, each day of a week is the identifier of exactly one day profile, and the actions of
  a day come one after the other at times without wildcards.
\<close>

theorem calendar_consistent:
  assumes "calendar_run x"
  shows "consistent (seasonProfileActive x) (weekProfileTableActive x) (dayProfileTableActive x)
    \<and> consistent (seasonProfilePassive x) (weekProfileTablePassive x) (dayProfileTablePassive x)"
  using calendar_run_ok [OF assms] by (simp add: calendar_ok_def tables_ok_consistent)

text \<open>A calendar with one season, whose week has the same day seven times, and an attempt to remove this day.\<close>

definition example_day :: DayProfile where
  "example_day = \<lparr>dayId = 1, daySchedule = [\<lparr>day_startTime = \<lparr>time_hour = 6, time_minute = 0, time_second = 0, time_hundredths = 0\<rparr>,
     day_scriptLogicalName = [0, 0, 10, 0, 100, 255], day_scriptSelector = 1\<rparr>]\<rparr>"

definition example_week :: WeekProfile where
  "example_week = \<lparr>week_name = [0x57], monday = 1, tuesday = 1, wednesday = 1, thursday = 1, friday = 1, saturday = 1, sunday = 1\<rparr>"

definition example_season :: SeasonProfile where
  "example_season = \<lparr>season_name = [0x53], season_start = DateTime_init, season_weekName = [0x57]\<rparr>"

definition example_calendar :: CosemActivityCalendarObject where
  "example_calendar = CosemActivityCalendarObject_init [0, 0, 13, 0, 0, 255] [] [] [] [] [] [example_season] [example_week] [example_day]
     DateTime_init ReadAndWrite 0"

lemma example_calendar_tables: "seasonProfilePassive example_calendar = [example_season]" "weekProfileTablePassive example_calendar = [example_week]"
  "dayProfileTablePassive example_calendar = [example_day]"
  by (simp_all add: example_calendar_def CosemActivityCalendarObject_init_def Let_def IsValidDayProfileTable_def DayProfile_IsValid_def
      IsValidSchedule_def DayProfileAction_IsValid_def wildcard_time_def example_day_def IsValidWeekProfileTable_def
      WeekProfileTableSatisfies_def example_week_def IsValidSeasonProfile_def SeasonProfileSatisfies_def example_season_def)

theorem calendar_consistent_witness:
  "consistent [example_season] [example_week] [example_day]
   \<and> Calendar_WriteAttribute 10 10 10 10 9 [0x01, 0] example_calendar = Decoded (InvalidArgument, example_calendar)"
proof -
  have "calendar_run example_calendar" by (simp add: example_calendar_def calendar_made)
  from calendar_consistent [OF this] have "consistent [example_season] [example_week] [example_day]"
    by (simp add: example_calendar_tables)
  moreover have "IsAccessWritable (AttributeAccess 9 (calendar_rights example_calendar))"
    by (simp add: example_calendar_def CosemActivityCalendarObject_init_def Let_def attribute_rights_def SetAttributeAccess_def
        CosemAccessRights_init_def AttributeAccess_def IsAccessWritable_def)
  moreover have "DecodeDayProfileTablePayload 10 10 [0x01, 0] = Decoded []"
    by (simp add: DecodeDayProfileTablePayload_def read_vector_def read_once_def read_header_def ReadAxdrLength_def ReadByte_def whole_value_def)
  ultimately show ?thesis
    by (simp add: Calendar_WriteAttribute_def store_decoded_def set_or_refuse_def SetDayProfileTablePassive_def example_calendar_tables)
      (simp add: WeekProfileTableSatisfies_def)
qed

subsection \<open>Writing back\<close>

definition calendar_fit :: "nat \<Rightarrow> nat \<Rightarrow> nat \<Rightarrow> nat \<Rightarrow> CosemActivityCalendarObject \<Rightarrow> bool" where
  "calendar_fit ms mw md ma x \<longleftrightarrow> list_all season_fit (seasonProfilePassive x) \<and> list_all week_fit (weekProfileTablePassive x)
     \<and> list_all (day_fit ma) (dayProfileTablePassive x) \<and> valid_date_time (activatePassiveCalendarTime x)
     \<and> length (seasonProfilePassive x) \<le> ms \<and> length (seasonProfilePassive x) < size_t_modulus
     \<and> length (weekProfileTablePassive x) \<le> mw \<and> length (weekProfileTablePassive x) < size_t_modulus
     \<and> length (dayProfileTablePassive x) \<le> md \<and> length (dayProfileTablePassive x) < size_t_modulus"

text \<open>Reading a passive attribute and writing the result changes nothing.\<close>

theorem calendar_written_back:
  assumes "calendar_run x" "calendar_fit ms mw md ma x" "i \<in> {6, 7, 8, 9, 10}"
    and "IsAccessWritable (AttributeAccess i (calendar_rights x))"
  shows "Calendar_WriteAttribute ms mw md ma i (snd (Calendar_ReadAttribute i x)) x = Decoded (Ok, x)"
proof -
  have ok: "tables_ok (seasonProfilePassive x) (weekProfileTablePassive x) (dayProfileTablePassive x)"
    using calendar_run_ok [OF assms(1)] by (simp add: calendar_ok_def)
  have same: "DecodeSeasonProfilePayload ms (AppendSeasonProfileTable (seasonProfilePassive x)) = Decoded (seasonProfilePassive x)"
    "DecodeWeekProfileTablePayload mw (AppendWeekProfileTable (weekProfileTablePassive x)) = Decoded (weekProfileTablePassive x)"
    "DecodeDayProfileTablePayload md ma (AppendDayProfileTable (dayProfileTablePassive x)) = Decoded (dayProfileTablePassive x)"
    using assms(2) season.once.vector_back [where rest = "[]"] week.once.vector_back [where rest = "[]"] day.vector_back [where rest = "[]"]
    by (simp_all add: calendar_fit_def DecodeSeasonProfilePayload_def AppendSeasonProfileTable_def DecodeWeekProfileTablePayload_def
        AppendWeekProfileTable_def DecodeDayProfileTablePayload_def AppendDayProfileTable_def whole_value_def)
  have "DecodeDateTimeOctetString (AppendDateTimeOctetString (activatePassiveCalendarTime x)) = Some (activatePassiveCalendarTime x)"
    using assms(2) by (simp add: calendar_fit_def DateTime_back)
  with assms(3,4) same ok show ?thesis
    by (auto simp: Calendar_WriteAttribute_def Calendar_ReadAttribute_def store_decoded_def set_or_refuse_def tables_ok_def
        SetCalendarNamePassive_def SetSeasonProfilePassive_def SetWeekProfileTablePassive_def SetDayProfileTablePassive_def
        SetActivatePassiveCalendarTime_def)
qed

subsection \<open>Monitors and scripts\<close>

inductive monitor_run :: "CosemRegisterMonitorObject \<Rightarrow> CosemRegisterMonitorObject \<Rightarrow> bool" for x where
  monitor_start: "monitor_run x x"
| monitor_thresholds: "monitor_run x y \<Longrightarrow> monitor_run x (snd (SetThresholds ts y))"
| monitor_value: "monitor_run x y \<Longrightarrow> monitor_run x (snd (SetMonitoredValue v y))"
| monitor_actions: "monitor_run x y \<Longrightarrow> monitor_run x (snd (SetActions as y))"
| monitor_written: "monitor_run x y \<Longrightarrow> RegisterMonitor_WriteAttribute m i input y = Decoded (s, z) \<Longrightarrow> monitor_run x z"

text \<open>
  A monitor has as many actions as thresholds, none of them empty, and a valid attribute index. The two lists can only be
  replaced one at a time by lists of the same length: their length is for ever the one of the constructor, and a
  monitor that was constructed without thresholds never gets any.
\<close>

theorem monitor_size_fixed:
  assumes "monitor_run (CosemRegisterMonitorObject_init name ts v as access version) x"
  shows "IsValidThresholds (monitor_thresholds x) \<and> MonitoredValue_IsValid (monitor_monitoredValue x)
    \<and> length (monitor_actions x) = length (monitor_thresholds x)
    \<and> length (monitor_thresholds x) = (if IsValidThresholds ts \<and> length ts = length as then length ts else 0)"
  using assms
proof (induction rule: monitor_run.induct)
  case monitor_start
  then show ?case
    by (auto simp: CosemRegisterMonitorObject_init_def Let_def ThresholdsMatchActions_def IsValidThresholds_def MonitoredValue_IsValid_def
        MonitoredValue_init_def)
next
  case (monitor_written y m i input s z)
  from monitor_written.hyps(2) monitor_written.IH show ?case
    by (auto simp: RegisterMonitor_WriteAttribute_def store_decoded_def ThresholdsMatchActions_def split: if_splits decoded.splits)
qed (auto simp: SetThresholds_def SetMonitoredValue_def SetActions_def ThresholdsMatchActions_def)

inductive table_run :: "CosemScriptTableObject \<Rightarrow> bool" where
  table_made: "table_run (CosemScriptTableObject_init name scripts access version)"
| table_set: "table_run x \<Longrightarrow> table_run (snd (SetScripts scripts x))"
| table_written: "table_run x \<Longrightarrow> ScriptTable_WriteAttribute ms ma i input x = Decoded (s, y) \<Longrightarrow> table_run y"

theorem scripts_valid: "table_run x \<Longrightarrow> IsValidScripts (table_scripts x)"
proof (induction rule: table_run.induct)
  case (table_made name scripts access version)
  then show ?case by (simp add: CosemScriptTableObject_init_def IsValidScripts_def)
next
  case (table_written x ms ma i input s y)
  from table_written.hyps(2) table_written.IH show ?case
    by (auto simp: ScriptTable_WriteAttribute_def store_decoded_def split: if_splits decoded.splits)
qed (simp add: SetScripts_def)

text \<open>Register activation is a class like the others.\<close>

interpretation RegisterActivation: cosem_class RegisterActivation_class id
  by unfold_locales (auto simp: RegisterActivation_class_def RegisterActivation_ReadAttribute_def RegisterActivation_WriteAttribute_def
      RegisterActivation_InvokeMethod_def split: if_splits)

end
