(* ===== verification/Spec2Isabelle.thy ===== *)
theory Spec2Isabelle
  imports Hdlc_Stream Hdlc_Segmentation Hdlc_Link Llc Wrapper Security_Hls Security_KeyWrap Association_Laws Server_Exchange Cosem_CalendarLaws
begin

text \<open>
  A verification library for the DLMS/COSEM stack under \<open>src/lib\<close>.

  \<^bold>\<open>The program.\<close> The stack carries xDLMS messages between a client and a meter. From the bottom up:
  HDLC frames on a byte stream (\<open>dlms-hdlc\<close>), or wrapper frames on TCP and UDP (\<open>dlms-wrapper\<close>);
  the LLC header in front of an APDU on the HDLC profile (\<open>dlms-llc\<close>); the APDUs themselves
  (\<open>dlms-apdu\<close>), in A-XDR and BER; their protection (\<open>dlms-security\<close>); the association of a client with a server
  (\<open>dlms-association\<close>); the services GET, SET and ACTION with their block transfers (\<open>dlms-xdlms\<close>); the server's
  dispatch (\<open>dlms-server\<close>); and the objects of the meter (\<open>dlms-cosem\<close>). A message is encoded by the APDU codecs
  into a writer over a buffer, gets an LLC header, is cut into segments, each segment is framed with check sequences,
  and the receiver undoes these steps in the opposite order; the HDLC session decides which frames may be
  sent and accepted. On the server the request processor collects blocks, calls the dispatcher, which asks the
  registry of the logical device for the object, whose access rights and guards decide.

  \<^bold>\<open>Theories and sources.\<close>
  \<^item> \<open>Prelude\<close>: words, byte lists, pointer-and-size arguments, the status-threading combinator, and
    the locales shared by the components: prefix codecs and incremental stream decoders.
  \<^item> \<open>Hdlc_Address\<close>, \<open>Hdlc_Control\<close>, \<open>Hdlc_Crc\<close>, \<open>Hdlc_Codec\<close>: \<open>hdlc_address.cpp\<close>,
    \<open>hdlc_control.cpp\<close>, \<open>hdlc_crc.cpp\<close>, \<open>hdlc_codec.cpp\<close>. Frames are encoded and decoded as inverses
    of each other, with the exact status for every refusal; bursts of up to sixteen bits,
    beginning at any bit, are detected.
  \<^item> \<open>Hdlc_Stream\<close>: \<open>hdlc_stream_decoder.cpp\<close>, with its buffer bound and delivery for every chunking.
  \<^item> \<open>Hdlc_Segmentation\<close>: \<open>hdlc_segmentation.cpp\<close>, segmenter and reassembler as inverses, and what the
    reassembly limit does and does not guarantee.
  \<^item> \<open>Hdlc_Session\<close>, \<open>Hdlc_Link\<close>: \<open>hdlc_session.cpp\<close>. The session object as a record, one definition per
    method; the reachable states as an inductive relation over all calls; handshake (with
    the sequence numbers reset by each of its calls), information exchange and acknowledgement between two sessions.
  \<^item> \<open>Llc\<close>: \<open>llc_header.cpp\<close>, \<open>llc_codec.cpp\<close>. \<open>Wrapper\<close>: \<open>wrapper_ports.cpp\<close>, \<open>wrapper_codec.cpp\<close>,
    \<open>wrapper_stream_decoder.cpp\<close>.
  \<^item> \<open>Apdu_IO\<close>: \<open>apdu_reader.cpp\<close>, \<open>apdu_writer.cpp\<close>, and the locales \<open>wire_codec\<close> and \<open>message_codec\<close>, which
    say when a reader and a writer are inverse on well-formed values; every message below is an
    interpretation of them.
  \<^item> \<open>Axdr\<close>, \<open>Ber\<close>, \<open>Dlms_Data\<close>: \<open>axdr.cpp\<close>, \<open>ber.cpp\<close>, \<open>data.cpp\<close>. COSEM data is related to an abstract
    data type of values; validation of nested TLVs to trees of bounded depth.
  \<^item> \<open>Apdu_Descriptor\<close>, \<open>Apdu_Initiate\<close>, \<open>Apdu_Get\<close>, \<open>Apdu_Set\<close>, \<open>Apdu_Action\<close>, \<open>Apdu_Xdlms\<close>: the files of the
    same names under \<open>dlms-apdu/src/apdu\<close>, every choice of every message, and the tagged
    structure \<open>XdlmsApdu\<close> as an implementation of the sum of the messages.
  \<^item> \<open>Apdu_Acse\<close>, \<open>Apdu_AcseLaws\<close>: \<open>acse.cpp\<close>, the four association messages and their round trips.
  \<^item> \<open>Security_Types\<close>, \<open>Security_Gcm\<close>, \<open>Security_Processor\<close>, \<open>Security_KeyWrap\<close>, \<open>Security_Hls\<close>: the files under
    \<open>dlms-security/src/security\<close>. Key and counter stores, what is given to AES-GCM, protection and unprotection of
    APDUs, key wrapping as a bijection, GMAC and the challenge transformations; along every run of a store no
    counter is sent twice, no nonce is used twice, and no counter is accepted twice.
  \<^item> \<open>Profile_Channel\<close>, \<open>Association_Types\<close>, \<open>Association_Client\<close>, \<open>Association_Server\<close>, \<open>Association_Laws\<close>:
    \<open>apdu_channel.hpp\<close> and the files under \<open>dlms-association/src/association\<close>. Client and server objects as records,
    one definition per method; the calls as a step relation with its invariant; the exchange between the two.
  \<^item> \<open>Xdlms_Types\<close>, \<open>Xdlms_Client\<close>, \<open>Xdlms_Server\<close>: \<open>xdlms_types.cpp\<close>, \<open>xdlms_trace.cpp\<close>, \<open>xdlms_client.cpp\<close>,
    \<open>xdlms_server.cpp\<close>. \<open>Xdlms_Laws\<close>: the server's block transfers as an invariant, and what it answers.
    \<open>Xdlms_Exchange\<close>, \<open>Xdlms_SetExchange\<close>: client and server together, with as many blocks as a value needs; when the
    client's loops end. Values in single messages are decoded and encoded again on their way (\<open>recoded\<close>), blocks are not.
  \<^item> \<open>Cosem_Model\<close>, \<open>Cosem_Laws\<close>: \<open>cosem_types.cpp\<close>, \<open>cosem_access.cpp\<close>, \<open>object_registry.cpp\<close>,
    \<open>logical_device.cpp\<close>; the registry refines a finite map.
  \<^item> \<open>Cosem_Time\<close>: \<open>types/date.cpp\<close>, \<open>types/time.cpp\<close>, \<open>types/date_time.cpp\<close>. \<open>Cosem_Coding\<close>, \<open>Cosem_CodingLaws\<close>: the
    reading and writing helpers at the head of \<open>simple_objects.cpp\<close>, and the object list of an association.
  \<^item> \<open>Cosem_Objects\<close>: data, register, extended register, demand register, disconnect control, clock and profile generic.
    \<open>Cosem_Association\<close>: association LN, SAP assignment and security setup, with \<open>certificate_store.cpp\<close>.
    \<open>Cosem_Scripts\<close>: register activation, register monitor and script table. \<open>Cosem_Calendar\<close>: activity calendar.
    All are classes of \<open>simple_objects.cpp\<close>, with their value types under \<open>types\<close>. \<open>Cosem_ObjectLaws\<close> and
    \<open>Cosem_CalendarLaws\<close>: a locale for the contract of a class, interpreted by each of them, and the
    invariants of the particular classes.
  \<^item> \<open>Server_Dispatch\<close>, \<open>Server_Laws\<close>, \<open>Server_Exchange\<close>: the files under \<open>dlms-server/src/server\<close>, access control of
    everything that arrives and of every value byte that is sent, and remote reading and writing of an attribute from the client's
    call to the object, refusals and unanswered requests included.
  \<^item> This theory: delivery of an APDU through LLC, segmentation, framing, stream decoding and
    reassembly, and of xDLMS messages through the wrapper.

  \<^bold>\<open>Conventions.\<close> Machine integers are words; sizes are natural numbers, with the arithmetic of
  \<open>std::size_t\<close> written out where it can wrap. A pair of pointer and size is a \<open>view\<close>, in which the
  null pointer keeps its size. A function with a status and an output parameter returns a sum:
  \<open>Inl\<close> the status unless it is \<open>Ok\<close>, \<open>Inr\<close> the output otherwise; where the object keeps state after a
  failure, the state is returned beside the status. Writers keep the bytes stored so far and the
  size of the buffer. Enumerations that decoders fill from any byte are bytes. Interfaces of the program (channels,
  strategies, security processors, trace sinks, certificate stores, COSEM objects) are records of functions on a
  world \<open>'e\<close>, which stands for all state that is not the object's own. Loops over
  input are recursive functions with a termination proof, and the stream decoders iterate at most
  once for each byte of the buffer, so no fuel is used; the loops of the client, which a peer controls, are partial
  functions into \<open>option\<close>, where \<open>None\<close> is a loop that never ends. The six rounds of key wrapping are counted by the code.

  \<^bold>\<open>Assumptions.\<close> Allocation succeeds: \<open>std::vector\<close> throws only where it is asked for more than its \<open>max_size\<close>, in
  the decoders of \<open>simple_objects.cpp\<close>, where the outcome \<open>Thrown\<close> and the bound are explicit; elsewhere
  \<open>reserve\<close> is taken to succeed. \<open>std::size_t\<close> has 64 bits. OpenSSL is a parameter: \<open>documented_gcm\<close> and
  \<open>documented_aes\<close> state what its documentation promises of AES-GCM and of AES, and both are shown to be satisfiable. A
  channel delivers when the request sent reaches the processor at its other end and the next receive returns the answer.
  The laws of the xDLMS services (\<open>Xdlms_Laws\<close> from the answers on, \<open>Xdlms_Exchange\<close>, \<open>Xdlms_SetExchange\<close>,
  \<open>Server_Laws\<close>, \<open>Server_Exchange\<close>) are proved for processors and clients without a security processor, and where a statement says
  so without trace sink and correlated channel; termination, the invariant of the block transfers and the definitions themselves have all three.

  \<^bold>\<open>Not modelled.\<close> Transports, the endpoint runtime, the client facade and the profile channels
  perform blocking I/O on sockets, serial ports and threads around the modelled operations. The C bindings wrap the modelled
  operations in handles. The remaining classes of \<open>simple_objects.cpp\<close> repeat the pattern of those modelled: a
  constructor that normalises its arguments, guarded readers, writers and methods.
\<close>

subsection \<open>An application protocol data unit over the HDLC profile\<close>

text \<open>Every segment of a payload fits a frame when the segment size leaves room for the largest header.\<close>

definition room_for_segments :: "HdlcCodecLimits \<Rightarrow> bool" where
  "room_for_segments limits \<longleftrightarrow> SegmentFieldSize limits + 15 \<le> kMaximumFormatFieldLength
     \<and> SegmentFieldSize limits + 17 \<le> EffectiveMaximumFrameSize limits"

lemma address_size: "address_inv a \<Longrightarrow> encodedSize a \<le> 4"
  by (auto simp: address_inv_def IsSupportedEncodedSize_def)

lemma segment_status:
  assumes "room_for_segments limits" "frame_inv f" "length (information f) \<le> SegmentFieldSize limits"
  shows "frame_status f limits = HdlcStatus.Ok"
proof -
  have "header_size f \<le> 11"
    using assms(2) address_size [of "destination f"] address_size [of "source f"]
    by (simp add: frame_inv_def header_size_def)
  with assms(1,3) show ?thesis
    by (auto simp: frame_status_def room_for_segments_def format_length_def as_frame_def header_size_def
        EffectiveMaximumInformationFieldSize_def SegmentFieldSize_def Let_def split: if_splits)
qed

text \<open>
  C1: Delivery over the HDLC profile, across the LLC, segmentation, frame codec, stream decoder and
  reassembly components. A request APDU that the LLC encodes is split into segments, each of
  which the codec encodes; however the concatenated bytes are cut into chunks on the way, the
  stream decoder at the other end delivers exactly the segments, the reassembler completes one
  frame from them, and the LLC decoder gives the APDU back from its information field.
\<close>

theorem hdlc_request_delivery:
  assumes "EncodeDlmsRequest (View apdu) = Inr lpdu"
    and "address_inv (frameDestination base)" "address_inv (frameSource base)" "control_inv (frameControl base)"
    and "room_for_segments limits" "streamLimits options = limits"
    and "length lpdu \<le> EffectiveMaximumReassembledInformationSize limits'"
  shows "\<exists>segments wires. SegmentInformation limits base (View lpdu) = Inr segments
    \<and> map (\<lambda>f. EncodeFrame (as_frame f) limits) segments = map Inr wires
    \<and> (\<forall>chunks. concat chunks = concat wires \<longrightarrow>
        (\<exists>statuses. PushAll (HdlcStreamDecoder_init options) chunks = (statuses, segments, HdlcStreamDecoder_init options)
          \<and> set statuses \<subseteq> {HdlcStatus.NeedMoreData, HdlcStatus.Ok}))
    \<and> (\<exists>statuses frame. PushFrames (HdlcReassembler_init limits') segments = (statuses, [frame], HdlcReassembler_init limits')
        \<and> last statuses = HdlcStatus.Ok
        \<and> DecodeLpdu (View (information frame)) False = Inr \<lparr>lpduHeader = MakeLlcHeader ClientToServer, lsdu = apdu\<rparr>)"
proof -
  obtain init l where seg: "SegmentInformation limits base (View lpdu) =
      Inr (map (MakeFrameBuffer base True) init @ [MakeFrameBuffer base False l])" (is "_ = Inr ?fs")
    and len: "\<forall>x \<in> set (init @ [l]). length x \<le> SegmentFieldSize limits"
    by (rule SegmentInformation_View)
  have ok: "frame_inv f \<and> frame_status f limits = HdlcStatus.Ok" if "f \<in> set ?fs" for f
    using that assms(2-5) len by (auto simp: frame_inv_def MakeFrameBuffer_def intro!: segment_status)
  then have enc: "map (\<lambda>f. EncodeFrame (as_frame f) limits) ?fs = map Inr (map frame_wire ?fs)"
    by (simp add: EncodeFrame_frame_wire)
  have push: "\<exists>statuses. PushAll (HdlcStreamDecoder_init options) chunks = (statuses, ?fs, HdlcStreamDecoder_init options)
      \<and> set statuses \<subseteq> {HdlcStatus.NeedMoreData, HdlcStatus.Ok}" if "concat chunks = concat (map frame_wire ?fs)" for chunks
    using PushAll_items [of "map (Pair []) ?fs" options chunks] ok assms(6) that by (simp add: comp_def)
  have "DecodeLpdu (View lpdu) False = Inr \<lparr>lpduHeader = MakeLlcHeader ClientToServer, lsdu = apdu\<rparr>"
    using assms(1) unfolding EncodeDlmsRequest_def EncodeLpdu_Inr DecodeLpdu_Inr ValidateLlcHeader_Ok by simp
  then have "\<exists>statuses frame. PushFrames (HdlcReassembler_init limits') ?fs = (statuses, [frame], HdlcReassembler_init limits')
        \<and> last statuses = HdlcStatus.Ok
        \<and> DecodeLpdu (View (information frame)) False = Inr \<lparr>lpduHeader = MakeLlcHeader ClientToServer, lsdu = apdu\<rparr>"
    using reassemble_segments [OF seg assms(7)] by (simp add: MakeFrameBuffer_def)
  with seg enc push show ?thesis by blast
qed

theorem hdlc_request_delivery_witness:
  "\<exists>segments wires. SegmentInformation DefaultHdlcCodecLimits (as_frame example_frame) (View [0xe6, 0xe6, 0, 0xc0]) = Inr segments
    \<and> map (\<lambda>f. EncodeFrame (as_frame f) DefaultHdlcCodecLimits) segments = map Inr wires
    \<and> (\<forall>chunks. concat chunks = concat wires \<longrightarrow>
        (\<exists>statuses. PushAll (HdlcStreamDecoder_init \<lparr>streamLimits = DefaultHdlcCodecLimits, noisePolicy = ReportError\<rparr>) chunks
          = (statuses, segments, HdlcStreamDecoder_init \<lparr>streamLimits = DefaultHdlcCodecLimits, noisePolicy = ReportError\<rparr>)
          \<and> set statuses \<subseteq> {HdlcStatus.NeedMoreData, HdlcStatus.Ok}))
    \<and> (\<exists>statuses frame. PushFrames (HdlcReassembler_init DefaultHdlcCodecLimits) segments
          = (statuses, [frame], HdlcReassembler_init DefaultHdlcCodecLimits)
        \<and> last statuses = HdlcStatus.Ok
        \<and> DecodeLpdu (View (information frame)) False = Inr \<lparr>lpduHeader = MakeLlcHeader ClientToServer, lsdu = [0xc0]\<rparr>)"
proof (rule hdlc_request_delivery)
  show "EncodeDlmsRequest (View [0xc0]) = Inr [0xe6, 0xe6, 0, 0xc0]"
    unfolding EncodeDlmsRequest_def EncodeLpdu_Inr
    by (simp add: HasRepresentableLpduSize_def size_t_modulus_def llc_consts IsKnownDlmsLlcHeader_def IsKnownSourceLsap_def)
  show "address_inv (frameDestination (as_frame example_frame))" "address_inv (frameSource (as_frame example_frame))"
    "control_inv (frameControl (as_frame example_frame))"
    using example_frame_facts(1) by (simp_all add: frame_inv_def as_frame_def)
  show "room_for_segments DefaultHdlcCodecLimits"
    by (simp add: room_for_segments_def SegmentFieldSize_def DefaultHdlcCodecLimits_def EffectiveMaximumFrameSize_def
        kMaximumFormatFieldLength_def)
qed (simp_all add: DefaultHdlcCodecLimits_def EffectiveMaximumReassembledInformationSize_def)

subsection \<open>xDLMS messages over the TCP profile\<close>

text \<open>
  C2: Delivery over the TCP profile, across the APDU codecs, the wrapper codec and the wrapper stream
  decoder. A sequence of well-formed xDLMS messages, of at most 2048 bytes each, is encoded and
  wrapped without error between two ports other than the reserved one; however the bytes are cut
  into chunks on the way, the stream decoder at the other end delivers one frame for each
  message, and decoding its data gives the structure of the message that was sent, in order.
\<close>

theorem xdlms_over_wrapper:
  assumes "\<forall>m \<in> set ms. message_wf m \<and> length (message_bytes m) \<le> 2048" "src \<noteq> kNoStation" "dst \<noteq> kNoStation"
  shows "\<exists>apdus wires. map (\<lambda>m. EncodeXdlmsApdu (apdu_of m)) ms = map Inr apdus
    \<and> map (\<lambda>apdu. EncodeWpdu \<lparr>frameSourcePort = src, frameDestinationPort = dst, frameData = View apdu\<rparr>
         DefaultWrapperCodecLimits) apdus = map Inr wires
    \<and> (\<forall>chunks. concat chunks = concat wires \<longrightarrow>
        (\<exists>statuses frames. WrapperPushAll (WrapperStreamDecoder_init DefaultWrapperCodecLimits) chunks
            = (statuses, frames, WrapperStreamDecoder_init DefaultWrapperCodecLimits)
          \<and> set statuses \<subseteq> {WrapperStatus.NeedMoreData, WrapperStatus.Ok}
          \<and> map (\<lambda>f. DecodeXdlmsApdu (View (wrapperData f))) frames = map (\<lambda>m. Inr (apdu_of m)) ms))"
proof -
  let ?frame = "\<lambda>m. \<lparr>wrapperSourcePort = src, wrapperDestinationPort = dst, wrapperData = message_bytes m\<rparr>"
  have ok: "wpdu_ok DefaultWrapperCodecLimits (?frame m)" if "m \<in> set ms" for m
    using assms that by (auto simp: wpdu_ok_def DefaultWrapperCodecLimits_def kMaximumWrapperDataLength_def
        kMaximumWrapperFrameLength_def kWrapperHeaderSize_def dest!: bspec)
  have wire: "EncodeWpdu \<lparr>frameSourcePort = src, frameDestinationPort = dst, frameData = View (message_bytes m)\<rparr>
      DefaultWrapperCodecLimits = Inr (wpdu_wire (?frame m))" if "m \<in> set ms" for m
    using EncodeWpdu_Inr [of "?frame m"] ok [OF that] message_nonempty [of m] by (simp add: as_wpdu_def view_of_def)
  have "\<exists>statuses frames. WrapperPushAll (WrapperStreamDecoder_init DefaultWrapperCodecLimits) chunks
      = (statuses, frames, WrapperStreamDecoder_init DefaultWrapperCodecLimits)
    \<and> set statuses \<subseteq> {WrapperStatus.NeedMoreData, WrapperStatus.Ok}
    \<and> map (\<lambda>f. DecodeXdlmsApdu (View (wrapperData f))) frames = map (\<lambda>m. Inr (apdu_of m)) ms"
    if chunks: "concat chunks = concat (map (\<lambda>m. wpdu_wire (?frame m)) ms)" for chunks
  proof -
    have "map (\<lambda>f. DecodeXdlmsApdu (View (wrapperData f))) (map ?frame ms) = map (\<lambda>m. Inr (apdu_of m)) ms"
      using assms(1) by (simp add: DecodeXdlmsApdu_message)
    with WrapperPushAll_wires [of "map ?frame ms" DefaultWrapperCodecLimits chunks] ok chunks show ?thesis
      by (fastforce simp: comp_def)
  qed
  moreover have "map (\<lambda>m. EncodeXdlmsApdu (apdu_of m)) ms = map Inr (map message_bytes ms)"
    using assms(1) by (simp add: EncodeXdlmsApdu_message)
  moreover have "map (\<lambda>apdu. EncodeWpdu \<lparr>frameSourcePort = src, frameDestinationPort = dst, frameData = View apdu\<rparr>
      DefaultWrapperCodecLimits) (map message_bytes ms) = map Inr (map (\<lambda>m. wpdu_wire (?frame m)) ms)"
    using wire by simp
  ultimately show ?thesis by blast
qed

theorem xdlms_over_wrapper_witness:
  "\<exists>apdus wires. map (\<lambda>m. EncodeXdlmsApdu (apdu_of m)) [CipheredM 0xc8 [7]] = map Inr apdus
    \<and> map (\<lambda>apdu. EncodeWpdu \<lparr>frameSourcePort = 16, frameDestinationPort = 1, frameData = View apdu\<rparr>
         DefaultWrapperCodecLimits) apdus = map Inr wires
    \<and> (\<forall>chunks. concat chunks = concat wires \<longrightarrow>
        (\<exists>statuses frames. WrapperPushAll (WrapperStreamDecoder_init DefaultWrapperCodecLimits) chunks
            = (statuses, frames, WrapperStreamDecoder_init DefaultWrapperCodecLimits)
          \<and> set statuses \<subseteq> {WrapperStatus.NeedMoreData, WrapperStatus.Ok}
          \<and> map (\<lambda>f. DecodeXdlmsApdu (View (wrapperData f))) frames = map (\<lambda>m. Inr (apdu_of m)) [CipheredM 0xc8 [7]]))"
  by (rule xdlms_over_wrapper)
     (simp_all add: kNoStation_def IsCipheredTag_def IsServiceSpecificCipheredTag_def serviceSpecificTags_def)

end
